(* ===== verification/Prelude.thy ===== *)
theory Prelude
  imports Main "HOL-Library.Sublist" "HOL-Library.State_Monad" "HOL-Library.Word"
begin

text \<open>
  What every component shares: the Go standard-library string operations the sources use
  (packages \<^verbatim>\<open>strings\<close> and \<^verbatim>\<open>strconv\<close>), decimal printing and parsing, the three-valued
  attribute values of the Terraform framework, diagnostics, and the error-passing
  sequencing of state-monad actions that stands for Go's \<^verbatim>\<open>if err != nil { return }\<close>.

  A Go string is a byte sequence; here it is a \<open>string\<close> (a list of 8-bit characters).
\<close>

named_theorems go_string "rewriting of the Go string operations"
named_theorems run_simps "running state-monad actions"

section \<open>Package strings\<close>

text \<open>\<^verbatim>\<open>strings.HasPrefix\<close>, \<^verbatim>\<open>strings.HasSuffix\<close> and \<^verbatim>\<open>strings.Contains\<close> are the library's
  \<open>prefix\<close>, \<open>suffix\<close> and \<open>sublist\<close>, with Go's argument order.\<close>

abbreviation has_prefix :: "string \<Rightarrow> string \<Rightarrow> bool" where
  "has_prefix s p \<equiv> prefix p s"

abbreviation has_suffix :: "string \<Rightarrow> string \<Rightarrow> bool" where
  "has_suffix s p \<equiv> suffix p s"

abbreviation str_contains :: "string \<Rightarrow> string \<Rightarrow> bool" where
  "str_contains s sub \<equiv> sublist sub s"

definition trim_prefix :: "string \<Rightarrow> string \<Rightarrow> string" where
  "trim_prefix s p = (if has_prefix s p then drop (length p) s else s)"

definition trim_suffix :: "string \<Rightarrow> string \<Rightarrow> string" where
  "trim_suffix s p = (if has_suffix s p then take (length s - length p) s else s)"

text \<open>\<^verbatim>\<open>strings.Index\<close>: the first position of \<open>sub\<close> in \<open>s\<close>; \<open>None\<close> is Go's \<^verbatim>\<open>-1\<close>.\<close>

fun str_index :: "string \<Rightarrow> string \<Rightarrow> nat option" where
  "str_index [] sub = (if sub = [] then Some 0 else None)"
| "str_index (c # cs) sub =
     (if prefix sub (c # cs) then Some 0 else map_option Suc (str_index cs sub))"

text \<open>\<^verbatim>\<open>strings.Split(s, sep)\<close> for a one-byte separator: always at least one piece.\<close>

fun split_on :: "char \<Rightarrow> string \<Rightarrow> string list" where
  "split_on c [] = [[]]"
| "split_on c (x # xs) =
     (if x = c then [] # split_on c xs
      else (case split_on c xs of [] \<Rightarrow> [[x]] | y # ys \<Rightarrow> (x # y) # ys))"

text \<open>\<^verbatim>\<open>strings.Join\<close>.\<close>

fun str_join :: "string list \<Rightarrow> string \<Rightarrow> string" where
  "str_join [] sep = []"
| "str_join [x] sep = x"
| "str_join (x # y # ys) sep = x @ sep @ str_join (y # ys) sep"

text \<open>\<^verbatim>\<open>strings.ReplaceAll(s, old, new)\<close> for a one-byte \<open>old\<close>.\<close>

definition replace_char :: "char \<Rightarrow> string \<Rightarrow> string \<Rightarrow> string" where
  "replace_char c new s = concat (map (\<lambda>x. if x = c then new else [x]) s)"

text \<open>The ASCII white space of \<^verbatim>\<open>strings.TrimSpace\<close> and \<^verbatim>\<open>strings.Fields\<close>: tab, newline, vertical
  tab, form feed, carriage return and blank.\<close>

definition is_space :: "char \<Rightarrow> bool" where
  "is_space c = (c \<in> {CHR 0x09, CHR 0x0A, CHR 0x0B, CHR 0x0C, CHR 0x0D, CHR '' ''})"

definition trim_right_by :: "(char \<Rightarrow> bool) \<Rightarrow> string \<Rightarrow> string" where
  "trim_right_by P s = rev (dropWhile P (rev s))"

definition trim_space :: "string \<Rightarrow> string" where
  "trim_space s = trim_right_by is_space (dropWhile is_space s)"

text \<open>\<^verbatim>\<open>strings.Fields\<close>: maximal runs of non-space characters.\<close>

fun str_fields_acc :: "string \<Rightarrow> string \<Rightarrow> string list" where
  "str_fields_acc acc [] = (if acc = [] then [] else [rev acc])"
| "str_fields_acc acc (c # cs) =
     (if is_space c then (if acc = [] then str_fields_acc [] cs else rev acc # str_fields_acc [] cs)
      else str_fields_acc (c # acc) cs)"

definition str_fields :: "string \<Rightarrow> string list" where
  "str_fields s = str_fields_acc [] s"

text \<open>\<^verbatim>\<open>strings.Cut(s, sep)\<close> for a one-byte separator.\<close>

fun str_cut :: "string \<Rightarrow> char \<Rightarrow> (string \<times> string) option" where
  "str_cut [] c = None"
| "str_cut (x # xs) c =
     (if x = c then Some ([], xs)
      else (case str_cut xs c of None \<Rightarrow> None | Some (a, b) \<Rightarrow> Some (x # a, b)))"

subsection \<open>Laws\<close>

lemma split_on_nonempty [simp]: "split_on c s \<noteq> []"
  by (induction s) (auto split: list.splits)

lemma join_split_on [go_string, simp]: "str_join (split_on c s) [c] = s"
proof (induction s)
  case (Cons x xs)
  obtain y ys where "split_on c xs = y # ys"
    using split_on_nonempty by (metis list.exhaust)
  with Cons show ?case by (cases ys) auto
qed simp

lemma split_on_no_sep: "c \<notin> set s \<Longrightarrow> split_on c s = [s]"
  by (induction s) auto

lemma split_on_app_sep: "c \<notin> set a \<Longrightarrow> split_on c (a @ c # b) = a # split_on c b"
  by (induction a) auto

lemma split_on_join:
  "xs \<noteq> [] \<Longrightarrow> \<forall>x \<in> set xs. c \<notin> set x \<Longrightarrow> split_on c (str_join xs [c]) = xs"
  by (induction xs "[c]" rule: str_join.induct) (auto simp: split_on_no_sep split_on_app_sep)

lemma split_on_pieces: "x \<in> set (split_on c s) \<Longrightarrow> c \<notin> set x"
  by (induction s arbitrary: x) (auto split: if_splits list.splits)

lemma str_index_Some:
  "str_index s sub = Some i \<Longrightarrow> i + length sub \<le> length s \<and> prefix sub (drop i s)"
  by (induction s arbitrary: i) (auto split: if_splits dest: prefix_length_le)

lemma str_index_None_iff: "str_index s sub = None \<longleftrightarrow> \<not> sublist sub s"
  by (induction s) (auto simp: sublist_Cons_right)

lemma str_cut_Some:
  "str_cut s c = Some (a, b) \<Longrightarrow> s = a @ c # b \<and> c \<notin> set a"
  by (induction s arbitrary: a b) (auto split: if_splits option.splits)

lemma str_cut_app: "c \<notin> set a \<Longrightarrow> str_cut (a @ c # b) c = Some (a, b)"
  by (induction a) auto

lemma str_cut_None: "str_cut s c = None \<longleftrightarrow> c \<notin> set s"
  by (induction s) (auto split: option.splits)

lemma trim_space_id:
  assumes "s = [] \<or> (\<not> is_space (hd s) \<and> \<not> is_space (last s))"
  shows "trim_space s = s"
proof (cases s)
  case (Cons x xs)
  with assms have "\<not> is_space x" and "rev s = last s # tl (rev s)" and "\<not> is_space (last s)"
    by (auto simp: hd_rev [symmetric])
  then have "dropWhile is_space s = s" and "dropWhile is_space (rev s) = rev s"
    using Cons by (simp, metis dropWhile.simps(2))
  then show ?thesis by (simp add: trim_space_def trim_right_by_def)
qed (simp add: trim_space_def trim_right_by_def)

lemma trim_suffix_app [simp]: "trim_suffix (s @ p) p = s"
  by (simp add: trim_suffix_def suffix_def)

lemma trim_prefix_app [simp]: "trim_prefix (p @ s) p = s"
  by (simp add: trim_prefix_def)

lemma set_trim_space: "set (trim_space s) \<subseteq> set s"
  by (auto simp: trim_space_def trim_right_by_def dest!: set_dropWhileD)

section \<open>Package strconv\<close>

definition digit_char :: "nat \<Rightarrow> char" where
  "digit_char d = char_of (48 + d)"

definition digit_val :: "char \<Rightarrow> nat option" where
  "digit_val c = (let n = of_char c :: nat in if 48 \<le> n \<and> n \<le> 57 then Some (n - 48) else None)"

fun dec_of_nat :: "nat \<Rightarrow> string" where
  "dec_of_nat n =
     (if n < 10 then [digit_char n] else dec_of_nat (n div 10) @ [digit_char (n mod 10)])"

declare dec_of_nat.simps [simp del]

text \<open>\<^verbatim>\<open>strconv.Itoa\<close>, \<^verbatim>\<open>strconv.FormatInt(n, 10)\<close> and \<^verbatim>\<open>%d\<close>.\<close>

definition itoa :: "int \<Rightarrow> string" where
  "itoa i = (if i < 0 then ''-'' @ dec_of_nat (nat (- i)) else dec_of_nat (nat i))"

fun parse_digits :: "nat \<Rightarrow> string \<Rightarrow> nat option" where
  "parse_digits acc [] = Some acc"
| "parse_digits acc (c # cs) =
     (case digit_val c of None \<Rightarrow> None | Some d \<Rightarrow> parse_digits (10 * acc + d) cs)"

definition parse_nat :: "string \<Rightarrow> nat option" where
  "parse_nat s = (if s = [] then None else parse_digits 0 s)"

text \<open>\<^verbatim>\<open>strconv.ParseUint(s, 10, 64)\<close>: \<open>None\<close> is a syntax or a range error.\<close>

definition parse_uint64 :: "string \<Rightarrow> 64 word option" where
  "parse_uint64 s =
     (case parse_nat s of
        None \<Rightarrow> None
      | Some n \<Rightarrow> if n < 2 ^ 64 then Some (word_of_nat n) else None)"

text \<open>\<^verbatim>\<open>strconv.Atoi\<close> / \<^verbatim>\<open>strconv.ParseInt(s, 10, 64)\<close> on a 64-bit platform: an optional sign, digits,
  and the range of \<^verbatim>\<open>int64\<close>.\<close>

definition atoi :: "string \<Rightarrow> int option" where
  "atoi s =
     (let (neg, ds) =
        (case s of
           [] \<Rightarrow> (False, s)
         | c # cs \<Rightarrow> if c = CHR ''-'' then (True, cs) else if c = CHR ''+'' then (False, cs) else (False, s))
      in case parse_nat ds of
           None \<Rightarrow> None
         | Some n \<Rightarrow>
             if neg then (if n \<le> 2 ^ 63 then Some (- int n) else None)
             else (if n < 2 ^ 63 then Some (int n) else None))"

lemma digit_val_char: "d < 10 \<Longrightarrow> digit_val (digit_char d) = Some d"
  by (simp add: digit_val_def digit_char_def)

lemma parse_digits_append:
  "parse_digits a (xs @ ys) = (case parse_digits a xs of None \<Rightarrow> None | Some b \<Rightarrow> parse_digits b ys)"
  by (induction xs arbitrary: a) (auto split: option.splits)

lemma parse_digits_dec_of_nat: "parse_digits 0 (dec_of_nat n) = Some n"
proof (induction n rule: dec_of_nat.induct)
  case (1 n)
  show ?case
  proof (cases "n < 10")
    case True
    then show ?thesis by (subst dec_of_nat.simps) (simp add: digit_val_char)
  next
    case False
    with 1 show ?thesis
      by (subst dec_of_nat.simps) (simp add: parse_digits_append digit_val_char)
  qed
qed

lemma dec_of_nat_nonempty [simp]: "dec_of_nat n \<noteq> []"
  by (subst dec_of_nat.simps) simp

lemma parse_nat_dec [simp]: "parse_nat (dec_of_nat n) = Some n"
  by (simp add: parse_nat_def parse_digits_dec_of_nat)

lemma dec_of_nat_inj: "dec_of_nat m = dec_of_nat n \<longleftrightarrow> m = n"
  by (metis option.inject parse_nat_dec)

definition is_digit :: "char \<Rightarrow> bool" where
  "is_digit c = (digit_val c \<noteq> None)"

lemma set_dec_of_nat: "c \<in> set (dec_of_nat n) \<Longrightarrow> is_digit c"
proof (induction n rule: dec_of_nat.induct)
  case (1 n)
  then show ?case
    by (subst (asm) (2) dec_of_nat.simps)
      (auto simp: is_digit_def digit_val_char split: if_splits)
qed

lemma is_digit_code:
  "is_digit c \<longleftrightarrow> 48 \<le> (of_char c :: nat) \<and> (of_char c :: nat) \<le> 57"
  by (simp add: is_digit_def digit_val_def Let_def)

lemma is_digit_not_ws: "is_digit c \<Longrightarrow> \<not> is_space c"
  by (auto simp: is_digit_code is_space_def)

lemma dec_of_nat_hd: "hd (dec_of_nat n) \<in> set (dec_of_nat n)"
  by simp

lemma atoi_dec [simp]: "n < 2 ^ 63 \<Longrightarrow> atoi (dec_of_nat n) = Some (int n)"
proof -
  assume n: "n < 2 ^ 63"
  obtain c cs where cs: "dec_of_nat n = c # cs" by (meson dec_of_nat_nonempty list.exhaust)
  then have "is_digit c" using set_dec_of_nat [of c n] by simp
  then have "c \<noteq> CHR ''-''" "c \<noteq> CHR ''+''" by (auto simp: is_digit_code)
  moreover have "parse_nat (c # cs) = Some n" using parse_nat_dec [of n] cs by simp
  ultimately show ?thesis using n by (simp add: atoi_def cs)
qed

lemma atoi_itoa:
  assumes "- (2 ^ 63) \<le> i" and "i < 2 ^ 63"
  shows "atoi (itoa i) = Some i"
proof (cases "i < 0")
  case True
  with assms show ?thesis by (simp add: itoa_def atoi_def nat_le_iff)
next
  case False
  with assms have "nat i < 2 ^ 63" by (simp add: nat_less_iff)
  with False show ?thesis by (simp add: itoa_def)
qed

lemma parse_uint64_dec: "n < 2 ^ 64 \<Longrightarrow> parse_uint64 (dec_of_nat n) = Some (word_of_nat n)"
  by (simp add: parse_uint64_def)

section \<open>Framework attribute values\<close>

text \<open>An attribute of the Terraform plugin framework is null, unknown or known;
  \<^verbatim>\<open>ValueString()\<close> and its kin give the zero value unless it is known.\<close>

datatype 'a tfval = TNull | TUnknown | TKnown 'a

fun tf_value :: "'a \<Rightarrow> 'a tfval \<Rightarrow> 'a" where
  "tf_value z (TKnown x) = x"
| "tf_value z _ = z"

abbreviation tf_string :: "string tfval \<Rightarrow> string" where
  "tf_string \<equiv> tf_value []"

abbreviation tf_int :: "int tfval \<Rightarrow> int" where
  "tf_int \<equiv> tf_value 0"

text \<open>\<^verbatim>\<open>!v.IsNull() && !v.IsUnknown()\<close>.\<close>

fun is_known :: "'a tfval \<Rightarrow> bool" where
  "is_known (TKnown x) = True"
| "is_known _ = False"

lemma is_known_iff: "is_known v \<longleftrightarrow> (\<exists>x. v = TKnown x)"
  by (cases v) auto

section \<open>Actions that may fail\<close>

text \<open>
  An action of type \<open>('w, 'e + 'a) state\<close> runs against the target environment \<open>'w\<close> and
  either fails with an error or returns a value. \<open>bindE\<close> is a call followed by Go's
  \<^verbatim>\<open>if err != nil { return err }\<close>; \<open>whenE\<close> a guarded step, \<open>forE\<close> a loop that stops at its
  first error and \<open>seqE\<close> a block of such steps.
\<close>

abbreviation okE :: "'a \<Rightarrow> ('w, 'e + 'a) state" where
  "okE x \<equiv> State_Monad.return (Inr x)"

abbreviation failE :: "'e \<Rightarrow> ('w, 'e + 'a) state" where
  "failE e \<equiv> State_Monad.return (Inl e)"

definition bindE :: "('w, 'e + 'a) state \<Rightarrow> ('a \<Rightarrow> ('w, 'e + 'b) state) \<Rightarrow> ('w, 'e + 'b) state" where
  "bindE m f = do { r \<leftarrow> m; case r of Inl e \<Rightarrow> failE e | Inr x \<Rightarrow> f x }"

definition whenE :: "bool \<Rightarrow> ('w, 'e + unit) state \<Rightarrow> ('w, 'e + unit) state" where
  "whenE b m = (if b then m else okE ())"

fun forE :: "'a list \<Rightarrow> ('a \<Rightarrow> ('w, 'e + unit) state) \<Rightarrow> ('w, 'e + unit) state" where
  "forE [] f = okE ()"
| "forE (x # xs) f = bindE (f x) (\<lambda>_. forE xs f)"

fun seqE :: "('w, 'e + unit) state list \<Rightarrow> ('w, 'e + unit) state" where
  "seqE [] = okE ()"
| "seqE (m # ms) = bindE m (\<lambda>_. seqE ms)"

lemma run_bindE [run_simps, simp]:
  "run_state (bindE m f) w =
     (case run_state m w of (Inl e, w') \<Rightarrow> (Inl e, w') | (Inr x, w') \<Rightarrow> run_state (f x) w')"
  by (auto simp: bindE_def split: prod.splits sum.splits)

lemma run_whenE [run_simps, simp]:
  "run_state (whenE b m) w = (if b then run_state m w else (Inr (), w))"
  by (simp add: whenE_def)

subsection \<open>What an action emits\<close>

text \<open>
  In an environment that logs its calls, \<open>emits m cs\<close> says that \<open>m\<close> makes exactly the calls
  \<open>cs\<close>, in this order, when it succeeds, and stops after a prefix of them when it fails.
\<close>

definition emits :: "('w \<times> 'c list, 'e + 'a) state \<Rightarrow> 'c list \<Rightarrow> bool" where
  "emits m cs \<longleftrightarrow>
     (\<forall>w h r w' h'. run_state m (w, h) = (r, (w', h')) \<longrightarrow>
        (\<exists>ds. h' = h @ ds \<and> (case r of Inl _ \<Rightarrow> prefix ds cs | Inr _ \<Rightarrow> ds = cs)))"

named_theorems emits_intros "what composed actions emit"

lemma emitsD:
  "emits m cs \<Longrightarrow> run_state m (w, h) = (Inr x, (w', h')) \<Longrightarrow> h' = h @ cs"
  "emits m cs \<Longrightarrow> run_state m (w, h) = (Inl e, (w', h')) \<Longrightarrow> \<exists>ds. h' = h @ ds \<and> prefix ds cs"
  by (fastforce simp: emits_def)+

lemma emits_ok [emits_intros]: "emits (okE x) []"
  by (simp add: emits_def)

lemma emits_fail [emits_intros]: "emits (failE e) []"
  by (simp add: emits_def)

lemma emits_fail_any: "emits (failE e) cs"
  by (simp add: emits_def)

lemma emits_bindE [emits_intros]:
  assumes "emits m cs" and "\<And>x. emits (f x) ds"
  shows "emits (bindE m f) (cs @ ds)"
  unfolding emits_def
proof (intro allI impI)
  fix w h r w' h'
  assume run: "run_state (bindE m f) (w, h) = (r, (w', h'))"
  obtain r1 w1 h1 where m: "run_state m (w, h) = (r1, (w1, h1))"
    by (metis surj_pair)
  show "\<exists>es. h' = h @ es \<and> (case r of Inl _ \<Rightarrow> prefix es (cs @ ds) | Inr _ \<Rightarrow> es = cs @ ds)"
  proof (cases r1)
    case (Inl e)
    with run m emitsD(2) [OF assms(1)] show ?thesis by (fastforce simp: prefix_append)
  next
    case (Inr x)
    then have h1: "h1 = h @ cs" using emitsD(1) [OF assms(1)] m by simp
    from run m Inr have f: "run_state (f x) (w1, h1) = (r, (w', h'))" by simp
    show ?thesis
    proof (cases r)
      case (Inl e)
      with emitsD(2) [OF assms(2)] f h1 show ?thesis by (fastforce simp: prefix_append)
    next
      case (Inr y)
      with emitsD(1) [OF assms(2)] f h1 show ?thesis by fastforce
    qed
  qed
qed

lemma emits_whenE [emits_intros]: "(b \<Longrightarrow> emits m cs) \<Longrightarrow> emits (whenE b m) (if b then cs else [])"
  by (auto simp: whenE_def intro: emits_intros)

lemma emits_forE [emits_intros]:
  "(\<And>x. x \<in> set xs \<Longrightarrow> emits (f x) (cs x)) \<Longrightarrow> emits (forE xs f) (concat (map cs xs))"
  by (induction xs) (auto intro: emits_intros)

lemma emits_seqE_Nil [emits_intros]: "emits (seqE []) []"
  by (simp add: emits_intros)

lemma emits_seqE_Cons [emits_intros]:
  "emits m cs \<Longrightarrow> emits (seqE ms) ds \<Longrightarrow> emits (seqE (m # ms)) (cs @ ds)"
  by (simp add: emits_intros)

end
