(* ===== verification/Err_Checker.thy ===== *)
theory Err_Checker
  imports Prelude
begin

text \<open>
  Go error values and the package \<^verbatim>\<open>internal/errchecker\<close>: a breadth-first search through an
  error and everything it wraps. The search is written over the three methods of the Go
  \<^verbatim>\<open>error\<close> interfaces (\<^verbatim>\<open>Error\<close>, \<^verbatim>\<open>Unwrap() error\<close>, \<^verbatim>\<open>Unwrap() []error\<close>), so it covers error
  graphs with sharing and cycles as well as the trees that \<^verbatim>\<open>fmt.Errorf\<close> builds; the locale
  \<open>error_methods\<close> is that interface and \<open>goerr\<close> the provider's own instance.
\<close>

section \<open>The search\<close>

text \<open>The inner loop over the search strings.\<close>

fun any_contained :: "string \<Rightarrow> string list \<Rightarrow> bool" where
  "any_contained msg [] = False"
| "any_contained msg (s # ss) = (if str_contains msg s then True else any_contained msg ss)"

lemma any_contained_iff [simp]:
  "any_contained msg ss \<longleftrightarrow> (\<exists>s \<in> set ss. str_contains msg s)"
  by (induction ss) auto

text \<open>
  The record of the methods of the error values of one program: the message, the single
  wrapped error (\<^verbatim>\<open>errors.Unwrap\<close>, nil is \<open>None\<close>) and the list of a multi-wrapper.
\<close>

record 'e err_methods =
  em_error :: "'e \<Rightarrow> string"
  em_unwrap :: "'e \<Rightarrow> 'e option"
  em_unwrap_list :: "'e \<Rightarrow> 'e list"

definition em_children :: "'e err_methods \<Rightarrow> 'e \<Rightarrow> 'e list" where
  "em_children M e =
     (case em_unwrap M e of None \<Rightarrow> [] | Some u \<Rightarrow> [u]) @ em_unwrap_list M e"

text \<open>
  The loop of \<^verbatim>\<open>ContainsAny\<close> over (visited, queue); \<open>None\<close> would be a loop that never ends.
\<close>

partial_function (option) any_loop ::
    "'e err_methods \<Rightarrow> string list \<Rightarrow> 'e list \<Rightarrow> 'e list \<Rightarrow> bool option" where
  "any_loop M ss visited queue =
     (case queue of
        [] \<Rightarrow> Some False
      | current # rest \<Rightarrow>
          if current \<in> set visited then any_loop M ss visited rest
          else if any_contained (em_error M current) ss then Some True
          else any_loop M ss (current # visited) (rest @ em_children M current))"

text \<open>\<^verbatim>\<open>ContainsAny\<close>; a nil error is \<open>None\<close>.\<close>

definition contains_any_m :: "'e err_methods \<Rightarrow> 'e option \<Rightarrow> string list \<Rightarrow> bool option" where
  "contains_any_m M err ss =
     (case err of
        None \<Rightarrow> Some False
      | Some e \<Rightarrow> if length ss = 0 then Some False else any_loop M ss [] [e])"

text \<open>\<^verbatim>\<open>ContainsNone\<close> repeats the loop with the answers exchanged.\<close>

partial_function (option) none_loop ::
    "'e err_methods \<Rightarrow> string list \<Rightarrow> 'e list \<Rightarrow> 'e list \<Rightarrow> bool option" where
  "none_loop M ss visited queue =
     (case queue of
        [] \<Rightarrow> Some True
      | current # rest \<Rightarrow>
          if current \<in> set visited then none_loop M ss visited rest
          else if any_contained (em_error M current) ss then Some False
          else none_loop M ss (current # visited) (rest @ em_children M current))"

definition contains_none_m :: "'e err_methods \<Rightarrow> 'e option \<Rightarrow> string list \<Rightarrow> bool option" where
  "contains_none_m M err ss =
     (case err of
        None \<Rightarrow> Some True
      | Some e \<Rightarrow> if length ss = 0 then Some True else none_loop M ss [] [e])"

section \<open>The interface and what it guarantees\<close>

inductive err_reach :: "'e err_methods \<Rightarrow> 'e \<Rightarrow> 'e \<Rightarrow> bool" for M :: "'e err_methods" where
  reach_refl: "err_reach M e e"
| reach_step: "err_reach M e f \<Longrightarrow> g \<in> set (em_children M f) \<Longrightarrow> err_reach M e g"

locale error_methods =
  fixes M :: "'e err_methods"
  assumes finite_reach: "finite {f. err_reach M e f}"
begin

lemma reach_trans: "err_reach M f g \<Longrightarrow> err_reach M e f \<Longrightarrow> err_reach M e g"
  by (induction rule: err_reach.induct) (auto intro: err_reach.reach_step)

text \<open>
  The invariant of the loop started at \<open>e\<close>: visited and queued errors are reachable, no
  visited error matches, and every child of a visited error is visited or queued.
\<close>

definition loop_inv :: "string list \<Rightarrow> 'e \<Rightarrow> 'e list \<Rightarrow> 'e list \<Rightarrow> bool" where
  "loop_inv ss e visited queue \<longleftrightarrow>
     (\<forall>f \<in> set visited \<union> set queue. err_reach M e f) \<and>
     (\<forall>f \<in> set visited. \<not> any_contained (em_error M f) ss) \<and>
     (\<forall>f \<in> set visited. set (em_children M f) \<subseteq> set visited \<union> set queue) \<and>
     e \<in> set visited \<union> set queue"

lemma loop_inv_skip:
  "loop_inv ss e visited (c # q) \<Longrightarrow> c \<in> set visited \<Longrightarrow> loop_inv ss e visited q"
  by (auto simp: loop_inv_def)

lemma loop_inv_visit:
  assumes "loop_inv ss e visited (c # q)" and "\<not> any_contained (em_error M c) ss"
  shows "loop_inv ss e (c # visited) (q @ em_children M c)"
  using assms by (auto simp: loop_inv_def intro: err_reach.reach_step)

lemma loop_inv_done:
  assumes "loop_inv ss e visited []" and "err_reach M e f"
  shows "f \<in> set visited"
  using assms(2,1) by (induction rule: err_reach.induct) (auto simp: loop_inv_def)

lemma unvisited_decreases:
  assumes "err_reach M e c" and "c \<notin> set visited"
  shows "card ({f. err_reach M e f} - set (c # visited)) < card ({f. err_reach M e f} - set visited)"
  using assms finite_reach [of e] by (intro psubset_card_mono) auto

text \<open>Both loops end, with the answer that the reachable messages determine.\<close>

lemma any_loop_correct:
  assumes "loop_inv ss e visited queue"
  shows "any_loop M ss visited queue =
           Some (\<exists>f. err_reach M e f \<and> any_contained (em_error M f) ss)"
  using assms
proof (induction "(card ({f. err_reach M e f} - set visited), length queue)"
    arbitrary: visited queue rule: wf_induct_rule [OF wf_lex_prod [OF wf_less_than wf_less_than]])
  case 1
  show ?case
  proof (cases queue)
    case Nil
    from 1(2) have "\<forall>f \<in> set visited. \<not> any_contained (em_error M f) ss"
      by (simp add: loop_inv_def)
    then have "\<not> (\<exists>f. err_reach M e f \<and> any_contained (em_error M f) ss)"
      using loop_inv_done 1(2) Nil by blast
    with Nil show ?thesis by (subst any_loop.simps) simp
  next
    case (Cons c q)
    have c: "err_reach M e c" using 1(2) Cons by (simp add: loop_inv_def)
    show ?thesis
    proof (cases "c \<in> set visited")
      case True
      with 1 Cons have "any_loop M ss visited q =
          Some (\<exists>f. err_reach M e f \<and> any_contained (em_error M f) ss)"
        using loop_inv_skip by simp
      with Cons True show ?thesis by (subst any_loop.simps) simp
    next
      case False
      show ?thesis
      proof (cases "any_contained (em_error M c) ss")
        case True
        with c Cons False show ?thesis by (subst any_loop.simps) auto
      next
        case nomatch: False
        have "any_loop M ss (c # visited) (q @ em_children M c) =
            Some (\<exists>f. err_reach M e f \<and> any_contained (em_error M f) ss)"
          using 1 Cons c False nomatch loop_inv_visit unvisited_decreases by simp
        with Cons False nomatch show ?thesis by (subst any_loop.simps) simp
      qed
    qed
  qed
qed

lemma none_loop_any_loop:
  assumes "loop_inv ss e visited queue"
  shows "none_loop M ss visited queue = map_option Not (any_loop M ss visited queue)"
  using assms
proof (induction "(card ({f. err_reach M e f} - set visited), length queue)"
    arbitrary: visited queue rule: wf_induct_rule [OF wf_lex_prod [OF wf_less_than wf_less_than]])
  case 1
  show ?case
  proof (cases queue)
    case (Cons c q)
    have c: "err_reach M e c" using 1(2) Cons by (simp add: loop_inv_def)
    have skip: "c \<in> set visited \<Longrightarrow>
        none_loop M ss visited q = map_option Not (any_loop M ss visited q)"
      using 1 Cons loop_inv_skip by simp
    have visit: "c \<notin> set visited \<Longrightarrow> \<not> any_contained (em_error M c) ss \<Longrightarrow>
        none_loop M ss (c # visited) (q @ em_children M c) =
        map_option Not (any_loop M ss (c # visited) (q @ em_children M c))"
      using 1 Cons c loop_inv_visit unvisited_decreases by simp
    show ?thesis
      using skip visit unfolding Cons
      by (subst none_loop.simps, subst any_loop.simps) (simp split: if_splits)
  qed (subst none_loop.simps, subst any_loop.simps, simp)
qed

lemma loop_inv_start: "loop_inv ss e [] [e]"
  by (simp add: loop_inv_def err_reach.reach_refl)

lemma contains_any_correct:
  "contains_any_m M err ss =
     Some (\<exists>e f s. err = Some e \<and> err_reach M e f \<and> s \<in> set ss \<and> str_contains (em_error M f) s)"
  using any_loop_correct [OF loop_inv_start]
  by (auto simp: contains_any_m_def split: option.splits)

lemma contains_none_correct:
  "contains_none_m M err ss = map_option Not (contains_any_m M err ss)"
  using none_loop_any_loop [OF loop_inv_start]
  by (auto simp: contains_any_m_def contains_none_m_def split: option.splits)

end

section \<open>The provider's errors\<close>

text \<open>
  Errors of the provider and the packages it calls: \<open>Err msg\<close> a plain error with its message,
  \<open>Sentinel n\<close> a package-level error variable compared by identity (\<^verbatim>\<open>fs.ErrNotExist\<close>,
  \<^verbatim>\<open>errWaitTimeout\<close>, \<^verbatim>\<open>context.Canceled\<close>), \<open>Wrap msg e\<close> an error built by \<^verbatim>\<open>fmt.Errorf\<close> with
  \<^verbatim>\<open>%w\<close> (whose message already contains the wrapped message), \<open>Joined es\<close> one of \<^verbatim>\<open>errors.Join\<close>.
\<close>

datatype sentinel = ErrNotExist | ErrWaitTimeout | CtxCanceled | CtxDeadlineExceeded

datatype goerr = Err string | Sentinel sentinel | Wrap string goerr | Joined "goerr list"

fun sentinel_msg :: "sentinel \<Rightarrow> string" where
  "sentinel_msg ErrNotExist = ''file does not exist''"
| "sentinel_msg ErrWaitTimeout = ''the script did not succeed before the timeout''"
| "sentinel_msg CtxCanceled = ''context canceled''"
| "sentinel_msg CtxDeadlineExceeded = ''context deadline exceeded''"

fun err_msg :: "goerr \<Rightarrow> string" where
  "err_msg (Err m) = m"
| "err_msg (Sentinel n) = sentinel_msg n"
| "err_msg (Wrap m e) = m"
| "err_msg (Joined es) = str_join (map err_msg es) [CHR 0x0A]"

fun err_unwrap :: "goerr \<Rightarrow> goerr option" where
  "err_unwrap (Wrap m e) = Some e"
| "err_unwrap _ = None"

fun err_unwrap_list :: "goerr \<Rightarrow> goerr list" where
  "err_unwrap_list (Joined es) = es"
| "err_unwrap_list _ = []"

text \<open>\<^verbatim>\<open>fmt.Errorf("...: %w", err)\<close>.\<close>

definition wrapf :: "string \<Rightarrow> goerr \<Rightarrow> goerr" where
  "wrapf pre e = Wrap (pre @ err_msg e) e"

text \<open>\<^verbatim>\<open>errors.Is\<close> against a sentinel.\<close>

fun err_is :: "goerr \<Rightarrow> sentinel \<Rightarrow> bool" where
  "err_is (Err m) n = False"
| "err_is (Sentinel m) n = (m = n)"
| "err_is (Wrap m e) n = err_is e n"
| "err_is (Joined es) n = list_ex (\<lambda>e. err_is e n) es"

definition goerr_methods :: "goerr err_methods" where
  "goerr_methods = \<lparr>em_error = err_msg, em_unwrap = err_unwrap, em_unwrap_list = err_unwrap_list\<rparr>"

lemma em_error_goerr [simp]: "em_error goerr_methods = err_msg"
  by (simp add: goerr_methods_def)

lemma goerr_children [simp]:
  "em_children goerr_methods (Err m) = []"
  "em_children goerr_methods (Sentinel n) = []"
  "em_children goerr_methods (Wrap m e) = [e]"
  "em_children goerr_methods (Joined es) = es"
  by (simp_all add: em_children_def goerr_methods_def)

fun err_subs :: "goerr \<Rightarrow> goerr list" where
  "err_subs (Err m) = [Err m]"
| "err_subs (Sentinel n) = [Sentinel n]"
| "err_subs (Wrap m e) = Wrap m e # err_subs e"
| "err_subs (Joined es) = Joined es # concat (map err_subs es)"

lemma err_subs_self: "e \<in> set (err_subs e)"
  by (cases e) auto

lemma err_subs_closed:
  "f \<in> set (err_subs e) \<Longrightarrow> g \<in> set (em_children goerr_methods f) \<Longrightarrow> g \<in> set (err_subs e)"
  by (induction e rule: err_subs.induct) (auto intro: err_subs_self)

lemma err_subs_reach: "err_reach goerr_methods e f \<Longrightarrow> f \<in> set (err_subs e)"
  by (induction rule: err_reach.induct) (auto intro: err_subs_self err_subs_closed)

interpretation goerrs: error_methods goerr_methods
proof
  fix e
  show "finite {f. err_reach goerr_methods e f}"
    by (rule finite_subset [of _ "set (err_subs e)"]) (auto dest: err_subs_reach)
qed

lemma reach_prepend:
  "err_reach M f g \<Longrightarrow> f \<in> set (em_children M e) \<Longrightarrow> err_reach M e g"
  by (induction rule: err_reach.induct) (auto intro: err_reach.intros)

lemma reach_err_subs: "f \<in> set (err_subs e) \<Longrightarrow> err_reach goerr_methods e f"
proof (induction e rule: err_subs.induct)
  case (3 m e)
  then show ?case by (auto intro: err_reach.reach_refl reach_prepend)
next
  case (4 es)
  then consider "f = Joined es" | x where "x \<in> set es" "f \<in> set (err_subs x)" by auto
  then show ?case
    using 4(1) reach_prepend [of goerr_methods _ f "Joined es"]
    by cases (auto intro: err_reach.reach_refl)
qed (auto intro: err_reach.reach_refl)

lemma err_reach_iff: "err_reach goerr_methods e f \<longleftrightarrow> f \<in> set (err_subs e)"
  using err_subs_reach reach_err_subs by blast

text \<open>The two checks on the provider's errors, as the resources call them.\<close>

definition contains_any :: "goerr option \<Rightarrow> string list \<Rightarrow> bool" where
  "contains_any err ss = (contains_any_m goerr_methods err ss = Some True)"

definition contains_none :: "goerr option \<Rightarrow> string list \<Rightarrow> bool" where
  "contains_none err ss = (contains_none_m goerr_methods err ss = Some True)"

lemma contains_any_iff:
  "contains_any (Some e) ss \<longleftrightarrow> (\<exists>f \<in> set (err_subs e). \<exists>s \<in> set ss. str_contains (err_msg f) s)"
  unfolding contains_any_def goerrs.contains_any_correct
  by (auto simp: err_reach_iff em_error_goerr)

lemma contains_none_iff: "contains_none err ss \<longleftrightarrow> \<not> contains_any err ss"
  unfolding contains_any_def contains_none_def goerrs.contains_none_correct
  by (simp add: goerrs.contains_any_correct)

section \<open>Diagnostics\<close>

datatype severity = SevError | SevWarning

record diagnostic =
  d_severity :: severity
  d_summary :: string
  d_detail :: string

type_synonym diagnostics = "diagnostic list"

definition add_error :: "string \<Rightarrow> string \<Rightarrow> diagnostic" where
  "add_error s d = \<lparr>d_severity = SevError, d_summary = s, d_detail = d\<rparr>"

definition add_warning :: "string \<Rightarrow> string \<Rightarrow> diagnostic" where
  "add_warning s d = \<lparr>d_severity = SevWarning, d_summary = s, d_detail = d\<rparr>"

definition has_error :: "diagnostics \<Rightarrow> bool" where
  "has_error ds = list_ex (\<lambda>d. d_severity d = SevError) ds"

lemma has_error_simps [simp]:
  "\<not> has_error []"
  "has_error (add_error s d # ds)"
  "has_error (add_warning s d # ds) = has_error ds"
  "has_error (ds @ es) = (has_error ds \<or> has_error es)"
  by (simp_all add: has_error_def add_error_def add_warning_def)

fun diags_any :: "diagnostics \<Rightarrow> string list \<Rightarrow> bool" where
  "diags_any [] ss = False"
| "diags_any (d # ds) ss =
     (if length ss = 0 then False
      else if any_contained (d_detail d) ss then True else diags_any ds ss)"

fun diags_none :: "diagnostics \<Rightarrow> string list \<Rightarrow> bool" where
  "diags_none [] ss = True"
| "diags_none (d # ds) ss =
     (if length ss = 0 then True
      else if any_contained (d_detail d) ss then False else diags_none ds ss)"

lemma diags_any_iff:
  "diags_any ds ss \<longleftrightarrow> (\<exists>d \<in> set ds. \<exists>s \<in> set ss. str_contains (d_detail d) s)"
  by (induction ds) auto

lemma diags_none_iff: "diags_none ds ss \<longleftrightarrow> \<not> diags_any ds ss"
  by (induction ds) auto

section \<open>Properties\<close>

text \<open>C30: \<^verbatim>\<open>ContainsAny\<close> finds a text exactly when it occurs in the message of an error that can be reached by
  unwrapping, through joined errors too; \<^verbatim>\<open>ContainsNone\<close> is its negation.\<close>

theorem error_search:
  "(contains_any (Some e) ss = (\<exists>f \<in> set (err_subs e). \<exists>s \<in> set ss. str_contains (err_msg f) s)) \<and>
   contains_none (Some e) ss = (\<not> contains_any (Some e) ss)"
  by (intro conjI contains_any_iff contains_none_iff)

end
