(* ===== verification/Executor.thy ===== *)
theory Executor
  imports Err_Checker
begin

text \<open>
  The interface \<^verbatim>\<open>internal/exec.Executor\<close>: every operation of the provider that touches the
  target goes through one of these methods. A value of the interface is a record of
  functions over an arbitrary environment \<open>'w\<close> (the target), so the resources are modelled
  against every executor. \<open>traced\<close> is the same executor in an environment that also logs
  the calls, which is what the properties about order and atomicity observe.
\<close>

section \<open>Command results\<close>

text \<open>\<^verbatim>\<open>result.Result\<close>.\<close>

record result =
  r_cmd :: string
  r_args :: "string list"
  r_exit_code :: int
  r_stdout :: string
  r_stderr :: string
  r_error :: "goerr option"
  r_logs_stdout :: string
  r_logs_stderr :: string
  r_matched_string :: string
  r_completed :: bool
  r_timed_out :: bool
  r_pid :: int

definition new_result :: "string \<Rightarrow> string list \<Rightarrow> result" where
  "new_result cmd args =
     \<lparr>r_cmd = cmd, r_args = args, r_exit_code = 0, r_stdout = [], r_stderr = [], r_error = None,
      r_logs_stdout = [], r_logs_stderr = [], r_matched_string = [], r_completed = False,
      r_timed_out = False, r_pid = 0\<rparr>"

text \<open>\<^verbatim>\<open>%v\<close> of a string slice.\<close>

definition fmt_strings :: "string list \<Rightarrow> string" where
  "fmt_strings xs = ''['' @ str_join xs '' '' @ '']''"

text \<open>\<^verbatim>\<open>Result.Diagnostics\<close>: the exit code with the arguments, then the two streams.\<close>

definition result_diagnostics :: "result \<Rightarrow> diagnostics" where
  "result_diagnostics r =
     [add_error (r_cmd r @ '' exit code: '' @ itoa (r_exit_code r)) (''args: '' @ fmt_strings (r_args r)),
      add_error (r_cmd r @ '' stdout'') (r_stdout r),
      add_error (r_cmd r @ '' stderr'') (r_stderr r)]"

lemma result_diagnostics_details:
  "map d_detail (result_diagnostics r) = [''args: '' @ fmt_strings (r_args r), r_stdout r, r_stderr r]"
  by (simp add: result_diagnostics_def add_error_def)

lemma has_error_result_diagnostics [simp]: "has_error (result_diagnostics r)"
  by (simp add: result_diagnostics_def)

section \<open>The interface\<close>

text \<open>File modes, written in octal in the code.\<close>

abbreviation mode_600 :: nat where "mode_600 \<equiv> 6 * 64"
abbreviation mode_640 :: nat where "mode_640 \<equiv> 6 * 64 + 4 * 8"
abbreviation mode_644 :: nat where "mode_644 \<equiv> 6 * 64 + 4 * 8 + 4"
abbreviation mode_700 :: nat where "mode_700 \<equiv> 7 * 64"
abbreviation mode_755 :: nat where "mode_755 \<equiv> 7 * 64 + 5 * 8 + 5"

type_synonym cmd_outcome = "result \<times> goerr option"

record file_info =
  fi_is_dir :: bool
  fi_size :: nat

record 'w executor =
  ex_is_local :: bool
  ex_self_path :: string
  ex_look_path :: "string \<Rightarrow> ('w, goerr + string) state"
  ex_run :: "string \<Rightarrow> string \<Rightarrow> string list \<Rightarrow> ('w, cmd_outcome) state"
  ex_run_detached :: "string \<Rightarrow> string \<Rightarrow> string list \<Rightarrow> ('w, cmd_outcome) state"
  ex_mkdir_all :: "string \<Rightarrow> nat \<Rightarrow> ('w, goerr option) state"
  ex_write_file :: "string \<Rightarrow> string \<Rightarrow> nat \<Rightarrow> ('w, goerr option) state"
  ex_read_file :: "string \<Rightarrow> ('w, goerr + string) state"
  ex_remove :: "string \<Rightarrow> ('w, goerr option) state"
  ex_rename :: "string \<Rightarrow> string \<Rightarrow> ('w, goerr option) state"
  ex_stat :: "string \<Rightarrow> ('w, goerr + file_info) state"
  ex_chmod :: "string \<Rightarrow> nat \<Rightarrow> ('w, goerr option) state"
  ex_read_dir :: "string \<Rightarrow> ('w, goerr + string list) state"
  ex_copy_file :: "string \<Rightarrow> string \<Rightarrow> ('w, goerr + int) state"
  ex_is_running :: "int \<Rightarrow> string \<Rightarrow> ('w, goerr + bool) state"
  ex_kill :: "int \<Rightarrow> int \<Rightarrow> ('w, goerr option) state"

text \<open>\<^verbatim>\<open>exec.IsNotExist\<close>.\<close>

definition is_not_exist :: "goerr \<Rightarrow> bool" where
  "is_not_exist e = err_is e ErrNotExist"

section \<open>Logging the calls\<close>

datatype call =
    CLookPath string
  | CRun string string "string list"
  | CDetached string string "string list"
  | CMkdir string nat
  | CWrite string string nat
  | CRead string
  | CRemove string
  | CRename string string
  | CStat string
  | CChmod string nat
  | CReadDir string
  | CCopy string string
  | CIsRunning int string
  | CKill int int

definition log_call :: "'c \<Rightarrow> ('w, 'a) state \<Rightarrow> ('w \<times> 'c list, 'a) state" where
  "log_call c m = State (\<lambda>(w, h). let (r, w') = run_state m w in (r, (w', h @ [c])))"

lemma run_log_call [run_simps, simp]:
  "run_state (log_call c m) (w, h) = (let (r, w') = run_state m w in (r, (w', h @ [c])))"
  by (simp add: log_call_def)

definition traced :: "'w executor \<Rightarrow> ('w \<times> call list) executor" where
  "traced ex =
     \<lparr>ex_is_local = ex_is_local ex,
      ex_self_path = ex_self_path ex,
      ex_look_path = (\<lambda>f. log_call (CLookPath f) (ex_look_path ex f)),
      ex_run = (\<lambda>d c a. log_call (CRun d c a) (ex_run ex d c a)),
      ex_run_detached = (\<lambda>d c a. log_call (CDetached d c a) (ex_run_detached ex d c a)),
      ex_mkdir_all = (\<lambda>p m. log_call (CMkdir p m) (ex_mkdir_all ex p m)),
      ex_write_file = (\<lambda>p b m. log_call (CWrite p b m) (ex_write_file ex p b m)),
      ex_read_file = (\<lambda>p. log_call (CRead p) (ex_read_file ex p)),
      ex_remove = (\<lambda>p. log_call (CRemove p) (ex_remove ex p)),
      ex_rename = (\<lambda>p q. log_call (CRename p q) (ex_rename ex p q)),
      ex_stat = (\<lambda>p. log_call (CStat p) (ex_stat ex p)),
      ex_chmod = (\<lambda>p m. log_call (CChmod p m) (ex_chmod ex p m)),
      ex_read_dir = (\<lambda>p. log_call (CReadDir p) (ex_read_dir ex p)),
      ex_copy_file = (\<lambda>p q. log_call (CCopy p q) (ex_copy_file ex p q)),
      ex_is_running = (\<lambda>i e. log_call (CIsRunning i e) (ex_is_running ex i e)),
      ex_kill = (\<lambda>i s. log_call (CKill i s) (ex_kill ex i s))\<rparr>"

lemma traced_simps [simp, run_simps]:
  "ex_is_local (traced ex) = ex_is_local ex"
  "ex_self_path (traced ex) = ex_self_path ex"
  "ex_look_path (traced ex) f = log_call (CLookPath f) (ex_look_path ex f)"
  "ex_run (traced ex) d c a = log_call (CRun d c a) (ex_run ex d c a)"
  "ex_run_detached (traced ex) d c a = log_call (CDetached d c a) (ex_run_detached ex d c a)"
  "ex_mkdir_all (traced ex) p m = log_call (CMkdir p m) (ex_mkdir_all ex p m)"
  "ex_write_file (traced ex) p b m = log_call (CWrite p b m) (ex_write_file ex p b m)"
  "ex_read_file (traced ex) p = log_call (CRead p) (ex_read_file ex p)"
  "ex_remove (traced ex) p = log_call (CRemove p) (ex_remove ex p)"
  "ex_rename (traced ex) p q = log_call (CRename p q) (ex_rename ex p q)"
  "ex_stat (traced ex) p = log_call (CStat p) (ex_stat ex p)"
  "ex_chmod (traced ex) p m = log_call (CChmod p m) (ex_chmod ex p m)"
  "ex_read_dir (traced ex) p = log_call (CReadDir p) (ex_read_dir ex p)"
  "ex_copy_file (traced ex) p q = log_call (CCopy p q) (ex_copy_file ex p q)"
  "ex_is_running (traced ex) i e = log_call (CIsRunning i e) (ex_is_running ex i e)"
  "ex_kill (traced ex) i s = log_call (CKill i s) (ex_kill ex i s)"
  by (simp_all add: traced_def)

text \<open>A call whose outcome is examined at once: it emits itself.\<close>

lemma emits_log_call [emits_intros]:
  assumes "\<And>r. emits (f r) cs"
  shows "emits (do { r \<leftarrow> log_call c m; f r }) (c # cs)"
  using assms unfolding emits_def
  by (fastforce split: prod.splits sum.splits)

section \<open>The contract of the interface\<close>

text \<open>
  What the callers rely on: the second component of a command outcome is the error of the
  result (\<^verbatim>\<open>return res, res.Error\<close>), the result names the command that ran, and a non-zero
  exit code never comes without an error.
\<close>

locale executor_contract =
  fixes ex :: "'w executor"
  assumes run_error: "run_state (ex_run ex d c a) w = ((res, err), w') \<Longrightarrow> err = r_error res"
    and run_names: "run_state (ex_run ex d c a) w = ((res, err), w') \<Longrightarrow> r_cmd res = c \<and> r_args res = a"
    and run_exit: "run_state (ex_run ex d c a) w = ((res, err), w') \<Longrightarrow> r_exit_code res \<noteq> 0 \<Longrightarrow> r_error res \<noteq> None"
    and detached_error: "run_state (ex_run_detached ex d c a) w = ((res, err), w') \<Longrightarrow> err = r_error res"
    and detached_names: "run_state (ex_run_detached ex d c a) w = ((res, err), w') \<Longrightarrow> r_cmd res = c \<and> r_args res = a"
    and detached_pid: "run_state (ex_run_detached ex d c a) w = ((res, err), w') \<Longrightarrow> r_error res \<noteq> None \<Longrightarrow> r_pid res = 0"
begin

lemma run_success_exit_zero:
  "run_state (ex_run ex d c a) w = ((res, None), w') \<Longrightarrow> r_exit_code res = 0"
  using run_error run_exit by metis

end

section \<open>An idle target\<close>

text \<open>An executor on which everything succeeds and nothing happens, for concrete runs.\<close>

definition idle_executor :: "'w executor" where
  "idle_executor =
     \<lparr>ex_is_local = True,
      ex_self_path = ''/self'',
      ex_look_path = (\<lambda>f. State_Monad.return (Inr f)),
      ex_run = (\<lambda>d c a. State_Monad.return (new_result c a, None)),
      ex_run_detached = (\<lambda>d c a. State_Monad.return (new_result c a, None)),
      ex_mkdir_all = (\<lambda>p m. State_Monad.return None),
      ex_write_file = (\<lambda>p b m. State_Monad.return None),
      ex_read_file = (\<lambda>p. State_Monad.return (Inr [])),
      ex_remove = (\<lambda>p. State_Monad.return None),
      ex_rename = (\<lambda>p q. State_Monad.return None),
      ex_stat = (\<lambda>p. State_Monad.return (Inr \<lparr>fi_is_dir = False, fi_size = 0\<rparr>)),
      ex_chmod = (\<lambda>p m. State_Monad.return None),
      ex_read_dir = (\<lambda>p. State_Monad.return (Inr [])),
      ex_copy_file = (\<lambda>p q. State_Monad.return (Inr 0)),
      ex_is_running = (\<lambda>i e. State_Monad.return (Inr True)),
      ex_kill = (\<lambda>i s. State_Monad.return None)\<rparr>"

lemma idle_executor_simps [simp]:
  "ex_self_path idle_executor = ''/self''"
  "ex_run idle_executor d c a = State_Monad.return (new_result c a, None)"
  "ex_run_detached idle_executor d c a = State_Monad.return (new_result c a, None)"
  "ex_mkdir_all idle_executor p m = State_Monad.return None"
  "ex_write_file idle_executor p b m = State_Monad.return None"
  "ex_read_file idle_executor p = State_Monad.return (Inr [])"
  "ex_remove idle_executor p = State_Monad.return None"
  "ex_stat idle_executor p = State_Monad.return (Inr \<lparr>fi_is_dir = False, fi_size = 0\<rparr>)"
  "ex_chmod idle_executor p m = State_Monad.return None"
  "ex_read_dir idle_executor p = State_Monad.return (Inr [])"
  "ex_copy_file idle_executor p q = State_Monad.return (Inr 0)"
  "ex_kill idle_executor i g = State_Monad.return None"
  by (simp_all add: idle_executor_def)

end
