(* ===== verification/Go_Path.thy ===== *)
theory Go_Path
  imports Prelude
begin

text \<open>
  The lexical path functions of Go's \<^verbatim>\<open>path/filepath\<close> (on Unix the same as package
  \<^verbatim>\<open>path\<close>): \<^verbatim>\<open>Clean\<close>, \<^verbatim>\<open>Join\<close> and \<^verbatim>\<open>Base\<close>, with the facts the components need about
  the resource directories they compute.
\<close>

text \<open>\<^verbatim>\<open>Clean\<close>: a stack machine over the slash-separated elements (the stack is reversed).\<close>

definition clean_push :: "bool \<Rightarrow> string list \<Rightarrow> string \<Rightarrow> string list" where
  "clean_push rooted st e =
     (if e = [] \<or> e = ''.'' then st
      else if e = ''..'' then
        (case st of
           [] \<Rightarrow> if rooted then [] else [''..'']
         | t # ts \<Rightarrow> if t = ''..'' then ''..'' # st else ts)
      else e # st)"

definition clean_elems :: "bool \<Rightarrow> string list \<Rightarrow> string list" where
  "clean_elems rooted es = rev (foldl (clean_push rooted) [] es)"

definition path_of_elems :: "bool \<Rightarrow> string list \<Rightarrow> string" where
  "path_of_elems rooted es =
     (if rooted then ''/'' @ str_join es ''/''
      else if es = [] then ''.'' else str_join es ''/'')"

definition is_rooted :: "string \<Rightarrow> bool" where
  "is_rooted p = (p \<noteq> [] \<and> hd p = CHR ''/'')"

definition path_clean :: "string \<Rightarrow> string" where
  "path_clean p =
     path_of_elems (is_rooted p) (clean_elems (is_rooted p) (split_on (CHR ''/'') p))"

definition path_join :: "string list \<Rightarrow> string" where
  "path_join ps =
     (let qs = filter (\<lambda>q. q \<noteq> []) ps in if qs = [] then [] else path_clean (str_join qs ''/''))"

definition path_base :: "string \<Rightarrow> string" where
  "path_base p =
     (if p = [] then ''.''
      else (let q = trim_right_by (\<lambda>c. c = CHR ''/'') p
            in if q = [] then ''/'' else last (split_on (CHR ''/'') q)))"

section \<open>Clean elements\<close>

text \<open>A name that \<^verbatim>\<open>Clean\<close> leaves alone: not empty, without a slash, neither dot nor dot-dot.\<close>

definition plain_name :: "string \<Rightarrow> bool" where
  "plain_name e \<longleftrightarrow> e \<noteq> [] \<and> CHR ''/'' \<notin> set e \<and> e \<noteq> ''.'' \<and> e \<noteq> ''..''"

text \<open>A rooted clean path is a slash followed by plain names.\<close>

definition abs_path :: "string list \<Rightarrow> string" where
  "abs_path es = ''/'' @ str_join es ''/''"

lemma foldl_clean_plain:
  "list_all (\<lambda>e. e \<noteq> [] \<and> e \<noteq> ''.'' \<and> e \<noteq> ''..'') es \<Longrightarrow>
     foldl (clean_push r) st es = rev es @ st"
  by (induction es arbitrary: st) (auto simp: clean_push_def)

lemma clean_elems_plain: "list_all plain_name es \<Longrightarrow> clean_elems r es = es"
  by (simp add: clean_elems_def foldl_clean_plain plain_name_def list_all_def)

lemma clean_push_plain:
  "list_all plain_name st \<Longrightarrow> CHR ''/'' \<notin> set e \<Longrightarrow> list_all plain_name (clean_push True st e)"
  by (auto simp: clean_push_def plain_name_def split: list.splits)

lemma foldl_clean_all_plain:
  "list_all plain_name st \<Longrightarrow> \<forall>e \<in> set es. CHR ''/'' \<notin> set e \<Longrightarrow>
     list_all plain_name (foldl (clean_push True) st es)"
  by (induction es arbitrary: st) (auto simp: clean_push_plain)

text \<open>Cleaning a rooted path yields plain names only: dot-dot cannot survive at the root.\<close>

lemma clean_elems_rooted: "list_all plain_name (clean_elems True (split_on (CHR ''/'') p))"
  using foldl_clean_all_plain [of "[]" "split_on (CHR ''/'') p"]
  by (auto simp: clean_elems_def list_all_def dest: split_on_pieces)

lemma split_abs_path:
  assumes "list_all plain_name es"
  shows "split_on (CHR ''/'') (abs_path es) = [] # (if es = [] then [[]] else es)"
proof (cases "es = []")
  case False
  moreover have "\<forall>x \<in> set es. CHR ''/'' \<notin> set x" using assms by (simp add: plain_name_def list_all_def)
  ultimately show ?thesis by (simp add: abs_path_def split_on_join)
qed (simp add: abs_path_def)

lemma path_clean_abs:
  assumes "list_all plain_name es"
  shows "path_clean (abs_path es) = abs_path es"
proof -
  have "is_rooted (abs_path es)" by (simp add: is_rooted_def abs_path_def)
  moreover have "clean_elems True ([] # (if es = [] then [[]] else es)) = es"
    using foldl_clean_plain [of es True "[]"] assms
    by (auto simp: clean_elems_def clean_push_def plain_name_def list_all_def)
  ultimately show ?thesis
    using split_abs_path [OF assms] by (simp add: path_clean_def path_of_elems_def abs_path_def)
qed

lemma path_clean_rooted:
  assumes "is_rooted p"
  obtains es where "list_all plain_name es" and "path_clean p = abs_path es"
  using assms clean_elems_rooted [of p] by (simp add: path_clean_def path_of_elems_def abs_path_def)

lemma path_clean_idem_rooted: "is_rooted p \<Longrightarrow> path_clean (path_clean p) = path_clean p"
  by (metis path_clean_rooted path_clean_abs)

lemma str_join_app:
  "xs \<noteq> [] \<Longrightarrow> ys \<noteq> [] \<Longrightarrow> str_join (xs @ ys) sep = str_join xs sep @ sep @ str_join ys sep"
proof (induction xs)
  case (Cons x xs)
  then show ?case by (cases xs; cases ys) auto
qed simp

text \<open>Joining plain names below a clean directory appends them.\<close>

lemma path_join_abs:
  assumes "list_all plain_name es" and "es \<noteq> []" and "list_all plain_name ns" and "ns \<noteq> []"
  shows "path_join (abs_path es # ns) = abs_path (es @ ns)"
proof -
  have ns: "filter (\<lambda>q. q \<noteq> []) ns = ns"
    using assms(3) by (auto simp: filter_id_conv list_all_def plain_name_def)
  have "str_join (abs_path es # ns) ''/'' = abs_path (es @ ns)"
    using assms(2,4) by (cases ns) (auto simp: abs_path_def str_join_app)
  moreover have "filter (\<lambda>q. q \<noteq> []) (abs_path es # ns) = abs_path es # ns"
    using ns by (simp add: abs_path_def)
  moreover have "path_clean (abs_path (es @ ns)) = abs_path (es @ ns)"
    by (rule path_clean_abs) (use assms in simp)
  ultimately show ?thesis by (simp only: path_join_def Let_def) simp
qed

lemma abs_path_inj:
  assumes "list_all plain_name es" and "list_all plain_name fs"
  shows "abs_path es = abs_path fs \<longleftrightarrow> es = fs"
proof
  assume "abs_path es = abs_path fs"
  then have "split_on (CHR ''/'') (abs_path es) = split_on (CHR ''/'') (abs_path fs)"
    by (simp only:)
  then have "(if es = [] then [[]] else es) = (if fs = [] then [[]] else fs)"
    unfolding split_abs_path [OF assms(1)] split_abs_path [OF assms(2)] by (simp only: list.inject)
  moreover have "[] \<notin> set es" and "[] \<notin> set fs"
    using assms by (auto simp: plain_name_def list_all_def)
  ultimately show "es = fs" by (cases "es = []"; cases "fs = []") auto
qed simp

lemma path_join_single: "p \<noteq> [] \<Longrightarrow> path_join [p] = path_clean p"
  by (simp add: path_join_def)

end
