(* ===== verification/Net_Addr.thy ===== *)
theory Net_Addr
  imports Prelude
begin

unbundle bit_operations_syntax

text \<open>
  Addresses: \<^verbatim>\<open>internal/lladdr\<close> and what it and the network resources use of Go's package
  \<^verbatim>\<open>net\<close> (parsing MAC addresses and CIDR prefixes, printing an IP address). An address is a
  list of \<open>8 word\<close>, 4 or 16 of them for an IP address.
\<close>

type_synonym bytes = "8 word list"

section \<open>Hexadecimal\<close>

definition hex_char :: "nat \<Rightarrow> char" where
  "hex_char d = (if d < 10 then char_of (48 + d) else char_of (87 + d))"

definition hex_val :: "char \<Rightarrow> nat option" where
  "hex_val c =
     (let n = of_char c :: nat
      in if 48 \<le> n \<and> n \<le> 57 then Some (n - 48)
         else if 97 \<le> n \<and> n \<le> 102 then Some (n - 87)
         else if 65 \<le> n \<and> n \<le> 70 then Some (n - 55) else None)"

text \<open>\<^verbatim>\<open>%02x\<close> of a byte, and \<^verbatim>\<open>%x\<close> of a 16-bit group.\<close>

definition hex_byte :: "8 word \<Rightarrow> string" where
  "hex_byte b = [hex_char (unat b div 16), hex_char (unat b mod 16)]"

definition hex_group :: "nat \<Rightarrow> string" where
  "hex_group n =
     (if n < 16 then [hex_char n]
      else if n < 256 then [hex_char (n div 16), hex_char (n mod 16)]
      else if n < 4096 then [hex_char (n div 256), hex_char (n div 16 mod 16), hex_char (n mod 16)]
      else [hex_char (n div 4096 mod 16), hex_char (n div 256 mod 16), hex_char (n div 16 mod 16), hex_char (n mod 16)])"

lemma hex_val_char: "d < 16 \<Longrightarrow> hex_val (hex_char d) = Some d"
  by (auto simp: hex_val_def hex_char_def Let_def)

lemma hex_char_not: "d < 16 \<Longrightarrow> hex_char d \<notin> {CHR '':'', CHR ''-'', CHR ''.'', CHR ''/'', CHR ''%''}"
  using hex_val_char [of d] by (auto simp: hex_val_def)

section \<open>MAC addresses\<close>

text \<open>\<^verbatim>\<open>xtoi2\<close>: two hexadecimal digits, followed by the separator unless the string ends.\<close>

fun xtoi2 :: "string \<Rightarrow> char option \<Rightarrow> (8 word \<times> string) option" where
  "xtoi2 (a # b # rest) sep =
     (case (hex_val a, hex_val b) of
        (Some x, Some y) \<Rightarrow>
          (case (rest, sep) of
             ([], _) \<Rightarrow> Some (word_of_nat (16 * x + y), [])
           | (c # cs, Some e) \<Rightarrow> if c = e then Some (word_of_nat (16 * x + y), cs) else None
           | (c # cs, None) \<Rightarrow> Some (word_of_nat (16 * x + y), c # cs))
      | _ \<Rightarrow> None)"
| "xtoi2 _ sep = None"

fun mac_pairs :: "nat \<Rightarrow> char \<Rightarrow> string \<Rightarrow> bytes option" where
  "mac_pairs 0 sep s = Some []"
| "mac_pairs (Suc n) sep s =
     (case xtoi2 s (Some sep) of
        None \<Rightarrow> None
      | Some (b, rest) \<Rightarrow> map_option ((#) b) (mac_pairs n sep rest))"

fun mac_quads :: "nat \<Rightarrow> char \<Rightarrow> string \<Rightarrow> bytes option" where
  "mac_quads 0 sep s = Some []"
| "mac_quads (Suc n) sep s =
     (case xtoi2 (take 2 s) None of
        None \<Rightarrow> None
      | Some (a, _) \<Rightarrow>
          (case xtoi2 (drop 2 s) (Some sep) of
             None \<Rightarrow> None
           | Some (b, rest) \<Rightarrow> map_option (\<lambda>bs. a # b # bs) (mac_quads n sep rest)))"

definition mac_len_ok :: "nat \<Rightarrow> bool" where
  "mac_len_ok n = (n = 6 \<or> n = 8 \<or> n = 20)"

text \<open>\<^verbatim>\<open>net.ParseMAC\<close>: six, eight or twenty bytes, in pairs behind \<open>:\<close> or \<open>-\<close> or in fours
  behind dots.\<close>

definition parse_mac :: "string \<Rightarrow> bytes option" where
  "parse_mac s =
     (if length s < 14 then None
      else if s ! 2 = CHR '':'' \<or> s ! 2 = CHR ''-'' then
        (if (length s + 1) mod 3 \<noteq> 0 \<or> \<not> mac_len_ok ((length s + 1) div 3) then None
         else mac_pairs ((length s + 1) div 3) (s ! 2) s)
      else if s ! 4 = CHR ''.'' then
        (if (length s + 1) mod 5 \<noteq> 0 \<or> \<not> mac_len_ok (2 * (length s + 1) div 5) then None
         else mac_quads ((length s + 1) div 5) (s ! 4) s)
      else None)"

text \<open>\<^verbatim>\<open>HardwareAddr.String\<close>, the form \<^verbatim>\<open>ip link\<close> prints.\<close>

definition mac_string :: "bytes \<Rightarrow> string" where
  "mac_string hw = str_join (map hex_byte hw) '':''"

section \<open>The link-local address of a MAC\<close>

text \<open>\<^verbatim>\<open>LinkLocalIPv6FromMAC\<close>: \<open>Inl\<close> is the error of a wrong length.\<close>

definition link_local_ipv6_from_mac :: "bytes \<Rightarrow> string + bytes" where
  "link_local_ipv6_from_mac hw =
     (if length hw \<noteq> 6 \<and> length hw \<noteq> 8 then
        Inl (''hardware address must be 6 or 8 bytes, got '' @ itoa (int (length hw)))
      else
        (let iid = (if length hw = 6
                    then [hw ! 0 XOR 0x02, hw ! 1, hw ! 2, 0xff, 0xfe, hw ! 3, hw ! 4, hw ! 5]
                    else hw[0 := hw ! 0 XOR 0x02])
         in Inr ([0xfe, 0x80, 0, 0, 0, 0, 0, 0] @ iid)))"

text \<open>\<^verbatim>\<open>LinkLocalIPv6FromMACString\<close>.\<close>

definition link_local_ipv6_from_mac_string :: "string \<Rightarrow> string + bytes" where
  "link_local_ipv6_from_mac_string s =
     (case parse_mac s of
        None \<Rightarrow> Inl (''address '' @ s @ '': invalid MAC address'')
      | Some hw \<Rightarrow> link_local_ipv6_from_mac hw)"

section \<open>Printing an IP address\<close>

text \<open>The 16-bit groups of a 16-byte address.\<close>

fun groups_of :: "bytes \<Rightarrow> nat list" where
  "groups_of (a # b # rest) = (256 * unat a + unat b) # groups_of rest"
| "groups_of _ = []"

fun bytes_of_groups :: "nat list \<Rightarrow> bytes" where
  "bytes_of_groups [] = []"
| "bytes_of_groups (g # gs) = word_of_nat (g div 256) # word_of_nat (g mod 256) # bytes_of_groups gs"

text \<open>The first longest run of at least two zero groups: its start and its length.\<close>

definition zero_run :: "nat list \<Rightarrow> nat \<Rightarrow> nat" where
  "zero_run gs i = length (takeWhile (\<lambda>g. g = 0) (drop i gs))"

definition longest_run :: "nat list \<Rightarrow> (nat \<times> nat) option" where
  "longest_run gs =
     fold (\<lambda>i best. if zero_run gs i \<ge> 2 \<and> (case best of None \<Rightarrow> True | Some (_, n) \<Rightarrow> zero_run gs i > n)
                    then Some (i, zero_run gs i) else best)
       [0..<length gs] None"

definition ipv6_string :: "bytes \<Rightarrow> string" where
  "ipv6_string ip =
     (let gs = groups_of ip; hs = map hex_group gs
      in case longest_run gs of
           None \<Rightarrow> str_join hs '':''
         | Some (i, n) \<Rightarrow> str_join (take i hs) '':'' @ ''::'' @ str_join (drop (i + n) hs) '':'')"

definition ipv4_string :: "bytes \<Rightarrow> string" where
  "ipv4_string ip = str_join (map (\<lambda>b. dec_of_nat (unat b)) ip) ''.''"

text \<open>The IPv4-mapped prefix; \<^verbatim>\<open>IP.To4\<close>.\<close>

definition v4_in_v6_prefix :: bytes where
  "v4_in_v6_prefix = replicate 10 0 @ [0xff, 0xff]"

definition to4 :: "bytes \<Rightarrow> bytes option" where
  "to4 ip =
     (if length ip = 4 then Some ip
      else if length ip = 16 \<and> take 12 ip = v4_in_v6_prefix then Some (drop 12 ip)
      else None)"

text \<open>\<^verbatim>\<open>IP.String\<close> of an address of 0, 4 or 16 bytes.\<close>

definition ip_string :: "bytes \<Rightarrow> string" where
  "ip_string ip =
     (if ip = [] then ''<nil>''
      else case to4 ip of Some v4 \<Rightarrow> ipv4_string v4 | None \<Rightarrow> ipv6_string ip)"

section \<open>Parsing\<close>

definition ipv4_octet :: "string \<Rightarrow> 8 word option" where
  "ipv4_octet s =
     (if s = [] \<or> (length s > 1 \<and> hd s = CHR ''0'') then None
      else case parse_nat s of None \<Rightarrow> None | Some n \<Rightarrow> if n \<le> 255 then Some (word_of_nat n) else None)"

fun map_all :: "('a \<Rightarrow> 'b option) \<Rightarrow> 'a list \<Rightarrow> 'b list option" where
  "map_all f [] = Some []"
| "map_all f (x # xs) =
     (case f x of None \<Rightarrow> None | Some y \<Rightarrow> map_option ((#) y) (map_all f xs))"

definition parse_ipv4 :: "string \<Rightarrow> bytes option" where
  "parse_ipv4 s =
     (let parts = split_on (CHR ''.'') s
      in if length parts = 4 then map_all ipv4_octet parts else None)"

text \<open>A run of at most four hexadecimal digits, as its value, length and rest.\<close>

fun hex_run :: "nat \<Rightarrow> nat \<Rightarrow> string \<Rightarrow> (nat \<times> nat \<times> string) option" where
  "hex_run acc off [] = Some (acc, off, [])"
| "hex_run acc off (c # cs) =
     (case hex_val c of
        None \<Rightarrow> Some (acc, off, c # cs)
      | Some d \<Rightarrow> if off > 3 then None else hex_run (16 * acc + d) (Suc off) cs)"

text \<open>
  The loop of \<^verbatim>\<open>netip.parseIPv6\<close>: the groups read so far, the position of the ellipsis among
  them and the rest. The result is the list of bytes with the position of the ellipsis.
\<close>

function (sequential) parse6_loop :: "bytes \<Rightarrow> nat option \<Rightarrow> string \<Rightarrow> (bytes \<times> nat option) option" where
  "parse6_loop acc ell s =
     (if length acc \<ge> 16 then (if s = [] then Some (acc, ell) else None)
      else case hex_run 0 0 s of
        None \<Rightarrow> None
      | Some (g, off, rest) \<Rightarrow>
          if off = 0 then None
          else (case rest of
            [] \<Rightarrow> Some (acc @ bytes_of_groups [g], ell)
          | c # cs \<Rightarrow>
              if c = CHR ''.'' then
                (if ell = None \<and> length acc \<noteq> 12 then None
                 else if length acc + 4 > 16 then None
                 else map_option (\<lambda>v4. (acc @ v4, ell)) (parse_ipv4 s))
              else if c \<noteq> CHR '':'' then None
              else (case cs of
                [] \<Rightarrow> None
              | d # ds \<Rightarrow>
                  if d = CHR '':'' then
                    (if ell \<noteq> None then None
                     else if ds = [] then Some (acc @ bytes_of_groups [g], Some (length acc + 2))
                     else parse6_loop (acc @ bytes_of_groups [g]) (Some (length acc + 2)) ds)
                  else parse6_loop (acc @ bytes_of_groups [g]) ell (d # ds))))"
  by pat_completeness auto
termination
  by (relation "measure (\<lambda>(acc, ell, s). 16 - length acc)") auto

declare parse6_loop.simps [simp del]

text \<open>Expanding the ellipsis to at least one zero group.\<close>

definition expand_ellipsis :: "bytes \<times> nat option \<Rightarrow> bytes option" where
  "expand_ellipsis = (\<lambda>(acc, ell).
     if length acc < 16 then
       (case ell of
          None \<Rightarrow> None
        | Some i \<Rightarrow> Some (take i acc @ replicate (16 - length acc) 0 @ drop i acc))
     else if ell = None then Some acc else None)"

definition parse_ipv6 :: "string \<Rightarrow> bytes option" where
  "parse_ipv6 s =
     (if prefix ''::'' s then
        (if drop 2 s = [] then Some (replicate 16 0)
         else Option.bind (parse6_loop [] (Some 0) (drop 2 s)) expand_ellipsis)
      else Option.bind (parse6_loop [] None s) expand_ellipsis)"

text \<open>\<^verbatim>\<open>netip.ParseAddr\<close> without zones: the first of \<open>.\<close>, \<open>:\<close> and \<open>%\<close> decides.\<close>

definition parse_addr :: "string \<Rightarrow> bytes option" where
  "parse_addr s =
     (case filter (\<lambda>c. c \<in> {CHR ''.'', CHR '':'', CHR ''%''}) s of
        [] \<Rightarrow> None
      | c # _ \<Rightarrow>
          if c = CHR ''.'' then parse_ipv4 s
          else if c = CHR '':'' then (if CHR ''%'' \<in> set s then None else parse_ipv6 s)
          else None)"

text \<open>\<^verbatim>\<open>net.ParseCIDR\<close>: the address (in 16-byte form) and the length of the prefix.\<close>

definition parse_cidr :: "string \<Rightarrow> (bytes \<times> nat) option" where
  "parse_cidr s =
     (case str_cut s (CHR ''/'') of
        None \<Rightarrow> None
      | Some (addr, bits) \<Rightarrow>
          (case (parse_addr addr, parse_nat bits) of
             (Some ip, Some n) \<Rightarrow>
               if n \<le> 8 * length ip then Some (if length ip = 4 then v4_in_v6_prefix @ ip else ip, n)
               else None
           | _ \<Rightarrow> None))"

text \<open>\<^verbatim>\<open>IP.IsLinkLocalUnicast\<close>.\<close>

definition is_link_local_unicast :: "bytes \<Rightarrow> bool" where
  "is_link_local_unicast ip =
     (case to4 ip of
        Some v4 \<Rightarrow> v4 ! 0 = 169 \<and> v4 ! 1 = 254
      | None \<Rightarrow> length ip = 16 \<and> ip ! 0 = 0xfe \<and> ip ! 1 AND 0xc0 = 0x80)"

section \<open>MAC addresses round-trip\<close>

lemma hex_byte_roundtrip:
  "xtoi2 (hex_byte b @ rest) sep =
     (case (rest, sep) of
        ([], _) \<Rightarrow> Some (b, [])
      | (c # cs, Some e) \<Rightarrow> if c = e then Some (b, cs) else None
      | (c # cs, None) \<Rightarrow> Some (b, c # cs))"
proof -
  have "unat b < 256" using unsigned_less [of b, where ?'a = nat] by simp
  then have "hex_val (hex_char (unat b div 16)) = Some (unat b div 16)"
    and "hex_val (hex_char (unat b mod 16)) = Some (unat b mod 16)"
    by (auto intro: hex_val_char)
  moreover have "word_of_nat (16 * (unat b div 16) + unat b mod 16) = b"
    by simp
  ultimately show ?thesis by (simp add: hex_byte_def split: list.splits option.splits)
qed

lemma mac_string_simps [simp]:
  "mac_string [] = []" "mac_string [b] = hex_byte b"
  "mac_string (b # c # hw) = hex_byte b @ CHR '':'' # mac_string (c # hw)"
  by (simp_all add: mac_string_def)

lemma length_hex_byte [simp]: "length (hex_byte b) = 2"
  by (simp add: hex_byte_def)

lemma mac_pairs_mac_string: "mac_pairs (length hw) (CHR '':'') (mac_string hw) = Some hw"
proof (induction hw)
  case (Cons b hw)
  then show ?case
    using hex_byte_roundtrip [of b "[]" "Some (CHR '':'')"] hex_byte_roundtrip [of b _ "Some (CHR '':'')"]
    by (cases hw) auto
qed simp

lemma length_mac_string: "hw \<noteq> [] \<Longrightarrow> length (mac_string hw) + 1 = 3 * length hw"
proof (induction hw)
  case (Cons b hw)
  then show ?case by (cases hw) auto
qed simp

lemma mac_string_sep: "length hw \<ge> 2 \<Longrightarrow> mac_string hw ! 2 = CHR '':''"
  by (cases hw; cases "tl hw") (auto simp: nth_append)

lemma parse_mac_mac_string:
  assumes "mac_len_ok (length hw)"
  shows "parse_mac (mac_string hw) = Some hw"
proof -
  have "length hw \<ge> 6" using assms by (auto simp: mac_len_ok_def)
  then have "hw \<noteq> []" by auto
  with \<open>length hw \<ge> 6\<close> have "length (mac_string hw) + 1 = 3 * length hw" and "mac_string hw ! 2 = CHR '':''"
    using length_mac_string [of hw] mac_string_sep [of hw] by auto
  with assms \<open>length hw \<ge> 6\<close> show ?thesis
    by (simp add: parse_mac_def mac_pairs_mac_string)
qed

section \<open>Link-local addresses\<close>

text \<open>The EUI-64 of a MAC: six bytes get \<open>ff:fe\<close> in the middle.\<close>

definition eui64 :: "bytes \<Rightarrow> bytes" where
  "eui64 hw = (if length hw = 6 then take 3 hw @ [0xff, 0xfe] @ drop 3 hw else hw)"

lemma link_local_eui64:
  assumes "length hw = 6 \<or> length hw = 8"
  shows "link_local_ipv6_from_mac hw =
           Inr ([0xfe, 0x80, 0, 0, 0, 0, 0, 0] @ (eui64 hw)[0 := eui64 hw ! 0 XOR 0x02])"
proof -
  have "hw = map ((!) hw) [0..<length hw]" by (simp add: map_nth)
  then show ?thesis using assms
    by (auto simp: link_local_ipv6_from_mac_def eui64_def Let_def nth_append list_update_append
        numeral_eq_Suc upt_rec length_Suc_conv)
qed

lemma link_local_length: "link_local_ipv6_from_mac hw = Inr ip \<Longrightarrow> length ip = 16"
  by (auto simp: link_local_ipv6_from_mac_def Let_def split: if_splits)

lemma flip_inj: "length xs > 0 \<Longrightarrow> length ys > 0 \<Longrightarrow>
    xs[0 := xs ! 0 XOR (b::8 word)] = ys[0 := ys ! 0 XOR b] \<longleftrightarrow> xs = ys"
  by (cases xs; cases ys) (auto simp: bit_eq_iff bit_simps)

lemma length_eui64: "length hw = 6 \<or> length hw = 8 \<Longrightarrow> length (eui64 hw) = 8"
  by (auto simp: eui64_def)

lemma link_local_is_link_local:
  assumes "link_local_ipv6_from_mac hw = Inr ip"
  shows "is_link_local_unicast ip \<and> to4 ip = None"
proof -
  have hw: "length hw = 6 \<or> length hw = 8"
    using assms by (auto simp: link_local_ipv6_from_mac_def split: if_splits)
  then have ip: "ip = [0xfe, 0x80, 0, 0, 0, 0, 0, 0] @ (eui64 hw)[0 := eui64 hw ! 0 XOR 0x02]"
    using assms link_local_eui64 by simp
  have "hd (take 12 ip) \<noteq> hd v4_in_v6_prefix" by (simp add: ip v4_in_v6_prefix_def)
  then have "take 12 ip \<noteq> v4_in_v6_prefix" by metis
  moreover have "length ip = 16" using assms by (rule link_local_length)
  ultimately have "to4 ip = None" by (simp add: to4_def)
  with hw ip show ?thesis by (simp add: is_link_local_unicast_def length_eui64)
qed

section \<open>An IPv6 address round-trips\<close>

definition stops_hex :: "string \<Rightarrow> bool" where
  "stops_hex s \<longleftrightarrow> (case s of [] \<Rightarrow> True | c # _ \<Rightarrow> hex_val c = None)"

lemma hex_run_stop: "stops_hex s \<Longrightarrow> hex_run acc off s = Some (acc, off, s)"
  by (cases s) (auto simp: stops_hex_def)

lemma hex_run_group:
  assumes "g < 65536" and "stops_hex rest"
  shows "hex_run 0 0 (hex_group g @ rest) = Some (g, length (hex_group g), rest)"
proof -
  have "g div 16 < 16" if "g < 256" using that by simp
  moreover have "g div 256 < 16" if "g < 4096" using that by simp
  moreover have "16 * (g div 256) + g div 16 mod 16 = g div 16"
  proof -
    have "g div 256 = g div 16 div 16" by (simp add: div_mult2_eq [symmetric])
    then show ?thesis by simp
  qed
  moreover have "16 * (g div 4096) + g div 256 mod 16 = g div 256"
  proof -
    have "g div 4096 = g div 256 div 16" by (simp add: div_mult2_eq [symmetric])
    then show ?thesis by simp
  qed
  moreover have "g div 4096 mod 16 = g div 4096" and "g div 4096 < 16" using assms(1) by simp_all
  ultimately show ?thesis
    using assms(2) by (auto simp: hex_group_def hex_val_char hex_run_stop)
qed

lemma hex_group_ne [simp]: "hex_group g \<noteq> []"
  by (simp add: hex_group_def)

lemma bytes_of_groups_append [simp]: "bytes_of_groups (gs @ hs) = bytes_of_groups gs @ bytes_of_groups hs"
  by (induction gs) auto

lemma length_bytes_of_groups [simp]: "length (bytes_of_groups gs) = 2 * length gs"
  by (induction gs) auto

lemma length_groups_of: "length (groups_of ip) = length ip div 2"
  by (induction ip rule: groups_of.induct) auto

lemma bytes_of_groups_of: "even (length ip) \<Longrightarrow> bytes_of_groups (groups_of ip) = ip"
proof (induction ip rule: groups_of.induct)
  case (1 a b rest)
  have "unat b < 256" using unsigned_less [of b, where ?'a = nat] by simp
  with 1 show ?case by simp
qed auto

lemma groups_of_small: "g \<in> set (groups_of ip) \<Longrightarrow> g < 65536"
proof (induction ip rule: groups_of.induct)
  case (1 a b rest)
  have "unat a < 256" "unat b < 256"
    using unsigned_less [of a, where ?'a = nat] unsigned_less [of b, where ?'a = nat] by simp_all
  with 1 show ?case by auto
qed auto

abbreviation groups_string :: "nat list \<Rightarrow> string" where
  "groups_string gs \<equiv> str_join (map hex_group gs) '':''"

lemma hex_group_hd: "hex_group g = c # cs \<Longrightarrow> g < 65536 \<Longrightarrow> hex_val c \<noteq> None"
  using hex_run_group [of g "[]"] by (auto simp: stops_hex_def hex_val_char hex_group_def split: if_splits)

lemma groups_string_Cons:
  "gs \<noteq> [] \<Longrightarrow> groups_string (g # gs) = hex_group g @ CHR '':'' # groups_string gs"
  by (cases gs) auto

lemma groups_string_hd:
  assumes "gs \<noteq> []" and "\<forall>g \<in> set gs. g < 65536"
  shows "\<exists>c cs. groups_string gs @ rest = c # cs \<and> hex_val c \<noteq> None \<and> c \<noteq> CHR '':''"
proof -
  obtain g gs' where gs: "gs = g # gs'" using assms(1) by (cases gs) auto
  obtain c cs where c: "hex_group g = c # cs" using hex_group_ne by (meson list.exhaust)
  then have "hex_val c \<noteq> None" using hex_group_hd gs assms(2) by auto
  then have "c \<noteq> CHR '':''" by (auto simp: hex_val_def)
  with c gs \<open>hex_val c \<noteq> None\<close> show ?thesis by (cases gs') auto
qed

text \<open>Reading the groups printed by \<^verbatim>\<open>String\<close>, up to the end or up to the ellipsis.\<close>

lemma parse6_group_last:
  assumes "g < 65536" and "length acc < 16"
  shows "parse6_loop acc ell (hex_group g) = Some (acc @ bytes_of_groups [g], ell)"
  using assms hex_run_group [of g "[]"]
  by (subst parse6_loop.simps) (simp add: stops_hex_def)

lemma parse6_group_colon:
  assumes "g < 65536" and "length acc < 16" and "\<exists>c cs. s = c # cs \<and> c \<noteq> CHR '':''"
  shows "parse6_loop acc ell (hex_group g @ CHR '':'' # s) = parse6_loop (acc @ bytes_of_groups [g]) ell s"
  using assms hex_run_group [of g "CHR '':'' # s"]
  by (subst parse6_loop.simps) (auto simp: stops_hex_def hex_val_def)

lemma parse6_group_ellipsis:
  assumes "g < 65536" and "length acc < 16"
  shows "parse6_loop acc None (hex_group g @ ''::'' @ s) =
           (if s = [] then Some (acc @ bytes_of_groups [g], Some (length acc + 2))
            else parse6_loop (acc @ bytes_of_groups [g]) (Some (length acc + 2)) s)"
  using assms hex_run_group [of g "''::'' @ s"]
  by (subst parse6_loop.simps) (auto simp: stops_hex_def hex_val_def)

lemma parse6_groups:
  assumes "gs \<noteq> []" and "\<forall>g \<in> set gs. g < 65536" and "length acc + 2 * length gs \<le> 16"
  shows "parse6_loop acc ell (groups_string gs) = Some (acc @ bytes_of_groups gs, ell)"
  using assms
proof (induction gs arbitrary: acc)
  case (Cons g gs)
  show ?case
  proof (cases "gs = []")
    case True
    with Cons.prems show ?thesis by (simp add: parse6_group_last)
  next
    case False
    then have "\<exists>c cs. groups_string gs = c # cs \<and> c \<noteq> CHR '':''"
      using groups_string_hd [of gs "[]"] Cons.prems by auto
    then have "parse6_loop acc ell (groups_string (g # gs)) =
        parse6_loop (acc @ bytes_of_groups [g]) ell (groups_string gs)"
      unfolding groups_string_Cons [OF False] using Cons.prems
      by (intro parse6_group_colon) auto
    with Cons.IH [of "acc @ bytes_of_groups [g]"] False Cons.prems show ?thesis by simp
  qed
qed simp

lemma parse6_groups_ellipsis:
  assumes "gs \<noteq> []" and "\<forall>g \<in> set gs. g < 65536" and "length acc + 2 * length gs \<le> 16"
  shows "parse6_loop acc None (groups_string gs @ ''::'' @ s) =
           (if s = [] then Some (acc @ bytes_of_groups gs, Some (length acc + 2 * length gs))
            else parse6_loop (acc @ bytes_of_groups gs) (Some (length acc + 2 * length gs)) s)"
  using assms
proof (induction gs arbitrary: acc)
  case (Cons g gs)
  show ?case
  proof (cases "gs = []")
    case True
    with Cons.prems show ?thesis using parse6_group_ellipsis [of g acc s] by simp
  next
    case False
    then have "\<exists>c cs. groups_string gs @ ''::'' @ s = c # cs \<and> c \<noteq> CHR '':''"
      using groups_string_hd [of gs "''::'' @ s"] Cons.prems by auto
    then have "parse6_loop acc None (groups_string (g # gs) @ ''::'' @ s) =
        parse6_loop (acc @ bytes_of_groups [g]) None (groups_string gs @ ''::'' @ s)"
      unfolding groups_string_Cons [OF False] using Cons.prems
      by (simp del: bytes_of_groups.simps) (intro parse6_group_colon, auto)
    with Cons.IH [of "acc @ bytes_of_groups [g]"] False Cons.prems show ?thesis by simp
  qed
qed simp

text \<open>The run that is left out consists of zeros.\<close>

lemma fold_longest_run:
  assumes "\<forall>i \<in> set is. i < length gs"
    and "case best of None \<Rightarrow> True | Some (i, n) \<Rightarrow> i < length gs \<and> n = zero_run gs i \<and> n \<ge> 2"
  shows "case fold (\<lambda>i best. if zero_run gs i \<ge> 2 \<and> (case best of None \<Rightarrow> True | Some (_, n) \<Rightarrow> zero_run gs i > n)
                    then Some (i, zero_run gs i) else best) is best of
           None \<Rightarrow> True | Some (i, n) \<Rightarrow> i < length gs \<and> n = zero_run gs i \<and> n \<ge> 2"
  using assms
  by (induction "is" arbitrary: best) auto

lemma longest_run_Some:
  assumes "longest_run gs = Some (i, n)"
  shows "i < length gs" and "n = zero_run gs i" and "n \<ge> 2"
  using fold_longest_run [of "[0..<length gs]" gs None] assms by (simp_all add: longest_run_def)

lemma zero_run_split:
  assumes "n = zero_run gs i"
  shows "gs = take i gs @ replicate n 0 @ drop (i + n) gs" and "n \<le> length gs - i"
proof -
  let ?d = "drop i gs"
  have "takeWhile (\<lambda>g. g = 0) ?d = replicate (length (takeWhile (\<lambda>g. g = 0) ?d)) 0"
    by (rule replicate_length_same [symmetric]) (auto dest: set_takeWhileD)
  then have "takeWhile (\<lambda>g. g = 0) ?d = replicate n 0"
    using assms by (simp only: zero_run_def)
  moreover have "dropWhile (\<lambda>g. g = 0) ?d = drop n ?d"
    using assms unfolding zero_run_def by (simp add: dropWhile_eq_drop)
  ultimately have "?d = replicate n 0 @ drop (i + n) gs"
    by (metis add.commute drop_drop takeWhile_dropWhile_id)
  then show "gs = take i gs @ replicate n 0 @ drop (i + n) gs" by (metis append_take_drop_id)
  show "n \<le> length gs - i"
    using assms length_takeWhile_le [of _ ?d] by (simp add: zero_run_def)
qed

lemma bytes_of_groups_zeros: "bytes_of_groups (replicate n 0) = replicate (2 * n) 0"
  by (induction n) auto

lemma parse_groups_ellipsis:
  assumes "\<forall>g \<in> set (gs @ hs). g < 65536" and "length gs + length hs < 8"
  shows "parse_ipv6 (groups_string gs @ ''::'' @ groups_string hs) =
           Some (bytes_of_groups gs @ replicate (16 - 2 * (length gs + length hs)) 0 @ bytes_of_groups hs)"
proof (cases "gs = []")
  case True
  have ne: "groups_string hs \<noteq> []" if "hs \<noteq> []"
    using groups_string_hd [of hs "[]"] that assms by auto
  show ?thesis
  proof (cases "hs = []")
    case True
    with \<open>gs = []\<close> show ?thesis by (simp add: parse_ipv6_def)
  next
    case False
    with ne parse6_groups [OF False, of "[]" "Some 0"] \<open>gs = []\<close> assms show ?thesis
      by (simp add: parse_ipv6_def expand_ellipsis_def)
  qed
next
  case False
  obtain c cs where "groups_string gs @ ''::'' @ groups_string hs = c # cs" "c \<noteq> CHR '':''"
    using groups_string_hd [OF False, of "''::'' @ groups_string hs"] assms by auto
  then have no: "\<not> prefix ''::'' (groups_string gs @ ''::'' @ groups_string hs)" by auto
  have first: "parse6_loop [] None (groups_string gs @ ''::'' @ groups_string hs) =
      (if groups_string hs = [] then Some (bytes_of_groups gs, Some (2 * length gs))
       else parse6_loop (bytes_of_groups gs) (Some (2 * length gs)) (groups_string hs))"
    using parse6_groups_ellipsis [OF False, of "[]"] assms by simp
  show ?thesis
  proof (cases "hs = []")
    case True
    with first no assms show ?thesis by (simp add: parse_ipv6_def expand_ellipsis_def)
  next
    case hs: False
    then have "groups_string hs \<noteq> []" using groups_string_hd [of hs "[]"] assms by auto
    with first no assms parse6_groups [OF hs, of "bytes_of_groups gs"] show ?thesis
      by (simp add: parse_ipv6_def expand_ellipsis_def)
  qed
qed

lemma parse_ipv6_string:
  assumes "length ip = 16"
  shows "parse_ipv6 (ipv6_string ip) = Some ip"
proof -
  let ?gs = "groups_of ip"
  have len: "length ?gs = 8" using assms by (simp add: length_groups_of)
  then have ne: "?gs \<noteq> []" by auto
  have small: "\<forall>g \<in> set ?gs. g < 65536" by (auto dest: groups_of_small)
  have bytes: "bytes_of_groups ?gs = ip" using assms by (simp add: bytes_of_groups_of)
  show ?thesis
  proof (cases "longest_run ?gs")
    case None
    obtain c cs where "groups_string ?gs = c # cs" "c \<noteq> CHR '':''"
      using groups_string_hd [OF ne small, of "[]"] by auto
    with None parse6_groups [OF ne small, of "[]" None] len bytes assms show ?thesis
      by (simp add: ipv6_string_def Let_def parse_ipv6_def expand_ellipsis_def)
  next
    case (Some run)
    then obtain i n where run: "longest_run ?gs = Some (i, n)" by (cases run) auto
    note props = longest_run_Some [OF run]
    note split = zero_run_split [OF props(2)]
    have "parse_ipv6 (ipv6_string ip) =
        parse_ipv6 (groups_string (take i ?gs) @ ''::'' @ groups_string (drop (i + n) ?gs))"
      using run by (simp add: ipv6_string_def Let_def take_map drop_map)
    also have "\<dots> = Some (bytes_of_groups (take i ?gs) @
        replicate (16 - 2 * (length (take i ?gs) + length (drop (i + n) ?gs))) 0 @
        bytes_of_groups (drop (i + n) ?gs))"
      using small len props split(2) by (intro parse_groups_ellipsis) (auto dest: in_set_takeD in_set_dropD)
    also have "16 - 2 * (length (take i ?gs) + length (drop (i + n) ?gs)) = 2 * n"
      using len props split(2) by simp
    also have "bytes_of_groups (take i ?gs) @ replicate (2 * n) 0 @ bytes_of_groups (drop (i + n) ?gs) =
        bytes_of_groups (take i ?gs @ replicate n 0 @ drop (i + n) ?gs)"
      by (simp add: bytes_of_groups_zeros)
    also have "\<dots> = ip" using split(1) bytes by simp
    finally show ?thesis .
  qed
qed

section \<open>The prefix the resources configure reads back\<close>

lemma hex_group_chars: "c \<in> set (hex_group g) \<Longrightarrow> g < 65536 \<Longrightarrow> hex_val c \<noteq> None"
  by (auto simp: hex_group_def hex_val_char split: if_splits)

lemma groups_string_chars:
  "c \<in> set (groups_string gs) \<Longrightarrow> \<forall>g \<in> set gs. g < 65536 \<Longrightarrow> c = CHR '':'' \<or> hex_val c \<noteq> None"
proof (induction gs)
  case (Cons g gs)
  then show ?case using hex_group_chars [of c g] by (cases gs) auto
qed simp

lemma ipv6_string_chars:
  assumes "c \<in> set (ipv6_string ip)"
  shows "c = CHR '':'' \<or> hex_val c \<noteq> None"
proof -
  have "\<forall>g \<in> set (groups_of ip). g < 65536" by (auto dest: groups_of_small)
  then have "\<forall>g \<in> set (take i (groups_of ip)). g < 65536" "\<forall>g \<in> set (drop i (groups_of ip)). g < 65536" for i
    by (auto dest: in_set_takeD in_set_dropD)
  with assms \<open>\<forall>g \<in> set (groups_of ip). g < 65536\<close> show ?thesis
    by (auto simp: ipv6_string_def Let_def take_map drop_map dest!: groups_string_chars
        split: option.splits prod.splits)
qed

lemma ipv6_string_colon:
  assumes "length ip = 16"
  shows "CHR '':'' \<in> set (ipv6_string ip)"
proof (cases "longest_run (groups_of ip)")
  case None
  have "length (groups_of ip) = 8" using assms by (simp add: length_groups_of)
  then obtain g h gs where "groups_of ip = g # h # gs"
    by (auto simp: numeral_eq_Suc length_Suc_conv)
  with None show ?thesis by (simp add: ipv6_string_def Let_def)
next
  case (Some run)
  then show ?thesis by (cases run) (simp add: ipv6_string_def Let_def)
qed

lemma parse_addr_ipv6_string:
  assumes "length ip = 16"
  shows "parse_addr (ipv6_string ip) = Some ip"
proof -
  let ?s = "ipv6_string ip"
  let ?f = "filter (\<lambda>c. c \<in> {CHR ''.'', CHR '':'', CHR ''%''}) ?s"
  have others: "CHR ''.'' \<notin> set ?s" "CHR ''%'' \<notin> set ?s"
    using ipv6_string_chars [of "CHR ''.''" ip] ipv6_string_chars [of "CHR ''%''" ip]
    by (auto simp: hex_val_def)
  have "?f \<noteq> []" using ipv6_string_colon [OF assms] by (auto simp: filter_empty_conv)
  then obtain c cs where f: "?f = c # cs" by (meson list.exhaust)
  then have "c \<in> set ?f" by simp
  then have "c = CHR '':''" using others by auto
  with f others parse_ipv6_string [OF assms] show ?thesis by (simp add: parse_addr_def)
qed

lemma ipv6_string_no_slash: "CHR ''/'' \<notin> set (ipv6_string ip)"
  using ipv6_string_chars [of "CHR ''/''" ip] by (auto simp: hex_val_def)

lemma parse_cidr_ipv6_string:
  assumes "length ip = 16" and "n \<le> 128"
  shows "parse_cidr (ipv6_string ip @ ''/'' @ dec_of_nat n) = Some (ip, n)"
  using assms by (simp add: parse_cidr_def str_cut_app ipv6_string_no_slash parse_addr_ipv6_string)

lemma parse_link_local_cidr:
  assumes "link_local_ipv6_from_mac hw = Inr ip"
  shows "parse_cidr (ip_string ip @ ''/64'') = Some (ip, 64)"
proof -
  have "length ip = 16" using assms by (rule link_local_length)
  moreover have "to4 ip = None" using link_local_is_link_local [OF assms] by simp
  moreover have "dec_of_nat 64 = ''64''" by code_simp
  ultimately show ?thesis
    using parse_cidr_ipv6_string [of ip 64] by (auto simp: ip_string_def)
qed

section \<open>Properties\<close>

text \<open>Two MAC addresses get the same link-local address exactly when their EUI-64 are the same.\<close>

theorem link_local_injective:
  assumes "length hw = 6 \<or> length hw = 8" and "length hw' = 6 \<or> length hw' = 8"
  shows "link_local_ipv6_from_mac hw = link_local_ipv6_from_mac hw' \<longleftrightarrow> eui64 hw = eui64 hw'"
  unfolding link_local_eui64 [OF assms(1)] link_local_eui64 [OF assms(2)]
  using length_eui64 [OF assms(1)] length_eui64 [OF assms(2)]
  by (simp add: flip_inj)

theorem link_local_injective_witness:
  "link_local_ipv6_from_mac [2, 0, 0, 0, 0, 1] = link_local_ipv6_from_mac [2, 0, 0, 0, 0, 2] \<longleftrightarrow>
   eui64 [2, 0, 0, 0, 0, 1] = eui64 [2, 0, 0, 0, 0, 2]"
  by (rule link_local_injective) simp_all

text \<open>The address that is computed from a MAC is link-local, and its CIDR text, as it is handed to \<^verbatim>\<open>ip\<close>, is
  read back as that address with a 64-bit prefix.\<close>

theorem link_local_cidr:
  assumes "link_local_ipv6_from_mac hw = Inr ip"
  shows "is_link_local_unicast ip \<and> parse_cidr (ip_string ip @ ''/64'') = Some (ip, 64)"
  using link_local_is_link_local [OF assms] parse_link_local_cidr [OF assms] by simp

theorem link_local_cidr_witness:
  "is_link_local_unicast [0xfe, 0x80, 0, 0, 0, 0, 0, 0, 0, 0, 0, 0xff, 0xfe, 0, 0, 1] \<and>
   parse_cidr (ip_string [0xfe, 0x80, 0, 0, 0, 0, 0, 0, 0, 0, 0, 0xff, 0xfe, 0, 0, 1] @ ''/64'') =
     Some ([0xfe, 0x80, 0, 0, 0, 0, 0, 0, 0, 0, 0, 0xff, 0xfe, 0, 0, 1], 64)"
  by (rule link_local_cidr [of "[2, 0, 0, 0, 0, 1]"]) (simp add: link_local_ipv6_from_mac_def)

end
