(* ===== verification/Provider_Conf.thy ===== *)
theory Provider_Conf
  imports Executor Go_Path Net_Addr
begin

text \<open>
  What every resource of \<^verbatim>\<open>internal/provider\<close> shares: the provider configuration
  (\<^verbatim>\<open>ZedAmigoProviderConfig\<close>), the calls to the machine Terraform runs on (random bytes,
  working directory, clock), the identifier and the back-pointer file of a resource, and how a
  handler reports: it stops with diagnostics or goes on.
\<close>

section \<open>Configuration\<close>

record 'w provider_conf =
  pc_target :: string
  pc_target_os :: string
  pc_target_arch :: string
  pc_lib_path :: string
  pc_use_sudo :: bool
  pc_sudo :: string
  pc_qemu_img :: string
  pc_docker :: string
  pc_swtpm :: string
  pc_bash :: string
  pc_flock :: string
  pc_gen_iso_image :: string
  pc_ip :: string
  pc_exec :: "'w executor"

text \<open>
  The controller's side: \<^verbatim>\<open>crypto/rand\<close>, \<^verbatim>\<open>os.Getwd\<close>, the clock (nanoseconds), sleeping and
  \<^verbatim>\<open>rand.Uint32N\<close>.
  \<open>ct_conv\<close> is the diagnostics with which the framework refuses to convert a set with null or
  unknown elements.
\<close>

record 'w controller =
  ct_rand4 :: "('w, goerr + bytes) state"
  ct_getwd :: "('w, goerr + string) state"
  ct_now :: "('w, int) state"
  ct_sleep :: "int \<Rightarrow> ('w, unit) state"
  ct_uint32n :: "nat \<Rightarrow> ('w, nat) state"
  ct_conv :: diagnostics

text \<open>The executor of a configuration, logging its calls; the controller beside the log.\<close>

definition traced_conf :: "'w provider_conf \<Rightarrow> ('w \<times> call list) provider_conf" where
  "traced_conf conf =
     \<lparr>pc_target = pc_target conf, pc_target_os = pc_target_os conf, pc_target_arch = pc_target_arch conf,
      pc_lib_path = pc_lib_path conf, pc_use_sudo = pc_use_sudo conf, pc_sudo = pc_sudo conf,
      pc_qemu_img = pc_qemu_img conf, pc_docker = pc_docker conf, pc_swtpm = pc_swtpm conf,
      pc_bash = pc_bash conf, pc_flock = pc_flock conf, pc_gen_iso_image = pc_gen_iso_image conf,
      pc_ip = pc_ip conf, pc_exec = traced (pc_exec conf)\<rparr>"

lemma traced_conf_simps [simp, run_simps]:
  "pc_target (traced_conf conf) = pc_target conf" "pc_target_os (traced_conf conf) = pc_target_os conf"
  "pc_target_arch (traced_conf conf) = pc_target_arch conf" "pc_lib_path (traced_conf conf) = pc_lib_path conf"
  "pc_use_sudo (traced_conf conf) = pc_use_sudo conf" "pc_sudo (traced_conf conf) = pc_sudo conf"
  "pc_bash (traced_conf conf) = pc_bash conf" "pc_flock (traced_conf conf) = pc_flock conf"
  "pc_ip (traced_conf conf) = pc_ip conf" "pc_exec (traced_conf conf) = traced (pc_exec conf)"
  by (simp_all add: traced_conf_def)

definition unlogged :: "('w, 'a) state \<Rightarrow> ('w \<times> 'c list, 'a) state" where
  "unlogged m = State (\<lambda>(w, h). let (r, w') = run_state m w in (r, (w', h)))"

lemma run_unlogged [run_simps, simp]:
  "run_state (unlogged m) (w, h) = (let (r, w') = run_state m w in (r, (w', h)))"
  by (simp add: unlogged_def)

definition traced_controller :: "'w controller \<Rightarrow> ('w \<times> call list) controller" where
  "traced_controller ct =
     \<lparr>ct_rand4 = unlogged (ct_rand4 ct), ct_getwd = unlogged (ct_getwd ct), ct_now = unlogged (ct_now ct),
      ct_sleep = (\<lambda>t. unlogged (ct_sleep ct t)), ct_uint32n = (\<lambda>n. unlogged (ct_uint32n ct n)),
      ct_conv = ct_conv ct\<rparr>"

lemma traced_controller_simps [simp, run_simps]:
  "ct_rand4 (traced_controller ct) = unlogged (ct_rand4 ct)"
  "ct_getwd (traced_controller ct) = unlogged (ct_getwd ct)"
  "ct_now (traced_controller ct) = unlogged (ct_now ct)"
  "ct_sleep (traced_controller ct) t = unlogged (ct_sleep ct t)"
  "ct_uint32n (traced_controller ct) n = unlogged (ct_uint32n ct n)"
  "ct_conv (traced_controller ct) = ct_conv ct"
  by (simp_all add: traced_controller_def)

section \<open>Handlers\<close>

text \<open>
  A handler that adds an error diagnostic returns at once: it fails with the diagnostics it has
  added. \<open>orE m e\<close> runs a call whose error becomes diagnostics.
\<close>

type_synonym ('w, 'a) handler = "('w, diagnostics + 'a) state"

definition orE :: "('w, goerr option) state \<Rightarrow> (goerr \<Rightarrow> diagnostics) \<Rightarrow> ('w, unit) handler" where
  "orE m f = do { r \<leftarrow> m; case r of None \<Rightarrow> okE () | Some e \<Rightarrow> failE (f e) }"

definition mapE :: "('e \<Rightarrow> 'f) \<Rightarrow> ('w, 'e + 'a) state \<Rightarrow> ('w, 'f + 'a) state" where
  "mapE f m = do { r \<leftarrow> m; case r of Inl e \<Rightarrow> failE (f e) | Inr x \<Rightarrow> okE x }"

lemma run_orE [run_simps, simp]:
  "run_state (orE m f) w =
     (case run_state m w of (None, w') \<Rightarrow> (Inr (), w') | (Some e, w') \<Rightarrow> (Inl (f e), w'))"
  by (auto simp: orE_def split: prod.splits option.splits)

lemma run_mapE [run_simps, simp]:
  "run_state (mapE f m) w =
     (case run_state m w of (Inl e, w') \<Rightarrow> (Inl (f e), w') | (Inr x, w') \<Rightarrow> (Inr x, w'))"
  by (auto simp: mapE_def split: prod.splits sum.splits)

lemma emits_orE [emits_intros]: "emits (orE (log_call c m) f) [c]"
  unfolding orE_def by (rule emits_log_call) (auto simp: emits_def split: option.splits)

lemma emits_mapE [emits_intros]: "emits m cs \<Longrightarrow> emits (mapE f m) cs"
  by (fastforce simp: emits_def split: sum.splits prod.splits)

lemma emits_unlogged [emits_intros]: "emits (unlogged m) []"
  by (auto simp: emits_def split: prod.splits sum.splits)

section \<open>Identifiers and back pointers\<close>

text \<open>\<^verbatim>\<open>newResourceID\<close>: four random bytes in hexadecimal.\<close>

definition new_resource_id :: "'w controller \<Rightarrow> ('w, goerr + string) state" where
  "new_resource_id ct = bindE (ct_rand4 ct) (\<lambda>b. okE (concat (map hex_byte b)))"

text \<open>\<^verbatim>\<open>createTFBackPointer\<close>: the local working directory, written on the target.\<close>

definition create_tf_back_pointer :: "'w controller \<Rightarrow> 'w executor \<Rightarrow> string \<Rightarrow> ('w, goerr option) state" where
  "create_tf_back_pointer ct ex dir = do {
     r \<leftarrow> ct_getwd ct;
     case r of
       Inl e \<Rightarrow> State_Monad.return (Some (wrapf ''createTFBackPointer: '' e))
     | Inr wd \<Rightarrow> do {
     e1 \<leftarrow> ex_write_file ex (path_join [dir, ''config_source_dir.tf'']) (''# '' @ wd) mode_640;
     case e1 of
       Some e \<Rightarrow> State_Monad.return (Some (wrapf ''createTFBackPointer: '' e))
     | None \<Rightarrow> State_Monad.return None } }"

section \<open>Quoting\<close>

text \<open>\<^verbatim>\<open>%q\<close> of a string whose non-ASCII part is printable.\<close>

definition quote_char :: "char \<Rightarrow> string" where
  "quote_char c =
     (let n = of_char c :: nat
      in if c = CHR 0x22 then [CHR 0x5C, c] else if c = CHR 0x5C then [c, c]
         else if n = 7 then [CHR 0x5C, CHR ''a''] else if n = 8 then [CHR 0x5C, CHR ''b'']
         else if n = 9 then [CHR 0x5C, CHR ''t''] else if n = 10 then [CHR 0x5C, CHR ''n'']
         else if n = 11 then [CHR 0x5C, CHR ''v''] else if n = 12 then [CHR 0x5C, CHR ''f'']
         else if n = 13 then [CHR 0x5C, CHR ''r'']
         else if n < 32 \<or> n = 127 then [CHR 0x5C, CHR ''x'', hex_char (n div 16), hex_char (n mod 16)]
         else [c])"

definition go_quote :: "string \<Rightarrow> string" where
  "go_quote s = [CHR 0x22] @ concat (map quote_char s) @ [CHR 0x22]"

section \<open>Linux-only resources\<close>

text \<open>\<^verbatim>\<open>requireLinuxTarget\<close>.\<close>

definition require_linux_target :: "'w provider_conf \<Rightarrow> string \<Rightarrow> diagnostics" where
  "require_linux_target conf name =
     (if pc_target_os conf = ''linux'' then []
      else [add_error (name @ '' requires a Linux target.'')
              (''The '' @ name @ '' resource depends on the Linux `ip` command and is not supported on '' @
               pc_target_os conf @ ''/'' @ pc_target_arch conf @ '' targets.'')])"

section \<open>Sets of strings\<close>

text \<open>\<^verbatim>\<open>Set.ElementsAs\<close> into a string slice: null and unknown elements cannot be converted.\<close>

definition elements_as :: "'w controller \<Rightarrow> string tfval list \<Rightarrow> diagnostics + string list" where
  "elements_as ct es = (if list_all is_known es then Inr (map tf_string es) else Inl (ct_conv ct))"

section \<open>An idle provider\<close>

text \<open>A configuration for a Linux target with the given executor, and a controller that always
  draws the same numbers, for concrete runs.\<close>

definition sample_conf :: "'w executor \<Rightarrow> 'w provider_conf" where
  "sample_conf ex =
     \<lparr>pc_target = ''localhost'', pc_target_os = ''linux'', pc_target_arch = ''amd64'', pc_lib_path = ''/lib'',
      pc_use_sudo = False, pc_sudo = [], pc_qemu_img = ''qemu-img'', pc_docker = [], pc_swtpm = ''swtpm'',
      pc_bash = ''/bin/bash'', pc_flock = [], pc_gen_iso_image = [], pc_ip = ''ip'', pc_exec = ex\<rparr>"

definition sample_controller :: "'w controller" where
  "sample_controller =
     \<lparr>ct_rand4 = State_Monad.return (Inr [0xCA, 0xFE, 0, 1]), ct_getwd = State_Monad.return (Inr ''/work''),
      ct_now = State_Monad.return 0, ct_sleep = (\<lambda>d. State_Monad.return ()), ct_uint32n = (\<lambda>n. State_Monad.return 7),
      ct_conv = []\<rparr>"

lemma sample_simps [simp]:
  "pc_exec (sample_conf ex) = ex" "pc_bash (sample_conf ex) = ''/bin/bash''" "pc_lib_path (sample_conf ex) = ''/lib''"
  "pc_target_os (sample_conf ex) = ''linux''" "pc_ip (sample_conf ex) = ''ip''" "pc_use_sudo (sample_conf ex) = False"
  "ct_rand4 sample_controller = State_Monad.return (Inr [0xCA, 0xFE, 0, 1])"
  "ct_getwd sample_controller = State_Monad.return (Inr ''/work'')"
  "ct_uint32n sample_controller n = State_Monad.return 7"
  by (simp_all add: sample_conf_def sample_controller_def)

text \<open>A controller that does not touch the target and draws these four bytes.\<close>

definition quiet_controller :: "8 word \<times> 8 word \<times> 8 word \<times> 8 word \<Rightarrow> goerr + string \<Rightarrow> 'w controller \<Rightarrow> 'w controller" where
  "quiet_controller bs wd ct =
     (case bs of (b0, b1, b2, b3) \<Rightarrow>
        ct\<lparr>ct_rand4 := State_Monad.return (Inr [b0, b1, b2, b3]), ct_getwd := State_Monad.return wd\<rparr>)"

definition quiet_id :: "8 word \<times> 8 word \<times> 8 word \<times> 8 word \<Rightarrow> string" where
  "quiet_id bs = (case bs of (b0, b1, b2, b3) \<Rightarrow> hex_byte b0 @ hex_byte b1 @ hex_byte b2 @ hex_byte b3)"

lemma run_quiet_id: "run_state (new_resource_id (quiet_controller bs wd ct)) w = (Inr (quiet_id bs), w)"
  by (simp add: new_resource_id_def quiet_controller_def quiet_id_def split: prod.splits)

section \<open>Properties\<close>

lemma hex_bytes_inj:
  assumes "concat (map hex_byte a) = concat (map hex_byte b)"
  shows "a = b"
  using assms
proof (induction a arbitrary: b)
  case Nil
  then show ?case by (cases b) (auto simp: hex_byte_def)
next
  case (Cons x a)
  then obtain y b' where b: "b = y # b'" by (cases b) (auto simp: hex_byte_def)
  with Cons.prems have "hex_byte x @ concat (map hex_byte a) = hex_byte y @ concat (map hex_byte b')"
    by simp
  then have "hex_byte x = hex_byte y" and rest: "concat (map hex_byte a) = concat (map hex_byte b')"
    using append_eq_append_conv [of "hex_byte x" "hex_byte y"] by simp_all
  then have "x = y"
    using hex_byte_roundtrip [of x "[]" None] hex_byte_roundtrip [of y "[]" None] by simp
  with Cons.IH [OF rest] b show ?case by simp
qed

text \<open>Two resources with the same identifier drew the same random bytes: different draws never share a directory.\<close>

theorem resource_ids_distinct:
  assumes "run_state (new_resource_id ct) w = (Inr i, w')" and "run_state (new_resource_id ct) v = (Inr i, v')"
  shows "fst (run_state (ct_rand4 ct) w) = fst (run_state (ct_rand4 ct) v)"
  using assms hex_bytes_inj by (auto simp: new_resource_id_def split: prod.splits sum.splits)

theorem resource_ids_distinct_witness:
  "fst (run_state (ct_rand4 sample_controller) ()) = fst (run_state (ct_rand4 sample_controller) ())"
  by (rule resource_ids_distinct [of _ _ "concat (map hex_byte [0xCA, 0xFE, 0, 1])" "()" _ "()"])
    (simp_all add: new_resource_id_def)

end
