(* ===== verification/Vm_Config.thy ===== *)
theory Vm_Config
  imports Provider_Conf
begin

text \<open>
  The interface of \<^verbatim>\<open>internal/hypervisor\<close> (\<^verbatim>\<open>hypervisor.go\<close>, \<^verbatim>\<open>forwards.go\<close>): the
  configuration of a VM, the paths prepared for it, the standard port forwards with the reader
  of \<^verbatim>\<open>main_gvproxy.go\<close>, and the loop of \<^verbatim>\<open>PrepareDisks\<close> that both back ends have.
\<close>

section \<open>Configuration\<close>

text \<open>\<^verbatim>\<open>DiskType\<close> is a string type; these are its three values (the empty string is an overlay).\<close>

abbreviation disk_overlay :: string where "disk_overlay \<equiv> ''overlay''"
abbreviation disk_device :: string where "disk_device \<equiv> ''device''"
abbreviation disk_file :: string where "disk_file \<equiv> ''file''"

record disk_config =
  dk_type :: string
  dk_source :: string
  dk_format :: string
  dk_size_mb :: int
  dk_has_size :: bool
  dk_drive_if :: string
  dk_options :: "string list"

record vm_config =
  vm_name :: string
  vm_id :: string
  vm_serial_no :: string
  vm_resource_dir :: string
  vm_memory_mb :: string
  vm_cpus :: int
  vm_disks :: "disk_config list"
  vm_ovmf_code :: string
  vm_ovmf_vars_src :: string
  vm_nic0 :: string
  vm_ssh_port :: int
  vm_swtpm_socket :: string
  vm_serial_to_file :: string
  vm_serial_to_socket :: string
  vm_serial_type :: string
  vm_extra_args :: "string list"
  vm_cpu_pins :: "int list"
  vm_use_gvproxy :: bool
  vm_installer_iso :: string
  vm_installer_raw :: string
  vm_is_installation :: bool

record vm_paths =
  vp_disk_images :: "string list"
  vp_ovmf_vars :: string
  vp_qmp_socket :: string
  vp_pid_file :: string
  vp_serial_console_log :: string
  vp_serial_port_socket :: string
  vp_debug_script :: string

definition no_paths :: vm_paths where
  "no_paths =
     \<lparr>vp_disk_images = [], vp_ovmf_vars = [], vp_qmp_socket = [], vp_pid_file = [],
      vp_serial_console_log = [], vp_serial_port_socket = [], vp_debug_script = []\<rparr>"

section \<open>Port forwards\<close>

record standard_forward =
  sf_host_offset :: int
  sf_guest_port :: int

definition standard_forwards :: "standard_forward list" where
  "standard_forwards =
     [\<lparr>sf_host_offset = 0, sf_guest_port = 22\<rparr>,
      \<lparr>sf_host_offset = 1, sf_guest_port = 10022\<rparr>,
      \<lparr>sf_host_offset = 2, sf_guest_port = 10080\<rparr>]"

text \<open>The \<^verbatim>\<open>int32\<close> port is widened to \<^verbatim>\<open>int\<close> before the offset is added, so nothing wraps.\<close>

definition slirp_nic0 :: "int \<Rightarrow> string" where
  "slirp_nic0 ssh_port =
     ''user,id=usernet0,ipv6=off,'' @
     str_join (map (\<lambda>f. ''hostfwd=tcp::'' @ itoa (ssh_port + sf_host_offset f) @ ''-:'' @ itoa (sf_guest_port f))
       standard_forwards) '','' @ '',model=virtio''"

definition slirp_nic0_doc :: string where
  "slirp_nic0_doc =
     ''user,id=usernet0,ipv6=off,'' @
     str_join (map (\<lambda>f. ''hostfwd=tcp::'' @
         (if sf_host_offset f > 0 then ''<PORT+'' @ itoa (sf_host_offset f) @ ''>'' else ''<PORT>'') @
         ''-:'' @ itoa (sf_guest_port f))
       standard_forwards) '','' @ '',model=virtio''"

definition gvproxy_entry :: "int \<Rightarrow> string \<Rightarrow> standard_forward \<Rightarrow> string" where
  "gvproxy_entry ssh_port guest_ip f =
     ''0.0.0.0:'' @ itoa (ssh_port + sf_host_offset f) @ ''/'' @ guest_ip @ '':'' @ itoa (sf_guest_port f)"

definition gvproxy_forwards :: "int \<Rightarrow> string \<Rightarrow> string" where
  "gvproxy_forwards ssh_port guest_ip = str_join (map (gvproxy_entry ssh_port guest_ip) standard_forwards) '',''"

definition describe_port_forwards :: "string \<Rightarrow> int \<Rightarrow> string" where
  "describe_port_forwards host ssh_port =
     (let h = (if host = [] \<or> host = ''localhost'' then ''127.0.0.1'' else host)
      in str_join (map (\<lambda>f. ''tcp/'' @ h @ '':'' @ itoa (ssh_port + sf_host_offset f) @ ''->:'' @
           itoa (sf_guest_port f)) standard_forwards) '', '')"

text \<open>
  \<^verbatim>\<open>parseForwards\<close> of \<^verbatim>\<open>main_gvproxy.go\<close>: the map is the association list of its assignments,
  the last one of a key counting.
\<close>

fun parse_forward_entries :: "string list \<Rightarrow> goerr + (string \<times> string) list" where
  "parse_forward_entries [] = Inr []"
| "parse_forward_entries (e0 # es) =
     (let e1 = trim_space e0
      in if e1 = [] then parse_forward_entries es
         else
           (let entry = trim_prefix e1 ''tcp://''
            in case str_cut entry (CHR ''/'') of
                 None \<Rightarrow> Inl (Err (''invalid forward '' @ go_quote entry @
                                '': expected hostAddr:port/guestAddr:port''))
               | Some (a, b) \<Rightarrow>
                   (let host = trim_space a; guest = trim_space b
                    in if host = [] \<or> guest = [] then
                         Inl (Err (''invalid forward '' @ go_quote entry @ '': empty host or guest''))
                       else
                         (case parse_forward_entries es of
                            Inl e \<Rightarrow> Inl e
                          | Inr rest \<Rightarrow> Inr ((host, guest) # rest)))))"

definition parse_forwards :: "string \<Rightarrow> goerr + (string \<times> string) list" where
  "parse_forwards raw = (if raw = [] then Inr [] else parse_forward_entries (split_on (CHR '','') raw))"

section \<open>Preparing the disks\<close>

text \<open>The path of the image of an overlay in slot \<open>i\<close>.\<close>

definition overlay_image :: "string \<Rightarrow> nat \<Rightarrow> string \<Rightarrow> string" where
  "overlay_image d i ext = path_join [d, ''disk'' @ dec_of_nat i @ ext]"

text \<open>
  The loop over the slots: \<open>prep\<close> is the \<^verbatim>\<open>switch\<close> of a back end, which fails or gives the path
  of its slot; the paths filled in before a failure are returned with the error.
\<close>

fun prepare_images ::
    "(nat \<Rightarrow> disk_config \<Rightarrow> ('w, goerr + string) state) \<Rightarrow> nat \<Rightarrow> disk_config list \<Rightarrow> string list \<Rightarrow>
     ('w, string list \<times> goerr option) state" where
  "prepare_images prep i [] imgs = State_Monad.return (imgs, None)"
| "prepare_images prep i (disk # disks) imgs = do {
     r \<leftarrow> prep i disk;
     case r of
       Inl e \<Rightarrow> State_Monad.return (imgs, Some e)
     | Inr img \<Rightarrow> prepare_images prep (Suc i) disks (imgs[i := img]) }"

text \<open>The contract of the switch of a back end.\<close>

definition is_direct :: "disk_config \<Rightarrow> bool" where
  "is_direct disk \<longleftrightarrow> dk_type disk = disk_device \<or> dk_type disk = disk_file"

definition is_overlay :: "disk_config \<Rightarrow> bool" where
  "is_overlay disk \<longleftrightarrow> dk_type disk = disk_overlay \<or> dk_type disk = []"

text \<open>What slot \<open>i\<close> holds: a direct disk itself, or the image of the overlay.\<close>

definition slot_image :: "string \<Rightarrow> string \<Rightarrow> nat \<Rightarrow> disk_config \<Rightarrow> string" where
  "slot_image ext d i disk = (if is_direct disk then dk_source disk else overlay_image d i ext)"

locale disk_backend =
  fixes prep :: "string \<Rightarrow> nat \<Rightarrow> disk_config \<Rightarrow> ('w, goerr + string) state"
    and ext :: string
  assumes direct: "is_direct disk \<Longrightarrow> run_state (prep d i disk) s = (r, s') \<Longrightarrow> s' = s \<and> (r = Inr (dk_source disk) \<or> (\<exists>e. r = Inl e))"
    and overlay: "is_overlay disk \<Longrightarrow> run_state (prep d i disk) s = (Inr img, s') \<Longrightarrow> img = overlay_image d i ext"
    and other: "\<not> is_direct disk \<Longrightarrow> \<not> is_overlay disk \<Longrightarrow> \<exists>e. run_state (prep d i disk) s = (Inl e, s)"
begin

lemma prep_image: "run_state (prep d i disk) s = (Inr img, s') \<Longrightarrow> img = slot_image ext d i disk \<and> (is_direct disk \<or> is_overlay disk)"
  using direct [of disk d i s "Inr img" s'] overlay [of disk d i s img s'] other [of disk d i s]
  by (auto simp: slot_image_def)

text \<open>When the loop succeeds every slot holds its image, and every type was known.\<close>

lemma prepare_images_slots:
  assumes "run_state (prepare_images (prep d) i disks imgs) s = ((imgs', None), s')"
    and "length imgs = i + length disks"
  shows "length imgs' = length imgs \<and> take i imgs' = take i imgs \<and>
         (\<forall>k < length disks. imgs' ! (i + k) = slot_image ext d (i + k) (disks ! k) \<and>
            (is_direct (disks ! k) \<or> is_overlay (disks ! k)))"
  using assms
proof (induction disks arbitrary: i imgs s)
  case (Cons disk disks)
  from Cons.prems(1) obtain img s1 where step: "run_state (prep d i disk) s = (Inr img, s1)"
    and rest: "run_state (prepare_images (prep d) (Suc i) disks (imgs[i := img])) s1 = ((imgs', None), s')"
    by (auto split: prod.splits sum.splits)
  have IH: "length imgs' = length imgs" "take (Suc i) imgs' = take (Suc i) (imgs[i := img])"
    "\<forall>k < length disks. imgs' ! (Suc i + k) = slot_image ext d (Suc i + k) (disks ! k) \<and>
       (is_direct (disks ! k) \<or> is_overlay (disks ! k))"
    using Cons.IH [OF rest] Cons.prems(2) by auto
  have "i < length imgs'" using IH(1) Cons.prems(2) by simp
  then have "imgs' ! i = take (Suc i) imgs' ! i" by simp
  also have "\<dots> = img" using IH(2) Cons.prems(2) by simp
  finally have slot: "imgs' ! i = img" .
  have "take i imgs' = take i imgs"
    using arg_cong [OF IH(2), of "take i"] by (simp add: min_def)
  with IH slot prep_image [OF step] show ?case
    by (auto simp: less_Suc_eq_0_disj nth_Cons')
qed auto

end

section \<open>The interface of a back end\<close>

text \<open>
  \<^verbatim>\<open>Hypervisor\<close>. \<open>hv_taskset\<close> is what the type assertion on \<^verbatim>\<open>*QEMUHypervisor\<close> sees of it: the path
  of \<^verbatim>\<open>taskset\<close>, or \<open>None\<close> for the other back end. A result \<open>None\<close> of \<open>hv_apply_cpu_pins\<close> is
  a run-time panic.
\<close>

record 'w hypervisor =
  hv_prepare_disks :: "vm_config \<Rightarrow> ('w, vm_paths \<times> goerr option) state"
  hv_start :: "vm_config \<Rightarrow> vm_paths \<Rightarrow> ('w, goerr option) state"
  hv_status :: "string \<Rightarrow> ('w, bool \<times> goerr option) state"
  hv_stop :: "string \<Rightarrow> ('w, goerr option) state"
  hv_apply_cpu_pins :: "vm_config \<Rightarrow> ('w, goerr option option) state"
  hv_taskset :: "string option"

text \<open>What the pins of a configuration must satisfy: one for each vCPU, or none.\<close>

definition pins_match :: "vm_config \<Rightarrow> bool" where
  "pins_match conf \<longleftrightarrow>
     vm_cpu_pins conf = [] \<or> length (vm_cpu_pins conf) = nat (if vm_cpus conf > 0 then vm_cpus conf else 4)"

text \<open>
  What a resource relies on: prepared paths give every slot its image, which for a direct disk is the
  disk where it is, a status error never comes with a running VM, and matching pins never panic.
\<close>

locale hypervisor_contract =
  fixes hv :: "'w hypervisor" and ext :: string
  assumes prepared: "run_state (hv_prepare_disks hv conf) s = ((paths, None), s') \<Longrightarrow>
      length (vp_disk_images paths) = length (vm_disks conf) \<and>
      (\<forall>k < length (vm_disks conf).
         vp_disk_images paths ! k = slot_image ext (vm_resource_dir conf) k (vm_disks conf ! k))"
    and status_false: "run_state (hv_status hv d) s = ((b, Some e), s') \<Longrightarrow> \<not> b"
    and pins: "pins_match conf \<Longrightarrow> fst (run_state (hv_apply_cpu_pins hv conf) s) \<noteq> None"

section \<open>The forwards are read back\<close>

text \<open>An address without the separators of the format.\<close>

definition plain_addr :: "string \<Rightarrow> bool" where
  "plain_addr s \<longleftrightarrow> (\<forall>c \<in> set s. c \<noteq> CHR '','' \<and> c \<noteq> CHR ''/'' \<and> \<not> is_space c)"

lemma set_itoa: "c \<in> set (itoa i) \<Longrightarrow> is_digit c \<or> c = CHR ''-''"
  by (auto simp: itoa_def dest: set_dec_of_nat split: if_splits)

lemma trim_space_no_space:
  assumes "\<forall>c \<in> set s. \<not> is_space c"
  shows "trim_space s = s"
proof (cases "s = []")
  case False
  then have "hd s \<in> set s" "last s \<in> set s" by auto
  with assms show ?thesis by (intro trim_space_id) blast
qed (simp add: trim_space_id)

lemma parse_forward_entry:
  assumes "plain_addr host" and "plain_addr guest" and "host \<noteq> []" and "guest \<noteq> []" and "hd host \<noteq> CHR ''t''"
  shows "parse_forward_entries ((host @ ''/'' @ guest) # es) =
           (case parse_forward_entries es of Inl e \<Rightarrow> Inl e | Inr rest \<Rightarrow> Inr ((host, guest) # rest))"
proof -
  let ?e = "host @ ''/'' @ guest"
  have sp: "\<forall>c \<in> set ?e. \<not> is_space c" using assms(1,2) by (auto simp: plain_addr_def is_space_def)
  then have trim: "trim_space ?e = ?e" by (rule trim_space_no_space)
  have "\<not> prefix ''tcp://'' ?e" using assms(3,5) by (cases host) auto
  then have tp: "trim_prefix ?e ''tcp://'' = ?e" by (simp add: trim_prefix_def)
  have cut: "str_cut ?e (CHR ''/'') = Some (host, guest)"
  proof -
    have "CHR ''/'' \<notin> set host" using assms(1) by (auto simp: plain_addr_def)
    then show ?thesis by (simp add: str_cut_app)
  qed
  have "trim_space host = host" "trim_space guest = guest"
    using assms(1,2) by (auto simp: plain_addr_def intro: trim_space_no_space)
  with trim tp cut assms(3,4) show ?thesis by (simp add: Let_def split: sum.split)
qed

lemma itoa_nonempty [simp]: "itoa i \<noteq> []"
  by (simp add: itoa_def)

lemma plain_addr_itoa: "plain_addr (itoa i)"
  unfolding plain_addr_def
proof
  fix c assume "c \<in> set (itoa i)"
  then have "is_digit c \<or> c = CHR ''-''" by (rule set_itoa)
  then show "c \<noteq> CHR '','' \<and> c \<noteq> CHR ''/'' \<and> \<not> is_space c"
    by (auto simp: is_digit_code is_space_def)
qed

lemma plain_addr_port: "plain_addr a \<Longrightarrow> plain_addr (a @ '':'' @ itoa i)"
  using plain_addr_itoa [of i] by (auto simp: plain_addr_def is_space_def)

lemma parse_gvproxy_forwards:
  assumes "plain_addr guest_ip"
  shows "parse_forwards (gvproxy_forwards port guest_ip) =
           Inr (map (\<lambda>f. (''0.0.0.0:'' @ itoa (port + sf_host_offset f), guest_ip @ '':'' @ itoa (sf_guest_port f)))
                  standard_forwards)"
proof -
  let ?h = "\<lambda>f. ''0.0.0.0'' @ '':'' @ itoa (port + sf_host_offset f)"
  let ?g = "\<lambda>f. guest_ip @ '':'' @ itoa (sf_guest_port f)"
  have any: "plain_addr ''0.0.0.0''" by (simp add: plain_addr_def is_space_def)
  have entry: "gvproxy_entry port guest_ip f = ?h f @ ''/'' @ ?g f" for f
    by (simp add: gvproxy_entry_def)
  have comma: "CHR '','' \<notin> set (gvproxy_entry port guest_ip f)" for f
    using plain_addr_port [OF any, of "port + sf_host_offset f"] plain_addr_port [OF assms, of "sf_guest_port f"]
    unfolding entry by (auto simp: plain_addr_def)
  have entries: "parse_forward_entries (map (gvproxy_entry port guest_ip) fs) = Inr (map (\<lambda>f. (?h f, ?g f)) fs)" for fs
  proof (induction fs)
    case (Cons f fs)
    then show ?case
      using parse_forward_entry [OF plain_addr_port [OF any] plain_addr_port [OF assms]]
      unfolding list.map entry by simp
  qed simp
  have "split_on (CHR '','') (gvproxy_forwards port guest_ip) = map (gvproxy_entry port guest_ip) standard_forwards"
    unfolding gvproxy_forwards_def using comma
    by (intro split_on_join) (auto simp: standard_forwards_def)
  moreover have "gvproxy_forwards port guest_ip \<noteq> []"
    by (simp add: gvproxy_forwards_def standard_forwards_def gvproxy_entry_def)
  ultimately show ?thesis by (simp add: parse_forwards_def entries)
qed

lemma overlay_image_inj:
  assumes "overlay_image (abs_path ds) i ext = overlay_image (abs_path ds) j ext"
    and "list_all plain_name ds" and "ds \<noteq> []" and "CHR ''/'' \<notin> set ext"
  shows "i = j"
proof -
  have name: "plain_name (''disk'' @ dec_of_nat n @ ext)" for n
    using assms(4) set_dec_of_nat [of "CHR ''/''" n] by (auto simp: plain_name_def is_digit_code)
  have "overlay_image (abs_path ds) n ext = abs_path (ds @ [''disk'' @ dec_of_nat n @ ext])" for n
    using assms(2,3) name [of n] unfolding overlay_image_def by (intro path_join_abs) auto
  then have "abs_path (ds @ [''disk'' @ dec_of_nat i @ ext]) = abs_path (ds @ [''disk'' @ dec_of_nat j @ ext])"
    using assms(1) by simp
  then have "''disk'' @ dec_of_nat i @ ext = ''disk'' @ dec_of_nat j @ ext"
    using abs_path_inj [of "ds @ [''disk'' @ dec_of_nat i @ ext]" "ds @ [''disk'' @ dec_of_nat j @ ext]"] assms(2) name
    by auto
  then show ?thesis by (simp add: dec_of_nat_inj)
qed

section \<open>Properties\<close>

text \<open>gvproxy reads back the forwards that the hypervisor layer writes for it: the three standard ones, on
  consecutive host ports, to the guest.\<close>

theorem gvproxy_forwards_read_back:
  "parse_forwards (gvproxy_forwards port ''192.168.127.2'') =
     Inr (map (\<lambda>f. (''0.0.0.0:'' @ itoa (port + sf_host_offset f), ''192.168.127.2'' @ '':'' @ itoa (sf_guest_port f)))
            standard_forwards)"
  by (rule parse_gvproxy_forwards) (simp add: plain_addr_def is_space_def)

text \<open>The images of different slots of a VM are different files.\<close>

theorem overlay_images_distinct:
  assumes "i \<noteq> j" and "list_all plain_name ds" and "ds \<noteq> []" and "CHR ''/'' \<notin> set ext"
  shows "overlay_image (abs_path ds) i ext \<noteq> overlay_image (abs_path ds) j ext"
  using overlay_image_inj [OF _ assms(2-4)] assms(1) by blast

theorem overlay_images_distinct_witness:
  "overlay_image (abs_path [''lib'', ''vm'']) 0 ''.raw'' \<noteq> overlay_image (abs_path [''lib'', ''vm'']) 1 ''.raw''"
  by (rule overlay_images_distinct) (simp_all add: plain_name_def)

end
