(* ===== verification/Edge_Disks.thy ===== *)
theory Edge_Disks
  imports Vm_Config
begin

text \<open>
  \<^verbatim>\<open>internal/provider/edge_node_disks.go\<close>: from the \<^verbatim>\<open>disk\<close> blocks, or the older flat attributes,
  to the disks of the VM, with defaults and validation.
\<close>

record disk_block =
  db_type :: "string tfval"
  db_source :: "string tfval"
  db_format :: "string tfval"
  db_size_mb :: "int tfval"
  db_drive_if :: "string tfval"
  db_options :: "string tfval list tfval"

record legacy_disks =
  ld_disk_image_base :: "string tfval"
  ld_disk1_image_base :: "string tfval"
  ld_disk_size_mb :: "int tfval"
  ld_drive_if :: "string tfval"

definition disk_image_path :: "string list \<Rightarrow> nat \<Rightarrow> string" where
  "disk_image_path paths i = (if i < length paths then paths ! i else [])"

definition no_disk :: disk_config where
  "no_disk =
     \<lparr>dk_type = [], dk_source = [], dk_format = [], dk_size_mb = 0, dk_has_size = False, dk_drive_if = [],
      dk_options = []\<rparr>"

definition invalid_disk :: "nat \<Rightarrow> string \<Rightarrow> diagnostic" where
  "invalid_disk i msg = add_error ''Invalid disk configuration'' (''disk '' @ dec_of_nat i @ '': '' @ msg)"

text \<open>The type of a block: an overlay unless it says otherwise.\<close>

definition block_type :: "disk_block \<Rightarrow> string" where
  "block_type b = (if db_type b \<noteq> TNull \<and> tf_string (db_type b) \<noteq> [] then tf_string (db_type b) else disk_overlay)"

text \<open>The options with the diagnostics of their conversion.\<close>

definition block_options :: "'w controller \<Rightarrow> disk_block \<Rightarrow> string list \<times> diagnostics" where
  "block_options ct b =
     (case db_options b of
        TKnown es \<Rightarrow> (case elements_as ct es of Inl ds \<Rightarrow> ([], ds) | Inr os' \<Rightarrow> (os', []))
      | _ \<Rightarrow> ([], []))"

definition block_config :: "disk_block \<Rightarrow> string \<Rightarrow> string \<Rightarrow> string list \<Rightarrow> disk_config" where
  "block_config b dt format opts =
     \<lparr>dk_type = dt, dk_source = tf_string (db_source b), dk_format = format, dk_size_mb = tf_int (db_size_mb b),
      dk_has_size = (db_size_mb b \<noteq> TNull), dk_drive_if = tf_string (db_drive_if b), dk_options = opts\<rparr>"

definition disk_config_from_block ::
    "'w controller \<Rightarrow> 'w executor \<Rightarrow> nat \<Rightarrow> disk_block \<Rightarrow> ('w, disk_config \<times> diagnostics) state" where
  "disk_config_from_block ct ex i b =
     (let dt = block_type b; source = tf_string (db_source b);
          format = (if db_format b \<noteq> TNull then tf_string (db_format b) else []);
          has_size = (db_size_mb b \<noteq> TNull); (opts, opt_diags) = block_options ct b
      in if source = [] then State_Monad.return (no_disk, [invalid_disk i ''`source` must not be empty.''])
         else if dt = disk_overlay then
           State_Monad.return (block_config b dt (if format = [] then ''qcow2'' else format) opts,
             (if format \<noteq> [] \<and> format \<noteq> ''qcow2''
              then [invalid_disk i (''`type = '' @ [CHR 0x22] @ ''overlay'' @ [CHR 0x22] @ ''` only supports `format = '' @
                                    [CHR 0x22] @ ''qcow2'' @ [CHR 0x22] @ ''`.'')] else []) @ opt_diags)
         else if dt = disk_device \<or> dt = disk_file then do {
           st \<leftarrow> ex_stat ex source;
           State_Monad.return (block_config b dt (if format = [] then ''raw'' else format) opts,
             (if has_size
              then [invalid_disk i (''`size_mb` is only valid for `type = '' @ [CHR 0x22] @ ''overlay'' @ [CHR 0x22] @
                                    ''` (cannot resize a '' @ dt @ '' disk).'')] else []) @
             (case st of
                Inl e \<Rightarrow> [invalid_disk i (''cannot access source '' @ go_quote source @ '': '' @ err_msg e)]
              | Inr _ \<Rightarrow> []) @ opt_diags) }
         else State_Monad.return (no_disk,
                [invalid_disk i (''unknown type '' @ go_quote dt @ '' (expected overlay, device, or file).'')]))"

fun blocks_loop ::
    "'w controller \<Rightarrow> 'w executor \<Rightarrow> nat \<Rightarrow> disk_block list \<Rightarrow> ('w, disk_config list \<times> diagnostics) state" where
  "blocks_loop ct ex i [] = State_Monad.return ([], [])"
| "blocks_loop ct ex i (b # bs) = do {
     (dc, ds) \<leftarrow> disk_config_from_block ct ex i b;
     (dcs, dss) \<leftarrow> blocks_loop ct ex (Suc i) bs;
     State_Monad.return (dc # dcs, ds @ dss) }"

definition legacy_disk :: "legacy_disks \<Rightarrow> string tfval \<Rightarrow> disk_config" where
  "legacy_disk legacy base =
     \<lparr>dk_type = disk_overlay, dk_source = tf_string base, dk_format = ''qcow2'',
      dk_size_mb = tf_int (ld_disk_size_mb legacy), dk_has_size = (ld_disk_size_mb legacy \<noteq> TNull),
      dk_drive_if = tf_string (ld_drive_if legacy), dk_options = []\<rparr>"

definition build_disks ::
    "'w controller \<Rightarrow> 'w executor \<Rightarrow> disk_block list \<Rightarrow> legacy_disks \<Rightarrow> ('w, disk_config list \<times> diagnostics) state" where
  "build_disks ct ex blocks legacy =
     (let legacy0 = (ld_disk_image_base legacy \<noteq> TNull \<and> tf_string (ld_disk_image_base legacy) \<noteq> []);
          legacy1 = (ld_disk1_image_base legacy \<noteq> TNull \<and> tf_string (ld_disk1_image_base legacy) \<noteq> []);
          extras = (ld_disk_size_mb legacy \<noteq> TNull \<or>
                    (ld_drive_if legacy \<noteq> TNull \<and> tf_string (ld_drive_if legacy) \<noteq> []));
          legacy_used = (legacy0 \<or> legacy1 \<or> extras)
      in if length blocks > 0 \<and> legacy_used then
           State_Monad.return ([], [add_error ''Conflicting disk configuration''
             (''Use either the `disk` blocks or the legacy `disk_image_base` / `disk_1_image_base` '' @
              ''(and `disk_size_mb` / `drive_if`) attributes to configure disks, not both.'')])
         else if length blocks > 0 then blocks_loop ct ex 0 blocks
         else if \<not> legacy0 then
           State_Monad.return ([],
             [if legacy1 then add_error ''Invalid disk configuration''
                 ''`disk_1_image_base` is set without `disk_image_base`; the first disk (disk0) is required.''
              else add_error ''Missing disk configuration''
                 ''A disk is required: configure a `disk` block or set `disk_image_base`.''])
         else
           State_Monad.return (legacy_disk legacy (ld_disk_image_base legacy) #
             (if legacy1 then [legacy_disk legacy (ld_disk1_image_base legacy)] else []), []))"

section \<open>Lemmas\<close>

text \<open>What the hypervisor layer may rely on.\<close>

definition disk_ok :: "disk_config \<Rightarrow> bool" where
  "disk_ok dk \<longleftrightarrow>
     dk_source dk \<noteq> [] \<and>
     (if is_direct dk then \<not> dk_has_size dk \<and> dk_format dk \<noteq> []
      else dk_type dk = disk_overlay \<and> dk_format dk = ''qcow2'')"

lemma disk_config_from_block_ok:
  assumes "run_state (disk_config_from_block ct ex i b) w = ((dk, ds), w')" and "\<not> has_error ds"
  shows "disk_ok dk"
  using assms
  by (auto simp: disk_config_from_block_def disk_ok_def is_direct_def block_config_def invalid_disk_def Let_def
      split: prod.splits if_splits sum.splits)

lemma has_error_append [simp]: "has_error (ds @ es) \<longleftrightarrow> has_error ds \<or> has_error es"
  by (simp add: has_error_def)

lemma blocks_loop_ok:
  assumes "run_state (blocks_loop ct ex i bs) w = ((dks, ds), w')" and "\<not> has_error ds"
  shows "length dks = length bs \<and> (\<forall>dk \<in> set dks. disk_ok dk)"
  using assms
proof (induction bs arbitrary: i w dks ds w')
  case (Cons b bs)
  then obtain dk ds1 w1 dks2 ds2 where
    "run_state (disk_config_from_block ct ex i b) w = ((dk, ds1), w1)"
    "run_state (blocks_loop ct ex (Suc i) bs) w1 = ((dks2, ds2), w')"
    "dks = dk # dks2" "ds = ds1 @ ds2"
    by (auto split: prod.splits)
  then show ?case using Cons.IH Cons.prems(2) disk_config_from_block_ok by fastforce
qed auto

lemma build_disks_ok:
  assumes "run_state (build_disks ct ex blocks legacy) w = ((dks, ds), w')" and "\<not> has_error ds"
  shows "dks \<noteq> [] \<and> (\<forall>dk \<in> set dks. disk_ok dk)"
proof (cases "length blocks > 0")
  case True
  with assms have "run_state (blocks_loop ct ex 0 blocks) w = ((dks, ds), w')"
    by (auto simp: build_disks_def Let_def split: if_splits)
  from blocks_loop_ok [OF this assms(2)] True show ?thesis by (cases dks) auto
next
  case False
  with assms show ?thesis
    by (auto simp: build_disks_def Let_def disk_ok_def is_direct_def legacy_disk_def split: if_splits)
qed

text \<open>The block that says what the older attributes say.\<close>

definition block_of_legacy :: "legacy_disks \<Rightarrow> string tfval \<Rightarrow> disk_block" where
  "block_of_legacy legacy base =
     \<lparr>db_type = TNull, db_source = base, db_format = TNull, db_size_mb = ld_disk_size_mb legacy,
      db_drive_if = ld_drive_if legacy, db_options = TNull\<rparr>"

definition no_legacy :: legacy_disks where
  "no_legacy = \<lparr>ld_disk_image_base = TNull, ld_disk1_image_base = TNull, ld_disk_size_mb = TNull, ld_drive_if = TNull\<rparr>"

lemma block_of_legacy_config:
  assumes "tf_string base \<noteq> []"
  shows "run_state (disk_config_from_block ct ex i (block_of_legacy legacy base)) w = ((legacy_disk legacy base, []), w)"
  using assms
  by (simp add: disk_config_from_block_def block_of_legacy_def block_type_def block_options_def block_config_def
      legacy_disk_def Let_def)

section \<open>Properties\<close>

text \<open>C32: The older flat attributes and the \<^verbatim>\<open>disk\<close> blocks that say the same configure the same disks.\<close>

theorem legacy_disks_as_blocks:
  assumes "tf_string (ld_disk_image_base legacy) \<noteq> []"
  shows "run_state (build_disks ct ex
           (block_of_legacy legacy (ld_disk_image_base legacy) #
            (if tf_string (ld_disk1_image_base legacy) \<noteq> [] then [block_of_legacy legacy (ld_disk1_image_base legacy)] else []))
           no_legacy) w =
         run_state (build_disks ct ex [] legacy) w"
proof -
  have nulls: "ld_disk_image_base legacy \<noteq> TNull"
    "tf_string (ld_disk1_image_base legacy) \<noteq> [] \<longrightarrow> ld_disk1_image_base legacy \<noteq> TNull"
    using assms by auto
  show ?thesis
    using assms nulls by (auto simp: build_disks_def Let_def no_legacy_def block_of_legacy_config)
qed

theorem legacy_disks_as_blocks_witness:
  "run_state (build_disks sample_controller idle_executor
      [block_of_legacy \<lparr>ld_disk_image_base = TKnown ''base'', ld_disk1_image_base = TNull, ld_disk_size_mb = TNull, ld_drive_if = TNull\<rparr>
         (TKnown ''base'')] no_legacy) () =
   run_state (build_disks sample_controller idle_executor []
      \<lparr>ld_disk_image_base = TKnown ''base'', ld_disk1_image_base = TNull, ld_disk_size_mb = TNull, ld_drive_if = TNull\<rparr>) ()"
  using legacy_disks_as_blocks [of "\<lparr>ld_disk_image_base = TKnown ''base'', ld_disk1_image_base = TNull,
      ld_disk_size_mb = TNull, ld_drive_if = TNull\<rparr>" sample_controller idle_executor "()"]
  by simp

end
