(* ===== verification/Ip_Output.thy ===== *)
theory Ip_Output
  imports Net_Addr
begin

text \<open>
  Reading the output of \<^verbatim>\<open>ip link show\<close> and \<^verbatim>\<open>ip addr show\<close>, as \<^verbatim>\<open>readLAG\<close> and \<^verbatim>\<open>readBridge\<close> do:
  the regular expressions of the sources are lists of atoms whose character classes never
  contain the character that may follow, so that the greedy matcher below finds the same match
  as Go's engine. The second part is the format of the two commands, for which the readers
  return what was printed.
\<close>

section \<open>The regular expressions\<close>

datatype rx = RLit string | RPlus "char \<Rightarrow> bool" | RStar "char \<Rightarrow> bool"

text \<open>Matching at the start of a string: the matched text and the rest.\<close>

fun rx_match :: "rx list \<Rightarrow> string \<Rightarrow> (string \<times> string) option" where
  "rx_match [] s = Some ([], s)"
| "rx_match (RLit l # rs) s =
     (if prefix l s then map_option (\<lambda>(m, r). (l @ m, r)) (rx_match rs (drop (length l) s)) else None)"
| "rx_match (RPlus P # rs) s =
     (if takeWhile P s = [] then None
      else map_option (\<lambda>(m, r). (takeWhile P s @ m, r)) (rx_match rs (dropWhile P s)))"
| "rx_match (RStar P # rs) s =
     map_option (\<lambda>(m, r). (takeWhile P s @ m, r)) (rx_match rs (dropWhile P s))"

text \<open>\<^verbatim>\<open>FindStringSubmatch\<close> of \<open>pre(cap)\<close>: the capture of the leftmost match, and what follows.\<close>

definition rx_here :: "rx list \<Rightarrow> rx list \<Rightarrow> string \<Rightarrow> (string \<times> string) option" where
  "rx_here pre cap s = (case rx_match pre s of None \<Rightarrow> None | Some (_, r) \<Rightarrow> rx_match cap r)"

fun rx_find :: "rx list \<Rightarrow> rx list \<Rightarrow> string \<Rightarrow> (string \<times> string) option" where
  "rx_find pre cap [] = rx_here pre cap []"
| "rx_find pre cap (c # cs) =
     (case rx_here pre cap (c # cs) of Some r \<Rightarrow> Some r | None \<Rightarrow> rx_find pre cap cs)"

text \<open>\<^verbatim>\<open>FindAllStringSubmatch\<close>: successive matches. Every expression used here consumes input.\<close>

function rx_find_all :: "rx list \<Rightarrow> rx list \<Rightarrow> string \<Rightarrow> string list" where
  "rx_find_all pre cap s =
     (case rx_find pre cap s of
        None \<Rightarrow> []
      | Some (m, r) \<Rightarrow> m # (if length r < length s then rx_find_all pre cap r else []))"
  by pat_completeness auto
termination
  by (relation "measure (\<lambda>(pre, cap, s). length s)") auto

declare rx_find_all.simps [simp del]

text \<open>\<open>\s\<close> of Go's engine has no vertical tab.\<close>

definition rx_space :: "char \<Rightarrow> bool" where
  "rx_space c = (c \<in> {CHR 0x09, CHR 0x0A, CHR 0x0C, CHR 0x0D, CHR '' ''})"

definition mac_char :: "char \<Rightarrow> bool" where
  "mac_char c = (hex_val c \<noteq> None \<or> c = CHR '':'')"

section \<open>What the sources read\<close>

text \<open>\<^verbatim>\<open>linkFlagsRegex\<close> and \<^verbatim>\<open>linkFlagUp\<close> (\<^verbatim>\<open>netns_helpers.go\<close>).\<close>

definition link_flags :: "string \<Rightarrow> string option" where
  "link_flags line =
     (case rx_find [RLit ''<''] [RStar (\<lambda>c. c \<noteq> CHR ''>''), RLit ''>''] line of
        None \<Rightarrow> None
      | Some (m, _) \<Rightarrow> Some (butlast m))"

definition link_flag_up :: "string \<Rightarrow> bool" where
  "link_flag_up line =
     (case link_flags line of
        None \<Rightarrow> False
      | Some flags \<Rightarrow> ''UP'' \<in> set (split_on (CHR '','') flags))"

definition find_mtu :: "string \<Rightarrow> string option" where
  "find_mtu line = map_option fst (rx_find [RLit ''mtu ''] [RPlus is_digit] line)"

definition find_mac :: "string \<Rightarrow> string option" where
  "find_mac line = map_option fst (rx_find [RLit ''link/ether'', RPlus rx_space] [RPlus mac_char] line)"

definition find_ipv4 :: "string \<Rightarrow> string option" where
  "find_ipv4 out =
     map_option fst (rx_find [RLit ''inet '']
       [RPlus is_digit, RLit ''.'', RPlus is_digit, RLit ''.'', RPlus is_digit, RLit ''.'', RPlus is_digit,
        RLit ''/'', RPlus is_digit] out)"

definition find_ipv6_all :: "string \<Rightarrow> string list" where
  "find_ipv6_all out = rx_find_all [RLit ''inet6 ''] [RPlus mac_char, RLit ''/'', RPlus is_digit] out"

text \<open>The first IPv6 prefix that is not link-local; the ones that do not parse are passed over.\<close>

fun first_global_ipv6 :: "string list \<Rightarrow> string option" where
  "first_global_ipv6 [] = None"
| "first_global_ipv6 (m # ms) =
     (case parse_cidr m of
        None \<Rightarrow> first_global_ipv6 ms
      | Some (ip, _) \<Rightarrow> if \<not> is_link_local_unicast ip then Some m else first_global_ipv6 ms)"

text \<open>
  The member names of \<^verbatim>\<open>ip link show master\<close>: \<open>(?m)^\s*\d+:\s+([^:@\s]+)\<close>. The flag says
  whether the position is at the start of a line.
\<close>

definition member_here :: "string \<Rightarrow> (string \<times> string) option" where
  "member_here =
     rx_here [RStar rx_space, RPlus is_digit, RLit '':'', RPlus rx_space]
       [RPlus (\<lambda>c. c \<noteq> CHR '':'' \<and> c \<noteq> CHR ''@'' \<and> \<not> rx_space c)]"

function members_from :: "bool \<Rightarrow> string \<Rightarrow> string list" where
  "members_from bol [] = []"
| "members_from bol (c # cs) =
     (case (if bol then member_here (c # cs) else None) of
        Some (m, r) \<Rightarrow> m # (if length r < length (c # cs) then members_from False r else [])
      | None \<Rightarrow> members_from (c = CHR 0x0A) cs)"
  by pat_completeness auto
termination
  by (relation "measure (\<lambda>(bol, s). length s)") auto

declare members_from.simps [simp del]

definition members_of :: "string \<Rightarrow> string list" where
  "members_of out = members_from True out"

section \<open>The format of ip link show\<close>

text \<open>The first two lines of \<^verbatim>\<open>ip link show\<close> of an Ethernet-like device.\<close>

definition link_line :: "nat \<Rightarrow> string \<Rightarrow> string list \<Rightarrow> nat \<Rightarrow> string \<Rightarrow> string" where
  "link_line idx name flags mtu more =
     dec_of_nat idx @ '': '' @ name @ '': <'' @ str_join flags '','' @ ''> mtu '' @ dec_of_nat mtu @ '' '' @ more"

definition ether_line :: "bytes \<Rightarrow> string \<Rightarrow> string" where
  "ether_line hw more = ''    link/ether '' @ mac_string hw @ '' brd '' @ more"

lemma rx_find_skip:
  assumes "\<And>i. i < length a \<Longrightarrow> rx_here pre cap (drop i (a @ b)) = None"
  shows "rx_find pre cap (a @ b) = rx_find pre cap b"
  using assms
proof (induction a)
  case (Cons c a)
  from Cons.prems [of 0] have "rx_here pre cap (c # a @ b) = None" by simp
  moreover have "rx_find pre cap (a @ b) = rx_find pre cap b"
    using Cons.prems [of "Suc _"] by (intro Cons.IH) simp
  ultimately show ?case by simp
qed simp

lemma rx_find_at:
  "rx_here pre cap s = Some r \<Longrightarrow> rx_find pre cap s = Some r"
  by (cases s) simp_all

lemma rx_here_lit_hd:
  "l \<noteq> [] \<Longrightarrow> s = [] \<or> hd s \<noteq> hd l \<Longrightarrow> rx_here (RLit l # pre) cap s = None"
  by (cases s; cases l) (auto simp: rx_here_def)

lemma rx_find_no_hd:
  assumes "l \<noteq> []" and "hd l \<notin> set a"
  shows "rx_find (RLit l # pre) cap (a @ b) = rx_find (RLit l # pre) cap b"
proof (rule rx_find_skip)
  fix i assume "i < length a"
  then have "drop i (a @ b) \<noteq> []" and "hd (drop i (a @ b)) \<in> set a"
    by (auto simp: hd_append hd_drop_conv_nth)
  with assms show "rx_here (RLit l # pre) cap (drop i (a @ b)) = None"
    by (intro rx_here_lit_hd) auto
qed

lemma takeWhile_app_stop: "\<forall>x \<in> set a. P x \<Longrightarrow> b = [] \<or> \<not> P (hd b) \<Longrightarrow> takeWhile P (a @ b) = a"
  by (cases b) auto

lemma dropWhile_app_stop: "\<forall>x \<in> set a. P x \<Longrightarrow> b = [] \<or> \<not> P (hd b) \<Longrightarrow> dropWhile P (a @ b) = b"
  by (cases b) auto

text \<open>The administrative flag is read off the printed flags, whatever surrounds them.\<close>

lemma link_flags_link_line:
  assumes "CHR ''<'' \<notin> set name" and "\<forall>f \<in> set flags. CHR ''>'' \<notin> set f"
  shows "link_flags (link_line idx name flags mtu more) = Some (str_join flags '','')"
proof -
  let ?a = "dec_of_nat idx @ '': '' @ name @ '': ''"
  let ?fl = "str_join flags '',''"
  let ?b = "''> mtu '' @ dec_of_nat mtu @ '' '' @ more"
  have fl: "CHR ''>'' \<notin> set ?fl" using assms(2) by (induction flags "'',''" rule: str_join.induct) auto
  have "CHR ''<'' \<notin> set ?a"
    using assms(1) set_dec_of_nat [of "CHR ''<''" idx] by (auto simp: is_digit_code)
  then have "rx_find [RLit ''<''] [RStar (\<lambda>c. c \<noteq> CHR ''>''), RLit ''>''] (?a @ ''<'' @ ?fl @ ?b) =
      rx_find [RLit ''<''] [RStar (\<lambda>c. c \<noteq> CHR ''>''), RLit ''>''] (''<'' @ ?fl @ ?b)"
    by (intro rx_find_no_hd) auto
  also have "\<dots> = Some (?fl @ ''>'', drop 1 ?b)"
  proof (rule rx_find_at)
    have "takeWhile (\<lambda>c. c \<noteq> CHR ''>'') (?fl @ ?b) = ?fl" "dropWhile (\<lambda>c. c \<noteq> CHR ''>'') (?fl @ ?b) = ?b"
      using fl by (auto intro!: takeWhile_app_stop dropWhile_app_stop)
    then show "rx_here [RLit ''<''] [RStar (\<lambda>c. c \<noteq> CHR ''>''), RLit ''>''] (''<'' @ ?fl @ ?b) =
        Some (?fl @ ''>'', drop 1 ?b)"
      by (simp add: rx_here_def)
  qed
  finally show ?thesis by (simp add: link_flags_def link_line_def)
qed

lemma link_flag_up_link_line:
  assumes "CHR ''<'' \<notin> set name" and "\<forall>f \<in> set flags. CHR ''>'' \<notin> set f \<and> CHR '','' \<notin> set f"
    and "flags \<noteq> []"
  shows "link_flag_up (link_line idx name flags mtu more) \<longleftrightarrow> ''UP'' \<in> set flags"
  using assms link_flags_link_line [of name flags] by (simp add: link_flag_up_def split_on_join)

text \<open>A literal that ends in a blank is not matched inside a word that ends differently.\<close>

lemma first_occurrence_eq:
  assumes "u @ z # t = d @ z # b" and "z \<notin> set u" and "z \<notin> set d"
  shows "u = d"
proof -
  have "takeWhile (\<lambda>x. x \<noteq> z) (u @ z # t) = u" "takeWhile (\<lambda>x. x \<noteq> z) (d @ z # b) = d"
    using assms(2,3) by (auto intro!: takeWhile_app_stop)
  with assms(1) show ?thesis by simp
qed

lemma rx_find_word:
  assumes "z \<notin> set a" and "z \<notin> set u" and "u \<noteq> []" and "a \<noteq> [] \<Longrightarrow> last a \<noteq> last u"
  shows "rx_find (RLit (u @ [z]) # pre) cap (a @ z # b) = rx_find (RLit (u @ [z]) # pre) cap b"
proof -
  have "rx_find (RLit (u @ [z]) # pre) cap (a @ z # b) = rx_find (RLit (u @ [z]) # pre) cap (z # b)"
  proof (rule rx_find_skip)
    fix i assume i: "i < length a"
    have "\<not> prefix (u @ [z]) (drop i a @ z # b)"
    proof
      assume "prefix (u @ [z]) (drop i a @ z # b)"
      then obtain t where "drop i a @ z # b = (u @ [z]) @ t" by (rule prefixE)
      then have "u @ z # t = drop i a @ z # b" by simp
      moreover have "z \<notin> set (drop i a)" using assms(1) by (meson in_set_dropD)
      ultimately have "u = drop i a" by (rule first_occurrence_eq [OF _ assms(2)])
      then have "last u = last a" using i by (simp add: last_drop)
      with assms(4) i show False by (cases a) auto
    qed
    then show "rx_here (RLit (u @ [z]) # pre) cap (drop i (a @ z # b)) = None"
      using i by (simp add: rx_here_def)
  qed
  also have "\<dots> = rx_find (RLit (u @ [z]) # pre) cap b"
  proof -
    have "hd (u @ [z]) \<noteq> z" using assms(2,3) by (cases u) auto
    then show ?thesis using rx_find_no_hd [of "u @ [z]" "[z]" pre cap b] by simp
  qed
  finally show ?thesis .
qed


lemma find_mtu_link_line:
  assumes "CHR '' '' \<notin> set name" and "\<forall>f \<in> set flags. CHR '' '' \<notin> set f"
  shows "find_mtu (link_line idx name flags mtu more) = Some (dec_of_nat mtu)"
proof -
  let ?rx = "\<lambda>s. rx_find [RLit (''mtu'' @ '' '')] [RPlus is_digit] s"
  let ?c = "''mtu '' @ dec_of_nat mtu @ '' '' @ more"
  have sp: "CHR '' '' \<notin> set (dec_of_nat idx)" "CHR '' '' \<notin> set (str_join flags '','')"
    using set_dec_of_nat [of "CHR '' ''" idx] assms(2)
    by (auto simp: is_digit_code) (induction flags "'',''" rule: str_join.induct; auto)
  have word: "?rx (w @ CHR '' '' # b) = ?rx b" if "CHR '' '' \<notin> set w" and "w \<noteq> [] \<Longrightarrow> last w \<noteq> CHR ''u''" for w b
    using that by (intro rx_find_word) auto
  have "?rx ((dec_of_nat idx @ '':'') @ CHR '' '' # ((name @ '':'') @ CHR '' '' # ((''<'' @ str_join flags '','' @ ''>'') @ CHR '' '' # ?c))) =
      ?rx ((name @ '':'') @ CHR '' '' # ((''<'' @ str_join flags '','' @ ''>'') @ CHR '' '' # ?c))"
    using sp by (intro word) auto
  also have "\<dots> = ?rx ((''<'' @ str_join flags '','' @ ''>'') @ CHR '' '' # ?c)"
    using assms by (intro word) auto
  also have "\<dots> = ?rx ?c"
    using sp by (intro word) auto
  finally have "?rx ((dec_of_nat idx @ '':'') @ CHR '' '' # ((name @ '':'') @ CHR '' '' # ((''<'' @ str_join flags '','' @ ''>'') @ CHR '' '' # ?c))) = ?rx ?c" .
  moreover have "?rx ?c = Some (dec_of_nat mtu, '' '' @ more)"
    using set_dec_of_nat [of _ mtu]
    by (intro rx_find_at) (simp add: rx_here_def takeWhile_app_stop dropWhile_app_stop is_digit_code)
  ultimately show ?thesis by (simp add: find_mtu_def link_line_def)
qed

lemma mac_string_chars: "c \<in> set (mac_string hw) \<Longrightarrow> mac_char c"
proof -
  have b: "mac_char c" if "c \<in> set (hex_byte b)" for b
  proof -
    have "unat b < 256" using unsigned_less [of b, where ?'a = nat] by simp
    then have "unat b div 16 < 16" by simp
    with that show ?thesis by (auto simp: hex_byte_def mac_char_def hex_val_char)
  qed
  show "c \<in> set (mac_string hw) \<Longrightarrow> mac_char c"
  proof (induction hw)
    case (Cons x hw)
    then show ?case using b [of x] by (cases hw) (auto simp: mac_char_def)
  qed simp
qed

lemma rx_space_blank [simp]: "rx_space (CHR '' '')"
  by (simp add: rx_space_def)

lemma is_digit_not_space: "is_digit c \<Longrightarrow> \<not> rx_space c"
  by (auto simp: rx_space_def is_digit_code)

lemma mac_char_not_space: "mac_char c \<Longrightarrow> \<not> rx_space c"
  by (auto simp: mac_char_def rx_space_def hex_val_def)

lemma find_mac_ether_line:
  assumes "hw \<noteq> []"
  shows "find_mac (ether_line hw more) = Some (mac_string hw)"
proof -
  let ?rx = "rx_find [RLit ''link/ether'', RPlus rx_space] [RPlus mac_char]"
  let ?rest = "'' brd '' @ more"
  have chars: "\<forall>c \<in> set (mac_string hw). mac_char c \<and> \<not> rx_space c"
    using mac_string_chars mac_char_not_space by blast
  have ne: "mac_string hw \<noteq> []" using length_mac_string [OF assms] assms by auto
  then have first: "\<not> rx_space (hd (mac_string hw @ ?rest))" using chars by simp
  have tw: "takeWhile rx_space ('' '' @ mac_string hw @ ?rest) = '' ''"
    "dropWhile rx_space ('' '' @ mac_string hw @ ?rest) = mac_string hw @ ?rest"
    using first takeWhile_app_stop [of "'' ''" rx_space "mac_string hw @ ?rest"]
      dropWhile_app_stop [of "'' ''" rx_space "mac_string hw @ ?rest"] rx_space_blank by simp_all
  have "mac_char (CHR '' '') = False" by (simp add: mac_char_def hex_val_def)
  then have mac: "takeWhile mac_char (mac_string hw @ ?rest) = mac_string hw"
    "dropWhile mac_char (mac_string hw @ ?rest) = ?rest"
    using chars by (auto intro!: takeWhile_app_stop dropWhile_app_stop)
  have "?rx (''    '' @ ''link/ether '' @ mac_string hw @ ?rest) = ?rx (''link/ether '' @ mac_string hw @ ?rest)"
    by (rule rx_find_no_hd) auto
  also have "\<dots> = Some (mac_string hw, ?rest)"
    using tw mac ne by (intro rx_find_at) (simp add: rx_here_def)
  finally show ?thesis by (simp add: find_mac_def ether_line_def)
qed

text \<open>One member of \<^verbatim>\<open>ip link show master\<close>; a VLAN name is followed by \<open>@\<close> and its parent.\<close>

record member_entry =
  me_idx :: nat
  me_name :: string
  me_parent :: string
  me_flags :: "string list"
  me_mtu :: nat
  me_more :: string
  me_mac :: bytes
  me_brd :: string

definition member_text :: "member_entry \<Rightarrow> string" where
  "member_text e =
     link_line (me_idx e) (me_name e @ me_parent e) (me_flags e) (me_mtu e) (me_more e) @ [CHR 0x0A] @
     ether_line (me_mac e) (me_brd e) @ [CHR 0x0A]"

definition member_entry_ok :: "member_entry \<Rightarrow> bool" where
  "member_entry_ok e \<longleftrightarrow>
     me_name e \<noteq> [] \<and>
     (\<forall>c \<in> set (me_name e). c \<noteq> CHR '':'' \<and> c \<noteq> CHR ''@'' \<and> \<not> rx_space c) \<and>
     (me_parent e = [] \<or> hd (me_parent e) = CHR ''@'') \<and>
     CHR 0x0A \<notin> set (me_parent e) \<and> (\<forall>f \<in> set (me_flags e). CHR 0x0A \<notin> set f) \<and>
     CHR 0x0A \<notin> set (me_more e) \<and> CHR 0x0A \<notin> set (me_brd e)"

lemma members_skip_line:
  "CHR 0x0A \<notin> set a \<Longrightarrow> members_from False (a @ CHR 0x0A # b) = members_from True b"
  by (induction a) (auto simp: members_from.simps)

lemma member_here_link_line:
  assumes "member_entry_ok e"
  shows "member_here (dec_of_nat (me_idx e) @ '': '' @ me_name e @ me_parent e @ '':'' @ rest) = Some (me_name e, me_parent e @ '':'' @ rest)"
proof -
  let ?s = "me_name e @ me_parent e @ '':'' @ rest"
  have digits: "takeWhile is_digit (dec_of_nat (me_idx e) @ '': '' @ ?s) = dec_of_nat (me_idx e)"
    "dropWhile is_digit (dec_of_nat (me_idx e) @ '': '' @ ?s) = '': '' @ ?s"
    using set_dec_of_nat [of _ "me_idx e"]
    by (auto intro!: takeWhile_app_stop dropWhile_app_stop simp: is_digit_code)
  have "\<not> rx_space (hd (dec_of_nat (me_idx e)))"
    by (rule is_digit_not_space [OF set_dec_of_nat [OF dec_of_nat_hd]])
  then have lead: "takeWhile rx_space (dec_of_nat (me_idx e) @ '': '' @ ?s) = []"
    "dropWhile rx_space (dec_of_nat (me_idx e) @ '': '' @ ?s) = dec_of_nat (me_idx e) @ '': '' @ ?s"
    using takeWhile_app_stop [of "[]" rx_space "dec_of_nat (me_idx e) @ '': '' @ ?s"]
      dropWhile_app_stop [of "[]" rx_space "dec_of_nat (me_idx e) @ '': '' @ ?s"] by simp_all
  have "\<not> rx_space (hd ?s)" using assms by (auto simp: member_entry_ok_def)
  then have blank: "takeWhile rx_space ('' '' @ ?s) = '' ''" "dropWhile rx_space ('' '' @ ?s) = ?s"
    using takeWhile_app_stop [of "'' ''" rx_space ?s] dropWhile_app_stop [of "'' ''" rx_space ?s] by simp_all
  let ?P = "\<lambda>c. c \<noteq> CHR '':'' \<and> c \<noteq> CHR ''@'' \<and> \<not> rx_space c"
  have name: "takeWhile ?P ?s = me_name e" "dropWhile ?P ?s = me_parent e @ '':'' @ rest"
  proof -
    have all: "\<forall>c \<in> set (me_name e). ?P c" using assms by (simp add: member_entry_ok_def)
    have "\<not> ?P (hd (me_parent e @ '':'' @ rest))"
      using assms by (cases "me_parent e") (auto simp: member_entry_ok_def)
    then have stop: "me_parent e @ '':'' @ rest = [] \<or> \<not> ?P (hd (me_parent e @ '':'' @ rest))" by blast
    show "takeWhile ?P ?s = me_name e" by (rule takeWhile_app_stop [OF all stop])
    show "dropWhile ?P ?s = me_parent e @ '':'' @ rest" by (rule dropWhile_app_stop [OF all stop])
  qed
  have "me_name e \<noteq> []" using assms by (simp add: member_entry_ok_def)
  with digits lead blank name show ?thesis by (simp add: member_here_def rx_here_def)
qed

lemma dec_of_nat_Cons: "\<exists>c cs. dec_of_nat n = c # cs"
  by (meson dec_of_nat_nonempty list.exhaust)

lemma str_join_nl: "\<forall>f \<in> set fs. CHR 0x0A \<notin> set f \<Longrightarrow> CHR 0x0A \<notin> set (str_join fs '','')"
  by (induction fs "'',''" rule: str_join.induct) auto

lemma members_ether_line:
  assumes "CHR 0x0A \<notin> set brd"
  shows "members_from True (ether_line hw brd @ CHR 0x0A # b) = members_from True b"
proof -
  let ?t = "''link/ether '' @ mac_string hw @ '' brd '' @ brd"
  have nl: "CHR 0x0A \<notin> set ?t"
    using assms mac_string_chars [of "CHR 0x0A" hw] by (auto simp: mac_char_def hex_val_def)
  have "member_here (''    '' @ ?t @ CHR 0x0A # b) = None"
    by (simp add: member_here_def rx_here_def rx_space_def is_digit_code)
  then have "members_from True (''    '' @ ?t @ CHR 0x0A # b) = members_from False ((''   '' @ ?t) @ CHR 0x0A # b)"
    by (simp add: members_from.simps(2))
  also have "\<dots> = members_from True b"
    using nl by (intro members_skip_line) auto
  finally show ?thesis by (simp add: ether_line_def)
qed

lemma members_link_line:
  assumes "member_entry_ok e"
  shows "members_from True (link_line (me_idx e) (me_name e @ me_parent e) (me_flags e) (me_mtu e) (me_more e) @ CHR 0x0A # b) =
           me_name e # members_from True b"
proof -
  let ?rest = "'' <'' @ str_join (me_flags e) '','' @ ''> mtu '' @ dec_of_nat (me_mtu e) @ '' '' @ me_more e"
  let ?line = "dec_of_nat (me_idx e) @ '': '' @ me_name e @ me_parent e @ '':'' @ ?rest @ CHR 0x0A # b"
  have nl: "CHR 0x0A \<notin> set (me_parent e @ '':'' @ ?rest)"
    using assms set_dec_of_nat [of "CHR 0x0A" "me_mtu e"]
    by (auto simp: member_entry_ok_def str_join_nl is_digit_code)
  obtain c cs where line: "?line = c # cs" using dec_of_nat_Cons [of "me_idx e"] by auto
  have shorter: "length (me_parent e @ '':'' @ ?rest @ CHR 0x0A # b) < length (c # cs)"
    unfolding line [symmetric] by simp
  have "member_here (c # cs) = Some (me_name e, me_parent e @ '':'' @ ?rest @ CHR 0x0A # b)"
    using member_here_link_line [OF assms, of "?rest @ CHR 0x0A # b"] line by simp
  with shorter have "members_from True ?line = me_name e # members_from False ((me_parent e @ '':'' @ ?rest) @ CHR 0x0A # b)"
    unfolding line members_from.simps(2) by simp
  also have "\<dots> = me_name e # members_from True b"
    using members_skip_line [OF nl] by simp
  finally show ?thesis by (simp add: link_line_def)
qed

text \<open>The reader returns the names of the members, and nothing else.\<close>

lemma members_of_members:
  assumes "\<forall>e \<in> set es. member_entry_ok e"
  shows "members_of (concat (map member_text es)) = map me_name es"
  using assms unfolding members_of_def
proof (induction es)
  case Nil
  then show ?case by (simp add: members_from.simps)
next
  case (Cons e es)
  then have "CHR 0x0A \<notin> set (me_brd e)" by (simp add: member_entry_ok_def)
  with Cons show ?case
    by (simp add: member_text_def members_link_line members_ether_line)
qed

section \<open>Properties\<close>

text \<open>The link-local address that a resource adds is skipped when the addresses are read back: it never becomes
  the IPv6 address of the resource.\<close>

theorem link_local_not_adopted:
  assumes "link_local_ipv6_from_mac hw = Inr ip"
  shows "first_global_ipv6 ((ip_string ip @ ''/64'') # rest) = first_global_ipv6 rest"
  using link_local_is_link_local [OF assms] parse_link_local_cidr [OF assms] by simp

theorem link_local_not_adopted_witness:
  "first_global_ipv6 ((ip_string [0xfe, 0x80, 0, 0, 0, 0, 0, 0, 0, 0, 0, 0xff, 0xfe, 0, 0, 1] @ ''/64'') # [''fd00::1/64'']) =
   first_global_ipv6 [''fd00::1/64'']"
  by (rule link_local_not_adopted [of "[2, 0, 0, 0, 0, 1]"]) (simp add: link_local_ipv6_from_mac_def)

end
