(* ===== verification/Go_Duration.thy ===== *)
theory Go_Duration
  imports Provider_Conf
begin

text \<open>
  Durations of package \<^verbatim>\<open>time\<close> as the sources use them: nanoseconds in an \<^verbatim>\<open>int64\<close>, printed by
  \<^verbatim>\<open>Duration.String\<close>, rounded to seconds, read by \<^verbatim>\<open>time.ParseDuration\<close>, and the validator of
  \<^verbatim>\<open>duration_validator.go\<close>. What a decimal fraction of a unit is worth is computed in floating
  point; that product is the parameter \<open>fl\<close> of the reader: digits, their number and the unit.
\<close>

abbreviation usec :: int where "usec \<equiv> 1000"
abbreviation msec :: int where "msec \<equiv> 1000000"
abbreviation sec :: int where "sec \<equiv> 1000000000"
abbreviation minute :: int where "minute \<equiv> 60 * sec"
abbreviation hour :: int where "hour \<equiv> 60 * minute"

section \<open>Printing\<close>

fun pad_digits :: "nat \<Rightarrow> nat \<Rightarrow> string" where
  "pad_digits 0 v = []"
| "pad_digits (Suc k) v = pad_digits k (v div 10) @ [digit_char (v mod 10)]"

text \<open>\<^verbatim>\<open>fmtFrac\<close>: the fraction without trailing zeros, and no point when nothing is left.\<close>

definition fmt_frac :: "nat \<Rightarrow> nat \<Rightarrow> string" where
  "fmt_frac prec v =
     (let ds = trim_right_by (\<lambda>c. c = CHR ''0'') (pad_digits prec v) in if ds = [] then [] else CHR ''.'' # ds)"

definition fmt_duration :: "nat \<Rightarrow> string" where
  "fmt_duration u =
     (if u = 0 then ''0s''
      else if u < 1000 then dec_of_nat u @ ''ns''
      else if u < 1000000 then dec_of_nat (u div 1000) @ fmt_frac 3 u @ [CHR 0xC2, CHR 0xB5, CHR ''s'']
      else if u < 1000000000 then dec_of_nat (u div 1000000) @ fmt_frac 6 u @ ''ms''
      else
        (let secs = u div 1000000000; mins = secs div 60; hours = mins div 60;
             s = dec_of_nat (secs mod 60) @ fmt_frac 9 u @ ''s''
         in if mins = 0 then s
            else if hours = 0 then dec_of_nat (mins mod 60) @ ''m'' @ s
            else dec_of_nat hours @ ''h'' @ dec_of_nat (mins mod 60) @ ''m'' @ s))"

definition duration_string :: "int \<Rightarrow> string" where
  "duration_string d = (if d < 0 then ''-'' @ fmt_duration (nat (- d)) else fmt_duration (nat d))"

text \<open>\<^verbatim>\<open>Duration.Round\<close>: halves are rounded away from zero.\<close>

definition duration_round :: "int \<Rightarrow> int \<Rightarrow> int" where
  "duration_round d m =
     (if m \<le> 0 then d
      else let r = \<bar>d\<bar> mod m; a = (if 2 * r < m then \<bar>d\<bar> - r else \<bar>d\<bar> + (m - r)) in if d < 0 then - a else a)"

section \<open>Reading\<close>

definition time_quote :: "string \<Rightarrow> string" where
  "time_quote s =
     [CHR 0x22] @
     concat (map (\<lambda>c. let n = of_char c :: nat in
        if 128 \<le> n \<or> n < 32 then [CHR 0x5C, CHR ''x'', hex_char (n div 16), hex_char (n mod 16)]
        else if c = CHR 0x22 \<or> c = CHR 0x5C then [CHR 0x5C, c] else [c]) s) @ [CHR 0x22]"

definition unit_of :: "string \<Rightarrow> nat option" where
  "unit_of u =
     (if u = ''ns'' then Some 1
      else if u = ''us'' \<or> u = [CHR 0xC2, CHR 0xB5, CHR ''s''] \<or> u = [CHR 0xCE, CHR 0xBC, CHR ''s''] then Some 1000
      else if u = ''ms'' then Some 1000000
      else if u = ''s'' then Some 1000000000
      else if u = ''m'' then Some 60000000000
      else if u = ''h'' then Some 3600000000000
      else None)"

text \<open>\<^verbatim>\<open>leadingInt\<close>: \<open>None\<close> when the digits run past \<open>2 ^ 63\<close>.\<close>

fun leading_int :: "nat \<Rightarrow> string \<Rightarrow> (nat \<times> string) option" where
  "leading_int x [] = Some (x, [])"
| "leading_int x (c # s) =
     (case digit_val c of
        None \<Rightarrow> Some (x, c # s)
      | Some d \<Rightarrow>
          if x > 2 ^ 63 div 10 then None
          else if 10 * x + d > 2 ^ 63 then None else leading_int (10 * x + d) s)"

text \<open>\<^verbatim>\<open>leadingFraction\<close>: the digits that fit, their number, and the rest.\<close>

fun leading_fraction :: "nat \<Rightarrow> nat \<Rightarrow> bool \<Rightarrow> string \<Rightarrow> nat \<times> nat \<times> string" where
  "leading_fraction x k full [] = (x, k, [])"
| "leading_fraction x k full (c # s) =
     (case digit_val c of
        None \<Rightarrow> (x, k, c # s)
      | Some d \<Rightarrow>
          if full \<or> x > (2 ^ 63 - 1) div 10 \<or> 10 * x + d > 2 ^ 63 then leading_fraction x k True s
          else leading_fraction (10 * x + d) (Suc k) False s)"

definition unit_end :: "char \<Rightarrow> bool" where
  "unit_end c \<longleftrightarrow> c = CHR ''.'' \<or> is_digit c"

text \<open>One number with its unit: what it is worth and what follows.\<close>

definition parse_duration_part ::
    "(nat \<Rightarrow> nat \<Rightarrow> nat \<Rightarrow> nat) \<Rightarrow> string \<Rightarrow> string \<Rightarrow> goerr + (nat \<times> string)" where
  "parse_duration_part fl orig s =
     (let invalid = Inl (Err (''time: invalid duration '' @ time_quote orig))
      in if s = [] \<or> \<not> unit_end (hd s) then invalid
         else (case leading_int 0 s of
             None \<Rightarrow> invalid
           | Some (v, s1) \<Rightarrow>
               (let pre = (length s1 \<noteq> length s);
                    (f, k, s2) = (if s1 \<noteq> [] \<and> hd s1 = CHR ''.'' then leading_fraction 0 0 False (tl s1) else (0, 0, s1));
                    post = (s1 \<noteq> [] \<and> hd s1 = CHR ''.'' \<and> length s2 \<noteq> length (tl s1))
                in if \<not> pre \<and> \<not> post then invalid
                   else (let u = takeWhile (\<lambda>c. \<not> unit_end c) s2; s3 = dropWhile (\<lambda>c. \<not> unit_end c) s2
                         in if u = [] then Inl (Err (''time: missing unit in duration '' @ time_quote orig))
                            else (case unit_of u of
                                None \<Rightarrow> Inl (Err (''time: unknown unit '' @ time_quote u @ '' in duration '' @ time_quote orig))
                              | Some un \<Rightarrow>
                                  (if v > 2 ^ 63 div un then invalid
                                   else let w = v * un + (if f > 0 then fl f k un else 0)
                                        in if f > 0 \<and> w > 2 ^ 63 then invalid else Inr (w, s3)))))))"

text \<open>The parts are added up in a \<^verbatim>\<open>uint64\<close>. The fuel is the length: every part consumes a byte.\<close>

fun parse_duration_parts ::
    "(nat \<Rightarrow> nat \<Rightarrow> nat \<Rightarrow> nat) \<Rightarrow> string \<Rightarrow> nat \<Rightarrow> nat \<Rightarrow> string \<Rightarrow> goerr + nat" where
  "parse_duration_parts fl orig n d [] = Inr d"
| "parse_duration_parts fl orig 0 d s = Inl (Err (''time: invalid duration '' @ time_quote orig))"
| "parse_duration_parts fl orig (Suc n) d s =
     (case parse_duration_part fl orig s of
        Inl e \<Rightarrow> Inl e
      | Inr (v, rest) \<Rightarrow>
          (let d' = (d + v) mod 2 ^ 64
           in if d' > 2 ^ 63 then Inl (Err (''time: invalid duration '' @ time_quote orig))
              else parse_duration_parts fl orig n d' rest))"

definition parse_duration :: "(nat \<Rightarrow> nat \<Rightarrow> nat \<Rightarrow> nat) \<Rightarrow> string \<Rightarrow> goerr + int" where
  "parse_duration fl orig =
     (let neg = (orig \<noteq> [] \<and> hd orig = CHR ''-'');
          s = (if orig \<noteq> [] \<and> (hd orig = CHR ''-'' \<or> hd orig = CHR ''+'') then tl orig else orig);
          invalid = Inl (Err (''time: invalid duration '' @ time_quote orig))
      in if s = ''0'' then Inr 0
         else if s = [] then invalid
         else (case parse_duration_parts fl orig (length s) 0 s of
             Inl e \<Rightarrow> Inl e
           | Inr d \<Rightarrow> if neg then Inr (- int d) else if d > 2 ^ 63 - 1 then invalid else Inr (int d)))"

section \<open>The validator\<close>

text \<open>\<^verbatim>\<open>positiveDurationValidator.ValidateString\<close>.\<close>

definition validate_duration :: "(nat \<Rightarrow> nat \<Rightarrow> nat \<Rightarrow> nat) \<Rightarrow> string tfval \<Rightarrow> diagnostics" where
  "validate_duration fl v =
     (case v of
        TKnown s \<Rightarrow>
          (case parse_duration fl s of
             Inl e \<Rightarrow> [add_error ''Invalid Duration''
                (go_quote s @ '' is not a valid Go duration string: '' @ err_msg e @ [CHR 0x0A, CHR 0x0A] @
                 ''A duration is a number followed by a unit, optionally repeated, e.g. '' @ go_quote ''30s'' @ '', '' @
                 go_quote ''5m'' @ '', '' @ go_quote ''1h30m'' @ ''. '' @
                 ''Valid units are '' @ go_quote ''ns'' @ '', '' @ go_quote ''us'' @ '', '' @ go_quote ''ms'' @ '', '' @
                 go_quote ''s'' @ '', '' @ go_quote ''m'' @ '' and '' @ go_quote ''h'' @
                 ''; a bare number such as '' @ go_quote ''30'' @ '' is not valid.'')]
           | Inr d \<Rightarrow>
               if d \<le> 0 then [add_error ''Invalid Duration''
                 (go_quote s @ '' must be a positive duration, got '' @ duration_string d @ ''.'')]
               else [])
      | _ \<Rightarrow> [])"

section \<open>Lemmas\<close>

text \<open>A decimal number followed by a unit letter reads back.\<close>

lemma leading_int_digits:
  assumes "parse_digits x ds = Some v" and "v \<le> 2 ^ 63 div 10" and "\<not> is_digit c"
  shows "leading_int x (ds @ c # rest) = Some (v, c # rest)"
  using assms(1)
proof (induction ds arbitrary: x)
  case Nil
  with assms(3) show ?case by (simp add: is_digit_def)
next
  case (Cons a ds)
  then obtain d where d: "digit_val a = Some d" and rest: "parse_digits (10 * x + d) ds = Some v"
    by (auto split: option.splits)
  have mono: "y \<le> v" if "parse_digits y es = Some v" for y es
    using that
  proof (induction es arbitrary: y)
    case (Cons e es)
    then show ?case by (auto split: option.splits) fastforce
  qed auto
  from mono [OF rest] assms(2) have "10 * x + d \<le> 2 ^ 63 div 10" by simp
  with Cons.IH [OF rest] d show ?case by simp
qed

lemma parse_part:
  assumes "v \<le> 2 ^ 63 div 3600000000000" and "unit_of (c # u) = Some un"
    and "\<forall>x \<in> set (c # u). \<not> unit_end x" and "rest = [] \<or> unit_end (hd rest)"
  shows "parse_duration_part fl orig (dec_of_nat v @ (c # u) @ rest) = Inr (v * un, rest)"
proof -
  let ?s = "dec_of_nat v @ (c # u) @ rest"
  have hd: "unit_end (hd ?s)" using set_dec_of_nat [OF dec_of_nat_hd [of v]] by (simp add: unit_end_def hd_append)
  have "leading_int 0 (dec_of_nat v @ c # (u @ rest)) = Some (v, c # (u @ rest))"
    using assms(1,3) by (intro leading_int_digits) (auto simp: parse_digits_dec_of_nat unit_end_def)
  then have li: "leading_int 0 ?s = Some (v, c # (u @ rest))" by simp
  have dot: "c \<noteq> CHR ''.''" using assms(3) by (auto simp: unit_end_def)
  have tw: "takeWhile (\<lambda>c. \<not> unit_end c) (c # (u @ rest)) = c # u"
    "dropWhile (\<lambda>c. \<not> unit_end c) (c # (u @ rest)) = rest"
    using assms(3,4) by (cases rest; auto simp: takeWhile_append dropWhile_append)+
  have "un \<in> {1, 1000, 1000000, 1000000000, 60000000000, 3600000000000}"
    using assms(2) by (auto simp: unit_of_def split: if_splits)
  then have "v \<le> 2 ^ 63 div un" using assms(1) by auto
  with hd li dot tw assms(2) show ?thesis
    unfolding parse_duration_part_def by (simp add: Let_def)
qed

lemma parse_parts_step:
  assumes "length (dec_of_nat v @ (c # u) @ rest) \<le> n"
    and "v \<le> 2 ^ 63 div 3600000000000" and "unit_of (c # u) = Some un"
    and "\<forall>x \<in> set (c # u). \<not> unit_end x" and "rest = [] \<or> unit_end (hd rest)" and "d + v * un \<le> 2 ^ 63"
  shows "\<exists>m \<ge> length rest. parse_duration_parts fl orig n d (dec_of_nat v @ (c # u) @ rest) =
           parse_duration_parts fl orig m (d + v * un) rest"
proof -
  obtain a t where s: "dec_of_nat v @ (c # u) @ rest = a # t" by (cases "dec_of_nat v") auto
  obtain m where m: "n = Suc m" using assms(1) s by (cases n) auto
  have "(d + v * un) mod 2 ^ 64 = d + v * un" using assms(6) by simp
  moreover have "parse_duration_part fl orig (a # t) = Inr (v * un, rest)"
    using parse_part [OF assms(2-5), of fl orig] s by simp
  ultimately have "parse_duration_parts fl orig n d (a # t) = parse_duration_parts fl orig m (d + v * un) rest"
    using assms(6) unfolding m by (simp add: Let_def)
  moreover have "length rest \<le> m" using assms(1) m by simp
  ultimately show ?thesis using s by metis
qed

lemma pad_digits_zero: "10 ^ k dvd v \<Longrightarrow> pad_digits k v = replicate k (CHR ''0'')"
proof (induction k arbitrary: v)
  case (Suc k)
  then obtain w where v: "v = 10 * (10 ^ k * w)" by (auto simp: dvd_def algebra_simps)
  then have "v div 10 = 10 ^ k * w" "v mod 10 = 0" by simp_all
  moreover have "digit_char 0 = CHR ''0''" by code_simp
  ultimately show ?case
    using Suc.IH [of "10 ^ k * w"] by (simp add: replicate_append_same)
qed simp

lemma fmt_frac_zero: "10 ^ k dvd v \<Longrightarrow> fmt_frac k v = []"
  by (simp add: fmt_frac_def pad_digits_zero trim_right_by_def)

text \<open>The three parts of a printed number of seconds.\<close>

definition hms :: "nat \<Rightarrow> string" where
  "hms s =
     (let m = s div 60; h = m div 60; t = dec_of_nat (s mod 60) @ ''s''
      in if m = 0 then t else if h = 0 then dec_of_nat (m mod 60) @ ''m'' @ t
         else dec_of_nat h @ ''h'' @ dec_of_nat (m mod 60) @ ''m'' @ t)"

lemma fmt_duration_seconds: "0 < s \<Longrightarrow> fmt_duration (s * 1000000000) = hms s"
  using fmt_frac_zero [of 9 "s * 1000000000"]
  by (simp add: fmt_duration_def hms_def Let_def)

lemma parse_hms:
  assumes "s * 1000000000 \<le> 2 ^ 63" and "length (hms s) \<le> n"
  shows "parse_duration_parts fl orig n 0 (hms s) = Inr (s * 1000000000)"
proof -
  define m where "m = s div 60"
  define h where "h = m div 60"
  have s: "s = h * 3600 + m mod 60 * 60 + s mod 60"
  proof -
    have "m * 60 + s mod 60 = s" unfolding m_def by (rule div_mult_mod_eq)
    moreover have "h * 60 + m mod 60 = m" unfolding h_def by (rule div_mult_mod_eq)
    moreover have "(h * 60 + q) * 60 + r = h * 3600 + q * 60 + r" for q r :: nat by simp
    ultimately show ?thesis by metis
  qed
  have lim: "h \<le> 2 ^ 63 div 3600000000000" "m mod 60 \<le> 2 ^ 63 div 3600000000000" "s mod 60 \<le> 2 ^ 63 div 3600000000000"
    using assms(1) unfolding h_def m_def by simp_all
  have units: "unit_of ''h'' = Some 3600000000000" "unit_of ''m'' = Some 60000000000" "unit_of ''s'' = Some 1000000000"
    by (simp_all add: unit_of_def)
  have hd_dec: "unit_end (hd (dec_of_nat k @ t))" for k t
    using set_dec_of_nat [OF dec_of_nat_hd [of k]] by (simp add: unit_end_def hd_append)
  have unit: "\<not> unit_end (CHR ''h'')" "\<not> unit_end (CHR ''m'')" "\<not> unit_end (CHR ''s'')"
    by (simp_all add: unit_end_def is_digit_code)
  have S: "parse_duration_parts fl orig n d (dec_of_nat (s mod 60) @ ''s'') = Inr (d + s mod 60 * 1000000000)"
    if "length (dec_of_nat (s mod 60) @ ''s'') \<le> n" "d + s mod 60 * 1000000000 \<le> 2 ^ 63" for n d
    using parse_parts_step [of "s mod 60" "CHR ''s''" "[]" "[]" n "1000000000" d fl orig] that lim units unit by auto
  have M: "parse_duration_parts fl orig n d (dec_of_nat (m mod 60) @ ''m'' @ dec_of_nat (s mod 60) @ ''s'') =
      Inr (d + m mod 60 * 60000000000 + s mod 60 * 1000000000)"
    if "length (dec_of_nat (m mod 60) @ ''m'' @ dec_of_nat (s mod 60) @ ''s'') \<le> n"
      "d + m mod 60 * 60000000000 + s mod 60 * 1000000000 \<le> 2 ^ 63" for n d
    using parse_parts_step [of "m mod 60" "CHR ''m''" "[]" "dec_of_nat (s mod 60) @ ''s''" n "60000000000" d fl orig]
      S [of _ "d + m mod 60 * 60000000000"] that lim units unit hd_dec by auto
  have H: "parse_duration_parts fl orig n 0 (dec_of_nat h @ ''h'' @ dec_of_nat (m mod 60) @ ''m'' @ dec_of_nat (s mod 60) @ ''s'') =
      Inr (h * 3600000000000 + m mod 60 * 60000000000 + s mod 60 * 1000000000)"
    if "length (dec_of_nat h @ ''h'' @ dec_of_nat (m mod 60) @ ''m'' @ dec_of_nat (s mod 60) @ ''s'') \<le> n" for n
    using parse_parts_step [of h "CHR ''h''" "[]" "dec_of_nat (m mod 60) @ ''m'' @ dec_of_nat (s mod 60) @ ''s''" n "3600000000000" 0 fl orig]
      M [of _ "h * 3600000000000"] that lim units unit hd_dec assms(1) s by auto
  show ?thesis
  proof (cases "m = 0")
    case True
    then have "hms s = dec_of_nat (s mod 60) @ ''s''" "s mod 60 = s" unfolding hms_def m_def by (auto simp: Let_def)
    then show ?thesis using S [of n 0] assms by simp
  next
    case False
    show ?thesis
    proof (cases "h = 0")
      case True
      then have "hms s = dec_of_nat (m mod 60) @ ''m'' @ dec_of_nat (s mod 60) @ ''s''"
        using False unfolding hms_def m_def h_def by (auto simp: Let_def)
      moreover have "m mod 60 * 60000000000 + s mod 60 * 1000000000 = s * 1000000000" using s True by simp
      ultimately show ?thesis using M [of n 0] assms by simp
    next
      case h: False
      then have "hms s = dec_of_nat h @ ''h'' @ dec_of_nat (m mod 60) @ ''m'' @ dec_of_nat (s mod 60) @ ''s''"
        using False unfolding hms_def m_def h_def by (auto simp: Let_def)
      moreover have "h * 3600000000000 + m mod 60 * 60000000000 + s mod 60 * 1000000000 = s * 1000000000"
        using s by simp
      ultimately show ?thesis using H [of n] assms by simp
    qed
  qed
qed

lemma hms_start: "\<exists>k t. hms s = dec_of_nat k @ t \<and> t \<noteq> []"
  by (auto simp: hms_def Let_def intro: exI [of _ "s mod 60"])

text \<open>A duration of whole seconds that is printed is read back.\<close>

lemma parse_duration_seconds:
  assumes "0 < s" and "s * 1000000000 < 2 ^ 63"
  shows "parse_duration fl (duration_string (int s * sec)) = Inr (int s * sec)"
proof -
  obtain k t where kt: "hms s = dec_of_nat k @ t" "t \<noteq> []" using hms_start by blast
  obtain a b where ab: "dec_of_nat k = a # b" by (cases "dec_of_nat k") auto
  have "is_digit a" using set_dec_of_nat [of a k] ab by simp
  then have a: "a \<noteq> CHR ''-''" "a \<noteq> CHR ''+''" by (auto simp: is_digit_code)
  have "duration_string (int s * sec) = fmt_duration (s * 1000000000)"
    by (simp add: duration_string_def nat_mult_distrib)
  then have str: "duration_string (int s * sec) = hms s" using fmt_duration_seconds [OF assms(1)] by simp
  have "hms s \<noteq> ''0''" using kt ab by auto
  moreover have "hd (hms s) = a" "hms s \<noteq> []" using kt ab by auto
  ultimately show ?thesis
    using parse_hms [of s "length (hms s)" fl "hms s"] assms(2) a unfolding str parse_duration_def by (simp add: Let_def)
qed

end
