(* ===== verification/Hv_Env.thy ===== *)
theory Hv_Env
  imports Vm_Config Ip_Output Go_Duration
begin

text \<open>
  The environment of the two hypervisor back ends: the executor, the clock, dialing a socket
  on the target, the QMP monitor and the decoders of \<^verbatim>\<open>encoding/json\<close> the sources call, as
  parameters; and the loops that poll against a deadline.
\<close>

record 'w hv_env =
  he_exec :: "'w executor"
  he_now :: "('w, int) state"
  he_sleep :: "int \<Rightarrow> ('w, unit) state"
  he_dial :: "string \<Rightarrow> string \<Rightarrow> int \<Rightarrow> ('w, goerr + nat) state"
  he_conn_close :: "nat \<Rightarrow> ('w, unit) state"
  he_ctx_wait :: "int \<Rightarrow> ('w, goerr option) state"
  he_qmp_connect :: "nat \<Rightarrow> ('w, goerr option) state"
  he_qmp_run :: "nat \<Rightarrow> string \<Rightarrow> ('w, goerr + string) state"
  he_qmp_disconnect :: "nat \<Rightarrow> ('w, unit) state"
  he_run_bg :: "string \<Rightarrow> string \<Rightarrow> string list \<Rightarrow> ('w, nat) state"
  he_bg_wait :: "nat \<Rightarrow> ('w, result) state"
  he_json_running :: "string \<Rightarrow> goerr + bool"
  he_json_format :: "string \<Rightarrow> goerr + string"






text \<open>\<^verbatim>\<open>fmt.Errorf("...%w; %s", err, tail)\<close>.\<close>

definition wrapfs :: "string \<Rightarrow> goerr \<Rightarrow> string \<Rightarrow> goerr" where
  "wrapfs pre e tail = Wrap (pre @ err_msg e @ tail) e"

section \<open>Polling\<close>

text \<open>
  \<^verbatim>\<open>for time.Now().Before(deadline) { attempt; sleep }\<close>. The outer \<open>None\<close> means that the fuel ran
  out, the inner one that the deadline passed.
\<close>

fun poll_loop :: "nat \<Rightarrow> 'w hv_env \<Rightarrow> int \<Rightarrow> int \<Rightarrow> ('w, 'a option) state \<Rightarrow> ('w, 'a option option) state" where
  "poll_loop 0 E deadline interval attempt = State_Monad.return None"
| "poll_loop (Suc n) E deadline interval attempt = do {
     now \<leftarrow> he_now E;
     if now < deadline then do {
       r \<leftarrow> attempt;
       case r of
         Some x \<Rightarrow> State_Monad.return (Some (Some x))
       | None \<Rightarrow> do { _ \<leftarrow> he_sleep E interval; poll_loop n E deadline interval attempt } }
     else State_Monad.return (Some None) }"

text \<open>A clock \<open>clk\<close> on the environment that never goes back and that sleeping advances.\<close>

definition never_back :: "('w \<Rightarrow> int) \<Rightarrow> ('w, 'a) state \<Rightarrow> bool" where
  "never_back clk m \<longleftrightarrow> (\<forall>w. clk w \<le> clk (snd (run_state m w)))"

definition ticking :: "('w \<Rightarrow> int) \<Rightarrow> 'w hv_env \<Rightarrow> bool" where
  "ticking clk E \<longleftrightarrow>
     (\<forall>w. clk w \<le> fst (run_state (he_now E) w) \<and> clk w \<le> clk (snd (run_state (he_now E) w))) \<and>
     (\<forall>w d. 0 \<le> d \<longrightarrow> clk w + d \<le> clk (snd (run_state (he_sleep E d) w)))"

text \<open>With such a clock the loop ends: one round per interval is enough fuel.\<close>

lemma poll_loop_ends:
  assumes "ticking clk E" and "never_back clk attempt" and "0 \<le> interval"
    and "deadline - clk w \<le> int n * interval"
  shows "fst (run_state (poll_loop (Suc n) E deadline interval attempt) w) \<noteq> None"
  using assms(4)
proof (induction n arbitrary: w)
  case 0
  moreover have "clk w \<le> fst (run_state (he_now E) w)" using assms(1) by (simp add: ticking_def)
  ultimately show ?case by (auto split: prod.splits)
next
  case (Suc n)
  obtain now w1 where now: "run_state (he_now E) w = (now, w1)" by (cases "run_state (he_now E) w")
  obtain r w2 where att: "run_state attempt w1 = (r, w2)" by (cases "run_state attempt w1")
  obtain u w3 where sl: "run_state (he_sleep E interval) w2 = (u, w3)" by (cases "run_state (he_sleep E interval) w2")
  have "clk w \<le> clk w1" using assms(1) now unfolding ticking_def by (metis snd_conv)
  moreover have "clk w1 \<le> clk w2" using assms(2) att unfolding never_back_def by (metis snd_conv)
  moreover have "clk w2 + interval \<le> clk w3" using assms(1,3) sl unfolding ticking_def by (metis snd_conv)
  ultimately have "deadline - clk w3 \<le> int n * interval" using Suc.prems by (simp add: algebra_simps)
  from Suc.IH [OF this] now att sl show ?case by (auto split: option.splits)
qed

text \<open>When it says that something was found, an attempt found it before the deadline.\<close>

lemma poll_loop_found:
  assumes "run_state (poll_loop n E deadline interval attempt) w = (Some (Some x), w')"
  shows "\<exists>v. fst (run_state attempt v) = Some x"
  using assms
  by (induction n arbitrary: w) (auto split: prod.splits if_splits option.splits, metis fst_conv)

section \<open>gvproxy\<close>

text \<open>
  \<^verbatim>\<open>startGvproxy\<close> of both back ends: the listen flag and the name of the socket differ. The
  attempts of the loop are the calls of \<^verbatim>\<open>Stat\<close> on the socket.
\<close>

definition gvproxy_pid_file :: "string \<Rightarrow> string" where
  "gvproxy_pid_file d = path_join [d, ''gvproxy.pid'']"

definition gvproxy_args :: "vm_config \<Rightarrow> string \<Rightarrow> string \<Rightarrow> string \<Rightarrow> string list" where
  "gvproxy_args conf flag scheme socket_path =
     [''-pid-file'', gvproxy_pid_file (vm_resource_dir conf), ''-gvproxy'', flag, scheme @ socket_path,
      ''-gp.forwards'', gvproxy_forwards (vm_ssh_port conf) ''192.168.127.2'']"

definition socket_ready :: "'w hv_env \<Rightarrow> string \<Rightarrow> ('w, unit option) state" where
  "socket_ready E socket_path = do {
     st \<leftarrow> ex_stat (he_exec E) socket_path;
     State_Monad.return (case st of Inr _ \<Rightarrow> Some () | Inl _ \<Rightarrow> None) }"

definition start_gvproxy ::
    "nat \<Rightarrow> 'w hv_env \<Rightarrow> vm_config \<Rightarrow> string \<Rightarrow> string \<Rightarrow> string \<Rightarrow> ('w, goerr + string) state" where
  "start_gvproxy fuel E conf flag scheme sock_name = do {
     let ex = he_exec E;
     let d = vm_resource_dir conf;
     let socket_path = path_join [d, sock_name];
     (res, err) \<leftarrow> ex_run_detached ex d (ex_self_path ex) (gvproxy_args conf flag scheme socket_path);
     case err of
       Some e \<Rightarrow> failE (wrapfs ''failed to start gvproxy: '' e (''; '' @ r_stderr res))
     | None \<Rightarrow> do {
     w \<leftarrow> ex_write_file ex (gvproxy_pid_file d) (itoa (r_pid res)) mode_600;
     case w of
       Some e \<Rightarrow> failE (wrapf ''failed to write gvproxy PID file: '' e)
     | None \<Rightarrow> do {
     now \<leftarrow> he_now E;
     r \<leftarrow> poll_loop fuel E (now + 3 * sec) (100 * msec) (socket_ready E socket_path);
     case r of
       Some (Some _) \<Rightarrow> okE socket_path
     | _ \<Rightarrow> failE (Err (''gvproxy socket '' @ socket_path @ '' did not appear within 3s'')) } } }"

definition stop_gvproxy :: "'w executor \<Rightarrow> string \<Rightarrow> ('w, unit) state" where
  "stop_gvproxy ex d = do {
     r \<leftarrow> ex_read_file ex (gvproxy_pid_file d);
     case r of
       Inl _ \<Rightarrow> State_Monad.return ()
     | Inr pid_bytes \<Rightarrow>
         (case atoi (trim_space pid_bytes) of
            None \<Rightarrow> State_Monad.return ()
          | Some pid \<Rightarrow> do { _ \<leftarrow> ex_kill ex pid 15; State_Monad.return () }) }"

section \<open>A concrete environment\<close>

text \<open>A target with the given executor where nothing listens: every dial is refused, time stands still
  but for sleeping, which is not seen.\<close>

definition sample_env :: "'w executor \<Rightarrow> 'w hv_env" where
  "sample_env ex =
     \<lparr>he_exec = ex, he_now = State_Monad.return 0, he_sleep = (\<lambda>d. State_Monad.return ()),
      he_dial = (\<lambda>n a t. State_Monad.return (Inl (Err ''connection refused''))),
      he_conn_close = (\<lambda>c. State_Monad.return ()), he_ctx_wait = (\<lambda>d. State_Monad.return None),
      he_qmp_connect = (\<lambda>m. State_Monad.return None), he_qmp_run = (\<lambda>m c. State_Monad.return (Inr [])),
      he_qmp_disconnect = (\<lambda>m. State_Monad.return ()), he_run_bg = (\<lambda>d c a. State_Monad.return 0),
      he_bg_wait = (\<lambda>i. State_Monad.return (new_result [] [])), he_json_running = (\<lambda>b. Inr True),
      he_json_format = (\<lambda>b. Inr ''qcow2'')\<rparr>"

section \<open>Properties\<close>

text \<open>Waiting for the socket of gvproxy ends: with a clock that sleeping advances, 31 rounds are enough for the
  three seconds.\<close>

theorem gvproxy_wait_ends:
  assumes "ticking clk E" and "never_back clk (socket_ready E socket_path)" and "now \<le> clk w"
  shows "fst (run_state (poll_loop 31 E (now + 3 * sec) (100 * msec) (socket_ready E socket_path)) w) \<noteq> None"
  using poll_loop_ends [OF assms(1,2), of "100 * msec" "now + 3 * sec" w 30] assms(3) by simp

theorem gvproxy_wait_ends_witness:
  "fst (run_state (poll_loop 31 ((sample_env (idle_executor\<lparr>ex_stat := \<lambda>q. State_Monad.return (Inl (Sentinel ErrNotExist))\<rparr>))
       \<lparr>he_now := State (\<lambda>t. (t, t)), he_sleep := \<lambda>d. State (\<lambda>t. ((), t + d))\<rparr>) (0 + 3 * sec) (100 * msec)
     (socket_ready ((sample_env (idle_executor\<lparr>ex_stat := \<lambda>q. State_Monad.return (Inl (Sentinel ErrNotExist))\<rparr>))
       \<lparr>he_now := State (\<lambda>t. (t, t)), he_sleep := \<lambda>d. State (\<lambda>t. ((), t + d))\<rparr>) ''/s'')) 0) \<noteq> None"
  by (rule gvproxy_wait_ends [where clk = "\<lambda>t. t"])
    (simp_all add: ticking_def never_back_def socket_ready_def sample_env_def)

end
