(* ===== verification/Daemon.thy ===== *)
theory Daemon
  imports Provider_Conf
begin

text \<open>
  What the daemon resources of \<^verbatim>\<open>internal/provider\<close> share (DHCP, DHCPv6 and HTTP servers, router advertisements,
  the monitors): the process is found through its PID file, started detached, killed, and every
  Read reconciles it with the desired state. The resources instantiate these steps with their own commands and
  messages. \<open>lab\<close> is a small target with processes and PID files, on which their effects are observed.
\<close>

section \<open>PID files\<close>

text \<open>\<^verbatim>\<open>strconv.ParseInt(s, 10, 32)\<close> with its errors.\<close>

definition unsigned_part :: "string \<Rightarrow> string" where
  "unsigned_part s = (case s of [] \<Rightarrow> [] | c # cs \<Rightarrow> if c = CHR ''-'' \<or> c = CHR ''+'' then cs else s)"

definition parse_pid :: "string \<Rightarrow> goerr + int" where
  "parse_pid s =
     (let err = (\<lambda>why. Inl (Err (''strconv.ParseInt: parsing '' @ go_quote s @ '': '' @ why)))
      in if parse_nat (unsigned_part s) = None then err ''invalid syntax''
         else case atoi s of
           Some i \<Rightarrow> if - (2 ^ 31) \<le> i \<and> i < 2 ^ 31 then Inr i else err ''value out of range''
         | None \<Rightarrow> err ''value out of range'')"

type_synonym pid_state = "bool \<times> int \<times> goerr option"

text \<open>The PID file, then the process; \<open>exe\<close> is the executable it must be, if any, and \<open>wrap\<close> what
  happens to the error of the process check.\<close>

definition read_pid :: "(goerr \<Rightarrow> goerr) \<Rightarrow> 'w executor \<Rightarrow> string \<Rightarrow> string \<Rightarrow> ('w, pid_state) state" where
  "read_pid wrap ex pid_path exe = do {
     r \<leftarrow> ex_read_file ex pid_path;
     case r of
       Inl e \<Rightarrow> State_Monad.return (False, 0, Some (wrapf [] e))
     | Inr x \<Rightarrow>
         (case parse_pid (trim_space x) of
            Inl e \<Rightarrow> State_Monad.return (False, 0, Some (wrapf [] e))
          | Inr pid \<Rightarrow> do {
              run \<leftarrow> ex_is_running ex pid exe;
              State_Monad.return (case run of Inl e \<Rightarrow> (False, pid, Some (wrap e)) | Inr b \<Rightarrow> (b, pid, None)) }) }"

section \<open>Start, stop\<close>

text \<open>The provider's own binary, as root and in a namespace when that is asked for.\<close>

definition self_command :: "'w provider_conf \<Rightarrow> string \<Rightarrow> string \<times> string list" where
  "self_command conf netns =
     (let self = ex_self_path (pc_exec conf)
      in if netns \<noteq> []
         then (if pc_use_sudo conf then (pc_sudo conf, [''-n'', pc_ip conf, ''netns'', ''exec'', netns, self])
               else (pc_ip conf, [''netns'', ''exec'', netns, self]))
         else if pc_use_sudo conf then (pc_sudo conf, [''-n'', self]) else (self, []))"

definition known_string :: "string tfval \<Rightarrow> string" where
  "known_string v = (if is_known v then tf_string v else [])"

text \<open>\<open>fmt_diags\<close> stands for \<^verbatim>\<open>%v\<close> of diagnostics, which the framework defines.\<close>

definition start_detached ::
    "(diagnostics \<Rightarrow> string) \<Rightarrow> 'w executor \<Rightarrow> string \<Rightarrow> string \<Rightarrow> string list \<Rightarrow> string \<Rightarrow> ('w, goerr option) state" where
  "start_detached fmt_diags ex d cmd args what = do {
     (res, err) \<leftarrow> ex_run_detached ex d cmd args;
     State_Monad.return (case err of
        None \<Rightarrow> None
      | Some e \<Rightarrow> Some (Wrap (''failed to start '' @ what @ '': '' @ err_msg e @ '', diagnostics: '' @
                              fmt_diags (result_diagnostics res)) e)) }"

abbreviation SIGKILL :: int where "SIGKILL \<equiv> 9"

abbreviation SIGTERM :: int where "SIGTERM \<equiv> 15"

definition stop_process :: "'w executor \<Rightarrow> ('w, pid_state) state \<Rightarrow> string \<Rightarrow> ('w, goerr option) state" where
  "stop_process ex rd what = do {
     (running, pid, err) \<leftarrow> rd;
     case err of
       Some e \<Rightarrow> State_Monad.return (Some (wrapf (''can't find '' @ what @ '' process: '') e))
     | None \<Rightarrow>
         if \<not> running then State_Monad.return None
         else do {
           k \<leftarrow> ex_kill ex pid SIGKILL;
           State_Monad.return (map_option (wrapf (''can't kill '' @ what @ '' process: '')) k) } }"

section \<open>Desired and actual state\<close>

definition desired_state :: "string tfval \<Rightarrow> string" where
  "desired_state st = (if st \<noteq> TNull \<and> tf_string st \<noteq> [] then tf_string st else ''running'')"

definition dir_missing :: "goerr + file_info \<Rightarrow> bool" where
  "dir_missing st = (case st of Inl e \<Rightarrow> is_not_exist e | Inr _ \<Rightarrow> False)"

definition state_of :: "bool \<Rightarrow> string" where
  "state_of running = (if running then ''running'' else ''stopped'')"

definition reconcile ::
    "'w executor \<Rightarrow> string \<Rightarrow> string tfval \<Rightarrow> ('w, pid_state) state \<Rightarrow> ('w, goerr option) state \<Rightarrow>
       ('w, goerr option) state \<Rightarrow> string \<Rightarrow> ('w, goerr + string) state" where
  "reconcile ex dir st rd start stop what = do {
     info \<leftarrow> ex_stat ex dir;
     if dir_missing info then failE (Err ''resource directory does not exist'')
     else do {
       (running, pid, err) \<leftarrow> rd;
       if desired_state st = ''running'' \<and> \<not> running then do {
         e \<leftarrow> start;
         case e of Some e \<Rightarrow> failE (wrapf (''failed to restart '' @ what @ '': '') e) | None \<Rightarrow> okE ''running'' }
       else if desired_state st = ''stopped'' \<and> running then do {
         e \<leftarrow> stop;
         case e of Some e \<Rightarrow> failE (wrapf (''failed to stop '' @ what @ '': '') e) | None \<Rightarrow> okE ''stopped'' }
       else okE (state_of running) } }"

section \<open>Steps of the handlers\<close>

text \<open>A new resource: identifier, directory and back pointer.\<close>

definition new_daemon_dir ::
    "'w controller \<Rightarrow> 'w provider_conf \<Rightarrow> (string \<Rightarrow> string) \<Rightarrow> string \<Rightarrow> ('w, string) handler" where
  "new_daemon_dir ct conf dir t =
     bindE (mapE (\<lambda>e. [add_error t (''Unable to generate a new resource ID: '' @ err_msg e)]) (new_resource_id ct)) (\<lambda>i.
     bindE (orE (ex_mkdir_all (pc_exec conf) (dir i) mode_700)
             (\<lambda>e. [add_error t (''Unable to create resource specific directory: '' @ err_msg e)])) (\<lambda>_.
     bindE (orE (create_tf_back_pointer ct (pc_exec conf) (dir i))
             (\<lambda>e. [add_error t (''Unable to create resource specific file: '' @ err_msg e)])) (\<lambda>_.
     okE i)))"

text \<open>A new directory on a target whose directory operations leave the world \<open>w\<close> alone.\<close>

lemma new_daemon_dir_quiet:
  assumes "run_state (new_daemon_dir (quiet_controller bs wd ct) conf dir t) w = (r, w')"
    and "\<And>p m. snd (run_state (ex_mkdir_all (pc_exec conf) p m) w) = w"
    and "\<And>p x m. snd (run_state (ex_write_file (pc_exec conf) p x m) w) = w"
  shows "w' = w \<and> (\<forall>i. r = Inr i \<longrightarrow> i = quiet_id bs)"
proof -
  have getwd: "ct_getwd (quiet_controller bs wd ct) = State_Monad.return wd"
    by (simp add: quiet_controller_def split: prod.splits)
  have mk: "v = w" if "run_state (ex_mkdir_all (pc_exec conf) p m) w = (e, v)" for p m e v
    using assms(2) [of p m] that by simp
  have wr: "v = w" if "run_state (ex_write_file (pc_exec conf) p x m) w = (e, v)" for p x m e v
    using assms(3) [of p x m] that by simp
  obtain e1 v1 where s1: "run_state (ex_mkdir_all (pc_exec conf) (dir (quiet_id bs)) mode_700) w = (e1, v1)" by (metis surj_pair)
  obtain e2 v2 where s2: "run_state (create_tf_back_pointer (quiet_controller bs wd ct) (pc_exec conf) (dir (quiet_id bs))) w = (e2, v2)"
    by (metis surj_pair)
  have "v2 = w"
    using s2 getwd by (cases wd) (auto simp: create_tf_back_pointer_def split: prod.splits option.splits dest: wr)
  then show ?thesis
    using assms(1) mk [OF s1] s1 s2 by (cases e1; cases e2) (auto simp: new_daemon_dir_def run_quiet_id)
qed

text \<open>The end of Create: the state defaults to running, the daemon is started, and then read.\<close>

definition default_state :: "string tfval \<Rightarrow> string tfval" where
  "default_state st = (if st = TNull \<or> tf_string st = [] then TKnown ''running'' else st)"

definition start_if_running :: "string tfval \<Rightarrow> ('w, goerr option) state \<Rightarrow> string \<Rightarrow> string \<Rightarrow> ('w, unit) handler" where
  "start_if_running st start t msg =
     whenE (tf_string st = ''running'') (orE start (\<lambda>e. [add_error t (msg @ err_msg e)]))"

definition read_or_fail :: "('w, goerr + 'm) state \<Rightarrow> string \<Rightarrow> ('w, 'm) handler" where
  "read_or_fail rd t = mapE (\<lambda>e. [add_error t (err_msg e)]) rd"

text \<open>Read: a resource that is gone is dropped from the state.\<close>

definition read_or_gone :: "('w, goerr + 'm) state \<Rightarrow> (goerr \<Rightarrow> bool) \<Rightarrow> string \<Rightarrow> ('w, 'm option) handler" where
  "read_or_gone rd gone t = do {
     r \<leftarrow> rd;
     case r of
       Inl e \<Rightarrow> if gone e then okE None else failE [add_error t (err_msg e)]
     | Inr m \<Rightarrow> okE (Some m) }"

definition says_gone :: "goerr \<Rightarrow> bool" where
  "says_gone e = str_contains (err_msg e) ''does not exist''"

text \<open>Update of the state attribute.\<close>

definition planned_state :: "string tfval \<Rightarrow> string" where
  "planned_state plan = (if tf_string plan = [] then ''running'' else tf_string plan)"

definition change_state ::
    "string tfval \<Rightarrow> ('w, goerr option) state \<Rightarrow> ('w, goerr option) state \<Rightarrow> string \<Rightarrow> string \<Rightarrow> ('w, string tfval) handler" where
  "change_state plan start stop t what =
     (let desired = planned_state plan
      in bindE (if desired = ''running'' then orE start (\<lambda>e. [add_error t (''Failed to start '' @ what @ '': '' @ err_msg e)])
                else if desired = ''stopped'' then orE stop (\<lambda>e. [add_error t (''Failed to stop '' @ what @ '': '' @ err_msg e)])
                else okE ())
           (\<lambda>_. okE (TKnown desired)))"

definition recreate_error :: "string \<Rightarrow> diagnostics" where
  "recreate_error t =
     [add_error t ''Configuration changes require resource recreation. Only the 'state' field can be updated in-place.'']"

text \<open>Delete: an error of the stop is only logged.\<close>

definition delete_daemon :: "'w executor \<Rightarrow> string \<Rightarrow> ('w, goerr option) state \<Rightarrow> string \<Rightarrow> string \<Rightarrow> ('w, unit) handler" where
  "delete_daemon ex d stop t what = do {
     _ \<leftarrow> stop;
     orE (ex_remove ex d) (\<lambda>e. [add_error t (''Can't delete '' @ what @ '' resource directory: '' @ err_msg e)]) }"

section \<open>Configuration files\<close>

text \<open>\<^verbatim>\<open>OpenWrite\<close> of the executor and the file it returns; a template is executed as a sequence of writes and the file
  closed when the handler returns, here at the end of the writes and after an error.\<close>

record 'w config_files =
  cf_open :: "string \<Rightarrow> nat \<Rightarrow> ('w, goerr + nat) state"
  cf_write :: "nat \<Rightarrow> string \<Rightarrow> ('w, goerr option) state"
  cf_close :: "nat \<Rightarrow> ('w, goerr option) state"

definition execute_template :: "'w config_files \<Rightarrow> nat \<Rightarrow> string list \<Rightarrow> ('w, goerr + unit) state" where
  "execute_template cf f chunks =
     forE chunks (\<lambda>c. do { r \<leftarrow> cf_write cf f c; case r of Some e \<Rightarrow> failE e | None \<Rightarrow> okE () })"

definition closing :: "'w config_files \<Rightarrow> nat \<Rightarrow> ('w, 'a) state \<Rightarrow> ('w, 'a) state" where
  "closing cf f m = do { r \<leftarrow> m; _ \<leftarrow> cf_close cf f; State_Monad.return r }"

section \<open>The calls of a reconciliation\<close>

fun starts :: "call list \<Rightarrow> nat" where
  "starts [] = 0"
| "starts (c # cs) = (case c of CDetached _ _ _ \<Rightarrow> 1 | _ \<Rightarrow> 0) + starts cs"

fun kills :: "call list \<Rightarrow> nat" where
  "kills [] = 0"
| "kills (c # cs) = (case c of CKill _ _ \<Rightarrow> 1 | _ \<Rightarrow> 0) + kills cs"

lemma starts_append [simp]: "starts (xs @ ys) = starts xs + starts ys"
  by (induction xs) auto

lemma kills_append [simp]: "kills (xs @ ys) = kills xs + kills ys"
  by (induction xs) auto

text \<open>At most so many starts and kills, whatever the target answers.\<close>

definition budget :: "nat \<Rightarrow> nat \<Rightarrow> ('w \<times> call list, 'a) state \<Rightarrow> bool" where
  "budget s k m \<longleftrightarrow>
     (\<forall>w h r w' h'. run_state m (w, h) = (r, (w', h')) \<longrightarrow> starts h' \<le> starts h + s \<and> kills h' \<le> kills h + k)"

lemma budget_run:
  "budget s k m \<Longrightarrow> run_state m (w, h) = (r, (w', h')) \<Longrightarrow> starts h' \<le> starts h + s \<and> kills h' \<le> kills h + k"
  by (simp add: budget_def)

named_theorems budget_intros

lemma budget_return [budget_intros]: "budget s k (State_Monad.return r)"
  by (simp add: budget_def)

lemma budget_okE [budget_intros]: "budget s k (okE r)" "budget s k (failE e)"
  by (simp_all add: budget_def)

lemma budget_bind:
  assumes "budget s k m" and "\<And>r. budget s' k' (f r)"
  shows "budget (s + s') (k + k') (State_Monad.bind m f)"
  unfolding budget_def
proof (intro allI impI)
  fix w h r w' h'
  assume run: "run_state (State_Monad.bind m f) (w, h) = (r, (w', h'))"
  obtain x v g where m: "run_state m (w, h) = (x, (v, g))" by (metis surj_pair)
  then have "run_state (f x) (v, g) = (r, (w', h'))" using run by simp
  then show "starts h' \<le> starts h + (s + s') \<and> kills h' \<le> kills h + (k + k')"
    using assms m unfolding budget_def by (fastforce dest: spec)
qed

lemmas budget_pure_bind [budget_intros] = budget_bind [where s = 0 and k = 0, simplified]

lemma budget_last_bind: "budget s k m \<Longrightarrow> (\<And>r. budget 0 0 (f r)) \<Longrightarrow> budget s k (State_Monad.bind m f)"
  using budget_bind [of s k m 0 0 f] by simp

lemma budget_mono: "budget s k m \<Longrightarrow> s \<le> s' \<Longrightarrow> k \<le> k' \<Longrightarrow> budget s' k' m"
  unfolding budget_def by (meson add_left_mono order_trans)

lemma budget_log [budget_intros]: "starts [c] \<le> s \<Longrightarrow> kills [c] \<le> k \<Longrightarrow> budget s k (log_call c m)"
  by (auto simp: budget_def Let_def split: prod.splits)

lemma budget_if [budget_intros]: "(b \<Longrightarrow> budget s k m) \<Longrightarrow> (\<not> b \<Longrightarrow> budget s k n) \<Longrightarrow> budget s k (if b then m else n)"
  by simp

lemma budget_option [budget_intros]: "budget s k m \<Longrightarrow> (\<And>x. budget s k (f x)) \<Longrightarrow> budget s k (case r of None \<Rightarrow> m | Some x \<Rightarrow> f x)"
  by (cases r) simp_all

lemma budget_sum [budget_intros]: "(\<And>x. budget s k (g x)) \<Longrightarrow> (\<And>x. budget s k (f x)) \<Longrightarrow> budget s k (case r of Inl x \<Rightarrow> g x | Inr x \<Rightarrow> f x)"
  by (cases r) simp_all

lemma budget_prod [budget_intros]: "(\<And>x y. budget s k (f x y)) \<Longrightarrow> budget s k (case r of (x, y) \<Rightarrow> f x y)"
  by (cases r) simp

lemma read_pid_budget: "budget 0 0 (read_pid wrap (traced ex) p exe)"
  unfolding read_pid_def traced_simps by (intro budget_intros) simp_all

lemma start_detached_budget: "budget 1 0 (start_detached fd (traced ex) d cmd args what)"
  unfolding start_detached_def traced_simps
  by (intro budget_last_bind budget_log budget_prod budget_return) simp_all

lemma stop_process_budget:
  assumes "budget 0 0 rd"
  shows "budget 0 1 (stop_process (traced ex) rd what)"
  unfolding stop_process_def traced_simps
  by (intro budget_pure_bind [OF assms] budget_prod budget_option budget_if budget_return
      budget_last_bind budget_log) simp_all

lemma budget_bindE: "budget s k m \<Longrightarrow> (\<And>r. budget 0 0 (f r)) \<Longrightarrow> budget s k (bindE m f)"
  unfolding bindE_def by (intro budget_last_bind budget_sum budget_okE)

lemma reconcile_budget:
  assumes "budget 0 0 rd" and "desired_state st = ''running'' \<Longrightarrow> budget s k start"
    and "desired_state st = ''stopped'' \<Longrightarrow> budget s k stop"
  shows "budget s k (reconcile (traced ex) d st rd start stop what)"
  unfolding reconcile_def traced_simps
  by (rule budget_pure_bind budget_log budget_if budget_prod budget_okE budget_pure_bind [OF assms(1)]
      budget_last_bind [OF assms(2)] budget_last_bind [OF assms(3)] budget_option | simp)+

section \<open>Reconciling resources\<close>

text \<open>The contract of a daemon resource: reading its process starts and kills nothing, a start is one start, a stop at
  most one kill, and its Read is \<open>reconcile\<close> with them.\<close>

locale daemon_resource =
  fixes pid :: "('w \<times> call list) executor \<Rightarrow> string \<Rightarrow> ('w \<times> call list, pid_state) state"
    and start :: "('w \<times> call list) provider_conf \<Rightarrow> string \<Rightarrow> 'm \<Rightarrow> ('w \<times> call list, goerr option) state"
    and stop :: "('w \<times> call list) executor \<Rightarrow> string \<Rightarrow> ('w \<times> call list, goerr option) state"
    and what :: string
    and get_state :: "'m \<Rightarrow> string tfval"
    and set_state :: "string \<Rightarrow> 'm \<Rightarrow> 'm"
    and read_state :: "('w \<times> call list) provider_conf \<Rightarrow> string \<Rightarrow> 'm \<Rightarrow> ('w \<times> call list, goerr + 'm) state"
  assumes pid_calls: "budget 0 0 (pid (traced ex) d)"
    and start_calls: "budget 1 0 (start (traced_conf plain) d data)"
    and stop_calls: "budget 0 1 (stop (traced ex) d)"
    and read_eq: "read_state conf d data =
      bindE (reconcile (pc_exec conf) d (get_state data) (pid (pc_exec conf) d) (start conf d data) (stop (pc_exec conf) d) what)
        (\<lambda>s. okE (set_state s data))"
    and get_set: "get_state (set_state s data) = TKnown s"
begin

lemma read_unfold:
  "read_state (traced_conf conf) d data =
     bindE (reconcile (traced (pc_exec conf)) d (get_state data) (pid (traced (pc_exec conf)) d)
        (start (traced_conf conf) d data) (stop (traced (pc_exec conf)) d) what) (\<lambda>s. okE (set_state s data))"
  by (simp add: read_eq)

lemma keeps_running:
  assumes "desired_state (get_state data) = ''running''"
  shows "budget 1 0 (read_state (traced_conf conf) d data)"
  unfolding read_unfold using assms by (intro budget_bindE reconcile_budget pid_calls start_calls budget_okE) simp_all

lemma keeps_stopped:
  assumes "desired_state (get_state data) = ''stopped''"
  shows "budget 0 1 (read_state (traced_conf conf) d data)"
  unfolding read_unfold using assms by (intro budget_bindE reconcile_budget pid_calls stop_calls budget_okE) simp_all

lemma reads_desired:
  assumes "run_state (read_state conf d data) w = (Inr data', w')"
    and "desired_state (get_state data) \<in> {''running'', ''stopped''}"
  shows "get_state data' = TKnown (desired_state (get_state data))"
  using assms
  by (auto simp: read_eq reconcile_def get_set state_of_def split: prod.splits sum.splits option.splits if_splits)

end

end
