(* ===== verification/Outcomes.thy ===== *)
theory Outcomes
  imports Daemon
begin

text \<open>
  The calls of a handler together with their answers. \<open>observed\<close> logs both; \<open>obeys\<close> says that an action makes
  the calls of a script one after the other as long as they succeed, ends with the first that fails and reports an error
  then and only then; and \<open>reconcile_observed\<close> says what a Read of a daemon resource has done to the process.
\<close>

section \<open>Calls with their answers\<close>

datatype answer = Okay | Fails goerr | Says bool | Gives string

type_synonym observation = "call \<times> answer"

definition opt_answer :: "goerr option \<Rightarrow> answer" where
  "opt_answer r = (case r of None \<Rightarrow> Okay | Some e \<Rightarrow> Fails e)"

definition sum_answer :: "goerr + 'a \<Rightarrow> answer" where
  "sum_answer r = (case r of Inl e \<Rightarrow> Fails e | Inr x \<Rightarrow> Okay)"

definition content_answer :: "goerr + string \<Rightarrow> answer" where
  "content_answer r = (case r of Inl e \<Rightarrow> Fails e | Inr x \<Rightarrow> Gives x)"

definition bool_answer :: "goerr + bool \<Rightarrow> answer" where
  "bool_answer r = (case r of Inl e \<Rightarrow> Fails e | Inr b \<Rightarrow> Says b)"

definition observe :: "('a \<Rightarrow> answer) \<Rightarrow> call \<Rightarrow> ('w, 'a) state \<Rightarrow> ('w \<times> observation list, 'a) state" where
  "observe f c m = State (\<lambda>(w, h). let (r, w') = run_state m w in (r, (w', h @ [(c, f r)])))"

lemma run_observe [simp]:
  "run_state (observe f c m) (w, h) = (let (r, w') = run_state m w in (r, (w', h @ [(c, f r)])))"
  by (simp add: observe_def)

definition observed :: "'w executor \<Rightarrow> ('w \<times> observation list) executor" where
  "observed ex =
     \<lparr>ex_is_local = ex_is_local ex,
      ex_self_path = ex_self_path ex,
      ex_look_path = (\<lambda>f. observe sum_answer (CLookPath f) (ex_look_path ex f)),
      ex_run = (\<lambda>d c a. observe (\<lambda>r. opt_answer (snd r)) (CRun d c a) (ex_run ex d c a)),
      ex_run_detached = (\<lambda>d c a. observe (\<lambda>r. opt_answer (snd r)) (CDetached d c a) (ex_run_detached ex d c a)),
      ex_mkdir_all = (\<lambda>p m. observe opt_answer (CMkdir p m) (ex_mkdir_all ex p m)),
      ex_write_file = (\<lambda>p b m. observe opt_answer (CWrite p b m) (ex_write_file ex p b m)),
      ex_read_file = (\<lambda>p. observe content_answer (CRead p) (ex_read_file ex p)),
      ex_remove = (\<lambda>p. observe opt_answer (CRemove p) (ex_remove ex p)),
      ex_rename = (\<lambda>p q. observe opt_answer (CRename p q) (ex_rename ex p q)),
      ex_stat = (\<lambda>p. observe sum_answer (CStat p) (ex_stat ex p)),
      ex_chmod = (\<lambda>p m. observe opt_answer (CChmod p m) (ex_chmod ex p m)),
      ex_read_dir = (\<lambda>p. observe sum_answer (CReadDir p) (ex_read_dir ex p)),
      ex_copy_file = (\<lambda>p q. observe sum_answer (CCopy p q) (ex_copy_file ex p q)),
      ex_is_running = (\<lambda>i e. observe bool_answer (CIsRunning i e) (ex_is_running ex i e)),
      ex_kill = (\<lambda>i s. observe opt_answer (CKill i s) (ex_kill ex i s))\<rparr>"

lemma observed_simps [simp]:
  "ex_is_local (observed ex) = ex_is_local ex"
  "ex_self_path (observed ex) = ex_self_path ex"
  "ex_run (observed ex) d c a = observe (\<lambda>r. opt_answer (snd r)) (CRun d c a) (ex_run ex d c a)"
  "ex_run_detached (observed ex) d c a = observe (\<lambda>r. opt_answer (snd r)) (CDetached d c a) (ex_run_detached ex d c a)"
  "ex_mkdir_all (observed ex) p m = observe opt_answer (CMkdir p m) (ex_mkdir_all ex p m)"
  "ex_write_file (observed ex) p b m = observe opt_answer (CWrite p b m) (ex_write_file ex p b m)"
  "ex_read_file (observed ex) p = observe content_answer (CRead p) (ex_read_file ex p)"
  "ex_remove (observed ex) p = observe opt_answer (CRemove p) (ex_remove ex p)"
  "ex_rename (observed ex) p q = observe opt_answer (CRename p q) (ex_rename ex p q)"
  "ex_stat (observed ex) p = observe sum_answer (CStat p) (ex_stat ex p)"
  "ex_is_running (observed ex) i e = observe bool_answer (CIsRunning i e) (ex_is_running ex i e)"
  "ex_kill (observed ex) i s = observe opt_answer (CKill i s) (ex_kill ex i s)"
  by (simp_all add: observed_def)

definition observed_conf :: "'w provider_conf \<Rightarrow> ('w \<times> observation list) provider_conf" where
  "observed_conf conf =
     \<lparr>pc_target = pc_target conf, pc_target_os = pc_target_os conf, pc_target_arch = pc_target_arch conf,
      pc_lib_path = pc_lib_path conf, pc_use_sudo = pc_use_sudo conf, pc_sudo = pc_sudo conf,
      pc_qemu_img = pc_qemu_img conf, pc_docker = pc_docker conf, pc_swtpm = pc_swtpm conf,
      pc_bash = pc_bash conf, pc_flock = pc_flock conf, pc_gen_iso_image = pc_gen_iso_image conf,
      pc_ip = pc_ip conf, pc_exec = observed (pc_exec conf)\<rparr>"

lemma observed_conf_simps [simp]:
  "pc_lib_path (observed_conf conf) = pc_lib_path conf" "pc_docker (observed_conf conf) = pc_docker conf"
  "pc_use_sudo (observed_conf conf) = pc_use_sudo conf" "pc_sudo (observed_conf conf) = pc_sudo conf"
  "pc_ip (observed_conf conf) = pc_ip conf" "pc_exec (observed_conf conf) = observed (pc_exec conf)"
  by (simp_all add: observed_conf_def)

lemma self_command_observed: "self_command (observed_conf conf) n = self_command conf n"
  unfolding self_command_def observed_conf_simps observed_simps ..

section \<open>Scripts that end with the first failure\<close>

abbreviation all_okay :: "call list \<Rightarrow> observation list" where
  "all_okay cs \<equiv> map (\<lambda>c. (c, Okay)) cs"

text \<open>What a script leaves in the log: all its calls, or the calls before the first that fails, and that one.\<close>

definition script_log :: "call list \<Rightarrow> 'e + 'a \<Rightarrow> observation list \<Rightarrow> bool" where
  "script_log cs r obs \<longleftrightarrow>
     (case r of
        Inr x \<Rightarrow> obs = all_okay cs
      | Inl e \<Rightarrow> \<exists>ds c err. obs = all_okay ds @ [(c, Fails err)] \<and> prefix (ds @ [c]) cs)"

definition obeys :: "('w \<times> observation list, 'e + 'a) state \<Rightarrow> call list \<Rightarrow> bool" where
  "obeys m cs \<longleftrightarrow>
     (\<forall>w h r w' h'. run_state m (w, h) = (r, (w', h')) \<longrightarrow> (\<exists>obs. h' = h @ obs \<and> script_log cs r obs))"

named_theorems obeys_intros "what composed actions obey"

lemma obeysD:
  "obeys m cs \<Longrightarrow> run_state m (w, h) = (r, (w', h')) \<Longrightarrow> \<exists>obs. h' = h @ obs \<and> script_log cs r obs"
  by (simp add: obeys_def)

lemma obeys_ok [obeys_intros]: "obeys (okE x) []"
  by (simp add: obeys_def script_log_def)

lemma script_log_fail_append: "script_log cs (Inl e) obs \<Longrightarrow> script_log (cs @ ds) (Inl e') obs"
  by (fastforce simp: script_log_def)

lemma script_log_append:
  "script_log ds r obs \<Longrightarrow> script_log (cs @ ds) r (all_okay cs @ obs)"
proof (cases r)
  case (Inl e)
  assume "script_log ds r obs"
  with Inl obtain es c err where "obs = all_okay es @ [(c, Fails err)]" "prefix (es @ [c]) ds"
    by (auto simp: script_log_def)
  then have "all_okay cs @ obs = all_okay (cs @ es) @ [(c, Fails err)] \<and> prefix ((cs @ es) @ [c]) (cs @ ds)"
    by (simp only: map_append append_assoc same_prefix_prefix simp_thms)
  then show ?thesis unfolding Inl script_log_def sum.case by blast
qed (simp add: script_log_def)

lemma obeys_bindE [obeys_intros]:
  assumes "obeys m cs" and "\<And>x. obeys (f x) ds"
  shows "obeys (bindE m f) (cs @ ds)"
  unfolding obeys_def
proof (intro allI impI)
  fix w h r w' h'
  assume run: "run_state (bindE m f) (w, h) = (r, (w', h'))"
  obtain r1 w1 h1 where m: "run_state m (w, h) = (r1, (w1, h1))" by (metis surj_pair)
  obtain o1 where o1: "h1 = h @ o1" "script_log cs r1 o1" using obeysD [OF assms(1) m] by blast
  show "\<exists>obs. h' = h @ obs \<and> script_log (cs @ ds) r obs"
  proof (cases r1)
    case (Inl e)
    with run m have "r = Inl e" "h' = h1" by simp_all
    moreover from o1(2) Inl have "script_log (cs @ ds) (Inl e) o1" by (intro script_log_fail_append) simp
    ultimately show ?thesis using o1(1) by (intro exI [of _ o1]) simp
  next
    case (Inr x)
    with run m have "run_state (f x) (w1, h1) = (r, (w', h'))" by simp
    then obtain o2 where "h' = h1 @ o2" "script_log ds r o2" using obeysD [OF assms(2)] by blast
    moreover have "o1 = all_okay cs" using o1(2) Inr by (simp add: script_log_def)
    ultimately show ?thesis using o1(1) script_log_append [of ds r o2 cs] by (intro exI [of _ "o1 @ o2"]) simp
  qed
qed

lemma obeys_whenE [obeys_intros]: "(b \<Longrightarrow> obeys m cs) \<Longrightarrow> obeys (whenE b m) (if b then cs else [])"
  by (auto simp: whenE_def intro: obeys_intros)

lemma obeys_seqE_Nil [obeys_intros]: "obeys (seqE []) []"
  by (simp add: obeys_intros)

lemma obeys_seqE_Cons [obeys_intros]: "obeys m cs \<Longrightarrow> obeys (seqE ms) ds \<Longrightarrow> obeys (seqE (m # ms)) (cs @ ds)"
  by (simp add: obeys_intros)

text \<open>A call that is examined at once.\<close>

lemma obeys_call:
  assumes "\<And>r. (f r = Okay \<and> (\<exists>x. g r = okE x)) \<or> (\<exists>err e. f r = Fails err \<and> g r = failE e)"
  shows "obeys (do { r \<leftarrow> observe f c m; g r }) [c]"
  unfolding obeys_def
proof (intro allI impI)
  fix w h r w' h'
  assume run: "run_state (do { r \<leftarrow> observe f c m; g r }) (w, h) = (r, (w', h'))"
  obtain a v where m: "run_state m w = (a, v)" by (metis surj_pair)
  have h': "h' = h @ [(c, f a)]" and gr: "run_state (g a) (v, h @ [(c, f a)]) = (r, (w', h'))"
    using run m assms [of a] by auto
  have "script_log [c] r [(c, f a)]"
    using assms [of a]
  proof
    assume "f a = Okay \<and> (\<exists>x. g a = okE x)"
    with gr show ?thesis by (auto simp: script_log_def)
  next
    assume "\<exists>err e. f a = Fails err \<and> g a = failE e"
    then obtain err e where "f a = Fails err" "r = Inl e" using gr by auto
    then show ?thesis unfolding script_log_def by (auto intro!: exI [of _ "[]"] exI [of _ c])
  qed
  with h' show "\<exists>obs. h' = h @ obs \<and> script_log [c] r obs" by blast
qed

lemma obeys_orE [obeys_intros]: "obeys (orE (observe opt_answer c m) f) [c]"
  unfolding orE_def by (rule obeys_call) (auto simp: opt_answer_def split: option.split)

section \<open>What a Read has done to a process\<close>

text \<open>The last calls found the process of the PID file \<open>p\<close> alive: the file was read, and the executor said that
  the process it names is running.\<close>

definition found_alive :: "string \<Rightarrow> string \<Rightarrow> int \<Rightarrow> observation list \<Rightarrow> bool" where
  "found_alive p exe pid obs \<longleftrightarrow>
     (\<exists>pre s. obs = pre @ [(CRead p, Gives s), (CIsRunning pid exe, Says True)] \<and> parse_pid (trim_space s) = Inr pid)"

text \<open>They did not: the file could not be read, or names no process, or the executor did not say that it is running.\<close>

definition found_gone :: "string \<Rightarrow> string \<Rightarrow> observation list \<Rightarrow> bool" where
  "found_gone p exe obs \<longleftrightarrow>
     (\<exists>pre e. obs = pre @ [(CRead p, Fails e)]) \<or>
     (\<exists>pre s e. obs = pre @ [(CRead p, Gives s)] \<and> parse_pid (trim_space s) = Inl e) \<or>
     (\<exists>pre s pid a. obs = pre @ [(CRead p, Gives s), (CIsRunning pid exe, a)] \<and> parse_pid (trim_space s) = Inr pid \<and>
        a \<noteq> Says True)"

definition only_looks :: "observation list \<Rightarrow> bool" where
  "only_looks obs \<longleftrightarrow> starts (map fst obs) = 0 \<and> kills (map fst obs) = 0"

lemma only_looks_append [simp]: "only_looks (xs @ ys) \<longleftrightarrow> only_looks xs \<and> only_looks ys"
  by (auto simp: only_looks_def)

lemma found_after: "found_alive p exe pid obs \<Longrightarrow> found_alive p exe pid (pre @ obs)"
  "found_gone p exe obs \<Longrightarrow> found_gone p exe (pre @ obs)"
  unfolding found_alive_def found_gone_def by (metis append.assoc)+

text \<open>An action that looks for the process: it starts and kills nothing, and reports what it was told.\<close>

definition looks_for :: "string \<Rightarrow> string \<Rightarrow> ('w \<times> observation list, pid_state) state \<Rightarrow> bool" where
  "looks_for p exe rd \<longleftrightarrow>
     (\<forall>w h b pid err w' h'. run_state rd (w, h) = ((b, pid, err), (w', h')) \<longrightarrow>
        (\<exists>obs. h' = h @ obs \<and> only_looks obs \<and> (if b then found_alive p exe pid obs else found_gone p exe obs)))"

lemma looks_forD:
  assumes "looks_for p exe rd" and "run_state rd (w, h) = ((b, pid, err), (w', h'))"
  obtains obs where "h' = h @ obs" "only_looks obs" "if b then found_alive p exe pid obs else found_gone p exe obs"
  using assms unfolding looks_for_def by blast

lemma read_pid_looks: "looks_for p exe (read_pid wrap (observed ex) p exe)"
  unfolding looks_for_def
  by (auto simp: read_pid_def only_looks_def found_alive_def found_gone_def content_answer_def bool_answer_def
      split: prod.splits sum.splits)

text \<open>A start that succeeds is one call for the command line.\<close>

definition starts_with :: "('w \<times> observation list, goerr option) state \<Rightarrow> string \<Rightarrow> string \<Rightarrow> string list \<Rightarrow> bool" where
  "starts_with m d cmd args \<longleftrightarrow>
     (\<forall>w h w' h'. run_state m (w, h) = (None, (w', h')) \<longrightarrow> h' = h @ [(CDetached d cmd args, Okay)])"

lemma start_detached_starts: "starts_with (start_detached fd (observed ex) d cmd args what) d cmd args"
  by (auto simp: starts_with_def start_detached_def opt_answer_def split: prod.splits option.splits)

text \<open>What a Read that succeeds has done to a daemon that should run: it has found it alive and left it alone, or found it
  gone and started it; and to one that should be stopped: it has found it gone and left it alone, or found it alive and
  killed that process.\<close>

definition brought_up :: "string \<Rightarrow> string \<Rightarrow> string \<Rightarrow> string \<Rightarrow> string list \<Rightarrow> observation list \<Rightarrow> bool" where
  "brought_up p exe d cmd args obs \<longleftrightarrow>
     (\<exists>pid. found_alive p exe pid obs \<and> only_looks obs) \<or>
     (\<exists>obs1. obs = obs1 @ [(CDetached d cmd args, Okay)] \<and> found_gone p exe obs1 \<and> only_looks obs1)"

definition brought_down :: "string \<Rightarrow> string \<Rightarrow> observation list \<Rightarrow> bool" where
  "brought_down p exe obs \<longleftrightarrow>
     found_gone p exe obs \<and> only_looks obs \<or>
     (\<exists>obs1 pid. obs = obs1 @ [(CKill pid SIGKILL, Okay)] \<and> found_alive p exe pid obs1 \<and> only_looks obs1)"

lemma brought_down_after: "only_looks pre \<Longrightarrow> brought_down p exe obs \<Longrightarrow> brought_down p exe (pre @ obs)"
  unfolding brought_down_def by (metis append.assoc found_after only_looks_append)

lemma stop_observed:
  assumes "looks_for p exe rd" and "run_state (stop_process (observed ex) rd what) (w, h) = (None, (w', h'))"
  shows "\<exists>obs. h' = h @ obs \<and> brought_down p exe obs"
proof -
  obtain b pid err v g where rd: "run_state rd (w, h) = ((b, pid, err), (v, g))" by (metis surj_pair)
  from looks_forD [OF assms(1) rd] obtain obs where obs: "g = h @ obs" "only_looks obs"
    "if b then found_alive p exe pid obs else found_gone p exe obs" by blast
  show ?thesis
  proof (cases b)
    case True
    then have "h' = g @ [(CKill pid SIGKILL, Okay)]"
      using assms(2) rd by (auto simp: stop_process_def opt_answer_def split: option.splits prod.splits)
    with obs True show ?thesis
      by (intro exI [of _ "obs @ [(CKill pid SIGKILL, Okay)]"]) (auto simp: brought_down_def)
  next
    case False
    then have "h' = g" using assms(2) rd by (auto simp: stop_process_def split: option.splits)
    with False obs show ?thesis by (auto simp: brought_down_def)
  qed
qed

lemma reconcile_observed:
  assumes "run_state (reconcile (observed ex) d st rd start (stop_process (observed ex) rd what2) what) (w, h) = (Inr s, (w', h'))"
    and "looks_for p exe rd" and "starts_with start d cmd args"
  shows "\<exists>obs. h' = h @ obs \<and>
    (desired_state st = ''running'' \<longrightarrow> s = ''running'' \<and> brought_up p exe d cmd args obs) \<and>
    (desired_state st = ''stopped'' \<longrightarrow> s = ''stopped'' \<and> brought_down p exe obs)"
proof -
  obtain i u where stat: "run_state (ex_stat ex d) w = (i, u)" by (metis surj_pair)
  let ?stat = "[(CStat d, sum_answer i)]"
  obtain b pid err v g where rd: "run_state rd (u, h @ ?stat) = ((b, pid, err), (v, g))" by (metis surj_pair)
  from looks_forD [OF assms(2) rd] obtain obs1 where obs1: "g = (h @ ?stat) @ obs1" "only_looks obs1"
    "if b then found_alive p exe pid obs1 else found_gone p exe obs1" by blast
  define obs where "obs = ?stat @ obs1"
  have obs: "g = h @ obs" "only_looks obs" "if b then found_alive p exe pid obs else found_gone p exe obs"
    using obs1 found_after [where pre = ?stat] by (simp_all add: obs_def only_looks_def)
  note go = assms(1) [unfolded reconcile_def]
  show ?thesis
  proof (cases "desired_state st = ''running''")
    case running: True
    show ?thesis
    proof (cases b)
      case True
      with go stat rd running have "s = ''running''" "h' = g" by (auto simp: state_of_def split: if_splits)
      with obs running True show ?thesis by (auto simp: brought_up_def)
    next
      case False
      with go stat rd running have "run_state start (v, g) = (None, (w', h'))" "s = ''running''"
        by (auto split: if_splits prod.splits option.splits)
      then have "h' = g @ [(CDetached d cmd args, Okay)]" "s = ''running''"
        using assms(3) unfolding starts_with_def by blast+
      with obs running False show ?thesis
        by (intro exI [of _ "obs @ [(CDetached d cmd args, Okay)]"]) (auto simp: brought_up_def)
    qed
  next
    case not_running: False
    show ?thesis
    proof (cases "desired_state st = ''stopped'' \<and> b")
      case True
      with go stat rd have stop: "run_state (stop_process (observed ex) rd what2) (v, g) = (None, (w', h'))" "s = ''stopped''"
        by (auto split: if_splits prod.splits option.splits)
      from stop_observed [OF assms(2) stop(1)] obtain obs2 where "h' = g @ obs2" "brought_down p exe obs2" by blast
      moreover from this obs(2) have "brought_down p exe (obs @ obs2)" by (intro brought_down_after)
      ultimately show ?thesis using obs(1) stop(2) not_running by (intro exI [of _ "obs @ obs2"]) simp
    next
      case False
      with go stat rd not_running have "s = state_of b" "h' = g" by (auto split: if_splits)
      with obs not_running False show ?thesis by (auto simp: brought_down_def state_of_def)
    qed
  qed
qed

end
