(* ===== verification/Qemu.thy ===== *)
theory Qemu
  imports Hv_Env Outcomes "HOL-Library.AList"
begin

text \<open>
  The QEMU back end: \<^verbatim>\<open>internal/hypervisor/qemu.go\<close> and \<^verbatim>\<open>qemu_cpupin.go\<close>. Preparing the disks,
  the command line, starting (through gvproxy and behind the swtpm socket), status and stop
  over QMP, and pinning the vCPU threads.
\<close>

record qemu_conf =
  qh_qemu_path :: string
  qh_qemu_img_path :: string
  qh_base_ovmf_code :: string
  qh_base_ovmf_vars :: string
  qh_taskset_path :: string
  qh_use_sudo :: bool
  qh_sudo_path :: string

section \<open>PrepareDisks\<close>

definition qemu_img_create_args :: "disk_config \<Rightarrow> string \<Rightarrow> string list" where
  "qemu_img_create_args disk img =
     [''create'', ''-f'', ''qcow2'', ''-b'', dk_source disk, ''-F'', ''qcow2'', img] @
     (if dk_has_size disk then [itoa (dk_size_mb disk) @ ''M''] else [])"

definition qemu_prep_disk ::
    "qemu_conf \<Rightarrow> 'w executor \<Rightarrow> string \<Rightarrow> nat \<Rightarrow> disk_config \<Rightarrow> ('w, goerr + string) state" where
  "qemu_prep_disk h ex d i disk =
     (if dk_type disk = disk_device \<or> dk_type disk = disk_file then okE (dk_source disk)
      else if dk_type disk = disk_overlay \<or> dk_type disk = [] then
        (let img = overlay_image d i ''.disk_img.qcow2''
         in do {
           (res, err) \<leftarrow> ex_run ex d (qh_qemu_img_path h) (qemu_img_create_args disk img);
           case err of
             Some e \<Rightarrow> failE (wrapfs (''unable to create disk '' @ dec_of_nat i @ '' image: '') e (''; '' @ r_stderr res))
           | None \<Rightarrow> okE img })
      else failE (Err (''unknown disk '' @ dec_of_nat i @ '' type '' @ go_quote (dk_type disk))))"

definition qemu_prepare_disks ::
    "qemu_conf \<Rightarrow> 'w executor \<Rightarrow> vm_config \<Rightarrow> ('w, vm_paths \<times> goerr option) state" where
  "qemu_prepare_disks h ex conf = do {
     let d = vm_resource_dir conf;
     (imgs, err) \<leftarrow> prepare_images (qemu_prep_disk h ex d) 0 (vm_disks conf) (replicate (length (vm_disks conf)) []);
     let paths = no_paths\<lparr>vp_disk_images := imgs\<rparr>;
     case err of
       Some e \<Rightarrow> State_Monad.return (paths, Some e)
     | None \<Rightarrow> do {
     let paths = paths\<lparr>vp_ovmf_vars := path_join [d, ''UEFI_OVMF_VARS.bin'']\<rparr>;
     let ov_src = (if vm_ovmf_vars_src conf \<noteq> [] then vm_ovmf_vars_src conf else qh_base_ovmf_vars h);
     r \<leftarrow> ex_copy_file ex ov_src (vp_ovmf_vars paths);
     case r of
       Inl e \<Rightarrow> State_Monad.return (paths, Some (wrapf ''unable to copy UEFI OVMF vars: '' e))
     | Inr _ \<Rightarrow>
         State_Monad.return (paths\<lparr>vp_qmp_socket := path_join [d, ''qmp.socket''],
           vp_pid_file := path_join [d, ''qemu.pid''], vp_debug_script := path_join [d, ''start_vm.bash'']\<rparr>, None) } }"

section \<open>The command line\<close>

definition qemu_name_args :: "vm_config \<Rightarrow> string list" where
  "qemu_name_args conf =
     (let name = (if vm_name conf \<noteq> [] then vm_name conf else vm_id conf)
      in [''--name'',
          (if vm_is_installation conf then ''edge_node_install_'' @ name
           else ''guest='' @ name @ '',debug-threads=on'')])"

definition qemu_machine_args :: "vm_config \<Rightarrow> string list" where
  "qemu_machine_args conf =
     [''--enable-kvm'', ''-machine'', ''q35,accel=kvm,kernel-irqchip=split'', ''-nographic''] @
     (if vm_is_installation conf then [''-m'', ''4096'', ''-cpu'', ''host'', ''-smp'', ''4,cores=2'']
      else [''-m'', (if vm_memory_mb conf \<noteq> [] then vm_memory_mb conf else ''4G''),
            ''-cpu'', ''host'', ''-smp'', itoa (if vm_cpus conf > 0 then vm_cpus conf else 4)]) @
     [''-device'', ''intel-iommu,intremap=on,caching-mode=on,device-iotlb=on'',
      ''-smbios'', ''type=1,serial='' @ vm_serial_no conf @ '',manufacturer=Dell Inc.,product=ProLiant 100 with 2 disks'']"

definition qemu_serial_args :: "vm_config \<Rightarrow> string list" where
  "qemu_serial_args conf =
     (if vm_serial_type conf = ''serial'' then
        (if vm_serial_to_socket conf \<noteq> [] then [''-serial'', ''unix:'' @ vm_serial_to_socket conf @ '',server,wait'']
         else if vm_serial_to_file conf \<noteq> [] then [''-serial'', ''file:'' @ vm_serial_to_file conf]
         else [])
      else
        (if vm_serial_to_socket conf \<noteq> [] then
           [''-device'', ''virtio-serial-pci'',
            ''-chardev'', ''socket,id=virtconsole0,path='' @ vm_serial_to_socket conf @ '',server=on,wait=on'',
            ''-device'', ''virtconsole,chardev=virtconsole0'']
         else if vm_serial_to_file conf \<noteq> [] then
           [''-device'', ''virtio-serial-pci'',
            ''-chardev'', ''file,id=virtconsole0,path='' @ vm_serial_to_file conf,
            ''-device'', ''virtconsole,chardev=virtconsole0'']
         else []))"

definition qemu_ovmf_args :: "qemu_conf \<Rightarrow> vm_paths \<Rightarrow> string list" where
  "qemu_ovmf_args h paths =
     [''-drive'', ''if=pflash,format=raw,readonly=on,file='' @ qh_base_ovmf_code h,
      ''-drive'', ''if=pflash,format=raw,file='' @ vp_ovmf_vars paths]"

text \<open>The NIC: over the gvproxy socket when there is one, else the \<open>nic0\<close> string.\<close>

definition qemu_nic_args :: "vm_config \<Rightarrow> string option \<Rightarrow> string list" where
  "qemu_nic_args conf gv =
     (case gv of
        Some gv_socket \<Rightarrow>
          [''-netdev'', ''stream,id=usernet0,addr.type=unix,addr.path='' @ gv_socket,
           ''-netdev'', ''hubport,id=usernet0hub,hubid=0,netdev=usernet0'',
           ''-nic'', ''hubport,hubid=0,model=virtio,mac=5a:94:ef:e4:0c:ee'']
      | None \<Rightarrow> [''-nic'', vm_nic0 conf])"

definition drive_parts :: "string \<Rightarrow> disk_config \<Rightarrow> string list" where
  "drive_parts img disk =
     [''file='' @ img, ''format='' @ dk_format disk] @
     (if dk_drive_if disk \<noteq> [] then [''if='' @ dk_drive_if disk] else []) @ dk_options disk"

text \<open>The drives, in slot order; a slot without a prepared path would be an index out of range.\<close>

definition qemu_drive_args :: "vm_config \<Rightarrow> vm_paths \<Rightarrow> string list" where
  "qemu_drive_args conf paths =
     concat (map (\<lambda>i. [''-drive'', str_join (drive_parts (vp_disk_images paths ! i) (vm_disks conf ! i)) '',''])
       [0..<length (vm_disks conf)])"

definition qemu_installer_args :: "vm_config \<Rightarrow> string list" where
  "qemu_installer_args conf =
     (if vm_is_installation conf then
        (if vm_installer_iso conf \<noteq> [] then [''-cdrom'', vm_installer_iso conf]
         else if vm_installer_raw conf \<noteq> [] then [''-drive'', ''file='' @ vm_installer_raw conf @ '',format=raw'']
         else []) @ [''-boot'', ''once=d'']
      else [])"

definition qemu_tail_args :: "vm_config \<Rightarrow> vm_paths \<Rightarrow> string list" where
  "qemu_tail_args conf paths =
     (if vm_swtpm_socket conf \<noteq> [] then
        [''-chardev'', ''socket,id=chrtpm,path='' @ vm_swtpm_socket conf,
         ''-tpmdev'', ''emulator,id=tpm0,chardev=chrtpm'',
         ''-device'', ''tpm-crb,id=mytpm,tpmdev=tpm0'']
      else []) @
     [''-qmp'', ''unix:'' @ vp_qmp_socket paths @ '',server,nowait'', ''-pidfile'', vp_pid_file paths] @
     vm_extra_args conf"

definition qemu_args :: "qemu_conf \<Rightarrow> vm_config \<Rightarrow> vm_paths \<Rightarrow> string option \<Rightarrow> string list" where
  "qemu_args h conf paths gv =
     qemu_name_args conf @ qemu_machine_args conf @ qemu_serial_args conf @ qemu_ovmf_args h paths @
     qemu_nic_args conf gv @ qemu_drive_args conf paths @ qemu_installer_args conf @ qemu_tail_args conf paths"

section \<open>Start\<close>

text \<open>
  \<^verbatim>\<open>WaitForSwTPMSocket\<close>: the outer \<open>None\<close> means that the fuel ran out. \<open>timeout_word\<close> is the
  duration as \<^verbatim>\<open>%s\<close> prints it.
\<close>

fun wait_swtpm_loop :: "nat \<Rightarrow> 'w hv_env \<Rightarrow> string \<Rightarrow> int \<Rightarrow> string \<Rightarrow> ('w, goerr option option) state" where
  "wait_swtpm_loop 0 E socket_path deadline timeout_word = State_Monad.return None"
| "wait_swtpm_loop (Suc n) E socket_path deadline timeout_word = do {
     r \<leftarrow> he_dial E ''unix'' socket_path (2 * sec);
     case r of
       Inr conn \<Rightarrow> do { _ \<leftarrow> he_conn_close E conn; State_Monad.return (Some None) }
     | Inl e \<Rightarrow> do {
         now \<leftarrow> he_now E;
         if now > deadline then
           State_Monad.return (Some (Some (wrapf (''the swtpm socket '' @ go_quote socket_path @
             '' did not accept a connection within '' @ timeout_word @
             '' (is the corresponding zedamigo_swtpm resource still running?): '') e)))
         else do {
           c \<leftarrow> he_ctx_wait E (200 * msec);
           case c of
             Some ce \<Rightarrow> State_Monad.return (Some (Some ce))
           | None \<Rightarrow> wait_swtpm_loop n E socket_path deadline timeout_word } } }"

definition wait_for_swtpm_socket ::
    "nat \<Rightarrow> 'w hv_env \<Rightarrow> string \<Rightarrow> int \<Rightarrow> string \<Rightarrow> ('w, goerr option option) state" where
  "wait_for_swtpm_socket fuel E socket_path timeout timeout_word = do {
     now \<leftarrow> he_now E;
     wait_swtpm_loop fuel E socket_path (now + timeout) timeout_word }"

definition start_vm_script :: "string \<Rightarrow> string list \<Rightarrow> string" where
  "start_vm_script exe args =
     (let nl = [CHR 0x0A]
      in ''#!/usr/bin/env bash'' @ nl @ nl @ ''set -eu;'' @ nl @ nl @
         ''#### QEMU ARGS: '' @ fmt_strings args @ nl @ nl @ exe @ '' '' @ str_join args '' '' @ nl)"

text \<open>The end of \<^verbatim>\<open>Start\<close>: the script (whose failure is only logged) and the process.\<close>

definition qemu_launch ::
    "qemu_conf \<Rightarrow> 'w executor \<Rightarrow> vm_config \<Rightarrow> vm_paths \<Rightarrow> string list \<Rightarrow> ('w, goerr option) state" where
  "qemu_launch h ex conf paths args = do {
     _ \<leftarrow> ex_write_file ex (vp_debug_script paths) (start_vm_script (qh_qemu_path h) args) mode_755;
     if vm_is_installation conf then do {
       (res, err) \<leftarrow> ex_run ex (vm_resource_dir conf) (qh_qemu_path h) args;
       State_Monad.return (map_option (\<lambda>e. wrapfs ''failed to run QEMU VM for installing EVE-OS: '' e (''; '' @ r_stderr res)) err) }
     else do {
       (res, err) \<leftarrow> ex_run_detached ex (vm_resource_dir conf) (qh_qemu_path h) args;
       State_Monad.return (map_option (\<lambda>e. wrapfs ''failed to start QEMU VM: '' e (''; '' @ r_stderr res)) err) } }"

definition qemu_start ::
    "nat \<Rightarrow> qemu_conf \<Rightarrow> 'w hv_env \<Rightarrow> vm_config \<Rightarrow> vm_paths \<Rightarrow> ('w, goerr option) state" where
  "qemu_start fuel h E conf paths = do {
     gv \<leftarrow> (if vm_use_gvproxy conf \<and> \<not> vm_is_installation conf \<and> vm_ssh_port conf \<noteq> 0
            then do {
              r \<leftarrow> start_gvproxy fuel E conf ''-gp.listen-qemu'' ''unix://'' ''gvproxy-qemu.sock'';
              State_Monad.return (case r of Inl e \<Rightarrow> Inl (wrapf ''start gvproxy: '' e) | Inr s \<Rightarrow> Inr (Some s)) }
            else okE None);
     case gv of
       Inl e \<Rightarrow> State_Monad.return (Some e)
     | Inr gv_socket \<Rightarrow> do {
     tpm \<leftarrow> (if vm_swtpm_socket conf \<noteq> [] then wait_for_swtpm_socket fuel E (vm_swtpm_socket conf) (30 * sec) ''30s''
             else State_Monad.return (Some None));
     case tpm of
       Some None \<Rightarrow> qemu_launch h (he_exec E) conf paths (qemu_args h conf paths gv_socket)
     | Some (Some e) \<Rightarrow> State_Monad.return (Some e)
     | None \<Rightarrow> State_Monad.return (Some (Err ''out of fuel'')) } }"

section \<open>Status and Stop\<close>

text \<open>The monitor is disconnected after a successful handshake only.\<close>

definition qemu_status :: "'w hv_env \<Rightarrow> string \<Rightarrow> ('w, bool \<times> goerr option) state" where
  "qemu_status E d = do {
     r \<leftarrow> he_dial E ''unix'' (path_join [d, ''qmp.socket'']) (1 * sec);
     case r of
       Inl e \<Rightarrow> State_Monad.return (False, Some (wrapf [] e))
     | Inr mon \<Rightarrow> do {
     c \<leftarrow> he_qmp_connect E mon;
     case c of
       Some e \<Rightarrow> State_Monad.return (False, Some (wrapf [] e))
     | None \<Rightarrow> do {
     raw \<leftarrow> he_qmp_run E mon (''{ '' @ [CHR 0x22] @ ''execute'' @ [CHR 0x22] @ '': '' @ [CHR 0x22] @ ''query-status'' @ [CHR 0x22] @ '' }'');
     _ \<leftarrow> he_qmp_disconnect E mon;
     State_Monad.return (case raw of
         Inl e \<Rightarrow> (False, Some (wrapf [] e))
       | Inr buf \<Rightarrow> (case he_json_running E buf of
             Inl e \<Rightarrow> (False, Some (wrapf [] e))
           | Inr b \<Rightarrow> (b, None))) } } }"

definition qemu_stop :: "'w hv_env \<Rightarrow> string \<Rightarrow> ('w, goerr option) state" where
  "qemu_stop E d = do {
     r \<leftarrow> he_dial E ''unix'' (path_join [d, ''qmp.socket'']) (2 * sec);
     case r of
       Inl e \<Rightarrow> State_Monad.return (Some (wrapf ''can't create QMP monitor: '' e))
     | Inr mon \<Rightarrow> do {
     c \<leftarrow> he_qmp_connect E mon;
     case c of
       Some e \<Rightarrow> State_Monad.return (Some (wrapf ''can't QMP connect: '' e))
     | None \<Rightarrow> do {
     _ \<leftarrow> he_qmp_run E mon (''{ '' @ [CHR 0x22] @ ''execute'' @ [CHR 0x22] @ '': '' @ [CHR 0x22] @ ''quit'' @ [CHR 0x22] @ '' }'');
     _ \<leftarrow> stop_gvproxy (he_exec E) d;
     _ \<leftarrow> he_qmp_disconnect E mon;
     State_Monad.return None } } }"

section \<open>CPU pinning\<close>

text \<open>The number of a vCPU thread from its name, \<^verbatim>\<open>CPU N/KVM\<close>.\<close>

definition vcpu_number :: "string \<Rightarrow> int option" where
  "vcpu_number comm_bytes =
     (let comm = trim_space comm_bytes
      in if has_prefix comm ''CPU '' \<and> has_suffix comm ''/KVM''
         then atoi (trim_suffix (trim_prefix comm ''CPU '') ''/KVM'')
         else None)"

fun cpu_threads_loop :: "'w executor \<Rightarrow> string \<Rightarrow> string list \<Rightarrow> (int \<times> int) list \<Rightarrow> ('w, (int \<times> int) list) state" where
  "cpu_threads_loop ex task_dir [] threads = State_Monad.return threads"
| "cpu_threads_loop ex task_dir (tid # tids) threads = do {
     r \<leftarrow> ex_read_file ex (path_join [task_dir, tid, ''comm'']);
     cpu_threads_loop ex task_dir tids
       (case r of
          Inl _ \<Rightarrow> threads
        | Inr comm \<Rightarrow>
            (case (vcpu_number comm, atoi tid) of
               (Some n, Some t) \<Rightarrow> AList.update n t threads
             | _ \<Rightarrow> threads)) }"

definition get_cpu_thread_ids ::
    "'w executor \<Rightarrow> string \<Rightarrow> int \<Rightarrow> ('w, (int \<times> int) list \<times> goerr option) state" where
  "get_cpu_thread_ids ex task_dir num_cpus = do {
     r \<leftarrow> ex_read_dir ex task_dir;
     case r of
       Inl e \<Rightarrow> State_Monad.return ([], Some (wrapf ''failed to read task directory: '' e))
     | Inr tids \<Rightarrow> do {
     threads \<leftarrow> cpu_threads_loop ex task_dir tids [];
     State_Monad.return (threads,
       (if int (length threads) \<noteq> num_cpus
        then Some (Err (''expected '' @ itoa num_cpus @ '' CPU threads, found '' @ itoa (int (length threads))))
        else None)) } }"

fun cpu_threads_retry ::
    "nat \<Rightarrow> 'w hv_env \<Rightarrow> string \<Rightarrow> int \<Rightarrow> (int \<times> int) list \<times> goerr option \<Rightarrow> ('w, (int \<times> int) list \<times> goerr option) state" where
  "cpu_threads_retry 0 E task_dir num_cpus last_try = State_Monad.return last_try"
| "cpu_threads_retry (Suc n) E task_dir num_cpus last_try = do {
     r \<leftarrow> get_cpu_thread_ids (he_exec E) task_dir num_cpus;
     if snd r = None then State_Monad.return r
     else do { _ \<leftarrow> he_sleep E (200 * msec); cpu_threads_retry n E task_dir num_cpus r } }"

text \<open>
  The loop over the vCPUs collects the errors; \<open>None\<close> is the run-time panic of an index out of
  range in \<^verbatim>\<open>cpuPins[cpuNum]\<close>.
\<close>

fun pin_loop ::
    "qemu_conf \<Rightarrow> 'w executor \<Rightarrow> string \<Rightarrow> (int \<times> int) list \<Rightarrow> int list \<Rightarrow> nat list \<Rightarrow> string list \<Rightarrow> ('w, string list option) state" where
  "pin_loop h ex log_path threads pins [] errs = State_Monad.return (Some errs)"
| "pin_loop h ex log_path threads pins (k # ks) errs =
     (case map_of threads (int k) of
        None \<Rightarrow> pin_loop h ex log_path threads pins ks (errs @ [''CPU '' @ dec_of_nat k @ '': thread not found''])
      | Some tid \<Rightarrow>
          if k \<ge> length pins then State_Monad.return None
          else do {
            (res, err) \<leftarrow>
              (if qh_use_sudo h
               then ex_run ex log_path (qh_sudo_path h) ([qh_taskset_path h] @ [''-cp'', itoa (pins ! k), itoa tid])
               else ex_run ex log_path (qh_taskset_path h) [''-cp'', itoa (pins ! k), itoa tid]);
            pin_loop h ex log_path threads pins ks
              (case err of
                 None \<Rightarrow> errs
               | Some e \<Rightarrow> errs @ [''CPU '' @ dec_of_nat k @ '' (tid '' @ itoa tid @ '' -> core '' @ itoa (pins ! k) @
                                   ''): '' @ err_msg e]) })"

text \<open>The outer \<open>None\<close> is the panic.\<close>

definition pin_cpu_threads ::
    "qemu_conf \<Rightarrow> 'w hv_env \<Rightarrow> int \<Rightarrow> int list \<Rightarrow> int \<Rightarrow> string \<Rightarrow> ('w, goerr option option) state" where
  "pin_cpu_threads h E qemu_pid pins num_cpus log_path = do {
     _ \<leftarrow> he_sleep E (500 * msec);
     (threads, err) \<leftarrow> cpu_threads_retry 10 E (''/proc/'' @ itoa qemu_pid @ ''/task'') num_cpus ([], None);
     case err of
       Some e \<Rightarrow> State_Monad.return (Some (Some (wrapf ''failed to find CPU threads after retries: '' e)))
     | None \<Rightarrow> do {
     r \<leftarrow> pin_loop h (he_exec E) log_path threads pins [0..<nat num_cpus] [];
     State_Monad.return (case r of
         None \<Rightarrow> None
       | Some errs \<Rightarrow>
           Some (if length errs > 0
                 then Some (Err (''taskset failed for '' @ itoa (int (length errs)) @ '' vCPU(s):'' @ [CHR 0x0A] @ ''  '' @
                            str_join errs ([CHR 0x0A] @ ''  '')))
                 else None)) } }"

text \<open>\<^verbatim>\<open>fmt.Sscanf(s, "%d", &n)\<close> on a trimmed string: the leading number, a rest being ignored.\<close>

definition scan_int :: "string \<Rightarrow> int option" where
  "scan_int s =
     (case s of
        [] \<Rightarrow> None
      | c # cs \<Rightarrow>
          if c = CHR ''-'' \<or> c = CHR ''+'' then atoi (c # takeWhile is_digit cs)
          else atoi (takeWhile is_digit s))"

text \<open>The loop that waits for the PID file; the outer \<open>None\<close> is the end of the fuel.\<close>

fun wait_pid_file :: "nat \<Rightarrow> 'w hv_env \<Rightarrow> string \<Rightarrow> int \<Rightarrow> ('w, (goerr + string) option) state" where
  "wait_pid_file 0 E pid_file deadline = State_Monad.return None"
| "wait_pid_file (Suc n) E pid_file deadline = do {
     r \<leftarrow> ex_read_file (he_exec E) pid_file;
     case r of
       Inr bytes \<Rightarrow>
         if length (trim_space bytes) > 0 then State_Monad.return (Some (Inr bytes))
         else do {
           now \<leftarrow> he_now E;
           if now > deadline then
             State_Monad.return (Some (Inl (Err (''QEMU PID file '' @ pid_file @ '' was empty after 15s''))))
           else do { _ \<leftarrow> he_sleep E (200 * msec); wait_pid_file n E pid_file deadline } }
     | Inl e \<Rightarrow> do {
         now \<leftarrow> he_now E;
         if now > deadline then
           State_Monad.return (Some (Inl (wrapf (''QEMU PID file '' @ pid_file @ '' did not appear within 15s: '') e)))
         else do { _ \<leftarrow> he_sleep E (200 * msec); wait_pid_file n E pid_file deadline } } }"

definition apply_cpu_pins_in ::
    "nat \<Rightarrow> qemu_conf \<Rightarrow> 'w hv_env \<Rightarrow> string \<Rightarrow> int list \<Rightarrow> int \<Rightarrow> ('w, goerr option option) state" where
  "apply_cpu_pins_in fuel h E d pins num_cpus = do {
     now \<leftarrow> he_now E;
     r \<leftarrow> wait_pid_file fuel E (path_join [d, ''qemu.pid'']) (now + 15 * sec);
     case r of
       None \<Rightarrow> State_Monad.return (Some (Some (Err ''out of fuel'')))
     | Some (Inl e) \<Rightarrow> State_Monad.return (Some (Some e))
     | Some (Inr bytes) \<Rightarrow>
         (case scan_int (trim_space bytes) of
            None \<Rightarrow> State_Monad.return (Some (Some (Err (''invalid QEMU PID '' @ go_quote (trim_space bytes) @ '': expected integer''))))
          | Some pid \<Rightarrow> pin_cpu_threads h E pid pins num_cpus d) }"

definition qemu_apply_cpu_pins ::
    "nat \<Rightarrow> qemu_conf \<Rightarrow> 'w hv_env \<Rightarrow> vm_config \<Rightarrow> ('w, goerr option option) state" where
  "qemu_apply_cpu_pins fuel h E conf =
     (if vm_is_installation conf \<or> length (vm_cpu_pins conf) = 0 then State_Monad.return (Some None)
      else apply_cpu_pins_in fuel h E (vm_resource_dir conf) (vm_cpu_pins conf)
             (if vm_cpus conf > 0 then vm_cpus conf else 4))"

section \<open>The disks\<close>

lemma qemu_prep_overlay:
  assumes "is_overlay disk" and "run_state (qemu_prep_disk h ex d i disk) s = (Inr img, s')"
  shows "img = overlay_image d i ''.disk_img.qcow2''"
  using assms by (auto simp: qemu_prep_disk_def is_overlay_def Let_def split: prod.splits option.splits)

interpretation qemu_disks: disk_backend "qemu_prep_disk h ex" "''.disk_img.qcow2''" for h ex
proof unfold_locales
  fix disk d i s r s'
  show "is_direct disk \<Longrightarrow> run_state (qemu_prep_disk h ex d i disk) s = (r, s') \<Longrightarrow>
      s' = s \<and> (r = Inr (dk_source disk) \<or> (\<exists>e. r = Inl e))"
    by (auto simp: qemu_prep_disk_def is_direct_def)
next
  fix disk d i s img s'
  show "is_overlay disk \<Longrightarrow> run_state (qemu_prep_disk h ex d i disk) s = (Inr img, s') \<Longrightarrow>
      img = overlay_image d i ''.disk_img.qcow2''"
    by (rule qemu_prep_overlay)
next
  fix disk d i s
  show "\<not> is_direct disk \<Longrightarrow> \<not> is_overlay disk \<Longrightarrow> \<exists>e. run_state (qemu_prep_disk h ex d i disk) s = (Inl e, s)"
    by (auto simp: qemu_prep_disk_def is_direct_def is_overlay_def)
qed

lemma qemu_prepare_images:
  assumes "run_state (qemu_prepare_disks h ex conf) s = ((paths, None), s')"
  shows "length (vp_disk_images paths) = length (vm_disks conf) \<and>
    (\<forall>k < length (vm_disks conf).
       vp_disk_images paths ! k = slot_image ''.disk_img.qcow2'' (vm_resource_dir conf) k (vm_disks conf ! k) \<and>
       (is_direct (vm_disks conf ! k) \<or> is_overlay (vm_disks conf ! k)))"
proof -
  let ?n = "length (vm_disks conf)"
  from assms obtain imgs s1 where
    "run_state (prepare_images (qemu_prep_disk h ex (vm_resource_dir conf)) 0 (vm_disks conf) (replicate ?n [])) s =
       ((imgs, None), s1)" and "vp_disk_images paths = imgs"
    by (auto simp: qemu_prepare_disks_def Let_def no_paths_def split: prod.splits option.splits sum.splits)
  then show ?thesis using qemu_disks.prepare_images_slots [of h ex _ 0 "vm_disks conf" "replicate ?n []"] by simp
qed

text \<open>Every image of an overlay has been made by \<^verbatim>\<open>qemu-img\<close>, which succeeded.\<close>

abbreviation overlay_made :: "qemu_conf \<Rightarrow> string \<Rightarrow> nat \<Rightarrow> disk_config \<Rightarrow> observation list \<Rightarrow> bool" where
  "overlay_made h d i disk obs \<equiv>
     (CRun d (qh_qemu_img_path h) (qemu_img_create_args disk (overlay_image d i ''.disk_img.qcow2'')), Okay) \<in> set obs"

lemma qemu_prep_observed:
  assumes "run_state (qemu_prep_disk h (observed ex) d i disk) (w, g) = (r, (w', g'))"
  shows "prefix g g' \<and> (\<forall>img. r = Inr img \<longrightarrow> is_overlay disk \<longrightarrow> overlay_made h d i disk g')"
proof -
  have "\<not> is_direct disk" if "is_overlay disk" using that by (auto simp: is_direct_def is_overlay_def)
  with assms show ?thesis
    by (auto simp: qemu_prep_disk_def is_direct_def is_overlay_def Let_def opt_answer_def split: prod.splits option.splits if_splits)
qed

lemma qemu_prepare_observed:
  assumes "run_state (prepare_images (qemu_prep_disk h (observed ex) d) i disks imgs) (w, g) = ((imgs', e), (w', g'))"
  shows "prefix g g' \<and>
    (e = None \<longrightarrow> (\<forall>k < length disks. is_overlay (disks ! k) \<longrightarrow> overlay_made h d (i + k) (disks ! k) g'))"
  using assms
proof (induction disks arbitrary: i imgs w g)
  case (Cons disk disks)
  obtain r v f where step: "run_state (qemu_prep_disk h (observed ex) d i disk) (w, g) = (r, (v, f))" by (metis surj_pair)
  note first = qemu_prep_observed [OF step]
  show ?case
  proof (cases r)
    case (Inl e)
    with step Cons.prems first show ?thesis by auto
  next
    case (Inr img)
    with step Cons.prems have "run_state (prepare_images (qemu_prep_disk h (observed ex) d) (Suc i) disks (imgs[i := img])) (v, f) =
        ((imgs', e), (w', g'))" by simp
    from Cons.IH [OF this] have IH: "prefix f g'"
      "e = None \<Longrightarrow> k < length disks \<Longrightarrow> is_overlay (disks ! k) \<Longrightarrow> overlay_made h d (Suc i + k) (disks ! k) g'" for k
      by blast+
    from first Inr IH(1) have "prefix g g'" "is_overlay disk \<Longrightarrow> overlay_made h d i disk g'"
      by (auto dest: set_mono_prefix)
    with IH(2) show ?thesis by (auto simp: less_Suc_eq_0_disj)
  qed
qed simp

lemma qemu_overlays_made:
  assumes "run_state (qemu_prepare_disks h (observed ex) conf) s = ((paths, None), (w', g'))"
    and "k < length (vm_disks conf)" and "is_overlay (vm_disks conf ! k)"
  shows "overlay_made h (vm_resource_dir conf) k (vm_disks conf ! k) g'"
proof -
  obtain w g where s: "s = (w, g)" by (cases s)
  obtain imgs e v f where loop: "run_state (prepare_images (qemu_prep_disk h (observed ex) (vm_resource_dir conf)) 0 (vm_disks conf)
      (replicate (length (vm_disks conf)) [])) (w, g) = ((imgs, e), (v, f))" by (metis surj_pair)
  with assms(1) have "e = None" "prefix f g'"
    by (auto simp: s qemu_prepare_disks_def Let_def observed_def split: prod.splits option.splits sum.splits)
  with qemu_prepare_observed [OF loop] assms(2,3) show ?thesis by (auto dest: set_mono_prefix)
qed

section \<open>Pinning\<close>

lemma vcpu_number_comm:
  assumes "n < 2 ^ 63"
  shows "vcpu_number (''CPU '' @ dec_of_nat n @ ''/KVM'' @ [CHR 0x0A]) = Some (int n)"
proof -
  let ?c = "''CPU '' @ dec_of_nat n @ ''/KVM''"
  have "trim_space (?c @ [CHR 0x0A]) = ?c"
    by (simp add: trim_space_def trim_right_by_def is_space_def)
  moreover have "suffix ''/KVM'' ?c" by (simp add: suffix_def)
  moreover have "trim_suffix (trim_prefix ?c ''CPU '') ''/KVM'' = dec_of_nat n"
    by (metis trim_prefix_app trim_suffix_app)
  ultimately show ?thesis using assms by (simp add: vcpu_number_def)
qed

text \<open>With a pin for every vCPU the index is always in range.\<close>

lemma pin_loop_no_panic:
  assumes "\<forall>k \<in> set ks. k < length pins"
  shows "fst (run_state (pin_loop h ex d threads pins ks errs) w) \<noteq> None"
  using assms
  by (induction ks arbitrary: errs w) (auto split: option.splits prod.splits)

lemma pin_loop_panics:
  assumes "map_of threads (int k) = Some tid" and "length pins \<le> k"
  shows "run_state (pin_loop h ex d threads pins (k # ks) errs) w = (None, w)"
  using assms by simp

lemma pin_cpu_threads_no_panic:
  assumes "nat num_cpus \<le> length pins"
  shows "fst (run_state (pin_cpu_threads h E pid pins num_cpus d) w) \<noteq> None"
proof -
  obtain w1 where sleep: "snd (run_state (he_sleep E (500 * msec)) w) = w1" by simp
  obtain threads err w2 where retry:
    "run_state (cpu_threads_retry 10 E (''/proc/'' @ itoa pid @ ''/task'') num_cpus ([], None)) w1 = ((threads, err), w2)"
    by (metis surj_pair)
  obtain errs w3 where "run_state (pin_loop h (he_exec E) d threads pins [0..<nat num_cpus] []) w2 = (Some errs, w3)"
    using pin_loop_no_panic [of "[0..<nat num_cpus]" pins h "he_exec E" d threads "[]" w2] assms
    by (cases "run_state (pin_loop h (he_exec E) d threads pins [0..<nat num_cpus] []) w2") auto
  with sleep retry show ?thesis
    by (cases err) (simp_all add: pin_cpu_threads_def split_beta del: cpu_threads_retry.simps pin_loop.simps)
qed

lemma qemu_apply_cpu_pins_no_panic:
  assumes "length (vm_cpu_pins conf) = nat (if vm_cpus conf > 0 then vm_cpus conf else 4)"
  shows "fst (run_state (qemu_apply_cpu_pins fuel h E conf) w) \<noteq> None"
proof -
  note no_panic = pin_cpu_threads_no_panic [of "if vm_cpus conf > 0 then vm_cpus conf else 4" "vm_cpu_pins conf" h E _ "vm_resource_dir conf"]
  show ?thesis
    using no_panic assms
    by (auto simp: qemu_apply_cpu_pins_def apply_cpu_pins_in_def Let_def split: prod.splits option.splits sum.splits)
qed

section \<open>The back end\<close>

definition qemu_hypervisor :: "nat \<Rightarrow> qemu_conf \<Rightarrow> 'w hv_env \<Rightarrow> 'w hypervisor" where
  "qemu_hypervisor fuel h E =
     \<lparr>hv_prepare_disks = qemu_prepare_disks h (he_exec E), hv_start = qemu_start fuel h E,
      hv_status = qemu_status E, hv_stop = qemu_stop E, hv_apply_cpu_pins = qemu_apply_cpu_pins fuel h E,
      hv_taskset = Some (qh_taskset_path h)\<rparr>"

lemma qemu_status_false:
  "run_state (qemu_status E d) s = ((b, Some e), s') \<Longrightarrow> \<not> b"
  by (auto simp: qemu_status_def split: prod.splits sum.splits option.splits)

interpretation qemu: hypervisor_contract "qemu_hypervisor fuel h E" "''.disk_img.qcow2''" for fuel h E
proof unfold_locales
  fix conf s paths s'
  assume "run_state (hv_prepare_disks (qemu_hypervisor fuel h E) conf) s = ((paths, None), s')"
  then show "length (vp_disk_images paths) = length (vm_disks conf) \<and>
      (\<forall>k < length (vm_disks conf).
         vp_disk_images paths ! k = slot_image ''.disk_img.qcow2'' (vm_resource_dir conf) k (vm_disks conf ! k))"
    using qemu_prepare_images [of h "he_exec E" conf s paths s'] by (simp add: qemu_hypervisor_def)
next
  fix d s b e s'
  assume "run_state (hv_status (qemu_hypervisor fuel h E) d) s = ((b, Some e), s')"
  then have "run_state (qemu_status E d) s = ((b, Some e), s')"
    by (simp add: qemu_hypervisor_def)
  then show "\<not> b" by (rule qemu_status_false)
next
  fix conf s
  assume "pins_match conf"
  then show "fst (run_state (hv_apply_cpu_pins (qemu_hypervisor fuel h E) conf) s) \<noteq> None"
    using qemu_apply_cpu_pins_no_panic [of conf fuel h E s]
    by (auto simp: qemu_hypervisor_def pins_match_def qemu_apply_cpu_pins_def)
qed

section \<open>A concrete back end\<close>

definition sample_qemu :: qemu_conf where
  "sample_qemu =
     \<lparr>qh_qemu_path = ''qemu'', qh_qemu_img_path = ''qemu-img'', qh_base_ovmf_code = ''CODE'', qh_base_ovmf_vars = ''VARS'',
      qh_taskset_path = ''taskset'', qh_use_sudo = False, qh_sudo_path = []\<rparr>"

definition legacy_like :: "string \<Rightarrow> disk_config" where
  "legacy_like source =
     \<lparr>dk_type = disk_overlay, dk_source = source, dk_format = ''qcow2'', dk_size_mb = 0, dk_has_size = False,
      dk_drive_if = ''virtio'', dk_options = [''cache=none'']\<rparr>"

definition sample_vm :: vm_config where
  "sample_vm =
     \<lparr>vm_name = ''vm'', vm_id = ''cafe0001'', vm_serial_no = [], vm_resource_dir = ''/vm'', vm_memory_mb = [], vm_cpus = 2,
      vm_disks = [legacy_like ''/base''], vm_ovmf_code = [], vm_ovmf_vars_src = [], vm_nic0 = [], vm_ssh_port = 10007,
      vm_swtpm_socket = ''/tpm.sock'', vm_serial_to_file = [], vm_serial_to_socket = [], vm_serial_type = [],
      vm_extra_args = [], vm_cpu_pins = [], vm_use_gvproxy = True, vm_installer_iso = [], vm_installer_raw = [],
      vm_is_installation = False\<rparr>"

section \<open>Properties\<close>

text \<open>When the wait for the TPM socket fails, \<^verbatim>\<open>Start\<close> fails with its error and makes no call after it: the gvproxy
  it has started keeps running.\<close>

theorem qemu_start_leaves_gvproxy:
  assumes "vm_use_gvproxy conf" and "\<not> vm_is_installation conf" and "vm_ssh_port conf \<noteq> 0" and "vm_swtpm_socket conf \<noteq> []"
    and "run_state (start_gvproxy fuel E conf ''-gp.listen-qemu'' ''unix://'' ''gvproxy-qemu.sock'') w = (Inr sock, w1)"
    and "run_state (wait_for_swtpm_socket fuel E (vm_swtpm_socket conf) (30 * sec) ''30s'') w1 = (Some (Some e), w2)"
  shows "run_state (qemu_start fuel h E conf paths) w = (Some e, w2)"
  using assms by (simp add: qemu_start_def)

theorem qemu_start_leaves_gvproxy_witness:
  "\<exists>log. run_state (qemu_start 1 sample_qemu ((sample_env (traced idle_executor))\<lparr>he_now := State_Monad.return 0,
       he_ctx_wait := \<lambda>d. State_Monad.return (Some (Sentinel CtxCanceled))\<rparr>) sample_vm no_paths) ((), []) =
     (Some (Sentinel CtxCanceled), ((), log)) \<and>
     CDetached ''/vm'' ''/self'' (gvproxy_args sample_vm ''-gp.listen-qemu'' ''unix://'' (path_join [''/vm'', ''gvproxy-qemu.sock''])) \<in> set log \<and>
     \<not> (\<exists>p s. CKill p s \<in> set log)"
proof -
  let ?E = "(sample_env (traced idle_executor))\<lparr>he_now := State_Monad.return 0,
       he_ctx_wait := \<lambda>d. State_Monad.return (Some (Sentinel CtxCanceled))\<rparr> :: (unit \<times> call list) hv_env"
  let ?log = "[CDetached ''/vm'' ''/self'' (gvproxy_args sample_vm ''-gp.listen-qemu'' ''unix://'' (path_join [''/vm'', ''gvproxy-qemu.sock''])),
     CWrite (gvproxy_pid_file ''/vm'') (itoa 0) mode_600, CStat (path_join [''/vm'', ''gvproxy-qemu.sock''])]"
  have "run_state (start_gvproxy 1 ?E sample_vm ''-gp.listen-qemu'' ''unix://'' ''gvproxy-qemu.sock'') ((), []) =
      (Inr (path_join [''/vm'', ''gvproxy-qemu.sock'']), ((), ?log))"
    by (simp add: start_gvproxy_def sample_env_def socket_ready_def sample_vm_def Let_def new_result_def)
  moreover have "run_state (wait_for_swtpm_socket 1 ?E (vm_swtpm_socket sample_vm) (30 * sec) ''30s'') ((), ?log) =
      (Some (Some (Sentinel CtxCanceled)), ((), ?log))"
    by (simp add: wait_for_swtpm_socket_def sample_env_def)
  ultimately have "run_state (qemu_start 1 sample_qemu ?E sample_vm no_paths) ((), []) = (Some (Sentinel CtxCanceled), ((), ?log))"
    by (intro qemu_start_leaves_gvproxy) (simp_all add: sample_vm_def)
  then show ?thesis by auto
qed

text \<open>QEMU reads back the parts of a drive from the option it gets, when none of them has a comma.\<close>

theorem drive_options_roundtrip:
  assumes "\<forall>x \<in> set (drive_parts img disk). CHR '','' \<notin> set x"
  shows "split_on (CHR '','') (str_join (drive_parts img disk) '','') = drive_parts img disk"
  using assms by (intro split_on_join) (auto simp: drive_parts_def)

theorem drive_options_roundtrip_witness:
  "split_on (CHR '','') (str_join (drive_parts ''/d/disk0'' (legacy_like ''/base'')) '','') = drive_parts ''/d/disk0'' (legacy_like ''/base'')"
  by (rule drive_options_roundtrip) (simp add: drive_parts_def legacy_like_def)

end
