(* ===== verification/Vfkit.thy ===== *)
theory Vfkit
  imports Hv_Env
begin

text \<open>
  The vfkit back end: \<^verbatim>\<open>internal/hypervisor/vfkit.go\<close>. It attaches raw images only, so
  overlays are converted; the command line is built by the third-party package
  \<^verbatim>\<open>vfkit/pkg/config\<close>, a parameter here.
\<close>

record vfkit_conf =
  vh_vfkit_path :: string
  vh_qemu_img_path :: string
  vh_nested :: bool

text \<open>
  \<^verbatim>\<open>vfconfig\<close>: the constructors of the devices \<open>'v\<close>, and the command line of a machine with
  \<open>cpus\<close>, memory (MiB), the EFI variable store and nested virtualization.
\<close>

record 'v vfconfig =
  vf_blk_new :: "string \<Rightarrow> goerr + 'v"
  vf_net_new :: "string \<Rightarrow> goerr + 'v"
  vf_net_socket :: "'v \<Rightarrow> string \<Rightarrow> 'v"
  vf_rng_new :: "goerr + 'v"
  vf_serial_pty :: "goerr + 'v"
  vf_add_devices :: "'v list \<Rightarrow> goerr option"
  vf_cmd_line :: "64 word \<Rightarrow> 64 word \<Rightarrow> string \<Rightarrow> bool \<Rightarrow> 'v list \<Rightarrow> goerr + string list"

section \<open>The platform\<close>

text \<open>\<^verbatim>\<open>SupportsNestedVirtualization\<close>: Apple M3 or later, from the CPU brand.\<close>

definition nested_from_brand :: "string \<Rightarrow> bool" where
  "nested_from_brand brand =
     (case rx_find [RLit ''Apple M''] [RPlus is_digit] brand of
        None \<Rightarrow> False
      | Some (gen, _) \<Rightarrow> (case atoi gen of None \<Rightarrow> False | Some g \<Rightarrow> g \<ge> 3))"

definition supports_nested_virtualization :: "'w executor \<Rightarrow> string \<Rightarrow> ('w, bool \<times> string) state" where
  "supports_nested_virtualization ex log_dir = do {
     (res, err) \<leftarrow> ex_run ex log_dir ''sysctl'' [''-n'', ''machdep.cpu.brand_string''];
     State_Monad.return (case err of
         Some _ \<Rightarrow> (False, ''unknown'')
       | None \<Rightarrow> (let brand = trim_space (r_stdout res) in (nested_from_brand brand, brand))) }"

text \<open>\<^verbatim>\<open>parseMemoryToMiB\<close>: the product with 1024 is on 64 bits.\<close>

definition parse_memory_to_mib :: "string \<Rightarrow> 64 word option" where
  "parse_memory_to_mib mem0 =
     (let mem = trim_space mem0
      in if mem = [] then Some 4096
         else if has_suffix mem ''G'' then map_option (\<lambda>v. v * 1024) (parse_uint64 (trim_suffix mem ''G''))
         else if has_suffix mem ''M'' then parse_uint64 (trim_suffix mem ''M'')
         else parse_uint64 mem)"

section \<open>The serial PTY\<close>

text \<open>One line of vfkit's log: the path between the marker and the closing parenthesis.\<close>

definition pty_in_line :: "string \<Rightarrow> string option" where
  "pty_in_line line =
     (case str_index line ''pty path: '' of
        None \<Rightarrow> None
      | Some i \<Rightarrow>
          (let rest = drop (i + length ''pty path: '') line
           in case str_index rest '')'' of
                Some e \<Rightarrow> if e > 0 then Some (take e rest) else Some (trim_space rest)
              | None \<Rightarrow> Some (trim_space rest)))"

fun first_pty :: "string list \<Rightarrow> string option" where
  "first_pty [] = None"
| "first_pty (l # ls) = (case pty_in_line l of Some p \<Rightarrow> Some p | None \<Rightarrow> first_pty ls)"

definition parse_pty_path :: "'w executor \<Rightarrow> string \<Rightarrow> ('w, goerr + string) state" where
  "parse_pty_path ex log_file =
     bindE (ex_read_file ex log_file) (\<lambda>data.
       State_Monad.return (case first_pty (split_on (CHR 0x0A) data) of
           Some p \<Rightarrow> Inr p
         | None \<Rightarrow> Inl (Err (''PTY path not found in log file '' @ log_file))))"

text \<open>The scan of the directory in \<^verbatim>\<open>waitForPtyPath\<close>: the first log file that has a path.\<close>

fun pty_in_entries :: "'w executor \<Rightarrow> string \<Rightarrow> string list \<Rightarrow> ('w, string option) state" where
  "pty_in_entries ex d [] = State_Monad.return None"
| "pty_in_entries ex d (n # ns) =
     (if \<not> has_suffix n ''_vfkit_stderr.log'' then pty_in_entries ex d ns
      else do {
        r \<leftarrow> parse_pty_path ex (path_join [d, n]);
        case r of Inr p \<Rightarrow> State_Monad.return (Some p) | Inl _ \<Rightarrow> pty_in_entries ex d ns })"

definition wait_for_pty_path :: "nat \<Rightarrow> 'w hv_env \<Rightarrow> string \<Rightarrow> ('w, goerr + string) state" where
  "wait_for_pty_path fuel E d = do {
     now \<leftarrow> he_now E;
     r \<leftarrow> poll_loop fuel E (now + 10 * sec) (200 * msec) (do {
            entries \<leftarrow> ex_read_dir (he_exec E) d;
            pty_in_entries (he_exec E) d (case entries of Inl _ \<Rightarrow> [] | Inr ns \<Rightarrow> ns) });
     case r of
       Some (Some p) \<Rightarrow> okE p
     | _ \<Rightarrow> failE (Err ''PTY path not found in vfkit stderr logs within 10s'') }"

section \<open>PrepareDisks\<close>

definition detect_image_format :: "vfkit_conf \<Rightarrow> 'w hv_env \<Rightarrow> string \<Rightarrow> string \<Rightarrow> ('w, goerr + string) state" where
  "detect_image_format h E log_dir src = do {
     (res, err) \<leftarrow> ex_run (he_exec E) log_dir (vh_qemu_img_path h) [''info'', ''--output=json'', src];
     State_Monad.return (case err of
         Some e \<Rightarrow> Inl (wrapfs ''qemu-img info failed: '' e (''; '' @ r_stderr res))
       | None \<Rightarrow> (case he_json_format E (r_stdout res) of
             Inl e \<Rightarrow> Inl (wrapf ''failed to parse qemu-img info output: '' e)
           | Inr f \<Rightarrow> Inr f)) }"

definition convert_to_raw :: "vfkit_conf \<Rightarrow> 'w hv_env \<Rightarrow> string \<Rightarrow> string \<Rightarrow> string \<Rightarrow> ('w, goerr option) state" where
  "convert_to_raw h E log_dir src dst = do {
     f \<leftarrow> detect_image_format h E log_dir src;
     case f of
       Inl e \<Rightarrow> State_Monad.return (Some e)
     | Inr format \<Rightarrow>
         if format = ''raw'' then do {
           r \<leftarrow> ex_copy_file (he_exec E) src dst;
           State_Monad.return (case r of Inl e \<Rightarrow> Some (wrapf ''failed to copy raw image: '' e) | Inr _ \<Rightarrow> None) }
         else if format = ''qcow2'' then do {
           (res, err) \<leftarrow> ex_run (he_exec E) log_dir (vh_qemu_img_path h)
                          [''convert'', ''-f'', ''qcow2'', ''-O'', ''raw'', src, dst];
           State_Monad.return (map_option (\<lambda>e. wrapfs ''qemu-img convert failed: '' e (''; '' @ r_stderr res)) err) }
         else State_Monad.return (Some (Err (''unsupported disk image format '' @ go_quote format @ ''; expected raw or qcow2''))) }"

definition vfkit_prep_disk ::
    "vfkit_conf \<Rightarrow> 'w hv_env \<Rightarrow> string \<Rightarrow> nat \<Rightarrow> disk_config \<Rightarrow> ('w, goerr + string) state" where
  "vfkit_prep_disk h E d i disk =
     (if dk_type disk = disk_device \<or> dk_type disk = disk_file then
        (if dk_format disk = ''qcow2''
         then failE (Err (''disk '' @ dec_of_nat i @ '': vfkit does not support qcow2 direct disks; use a raw image or block device''))
         else okE (dk_source disk))
      else if dk_type disk = disk_overlay \<or> dk_type disk = [] then
        (let raw = overlay_image d i ''.raw''
         in do {
           r \<leftarrow> convert_to_raw h E d (dk_source disk) raw;
           case r of
             Some e \<Rightarrow> failE (wrapf (''unable to create disk '' @ dec_of_nat i @ '' image: '') e)
           | None \<Rightarrow>
               if dk_has_size disk then do {
                 (res, err) \<leftarrow> ex_run (he_exec E) d (vh_qemu_img_path h)
                                [''resize'', ''-f'', ''raw'', raw, itoa (dk_size_mb disk) @ ''M''];
                 case err of
                   Some e \<Rightarrow> failE (wrapfs (''unable to resize disk '' @ dec_of_nat i @ '' image: '') e (''; '' @ r_stderr res))
                 | None \<Rightarrow> okE raw }
               else okE raw })
      else failE (Err (''unknown disk '' @ dec_of_nat i @ '' type '' @ go_quote (dk_type disk))))"

definition vfkit_prepare_disks ::
    "vfkit_conf \<Rightarrow> 'w hv_env \<Rightarrow> vm_config \<Rightarrow> ('w, vm_paths \<times> goerr option) state" where
  "vfkit_prepare_disks h E conf = do {
     let d = vm_resource_dir conf;
     (imgs, err) \<leftarrow> prepare_images (vfkit_prep_disk h E d) 0 (vm_disks conf) (replicate (length (vm_disks conf)) []);
     let paths = no_paths\<lparr>vp_disk_images := imgs\<rparr>;
     case err of
       Some e \<Rightarrow> State_Monad.return (paths, Some e)
     | None \<Rightarrow> do {
     let paths = paths\<lparr>vp_ovmf_vars := path_join [d, ''efi_variable_store'']\<rparr>;
     r \<leftarrow> (if vm_ovmf_vars_src conf \<noteq> [] then ex_copy_file (he_exec E) (vm_ovmf_vars_src conf) (vp_ovmf_vars paths)
          else okE 0);
     case r of
       Inl e \<Rightarrow> State_Monad.return (paths, Some (wrapf ''unable to copy EFI variable store: '' e))
     | Inr _ \<Rightarrow>
         State_Monad.return (paths\<lparr>vp_pid_file := path_join [d, ''vfkit.pid''],
           vp_debug_script := path_join [d, ''start_vm.bash'']\<rparr>, None) } }"

section \<open>Start\<close>

definition vfkit_cpus :: "vm_config \<Rightarrow> 64 word" where
  "vfkit_cpus conf = (if vm_cpus conf > 0 then word_of_int (vm_cpus conf) else 4)"

definition vfkit_memory :: "vm_config \<Rightarrow> 64 word" where
  "vfkit_memory conf =
     (if vm_memory_mb conf \<noteq> [] then
        (case parse_memory_to_mib (vm_memory_mb conf) of Some m \<Rightarrow> m | None \<Rightarrow> 4096)
      else 4096)"

fun blk_devices :: "'v vfconfig \<Rightarrow> nat \<Rightarrow> string list \<Rightarrow> goerr + 'v list" where
  "blk_devices V i [] = Inr []"
| "blk_devices V i (p # ps) =
     (case vf_blk_new V p of
        Inl e \<Rightarrow> Inl (wrapf (''configure disk '' @ dec_of_nat i @ '': '') e)
      | Inr b \<Rightarrow> (case blk_devices V (Suc i) ps of Inl e \<Rightarrow> Inl e | Inr bs \<Rightarrow> Inr (b # bs)))"

text \<open>The disks and, for an installation, the installer medium.\<close>

definition vfkit_storage :: "'v vfconfig \<Rightarrow> vm_config \<Rightarrow> vm_paths \<Rightarrow> goerr + 'v list" where
  "vfkit_storage V conf paths =
     (case blk_devices V 0 (vp_disk_images paths) of
        Inl e \<Rightarrow> Inl e
      | Inr bs \<Rightarrow>
          (let p = (if vm_installer_raw conf \<noteq> [] then vm_installer_raw conf else vm_installer_iso conf)
           in if vm_is_installation conf \<and> p \<noteq> [] then
                (case vf_blk_new V p of
                   Inl e \<Rightarrow> Inl (wrapf ''configure installer disk: '' e)
                 | Inr b \<Rightarrow> Inr (bs @ [b]))
              else Inr bs))"

text \<open>The copies of the gvproxy helpers in \<^verbatim>\<open>vfkit.go\<close>.\<close>

definition vfkit_start_gvproxy :: "nat \<Rightarrow> 'w hv_env \<Rightarrow> vm_config \<Rightarrow> ('w, goerr + string) state" where
  [simp]: "vfkit_start_gvproxy fuel E conf = start_gvproxy fuel E conf ''-gp.listen-vfkit'' ''unixgram://'' ''vfkit.sock''"

definition vfkit_stop_gvproxy :: "'w executor \<Rightarrow> string \<Rightarrow> ('w, unit) state" where
  [simp]: "vfkit_stop_gvproxy ex d = stop_gvproxy ex d"

text \<open>The network device; gvproxy is started for a running VM. The socket is empty otherwise.\<close>

definition vfkit_network ::
    "nat \<Rightarrow> 'v vfconfig \<Rightarrow> 'w hv_env \<Rightarrow> vm_config \<Rightarrow> ('w, goerr + ('v \<times> string)) state" where
  "vfkit_network fuel V E conf =
     (if \<not> vm_is_installation conf \<and> vm_ssh_port conf \<noteq> 0 then do {
        r \<leftarrow> vfkit_start_gvproxy fuel E conf;
        State_Monad.return (case r of
            Inl e \<Rightarrow> Inl (wrapf ''start gvproxy: '' e)
          | Inr sock \<Rightarrow>
              (case vf_net_new V ''5a:94:ef:e4:0c:ee'' of
                 Inl e \<Rightarrow> Inl (wrapf ''configure network: '' e)
               | Inr n \<Rightarrow> Inr (vf_net_socket V n sock, sock))) }
      else State_Monad.return (case vf_net_new V [] of
          Inl e \<Rightarrow> Inl (wrapf ''configure network: '' e)
        | Inr n \<Rightarrow> Inr (n, [])))"

definition vfkit_command_line ::
    "vfkit_conf \<Rightarrow> 'v vfconfig \<Rightarrow> vm_config \<Rightarrow> vm_paths \<Rightarrow> 'v list \<Rightarrow> goerr + string list" where
  "vfkit_command_line h V conf paths devs =
     (case vf_rng_new V of
        Inl e \<Rightarrow> Inl (wrapf ''configure rng: '' e)
      | Inr rng \<Rightarrow>
     (case vf_serial_pty V of
        Inl e \<Rightarrow> Inl (wrapf ''configure serial: '' e)
      | Inr ser \<Rightarrow>
     (case vf_add_devices V (devs @ [rng, ser]) of
        Some e \<Rightarrow> Inl (wrapf ''add devices: '' e)
      | None \<Rightarrow>
     (case vf_cmd_line V (vfkit_cpus conf) (vfkit_memory conf) (vp_ovmf_vars paths) (vh_nested h) (devs @ [rng, ser]) of
        Inl e \<Rightarrow> Inl (wrapf ''build vfkit command line: '' e)
      | Inr args \<Rightarrow> Inr args))))"

definition vfkit_debug_script :: "vfkit_conf \<Rightarrow> string \<Rightarrow> string list \<Rightarrow> string" where
  "vfkit_debug_script h socket_path args =
     (let nl = [CHR 0x0A]
      in ''#!/usr/bin/env bash'' @ nl @ nl @ ''set -eu;'' @ nl @ nl @
         (if socket_path \<noteq> [] then ''#### GVPROXY (started separately, see gvproxy.pid)'' @ nl else []) @
         ''#### VFKIT ARGS: '' @ fmt_strings args @ nl @ nl @ vh_vfkit_path h @ '' '' @ str_join args '' '' @ nl)"

text \<open>An installation runs in the background beside the PTY tailer and is waited for.\<close>

definition vfkit_install ::
    "nat \<Rightarrow> vfkit_conf \<Rightarrow> 'w hv_env \<Rightarrow> vm_config \<Rightarrow> string list \<Rightarrow> ('w, goerr option) state" where
  "vfkit_install fuel h E conf args = do {
     let ex = he_exec E;
     let d = vm_resource_dir conf;
     bg \<leftarrow> he_run_bg E d (vh_vfkit_path h) args;
     pty \<leftarrow> wait_for_pty_path fuel E d;
     tailer \<leftarrow> (case pty of
        Inl _ \<Rightarrow> State_Monad.return 0
      | Inr dev \<Rightarrow>
          if vm_serial_to_file conf \<noteq> [] then do {
            (res, err) \<leftarrow> ex_run_detached ex d (ex_self_path ex)
               [''-socket-tailer'', ''-st.pty'', dev, ''-st.out'', vm_serial_to_file conf];
            State_Monad.return (case err of Some _ \<Rightarrow> 0 | None \<Rightarrow> r_pid res) }
          else State_Monad.return 0);
     result \<leftarrow> he_bg_wait E bg;
     _ \<leftarrow> (if tailer \<noteq> 0 then ex_kill ex tailer 15 else State_Monad.return None);
     State_Monad.return (map_option
       (\<lambda>e. wrapfs ''failed to run vfkit VM for installing EVE-OS: '' e (''; '' @ r_stderr result)) (r_error result)) }"

definition vfkit_run ::
    "vfkit_conf \<Rightarrow> 'w hv_env \<Rightarrow> vm_config \<Rightarrow> vm_paths \<Rightarrow> string list \<Rightarrow> ('w, goerr option) state" where
  "vfkit_run h E conf paths args = do {
     let ex = he_exec E;
     let d = vm_resource_dir conf;
     (res, err) \<leftarrow> ex_run_detached ex d (vh_vfkit_path h) args;
     case err of
       Some e \<Rightarrow> State_Monad.return (Some (wrapfs ''failed to start vfkit VM: '' e (''; '' @ r_stderr res)))
     | None \<Rightarrow> do {
     w \<leftarrow> ex_write_file ex (vp_pid_file paths) (itoa (r_pid res)) mode_600;
     case w of
       Some e \<Rightarrow> State_Monad.return (Some (wrapf ''failed to write vfkit PID file: '' e))
     | None \<Rightarrow> do {
     pty \<leftarrow> parse_pty_path ex (r_logs_stderr res);
     _ \<leftarrow> (case pty of
          Inr p \<Rightarrow> ex_write_file ex (path_join [d, ''serial.pty'']) (p @ [CHR 0x0A]) mode_600
        | Inl _ \<Rightarrow> State_Monad.return None);
     State_Monad.return None } } }"

definition vfkit_start ::
    "nat \<Rightarrow> vfkit_conf \<Rightarrow> 'v vfconfig \<Rightarrow> 'w hv_env \<Rightarrow> vm_config \<Rightarrow> vm_paths \<Rightarrow> ('w, goerr option) state" where
  "vfkit_start fuel h V E conf paths =
     (case vfkit_storage V conf paths of
        Inl e \<Rightarrow> State_Monad.return (Some e)
      | Inr storage \<Rightarrow> do {
     net \<leftarrow> vfkit_network fuel V E conf;
     case net of
       Inl e \<Rightarrow> State_Monad.return (Some e)
     | Inr (net_dev, socket_path) \<Rightarrow>
     (case vfkit_command_line h V conf paths (storage @ [net_dev]) of
        Inl e \<Rightarrow> State_Monad.return (Some e)
      | Inr args \<Rightarrow> do {
     _ \<leftarrow> ex_write_file (he_exec E) (vp_debug_script paths) (vfkit_debug_script h socket_path args) mode_755;
     if vm_is_installation conf then vfkit_install fuel h E conf args
     else vfkit_run h E conf paths args }) })"

section \<open>Status and Stop\<close>

definition vfkit_apply_cpu_pins :: "vm_config \<Rightarrow> ('w, goerr option) state" where
  "vfkit_apply_cpu_pins conf = State_Monad.return None"

definition vfkit_status :: "'w hv_env \<Rightarrow> string \<Rightarrow> ('w, goerr + bool) state" where
  "vfkit_status E d = do {
     r \<leftarrow> ex_read_file (he_exec E) (path_join [d, ''vfkit.pid'']);
     case r of
       Inl e \<Rightarrow> if is_not_exist e then okE False else failE (wrapf ''can't read PID file: '' e)
     | Inr bytes \<Rightarrow>
         (case atoi (trim_space bytes) of
            None \<Rightarrow> failE (Err (''invalid PID in file: strconv.Atoi: parsing '' @ go_quote (trim_space bytes) @ '': invalid syntax''))
          | Some pid \<Rightarrow> ex_is_running (he_exec E) pid []) }"

definition vfkit_stop :: "'w hv_env \<Rightarrow> string \<Rightarrow> ('w, goerr option) state" where
  "vfkit_stop E d = do {
     r \<leftarrow> ex_read_file (he_exec E) (path_join [d, ''vfkit.pid'']);
     case r of
       Inl e \<Rightarrow> State_Monad.return (if is_not_exist e then None else Some (wrapf ''can't read PID file: '' e))
     | Inr bytes \<Rightarrow>
         (case atoi (trim_space bytes) of
            None \<Rightarrow> State_Monad.return (Some (Err (''invalid PID: strconv.Atoi: parsing '' @ go_quote (trim_space bytes) @ '': invalid syntax'')))
          | Some pid \<Rightarrow> do {
              _ \<leftarrow> ex_kill (he_exec E) pid 15;
              _ \<leftarrow> he_sleep E (2 * sec);
              _ \<leftarrow> vfkit_stop_gvproxy (he_exec E) d;
              State_Monad.return None }) }"

section \<open>Lemmas\<close>

lemma vfkit_prep_overlay:
  assumes "is_overlay disk" and "run_state (vfkit_prep_disk h E d i disk) s = (Inr img, s')"
  shows "img = overlay_image d i ''.raw''"
  using assms
  by (auto simp: vfkit_prep_disk_def is_overlay_def Let_def split: prod.splits option.splits if_splits)

interpretation vfkit_disks: disk_backend "vfkit_prep_disk h E" "''.raw''" for h E
proof unfold_locales
  fix disk d i s r s'
  show "is_direct disk \<Longrightarrow> run_state (vfkit_prep_disk h E d i disk) s = (r, s') \<Longrightarrow>
      s' = s \<and> (r = Inr (dk_source disk) \<or> (\<exists>e. r = Inl e))"
    by (auto simp: vfkit_prep_disk_def is_direct_def split: if_splits)
next
  fix disk d i s img s'
  show "is_overlay disk \<Longrightarrow> run_state (vfkit_prep_disk h E d i disk) s = (Inr img, s') \<Longrightarrow>
      img = overlay_image d i ''.raw''"
    by (rule vfkit_prep_overlay)
next
  fix disk d i s
  show "\<not> is_direct disk \<Longrightarrow> \<not> is_overlay disk \<Longrightarrow> \<exists>e. run_state (vfkit_prep_disk h E d i disk) s = (Inl e, s)"
    by (auto simp: vfkit_prep_disk_def is_direct_def is_overlay_def)
qed

text \<open>Memory sizes in the supported range are read exactly; beyond it the product wraps.\<close>

lemma trim_space_digits:
  assumes "\<not> is_space c"
  shows "trim_space (dec_of_nat n @ [c]) = dec_of_nat n @ [c]"
proof -
  have "\<not> is_space (hd (dec_of_nat n))"
    by (rule is_digit_not_ws [OF set_dec_of_nat [OF dec_of_nat_hd]])
  with assms show ?thesis by (intro trim_space_id) (simp add: hd_append)
qed

text \<open>The line vfkit logs gives the device.\<close>

definition pty_log_line :: "string \<Rightarrow> string" where
  "pty_log_line dev =
     ''level=info msg='' @ [CHR 0x22] @ ''Using PTY (pty path: '' @ dev @ '')'' @ [CHR 0x22]"

lemma str_index_end:
  assumes "c \<notin> set a"
  shows "str_index (a @ c # b) [c] = Some (length a)"
  using assms by (induction a) auto

section \<open>The back end\<close>

text \<open>\<^verbatim>\<open>Status\<close> returns the pair of \<^verbatim>\<open>IsRunning\<close>, whose error comes with \<^verbatim>\<open>false\<close>.\<close>

definition vfkit_hypervisor ::
    "nat \<Rightarrow> vfkit_conf \<Rightarrow> 'v vfconfig \<Rightarrow> 'w hv_env \<Rightarrow> 'w hypervisor" where
  "vfkit_hypervisor fuel h V E =
     \<lparr>hv_prepare_disks = vfkit_prepare_disks h E, hv_start = vfkit_start fuel h V E,
      hv_status = (\<lambda>d. do {
         r \<leftarrow> vfkit_status E d;
         State_Monad.return (case r of Inl e \<Rightarrow> (False, Some e) | Inr b \<Rightarrow> (b, None)) }),
      hv_stop = vfkit_stop E,
      hv_apply_cpu_pins = (\<lambda>conf. do { r \<leftarrow> vfkit_apply_cpu_pins conf; State_Monad.return (Some r) }),
      hv_taskset = None\<rparr>"

lemma vfkit_prepare_images:
  assumes "run_state (vfkit_prepare_disks h E conf) s = ((paths, None), s')"
  shows "length (vp_disk_images paths) = length (vm_disks conf) \<and>
    (\<forall>k < length (vm_disks conf).
       vp_disk_images paths ! k = slot_image ''.raw'' (vm_resource_dir conf) k (vm_disks conf ! k) \<and>
       (is_direct (vm_disks conf ! k) \<or> is_overlay (vm_disks conf ! k)))"
proof -
  let ?n = "length (vm_disks conf)"
  from assms obtain imgs s1 where
    "run_state (prepare_images (vfkit_prep_disk h E (vm_resource_dir conf)) 0 (vm_disks conf) (replicate ?n [])) s =
       ((imgs, None), s1)" and "vp_disk_images paths = imgs"
    by (auto simp: vfkit_prepare_disks_def Let_def no_paths_def split: prod.splits option.splits sum.splits)
  then show ?thesis using vfkit_disks.prepare_images_slots [of h E _ 0 "vm_disks conf" "replicate ?n []"] by simp
qed

interpretation vfkit: hypervisor_contract "vfkit_hypervisor fuel h V E" "''.raw''" for fuel h V E
proof unfold_locales
  fix conf s paths s'
  assume "run_state (hv_prepare_disks (vfkit_hypervisor fuel h V E) conf) s = ((paths, None), s')"
  then show "length (vp_disk_images paths) = length (vm_disks conf) \<and>
      (\<forall>k < length (vm_disks conf).
         vp_disk_images paths ! k = slot_image ''.raw'' (vm_resource_dir conf) k (vm_disks conf ! k))"
    using vfkit_prepare_images [of h E conf s paths s'] by (simp add: vfkit_hypervisor_def)
next
  fix d s b e s'
  show "run_state (hv_status (vfkit_hypervisor fuel h V E) d) s = ((b, Some e), s') \<Longrightarrow> \<not> b"
    by (auto simp: vfkit_hypervisor_def split: prod.splits sum.splits)
next
  fix conf s
  show "fst (run_state (hv_apply_cpu_pins (vfkit_hypervisor fuel h V E) conf) s) \<noteq> None"
    by (simp add: vfkit_hypervisor_def vfkit_apply_cpu_pins_def)
qed

section \<open>Properties\<close>

text \<open>A memory size in gibibytes becomes that many times 1024 mebibytes, in 64-bit arithmetic.\<close>

theorem parse_memory_gib:
  assumes "n < 2 ^ 64"
  shows "parse_memory_to_mib (dec_of_nat n @ ''G'') = Some (word_of_nat (n * 1024))"
proof -
  have "trim_space (dec_of_nat n @ ''G'') = dec_of_nat n @ ''G''"
    by (rule trim_space_digits) (simp add: is_space_def)
  moreover have "suffix ''G'' (dec_of_nat n @ ''G'')" by (simp add: suffix_def)
  ultimately show ?thesis
    using assms by (simp add: parse_memory_to_mib_def parse_uint64_dec Let_def)
qed

theorem parse_memory_gib_witness:
  "parse_memory_to_mib (dec_of_nat 18014398509481984 @ ''G'') = Some 0"
  using parse_memory_gib [of 18014398509481984] by simp

text \<open>The serial device that vfkit names in its log is found in the line.\<close>

theorem pty_in_log_line:
  assumes "CHR '')'' \<notin> set dev" and "dev \<noteq> []"
  shows "pty_in_line (pty_log_line dev) = Some dev"
proof -
  have "str_index (pty_log_line dev) ''pty path: '' = Some 27"
    by (simp add: pty_log_line_def)
  moreover have "drop (27 + length ''pty path: '') (pty_log_line dev) = dev @ '')'' @ [CHR 0x22]"
    by (simp add: pty_log_line_def)
  ultimately show ?thesis
    using assms str_index_end [of "CHR '')''" dev "[CHR 0x22]"] by (simp add: pty_in_line_def Let_def)
qed

theorem pty_in_log_line_witness:
  "pty_in_line (pty_log_line ''/dev/ttys004'') = Some ''/dev/ttys004''"
  by (rule pty_in_log_line) simp_all

end
