(* ===== verification/Edge_Node.thy ===== *)
theory Edge_Node
  imports Edge_Disks Qemu Vfkit
begin

text \<open>
  The resource \<^verbatim>\<open>zedamigo_edge_node\<close> (\<^verbatim>\<open>edge_node_resource.go\<close>), over any hypervisor. A
  handler can end with errors and no new state, with diagnostics and a new state (or none, which
  removes the resource), or in the run-time panic of its hypervisor.
\<close>

datatype 'm crud = Failed diagnostics | Finished diagnostics "'m option" | Panicked

section \<open>The edge node\<close>

record edge_model =
  en_id :: "string tfval"
  en_name :: "string tfval"
  en_mem :: "string tfval"
  en_cpus :: "int tfval"
  en_serial_no :: "string tfval"
  en_nic0 :: "string tfval"
  en_serial_port_server :: "bool tfval"
  en_serial_port_socket :: "string tfval"
  en_legacy :: legacy_disks
  en_swtpm_sock :: "string tfval"
  en_disk_img :: "string tfval"
  en_disk1_img :: "string tfval"
  en_serial_console_log :: "string tfval"
  en_serial_type :: "string tfval"
  en_ovmf_vars_src :: "string tfval"
  en_ovmf_vars :: "string tfval"
  en_qmp_socket :: "string tfval"
  en_vm_running :: "bool tfval"
  en_ssh_port :: "int tfval"
  en_nic0_port_forwards :: "string tfval"
  en_extra_args :: "string tfval list tfval"
  en_cpu_pins :: "int tfval list tfval"
  en_use_gvproxy :: "bool tfval"
  en_disks :: "disk_block list"

abbreviation tf_bool :: "bool tfval \<Rightarrow> bool" where
  "tf_bool \<equiv> tf_value False"

definition edge_dir :: "'w provider_conf \<Rightarrow> string \<Rightarrow> string" where
  "edge_dir conf i = path_join [pc_lib_path conf, ''edge_nodes'', i]"

text \<open>\<^verbatim>\<open>ElementsAs\<close> into integers, and into strings from an attribute that is not null.\<close>

definition int_elements :: "'w controller \<Rightarrow> int tfval list \<Rightarrow> diagnostics + int list" where
  "int_elements ct es = (if list_all is_known es then Inr (map tf_int es) else Inl (ct_conv ct))"

definition list_strings :: "'w controller \<Rightarrow> string tfval list tfval \<Rightarrow> diagnostics + string list" where
  "list_strings ct v = (case v of TNull \<Rightarrow> Inr [] | TUnknown \<Rightarrow> Inl (ct_conv ct) | TKnown es \<Rightarrow> elements_as ct es)"

text \<open>The validation of the pins: their number is that of the vCPUs, and \<^verbatim>\<open>taskset\<close> was found.\<close>

definition edge_cpu_pins :: "'w controller \<Rightarrow> string option \<Rightarrow> edge_model \<Rightarrow> diagnostics + int list" where
  "edge_cpu_pins ct taskset data =
     (case en_cpu_pins data of
        TKnown es \<Rightarrow>
          (case int_elements ct es of
             Inl ds \<Rightarrow> Inl ds
           | Inr pins \<Rightarrow>
               (let cpus = (if en_cpus data \<noteq> TNull then tf_int (en_cpus data) else 4)
                in if int (length pins) \<noteq> cpus then
                     Inl [add_error ''CPU Pins Validation Error''
                            (''cpu_pins length ('' @ itoa (int (length pins)) @ '') must match cpus ('' @ itoa cpus @ '')'')]
                   else if taskset = Some [] then
                     Inl [add_error ''Missing taskset binary''
                            (''cpu_pins is configured but the 'taskset' command was not found on PATH. '' @
                             ''Install the util-linux package (e.g. 'apt install util-linux' or 'dnf install util-linux').'')]
                   else Inr pins))
      | _ \<Rightarrow> Inr [])"

definition custom_nic0 :: "edge_model \<Rightarrow> bool" where
  "custom_nic0 data \<longleftrightarrow> en_nic0 data \<noteq> TNull \<and> trim_space (tf_string (en_nic0 data)) \<noteq> []"

definition gvproxy_active :: "'w provider_conf \<Rightarrow> edge_model \<Rightarrow> bool" where
  "gvproxy_active conf data \<longleftrightarrow> (en_use_gvproxy data \<noteq> TNull \<and> tf_bool (en_use_gvproxy data)) \<or> pc_target_os conf = ''darwin''"

definition nic0_warnings :: "'w provider_conf \<Rightarrow> edge_model \<Rightarrow> diagnostics" where
  "nic0_warnings conf data =
     (if custom_nic0 data \<and> gvproxy_active conf data then
        [add_warning ''Custom nic0 ignored: gvproxy is active''
           (''The nic0 attribute is set to a custom value, but '' @
            (if pc_target_os conf = ''darwin'' then ''the macOS vfkit backend always uses gvproxy'' else ''use_gvproxy is set to true'') @
            '', so the custom nic0 value is ignored. gvproxy provides networking with a fixed set of host port '' @
            ''forwards (to guest TCP ports 22, 10022 and 10080) and does not use the QEMU '' @
            ''-nic configuration. To use the custom nic0, set use_gvproxy = false (not '' @
            ''supported on macOS); otherwise remove the nic0 attribute to silence this warning.'')]
      else [])"

text \<open>The configuration of the VM in the resource directory \<open>d\<close>.\<close>

definition edge_vm_config ::
    "'w provider_conf \<Rightarrow> edge_model \<Rightarrow> string \<Rightarrow> disk_config list \<Rightarrow> string list \<Rightarrow> int list \<Rightarrow> vm_config" where
  "edge_vm_config conf data d disks extra pins =
     (let to_socket = (pc_target_os conf \<noteq> ''darwin'' \<and> tf_bool (en_serial_port_server data))
      in \<lparr>vm_name = tf_string (en_name data), vm_id = tf_string (en_id data),
          vm_serial_no = tf_string (en_serial_no data), vm_resource_dir = d, vm_memory_mb = tf_string (en_mem data),
          vm_cpus = tf_int (en_cpus data), vm_disks = disks, vm_ovmf_code = [],
          vm_ovmf_vars_src = tf_string (en_ovmf_vars_src data),
          vm_nic0 = (if custom_nic0 data then tf_string (en_nic0 data) else slirp_nic0 (tf_int (en_ssh_port data))),
          vm_ssh_port = tf_int (en_ssh_port data), vm_swtpm_socket = tf_string (en_swtpm_sock data),
          vm_serial_to_file = (if to_socket then [] else path_join [d, ''serial_console_run.log'']),
          vm_serial_to_socket = (if to_socket then path_join [d, ''serial_port.socket''] else []),
          vm_serial_type = tf_string (en_serial_type data), vm_extra_args = extra, vm_cpu_pins = pins,
          vm_use_gvproxy = (en_use_gvproxy data \<noteq> TNull \<and> tf_bool (en_use_gvproxy data)),
          vm_installer_iso = [], vm_installer_raw = [], vm_is_installation = False\<rparr>)"

text \<open>The computed paths of the state, and those handed to \<^verbatim>\<open>Start\<close>.\<close>

definition edge_with_paths :: "vm_config \<Rightarrow> vm_paths \<Rightarrow> string \<Rightarrow> edge_model \<Rightarrow> edge_model" where
  "edge_with_paths vmc paths d data =
     (let data = data\<lparr>en_disk_img := TKnown (disk_image_path (vp_disk_images paths) 0),
                      en_disk1_img := TKnown (disk_image_path (vp_disk_images paths) 1),
                      en_ovmf_vars := TKnown (vp_ovmf_vars paths),
                      en_qmp_socket := TKnown (''unix:'' @ vp_qmp_socket paths @ '',server,nowait'')\<rparr>
      in if tf_bool (en_serial_port_server data)
         then data\<lparr>en_serial_port_socket := TKnown (vm_serial_to_socket vmc),
                   en_serial_console_log := TKnown (path_join [d, ''serial_console_run.log''])\<rparr>
         else data\<lparr>en_serial_port_socket := TKnown [], en_serial_console_log := TKnown (vm_serial_to_file vmc)\<rparr>)"

definition edge_start_paths :: "vm_paths \<Rightarrow> edge_model \<Rightarrow> vm_paths" where
  "edge_start_paths paths data =
     paths\<lparr>vp_serial_port_socket := (if tf_bool (en_serial_port_server data) then tf_string (en_serial_port_socket data)
                                     else vp_serial_port_socket paths),
           vp_serial_console_log := tf_string (en_serial_console_log data)\<rparr>"

text \<open>The tailer of the serial console.\<close>

definition edge_tailer :: "'w provider_conf \<Rightarrow> string \<Rightarrow> edge_model \<Rightarrow> ('w, unit) handler" where
  "edge_tailer conf d data =
     (let ex = pc_exec conf; t = ''Edge Node Resource Error'';
          start = (\<lambda>msg args. do {
            (res, err) \<leftarrow> ex_run_detached ex d (ex_self_path ex) args;
            case err of None \<Rightarrow> okE () | Some _ \<Rightarrow> failE (add_error t msg # result_diagnostics res) })
      in if pc_target_os conf = ''darwin'' then
           bindE (mapE (\<lambda>e. [add_error t (''Failed to read serial PTY path: '' @ err_msg e)])
                    (ex_read_file ex (path_join [d, ''serial.pty'']))) (\<lambda>bytes.
           start ''Failed to run PTY tailer''
             [''-socket-tailer'', ''-st.pty'', trim_space bytes, ''-st.out'', tf_string (en_serial_console_log data)])
         else if tf_bool (en_serial_port_server data) then
           start ''Failed to run socket tailer''
             [''-socket-tailer'', ''-st.connect'', tf_string (en_serial_port_socket data), ''-st.out'',
              tf_string (en_serial_console_log data)]
         else okE ())"

text \<open>The checks on the configuration, and the preparation of the disks in the directory \<open>d\<close>.\<close>

definition edge_configure ::
    "'w controller \<Rightarrow> 'w hypervisor \<Rightarrow> 'w provider_conf \<Rightarrow> edge_model \<Rightarrow> string \<Rightarrow> ('w, edge_model \<times> vm_config \<times> vm_paths) handler" where
  "edge_configure ct hv conf data d =
     bindE (State_Monad.return (list_strings ct (en_extra_args data))) (\<lambda>extra.
     bindE (State_Monad.return (edge_cpu_pins ct (hv_taskset hv) data)) (\<lambda>pins.
     bindE (whenE (pc_target_os conf = ''darwin'' \<and> tf_string (en_serial_type data) = ''serial'')
              (failE [add_error ''Invalid serial_type for macOS''
                 (''On macOS (vfkit), only serial_type = '' @ [CHR 0x22] @ ''virtio'' @ [CHR 0x22] @ '' is supported.'')])) (\<lambda>_.
     bindE (do {
         (disks, ds) \<leftarrow> build_disks ct (pc_exec conf) (en_disks data) (en_legacy data);
         if has_error ds then failE ds else okE disks }) (\<lambda>disks.
     let vmc = edge_vm_config conf data d disks extra pins
     in bindE (do {
          (paths, err) \<leftarrow> hv_prepare_disks hv vmc;
          case err of
            Some e \<Rightarrow> failE [add_error ''Edge Node Resource Error'' (''Failed to prepare disks: '' @ err_msg e)]
          | None \<Rightarrow> okE paths }) (\<lambda>paths.
        okE (edge_with_paths vmc paths d data, vmc, paths))))))"

text \<open>Everything before the VM starts: identifier, port, directory, checks, disks.\<close>

definition edge_prepare ::
    "'w controller \<Rightarrow> 'w hypervisor \<Rightarrow> 'w provider_conf \<Rightarrow> edge_model \<Rightarrow> ('w, edge_model \<times> vm_config \<times> vm_paths) handler" where
  "edge_prepare ct hv conf data =
     (let ex = pc_exec conf; t = ''Edge Node Resource Error''
      in bindE (mapE (\<lambda>e. [add_error t (''Unable to generate a new resource ID: '' @ err_msg e)]) (new_resource_id ct)) (\<lambda>i.
         bindE (do { n \<leftarrow> ct_uint32n ct 55534; okE n }) (\<lambda>n.
         let data = data\<lparr>en_id := TKnown i, en_ssh_port := TKnown (10000 + int n)\<rparr>; d = edge_dir conf i
         in bindE (orE (ex_mkdir_all ex d mode_700)
                (\<lambda>e. [add_error t (''Unable to create resource specific directory: '' @ err_msg e)])) (\<lambda>_.
            bindE (orE (create_tf_back_pointer ct ex d)
                (\<lambda>e. [add_error ''Disk Image Resource Error'' (''Unable to create resource specific file: '' @ err_msg e)])) (\<lambda>_.
            mapE (\<lambda>ds. nic0_warnings conf data @ ds) (edge_configure ct hv conf data d))))))"

text \<open>The last part of \<^verbatim>\<open>Create\<close>: the VM has started.\<close>

definition edge_finish ::
    "'w hypervisor \<Rightarrow> 'w provider_conf \<Rightarrow> diagnostics \<Rightarrow> edge_model \<Rightarrow> vm_config \<Rightarrow> ('w, edge_model crud) state" where
  "edge_finish hv conf warnings data vmc = do {
     pinned \<leftarrow> hv_apply_cpu_pins hv vmc;
     case pinned of
       None \<Rightarrow> State_Monad.return Panicked
     | Some (Some e) \<Rightarrow>
         State_Monad.return (Failed (warnings @ [add_error ''Edge Node Resource Error'' (''Failed to apply CPU pinning: '' @ err_msg e)]))
     | Some None \<Rightarrow> do {
         (running, err) \<leftarrow> hv_status hv (vm_resource_dir vmc);
         State_Monad.return (case err of
             Some e \<Rightarrow>
               Finished (warnings @ [add_warning ''Edge Node Resource Read Error'' (''Can't read VM status: '' @ err_msg e)]) None
           | None \<Rightarrow>
               (let data = data\<lparr>en_vm_running := TKnown running\<rparr>
                in Finished warnings (Some
                     (if \<not> custom_nic0 data \<or> gvproxy_active conf data
                      then data\<lparr>en_nic0_port_forwards :=
                                  TKnown (describe_port_forwards (pc_target conf) (tf_int (en_ssh_port data)))\<rparr>
                      else data\<lparr>en_ssh_port := TNull, en_nic0_port_forwards := TNull\<rparr>)))) } }"

definition edge_create ::
    "'w controller \<Rightarrow> 'w hypervisor \<Rightarrow> 'w provider_conf \<Rightarrow> edge_model \<Rightarrow> ('w, edge_model crud) state" where
  "edge_create ct hv conf data0 = do {
     r \<leftarrow> edge_prepare ct hv conf data0;
     case r of
       Inl ds \<Rightarrow> State_Monad.return (Failed ds)
     | Inr (data, vmc, paths) \<Rightarrow> do {
     let warnings = nic0_warnings conf data;
     s \<leftarrow> hv_start hv vmc (edge_start_paths paths data);
     case s of
       Some e \<Rightarrow> State_Monad.return (Failed (warnings @ [add_error ''Edge Node Resource Error'' (''Failed to start VM: '' @ err_msg e)]))
     | None \<Rightarrow> do {
     tl \<leftarrow> edge_tailer conf (vm_resource_dir vmc) data;
     case tl of
       Inl ds \<Rightarrow> State_Monad.return (Failed (warnings @ ds))
     | Inr _ \<Rightarrow> edge_finish hv conf warnings data vmc } } }"

definition edge_read :: "'w hypervisor \<Rightarrow> 'w provider_conf \<Rightarrow> edge_model \<Rightarrow> ('w, edge_model crud) state" where
  "edge_read hv conf data = do {
     (running, err) \<leftarrow> hv_status hv (edge_dir conf (tf_string (en_id data)));
     State_Monad.return (Finished
       (case err of
          Some e \<Rightarrow> [add_warning ''Edge Node Resource Read Warning''
             (''Treating this as a warning since most likely'' @ '' the corresponding VM instance is not running anymore.'' @
              '' Can't read VM status: '' @ err_msg e)]
        | None \<Rightarrow> [])
       (Some (data\<lparr>en_vm_running := TKnown running\<rparr>))) }"

definition edge_update :: "edge_model \<Rightarrow> ('w, edge_model crud) state" where
  "edge_update data = State_Monad.return (Failed [add_error ''Edge Node Resource Update Error'' ''Update is not supported.''])"

definition edge_delete :: "'w hypervisor \<Rightarrow> 'w provider_conf \<Rightarrow> edge_model \<Rightarrow> ('w, edge_model crud) state" where
  "edge_delete hv conf data = do {
     let d = edge_dir conf (tf_string (en_id data));
     stop \<leftarrow> (if tf_bool (en_vm_running data) then hv_stop hv d else State_Monad.return None);
     let warnings = (case stop of
        Some e \<Rightarrow> [add_warning ''Edge Node Resource Delete Warning''
                     (''Error stopping VM (may already be stopped): '' @ err_msg e)]
      | None \<Rightarrow> []);
     r \<leftarrow> ex_remove (pc_exec conf) d;
     State_Monad.return (case r of
         Some e \<Rightarrow> Failed (warnings @ [add_error ''Edge Node Resource Delete Error'' (''Can't delete resource directory: '' @ err_msg e)])
       | None \<Rightarrow> Finished warnings None) }"

section \<open>Lemmas\<close>

text \<open>Pins that pass the validation of \<^verbatim>\<open>Create\<close> match the vCPUs the hypervisor will use.\<close>

lemma edge_cpu_pins_match:
  assumes "edge_cpu_pins ct taskset data = Inr pins"
  shows "pins_match (edge_vm_config conf data d disks extra pins)"
proof (cases "en_cpu_pins data")
  case (TKnown es)
  then have len: "int (length pins) = (if en_cpus data \<noteq> TNull then tf_int (en_cpus data) else 4)"
    using assms by (auto simp: edge_cpu_pins_def Let_def split: sum.splits if_splits)
  show ?thesis
  proof (cases "en_cpus data")
    case (TKnown n)
    with len have n: "n = int (length pins)" by simp
    then show ?thesis using TKnown by (cases pins) (simp_all add: pins_match_def edge_vm_config_def Let_def)
  qed (use len in \<open>simp_all add: pins_match_def edge_vm_config_def Let_def\<close>)
qed (use assms in \<open>simp_all add: edge_cpu_pins_def pins_match_def edge_vm_config_def Let_def\<close>)

lemma edge_configure_result:
  assumes "run_state (edge_configure ct hv conf data d) w = (Inr (data', vmc, paths), w')"
  shows "\<exists>disks extra pins. vmc = edge_vm_config conf data d disks extra pins \<and>
           data' = edge_with_paths vmc paths d data \<and>
           edge_cpu_pins ct (hv_taskset hv) data = Inr pins \<and>
           (\<exists>ds v v'. run_state (build_disks ct (pc_exec conf) (en_disks data) (en_legacy data)) v = ((disks, ds), v') \<and>
              \<not> has_error ds) \<and>
           (\<exists>u u'. run_state (hv_prepare_disks hv vmc) u = ((paths, None), u'))"
  using assms
  by (auto simp: edge_configure_def Let_def whenE_def split: sum.splits prod.splits option.splits if_splits)

text \<open>What \<^verbatim>\<open>Create\<close> has decided when it starts the VM.\<close>

definition edge_identified :: "edge_model \<Rightarrow> string \<Rightarrow> nat \<Rightarrow> edge_model" where
  "edge_identified data i n = data\<lparr>en_id := TKnown i, en_ssh_port := TKnown (10000 + int n)\<rparr>"

lemma edge_prepare_result:
  assumes "run_state (edge_prepare ct hv conf data) w = (Inr (data', vmc, paths), w')"
  shows "\<exists>i n u u' v v'. run_state (ct_uint32n ct 55534) u = (n, u') \<and>
           run_state (edge_configure ct hv conf (edge_identified data i n) (edge_dir conf i)) v =
             (Inr (data', vmc, paths), v')"
proof -
  from assms show ?thesis
    unfolding edge_prepare_def edge_identified_def
    by (auto simp: Let_def split: sum.splits prod.splits option.splits)
qed

lemma edge_prepare_pins:
  assumes "run_state (edge_prepare ct hv conf data) w = (Inr (data', vmc, paths), w')"
  shows "pins_match vmc"
  using edge_prepare_result [OF assms] edge_configure_result edge_cpu_pins_match by metis

text \<open>The preparation of the disks is the last thing before the VM starts.\<close>

lemma edge_prepare_ends:
  assumes "run_state (edge_prepare ct hv conf data) w = (Inr (data', vmc, paths), w')"
  shows "\<exists>u. run_state (hv_prepare_disks hv vmc) u = ((paths, None), w')"
proof -
  obtain i n v where "run_state (edge_configure ct hv conf (edge_identified data i n) (edge_dir conf i)) v = (Inr (data', vmc, paths), w')"
    using assms unfolding edge_prepare_def edge_identified_def
    by (auto simp: Let_def split: sum.splits prod.splits option.splits)
  then show ?thesis
    by (auto simp: edge_configure_def Let_def whenE_def split: sum.splits prod.splits option.splits if_splits)
qed

context hypervisor_contract
begin

text \<open>Under the contract nothing \<^verbatim>\<open>Create\<close> does panics.\<close>

lemma create_no_panic: "fst (run_state (edge_create ct hv conf data) s) \<noteq> Panicked"
proof -
  have finish: "fst (run_state (edge_finish hv conf ws data' vmc) s') \<noteq> Panicked" if "pins_match vmc" for ws data' vmc s'
    using pins [OF that, of s']
    by (auto simp: edge_finish_def Let_def split: prod.splits option.splits)
  show ?thesis
    using edge_prepare_pins [of ct hv conf data s] finish
    by (auto simp: edge_create_def Let_def split: prod.splits sum.splits option.splits)
qed

text \<open>What \<^verbatim>\<open>Start\<close> is called with.\<close>

lemma prepared_disks:
  assumes "run_state (edge_prepare ct hv conf data) s = (Inr (data', vmc, paths), s')"
  shows "vm_disks vmc \<noteq> [] \<and> length (vp_disk_images paths) = length (vm_disks vmc) \<and>
         (\<forall>k < length (vm_disks vmc). disk_ok (vm_disks vmc ! k) \<and>
            vp_disk_images paths ! k = slot_image ext (vm_resource_dir vmc) k (vm_disks vmc ! k))"
proof -
  obtain i n v v' where conf: "run_state (edge_configure ct hv conf (edge_identified data i n) (edge_dir conf i)) v =
      (Inr (data', vmc, paths), v')"
    using edge_prepare_result [OF assms] by blast
  obtain disks extra pins ds u u' t t' where
    vmc: "vmc = edge_vm_config conf (edge_identified data i n) (edge_dir conf i) disks extra pins"
    and disks: "run_state (build_disks ct (pc_exec conf) (en_disks (edge_identified data i n)) (en_legacy (edge_identified data i n))) u = ((disks, ds), u')"
      "\<not> has_error ds"
    and paths: "run_state (hv_prepare_disks hv vmc) t = ((paths, None), t')"
    using edge_configure_result [OF conf] by blast
  have "vm_disks vmc = disks" by (simp add: vmc edge_vm_config_def Let_def)
  then show ?thesis using build_disks_ok [OF disks] prepared [OF paths] by simp
qed

text \<open>A state that \<^verbatim>\<open>Read\<close> marks as running came from a status without an error.\<close>

lemma read_running:
  assumes "run_state (edge_read hv conf data) s = (Finished ds (Some data'), s')" and "tf_bool (en_vm_running data')"
  shows "ds = []"
proof -
  obtain b err s1 where st: "run_state (hv_status hv (edge_dir conf (tf_string (en_id data)))) s = ((b, err), s1)"
    by (metis surj_pair)
  show ?thesis
  proof (cases err)
    case None
    with assms(1) st show ?thesis by (simp add: edge_read_def)
  next
    case (Some e)
    with st have "\<not> b" using status_false by blast
    with assms st show ?thesis by (auto simp: edge_read_def)
  qed
qed

end

lemma edge_prepare_port:
  assumes "run_state (edge_prepare ct hv conf data) w = (Inr (data', vmc, paths), w')"
  shows "\<exists>n u u'. run_state (ct_uint32n ct 55534) u = (n, u') \<and> vm_ssh_port vmc = 10000 + int n \<and>
           en_ssh_port data' = TKnown (10000 + int n)"
proof -
  obtain i n u u' v v' where n: "run_state (ct_uint32n ct 55534) u = (n, u')"
    and conf: "run_state (edge_configure ct hv conf (edge_identified data i n) (edge_dir conf i)) v =
      (Inr (data', vmc, paths), v')"
    using edge_prepare_result [OF assms] by blast
  from edge_configure_result [OF conf] have "vm_ssh_port vmc = 10000 + int n" "en_ssh_port data' = TKnown (10000 + int n)"
    by (auto simp: edge_vm_config_def edge_with_paths_def edge_identified_def Let_def)
  with n show ?thesis by blast
qed

lemma no_error_nic0_warnings: "\<not> has_error (nic0_warnings conf data)"
  by (simp add: nic0_warnings_def)

section \<open>A concrete edge node\<close>

definition sample_edge :: edge_model where
  "sample_edge =
     \<lparr>en_id = TUnknown, en_name = TKnown ''node'', en_mem = TKnown ''4G'', en_cpus = TKnown 2, en_serial_no = TKnown ''sn'',
      en_nic0 = TNull, en_serial_port_server = TKnown False, en_serial_port_socket = TUnknown,
      en_legacy = \<lparr>ld_disk_image_base = TKnown ''/base.qcow2'', ld_disk1_image_base = TNull, ld_disk_size_mb = TNull, ld_drive_if = TNull\<rparr>,
      en_swtpm_sock = TNull, en_disk_img = TUnknown, en_disk1_img = TUnknown, en_serial_console_log = TUnknown,
      en_serial_type = TKnown ''virtio'', en_ovmf_vars_src = TNull, en_ovmf_vars = TUnknown, en_qmp_socket = TUnknown,
      en_vm_running = TUnknown, en_ssh_port = TUnknown, en_nic0_port_forwards = TUnknown, en_extra_args = TNull,
      en_cpu_pins = TNull, en_use_gvproxy = TKnown False, en_disks = []\<rparr>"

text \<open>A hypervisor whose VM starts and then cannot be asked for its status.\<close>

definition mute_hypervisor :: "unit hypervisor" where
  "mute_hypervisor =
     \<lparr>hv_prepare_disks = (\<lambda>c. State_Monad.return (no_paths\<lparr>vp_disk_images := map dk_source (vm_disks c)\<rparr>, None)),
      hv_start = (\<lambda>c p. State_Monad.return None), hv_status = (\<lambda>d. State_Monad.return (False, Some (Err ''dial''))),
      hv_stop = (\<lambda>d. State_Monad.return None), hv_apply_cpu_pins = (\<lambda>c. State_Monad.return (Some None)),
      hv_taskset = None\<rparr>"

lemma sample_edge_create:
  "\<exists>ds s'. run_state (edge_create sample_controller mute_hypervisor (sample_conf idle_executor) sample_edge) () = (Finished ds None, s')"
  by (simp add: edge_create_def edge_prepare_def edge_configure_def edge_finish_def sample_edge_def mute_hypervisor_def
      new_resource_id_def create_tf_back_pointer_def list_strings_def edge_cpu_pins_def build_disks_def Let_def
      edge_with_paths_def edge_tailer_def sample_conf_def whenE_def)

lemma sample_edge_prepare:
  "\<exists>data' vmc paths w'. run_state (edge_prepare sample_controller mute_hypervisor (sample_conf idle_executor) sample_edge) () =
     (Inr (data', vmc, paths), w')"
  by (simp add: edge_prepare_def edge_configure_def sample_edge_def mute_hypervisor_def
      new_resource_id_def create_tf_back_pointer_def list_strings_def edge_cpu_pins_def build_disks_def Let_def
      edge_with_paths_def sample_conf_def whenE_def)

lemma sample_edge_prepare_qemu:
  "\<exists>data' vmc paths w' obs. run_state (edge_prepare sample_controller
      (qemu_hypervisor 1 sample_qemu ((sample_env idle_executor)\<lparr>he_exec := observed idle_executor\<rparr>))
      (sample_conf idle_executor) sample_edge) ((), []) = (Inr (data', vmc, paths), (w', obs)) \<and>
    map dk_source (vm_disks vmc) = [''/base.qcow2''] \<and> is_overlay (vm_disks vmc ! 0)"
  by (simp add: edge_prepare_def edge_configure_def sample_edge_def qemu_hypervisor_def qemu_prepare_disks_def
      qemu_prep_disk_def sample_env_def edge_vm_config_def legacy_disk_def overlay_image_def
      new_resource_id_def create_tf_back_pointer_def list_strings_def edge_cpu_pins_def build_disks_def Let_def
      edge_with_paths_def sample_conf_def whenE_def observed_def is_overlay_def)

section \<open>Properties\<close>

text \<open>C3: With the QEMU back end, creating an edge node never ends in a run-time panic: the pins that
  pass its checks are never indexed out of range.\<close>

theorem edge_create_no_panic:
  "fst (run_state (edge_create ct (qemu_hypervisor fuel h (E\<lparr>he_exec := traced ex\<rparr>)) conf data) s) \<noteq> Panicked"
  by (rule qemu.create_no_panic)

text \<open>C14: The QEMU back end starts the VM of an edge node with at least one disk, every disk valid, and in every slot the
  image of its disk: a device or a file that is attached directly is left where it is, and every other disk is an overlay whose
  image in the directory of the VM has been made, for this slot, by a call of qemu-img on the source of the disk, which
  succeeded.\<close>

theorem edge_prepared_disks:
  assumes "run_state (edge_prepare ct (qemu_hypervisor fuel h (E\<lparr>he_exec := observed ex\<rparr>)) conf data) s =
    (Inr (data', vmc, paths), (w', obs))"
  shows "vm_disks vmc \<noteq> [] \<and> length (vp_disk_images paths) = length (vm_disks vmc) \<and>
         (\<forall>k < length (vm_disks vmc). disk_ok (vm_disks vmc ! k) \<and>
            (if is_direct (vm_disks vmc ! k) then vp_disk_images paths ! k = dk_source (vm_disks vmc ! k)
             else vp_disk_images paths ! k = overlay_image (vm_resource_dir vmc) k ''.disk_img.qcow2'' \<and>
                (CRun (vm_resource_dir vmc) (qh_qemu_img_path h)
                   (qemu_img_create_args (vm_disks vmc ! k) (vp_disk_images paths ! k)), Okay) \<in> set obs))"
proof -
  have slots: "vm_disks vmc \<noteq> []" "length (vp_disk_images paths) = length (vm_disks vmc)"
    "k < length (vm_disks vmc) \<Longrightarrow> disk_ok (vm_disks vmc ! k) \<and>
       vp_disk_images paths ! k = slot_image ''.disk_img.qcow2'' (vm_resource_dir vmc) k (vm_disks vmc ! k)" for k
    using qemu.prepared_disks [OF assms] by blast+
  obtain u where prep: "run_state (qemu_prepare_disks h (observed ex) vmc) u = ((paths, None), (w', obs))"
    using edge_prepare_ends [OF assms] by (auto simp: qemu_hypervisor_def)
  have known: "is_direct disk \<or> is_overlay disk" if "disk_ok disk" for disk
    using that by (auto simp: disk_ok_def is_direct_def is_overlay_def split: if_splits)
  show ?thesis
    using slots qemu_overlays_made [OF prep] known by (auto simp: slot_image_def)
qed

theorem edge_prepared_disks_witness:
  "\<exists>data' vmc paths w' obs. run_state (edge_prepare sample_controller
      (qemu_hypervisor 1 sample_qemu ((sample_env idle_executor)\<lparr>he_exec := observed idle_executor\<rparr>))
      (sample_conf idle_executor) sample_edge) ((), []) = (Inr (data', vmc, paths), (w', obs)) \<and>
    map dk_source (vm_disks vmc) = [''/base.qcow2''] \<and>
    vp_disk_images paths = [overlay_image (vm_resource_dir vmc) 0 ''.disk_img.qcow2''] \<and>
    (CRun (vm_resource_dir vmc) (qh_qemu_img_path sample_qemu) (qemu_img_create_args (vm_disks vmc ! 0) (vp_disk_images paths ! 0)), Okay) \<in> set obs"
proof -
  obtain data' vmc paths w' obs where run: "run_state (edge_prepare sample_controller
      (qemu_hypervisor 1 sample_qemu ((sample_env idle_executor)\<lparr>he_exec := observed idle_executor\<rparr>))
      (sample_conf idle_executor) sample_edge) ((), []) = (Inr (data', vmc, paths), (w', obs))"
    and disk: "map dk_source (vm_disks vmc) = [''/base.qcow2'']" "is_overlay (vm_disks vmc ! 0)"
    using sample_edge_prepare_qemu by (elim exE conjE) (rule that)
  from disk have one: "length (vm_disks vmc) = 1" "\<not> is_direct (vm_disks vmc ! 0)"
    by (auto simp: is_direct_def is_overlay_def)
  from edge_prepared_disks [OF run] one have "length (vp_disk_images paths) = 1"
    "vp_disk_images paths ! 0 = overlay_image (vm_resource_dir vmc) 0 ''.disk_img.qcow2''"
    "(CRun (vm_resource_dir vmc) (qh_qemu_img_path sample_qemu) (qemu_img_create_args (vm_disks vmc ! 0) (vp_disk_images paths ! 0)), Okay) \<in> set obs"
    by auto
  moreover from this have "vp_disk_images paths = [overlay_image (vm_resource_dir vmc) 0 ''.disk_img.qcow2'']"
    by (cases "vp_disk_images paths") auto
  ultimately show ?thesis using run disk by (intro exI conjI) assumption+
qed

text \<open>The SSH port of an edge node and the host ports of its forwards are valid TCP ports outside the
  first ten thousand.\<close>

theorem edge_ports:
  assumes "run_state (edge_prepare ct hv conf data) w = (Inr (data', vmc, paths), w')"
    and "\<And>v. fst (run_state (ct_uint32n ct 55534) v) < 55534"
  shows "list_all (\<lambda>f. 10000 \<le> vm_ssh_port vmc + sf_host_offset f \<and> vm_ssh_port vmc + sf_host_offset f \<le> 65535) standard_forwards"
proof -
  obtain n u u' where n: "run_state (ct_uint32n ct 55534) u = (n, u')" "vm_ssh_port vmc = 10000 + int n"
    using edge_prepare_port [OF assms(1)] by blast
  then have "n < 55534" using assms(2) [of u] by simp
  then show ?thesis using n(2) by (simp add: standard_forwards_def)
qed

theorem edge_ports_witness:
  "\<exists>vmc :: vm_config. vm_ssh_port vmc = 10007 \<and>
     list_all (\<lambda>f. 10000 \<le> vm_ssh_port vmc + sf_host_offset f \<and> vm_ssh_port vmc + sf_host_offset f \<le> 65535) standard_forwards"
proof -
  obtain data' vmc paths w' where run: "run_state (edge_prepare sample_controller mute_hypervisor (sample_conf idle_executor) sample_edge) () =
     (Inr (data', vmc, paths), w')"
    using sample_edge_prepare by blast
  have "vm_ssh_port vmc = 10007" using edge_prepare_port [OF run] by auto
  moreover have R: "\<And>v :: unit. fst (run_state (ct_uint32n sample_controller 55534) v) < 55534" by simp
  ultimately show ?thesis using edge_ports [OF run R] by blast
qed

text \<open>When \<^verbatim>\<open>Create\<close> ends without an error and without a state, the VM was started: it runs, and Terraform
  does not know of it.\<close>

theorem edge_create_orphan:
  assumes "run_state (edge_create ct hv conf data) s = (Finished ds None, s')"
  shows "\<not> has_error ds \<and> (\<exists>vmc paths v v'. run_state (hv_start hv vmc paths) v = (None, v'))"
proof -
  have fin: "\<not> has_error ds'" if "run_state (edge_finish hv conf ws d c) v = (Finished ds' None, v')" "\<not> has_error ws" for ws d c v v' ds'
    using that by (auto simp: edge_finish_def Let_def split: prod.splits option.splits if_splits)
  have "\<exists>ws d c v v' u u' paths. run_state (edge_finish hv conf ws d c) v = (Finished ds None, v') \<and> \<not> has_error ws \<and>
      run_state (hv_start hv c paths) u = (None, u')"
    using assms no_error_nic0_warnings unfolding edge_create_def
    by (fastforce simp: Let_def split: prod.splits sum.splits option.splits)
  with fin show ?thesis by blast
qed

theorem edge_create_orphan_witness:
  "\<exists>ds. \<not> has_error ds \<and> (\<exists>vmc paths v v'. run_state (hv_start mute_hypervisor vmc paths) v = (None, v'))"
proof -
  obtain ds s' where "run_state (edge_create sample_controller mute_hypervisor (sample_conf idle_executor) sample_edge) () = (Finished ds None, s')"
    using sample_edge_create by blast
  from edge_create_orphan [OF this] show ?thesis by blast
qed

end
