(* ===== verification/Installed_Node.thy ===== *)
theory Installed_Node
  imports Edge_Node
begin

text \<open>
  The resource \<^verbatim>\<open>zedamigo_installed_edge_node\<close> (\<^verbatim>\<open>installed_edge_node_resource.go\<close>): run the
  installer in a VM to its end and read from its console log whether it succeeded.
\<close>

record installed_model =
  in_id :: "string tfval"
  in_name :: "string tfval"
  in_serial_no :: "string tfval"
  in_installer_iso :: "string tfval"
  in_installer_raw :: "string tfval"
  in_disk_img_base :: "string tfval"
  in_disk1_img_base :: "string tfval"
  in_swtpm_sock :: "string tfval"
  in_disk_img :: "string tfval"
  in_disk1_img :: "string tfval"
  in_serial_console_log :: "string tfval"
  in_ovmf_vars :: "string tfval"
  in_success :: "bool tfval"
  in_soft_serial :: "string tfval"
  in_serial_type :: "string tfval"
  in_extra_args :: "string tfval list tfval"
  in_disks :: "disk_block list"

definition installed_dir :: "'w provider_conf \<Rightarrow> string \<Rightarrow> string" where
  "installed_dir conf i = path_join [pc_lib_path conf, ''installed_nodes'', i]"

definition nic0_fmt_install :: string where
  "nic0_fmt_install = ''user,id=usernet0,ipv6=off,model=virtio''"

definition is_iso :: "installed_model \<Rightarrow> bool" where
  "is_iso data \<longleftrightarrow> in_installer_iso data \<noteq> TNull \<and> tf_string (in_installer_iso data) \<noteq> []"

definition is_raw :: "installed_model \<Rightarrow> bool" where
  "is_raw data \<longleftrightarrow> in_installer_raw data \<noteq> TNull \<and> tf_string (in_installer_raw data) \<noteq> []"

text \<open>The configuration of the installation VM; what is not set has the zero value.\<close>

definition installed_vm_config :: "installed_model \<Rightarrow> string \<Rightarrow> disk_config list \<Rightarrow> string list \<Rightarrow> vm_config" where
  "installed_vm_config data d disks extra =
     \<lparr>vm_name = tf_string (in_name data), vm_id = tf_string (in_id data), vm_serial_no = tf_string (in_serial_no data),
      vm_resource_dir = d, vm_memory_mb = [], vm_cpus = 0, vm_disks = disks, vm_ovmf_code = [],
      vm_ovmf_vars_src = [], vm_nic0 = nic0_fmt_install, vm_ssh_port = 0,
      vm_swtpm_socket = tf_string (in_swtpm_sock data),
      vm_serial_to_file = path_join [d, ''serial_console_install.log''], vm_serial_to_socket = [],
      vm_serial_type = tf_string (in_serial_type data), vm_extra_args = extra, vm_cpu_pins = [],
      vm_use_gvproxy = False,
      vm_installer_iso = (if is_iso data then tf_string (in_installer_iso data) else []),
      vm_installer_raw = (if is_iso data then [] else tf_string (in_installer_raw data)),
      vm_is_installation = True\<rparr>"

text \<open>The text of a line after the first occurrence of a marker.\<close>

definition after_marker :: "string \<Rightarrow> string \<Rightarrow> string option" where
  "after_marker marker line = map_option (\<lambda>i. drop (i + length marker) line) (str_index line marker)"

fun soft_serial_of :: "string list \<Rightarrow> string" where
  "soft_serial_of [] = []"
| "soft_serial_of (line # ls) =
     (case after_marker ''SOFT_SERIAL = '' line of Some t \<Rightarrow> trim_space t | None \<Rightarrow> soft_serial_of ls)"

definition read_installed_node :: "'w executor \<Rightarrow> string \<Rightarrow> ('w, goerr option \<times> bool \<times> string) state" where
  "read_installed_node ex path = do {
     r \<leftarrow> ex_read_file ex (path_join [path, ''serial_console_install.log'']);
     State_Monad.return (case r of
         Inl e \<Rightarrow> (Some (wrapf [] e), False, [])
       | Inr x \<Rightarrow> (None, str_contains x ''EVE-OS installation completed'', soft_serial_of (split_on (CHR 0x0A) x))) }"

definition installed_validate :: "installed_model \<Rightarrow> diagnostics" where
  "installed_validate data =
     (if \<not> is_iso data \<and> \<not> is_raw data then
        [add_error ''Missing Required Attribute''
           ''Either 'installer_iso' or 'installer_raw' must be set. Exactly one is required.'']
      else if is_iso data \<and> is_raw data then
        [add_error ''Invalid Attribute Combination''
           ''Cannot set both 'installer_iso' and 'installer_raw' at the same time. Please set only one.'']
      else [])"

definition installed_legacy :: "installed_model \<Rightarrow> legacy_disks" where
  "installed_legacy data =
     \<lparr>ld_disk_image_base = in_disk_img_base data, ld_disk1_image_base = in_disk1_img_base data,
      ld_disk_size_mb = TNull, ld_drive_if = TNull\<rparr>"

text \<open>The checks on the configuration, and the preparation and run of the VM in the directory \<open>d\<close>.\<close>

definition installed_run_vm ::
    "'w hypervisor \<Rightarrow> installed_model \<Rightarrow> string \<Rightarrow> vm_config \<Rightarrow> ('w, installed_model) handler" where
  "installed_run_vm hv data d vmc =
     (let t = ''Installed Edge Node Resource Error''
      in bindE (do {
          (paths, err) \<leftarrow> hv_prepare_disks hv vmc;
          case err of
            Some e \<Rightarrow> failE [add_error t (''Failed to prepare disks: '' @ err_msg e)]
          | None \<Rightarrow> okE paths }) (\<lambda>paths.
         bindE (orE (hv_start hv vmc paths) (\<lambda>e. [add_error t (''Failed to run installation VM: '' @ err_msg e)])) (\<lambda>_.
         okE (data\<lparr>in_ovmf_vars := TKnown (vp_ovmf_vars paths),
                   in_serial_console_log := TKnown (vm_serial_to_file vmc),
                   in_disk_img := TKnown (disk_image_path (vp_disk_images paths) 0),
                   in_disk1_img := TKnown (disk_image_path (vp_disk_images paths) 1)\<rparr>))))"

definition installed_install ::
    "'w controller \<Rightarrow> 'w hypervisor \<Rightarrow> 'w provider_conf \<Rightarrow> installed_model \<Rightarrow> string \<Rightarrow> ('w, installed_model) handler" where
  "installed_install ct hv conf data d =
     bindE (whenE (pc_target_os conf = ''darwin'' \<and> tf_string (in_serial_type data) = ''serial'')
              (failE [add_error ''Invalid serial_type for macOS''
                 (''On macOS (vfkit), only serial_type = '' @ [CHR 0x22] @ ''virtio'' @ [CHR 0x22] @ '' is supported.'')])) (\<lambda>_.
     bindE (State_Monad.return (list_strings ct (in_extra_args data))) (\<lambda>extra.
     bindE (do {
         (disks, ds) \<leftarrow> build_disks ct (pc_exec conf) (in_disks data) (installed_legacy data);
         if has_error ds then failE ds else okE disks }) (\<lambda>disks.
     installed_run_vm hv data d (installed_vm_config data d disks extra))))"

definition installed_prepare ::
    "'w controller \<Rightarrow> 'w provider_conf \<Rightarrow> ('w, string) handler" where
  "installed_prepare ct conf =
     (let ex = pc_exec conf; t = ''Installed Edge Node Resource Error''
      in bindE (mapE (\<lambda>e. [add_error t (''Unable to generate a new resource ID: '' @ err_msg e)]) (new_resource_id ct)) (\<lambda>i.
         bindE (orE (ex_mkdir_all ex (installed_dir conf i) mode_700)
                (\<lambda>e. [add_error t (''Unable to create resource specific directory: '' @ err_msg e)])) (\<lambda>_.
         bindE (orE (create_tf_back_pointer ct ex (installed_dir conf i))
                (\<lambda>e. [add_error ''Disk Image Resource Error'' (''Unable to create resource specific file: '' @ err_msg e)])) (\<lambda>_.
         okE i))))"

definition installed_create ::
    "'w controller \<Rightarrow> 'w hypervisor \<Rightarrow> 'w provider_conf \<Rightarrow> installed_model \<Rightarrow> ('w, installed_model crud) state" where
  "installed_create ct hv conf data0 =
     (if installed_validate data0 \<noteq> [] then State_Monad.return (Failed (installed_validate data0))
      else do {
        r \<leftarrow> bindE (installed_prepare ct conf) (\<lambda>i.
               bindE (installed_install ct hv conf (data0\<lparr>in_id := TKnown i\<rparr>) (installed_dir conf i)) (\<lambda>data. okE (i, data)));
        case r of
          Inl ds \<Rightarrow> State_Monad.return (Failed ds)
        | Inr (i, data) \<Rightarrow> do {
            (err, success, soft_serial) \<leftarrow> read_installed_node (pc_exec conf) (installed_dir conf i);
            State_Monad.return (Finished
              (case err of
                 Some e \<Rightarrow> [add_error ''Installed Edge Node Resource Read Error'' (''Can't read EVE-OS install log: '' @ err_msg e)]
               | None \<Rightarrow> [])
              (Some (data\<lparr>in_success := TKnown success, in_soft_serial := TKnown soft_serial\<rparr>))) } })"

definition installed_read :: "'w provider_conf \<Rightarrow> installed_model \<Rightarrow> ('w, installed_model crud) state" where
  "installed_read conf data = do {
     (err, success, soft_serial) \<leftarrow> read_installed_node (pc_exec conf) (installed_dir conf (tf_string (in_id data)));
     State_Monad.return (case err of
         Some e \<Rightarrow> Failed [add_error ''Installed Edge Node Resource Read Error'' (''Can't read EVE-OS install log: '' @ err_msg e)]
       | None \<Rightarrow> Finished [] (Some (data\<lparr>in_success := TKnown success, in_soft_serial := TKnown soft_serial\<rparr>))) }"

definition installed_update :: "installed_model \<Rightarrow> ('w, installed_model crud) state" where
  "installed_update data =
     State_Monad.return (Failed [add_error ''Installed Edge Node Resource Update Error'' ''Update is not supported.''])"

definition installed_delete :: "'w provider_conf \<Rightarrow> installed_model \<Rightarrow> ('w, installed_model crud) state" where
  "installed_delete conf data = do {
     r \<leftarrow> ex_remove (pc_exec conf) (installed_dir conf (tf_string (in_id data)));
     State_Monad.return (case r of
         Some e \<Rightarrow> Failed [add_error ''Installed Edge Node Resource Delete Error'' (''Can't delete resource directory: '' @ err_msg e)]
       | None \<Rightarrow> Finished [] None) }"

section \<open>Lemmas\<close>

text \<open>The installation VM has no pins to apply and boots from exactly one installer.\<close>

lemma installed_vm_config_installer:
  assumes "installed_validate data = []"
  shows "(vm_installer_iso (installed_vm_config data d disks extra) = []) \<noteq>
         (vm_installer_raw (installed_vm_config data d disks extra) = [])"
  using assms by (auto simp: installed_validate_def installed_vm_config_def is_iso_def is_raw_def split: if_splits)

text \<open>The marker is found where the text before it has no \<open>S\<close>.\<close>

lemma str_index_first: "c \<notin> set pre \<Longrightarrow> str_index (pre @ (c # m) @ t) (c # m) = Some (length pre)"
  by (induction pre) (auto split: option.splits)

lemma after_marker_line: "c \<notin> set pre \<Longrightarrow> after_marker (c # m) (pre @ (c # m) @ t) = Some t"
  unfolding after_marker_def by (subst str_index_first) simp_all

lemma after_marker_None: "after_marker m line = None \<longleftrightarrow> \<not> str_contains line m"
  by (simp add: after_marker_def str_index_None_iff)

text \<open>The first line with the marker gives the serial number, whatever comes later.\<close>

lemma soft_serial_of_line:
  assumes "\<forall>l \<in> set ls. \<not> str_contains l ''SOFT_SERIAL = ''" and "CHR ''S'' \<notin> set pre"
  shows "soft_serial_of (ls @ (pre @ ''SOFT_SERIAL = '' @ sn) # rest) = trim_space sn"
  using assms(1)
proof (induction ls)
  case Nil
  show ?case using after_marker_line [OF assms(2), of "''OFT_SERIAL = ''" sn] by simp
next
  case (Cons l ls)
  then have "after_marker ''SOFT_SERIAL = '' l = None" by (simp add: after_marker_None)
  with Cons show ?case by simp
qed

section \<open>Properties\<close>

text \<open>The soft serial that the resource reports is the trimmed rest of the first line of the console log
  with the marker, whatever the lines before and after it say.\<close>

theorem installed_serial_reported:
  assumes "run_state (ex_read_file ex (path_join [d, ''serial_console_install.log''])) w =
             (Inr (str_join (ls @ (pre @ ''SOFT_SERIAL = '' @ sn) # rest) [CHR 0x0A]), w')"
    and "\<forall>l \<in> set (ls @ (pre @ ''SOFT_SERIAL = '' @ sn) # rest). CHR 0x0A \<notin> set l"
    and "\<forall>l \<in> set ls. \<not> str_contains l ''SOFT_SERIAL = ''" and "CHR ''S'' \<notin> set pre"
  shows "\<exists>success. run_state (read_installed_node ex d) w = ((None, success, trim_space sn), w')"
proof -
  have "split_on (CHR 0x0A) (str_join (ls @ (pre @ ''SOFT_SERIAL = '' @ sn) # rest) [CHR 0x0A]) =
      ls @ (pre @ ''SOFT_SERIAL = '' @ sn) # rest"
    using assms(2) by (intro split_on_join) auto
  then show ?thesis
    using assms(1) soft_serial_of_line [OF assms(3,4), of sn rest] by (simp add: read_installed_node_def)
qed

theorem installed_serial_reported_witness:
  "\<exists>success. run_state (read_installed_node
     (idle_executor\<lparr>ex_read_file := \<lambda>p. State_Monad.return (Inr ([CHR 0x0A] @ ''> SOFT_SERIAL = A1 ''))\<rparr>) ''/d'') () =
     ((None, success, trim_space ''A1 ''), ())"
  using installed_serial_reported [of "idle_executor\<lparr>ex_read_file := \<lambda>p. State_Monad.return (Inr ([CHR 0x0A] @ ''> SOFT_SERIAL = A1 ''))\<rparr>"
      "''/d''" "()" "[[]]" "''> ''" "''A1 ''" "[]" "()"]
  by simp

end
