(* ===== verification/Wait_Until.thy ===== *)
theory Wait_Until
  imports Go_Duration
begin

text \<open>
  The resource \<^verbatim>\<open>zedamigo_wait_until\<close> (\<^verbatim>\<open>wait_until_resource.go\<close>): run a script on the target
  until it exits with 0 or a deadline passes. A channel wait (\<^verbatim>\<open>select\<close>) is one action of the
  environment, whose result says which channel was ready; what is only logged is left out.
\<close>

section \<open>One attempt\<close>

datatype probe_kind = ProbeReady | ProbeNotReady | ProbeExecError | ProbeHung

fun probe_kind_string :: "probe_kind \<Rightarrow> string" where
  "probe_kind_string ProbeReady = ''ready''"
| "probe_kind_string ProbeNotReady = ''not-ready''"
| "probe_kind_string ProbeExecError = ''exec-error''"
| "probe_kind_string ProbeHung = ''abandoned''"

definition classify_probe :: "result \<Rightarrow> probe_kind" where
  "classify_probe res =
     (if r_error res = None then ProbeReady else if r_exit_code res \<noteq> 0 then ProbeNotReady else ProbeExecError)"

text \<open>What the \<^verbatim>\<open>select\<close> of \<^verbatim>\<open>runProbe\<close> receives: a result, the end of the budget, or a cancellation.\<close>

datatype probe_event = Answered result | BudgetOver | Cancelled goerr

text \<open>
  The environment of a wait: the clock, \<^verbatim>\<open>RunBG\<close> with the \<^verbatim>\<open>select\<close> on its channel (log
  directory, argv, budget), and a timer against the context, which gives the error of the context.
\<close>

record 'w wait_env =
  wt_now :: "('w, int) state"
  wt_select :: "string \<Rightarrow> string list \<Rightarrow> int \<Rightarrow> ('w, probe_event) state"
  wt_timer :: "int \<Rightarrow> ('w, goerr option) state"

definition abandoned :: "string list \<Rightarrow> bool \<Rightarrow> result" where
  "abandoned argv timed_out = (new_result (hd argv) (tl argv))\<lparr>r_timed_out := timed_out\<rparr>"

definition run_probe ::
    "'w wait_env \<Rightarrow> string \<Rightarrow> string list \<Rightarrow> int \<Rightarrow> ('w, result \<times> probe_kind \<times> goerr option) state" where
  "run_probe W log_dir argv budget = do {
     ev \<leftarrow> wt_select W log_dir argv budget;
     State_Monad.return (case ev of
         Answered res \<Rightarrow> (res, classify_probe res, None)
       | BudgetOver \<Rightarrow> (abandoned argv True, ProbeHung, None)
       | Cancelled e \<Rightarrow> (abandoned argv False, ProbeHung, Some e)) }"

section \<open>The wait\<close>

record wait_params =
  wp_attempts_root :: string
  wp_argv :: "string list"
  wp_timeout :: int
  wp_interval :: int
  wp_attempt_timeout :: int
  wp_retain_logs :: int

record wait_outcome =
  wo_attempts :: nat
  wo_elapsed :: int
  wo_last :: result
  wo_last_kind :: probe_kind
  wo_last_logs :: string
  wo_last_completed :: result
  wo_last_completed_attempt :: nat

definition no_outcome :: wait_outcome where
  "no_outcome =
     \<lparr>wo_attempts = 0, wo_elapsed = 0, wo_last = new_result [] [], wo_last_kind = ProbeReady, wo_last_logs = [],
      wo_last_completed = new_result [] [], wo_last_completed_attempt = 0\<rparr>"

text \<open>\<^verbatim>\<open>%04d\<close>.\<close>

definition pad4 :: "nat \<Rightarrow> string" where
  "pad4 n = replicate (4 - length (dec_of_nat n)) (CHR ''0'') @ dec_of_nat n"

definition attempt_dir :: "wait_params \<Rightarrow> nat \<Rightarrow> string" where
  "attempt_dir p attempt = path_join [wp_attempts_root p, pad4 attempt]"

definition prune_attempt_logs ::
    "(string \<Rightarrow> ('w, goerr option) state) \<Rightarrow> string list \<Rightarrow> int \<Rightarrow> ('w, string list) state" where
  "prune_attempt_logs rm completed keep =
     (if keep \<le> 0 \<or> int (length completed) \<le> keep + 1 then State_Monad.return completed
      else do {
        _ \<leftarrow> rm (completed ! 1);
        State_Monad.return (take 1 completed @ drop 2 completed) })"

text \<open>The budget of an attempt, with \<open>remaining\<close> time left.\<close>

definition attempt_budget :: "wait_params \<Rightarrow> int \<Rightarrow> int" where
  "attempt_budget p remaining =
     (if 0 < wp_attempt_timeout p \<and> wp_attempt_timeout p < remaining then wp_attempt_timeout p else remaining)"

definition record_attempt ::
    "nat \<Rightarrow> int \<Rightarrow> string \<Rightarrow> result \<Rightarrow> probe_kind \<Rightarrow> wait_outcome \<Rightarrow> wait_outcome" where
  "record_attempt attempt elapsed log_dir res kind out =
     (let out = out\<lparr>wo_attempts := attempt, wo_elapsed := elapsed, wo_last := res, wo_last_kind := kind,
                    wo_last_logs := log_dir\<rparr>
      in if kind \<noteq> ProbeHung then out\<lparr>wo_last_completed := res, wo_last_completed_attempt := attempt\<rparr> else out)"

text \<open>Whether an attempt ends the wait, and with which error.\<close>

definition attempt_verdict :: "nat \<Rightarrow> result \<Rightarrow> probe_kind \<Rightarrow> goerr option \<Rightarrow> goerr option option" where
  "attempt_verdict attempt res kind err =
     (case err of
        Some e \<Rightarrow> Some (Some e)
      | None \<Rightarrow>
          if kind = ProbeReady then Some None
          else if kind = ProbeExecError \<and> attempt = 1 then
            (case r_error res of
               Some e \<Rightarrow> Some (Some (wrapf ''the script could not be run on the target: '' e))
             | None \<Rightarrow> None)
          else None)"

text \<open>The end of a round: sleep, but not past the deadline. The result is the error that ends the wait.\<close>

definition wait_sleep :: "'w wait_env \<Rightarrow> wait_params \<Rightarrow> int \<Rightarrow> ('w, goerr option) state" where
  "wait_sleep W p deadline = do {
     now \<leftarrow> wt_now W;
     let remaining = deadline - now;
     if remaining \<le> 0 then State_Monad.return (Some (Sentinel ErrWaitTimeout))
     else wt_timer W (if remaining < wp_interval p then remaining else wp_interval p) }"

text \<open>One iteration of the loop of \<^verbatim>\<open>waitForScript\<close>: it returns, or goes on with the outcome so far and
  the directories of the finished attempts.\<close>

definition wait_round ::
    "'w wait_env \<Rightarrow> (string \<Rightarrow> ('w, goerr option) state) \<Rightarrow> wait_params \<Rightarrow> int \<Rightarrow> nat \<Rightarrow> wait_outcome \<Rightarrow>
     string list \<Rightarrow> ('w, (wait_outcome \<times> goerr option) + (wait_outcome \<times> string list)) state" where
  "wait_round W rm p start attempt out completed = do {
     now \<leftarrow> wt_now W;
     if start + wp_timeout p - now \<le> 0 then do {
       t \<leftarrow> wt_now W;
       State_Monad.return (Inl (out\<lparr>wo_elapsed := t - start\<rparr>, Some (Sentinel ErrWaitTimeout))) }
     else do {
     (res, kind, err) \<leftarrow> run_probe W (attempt_dir p attempt) (wp_argv p) (attempt_budget p (start + wp_timeout p - now));
     t1 \<leftarrow> wt_now W;
     let out = record_attempt attempt (t1 - start) (attempt_dir p attempt) res kind out;
     case attempt_verdict attempt res kind err of
       Some e \<Rightarrow> State_Monad.return (Inl (out, e))
     | None \<Rightarrow> do {
     completed \<leftarrow> (if kind \<noteq> ProbeHung then prune_attempt_logs rm (completed @ [attempt_dir p attempt]) (wp_retain_logs p)
                   else State_Monad.return completed);
     stop \<leftarrow> wait_sleep W p (start + wp_timeout p);
     case stop of
       Some e \<Rightarrow> do { t2 \<leftarrow> wt_now W; State_Monad.return (Inl (out\<lparr>wo_elapsed := t2 - start\<rparr>, Some e)) }
     | None \<Rightarrow> State_Monad.return (Inr (out, completed)) } } }"

text \<open>The loop; \<open>None\<close> means that the fuel ran out.\<close>

fun wait_loop ::
    "nat \<Rightarrow> 'w wait_env \<Rightarrow> (string \<Rightarrow> ('w, goerr option) state) \<Rightarrow> wait_params \<Rightarrow> int \<Rightarrow> nat \<Rightarrow> wait_outcome \<Rightarrow>
     string list \<Rightarrow> ('w, (wait_outcome \<times> goerr option) option) state" where
  "wait_loop 0 W rm p start attempt out completed = State_Monad.return None"
| "wait_loop (Suc n) W rm p start attempt out completed = do {
     r \<leftarrow> wait_round W rm p start attempt out completed;
     case r of
       Inl fin \<Rightarrow> State_Monad.return (Some fin)
     | Inr (out, completed) \<Rightarrow> wait_loop n W rm p start (Suc attempt) out completed }"

definition wait_for_script ::
    "nat \<Rightarrow> 'w wait_env \<Rightarrow> 'w executor \<Rightarrow> wait_params \<Rightarrow> ('w, (wait_outcome \<times> goerr option) option) state" where
  "wait_for_script fuel W ex p = do {
     start \<leftarrow> wt_now W;
     wait_loop fuel W (ex_remove ex) p start 1 no_outcome [] }"

section \<open>Configuration\<close>

record wait_until_model =
  wu_id :: "string tfval"
  wu_script :: "string tfval"
  wu_interpreter :: "string tfval list tfval"
  wu_timeout :: "string tfval"
  wu_interval :: "string tfval"
  wu_attempt_timeout :: "string tfval"
  wu_triggers :: "(string \<times> string tfval) list tfval"
  wu_attempts :: "int tfval"
  wu_elapsed :: "string tfval"
  wu_stdout :: "string tfval"
  wu_stderr :: "string tfval"
  wu_script_path :: "string tfval"

definition wait_until_dir :: "'w provider_conf \<Rightarrow> string \<Rightarrow> string" where
  "wait_until_dir conf i = path_join [pc_lib_path conf, ''wait_until'', i]"

definition wait_until_argv :: "string list \<Rightarrow> string \<Rightarrow> string list" where
  "wait_until_argv interp script_path = interp @ [script_path]"

definition resolve_interpreter ::
    "'w controller \<Rightarrow> 'w provider_conf \<Rightarrow> string tfval list tfval \<Rightarrow> diagnostics + string list" where
  "resolve_interpreter ct conf l =
     (case l of
        TKnown es \<Rightarrow> elements_as ct es
      | _ \<Rightarrow> if pc_bash conf = [] then
               Inl [add_error ''Wait Until Resource Error''
                 (''The `bash` executable was not found on the target, so the default interpreter cannot be used. '' @
                  ''Install bash on the target or set an explicit `interpreter`.'')]
             else Inr [pc_bash conf])"

text \<open>The closure \<^verbatim>\<open>parse\<close> of \<^verbatim>\<open>waitUntilDurations\<close>: a duration, 0 with an error, or 0 for no text.\<close>

definition parse_wait_duration ::
    "(nat \<Rightarrow> nat \<Rightarrow> nat \<Rightarrow> nat) \<Rightarrow> string \<Rightarrow> string tfval \<Rightarrow> string \<Rightarrow> int \<times> diagnostics" where
  "parse_wait_duration fl name v fallback =
     (let s = (if is_known v then tf_string v else fallback); t = ''Wait Until Resource Error''
      in if s = [] then (0, [])
         else (case parse_duration fl s of
             Inl e \<Rightarrow> (0, [add_error t (''Can't parse `'' @ name @ ''` as a duration: '' @ err_msg e)])
           | Inr d \<Rightarrow>
               if d \<le> 0 then
                 (0, [add_error t (''`'' @ name @ ''` must be a positive duration, got '' @ duration_string d @ ''.'')])
               else (d, [])))"

definition wait_until_durations ::
    "(nat \<Rightarrow> nat \<Rightarrow> nat \<Rightarrow> nat) \<Rightarrow> wait_until_model \<Rightarrow> int \<times> int \<times> int \<times> diagnostics" where
  "wait_until_durations fl data =
     (let (timeout, d1) = parse_wait_duration fl ''timeout'' (wu_timeout data) ''30m'';
          (interval, d2) = parse_wait_duration fl ''interval'' (wu_interval data) ''15s'';
          (attempt_timeout, d3) = parse_wait_duration fl ''attempt_timeout'' (wu_attempt_timeout data) []
      in (timeout, interval, attempt_timeout, d1 @ d2 @ d3))"

section \<open>Reports\<close>

definition tail_string :: "string \<Rightarrow> int \<Rightarrow> string" where
  "tail_string s n =
     (if n \<le> 0 \<or> int (length s) \<le> n then s
      else ''...[truncated]...'' @ [CHR 0x0A] @ drop (length s - nat n) s)"

definition indent_lines :: "string \<Rightarrow> string" where
  "indent_lines s =
     str_join (map (\<lambda>l. ''  '' @ l) (split_on (CHR 0x0A) (trim_right_by (\<lambda>c. c = CHR 0x0A) s))) [CHR 0x0A]"

definition is_cancelled :: "goerr \<Rightarrow> bool" where
  "is_cancelled e \<longleftrightarrow> err_is e CtxCanceled \<or> err_is e CtxDeadlineExceeded"

definition wait_until_summary :: "goerr \<Rightarrow> string" where
  "wait_until_summary err =
     (if err_is err ErrWaitTimeout then ''Timed out waiting for the condition''
      else if is_cancelled err then ''Waiting for the condition was aborted''
      else ''The script could not be run on the target'')"

abbreviation nl :: string where "nl \<equiv> [CHR 0x0A]"

text \<open>The head of the report, its line on the last attempt, and the attempt whose output is shown.\<close>

definition wait_until_head :: "wait_outcome \<Rightarrow> wait_params \<Rightarrow> goerr \<Rightarrow> string" where
  "wait_until_head out p err =
     (if err_is err ErrWaitTimeout then ''The script did not exit 0 within '' @ duration_string (wp_timeout p) @ ''.'' @ nl
      else if is_cancelled err then
        ''The wait was cancelled after '' @ duration_string (duration_round (wo_elapsed out) sec) @ '': '' @ err_msg err @ nl
      else err_msg err @ nl) @
     ''attempts: '' @ dec_of_nat (wo_attempts out) @ '', elapsed: '' @
     duration_string (duration_round (wo_elapsed out) sec) @ '', interval: '' @ duration_string (wp_interval p) @ nl"

definition wait_until_last :: "wait_outcome \<Rightarrow> goerr \<Rightarrow> result \<times> string" where
  "wait_until_last out err =
     (case wo_last_kind out of
        ProbeHung \<Rightarrow>
          (let m = (if is_cancelled err then
                      ''last attempt: abandoned mid-run by the cancellation '' @
                      ''(the process may still be running on the target)''
                    else
                      ''last attempt: abandoned, it did not finish within its budget '' @
                      ''(the process may still be running on the target)'') @ nl
           in if 0 < wo_last_completed_attempt out then
                (wo_last_completed out,
                 m @ ''last completed attempt (#'' @ dec_of_nat (wo_last_completed_attempt out) @ '') exit code: '' @
                 itoa (r_exit_code (wo_last_completed out)) @ nl)
              else (wo_last out, m))
      | ProbeExecError \<Rightarrow>
          (wo_last out, ''last attempt: could not be run: '' @
             (case r_error (wo_last out) of None \<Rightarrow> ''%!s(<nil>)'' | Some e \<Rightarrow> err_msg e) @ nl)
      | _ \<Rightarrow> (wo_last out, ''last attempt exit code: '' @ itoa (r_exit_code (wo_last out)) @ nl))"

definition output_part :: "string \<Rightarrow> string \<Rightarrow> string" where
  "output_part name text =
     (if trim_space text \<noteq> [] then nl @ ''last '' @ name @ '':'' @ nl @ indent_lines (tail_string (trim_space text) 8192) @ nl
      else [])"

definition wait_until_err_diag :: "wait_outcome \<Rightarrow> wait_params \<Rightarrow> string \<Rightarrow> goerr \<Rightarrow> string \<times> string" where
  "wait_until_err_diag out p resource_dir err =
     (let (shown, line) = wait_until_last out err
      in (wait_until_summary err,
          wait_until_head out p err @ line @ output_part ''stderr'' (r_stderr shown) @ output_part ''stdout'' (r_stdout shown) @
          nl @ ''The script and the per-attempt output logs were kept on the target under:'' @ nl @ ''  '' @ resource_dir @ nl))"

definition summary_text :: "wait_params \<Rightarrow> wait_outcome \<Rightarrow> goerr option \<Rightarrow> string" where
  "summary_text p out wait_err =
     ''outcome:         '' @
       (case wait_err of
          None \<Rightarrow> ''succeeded''
        | Some e \<Rightarrow> if err_is e ErrWaitTimeout then ''timed out'' else if is_cancelled e then ''aborted'' else ''could not run'') @ nl @
     ''argv:            '' @ fmt_strings (wp_argv p) @ nl @
     ''timeout:         '' @ duration_string (wp_timeout p) @ nl @
     ''interval:        '' @ duration_string (wp_interval p) @ nl @
     ''attempt_timeout: '' @ (if 0 < wp_attempt_timeout p then duration_string (wp_attempt_timeout p) else ''(none)'') @ nl @
     ''attempts:        '' @ dec_of_nat (wo_attempts out) @ nl @
     ''elapsed:         '' @ duration_string (duration_round (wo_elapsed out) sec) @ nl @
     ''last attempt:    '' @ probe_kind_string (wo_last_kind out) @ '', exit code '' @ itoa (r_exit_code (wo_last out)) @ nl @
     ''last logs:       '' @ wo_last_logs out @ nl @
     (case wait_err of None \<Rightarrow> [] | Some e \<Rightarrow> ''error:           '' @ err_msg e @ nl)"

definition write_summary ::
    "'w executor \<Rightarrow> string \<Rightarrow> wait_params \<Rightarrow> wait_outcome \<Rightarrow> goerr option \<Rightarrow> ('w, unit) state" where
  "write_summary ex dir p out wait_err = do {
     _ \<leftarrow> ex_write_file ex (path_join [dir, ''summary.txt'']) (summary_text p out wait_err) mode_640;
     State_Monad.return () }"

section \<open>The handlers\<close>

text \<open>The directory and the script of a new resource; the parameters of its wait.\<close>

definition wait_until_files :: "'w controller \<Rightarrow> 'w provider_conf \<Rightarrow> wait_until_model \<Rightarrow> ('w, string) handler" where
  "wait_until_files ct conf data =
     (let ex = pc_exec conf; err = (\<lambda>msg e. [add_error ''Wait Until Resource Error'' (msg @ err_msg e)])
      in bindE (mapE (err ''Unable to generate a new resource ID: '') (new_resource_id ct)) (\<lambda>i.
         let d = wait_until_dir conf i; script_path = path_join [d, ''wait_until.sh'']
         in bindE (orE (ex_mkdir_all ex d mode_700) (err ''Unable to create resource specific directory: '')) (\<lambda>_.
            bindE (orE (create_tf_back_pointer ct ex d) (err ''Unable to create resource specific file: '')) (\<lambda>_.
            bindE (orE (ex_write_file ex script_path (tf_string (wu_script data)) mode_755)
                     (err ''Unable to write the script on the target: '')) (\<lambda>_.
            bindE (orE (ex_chmod ex script_path mode_755) (err ''Unable to make the script executable on the target: '')) (\<lambda>_.
            okE i))))))"

definition wait_until_params :: "string \<Rightarrow> string list \<Rightarrow> int \<times> int \<times> int \<Rightarrow> wait_params" where
  "wait_until_params d interp durations =
     (let (timeout, interval, attempt_timeout) = durations
      in \<lparr>wp_attempts_root = path_join [d, ''attempts''],
          wp_argv = wait_until_argv interp (path_join [d, ''wait_until.sh'']),
          wp_timeout = timeout, wp_interval = interval, wp_attempt_timeout = attempt_timeout, wp_retain_logs = 5\<rparr>)"

definition wait_until_saved :: "string \<Rightarrow> string \<Rightarrow> wait_outcome \<Rightarrow> wait_until_model \<Rightarrow> wait_until_model" where
  "wait_until_saved i d out data =
     data\<lparr>wu_id := TKnown i, wu_script_path := TKnown (path_join [d, ''wait_until.sh'']),
          wu_attempts := TKnown (int (wo_attempts out)),
          wu_elapsed := TKnown (duration_string (duration_round (wo_elapsed out) sec)),
          wu_stdout := TKnown (tail_string (r_stdout (wo_last out)) 8192),
          wu_stderr := TKnown (tail_string (r_stderr (wo_last out)) 8192)\<rparr>"

text \<open>\<^verbatim>\<open>Create\<close>: the outer \<open>None\<close> means that the fuel of the wait ran out.\<close>

definition wait_until_create ::
    "nat \<Rightarrow> (nat \<Rightarrow> nat \<Rightarrow> nat \<Rightarrow> nat) \<Rightarrow> 'w wait_env \<Rightarrow> 'w controller \<Rightarrow> 'w provider_conf \<Rightarrow> wait_until_model \<Rightarrow>
     ('w, (diagnostics + wait_until_model) option) state" where
  "wait_until_create fuel fl W ct conf data =
     (let (timeout, interval, attempt_timeout, ds) = wait_until_durations fl data
      in if ds \<noteq> [] then State_Monad.return (Some (Inl ds))
         else (case resolve_interpreter ct conf (wu_interpreter data) of
             Inl ds \<Rightarrow> State_Monad.return (Some (Inl ds))
           | Inr interp \<Rightarrow> do {
               r \<leftarrow> wait_until_files ct conf data;
               case r of
                 Inl ds \<Rightarrow> State_Monad.return (Some (Inl ds))
               | Inr i \<Rightarrow> do {
                   let d = wait_until_dir conf i;
                   let p = wait_until_params d interp (timeout, interval, attempt_timeout);
                   res \<leftarrow> wait_for_script fuel W (pc_exec conf) p;
                   case res of
                     None \<Rightarrow> State_Monad.return None
                   | Some (out, wait_err) \<Rightarrow> do {
                       _ \<leftarrow> write_summary (pc_exec conf) d p out wait_err;
                       State_Monad.return (Some (case wait_err of
                           Some e \<Rightarrow> Inl [case wait_until_err_diag out p d e of (s, t) \<Rightarrow> add_error s t]
                         | None \<Rightarrow> Inr (wait_until_saved i d out data))) } } }))"

definition wait_until_read :: "wait_until_model \<Rightarrow> ('w, wait_until_model) handler" where
  "wait_until_read data = okE data"

definition wait_until_update :: "wait_until_model \<Rightarrow> wait_until_model \<Rightarrow> ('w, wait_until_model) handler" where
  "wait_until_update plan st =
     okE (plan\<lparr>wu_id := wu_id st, wu_script_path := wu_script_path st, wu_attempts := wu_attempts st,
               wu_elapsed := wu_elapsed st, wu_stdout := wu_stdout st, wu_stderr := wu_stderr st\<rparr>)"

definition wait_until_delete :: "'w provider_conf \<Rightarrow> wait_until_model \<Rightarrow> ('w, unit) handler" where
  "wait_until_delete conf data =
     orE (ex_remove (pc_exec conf) (wait_until_dir conf (tf_string (wu_id data))))
       (\<lambda>e. [add_error ''Wait Until Resource Delete Error'' (''Can't delete WaitUntil resource directory: '' @ err_msg e)])"

section \<open>The wait ends\<close>

text \<open>A clock that the environment never turns back and that an expired timer advances.\<close>

definition wait_clock :: "('w \<Rightarrow> int) \<Rightarrow> 'w wait_env \<Rightarrow> (string \<Rightarrow> ('w, goerr option) state) \<Rightarrow> bool" where
  "wait_clock clk W rm \<longleftrightarrow>
     (\<forall>w. clk w \<le> fst (run_state (wt_now W) w) \<and> fst (run_state (wt_now W) w) \<le> clk (snd (run_state (wt_now W) w))) \<and>
     (\<forall>w d a b. clk w \<le> clk (snd (run_state (wt_select W d a b) w))) \<and>
     (\<forall>w t. fst (run_state (wt_timer W t) w) = None \<longrightarrow> clk w + t \<le> clk (snd (run_state (wt_timer W t) w))) \<and>
     (\<forall>w d. clk w \<le> clk (snd (run_state (rm d) w)))"

lemma wait_clockD:
  assumes "wait_clock clk W rm"
  shows "run_state (wt_now W) w = (t, w') \<Longrightarrow> clk w \<le> t \<and> t \<le> clk w'"
    and "run_state (wt_select W d a b) w = (ev, w') \<Longrightarrow> clk w \<le> clk w'"
    and "run_state (wt_timer W t) w = (None, w') \<Longrightarrow> clk w + t \<le> clk w'"
    and "run_state (rm d) w = (e, w') \<Longrightarrow> clk w \<le> clk w'"
  using assms unfolding wait_clock_def by (metis fst_conv snd_conv)+

lemma run_probe_clock:
  "wait_clock clk W rm \<Longrightarrow> run_state (run_probe W d a b) w = (r, w') \<Longrightarrow> clk w \<le> clk w'"
  by (auto simp: run_probe_def dest: wait_clockD(2) split: prod.splits)

lemma prune_clock:
  "wait_clock clk W rm \<Longrightarrow> run_state (prune_attempt_logs rm c k) w = (r, w') \<Longrightarrow> clk w \<le> clk w'"
  by (auto simp: prune_attempt_logs_def dest: wait_clockD(4) split: prod.splits if_splits)

lemma wait_sleep_clock:
  assumes "wait_clock clk W rm" and "run_state (wait_sleep W p deadline) w = (None, w')"
  shows "deadline \<le> clk w' \<or> clk w + wp_interval p \<le> clk w'"
proof -
  obtain t w1 where now: "run_state (wt_now W) w = (t, w1)" by (metis surj_pair)
  with assms(2) have timer: "run_state (wt_timer W (if deadline - t < wp_interval p then deadline - t else wp_interval p)) w1 = (None, w')"
    by (auto simp: wait_sleep_def Let_def split: if_splits)
  from wait_clockD(3) [OF assms(1) timer] wait_clockD(1) [OF assms(1) now] show ?thesis by (auto split: if_splits)
qed

text \<open>The three ways a round can go.\<close>

lemma wait_round_cases:
  assumes "run_state (wait_round W rm p start k out c) w = (r, w')"
  obtains (over) t w1 t2 where "run_state (wt_now W) w = (t, w1)" "start + wp_timeout p \<le> t"
      "run_state (wt_now W) w1 = (t2, w')" "r = Inl (out\<lparr>wo_elapsed := t2 - start\<rparr>, Some (Sentinel ErrWaitTimeout))"
    | (ended) t w1 res kind err w2 t1 e where "run_state (wt_now W) w = (t, w1)" "t < start + wp_timeout p"
      "run_state (run_probe W (attempt_dir p k) (wp_argv p) (attempt_budget p (start + wp_timeout p - t))) w1 = ((res, kind, err), w2)"
      "run_state (wt_now W) w2 = (t1, w')" "attempt_verdict k res kind err = Some e"
      "r = Inl (record_attempt k (t1 - start) (attempt_dir p k) res kind out, e)"
    | (more_rounds) t w1 res kind err w2 t1 w3 c' w4 stop w5 where "run_state (wt_now W) w = (t, w1)" "t < start + wp_timeout p"
      "run_state (run_probe W (attempt_dir p k) (wp_argv p) (attempt_budget p (start + wp_timeout p - t))) w1 = ((res, kind, err), w2)"
      "run_state (wt_now W) w2 = (t1, w3)" "attempt_verdict k res kind err = None"
      "run_state (if kind \<noteq> ProbeHung then prune_attempt_logs rm (c @ [attempt_dir p k]) (wp_retain_logs p)
                  else State_Monad.return c) w3 = (c', w4)"
      "run_state (wait_sleep W p (start + wp_timeout p)) w4 = (stop, w5)"
      "(stop = None \<and> w' = w5 \<and> r = Inr (record_attempt k (t1 - start) (attempt_dir p k) res kind out, c')) \<or>
       (\<exists>e t2 out'. stop = Some e \<and> run_state (wt_now W) w5 = (t2, w') \<and> r = Inl (out', Some e))"
proof -
  obtain t w1 where now: "run_state (wt_now W) w = (t, w1)" by (metis surj_pair)
  show ?thesis
  proof (cases "start + wp_timeout p - t \<le> 0")
    case True
    with now assms show ?thesis using over by (auto simp: wait_round_def split: prod.splits)
  next
    case False
    obtain res kind err w2 where probe:
      "run_state (run_probe W (attempt_dir p k) (wp_argv p) (attempt_budget p (start + wp_timeout p - t))) w1 = ((res, kind, err), w2)"
      by (metis surj_pair)
    obtain t1 w3 where now1: "run_state (wt_now W) w2 = (t1, w3)" by (metis surj_pair)
    show ?thesis
    proof (cases "attempt_verdict k res kind err")
      case None
      obtain c' w4 where kept: "run_state (if kind \<noteq> ProbeHung then prune_attempt_logs rm (c @ [attempt_dir p k]) (wp_retain_logs p)
          else State_Monad.return c) w3 = (c', w4)" by (metis surj_pair)
      obtain stop w5 where slept: "run_state (wait_sleep W p (start + wp_timeout p)) w4 = (stop, w5)" by (metis surj_pair)
      show ?thesis
        using assms now False probe now1 None kept slept
        by (intro more_rounds [OF now _ probe now1 None kept slept])
          (auto simp: wait_round_def Let_def split: option.splits prod.splits)
    next
      case (Some e)
      with assms now False probe now1 show ?thesis
        by (intro ended [OF now _ probe _ Some]) (auto simp: wait_round_def Let_def)
    qed
  qed
qed

lemma wait_loop_ends:
  assumes "wait_clock clk W rm" and "0 \<le> wp_interval p" and "start + wp_timeout p - clk w \<le> int n * wp_interval p"
  shows "fst (run_state (wait_loop (Suc n) W rm p start k out c) w) \<noteq> None"
  using assms(3)
proof (induction n arbitrary: w k out c)
  case 0
  obtain r w' where round: "run_state (wait_round W rm p start k out c) w = (r, w')" by (metis surj_pair)
  then have "\<exists>fin. r = Inl fin"
    by (cases rule: wait_round_cases) (use 0 wait_clockD(1) [OF assms(1)] in force)+
  with round show ?case by auto
next
  case (Suc n)
  obtain r w' where round: "run_state (wait_round W rm p start k out c) w = (r, w')" by (metis surj_pair)
  show ?case
  proof (cases r)
    case (Inr oc)
    from round Inr have "start + wp_timeout p - clk w' \<le> int n * wp_interval p"
    proof (cases rule: wait_round_cases)
      case (more_rounds t w1 res kind err w2 t1 w3 c' w4 stop w5)
      have "clk w \<le> clk w1" "clk w2 \<le> clk w3" using wait_clockD(1) [OF assms(1)] more_rounds(1,4) by force+
      moreover have "clk w1 \<le> clk w2" by (rule run_probe_clock [OF assms(1) more_rounds(3)])
      moreover have "clk w3 \<le> clk w4" using more_rounds(6) prune_clock [OF assms(1)] by (auto split: if_splits)
      moreover have "stop = None" "w' = w5" using more_rounds(8) Inr by auto
      then have "start + wp_timeout p \<le> clk w' \<or> clk w4 + wp_interval p \<le> clk w'"
        using wait_sleep_clock [OF assms(1)] more_rounds(7) by blast
      moreover have "0 \<le> int n * wp_interval p" using assms(2) by simp
      ultimately show ?thesis using Suc.prems by (auto simp: algebra_simps)
    qed auto
    from Suc.IH [OF this] round Inr show ?thesis by (cases oc) simp
  qed (use round in auto)
qed

section \<open>What a wait reports\<close>

text \<open>A wait succeeds only when the attempt it reports answered without an error.\<close>

lemma run_probe_ready:
  assumes "run_state (run_probe W d a b) w = ((res, ProbeReady, err), w')"
  shows "run_state (wt_select W d a b) w = (Answered res, w') \<and> r_error res = None"
  using assms by (auto simp: run_probe_def classify_probe_def split: prod.splits probe_event.splits if_splits)

lemma attempt_verdict_success: "attempt_verdict k res kind err = Some None \<Longrightarrow> kind = ProbeReady"
  by (auto simp: attempt_verdict_def split: option.splits if_splits)

lemma wait_loop_success:
  assumes "run_state (wait_loop n W rm p start k out c) w = (Some (out', None), w')"
  shows "wo_last_kind out' = ProbeReady \<and> wo_last_logs out' = attempt_dir p (wo_attempts out') \<and> k \<le> wo_attempts out' \<and>
         (\<exists>b v v'. 0 < b \<and> run_state (wt_select W (wo_last_logs out') (wp_argv p) b) v = (Answered (wo_last out'), v') \<and>
            r_error (wo_last out') = None)"
  using assms
proof (induction n arbitrary: k out c w)
  case (Suc n)
  obtain r w1 where round: "run_state (wait_round W rm p start k out c) w = (r, w1)" by (metis surj_pair)
  show ?case
  proof (cases r)
    case (Inl fin)
    with Suc.prems round have "fin = (out', None)" by simp
    with Inl have r: "r = Inl (out', None)" by simp
    from round show ?thesis
    proof (cases rule: wait_round_cases)
      case (ended t w1 res kind err w2 t1 e)
      with r have e: "e = None" "out' = record_attempt k (t1 - start) (attempt_dir p k) res kind out" by auto
      have "kind = ProbeReady" using ended(5) e(1) attempt_verdict_success by blast
      moreover have "0 < attempt_budget p (start + wp_timeout p - t)" using ended(2) by (auto simp: attempt_budget_def)
      ultimately show ?thesis using run_probe_ready ended(3) e(2) by (fastforce simp: record_attempt_def Let_def)
    qed (use r in auto)
  next
    case (Inr oc)
    then show ?thesis using Suc.prems round Suc.IH [of "Suc k"] by (cases oc) fastforce
  qed
qed simp

section \<open>What a wait leaves behind\<close>

text \<open>The same environment, logging the answers of the probes and the removals.\<close>

datatype wait_event = EvProbe string probe_event | EvRemove string

definition noting :: "('a \<Rightarrow> 'e list) \<Rightarrow> ('w, 'a) state \<Rightarrow> ('w \<times> 'e list, 'a) state" where
  "noting f m = State (\<lambda>(w, h). let (r, w') = run_state m w in (r, (w', h @ f r)))"

lemma run_noting [simp]: "run_state (noting f m) (w, h) = (let (r, w') = run_state m w in (r, (w', h @ f r)))"
  by (simp add: noting_def)

definition watched_wait :: "'w wait_env \<Rightarrow> ('w \<times> wait_event list) wait_env" where
  "watched_wait W =
     \<lparr>wt_now = noting (\<lambda>_. []) (wt_now W), wt_select = (\<lambda>d a b. noting (\<lambda>ev. [EvProbe d ev]) (wt_select W d a b)),
      wt_timer = (\<lambda>t. noting (\<lambda>_. []) (wt_timer W t))\<rparr>"

definition watched_remove :: "(string \<Rightarrow> ('w, goerr option) state) \<Rightarrow> string \<Rightarrow> ('w \<times> wait_event list, goerr option) state" where
  "watched_remove rm d = noting (\<lambda>_. [EvRemove d]) (rm d)"

text \<open>The directories of the attempts that answered, and the removed ones, in order.\<close>

fun answered_dirs :: "wait_event list \<Rightarrow> string list" where
  "answered_dirs [] = []"
| "answered_dirs (EvProbe d (Answered res) # es) = d # answered_dirs es"
| "answered_dirs (_ # es) = answered_dirs es"

fun removed_dirs :: "wait_event list \<Rightarrow> string list" where
  "removed_dirs [] = []"
| "removed_dirs (EvRemove d # es) = d # removed_dirs es"
| "removed_dirs (_ # es) = removed_dirs es"

lemma answered_dirs_append [simp]: "answered_dirs (es @ fs) = answered_dirs es @ answered_dirs fs"
  by (induction es rule: answered_dirs.induct) auto

lemma removed_dirs_append [simp]: "removed_dirs (es @ fs) = removed_dirs es @ removed_dirs fs"
  by (induction es rule: removed_dirs.induct) auto

lemma run_watched [simp]:
  "run_state (wt_now (watched_wait W)) (w, h) = (let (r, w') = run_state (wt_now W) w in (r, (w', h)))"
  "run_state (wt_select (watched_wait W) d a b) (w, h) = (let (r, w') = run_state (wt_select W d a b) w in (r, (w', h @ [EvProbe d r])))"
  "run_state (wt_timer (watched_wait W) t) (w, h) = (let (r, w') = run_state (wt_timer W t) w in (r, (w', h)))"
  "run_state (watched_remove rm d) (w, h) = (let (r, w') = run_state (rm d) w in (r, (w', h @ [EvRemove d])))"
  by (simp_all add: watched_wait_def watched_remove_def)

lemma run_probe_log:
  assumes "run_state (run_probe (watched_wait W) d a b) s = ((res, kind, err), s')"
  shows "\<exists>es. snd s' = snd s @ es \<and> removed_dirs es = [] \<and> answered_dirs es = (if kind \<noteq> ProbeHung then [d] else [])"
  using assms
  by (cases s) (auto simp: run_probe_def classify_probe_def split: prod.splits probe_event.splits if_splits)

text \<open>Pruning removes the oldest directory but the first, when there are too many, and keeps the others.\<close>

lemma prune_log:
  assumes "run_state (prune_attempt_logs (watched_remove rm) c keep) s = (c', s')" and "0 < keep"
    and "int (length c) \<le> keep + 2"
  shows "\<exists>es. snd s' = snd s @ es \<and> answered_dirs es = [] \<and> tl c = removed_dirs es @ tl c' \<and> take 1 c' = take 1 c \<and>
           int (length c') \<le> keep + 1"
proof (cases "int (length c) \<le> keep + 1")
  case True
  with assms show ?thesis by (intro exI [of _ "[]"]) (simp add: prune_attempt_logs_def)
next
  case False
  with assms(2) obtain x y xs where c: "c = x # y # xs" by (cases c; cases "tl c") auto
  with False assms show ?thesis
    by (cases s) (auto simp: prune_attempt_logs_def split: prod.splits)
qed

lemma run_snd_watched:
  "run_state (wt_now (watched_wait W)) s = (t, s') \<Longrightarrow> snd s' = snd s"
  "run_state (wait_sleep (watched_wait W) p deadline) s = (e, s') \<Longrightarrow> snd s' = snd s"
  by (cases s, auto simp: wait_sleep_def Let_def split: prod.splits if_splits)+

text \<open>\<open>c\<close> are the directories there were, \<open>dirs\<close> those that came: of all but the first the oldest were removed.\<close>

definition pruned :: "int \<Rightarrow> string list \<Rightarrow> wait_event list \<Rightarrow> bool" where
  "pruned keep c es \<longleftrightarrow> (\<exists>rest. tl (c @ answered_dirs es) = removed_dirs es @ rest \<and> int (length rest) \<le> keep + 1)"

lemma wait_round_log:
  assumes "run_state (wait_round (watched_wait W) (watched_remove rm) p start k out c) s = (r, s')"
    and "0 < wp_retain_logs p" and "int (length c) \<le> wp_retain_logs p + 1"
  shows "\<exists>es. snd s' = snd s @ es \<and> subseq (answered_dirs es) [attempt_dir p k] \<and>
           (case r of
              Inl _ \<Rightarrow> pruned (wp_retain_logs p) c es
            | Inr (_, c') \<Rightarrow> tl (c @ answered_dirs es) = removed_dirs es @ tl c' \<and> take 1 c' = take 1 (c @ answered_dirs es) \<and>
                int (length c') \<le> wp_retain_logs p + 1)"
  using assms(1)
proof (cases rule: wait_round_cases)
  case (over t w1 t2)
  then have "snd s' = snd s" using run_snd_watched(1) by metis
  with over(4) assms(2,3) show ?thesis by (intro exI [of _ "[]"]) (simp add: pruned_def)
next
  case (ended t w1 res kind err w2 t1 e)
  obtain es where es: "snd w2 = snd w1 @ es" "removed_dirs es = []"
    "answered_dirs es = (if kind \<noteq> ProbeHung then [attempt_dir p k] else [])"
    using run_probe_log [OF ended(3)] by blast
  have "int (length (tl (c @ answered_dirs es))) \<le> wp_retain_logs p + 1"
    using assms(2,3) es(3) by (cases c) auto
  with es ended(6) run_snd_watched(1) [OF ended(1)] run_snd_watched(1) [OF ended(4)] show ?thesis
    by (intro exI [of _ es]) (auto simp: pruned_def)
next
  case (more_rounds t w1 res kind err w2 t1 w3 c' w4 stop w5)
  obtain es where es: "snd w2 = snd w1 @ es" "removed_dirs es = []"
    "answered_dirs es = (if kind \<noteq> ProbeHung then [attempt_dir p k] else [])"
    using run_probe_log [OF more_rounds(3)] by blast
  have same: "snd w1 = snd s" "snd w3 = snd w2" "snd w5 = snd w4"
    using run_snd_watched(1) [OF more_rounds(1)] run_snd_watched(1) [OF more_rounds(4)] run_snd_watched(2) [OF more_rounds(7)]
    by auto
  have w': "snd s' = snd w5" using more_rounds(8) run_snd_watched(1) by metis
  have "\<exists>fs. snd w4 = snd w3 @ fs \<and> answered_dirs fs = [] \<and> tl (c @ answered_dirs es) = removed_dirs fs @ tl c' \<and>
      take 1 c' = take 1 (c @ answered_dirs es) \<and> int (length c') \<le> wp_retain_logs p + 1"
  proof (cases "kind = ProbeHung")
    case True
    with more_rounds(6) es assms(3) show ?thesis by (intro exI [of _ "[]"]) auto
  next
    case False
    with more_rounds(6) have "run_state (prune_attempt_logs (watched_remove rm) (c @ answered_dirs es) (wp_retain_logs p)) w3 = (c', w4)"
      using es(3) by simp
    from prune_log [OF this assms(2)] assms(3) es(3) False show ?thesis by simp
  qed
  then obtain fs where fs: "snd w4 = snd w3 @ fs" "answered_dirs fs = []" "tl (c @ answered_dirs es) = removed_dirs fs @ tl c'"
    "take 1 c' = take 1 (c @ answered_dirs es)" "int (length c') \<le> wp_retain_logs p + 1"
    by blast
  have "snd s' = snd s @ (es @ fs)" using es(1) fs(1) same w' by simp
  moreover have "int (length (tl c')) \<le> wp_retain_logs p + 1" using fs(5) by simp
  ultimately show ?thesis using more_rounds(8) es fs
    by (intro exI [of _ "es @ fs"]) (auto simp: pruned_def)
qed

lemma tl_append_take: "take 1 a = take 1 b \<Longrightarrow> tl b = r @ tl a \<Longrightarrow> tl (b @ x) = r @ tl (a @ x)"
  by (cases a; cases b) auto

lemma wait_loop_log:
  assumes "run_state (wait_loop n (watched_wait W) (watched_remove rm) p start k out c) s = (Some fin, s')"
    and "0 < wp_retain_logs p" and "int (length c) \<le> wp_retain_logs p + 1"
  shows "\<exists>es. snd s' = snd s @ es \<and> subseq (answered_dirs es) (map (attempt_dir p) [k..<k + n]) \<and> pruned (wp_retain_logs p) c es"
  using assms(1,3)
proof (induction n arbitrary: k out c s)
  case (Suc n)
  obtain r s1 where round: "run_state (wait_round (watched_wait W) (watched_remove rm) p start k out c) s = (r, s1)"
    by (metis surj_pair)
  obtain es where es: "snd s1 = snd s @ es" "subseq (answered_dirs es) [attempt_dir p k]"
    "case r of
        Inl _ \<Rightarrow> pruned (wp_retain_logs p) c es
      | Inr (_, c') \<Rightarrow> tl (c @ answered_dirs es) = removed_dirs es @ tl c' \<and> take 1 c' = take 1 (c @ answered_dirs es) \<and>
          int (length c') \<le> wp_retain_logs p + 1"
    using wait_round_log [OF round assms(2) Suc.prems(2)] by blast
  have dirs: "map (attempt_dir p) [k..<k + Suc n] = [attempt_dir p k] @ map (attempt_dir p) [Suc k..<Suc k + n]"
    by (simp add: upt_conv_Cons del: upt_Suc)
  show ?case
  proof (cases r)
    case (Inl fin')
    with es(2) have "subseq (answered_dirs es) (map (attempt_dir p) [k..<k + Suc n])"
      unfolding dirs by (intro subseq_rev_drop_many)
    with Inl Suc.prems round es show ?thesis by auto
  next
    case (Inr oc)
    then obtain out1 c1 where r: "r = Inr (out1, c1)" by (cases oc) simp
    with es(3) have c1: "tl (c @ answered_dirs es) = removed_dirs es @ tl c1" "take 1 c1 = take 1 (c @ answered_dirs es)"
      "int (length c1) \<le> wp_retain_logs p + 1" by simp_all
    from Suc.prems round r have "run_state (wait_loop n (watched_wait W) (watched_remove rm) p start (Suc k) out1 c1) s1 = (Some fin, s')"
      by simp
    from Suc.IH [OF this c1(3)] obtain fs where fs: "snd s' = snd s1 @ fs"
      "subseq (answered_dirs fs) (map (attempt_dir p) [Suc k..<Suc k + n])" "pruned (wp_retain_logs p) c1 fs" by blast
    have "subseq (answered_dirs (es @ fs)) (map (attempt_dir p) [k..<k + Suc n])"
      unfolding dirs answered_dirs_append by (rule list_emb_append_mono [OF es(2) fs(2)])
    moreover have "pruned (wp_retain_logs p) c (es @ fs)"
      using fs(3) tl_append_take [OF c1(2,1), of "answered_dirs fs"] by (auto simp: pruned_def)
    ultimately show ?thesis using es(1) fs(1) by (intro exI [of _ "es @ fs"]) simp
  qed
qed simp

section \<open>The durations of the configuration\<close>

lemma validate_duration_known:
  "validate_duration fl (TKnown s) = [] \<longleftrightarrow> (\<exists>d > 0. parse_duration fl s = Inr d)"
  by (auto simp: validate_duration_def split: sum.splits)

lemma parse_duration_empty: "parse_duration fl [] \<noteq> Inr d"
  by (simp add: parse_duration_def)

lemma parse_wait_valid:
  assumes "validate_duration fl v = []" and "parse_wait_duration fl name TNull fallback = (d0, [])" and "0 \<le> d0"
  shows "\<exists>d. parse_wait_duration fl name v fallback = (d, []) \<and> 0 \<le> d \<and> (0 < d0 \<longrightarrow> 0 < d)"
proof (cases v)
  case (TKnown s)
  with assms(1) obtain d where "0 < d" "parse_duration fl s = Inr d" by (auto simp: validate_duration_known)
  with TKnown parse_duration_empty [of fl d] show ?thesis by (auto simp: parse_wait_duration_def Let_def)
qed (use assms in \<open>simp_all add: parse_wait_duration_def\<close>)

text \<open>The default durations read as they look.\<close>

lemma parse_single_unit:
  assumes "v \<le> 2 ^ 63 div 3600000000000" and "unit_of [c] = Some un" and "\<not> unit_end c" and "0 < v" and "v * un < 2 ^ 63"
  shows "parse_duration fl (dec_of_nat v @ [c]) = Inr (int (v * un))"
proof -
  obtain a b where ab: "dec_of_nat v = a # b" by (cases "dec_of_nat v") auto
  have "is_digit a" using set_dec_of_nat [of a v] ab by simp
  then have a: "a \<noteq> CHR ''-''" "a \<noteq> CHR ''+''" by (auto simp: is_digit_code)
  have "parse_duration_parts fl o' (length (dec_of_nat v @ [c])) 0 (dec_of_nat v @ [c]) = Inr (v * un)" for o'
    using parse_parts_step [of v c "[]" "[]" "length (dec_of_nat v @ [c])" un 0 fl o'] assms by auto
  then show ?thesis using a ab assms(5) by (auto simp: parse_duration_def Let_def)
qed

lemma parse_wait_defaults:
  "parse_wait_duration fl ''timeout'' TNull ''30m'' = (30 * minute, [])"
  "parse_wait_duration fl ''interval'' TNull ''15s'' = (15 * sec, [])"
  "parse_wait_duration fl ''attempt_timeout'' TNull [] = (0, [])"
proof -
  have dec: "dec_of_nat 30 = ''30''" "dec_of_nat 15 = ''15''" by code_simp+
  have "unit_of ''m'' = Some 60000000000" "unit_of ''s'' = Some 1000000000" by (simp_all add: unit_of_def)
  moreover have "\<not> unit_end (CHR ''m'')" "\<not> unit_end (CHR ''s'')" by (simp_all add: unit_end_def is_digit_code)
  ultimately show "parse_wait_duration fl ''timeout'' TNull ''30m'' = (30 * minute, [])"
    "parse_wait_duration fl ''interval'' TNull ''15s'' = (15 * sec, [])"
    using parse_single_unit [of 30 "CHR ''m''" 60000000000 fl] parse_single_unit [of 15 "CHR ''s''" 1000000000 fl]
    by (simp_all add: parse_wait_duration_def dec)
qed (simp add: parse_wait_duration_def)

section \<open>A concrete wait\<close>

text \<open>The state is the time; the script answers at once with a fixed result.\<close>

definition sample_wait :: "result \<Rightarrow> int wait_env" where
  "sample_wait res =
     \<lparr>wt_now = State (\<lambda>t. (t, t)), wt_select = (\<lambda>d a b. State_Monad.return (Answered res)),
      wt_timer = (\<lambda>d. State (\<lambda>t. (None, t + d)))\<rparr>"

definition answer_ok :: "string \<Rightarrow> result" where
  "answer_ok out = (new_result ''bash'' [''wait_until.sh''])\<lparr>r_stdout := out\<rparr>"

definition answer_no :: result where
  "answer_no = (new_result ''bash'' [''wait_until.sh''])\<lparr>r_exit_code := 1, r_error := Some (Err ''exit status 1'')\<rparr>"

definition sample_wait_model :: wait_until_model where
  "sample_wait_model =
     \<lparr>wu_id = TUnknown, wu_script = TKnown ''true'', wu_interpreter = TNull, wu_timeout = TNull, wu_interval = TNull,
      wu_attempt_timeout = TNull, wu_triggers = TNull, wu_attempts = TUnknown, wu_elapsed = TUnknown, wu_stdout = TUnknown,
      wu_stderr = TUnknown, wu_script_path = TUnknown\<rparr>"

definition sample_params :: wait_params where
  "sample_params =
     \<lparr>wp_attempts_root = ''/lib/a'', wp_argv = [''bash'', ''wait_until.sh''], wp_timeout = 3, wp_interval = 1,
      wp_attempt_timeout = 0, wp_retain_logs = 1\<rparr>"

lemma sample_create:
  "\<exists>data' w'. run_state (wait_until_create 2 (\<lambda>f k u. 0) (sample_wait (answer_ok ''up'')) sample_controller
     (sample_conf idle_executor) sample_wait_model) 0 = (Some (Inr data'), w')"
  using parse_wait_defaults
  by (simp add: wait_until_create_def wait_until_durations_def sample_wait_model_def resolve_interpreter_def
      wait_until_files_def new_resource_id_def create_tf_back_pointer_def Let_def wait_for_script_def sample_wait_def
      wait_until_params_def numeral_2_eq_2 wait_round_def run_probe_def classify_probe_def answer_ok_def new_result_def
      attempt_verdict_def write_summary_def)

lemma sample_logs:
  "\<exists>fin w' es. run_state (wait_loop 5 (watched_wait (sample_wait answer_no))
     (watched_remove (\<lambda>d. State_Monad.return None)) sample_params 0 1 no_outcome []) (0, []) = (Some fin, (w', es)) \<and>
     answered_dirs es = map (attempt_dir sample_params) [1, 2, 3] \<and> removed_dirs es = [attempt_dir sample_params 2]"
  by (simp add: numeral_eq_Suc wait_round_def run_probe_def classify_probe_def sample_wait_def sample_params_def
      answer_no_def new_result_def Let_def attempt_verdict_def prune_attempt_logs_def wait_sleep_def)

section \<open>Properties\<close>

text \<open>C1: 
  C1: A \<^verbatim>\<open>wait_until\<close> resource is recorded only when an attempt of its script, run with the
  interpreter the configuration resolves to and with a positive budget, exited without an error, and the recorded output is the
  tail of the output of that attempt.
\<close>

theorem wait_until_create_success:
  assumes "run_state (wait_until_create fuel fl W ct conf data) w = (Some (Inr data'), w')"
  shows "\<exists>i interp out b v v'.
           resolve_interpreter ct conf (wu_interpreter data) = Inr interp \<and> 0 < b \<and>
           run_state (wt_select W (wo_last_logs out)
             (wait_until_argv interp (path_join [wait_until_dir conf i, ''wait_until.sh''])) b) v = (Answered (wo_last out), v') \<and>
           r_error (wo_last out) = None \<and> data' = wait_until_saved i (wait_until_dir conf i) out data"
proof -
  from assms obtain timeout interval attempt_timeout interp i p out v v' where
    interp: "resolve_interpreter ct conf (wu_interpreter data) = Inr interp"
    and p: "p = wait_until_params (wait_until_dir conf i) interp (timeout, interval, attempt_timeout)"
    and run: "run_state (wait_for_script fuel W (pc_exec conf) p) v = (Some (out, None), v')"
    and data': "data' = wait_until_saved i (wait_until_dir conf i) out data"
    by (auto simp: wait_until_create_def Let_def split: prod.splits sum.splits option.splits if_splits)
  from run obtain start v1 where "run_state (wait_loop fuel W (ex_remove (pc_exec conf)) p start 1 no_outcome []) v1 = (Some (out, None), v')"
    by (auto simp: wait_for_script_def split: prod.splits)
  then obtain b v v' where "0 < b" "r_error (wo_last out) = None"
    "run_state (wt_select W (wo_last_logs out) (wp_argv p) b) v = (Answered (wo_last out), v')"
    by (auto dest: wait_loop_success)
  moreover have "wp_argv p = wait_until_argv interp (path_join [wait_until_dir conf i, ''wait_until.sh''])"
    by (simp add: p wait_until_params_def)
  ultimately show ?thesis using interp data' by metis
qed

theorem wait_until_create_success_witness:
  "\<exists>data' w' i interp out.
     run_state (wait_until_create 2 (\<lambda>f k u. 0) (sample_wait (answer_ok ''up'')) sample_controller
       (sample_conf idle_executor) sample_wait_model) 0 = (Some (Inr data'), w') \<and>
     resolve_interpreter sample_controller (sample_conf (idle_executor :: int executor)) (wu_interpreter sample_wait_model) = Inr interp \<and>
     r_error (wo_last out) = None \<and>
     data' = wait_until_saved i (wait_until_dir (sample_conf (idle_executor :: int executor)) i) out sample_wait_model"
proof -
  obtain data' w' where run: "run_state (wait_until_create 2 (\<lambda>f k u. 0) (sample_wait (answer_ok ''up'')) sample_controller
      (sample_conf idle_executor) sample_wait_model) 0 = (Some (Inr data'), w')"
    using sample_create by blast
  obtain i interp out where
    "resolve_interpreter sample_controller (sample_conf (idle_executor :: int executor)) (wu_interpreter sample_wait_model) = Inr interp"
    "r_error (wo_last out) = None"
    "data' = wait_until_saved i (wait_until_dir (sample_conf (idle_executor :: int executor)) i) out sample_wait_model"
    using wait_until_create_success [OF run] by blast
  with run show ?thesis by blast
qed

text \<open>C2: A wait returns: with a clock that never goes back and that an expired timer advances, one
  round per interval of the timeout, and one more, is enough fuel.\<close>

theorem wait_for_script_returns:
  assumes "wait_clock clk W (ex_remove ex)" and "0 \<le> wp_interval p" and "wp_timeout p \<le> int n * wp_interval p"
  shows "fst (run_state (wait_for_script (Suc n) W ex p) w) \<noteq> None"
proof -
  obtain start w1 where now: "run_state (wt_now W) w = (start, w1)" by (metis surj_pair)
  then have "start \<le> clk w1" using wait_clockD(1) [OF assms(1)] by blast
  with assms(3) have "start + wp_timeout p - clk w1 \<le> int n * wp_interval p" by simp
  from wait_loop_ends [OF assms(1,2) this] now show ?thesis by (simp add: wait_for_script_def)
qed

theorem wait_for_script_returns_witness:
  "fst (run_state (wait_for_script (Suc 3) (sample_wait answer_no) idle_executor sample_params) 0) \<noteq> None"
  by (rule wait_for_script_returns [of "\<lambda>t. t"])
    (simp_all add: wait_clock_def sample_wait_def sample_params_def)



text \<open>Durations that the plan-time validator accepts are accepted when the resource is created: no
  diagnostics, a positive timeout and interval, and no negative attempt timeout.\<close>

theorem wait_until_durations_valid:
  assumes "validate_duration fl (wu_timeout data) = []" and "validate_duration fl (wu_interval data) = []"
    and "validate_duration fl (wu_attempt_timeout data) = []"
  shows "\<exists>timeout interval attempt_timeout.
           wait_until_durations fl data = (timeout, interval, attempt_timeout, []) \<and>
           0 < timeout \<and> 0 < interval \<and> 0 \<le> attempt_timeout"
  using parse_wait_valid [OF assms(1) parse_wait_defaults(1)] parse_wait_valid [OF assms(2) parse_wait_defaults(2)]
    parse_wait_valid [OF assms(3) parse_wait_defaults(3)]
  by (auto simp: wait_until_durations_def)

theorem wait_until_durations_valid_witness:
  "\<exists>timeout interval attempt_timeout.
     wait_until_durations (\<lambda>f k u. 0) sample_wait_model = (timeout, interval, attempt_timeout, []) \<and>
     0 < timeout \<and> 0 < interval \<and> 0 \<le> attempt_timeout"
  by (rule wait_until_durations_valid) (simp_all add: sample_wait_model_def validate_duration_def)

text \<open>A positive whole number of seconds, printed as the reports print durations, is read back.\<close>

theorem wait_duration_roundtrip:
  assumes "0 < s" and "s * 1000000000 < 2 ^ 63"
  shows "parse_wait_duration fl name (TKnown (duration_string (int s * sec))) fallback = (int s * sec, [])"
  using parse_duration_seconds [OF assms, of fl] parse_duration_empty [of fl "int s * sec"] assms(1)
  by (auto simp: parse_wait_duration_def Let_def)

theorem wait_duration_roundtrip_witness:
  "parse_wait_duration (\<lambda>f k u. 0) ''timeout'' (TKnown (duration_string (int 90 * sec))) [] = (int 90 * sec, [])"
  by (rule wait_duration_roundtrip) simp_all

end
