(* ===== verification/Net_Link.thy ===== *)
theory Net_Link
  imports Provider_Conf Ip_Output
begin

text \<open>
  What the \<^verbatim>\<open>iproute2\<close> resources share: building the \<^verbatim>\<open>ip\<close> command, running one step of a
  handler, the messages that mean that a device or an address is gone, and the effect of the
  commands that change the master of an interface.
\<close>

section \<open>The ip command\<close>

abbreviation sq :: string where
  "sq \<equiv> [CHR 0x27]"

definition intf_not_found_strs :: "string list" where
  "intf_not_found_strs =
     [''does not exist'', ''Cannot find device'', ''cannot find device'', ''No such device'', ''no such device'']"

definition addr_not_found_strs :: "string list" where
  "addr_not_found_strs = [''Cannot assign requested address'', ''cannot assign requested address'']"

text \<open>\<^verbatim>\<open>buildIPCommand\<close>: the command and the arguments in front of the sub-command.\<close>

definition build_ip_command :: "'w provider_conf \<Rightarrow> string \<Rightarrow> string \<times> string list" where
  "build_ip_command conf netns =
     (let cmd = (if pc_use_sudo conf then pc_sudo conf else pc_ip conf);
          args = (if pc_use_sudo conf then [''-n'', pc_ip conf] else [])
      in if netns \<noteq> [] then
           (if pc_use_sudo conf then (cmd, [''-n'', pc_ip conf, ''netns'', ''exec'', netns, pc_ip conf])
            else (cmd, [''netns'', ''exec'', netns, pc_ip conf]))
         else (cmd, args))"

text \<open>The network namespace attribute: empty unless it is known.\<close>

definition netns_of :: "string tfval \<Rightarrow> string" where
  "netns_of v = (if is_known v then tf_string v else [])"

definition run_ip :: "'w executor \<Rightarrow> string \<Rightarrow> string \<times> string list \<Rightarrow> string list \<Rightarrow> ('w, cmd_outcome) state" where
  "run_ip ex d ip words = ex_run ex d (fst ip) (snd ip @ words)"

text \<open>A step of a handler: on an error, one diagnostic and those of the command's result.\<close>

definition ip_step ::
    "'w executor \<Rightarrow> string \<Rightarrow> string \<times> string list \<Rightarrow> diagnostic \<Rightarrow> string list \<Rightarrow> ('w, unit) handler" where
  "ip_step ex d ip dg words = do {
     (res, err) \<leftarrow> run_ip ex d ip words;
     case err of None \<Rightarrow> okE () | Some e \<Rightarrow> failE (dg # result_diagnostics res) }"

text \<open>A step of a helper: on an error, the diagnostics of the result and the wrapped error.\<close>

type_synonym ('w, 'a) helper = "('w, (diagnostics \<times> goerr) + 'a) state"

definition ip_call ::
    "'w executor \<Rightarrow> string \<Rightarrow> string \<times> string list \<Rightarrow> string \<Rightarrow> string list \<Rightarrow> ('w, result) helper" where
  "ip_call ex d ip msg words = do {
     (res, err) \<leftarrow> run_ip ex d ip words;
     case err of None \<Rightarrow> okE res | Some e \<Rightarrow> failE (result_diagnostics res, wrapf msg e) }"

text \<open>How the handlers report the failure of a helper.\<close>

definition helper_failed :: "string \<Rightarrow> diagnostics \<times> goerr \<Rightarrow> diagnostics" where
  "helper_failed title de = add_error title (err_msg (snd de)) # fst de"

definition option_args :: "string \<Rightarrow> string tfval \<Rightarrow> string list" where
  "option_args key v = (if is_known v then [key, tf_string v] else [])"

text \<open>The error of \<^verbatim>\<open>net.ParseCIDR\<close>.\<close>

definition cidr_error :: "string \<Rightarrow> goerr" where
  "cidr_error s = Err (''invalid CIDR address: '' @ s)"

text \<open>Adding an address: its format is checked first.\<close>

definition add_cidr_step ::
    "'w executor \<Rightarrow> string \<Rightarrow> string \<times> string list \<Rightarrow> string \<Rightarrow> string \<times> string \<Rightarrow> diagnostic \<Rightarrow> string \<Rightarrow> ('w, unit) handler" where
  "add_cidr_step ex d ip dev bad dg addr =
     (case parse_cidr addr of
        None \<Rightarrow> failE [add_error (fst bad) (snd bad @ err_msg (cidr_error addr))]
      | Some _ \<Rightarrow> ip_step ex d ip dg [''addr'', ''add'', addr, ''dev'', dev])"

text \<open>Adding the link-local address of a MAC; a nil address prints as \<open><nil>\<close>.\<close>

definition add_link_local_step ::
    "'w executor \<Rightarrow> string \<Rightarrow> string \<times> string list \<Rightarrow> string \<Rightarrow> string \<times> string \<Rightarrow> diagnostic \<Rightarrow> string \<Rightarrow> ('w, unit) handler" where
  "add_link_local_step ex d ip dev bad dg mac =
     (case link_local_ipv6_from_mac_string mac of
        Inl e \<Rightarrow> failE [add_error (fst bad) (''Can't configure link-local address '' @ sq @ ip_string [] @
                        sq @ '' on '' @ snd bad @ '' interface: '' @ e)]
      | Inr ll \<Rightarrow> ip_step ex d ip dg
                    [''addr'', ''add'', ip_string ll @ ''/64'', ''scope'', ''link'', ''dev'', dev])"

text \<open>\<^verbatim>\<open>stringsDifference\<close>.\<close>

definition strings_difference :: "string list \<Rightarrow> string list \<Rightarrow> string list" where
  "strings_difference a b = filter (\<lambda>s. s \<notin> set b) a"

text \<open>The managed members that are still members of the device.\<close>

definition kept_members :: "string list \<Rightarrow> string tfval list \<Rightarrow> string tfval list" where
  "kept_members current es = filter (\<lambda>e. is_known e \<and> tf_string e \<in> set current) es"

text \<open>A failed removal is tolerated when the error or the output says that the thing is gone.\<close>

definition tolerate ::
    "'w executor \<Rightarrow> string \<Rightarrow> string \<times> string list \<Rightarrow> string list \<Rightarrow> string \<Rightarrow> string list \<Rightarrow> ('w, unit) helper" where
  "tolerate ex d ip gone msg words = do {
     (res, err) \<leftarrow> run_ip ex d ip words;
     case err of
       None \<Rightarrow> okE ()
     | Some e \<Rightarrow>
         (if contains_none err gone \<and> diags_none (result_diagnostics res) gone
          then failE (result_diagnostics res, wrapf msg e)
          else okE ()) }"

section \<open>Reading a link\<close>

text \<open>What the readers take from the output of \<^verbatim>\<open>ip link show\<close>; \<open>kind\<close> is the word of the messages.\<close>

record link_details =
  li_mtu :: "int option"
  li_up :: bool
  li_mac :: "string option"

definition link_info :: "string \<Rightarrow> string \<Rightarrow> result \<Rightarrow> (diagnostics \<times> goerr) + link_details" where
  "link_info kind dev res =
     (let out_lines = split_on (CHR 0x0A) (r_stdout res); l0 = hd out_lines;
          li = \<lparr>li_mtu = None, li_up = link_flag_up l0,
                li_mac = (if length out_lines > 1 then find_mac (out_lines ! 1) else None)\<rparr>
      in if \<not> str_contains l0 ''<'' then
           Inl (result_diagnostics res,
                Err (''can't parse '' @ kind @ '' '' @ sq @ dev @ sq @ '' link details, unexpected output: '' @
                     go_quote (r_stdout res)))
         else
           (case find_mtu l0 of
              None \<Rightarrow> Inr li
            | Some digits \<Rightarrow>
                (case atoi digits of
                   None \<Rightarrow>
                     (let e = Err (''invalid '' @ kind @ '' '' @ sq @ dev @ sq @ '' MTU value '' @ sq @ digits @ sq @
                                   '': strconv.ParseInt: parsing '' @ go_quote digits @ '': value out of range'')
                      in Inl ([add_error (''Can't find '' @ kind @ '' interface MTU value'') (err_msg e)], e))
                 | Some x \<Rightarrow> Inr (li\<lparr>li_mtu := Some x\<rparr>))))"

text \<open>What they take from the output of \<^verbatim>\<open>ip addr show\<close>.\<close>

definition valid_ipv4 :: "string \<Rightarrow> string option" where
  "valid_ipv4 out =
     (case find_ipv4 out of
        Some a \<Rightarrow> if parse_cidr a \<noteq> None then Some a else None
      | None \<Rightarrow> None)"

definition valid_ipv6 :: "string \<Rightarrow> string option" where
  "valid_ipv6 out = first_global_ipv6 (find_ipv6_all out)"

text \<open>An attribute is set when something was read and keeps its value otherwise.\<close>

definition known_or :: "'a tfval \<Rightarrow> 'a option \<Rightarrow> 'a tfval" where
  "known_or old v = (case v of Some x \<Rightarrow> TKnown x | None \<Rightarrow> old)"

definition state_word :: "bool \<Rightarrow> string" where
  "state_word up = (if up then ''up'' else ''down'')"

section \<open>What the steps emit\<close>

lemma emits_ip_step [emits_intros]:
  "emits (ip_step (traced ex) d ip dg words) [CRun d (fst ip) (snd ip @ words)]"
  unfolding ip_step_def run_ip_def traced_simps
  by (rule emits_log_call) (auto simp: emits_def split: option.splits)

lemma emits_ip_call [emits_intros]:
  "emits (ip_call (traced ex) d ip msg words) [CRun d (fst ip) (snd ip @ words)]"
  unfolding ip_call_def run_ip_def traced_simps
  by (rule emits_log_call) (auto simp: emits_def split: option.splits)

text \<open>A script of sub-commands, as the calls it makes.\<close>

definition ip_calls :: "string \<Rightarrow> string \<times> string list \<Rightarrow> string list list \<Rightarrow> call list" where
  "ip_calls d ip ws = map (\<lambda>w. CRun d (fst ip) (snd ip @ w)) ws"

lemma ip_calls_simps [simp]:
  "ip_calls d ip [] = []"
  "ip_calls d ip (w # ws) = CRun d (fst ip) (snd ip @ w) # ip_calls d ip ws"
  "ip_calls d ip (ws @ vs) = ip_calls d ip ws @ ip_calls d ip vs"
  by (simp_all add: ip_calls_def)

lemma ip_calls_concat: "ip_calls d ip (concat ws) = concat (map (ip_calls d ip) ws)"
  by (induction ws) simp_all

lemma emits_add_cidr_step:
  "emits (add_cidr_step (traced ex) d ip dev bad dg addr)
     (ip_calls d ip [[''addr'', ''add'', addr, ''dev'', dev]])"
  unfolding add_cidr_step_def ip_calls_simps
  by (cases "parse_cidr addr") (auto intro: emits_fail_any emits_ip_step)

lemma emits_whenE_calls:
  "emits m (ip_calls d ip ws) \<Longrightarrow> emits (whenE b m) (ip_calls d ip (if b then ws else []))"
  using emits_whenE [of b m "ip_calls d ip ws"] by (cases b) auto

lemma emits_step_calls:
  "emits (ip_step (traced ex) d ip dg w) (ip_calls d ip [w])"
  by (simp add: emits_ip_step)

lemma emits_forE_calls:
  assumes "\<And>x. x \<in> set xs \<Longrightarrow> emits (f x) (ip_calls d ip (ws x))"
  shows "emits (forE xs f) (ip_calls d ip (concat (map ws xs)))"
  using emits_forE [of xs f "\<lambda>x. ip_calls d ip (ws x)"] assms
  by (simp add: ip_calls_concat o_def)

lemma emits_with_elements:
  assumes "\<And>i. emits (f i) (ip_calls d ip (ws i))"
  shows "emits (whenE (is_known v) (bindE (State_Monad.return (elements_as ct (tf_value [] v))) (\<lambda>xs. forE xs f)))
           (ip_calls d ip (concat (map ws (map tf_string (tf_value [] v)))))"
proof (cases "is_known v \<and> list_all is_known (tf_value [] v)")
  case True
  then have "elements_as ct (tf_value [] v) = Inr (map tf_string (tf_value [] v))"
    by (simp add: elements_as_def)
  then have "whenE (is_known v) (bindE (State_Monad.return (elements_as ct (tf_value [] v))) (\<lambda>xs. forE xs f)) =
      forE (map tf_string (tf_value [] v)) f"
    using True by (simp add: whenE_def bindE_def)
  then show ?thesis using assms by (simp only:) (rule emits_forE_calls)
next
  case False
  show ?thesis
  proof (cases v)
    case (TKnown es)
    with False have "elements_as ct (tf_value [] v) = Inl (ct_conv ct)" by (simp add: elements_as_def)
    with TKnown show ?thesis by (simp add: whenE_def bindE_def emits_fail_any)
  qed (simp_all add: whenE_def emits_ok)
qed

lemma emits_seqE_calls:
  "emits m (ip_calls d ip ws) \<Longrightarrow> emits (seqE ms) (ip_calls d ip vs) \<Longrightarrow>
     emits (seqE (m # ms)) (ip_calls d ip (ws @ vs))"
  unfolding ip_calls_simps by (rule emits_seqE_Cons)

lemma emits_seqE_none: "emits (seqE []) (ip_calls d ip [])"
  by (simp add: emits_ok)

lemma emits_tolerate:
  "emits (tolerate (traced ex) d ip gone msg w) (ip_calls d ip [w])"
  unfolding tolerate_def run_ip_def traced_simps ip_calls_simps
  by (rule emits_log_call) (auto simp: emits_def split: option.splits if_splits)

lemmas ip_script = emits_seqE_calls emits_seqE_none emits_whenE_calls emits_step_calls emits_add_cidr_step
  emits_forE_calls emits_mapE emits_tolerate

section \<open>The masters of the interfaces\<close>

text \<open>
  What \<^verbatim>\<open>ip link set\<close> does to the map from interfaces to their masters (documented in
  \<^verbatim>\<open>ip-link(8)\<close>); other commands leave it alone.
\<close>

type_synonym masters = "string \<Rightarrow> string option"

fun ip_effect :: "string list \<Rightarrow> masters \<Rightarrow> masters" where
  "ip_effect [l, s, d, i, k] m =
     (if [l, s, d, k] = [''link'', ''set'', ''dev'', ''nomaster''] then m(i := None) else m)"
| "ip_effect [l, s, d, i, k, b] m =
     (if [l, s, d, k] = [''link'', ''set'', ''dev'', ''master''] then m(i \<mapsto> b) else m)"
| "ip_effect _ m = m"

text \<open>The commands of a log that were issued with the prefix \<open>ip\<close>, applied one after the other.\<close>

fun call_effect :: "string \<times> string list \<Rightarrow> call \<Rightarrow> masters \<Rightarrow> masters" where
  "call_effect ip (CRun d c a) m =
     (if c = fst ip \<and> prefix (snd ip) a then ip_effect (drop (length (snd ip)) a) m else m)"
| "call_effect ip _ m = m"

definition calls_effect :: "string \<times> string list \<Rightarrow> call list \<Rightarrow> masters \<Rightarrow> masters" where
  "calls_effect ip cs m = fold (call_effect ip) cs m"

lemma calls_effect_simps [simp]:
  "calls_effect ip [] m = m"
  "calls_effect ip (c # cs) m = calls_effect ip cs (call_effect ip c m)"
  "calls_effect ip (cs @ ds) m = calls_effect ip ds (calls_effect ip cs m)"
  by (simp_all add: calls_effect_def)

lemma call_effect_run [simp]:
  "call_effect ip (CRun d (fst ip) (snd ip @ a)) m = ip_effect a m"
  by simp

text \<open>The members of a device.\<close>

definition members_under :: "masters \<Rightarrow> string \<Rightarrow> string set" where
  "members_under m b = {i. m i = Some b}"

section \<open>Reading back what the target prints\<close>

text \<open>An answer of the target to the three commands of the read-back.\<close>

definition answers :: "'w executor \<Rightarrow> string \<Rightarrow> string \<times> string list \<Rightarrow> string list \<Rightarrow> string \<Rightarrow> bool" where
  "answers ex d ip words out \<longleftrightarrow>
     (\<forall>w. \<exists>res. run_state (run_ip ex d ip words) w = ((res, None), w) \<and> r_stdout res = out)"

lemma run_ip_call_answers:
  assumes "answers ex d ip words out"
  shows "\<exists>res. run_state (ip_call ex d ip msg words) w = (Inr res, w) \<and> r_stdout res = out"
proof -
  obtain res where "run_state (run_ip ex d ip words) w = ((res, None), w)" "r_stdout res = out"
    using assms by (auto simp: answers_def)
  then show ?thesis by (auto simp: ip_call_def)
qed

lemma split_two_lines:
  assumes "CHR 0x0A \<notin> set a" and "CHR 0x0A \<notin> set b"
  shows "split_on (CHR 0x0A) (a @ CHR 0x0A # b @ CHR 0x0A # c) = a # b # split_on (CHR 0x0A) c"
  using assms by (simp add: split_on_app_sep)

lemma link_line_bracket: "str_contains (link_line idx name flags mtu words) ''<''"
proof -
  have "link_line idx name flags mtu words =
      (dec_of_nat idx @ '': '' @ name @ '': '') @ ''<'' @ (str_join flags '','' @ ''> mtu '' @ dec_of_nat mtu @ '' '' @ words)"
    by (simp add: link_line_def)
  then show ?thesis by (simp only:) (rule sublist_appendI)
qed

lemma link_line_nl:
  assumes "CHR 0x0A \<notin> set name" and "\<forall>f \<in> set flags. CHR 0x0A \<notin> set f" and "CHR 0x0A \<notin> set words"
  shows "CHR 0x0A \<notin> set (link_line idx name flags mtu words)"
  using assms set_dec_of_nat [of "CHR 0x0A" idx] set_dec_of_nat [of "CHR 0x0A" mtu]
  by (auto simp: link_line_def str_join_nl is_digit_code)

lemma ether_line_nl: "CHR 0x0A \<notin> set brd \<Longrightarrow> CHR 0x0A \<notin> set (ether_line hw brd)"
  using mac_string_chars [of "CHR 0x0A" hw] by (auto simp: ether_line_def mac_char_def hex_val_def)

text \<open>A name as the kernel admits it, and a flag.\<close>

definition plain_token :: "string \<Rightarrow> bool" where
  "plain_token s \<longleftrightarrow> s \<noteq> [] \<and>
     (\<forall>c \<in> set s. c \<notin> {CHR ''<'', CHR ''>'', CHR '','', CHR '':'', CHR ''@''} \<and> \<not> rx_space c)"

lemma plain_token_not:
  assumes "plain_token s"
  shows "CHR ''<'' \<notin> set s" "CHR ''>'' \<notin> set s" "CHR '','' \<notin> set s" "CHR '' '' \<notin> set s" "CHR 0x0A \<notin> set s"
  using assms by (auto simp: plain_token_def rx_space_def)

text \<open>An executor whose commands succeed and print a text that depends on their arguments.\<close>

definition printing_executor :: "(string list \<Rightarrow> string) \<Rightarrow> 'w executor" where
  "printing_executor f = idle_executor\<lparr>ex_run := \<lambda>d c a. State_Monad.return ((new_result c a)\<lparr>r_stdout := f a\<rparr>, None)\<rparr>"

lemma run_printing [simp]:
  "ex_run (printing_executor f) d c a = State_Monad.return ((new_result c a)\<lparr>r_stdout := f a\<rparr>, None)"
  by (simp add: printing_executor_def)

lemma answers_printing: "answers (printing_executor f) d ip words (f (snd ip @ words))"
  by (simp add: answers_def run_ip_def)

text \<open>An executor whose commands fail with the given result and error.\<close>

definition failing_executor :: "result \<Rightarrow> goerr \<Rightarrow> 'w executor" where
  "failing_executor res e = idle_executor\<lparr>ex_run := \<lambda>d c a. State_Monad.return (res, Some e)\<rparr>"

lemma failing_simps [simp]:
  "ex_run (failing_executor res e) d c a = State_Monad.return (res, Some e)"
  "ex_remove (failing_executor res e) q = State_Monad.return None"
  by (simp_all add: failing_executor_def)

text \<open>What \<^verbatim>\<open>ip\<close> leaves when the device is gone.\<close>

definition gone_result :: result where
  "gone_result = (new_result ''ip'' [])\<lparr>r_exit_code := 1, r_error := Some (Err ''exit status 1''),
     r_stderr := ''Cannot find device '' @ [CHR 0x22] @ ''br0'' @ [CHR 0x22]\<rparr>"

text \<open>The shortest output that the readers accept: a device that is up.\<close>

lemma link_info_up: "link_info kind dev (res\<lparr>r_stdout := ''<UP>''\<rparr>) = Inr \<lparr>li_mtu = None, li_up = True, li_mac = None\<rparr>"
proof -
  have "split_on (CHR 0x0A) ''<UP>'' = [''<UP>'']" "link_flag_up ''<UP>''" "find_mtu ''<UP>'' = None" by code_simp+
  then show ?thesis by (simp add: link_info_def)
qed

text \<open>The target with one device that is up, with the given addresses and members.\<close>

definition one_device :: "string \<Rightarrow> string \<Rightarrow> 'w executor" where
  "one_device addrs members =
     printing_executor (\<lambda>a. if hd a = ''addr'' then addrs else if ''master'' \<in> set a then members else ''<UP>'')"

lemma one_device_runs [simp]:
  "run_state (ip_call (one_device addrs members) d (c, []) msg [''link'', ''show'', dev]) w =
     (Inr ((new_result c [''link'', ''show'', dev])\<lparr>r_stdout := if dev = ''master'' then members else ''<UP>''\<rparr>), w)"
  "run_state (ip_call (one_device addrs members) d (c, []) msg [''addr'', ''show'', dev]) w =
     (Inr ((new_result c [''addr'', ''show'', dev])\<lparr>r_stdout := addrs\<rparr>), w)"
  "run_state (ip_call (one_device addrs members) d (c, []) msg [''link'', ''show'', ''master'', dev]) w =
     (Inr ((new_result c [''link'', ''show'', ''master'', dev])\<lparr>r_stdout := members\<rparr>), w)"
  by (simp_all add: ip_call_def run_ip_def one_device_def)

lemma answers_one_device:
  "dev \<noteq> ''master'' \<Longrightarrow> answers (one_device addrs members) d (c, []) [''link'', ''show'', dev] ''<UP>''"
  "answers (one_device addrs members) d (c, []) [''addr'', ''show'', dev] addrs"
  "answers (one_device addrs members) d (c, []) [''link'', ''show'', ''master'', dev] members"
  by (simp_all add: answers_def run_ip_def one_device_def)

section \<open>Properties\<close>

text \<open>C20: What \<^verbatim>\<open>ip link show\<close> prints for a device is read back: MTU, administrative state and MAC address.\<close>

theorem link_info_roundtrip:
  assumes "r_stdout res = link_line idx name flags mtu words @ CHR 0x0A # ether_line hw brd @ CHR 0x0A # rest"
    and "plain_token name" and "\<forall>f \<in> set flags. plain_token f" and "flags \<noteq> []" and "hw \<noteq> []"
    and "mtu < 2 ^ 63" and "CHR 0x0A \<notin> set words" and "CHR 0x0A \<notin> set brd"
  shows "link_info kind dev res =
           Inr \<lparr>li_mtu = Some (int mtu), li_up = (''UP'' \<in> set flags), li_mac = Some (mac_string hw)\<rparr>"
proof -
  note tok = plain_token_not [OF assms(2)] plain_token_not
  have nl: "CHR 0x0A \<notin> set (link_line idx name flags mtu words)"
    using assms tok by (intro link_line_nl) auto
  have out: "split_on (CHR 0x0A) (r_stdout res) =
      link_line idx name flags mtu words # ether_line hw brd # split_on (CHR 0x0A) rest"
    using split_two_lines [OF nl ether_line_nl [OF assms(8)]] assms(1) by simp
  have "link_flag_up (link_line idx name flags mtu words) \<longleftrightarrow> ''UP'' \<in> set flags"
    using assms tok by (intro link_flag_up_link_line) auto
  moreover have "find_mtu (link_line idx name flags mtu words) = Some (dec_of_nat mtu)"
    using assms tok by (intro find_mtu_link_line) auto
  moreover have "find_mac (ether_line hw brd) = Some (mac_string hw)"
    using assms(5) by (rule find_mac_ether_line)
  ultimately show ?thesis
    using assms(6) by (simp add: link_info_def out link_line_bracket)
qed

theorem link_info_roundtrip_witness:
  "link_info ''bond'' ''bond0''
     ((new_result ''ip'' [])\<lparr>r_stdout := link_line 5 ''bond0'' [''BROADCAST'', ''UP''] 1500 ''qdisc'' @ CHR 0x0A #
        ether_line [2, 0, 0, 0, 0, 1] ''ff'' @ CHR 0x0A # []\<rparr>) =
   Inr \<lparr>li_mtu = Some (int 1500), li_up = (''UP'' \<in> set [''BROADCAST'', ''UP'']), li_mac = Some (mac_string [2, 0, 0, 0, 0, 1])\<rparr>"
  by (rule link_info_roundtrip [where idx = 5 and name = "''bond0''" and flags = "[''BROADCAST'', ''UP'']" and mtu = 1500
        and words = "''qdisc''" and hw = "[2, 0, 0, 0, 0, 1]" and brd = "''ff''" and rest = "[]"]) (simp_all add: plain_token_def rx_space_def)

end
