(* ===== verification/Lag.thy ===== *)
theory Lag
  imports Net_Link
begin

text \<open>
  The resource \<^verbatim>\<open>zedamigo_lag\<close> (\<^verbatim>\<open>internal/provider/lag_resource.go\<close>): a Linux bond, created,
  read, updated in place and deleted with \<^verbatim>\<open>ip\<close> commands. A handler works on the decoded plan
  or state; it fails with its diagnostics or returns the new state.
\<close>

section \<open>The model\<close>

record lag_model =
  lg_id :: "string tfval"
  lg_name :: "string tfval"
  lg_mode :: "string tfval"
  lg_miimon :: "int tfval"
  lg_lacp_rate :: "string tfval"
  lg_xmit_hash_policy :: "string tfval"
  lg_mtu :: "int tfval"
  lg_state :: "string tfval"
  lg_mac :: "string tfval"
  lg_ipv4 :: "string tfval"
  lg_ipv6 :: "string tfval"
  lg_netns :: "string tfval"
  lg_enslaved :: "string tfval list tfval"

definition lag_dir :: "'w provider_conf \<Rightarrow> string \<Rightarrow> string" where
  "lag_dir conf i = path_join [pc_lib_path conf, ''lag_intfs'', i]"

text \<open>\<^verbatim>\<open>ValidateConfig\<close>.\<close>

definition lag_validate_config :: "lag_model \<Rightarrow> diagnostics" where
  "lag_validate_config data =
     (if lg_mode data = TUnknown then []
      else
        (let mode = (case lg_mode data of TKnown s \<Rightarrow> s | _ \<Rightarrow> [])
         in (if is_known (lg_lacp_rate data) \<and> mode \<noteq> ''802.3ad''
             then [add_error ''Invalid lacp_rate usage''
                     ([CHR 0x22] @ ''lacp_rate'' @ [CHR 0x22] @ '' is only valid when '' @ [CHR 0x22] @ ''mode'' @
                      [CHR 0x22] @ '' is '' @ [CHR 0x22] @ ''802.3ad'' @ [CHR 0x22] @ ''.'')] else []) @
            (if is_known (lg_xmit_hash_policy data) \<and> mode \<noteq> ''802.3ad'' \<and> mode \<noteq> ''balance-xor''
             then [add_error ''Invalid xmit_hash_policy usage''
                     ([CHR 0x22] @ ''xmit_hash_policy'' @ [CHR 0x22] @ '' is only valid when '' @ [CHR 0x22] @ ''mode'' @
                      [CHR 0x22] @ '' is '' @ [CHR 0x22] @ ''802.3ad'' @ [CHR 0x22] @ '' or '' @ [CHR 0x22] @
                      ''balance-xor'' @ [CHR 0x22] @ ''.'')] else [])))"

section \<open>Members and addresses\<close>

text \<open>\<^verbatim>\<open>enslaveMember\<close>: down, attach, up.\<close>

definition enslave_member ::
    "'w executor \<Rightarrow> string \<Rightarrow> string \<times> string list \<Rightarrow> string \<Rightarrow> string \<Rightarrow> ('w, unit) helper" where
  "enslave_member ex d ip bond intf =
     bindE (ip_call ex d ip (''can't set member '' @ sq @ intf @ sq @ '' down before enslaving to bond '' @ sq @ bond @ sq @ '': '')
              [''link'', ''set'', ''dev'', intf, ''down'']) (\<lambda>_.
     bindE (ip_call ex d ip (''can't enslave member '' @ sq @ intf @ sq @ '' to bond '' @ sq @ bond @ sq @ '': '')
              [''link'', ''set'', ''dev'', intf, ''master'', bond]) (\<lambda>_.
     bindE (ip_call ex d ip (''can't bring enslaved member '' @ sq @ intf @ sq @ '' up: '')
              [''link'', ''set'', ''dev'', intf, ''up'']) (\<lambda>_. okE ())))"

text \<open>\<^verbatim>\<open>releaseMember\<close>.\<close>

definition release_member :: "'w executor \<Rightarrow> string \<Rightarrow> string \<times> string list \<Rightarrow> string \<Rightarrow> ('w, unit) helper" where
  "release_member ex d ip intf =
     tolerate ex d ip intf_not_found_strs (''can't release member '' @ sq @ intf @ sq @ '' from bond: '')
       [''link'', ''set'', ''dev'', intf, ''nomaster'']"

text \<open>\<^verbatim>\<open>reconcileAddr\<close>: delete the old address, add the new one.\<close>

definition reconcile_addr ::
    "'w executor \<Rightarrow> string \<Rightarrow> string \<times> string list \<Rightarrow> string \<Rightarrow> string tfval \<Rightarrow> string tfval \<Rightarrow> ('w, unit) helper" where
  "reconcile_addr ex d ip bond old new =
     seqE
       [whenE (is_known old)
          (tolerate ex d ip (intf_not_found_strs @ addr_not_found_strs)
             (''can't remove old address '' @ sq @ tf_string old @ sq @ '' from bond '' @ sq @ bond @ sq @ '': '')
             [''addr'', ''del'', tf_string old, ''dev'', bond]),
        whenE (is_known new)
          (case parse_cidr (tf_string new) of
             None \<Rightarrow>
               failE ([add_error ''Invalid address format''
                         (''address must be in CIDR format: '' @ err_msg (cidr_error (tf_string new)))],
                      wrapf (''invalid address '' @ sq @ tf_string new @ sq @ '' for bond '' @ sq @ bond @ sq @ '': '')
                        (cidr_error (tf_string new)))
           | Some _ \<Rightarrow>
               bindE (ip_call ex d ip
                        (''can't add address '' @ sq @ tf_string new @ sq @ '' to bond '' @ sq @ bond @ sq @ '': '')
                        [''addr'', ''add'', tf_string new, ''dev'', bond]) (\<lambda>_. okE ()))]"

text \<open>\<^verbatim>\<open>lagMembersSlice\<close>: null and unknown are empty.\<close>

definition lag_members_slice :: "'w controller \<Rightarrow> string tfval list tfval \<Rightarrow> diagnostics + string list" where
  "lag_members_slice ct v = (case v of TKnown es \<Rightarrow> elements_as ct es | _ \<Rightarrow> Inr [])"

section \<open>Reading\<close>

definition lag_with_link :: "lag_model \<Rightarrow> link_details \<Rightarrow> lag_model" where
  "lag_with_link data li =
     data\<lparr>lg_mtu := known_or (lg_mtu data) (li_mtu li), lg_state := TKnown (state_word (li_up li)),
          lg_mac := known_or (lg_mac data) (li_mac li)\<rparr>"

definition lag_with_addrs :: "lag_model \<Rightarrow> string \<Rightarrow> lag_model" where
  "lag_with_addrs data out =
     data\<lparr>lg_ipv4 := known_or (lg_ipv4 data) (valid_ipv4 out), lg_ipv6 := known_or (lg_ipv6 data) (valid_ipv6 out)\<rparr>"

definition read_lag ::
    "'w executor \<Rightarrow> string \<Rightarrow> string \<times> string list \<Rightarrow> lag_model \<Rightarrow> ('w, lag_model) helper" where
  "read_lag ex d ip data =
     (let bond = tf_string (lg_name data)
      in bindE (ip_call ex d ip (''can't retrieve bond '' @ sq @ bond @ sq @ '' details: '') [''link'', ''show'', bond])
           (\<lambda>res. bindE (State_Monad.return (link_info ''bond'' bond res)) (\<lambda>li.
         bindE (ip_call ex d ip (''can't retrieve bond '' @ sq @ bond @ sq @ '' addresses: '') [''addr'', ''show'', bond])
           (\<lambda>res2. let m2 = lag_with_addrs (lag_with_link data li) (r_stdout res2)
             in case lg_enslaved data of
                  TKnown es \<Rightarrow>
                    bindE (ip_call ex d ip (''can't retrieve bond '' @ sq @ bond @ sq @ '' members: '')
                             [''link'', ''show'', ''master'', bond]) (\<lambda>res3.
                    okE (m2\<lparr>lg_enslaved := TKnown (kept_members (members_of (r_stdout res3)) es)\<rparr>))
                | _ \<Rightarrow> okE (m2\<lparr>lg_enslaved := TNull\<rparr>)))))"

section \<open>Create\<close>

text \<open>The steps between the directory and the read-back, in the order of the code.\<close>

definition lag_setup ::
    "'w controller \<Rightarrow> 'w executor \<Rightarrow> string \<Rightarrow> string \<times> string list \<Rightarrow> lag_model \<Rightarrow> ('w, unit) handler" where
  "lag_setup ct ex d ip data =
     (let bond = tf_string (lg_name data); e = ''LAG Resource Error''
      in seqE
        [ip_step ex d ip (add_error e ''Unable to create a new bond.'')
           ([''link'', ''add'', bond, ''type'', ''bond''] @ option_args ''mode'' (lg_mode data) @
            (if is_known (lg_miimon data) then [''miimon'', itoa (tf_int (lg_miimon data))] else []) @
            option_args ''lacp_rate'' (lg_lacp_rate data) @
            option_args ''xmit_hash_policy'' (lg_xmit_hash_policy data)),
         whenE (is_known (lg_mtu data))
           (ip_step ex d ip (add_error e ''Unable to set bond MTU.'')
              [''link'', ''set'', ''dev'', bond, ''mtu'', itoa (tf_int (lg_mtu data))]),
         whenE (is_known (lg_mac data))
           (ip_step ex d ip (add_error e ''Unable to set MAC address for bond.'')
              [''link'', ''set'', ''dev'', bond, ''address'', tf_string (lg_mac data)]),
         whenE (is_known (lg_enslaved data))
           (bindE (State_Monad.return (elements_as ct (tf_value [] (lg_enslaved data)))) (\<lambda>ifaces.
              forE ifaces (\<lambda>intf. mapE (helper_failed e) (enslave_member ex d ip bond intf)))),
         whenE (is_known (lg_ipv4 data))
           (add_cidr_step ex d ip bond
              (''Invalid IPv4 address format'', ''IPv4 address must be in CIDR format (e.g., '' @ sq @ ''192.168.1.1/24'' @ sq @ ''): '')
              (add_error e ''Unable to configure bond IPv4 address.'') (tf_string (lg_ipv4 data))),
         whenE (is_known (lg_ipv6 data))
           (add_cidr_step ex d ip bond
              (''Invalid IPv6 address format'', ''IPv6 address must be in CIDR format (e.g., '' @ sq @ ''fd00::1/64'' @ sq @ ''): '')
              (add_error e ''Unable to configure bond IPv6 address.'') (tf_string (lg_ipv6 data))),
         whenE (is_known (lg_state data))
           (ip_step ex d ip (add_error e ''Unable to set bond state.'')
              [''link'', ''set'', ''dev'', bond, tf_string (lg_state data)])])"

definition lag_create :: "'w controller \<Rightarrow> 'w provider_conf \<Rightarrow> lag_model \<Rightarrow> ('w, lag_model) handler" where
  "lag_create ct conf data =
     (let ex = pc_exec conf; t = ''LAG Resource Error''
      in bindE (mapE (\<lambda>e. [add_error t (''Unable to generate a new resource ID: '' @ err_msg e)]) (new_resource_id ct)) (\<lambda>i.
         let data = data\<lparr>lg_id := TKnown i\<rparr>; d = lag_dir conf i;
             ip = build_ip_command conf (netns_of (lg_netns data)); bond = tf_string (lg_name data)
         in bindE (orE (ex_mkdir_all ex d mode_700)
                (\<lambda>e. [add_error t (''Unable to create resource specific directory: '' @ err_msg e)])) (\<lambda>_.
            bindE (orE (create_tf_back_pointer ct ex d)
                (\<lambda>e. [add_error t (''Unable to create resource specific file: '' @ err_msg e)])) (\<lambda>_.
            bindE (lag_setup ct ex d ip data) (\<lambda>_.
            bindE (mapE (helper_failed ''Failed to read bond state'') (read_lag ex d ip data)) (\<lambda>data.
            bindE (whenE (is_known (lg_ipv6 data))
                     (add_link_local_step ex d ip bond (t, ''bond'')
                        (add_error t ''Unable to configure bond link-local address.'')
                        (tf_string (lg_mac data)))) (\<lambda>_.
            okE data)))))))"

section \<open>Read, Update, Delete\<close>

text \<open>\<open>None\<close> removes the resource from the state.\<close>

definition lag_read :: "'w provider_conf \<Rightarrow> lag_model \<Rightarrow> ('w, lag_model option) handler" where
  "lag_read conf data = do {
     let d = lag_dir conf (tf_string (lg_id data));
     let ip = build_ip_command conf (netns_of (lg_netns data));
     r \<leftarrow> read_lag (pc_exec conf) d ip data;
     case r of
       Inl (diags, e) \<Rightarrow>
         (if contains_any (Some e) intf_not_found_strs \<or> diags_any diags intf_not_found_strs then okE None
          else failE (helper_failed ''Failed to read bond state'' (diags, e)))
     | Inr data' \<Rightarrow> okE (Some data') }"

text \<open>The members part of \<^verbatim>\<open>Update\<close>: release what is no longer planned, then enslave what is new.\<close>

definition lag_update_members ::
    "'w controller \<Rightarrow> 'w executor \<Rightarrow> string \<Rightarrow> string \<times> string list \<Rightarrow> lag_model \<Rightarrow> lag_model \<Rightarrow> ('w, unit) handler" where
  "lag_update_members ct ex d ip plan state =
     (let bond = tf_string (lg_name plan); t = ''LAG Resource Update Error''
      in case (lag_members_slice ct (lg_enslaved plan), lag_members_slice ct (lg_enslaved state)) of
           (Inr plan_members, Inr state_members) \<Rightarrow>
             seqE
               [forE (strings_difference state_members plan_members)
                  (\<lambda>intf. mapE (helper_failed t) (release_member ex d ip intf)),
                forE (strings_difference plan_members state_members)
                  (\<lambda>intf. mapE (helper_failed t) (enslave_member ex d ip bond intf))]
         | (Inl d1, Inr _) \<Rightarrow> failE d1
         | (Inr _, Inl d2) \<Rightarrow> failE d2
         | (Inl d1, Inl d2) \<Rightarrow> failE (d1 @ filter (\<lambda>x. x \<notin> set d1) d2))"

definition lag_update :: "'w controller \<Rightarrow> 'w provider_conf \<Rightarrow> lag_model \<Rightarrow> lag_model \<Rightarrow> ('w, lag_model) handler" where
  "lag_update ct conf plan state =
     (let ex = pc_exec conf; bond = tf_string (lg_name plan);
          d = lag_dir conf (tf_string (lg_id state));
          ip = build_ip_command conf (netns_of (lg_netns plan)); t = ''LAG Resource Update Error''
      in bindE (seqE
           [whenE (lg_mtu plan \<noteq> lg_mtu state \<and> is_known (lg_mtu plan))
              (ip_step ex d ip (add_error t ''Unable to set bond MTU.'')
                 [''link'', ''set'', ''dev'', bond, ''mtu'', itoa (tf_int (lg_mtu plan))]),
            whenE (lg_mac plan \<noteq> lg_mac state \<and> is_known (lg_mac plan))
              (ip_step ex d ip (add_error t ''Unable to set bond MAC address.'')
                 [''link'', ''set'', ''dev'', bond, ''address'', tf_string (lg_mac plan)]),
            whenE (lg_ipv4 plan \<noteq> lg_ipv4 state)
              (mapE (helper_failed t) (reconcile_addr ex d ip bond (lg_ipv4 state) (lg_ipv4 plan))),
            whenE (lg_ipv6 plan \<noteq> lg_ipv6 state)
              (mapE (helper_failed t) (reconcile_addr ex d ip bond (lg_ipv6 state) (lg_ipv6 plan))),
            whenE (lg_enslaved plan \<noteq> TUnknown) (lag_update_members ct ex d ip plan state),
            whenE (lg_state plan \<noteq> lg_state state \<and> is_known (lg_state plan))
              (ip_step ex d ip (add_error t ''Unable to set bond state.'')
                 [''link'', ''set'', ''dev'', bond, tf_string (lg_state plan)])]) (\<lambda>_.
         mapE (helper_failed ''Failed to read bond state after update'') (read_lag ex d ip plan)))"

definition lag_delete :: "'w provider_conf \<Rightarrow> lag_model \<Rightarrow> ('w, unit) handler" where
  "lag_delete conf data = do {
     let bond = tf_string (lg_name data);
     let d = lag_dir conf (tf_string (lg_id data));
     let ip = build_ip_command conf (netns_of (lg_netns data));
     (res, err) \<leftarrow> run_ip (pc_exec conf) d ip [''link'', ''delete'', bond, ''type'', ''bond''];
     if err \<noteq> None \<and> contains_none err intf_not_found_strs \<and>
        diags_none (result_diagnostics res) intf_not_found_strs
     then failE (add_error ''Failed to delete bond'' (err_msg (the err)) # result_diagnostics res)
     else orE (ex_remove (pc_exec conf) d)
            (\<lambda>e. [add_error ''LAG Resource Delete Error'' (''Can't delete LAG resource directory: '' @ err_msg e)]) }"

section \<open>What Create emits\<close>

text \<open>The script of \<open>ip\<close> sub-commands for a planned bond.\<close>

definition enslave_words :: "string \<Rightarrow> string \<Rightarrow> string list list" where
  "enslave_words bond intf =
     [[''link'', ''set'', ''dev'', intf, ''down''],
      [''link'', ''set'', ''dev'', intf, ''master'', bond],
      [''link'', ''set'', ''dev'', intf, ''up'']]"

definition lag_setup_words :: "lag_model \<Rightarrow> string list list" where
  "lag_setup_words data =
     (let bond = tf_string (lg_name data)
      in [[''link'', ''add'', bond, ''type'', ''bond''] @ option_args ''mode'' (lg_mode data) @
          (if is_known (lg_miimon data) then [''miimon'', itoa (tf_int (lg_miimon data))] else []) @
          option_args ''lacp_rate'' (lg_lacp_rate data) @
          option_args ''xmit_hash_policy'' (lg_xmit_hash_policy data)] @
         (if is_known (lg_mtu data)
          then [[''link'', ''set'', ''dev'', bond, ''mtu'', itoa (tf_int (lg_mtu data))]] else []) @
         (if is_known (lg_mac data)
          then [[''link'', ''set'', ''dev'', bond, ''address'', tf_string (lg_mac data)]] else []) @
         concat (map (enslave_words bond) (map tf_string (tf_value [] (lg_enslaved data)))) @
         (if is_known (lg_ipv4 data)
          then [[''addr'', ''add'', tf_string (lg_ipv4 data), ''dev'', bond]] else []) @
         (if is_known (lg_ipv6 data)
          then [[''addr'', ''add'', tf_string (lg_ipv6 data), ''dev'', bond]] else []) @
         (if is_known (lg_state data)
          then [[''link'', ''set'', ''dev'', bond, tf_string (lg_state data)]] else []))"

lemma emits_enslave_member:
  "emits (enslave_member (traced ex) d ip bond intf) (ip_calls d ip (enslave_words bond intf))"
proof -
  have "emits (enslave_member (traced ex) d ip bond intf)
      ([CRun d (fst ip) (snd ip @ [''link'', ''set'', ''dev'', intf, ''down''])] @
       [CRun d (fst ip) (snd ip @ [''link'', ''set'', ''dev'', intf, ''master'', bond])] @
       [CRun d (fst ip) (snd ip @ [''link'', ''set'', ''dev'', intf, ''up''])] @ [])"
    unfolding enslave_member_def by (intro emits_intros)
  then show ?thesis by (simp add: enslave_words_def)
qed

section \<open>Update changes the managed members only\<close>

lemma emits_release_member:
  "emits (release_member (traced ex) d ip intf) (ip_calls d ip [[''link'', ''set'', ''dev'', intf, ''nomaster'']])"
  unfolding release_member_def by (rule emits_tolerate)

text \<open>The script of the members part.\<close>

definition update_words :: "string \<Rightarrow> string list \<Rightarrow> string list \<Rightarrow> string list list" where
  "update_words bond plan state =
     map (\<lambda>i. [''link'', ''set'', ''dev'', i, ''nomaster'']) (strings_difference state plan) @
     concat (map (enslave_words bond) (strings_difference plan state))"

lemma emits_lag_update_members:
  assumes "lag_members_slice ct (lg_enslaved plan) = Inr P" and "lag_members_slice ct (lg_enslaved state) = Inr S"
  shows "emits (lag_update_members ct (traced ex) d ip plan state)
           (ip_calls d ip (update_words (tf_string (lg_name plan)) P S))"
proof -
  show ?thesis
    unfolding lag_update_members_def update_words_def Let_def assms prod.case sum.case
    by (rule back_subst [of "emits _"], (rule ip_script emits_release_member emits_enslave_member)+, simp)
qed

lemma effect_release:
  "calls_effect ip (ip_calls d ip (map (\<lambda>i. [''link'', ''set'', ''dev'', i, ''nomaster'']) xs)) m =
     (\<lambda>i. if i \<in> set xs then None else m i)"
  by (induction xs arbitrary: m) (auto simp: fun_eq_iff simp del: call_effect.simps)

lemma effect_enslave:
  "calls_effect ip (ip_calls d ip (concat (map (enslave_words b) xs))) m =
     (\<lambda>i. if i \<in> set xs then Some b else m i)"
  by (induction xs arbitrary: m) (auto simp: fun_eq_iff enslave_words_def simp del: call_effect.simps)

lemma set_strings_difference [simp]: "set (strings_difference a b) = set a - set b"
  by (auto simp: strings_difference_def)

section \<open>Reading back\<close>

section \<open>A concrete bond\<close>

definition sample_lag :: lag_model where
  "sample_lag =
     \<lparr>lg_id = TKnown ''cafe0001'', lg_name = TKnown ''bond0'', lg_mode = TNull, lg_miimon = TNull, lg_lacp_rate = TNull,
      lg_xmit_hash_policy = TNull, lg_mtu = TKnown 1500, lg_state = TKnown ''up'', lg_mac = TNull, lg_ipv4 = TNull,
      lg_ipv6 = TNull, lg_netns = TNull, lg_enslaved = TNull\<rparr>"

definition sample_member :: member_entry where
  "sample_member =
     \<lparr>me_idx = 3, me_name = ''eth1'', me_parent = [], me_flags = [''UP''], me_mtu = 1500, me_more = ''qdisc'',
      me_mac = [2, 0, 0, 0, 0, 1], me_brd = ''ff''\<rparr>"

lemma sample_member_ok: "member_entry_ok sample_member"
  by (simp add: member_entry_ok_def sample_member_def rx_space_def)

section \<open>Properties\<close>

text \<open>Creating a bond runs exactly the script of its configuration, in order, and stops after a prefix of it
  when a command fails.\<close>

theorem lag_setup_script:
  "emits (lag_setup ct (traced ex) d ip data) (ip_calls d ip (lag_setup_words data))"
proof -
  show ?thesis
    unfolding lag_setup_def lag_setup_words_def Let_def
    by (rule back_subst [of "emits _"], (rule ip_script emits_with_elements emits_enslave_member)+, simp)
qed

text \<open>C21: Updating the members runs a script after which the members of the bond are those it had, without the
  ones that are no longer configured, and with the new ones: members that were never configured here stay.\<close>

theorem lag_update_members_effect:
  "\<exists>cs. emits (lag_update_members ct (traced ex) d ip (plan\<lparr>lg_enslaved := TKnown (map TKnown P)\<rparr>)
            (st\<lparr>lg_enslaved := TKnown (map TKnown S)\<rparr>)) cs \<and>
        members_under (calls_effect ip cs m) (tf_string (lg_name plan)) =
          (members_under m (tf_string (lg_name plan)) - (set S - set P)) \<union> (set P - set S)"
proof (intro exI conjI)
  have "lag_members_slice ct (TKnown (map TKnown xs)) = Inr xs" for xs
    by (simp add: lag_members_slice_def elements_as_def list_all_iff o_def)
  then show "emits (lag_update_members ct (traced ex) d ip (plan\<lparr>lg_enslaved := TKnown (map TKnown P)\<rparr>)
      (st\<lparr>lg_enslaved := TKnown (map TKnown S)\<rparr>)) (ip_calls d ip (update_words (tf_string (lg_name plan)) P S))"
    using emits_lag_update_members [of ct "plan\<lparr>lg_enslaved := TKnown (map TKnown P)\<rparr>" P "st\<lparr>lg_enslaved := TKnown (map TKnown S)\<rparr>" S]
    by simp
  show "members_under (calls_effect ip (ip_calls d ip (update_words (tf_string (lg_name plan)) P S)) m) (tf_string (lg_name plan)) =
      (members_under m (tf_string (lg_name plan)) - (set S - set P)) \<union> (set P - set S)"
    by (auto simp: update_words_def effect_release effect_enslave members_under_def)
qed

text \<open>Reading a bond keeps exactly the configured members that are still members of it: a foreign member that the
  target lists is never adopted.\<close>

theorem read_lag_members:
  assumes "run_state (read_lag ex d ip data) w = (Inr data', w')"
    and "answers ex d ip [''link'', ''show'', ''master'', tf_string (lg_name data)] (concat (map member_text es))"
    and "\<forall>e \<in> set es. member_entry_ok e" and "lg_enslaved data = TKnown vs"
  shows "lg_enslaved data' = TKnown (filter (\<lambda>v. is_known v \<and> tf_string v \<in> me_name ` set es) vs)"
proof -
  have "\<exists>res. run_state (ip_call ex d ip msg [''link'', ''show'', ''master'', tf_string (lg_name data)]) v = (Inr res, v) \<and>
      r_stdout res = concat (map member_text es)" for msg v
    using run_ip_call_answers [OF assms(2)] by blast
  then obtain f where f: "run_state (ip_call ex d ip msg [''link'', ''show'', ''master'', tf_string (lg_name data)]) v = (Inr (f msg v), v)"
    "r_stdout (f msg v) = concat (map member_text es)" for msg v
    by metis
  show ?thesis
    using assms(1,4) f members_of_members [OF assms(3)]
    by (auto simp: read_lag_def Let_def kept_members_def split: sum.splits prod.splits)
qed

theorem read_lag_members_witness:
  "\<exists>data' :: lag_model. lg_enslaved data' = TKnown (filter (\<lambda>v. is_known v \<and> tf_string v \<in> me_name ` set [sample_member]) [TKnown ''eth1'', TKnown ''eth9''])"
proof -
  obtain data' where run: "run_state (read_lag (one_device [] (concat (map member_text [sample_member]))) ''/d'' (''ip'', [])
      (sample_lag\<lparr>lg_enslaved := TKnown [TKnown ''eth1'', TKnown ''eth9'']\<rparr>)) () = (Inr data', ())"
    by (simp add: read_lag_def sample_lag_def link_info_up Let_def)
  have "lg_enslaved data' = TKnown (filter (\<lambda>v. is_known v \<and> tf_string v \<in> me_name ` set [sample_member]) [TKnown ''eth1'', TKnown ''eth9''])"
    by (rule read_lag_members [OF run]) (simp_all only: answers_one_device sample_member_ok lag_model.simps, simp_all add: sample_member_ok)
  then show ?thesis by blast
qed

text \<open>Reading a bond whose address was removed keeps the address of the state.\<close>

theorem read_lag_keeps_removed_address:
  assumes "run_state (read_lag ex d ip data) w = (Inr data', w')"
    and "answers ex d ip [''addr'', ''show'', tf_string (lg_name data)] out" and "valid_ipv4 out = None"
  shows "lg_ipv4 data' = lg_ipv4 data"
proof -
  have "\<exists>res. run_state (ip_call ex d ip msg [''addr'', ''show'', tf_string (lg_name data)]) v = (Inr res, v) \<and>
      r_stdout res = out" for msg v
    using run_ip_call_answers [OF assms(2)] by blast
  then obtain f where f: "run_state (ip_call ex d ip msg [''addr'', ''show'', tf_string (lg_name data)]) v = (Inr (f msg v), v)"
    "r_stdout (f msg v) = out" for msg v
    by metis
  show ?thesis
    using assms(1,3) f
    by (auto simp: read_lag_def Let_def lag_with_addrs_def lag_with_link_def known_or_def split: sum.splits prod.splits tfval.splits)
qed

theorem read_lag_keeps_removed_address_witness:
  "\<exists>data' :: lag_model. lg_ipv4 data' = TKnown ''10.0.0.1/24'' \<and>
     run_state (read_lag (one_device [] []) ''/d'' (''ip'', []) (sample_lag\<lparr>lg_ipv4 := TKnown ''10.0.0.1/24''\<rparr>)) () = (Inr data', ())"
proof -
  obtain data' where run: "run_state (read_lag (one_device [] []) ''/d'' (''ip'', [])
      (sample_lag\<lparr>lg_ipv4 := TKnown ''10.0.0.1/24''\<rparr>)) () = (Inr data', ())"
    by (simp add: read_lag_def sample_lag_def link_info_up Let_def)
  have "valid_ipv4 [] = None" by code_simp
  from read_lag_keeps_removed_address [OF run _ this] have "lg_ipv4 data' = TKnown ''10.0.0.1/24''"
    by (simp add: answers_one_device)
  with run show ?thesis by blast
qed

text \<open>Deleting a bond that is already gone succeeds, when the output of \<^verbatim>\<open>ip\<close> says so, and removes its directory.\<close>

theorem lag_delete_idempotent:
  assumes "s \<in> set intf_not_found_strs" and "str_contains (r_stderr res) s"
  shows "run_state (lag_delete (sample_conf (failing_executor res e)) data) w = (Inr (), w)"
proof -
  have "diags_any (result_diagnostics res) intf_not_found_strs"
    using assms by (auto simp: diags_any_iff result_diagnostics_def add_error_def)
  then show ?thesis by (simp add: lag_delete_def Let_def run_ip_def diags_none_iff)
qed

theorem lag_delete_idempotent_witness:
  "\<forall>data. run_state (lag_delete (sample_conf (failing_executor gone_result (Err ''exit status 1''))) data) () = (Inr (), ())"
proof
  fix data
  have "str_contains (r_stderr gone_result) ''Cannot find device''"
    by (simp add: gone_result_def new_result_def)
  then show "run_state (lag_delete (sample_conf (failing_executor gone_result (Err ''exit status 1''))) data) () = (Inr (), ())"
    by (intro lag_delete_idempotent [of "''Cannot find device''"]) (simp_all add: intf_not_found_strs_def)
qed

end
