(* ===== verification/Bridge.thy ===== *)
theory Bridge
  imports Net_Link
begin

text \<open>
  The resource \<^verbatim>\<open>zedamigo_bridge\<close> (\<^verbatim>\<open>internal/provider/bridge_resource.go\<close>): a Linux bridge. It
  has no update in place; \<^verbatim>\<open>Delete\<close> recognises a missing device by the text of the command's
  error only, unlike the bond.
\<close>

record bridge_model =
  br_id :: "string tfval"
  br_name :: "string tfval"
  br_mtu :: "int tfval"
  br_state :: "string tfval"
  br_mac :: "string tfval"
  br_ipv4 :: "string tfval"
  br_ipv6 :: "string tfval"
  br_netns :: "string tfval"
  br_enslaved :: "string tfval list tfval"

definition bridge_dir :: "'w provider_conf \<Rightarrow> string \<Rightarrow> string" where
  "bridge_dir conf i = path_join [pc_lib_path conf, ''bridges'', i]"

section \<open>Reading\<close>

definition bridge_with_link :: "bridge_model \<Rightarrow> link_details \<Rightarrow> bridge_model" where
  "bridge_with_link data li =
     data\<lparr>br_mtu := known_or (br_mtu data) (li_mtu li), br_state := TKnown (state_word (li_up li)),
          br_mac := known_or (br_mac data) (li_mac li)\<rparr>"

definition bridge_with_addrs :: "bridge_model \<Rightarrow> string \<Rightarrow> bridge_model" where
  "bridge_with_addrs data out =
     data\<lparr>br_ipv4 := known_or (br_ipv4 data) (valid_ipv4 out), br_ipv6 := known_or (br_ipv6 data) (valid_ipv6 out)\<rparr>"

text \<open>When none of the managed members remains, the attribute becomes null.\<close>

definition read_bridge ::
    "'w executor \<Rightarrow> string \<Rightarrow> string \<times> string list \<Rightarrow> bridge_model \<Rightarrow> ('w, bridge_model) helper" where
  "read_bridge ex d ip data =
     (let br = tf_string (br_name data)
      in bindE (ip_call ex d ip (''can't retrieve bridge '' @ sq @ br @ sq @ '' details: '') [''link'', ''show'', br])
           (\<lambda>res. bindE (State_Monad.return (link_info ''bridge'' br res)) (\<lambda>li.
         bindE (ip_call ex d ip (''can't retrieve bridge '' @ sq @ br @ sq @ '' addreses: '') [''addr'', ''show'', br])
           (\<lambda>res2. let m2 = bridge_with_addrs (bridge_with_link data li) (r_stdout res2)
             in case br_enslaved data of
                  TKnown es \<Rightarrow>
                    bindE (ip_call ex d ip (''can't retrieve bridge '' @ sq @ br @ sq @ '' members: '')
                             [''link'', ''show'', ''master'', br]) (\<lambda>res3.
                    let kept = kept_members (members_of (r_stdout res3)) es
                    in okE (m2\<lparr>br_enslaved := (if length kept > 0 then TKnown kept else TNull)\<rparr>))
                | _ \<Rightarrow> okE (m2\<lparr>br_enslaved := TNull\<rparr>)))))"

section \<open>Create\<close>

definition bridge_enslave ::
    "'w executor \<Rightarrow> string \<Rightarrow> string \<times> string list \<Rightarrow> string \<Rightarrow> string \<Rightarrow> ('w, unit) handler" where
  "bridge_enslave ex d ip br intf =
     seqE
       [ip_step ex d ip
          (add_error ''Bridge Resource Error''
             (''Unable to enslave interface '' @ sq @ intf @ sq @ '' to bridge '' @ sq @ br @ sq @ ''.''))
          [''link'', ''set'', ''dev'', intf, ''master'', br],
        ip_step ex d ip
          (add_error ''Bridge Resource Error'' (''Unable to bring enslaved interface '' @ sq @ intf @ sq @ '' up.''))
          [''link'', ''set'', ''dev'', intf, ''up'']]"

definition bridge_setup ::
    "'w controller \<Rightarrow> 'w executor \<Rightarrow> string \<Rightarrow> string \<times> string list \<Rightarrow> bridge_model \<Rightarrow> ('w, unit) handler" where
  "bridge_setup ct ex d ip data =
     (let br = tf_string (br_name data); e = ''Bridge Resource Error'';
          failed = add_error e ''Unable to create a new bridge.''
      in seqE
        [ip_step ex d ip failed [''link'', ''add'', br, ''type'', ''bridge''],
         whenE (is_known (br_mtu data))
           (ip_step ex d ip failed [''link'', ''set'', ''dev'', br, ''mtu'', itoa (tf_int (br_mtu data))]),
         whenE (is_known (br_state data))
           (ip_step ex d ip failed [''link'', ''set'', ''dev'', br, tf_string (br_state data)]),
         whenE (is_known (br_mac data))
           (ip_step ex d ip (add_error e ''Unable to set MAC address for bridge.'')
              [''link'', ''set'', ''dev'', br, ''address'', tf_string (br_mac data)]),
         whenE (is_known (br_ipv4 data))
           (add_cidr_step ex d ip br
              (''Invalid IPv4 address format'', ''IPv4 address must be in CIDR format (e.g., '' @ sq @ ''192.168.1.1/24'' @ sq @ ''): '')
              failed (tf_string (br_ipv4 data))),
         whenE (is_known (br_ipv6 data))
           (add_cidr_step ex d ip br
              (''Invalid IPv6 address format'', ''IPv6 address must be in CIDR format (e.g., '' @ sq @ ''fd00::1/64'' @ sq @ ''): '')
              failed (tf_string (br_ipv6 data))),
         whenE (is_known (br_enslaved data))
           (bindE (State_Monad.return (elements_as ct (tf_value [] (br_enslaved data)))) (\<lambda>ifaces.
              forE ifaces (bridge_enslave ex d ip br)))])"

definition bridge_create :: "'w controller \<Rightarrow> 'w provider_conf \<Rightarrow> bridge_model \<Rightarrow> ('w, bridge_model) handler" where
  "bridge_create ct conf data =
     (let ex = pc_exec conf; t = ''Bridge Resource Error''
      in bindE (mapE (\<lambda>e. [add_error t (''Unable to generate a new resource ID: '' @ err_msg e)]) (new_resource_id ct)) (\<lambda>i.
         let data = data\<lparr>br_id := TKnown i\<rparr>; d = bridge_dir conf i;
             ip = build_ip_command conf (netns_of (br_netns data)); br = tf_string (br_name data)
         in bindE (orE (ex_mkdir_all ex d mode_700)
                (\<lambda>e. [add_error t (''Unable to create resource specific directory: '' @ err_msg e)])) (\<lambda>_.
            bindE (orE (create_tf_back_pointer ct ex d)
                (\<lambda>e. [add_error t (''Unable to create resource specific file: '' @ err_msg e)])) (\<lambda>_.
            bindE (bridge_setup ct ex d ip data) (\<lambda>_.
            bindE (mapE (helper_failed ''Failed to read bridge state'') (read_bridge ex d ip data)) (\<lambda>data.
            bindE (whenE (is_known (br_ipv6 data))
                     (add_link_local_step ex d ip br (t, ''bridge'')
                        (add_error t ''Unable to create a new bridge.'')
                        (tf_string (br_mac data)))) (\<lambda>_.
            okE data)))))))"

section \<open>Read, Update, Delete\<close>

definition bridge_read :: "'w provider_conf \<Rightarrow> bridge_model \<Rightarrow> ('w, bridge_model option) handler" where
  "bridge_read conf data = do {
     let d = bridge_dir conf (tf_string (br_id data));
     let ip = build_ip_command conf (netns_of (br_netns data));
     r \<leftarrow> read_bridge (pc_exec conf) d ip data;
     case r of
       Inl (diags, e) \<Rightarrow>
         (if contains_any (Some e) intf_not_found_strs \<or> diags_any diags intf_not_found_strs then okE None
          else failE (helper_failed ''Failed to read bridge state'' (diags, e)))
     | Inr data' \<Rightarrow> okE (Some data') }"

definition bridge_update :: "bridge_model \<Rightarrow> ('w, bridge_model) handler" where
  "bridge_update data = failE [add_error ''Bridge Resource Update Error'' ''Update is not supported.'']"

definition bridge_delete :: "'w provider_conf \<Rightarrow> bridge_model \<Rightarrow> ('w, unit) handler" where
  "bridge_delete conf data = do {
     let br = tf_string (br_name data);
     let d = bridge_dir conf (tf_string (br_id data));
     let ip = build_ip_command conf (netns_of (br_netns data));
     (res, err) \<leftarrow> run_ip (pc_exec conf) d ip [''link'', ''delete'', br, ''type'', ''bridge''];
     if err \<noteq> None \<and> \<not> any_contained (err_msg (the err)) intf_not_found_strs
     then failE (add_error ''Failed to delete bridge'' (err_msg (the err)) # result_diagnostics res)
     else orE (ex_remove (pc_exec conf) d)
            (\<lambda>e. [add_error ''Bridge Resource Delete Error''
                     (''Can't delete bridge resource directory: '' @ err_msg e)]) }"

section \<open>What Create emits\<close>

definition bridge_setup_words :: "bridge_model \<Rightarrow> string list list" where
  "bridge_setup_words data =
     (let br = tf_string (br_name data)
      in [[''link'', ''add'', br, ''type'', ''bridge'']] @
         (if is_known (br_mtu data) then [[''link'', ''set'', ''dev'', br, ''mtu'', itoa (tf_int (br_mtu data))]] else []) @
         (if is_known (br_state data) then [[''link'', ''set'', ''dev'', br, tf_string (br_state data)]] else []) @
         (if is_known (br_mac data) then [[''link'', ''set'', ''dev'', br, ''address'', tf_string (br_mac data)]] else []) @
         (if is_known (br_ipv4 data) then [[''addr'', ''add'', tf_string (br_ipv4 data), ''dev'', br]] else []) @
         (if is_known (br_ipv6 data) then [[''addr'', ''add'', tf_string (br_ipv6 data), ''dev'', br]] else []) @
         concat (map (\<lambda>i. [[''link'', ''set'', ''dev'', i, ''master'', br], [''link'', ''set'', ''dev'', i, ''up'']])
           (map tf_string (tf_value [] (br_enslaved data)))))"

lemma emits_bridge_enslave:
  "emits (bridge_enslave (traced ex) d ip br intf)
     (ip_calls d ip [[''link'', ''set'', ''dev'', intf, ''master'', br], [''link'', ''set'', ''dev'', intf, ''up'']])"
  unfolding bridge_enslave_def
  by (rule back_subst [of "emits _"], (rule ip_script)+, simp)

section \<open>Properties\<close>

text \<open>Creating a bridge runs exactly the script of its configuration, in order, and stops after a prefix of it when
  a command fails.\<close>

theorem bridge_setup_script:
  "emits (bridge_setup ct (traced ex) d ip data) (ip_calls d ip (bridge_setup_words data))"
  unfolding bridge_setup_def bridge_setup_words_def Let_def
  by (rule back_subst [of "emits _"], (rule ip_script emits_with_elements emits_bridge_enslave)+, simp)

text \<open>Deleting a bridge that is already gone fails when only the output of \<^verbatim>\<open>ip\<close>, and not its error, says so; what
  the output says makes no difference.\<close>

theorem bridge_delete_not_idempotent:
  assumes "\<not> any_contained (err_msg e) intf_not_found_strs"
  shows "run_state (bridge_delete (sample_conf (failing_executor res e)) data) w =
    (Inl (add_error ''Failed to delete bridge'' (err_msg e) # result_diagnostics res), w)"
  using assms by (simp add: bridge_delete_def Let_def run_ip_def)

theorem bridge_delete_not_idempotent_witness:
  "\<forall>data. run_state (bridge_delete (sample_conf (failing_executor gone_result (Err ''exit status 1''))) data) () =
    (Inl (add_error ''Failed to delete bridge'' ''exit status 1'' # result_diagnostics gone_result), ())"
proof
  fix data
  have "\<not> any_contained (err_msg (Err ''exit status 1'')) intf_not_found_strs"
    by code_simp
  from bridge_delete_not_idempotent [OF this] show "run_state (bridge_delete (sample_conf (failing_executor gone_result (Err ''exit status 1''))) data) () =
    (Inl (add_error ''Failed to delete bridge'' ''exit status 1'' # result_diagnostics gone_result), ())"
    by simp
qed

end
