(* ===== verification/Vlan.thy ===== *)
theory Vlan
  imports Net_Link
begin

text \<open>
  The resource \<^verbatim>\<open>zedamigo_vlan\<close> (\<^verbatim>\<open>internal/provider/vlan_resource.go\<close>): a VLAN sub-interface of
  a parent interface, always in the default namespace.
\<close>

record vlan_model =
  vl_id :: "string tfval"
  vl_vlan_id :: "int tfval"
  vl_name :: "string tfval"
  vl_mtu :: "int tfval"
  vl_state :: "string tfval"
  vl_parent :: "string tfval"
  vl_mac :: "string tfval"
  vl_ipv4 :: "string tfval"
  vl_ipv6 :: "string tfval"

definition vlan_dir :: "'w provider_conf \<Rightarrow> string \<Rightarrow> string" where
  "vlan_dir conf i = path_join [pc_lib_path conf, ''vlan_intfs'', i]"

definition vlan_name :: "vlan_model \<Rightarrow> string" where
  "vlan_name data = tf_string (vl_parent data) @ ''.'' @ itoa (tf_int (vl_vlan_id data))"

section \<open>Reading\<close>

definition vlan_with_link :: "vlan_model \<Rightarrow> link_details \<Rightarrow> vlan_model" where
  "vlan_with_link data li =
     data\<lparr>vl_mtu := known_or (vl_mtu data) (li_mtu li), vl_state := TKnown (state_word (li_up li)),
          vl_mac := known_or (vl_mac data) (li_mac li)\<rparr>"

definition vlan_with_addrs :: "vlan_model \<Rightarrow> string \<Rightarrow> vlan_model" where
  "vlan_with_addrs data out =
     data\<lparr>vl_ipv4 := known_or (vl_ipv4 data) (valid_ipv4 out), vl_ipv6 := known_or (vl_ipv6 data) (valid_ipv6 out)\<rparr>"

definition read_vlan ::
    "'w executor \<Rightarrow> string \<Rightarrow> string \<times> string list \<Rightarrow> vlan_model \<Rightarrow> ('w, vlan_model) helper" where
  "read_vlan ex d ip data =
     (let dev = tf_string (vl_name data)
      in bindE (ip_call ex d ip (''can't retrieve VLAN '' @ sq @ dev @ sq @ '' details: '') [''link'', ''show'', dev])
           (\<lambda>res. bindE (State_Monad.return (link_info ''VLAN'' dev res)) (\<lambda>li.
         bindE (ip_call ex d ip (''can't retrieve VLAN '' @ sq @ dev @ sq @ '' addreses: '') [''addr'', ''show'', dev])
           (\<lambda>res2. okE (vlan_with_addrs (vlan_with_link data li) (r_stdout res2))))))"

section \<open>Create\<close>

definition vlan_setup :: "'w executor \<Rightarrow> string \<Rightarrow> string \<times> string list \<Rightarrow> vlan_model \<Rightarrow> ('w, unit) handler" where
  "vlan_setup ex d ip data =
     (let dev = vlan_name data; failed = add_error ''VLAN Resource Error'' ''Unable to create a new VLAN.''
      in seqE
        [ip_step ex d ip failed
           [''link'', ''add'', ''link'', tf_string (vl_parent data), ''name'', dev, ''type'', ''vlan'', ''id'',
            itoa (tf_int (vl_vlan_id data))],
         whenE (is_known (vl_mtu data))
           (ip_step ex d ip failed [''link'', ''set'', ''dev'', dev, ''mtu'', itoa (tf_int (vl_mtu data))]),
         whenE (is_known (vl_state data))
           (ip_step ex d ip failed [''link'', ''set'', ''dev'', dev, tf_string (vl_state data)]),
         whenE (is_known (vl_ipv4 data))
           (add_cidr_step ex d ip dev
              (''Invalid IPv4 address format'', ''IPv4 address must be in CIDR format (e.g., '' @ sq @ ''192.168.1.1/24'' @ sq @ ''): '')
              failed (tf_string (vl_ipv4 data))),
         whenE (is_known (vl_ipv6 data))
           (add_cidr_step ex d ip dev
              (''Invalid IPv6 address format'', ''IPv6 address must be in CIDR format (e.g., '' @ sq @ ''fd00::1/64'' @ sq @ ''): '')
              failed (tf_string (vl_ipv6 data)))])"

definition vlan_create :: "'w controller \<Rightarrow> 'w provider_conf \<Rightarrow> vlan_model \<Rightarrow> ('w, vlan_model) handler" where
  "vlan_create ct conf data =
     (let ex = pc_exec conf; t = ''VLAN Resource Error''
      in bindE (mapE (\<lambda>e. [add_error t (''Unable to generate a new resource ID: '' @ err_msg e)]) (new_resource_id ct)) (\<lambda>i.
         let d = vlan_dir conf i; dev = vlan_name data;
             data = data\<lparr>vl_id := TKnown i, vl_name := TKnown dev\<rparr>;
             ip = build_ip_command conf []
         in bindE (orE (ex_mkdir_all ex d mode_700)
                (\<lambda>e. [add_error t (''Unable to create resource specific directory: '' @ err_msg e)])) (\<lambda>_.
            bindE (orE (create_tf_back_pointer ct ex d)
                (\<lambda>e. [add_error t (''Unable to create resource specific file: '' @ err_msg e)])) (\<lambda>_.
            bindE (vlan_setup ex d ip data) (\<lambda>_.
            bindE (mapE (helper_failed ''Failed to read VLAN state'') (read_vlan ex d ip data)) (\<lambda>data.
            bindE (whenE (is_known (vl_ipv6 data))
                     (add_link_local_step ex d ip dev (t, ''VLAN'')
                        (add_error t ''Unable to create a new VLAN.'')
                        (tf_string (vl_mac data)))) (\<lambda>_.
            okE data)))))))"

section \<open>Read, Update, Delete\<close>

definition vlan_read :: "'w provider_conf \<Rightarrow> vlan_model \<Rightarrow> ('w, vlan_model option) handler" where
  "vlan_read conf data = do {
     let d = vlan_dir conf (tf_string (vl_id data));
     let ip = build_ip_command conf [];
     r \<leftarrow> read_vlan (pc_exec conf) d ip data;
     case r of
       Inl (diags, e) \<Rightarrow>
         (if contains_any (Some e) intf_not_found_strs \<or> diags_any diags intf_not_found_strs then okE None
          else failE (helper_failed ''Failed to read VLAN state'' (diags, e)))
     | Inr data' \<Rightarrow> okE (Some data') }"

definition vlan_update :: "vlan_model \<Rightarrow> ('w, vlan_model) handler" where
  "vlan_update data = failE [add_error ''VLAN Resource Update Error'' ''Update is not supported.'']"

definition vlan_delete :: "'w provider_conf \<Rightarrow> vlan_model \<Rightarrow> ('w, unit) handler" where
  "vlan_delete conf data = do {
     let d = vlan_dir conf (tf_string (vl_id data));
     let ip = build_ip_command conf [];
     (res, err) \<leftarrow> run_ip (pc_exec conf) d ip [''link'', ''del'', tf_string (vl_name data)];
     if err \<noteq> None \<and> contains_none err intf_not_found_strs \<and>
        diags_none (result_diagnostics res) intf_not_found_strs
     then failE (add_error ''Failed to delete VLAN'' (err_msg (the err)) # result_diagnostics res)
     else orE (ex_remove (pc_exec conf) d)
            (\<lambda>e. [add_error ''VLAN Resource Delete Error'' (''Can't delete VLAN resource directory: '' @ err_msg e)]) }"

section \<open>What Create emits\<close>

definition vlan_setup_words :: "vlan_model \<Rightarrow> string list list" where
  "vlan_setup_words data =
     (let dev = vlan_name data
      in [[''link'', ''add'', ''link'', tf_string (vl_parent data), ''name'', dev, ''type'', ''vlan'', ''id'',
           itoa (tf_int (vl_vlan_id data))]] @
         (if is_known (vl_mtu data) then [[''link'', ''set'', ''dev'', dev, ''mtu'', itoa (tf_int (vl_mtu data))]] else []) @
         (if is_known (vl_state data) then [[''link'', ''set'', ''dev'', dev, tf_string (vl_state data)]] else []) @
         (if is_known (vl_ipv4 data) then [[''addr'', ''add'', tf_string (vl_ipv4 data), ''dev'', dev]] else []) @
         (if is_known (vl_ipv6 data) then [[''addr'', ''add'', tf_string (vl_ipv6 data), ''dev'', dev]] else []))"

section \<open>Properties\<close>

text \<open>Creating a VLAN runs exactly the script of its configuration, which has no command for the MAC address: two
  configurations that differ in it alone run the same script.\<close>

theorem vlan_setup_script:
  "emits (vlan_setup (traced ex) d ip (data\<lparr>vl_mac := a\<rparr>)) (ip_calls d ip (vlan_setup_words data))"
proof -
  have same: "vlan_setup (traced ex) d ip (data\<lparr>vl_mac := a\<rparr>) = vlan_setup (traced ex) d ip data"
    by (simp add: vlan_setup_def vlan_name_def)
  show ?thesis
    unfolding same unfolding vlan_setup_def vlan_setup_words_def Let_def
    by (rule back_subst [of "emits _"], (rule ip_script)+, simp)
qed

end
