(* ===== verification/Tap.thy ===== *)
theory Tap
  imports Net_Link
begin

text \<open>
  The resource \<^verbatim>\<open>zedamigo_tap\<close> (\<^verbatim>\<open>internal/provider/tap_resource.go\<close>): a TAP interface, created
  in the default namespace and, when a namespace is asked for, handed to the mover daemon,
  whose progress is read from its status file.
\<close>

record tap_model =
  tp_id :: "string tfval"
  tp_name :: "string tfval"
  tp_mtu :: "int tfval"
  tp_state :: "string tfval"
  tp_owner :: "string tfval"
  tp_group :: "string tfval"
  tp_master :: "string tfval"
  tp_ipv4 :: "string tfval"
  tp_netns :: "string tfval"
  tp_mover_status :: "string tfval"

definition tap_dir :: "'w provider_conf \<Rightarrow> string \<Rightarrow> string" where
  "tap_dir conf i = path_join [pc_lib_path conf, ''tap_intfs'', i]"

section \<open>Reading\<close>

text \<open>\<open>master (\S+)\<close> in the first line of \<^verbatim>\<open>ip link show\<close>.\<close>

definition find_master :: "string \<Rightarrow> string option" where
  "find_master line = map_option fst (rx_find [RLit ''master ''] [RPlus (\<lambda>c. \<not> rx_space c)] line)"

text \<open>Master and address become null when nothing was read.\<close>

definition known_or_null :: "'a option \<Rightarrow> 'a tfval" where
  "known_or_null v = (case v of Some x \<Rightarrow> TKnown x | None \<Rightarrow> TNull)"

definition tap_with_link :: "tap_model \<Rightarrow> link_details \<Rightarrow> result \<Rightarrow> tap_model" where
  "tap_with_link data li res =
     data\<lparr>tp_mtu := known_or (tp_mtu data) (li_mtu li),
          tp_master := known_or_null (find_master (hd (split_on (CHR 0x0A) (r_stdout res)))),
          tp_state := TKnown (state_word (li_up li))\<rparr>"

definition read_tap ::
    "'w executor \<Rightarrow> string \<Rightarrow> string \<times> string list \<Rightarrow> tap_model \<Rightarrow> ('w, tap_model) helper" where
  "read_tap ex d ip data =
     (let dev = tf_string (tp_name data)
      in bindE (ip_call ex d ip (''can't retrieve TAP '' @ sq @ dev @ sq @ '' details: '') [''link'', ''show'', dev])
           (\<lambda>res. bindE (State_Monad.return (link_info ''TAP'' dev res)) (\<lambda>li.
         bindE (ip_call ex d ip (''can't retrieve TAP '' @ sq @ dev @ sq @ '' addreses: '') [''addr'', ''show'', dev])
           (\<lambda>res2. okE ((tap_with_link data li res)\<lparr>tp_ipv4 := known_or_null (valid_ipv4 (r_stdout res2))\<rparr>)))))"

section \<open>The mover daemon\<close>

definition value_if_known :: "string tfval \<Rightarrow> string" where
  "value_if_known v = (if is_known v then tf_string v else [])"

definition bool_word :: "bool \<Rightarrow> string" where
  "bool_word b = (if b then ''true'' else ''false'')"

definition mover_config :: "'w provider_conf \<Rightarrow> string \<Rightarrow> tap_model \<Rightarrow> string \<Rightarrow> string" where
  "mover_config conf d data netns =
     (let nl = [CHR 0x0A]
      in ''tap_name: '' @ go_quote (tf_string (tp_name data)) @ nl @
         ''netns: '' @ go_quote netns @ nl @
         ''master: '' @ go_quote (value_if_known (tp_master data)) @ nl @
         ''state: '' @ go_quote (value_if_known (tp_state data)) @ nl @
         ''ipv4_address: '' @ go_quote (value_if_known (tp_ipv4 data)) @ nl @
         ''status_file: '' @ go_quote (path_join [d, ''mover_status'']) @ nl @
         ''poll_interval_ms: 500'' @ nl @ ''timeout_s: 300'' @ nl @
         ''use_sudo: '' @ bool_word (pc_use_sudo conf) @ nl @
         ''sudo_path: '' @ go_quote (pc_sudo conf) @ nl @
         ''ip_path: '' @ go_quote (pc_ip conf) @ nl)"

text \<open>\<open>fmt_diags\<close> stands for \<^verbatim>\<open>%v\<close> of diagnostics, which the framework defines.\<close>

definition start_tap_mover ::
    "(diagnostics \<Rightarrow> string) \<Rightarrow> 'w provider_conf \<Rightarrow> string \<Rightarrow> tap_model \<Rightarrow> string \<Rightarrow> ('w, goerr option) state" where
  "start_tap_mover fmt_diags conf d data netns = do {
     let ex = pc_exec conf;
     let config_path = path_join [d, ''mover_config.yaml''];
     e1 \<leftarrow> ex_write_file ex config_path (mover_config conf d data netns) mode_600;
     case e1 of
       Some e \<Rightarrow> State_Monad.return (Some (wrapf ''can't write mover config: '' e))
     | None \<Rightarrow> do {
     let self = ex_self_path ex;
     let srv_cmd = (if pc_use_sudo conf then pc_sudo conf else self);
     let srv_args = (if pc_use_sudo conf then [''-n'', self] else []);
     (res, err) \<leftarrow> ex_run_detached ex d srv_cmd
        (srv_args @ [''-pid-file'', path_join [d, ''mover_pid''], ''-tap-mover'', ''-tm.config'', config_path]);
     State_Monad.return (case err of
        None \<Rightarrow> None
      | Some e \<Rightarrow> Some (Wrap (''failed to start TAP mover: '' @ err_msg e @ '', diagnostics: '' @
                              fmt_diags (result_diagnostics res)) e)) } }"

text \<open>\<^verbatim>\<open>strconv.ParseInt(s, 10, 32)\<close>.\<close>

definition parse_int32 :: "string \<Rightarrow> int option" where
  "parse_int32 s =
     (case atoi s of
        Some i \<Rightarrow> if - (2 ^ 31) \<le> i \<and> i < 2 ^ 31 then Some i else None
      | None \<Rightarrow> None)"

definition stop_tap_mover :: "'w executor \<Rightarrow> string \<Rightarrow> ('w, unit) state" where
  "stop_tap_mover ex d = do {
     r \<leftarrow> ex_read_file ex (path_join [d, ''mover_pid'']);
     case r of
       Inl _ \<Rightarrow> State_Monad.return ()
     | Inr pid_bytes \<Rightarrow>
         (case parse_int32 (trim_space pid_bytes) of
            None \<Rightarrow> State_Monad.return ()
          | Some pid \<Rightarrow> do { _ \<leftarrow> ex_kill ex pid 9; State_Monad.return () }) }"

definition mover_word :: "string \<Rightarrow> string" where
  "mover_word content =
     (if str_contains content ([CHR 0x22] @ ''moved'' @ [CHR 0x22]) then ''moved''
      else if str_contains content ([CHR 0x22] @ ''error'' @ [CHR 0x22]) then ''error'' else ''pending'')"

definition read_mover_status :: "'w executor \<Rightarrow> string \<Rightarrow> ('w, string) state" where
  "read_mover_status ex d = do {
     r \<leftarrow> ex_read_file ex (path_join [d, ''mover_status'']);
     case r of
       Inl _ \<Rightarrow> do {
         st \<leftarrow> ex_stat ex (path_join [d, ''mover_pid'']);
         State_Monad.return (case st of Inr _ \<Rightarrow> ''pending'' | Inl _ \<Rightarrow> []) }
     | Inr content \<Rightarrow> State_Monad.return (mover_word (trim_space content)) }"

section \<open>Create\<close>

definition tap_setup_plain :: "'w executor \<Rightarrow> string \<Rightarrow> string \<times> string list \<Rightarrow> tap_model \<Rightarrow> ('w, unit) handler" where
  "tap_setup_plain ex d ip data =
     (let dev = tf_string (tp_name data); failed = add_error ''TAP Resource Error'' ''Unable to create a new TAP.''
      in seqE
        [whenE (is_known (tp_master data))
           (ip_step ex d ip failed [''link'', ''set'', ''dev'', dev, ''master'', tf_string (tp_master data)]),
         whenE (is_known (tp_state data))
           (ip_step ex d ip failed [''link'', ''set'', ''dev'', dev, tf_string (tp_state data)]),
         whenE (is_known (tp_ipv4 data))
           (ip_step ex d ip failed [''addr'', ''add'', tf_string (tp_ipv4 data), ''dev'', dev])])"

definition tap_create ::
    "(diagnostics \<Rightarrow> string) \<Rightarrow> 'w controller \<Rightarrow> 'w provider_conf \<Rightarrow> tap_model \<Rightarrow> ('w, tap_model) handler" where
  "tap_create fmt_diags ct conf data =
     (let ex = pc_exec conf; t = ''TAP Resource Error'';
          failed = add_error t ''Unable to create a new TAP.''
      in bindE (mapE (\<lambda>e. [add_error t (''Unable to generate a new resource ID: '' @ err_msg e)]) (new_resource_id ct)) (\<lambda>i.
         let data = data\<lparr>tp_id := TKnown i\<rparr>; d = tap_dir conf i; dev = tf_string (tp_name data);
             ip = build_ip_command conf []
         in bindE (seqE
              [orE (ex_mkdir_all ex d mode_700)
                 (\<lambda>e. [add_error t (''Unable to create resource specific directory: '' @ err_msg e)]),
               orE (create_tf_back_pointer ct ex d)
                 (\<lambda>e. [add_error t (''Unable to create resource specific file: '' @ err_msg e)]),
               ip_step ex d ip failed
                 ([''tuntap'', ''add'', ''dev'', dev, ''mode'', ''tap''] @ option_args ''user'' (tp_owner data) @
                  option_args ''group'' (tp_group data)),
               whenE (is_known (tp_mtu data))
                 (ip_step ex d ip failed [''link'', ''set'', ''dev'', dev, ''mtu'', itoa (tf_int (tp_mtu data))]),
               whenE (is_known (tp_ipv4 data) \<and> parse_cidr (tf_string (tp_ipv4 data)) = None)
                 (failE [add_error ''Invalid IPv4 address format''
                           (''IPv4 address must be in CIDR format (e.g., '' @ sq @ ''192.168.1.1/24'' @ sq @ ''): '' @
                            err_msg (cidr_error (tf_string (tp_ipv4 data))))])]) (\<lambda>_.
            if is_known (tp_netns data) then
              bindE (orE (start_tap_mover fmt_diags conf d data (tf_string (tp_netns data)))
                       (\<lambda>e. [add_error t (''Failed to start TAP mover daemon: '' @ err_msg e)])) (\<lambda>_.
              okE (data\<lparr>tp_mover_status := TKnown ''pending''\<rparr>))
            else
              (let data = data\<lparr>tp_mover_status := TKnown []\<rparr>
               in bindE (tap_setup_plain ex d ip data) (\<lambda>_.
                  mapE (helper_failed ''Failed to read TAP state'') (read_tap ex d ip data))))))"

section \<open>Read, Update, Delete\<close>

text \<open>The common end of the three branches of \<^verbatim>\<open>Read\<close>.\<close>

definition tap_read_in ::
    "'w executor \<Rightarrow> string \<Rightarrow> string \<times> string list \<Rightarrow> tap_model \<Rightarrow> (tap_model \<Rightarrow> tap_model) \<Rightarrow>
     ('w, tap_model option) handler" where
  "tap_read_in ex d ip data finish = do {
     r \<leftarrow> read_tap ex d ip data;
     case r of
       Inl (diags, e) \<Rightarrow>
         (if contains_any (Some e) intf_not_found_strs \<or> diags_any diags intf_not_found_strs then okE None
          else failE (helper_failed ''Failed to read TAP state'' (diags, e)))
     | Inr data' \<Rightarrow> okE (Some (finish data')) }"

definition tap_read :: "'w provider_conf \<Rightarrow> tap_model \<Rightarrow> ('w, tap_model option) handler" where
  "tap_read conf data =
     (let d = tap_dir conf (tf_string (tp_id data)); ex = pc_exec conf
      in if is_known (tp_netns data) then do {
           status \<leftarrow> read_mover_status ex d;
           let data = data\<lparr>tp_mover_status := TKnown status\<rparr>;
           if status = ''moved''
           then tap_read_in ex d (build_ip_command conf (tf_string (tp_netns data))) data (\<lambda>m. m)
           else tap_read_in ex d (build_ip_command conf []) data
                  (\<lambda>m. m\<lparr>tp_master := tp_master data, tp_state := tp_state data, tp_ipv4 := tp_ipv4 data\<rparr>) }
         else tap_read_in ex d (build_ip_command conf []) (data\<lparr>tp_mover_status := TKnown []\<rparr>) (\<lambda>m. m))"

definition tap_update :: "tap_model \<Rightarrow> ('w, tap_model) handler" where
  "tap_update data = failE [add_error ''TAP Resource Update Error'' ''Update is not supported.'']"

text \<open>A removal step of \<^verbatim>\<open>Delete\<close>.\<close>

definition tap_remove_step ::
    "'w executor \<Rightarrow> string \<Rightarrow> string \<times> string list \<Rightarrow> string list \<Rightarrow> ('w, unit) handler" where
  "tap_remove_step ex d ip words = do {
     (res, err) \<leftarrow> run_ip ex d ip words;
     if err \<noteq> None \<and> contains_none err intf_not_found_strs \<and>
        diags_none (result_diagnostics res) intf_not_found_strs
     then failE (add_error ''Failed to delete TAP'' (err_msg (the err)) # result_diagnostics res)
     else okE () }"

definition tap_delete :: "'w provider_conf \<Rightarrow> tap_model \<Rightarrow> ('w, unit) handler" where
  "tap_delete conf data =
     (let ex = pc_exec conf; dev = tf_string (tp_name data); d = tap_dir conf (tf_string (tp_id data));
          ip = build_ip_command conf []
      in seqE
        [whenE (is_known (tp_netns data)) (do {
           _ \<leftarrow> stop_tap_mover ex d;
           _ \<leftarrow> run_ip ex d (build_ip_command conf (tf_string (tp_netns data))) [''link'', ''set'', dev, ''netns'', ''1''];
           okE () }),
         whenE (tp_master data \<noteq> TNull) (tap_remove_step ex d ip [''link'', ''set'', ''dev'', dev, ''nomaster'']),
         tap_remove_step ex d ip [''tuntap'', ''delete'', ''dev'', dev, ''mode'', ''tap''],
         orE (ex_remove ex d)
           (\<lambda>e. [add_error ''TAP Resource Delete Error'' (''Can't delete TAP resource directory: '' @ err_msg e)])])"

section \<open>Lemmas\<close>

section \<open>A concrete TAP\<close>

definition sample_tap :: tap_model where
  "sample_tap =
     \<lparr>tp_id = TKnown ''cafe0001'', tp_name = TKnown ''tap0'', tp_mtu = TKnown 1500, tp_state = TKnown ''up'', tp_owner = TNull,
      tp_group = TNull, tp_master = TNull, tp_ipv4 = TKnown ''10.0.0.1/24'', tp_netns = TNull, tp_mover_status = TKnown []\<rparr>"

section \<open>Properties\<close>

text \<open>Reading a TAP reports the IPv4 address that the target has now, and none when it was removed.\<close>

theorem read_tap_ipv4:
  assumes "answers ex d ip [''link'', ''show'', tf_string (tp_name data)] out1"
    and "answers ex d ip [''addr'', ''show'', tf_string (tp_name data)] out2"
    and "run_state (read_tap ex d ip data) w = (Inr data', w')"
  shows "tp_ipv4 data' = known_or_null (valid_ipv4 out2)"
proof -
  obtain r1 where "run_state (ip_call ex d ip (''can't retrieve TAP '' @ sq @ tf_string (tp_name data) @ sq @ '' details: '')
      [''link'', ''show'', tf_string (tp_name data)]) w = (Inr r1, w)"
    using run_ip_call_answers [OF assms(1)] by blast
  moreover obtain r2 where "run_state (ip_call ex d ip (''can't retrieve TAP '' @ sq @ tf_string (tp_name data) @ sq @ '' addreses: '')
      [''addr'', ''show'', tf_string (tp_name data)]) w = (Inr r2, w)" "r_stdout r2 = out2"
    using run_ip_call_answers [OF assms(2)] by blast
  ultimately show ?thesis
    using assms(3) by (auto simp: read_tap_def Let_def split: sum.splits)
qed

theorem read_tap_ipv4_witness:
  "\<exists>data'. run_state (read_tap (one_device [] []) ''/d'' (''ip'', []) sample_tap) () = (Inr data', ()) \<and> tp_ipv4 data' = TNull"
proof -
  obtain data' where run: "run_state (read_tap (one_device [] []) ''/d'' (''ip'', []) sample_tap) () = (Inr data', ())"
    by (simp add: read_tap_def sample_tap_def link_info_up Let_def)
  have "valid_ipv4 [] = None" by code_simp
  moreover have "tp_ipv4 data' = known_or_null (valid_ipv4 [])"
    by (rule read_tap_ipv4 [OF answers_one_device(1) answers_one_device(2) run]) (simp add: sample_tap_def)
  ultimately show ?thesis using run by (simp add: known_or_null_def)
qed

end
