(* ===== verification/Tap_Mover.thy ===== *)
theory Tap_Mover
  imports Tap
begin

text \<open>
  The TAP mover daemon (\<^verbatim>\<open>main_tap_mover_linux_amd64.go\<close>), which \<^verbatim>\<open>Create\<close> of a TAP starts: it waits for a
  link event of the TAP, moves it into its namespace, configures it there, and leaves one status
  file, which the TAP resource reads (theory \<open>Tap\<close>). Netlink and YAML are libraries: the daemon
  gets its decoded configuration and a list of what its \<^verbatim>\<open>select\<close> receives.
\<close>

section \<open>The status file\<close>

record mover_cfg =
  mc_tap :: string
  mc_netns :: string
  mc_master :: string
  mc_state :: string
  mc_ipv4 :: string
  mc_status_file :: string
  mc_poll_ms :: int
  mc_timeout_s :: int
  mc_use_sudo :: bool
  mc_sudo_path :: string
  mc_ip_path :: string

record mover_status =
  ms_status :: string
  ms_timestamp :: string
  ms_operstate_was :: string
  ms_error :: string

text \<open>How \<^verbatim>\<open>encoding/json\<close> writes a character of a (valid UTF-8) string.\<close>

definition json_escape :: "char \<Rightarrow> string" where
  "json_escape c =
     (let n = of_char c :: nat; bs = CHR 0x5C in
      if c = CHR 0x22 then [bs, CHR 0x22] else if c = bs then [bs, bs]
      else if c = CHR 0x08 then [bs, CHR ''b''] else if c = CHR 0x0C then [bs, CHR ''f'']
      else if c = CHR 0x0A then [bs, CHR ''n''] else if c = CHR 0x0D then [bs, CHR ''r'']
      else if c = CHR 0x09 then [bs, CHR ''t'']
      else if n < 32 \<or> c = CHR ''<'' \<or> c = CHR ''>'' \<or> c = CHR ''&'' then bs # ''u00'' @ [hex_char (n div 16), hex_char (n mod 16)]
      else [c])"

definition json_string :: "string \<Rightarrow> string" where
  "json_string s = [CHR 0x22] @ concat (map json_escape s) @ [CHR 0x22]"

definition json_field :: "string \<Rightarrow> string \<Rightarrow> string" where
  "json_field name v = json_string name @ '':'' @ json_string v"

text \<open>\<^verbatim>\<open>json.Marshal\<close> of the status; the last two fields are omitted when empty.\<close>

definition marshal_status :: "mover_status \<Rightarrow> string" where
  "marshal_status st =
     ''{'' @ str_join ([json_field ''status'' (ms_status st), json_field ''timestamp'' (ms_timestamp st)] @
              (if ms_operstate_was st \<noteq> [] then [json_field ''operstate_was'' (ms_operstate_was st)] else []) @
              (if ms_error st \<noteq> [] then [json_field ''error'' (ms_error st)] else [])) '','' @ ''}''"

section \<open>The daemon\<close>

record 'w mover_io =
  mi_combined_output :: "string \<Rightarrow> string list \<Rightarrow> ('w, string \<times> goerr option) state"
  mi_write_file :: "string \<Rightarrow> string \<Rightarrow> nat \<Rightarrow> ('w, goerr option) state"
  mi_now :: "('w, string) state"

definition exec_cmd :: "'w mover_io \<Rightarrow> string \<Rightarrow> string list \<Rightarrow> ('w, goerr + unit) state" where
  "exec_cmd io command args = do {
     (out, err) \<leftarrow> mi_combined_output io command args;
     case err of
       Some e \<Rightarrow> failE (Wrap (command @ '' '' @ fmt_strings args @ '': '' @ err_msg e @ '': '' @ trim_space out) e)
     | None \<Rightarrow> okE () }"

definition mover_ip :: "mover_cfg \<Rightarrow> string list \<Rightarrow> string \<times> string list" where
  "mover_ip cfg args =
     (if mc_use_sudo cfg then (mc_sudo_path cfg, [''-n'', mc_ip_path cfg] @ args) else (mc_ip_path cfg, args))"

definition mover_ip_netns :: "mover_cfg \<Rightarrow> string list \<Rightarrow> string \<times> string list" where
  "mover_ip_netns cfg args =
     (if mc_use_sudo cfg then
        (mc_sudo_path cfg, [''-n'', mc_ip_path cfg, ''netns'', ''exec'', mc_netns cfg, mc_ip_path cfg] @ args)
      else (mc_ip_path cfg, [''netns'', ''exec'', mc_netns cfg, mc_ip_path cfg] @ args))"

definition run_ip :: "'w mover_io \<Rightarrow> mover_cfg \<Rightarrow> string list \<Rightarrow> ('w, goerr + unit) state" where
  "run_ip io cfg args = (case mover_ip cfg args of (c, as) \<Rightarrow> exec_cmd io c as)"

definition run_ip_in_netns :: "'w mover_io \<Rightarrow> mover_cfg \<Rightarrow> string list \<Rightarrow> ('w, goerr + unit) state" where
  "run_ip_in_netns io cfg args = (case mover_ip_netns cfg args of (c, as) \<Rightarrow> exec_cmd io c as)"

text \<open>An error of \<^verbatim>\<open>WriteFile\<close> is only logged.\<close>

definition write_status :: "'w mover_io \<Rightarrow> string \<Rightarrow> mover_status \<Rightarrow> ('w, unit) state" where
  "write_status io path st = do {
     _ \<leftarrow> mi_write_file io path (marshal_status st) mode_644;
     State_Monad.return () }"

definition status_error :: "string \<Rightarrow> string \<Rightarrow> mover_status" where
  "status_error stamp msg = \<lparr>ms_status = ''error'', ms_timestamp = stamp, ms_operstate_was = [], ms_error = msg\<rparr>"

definition status_moved :: "string \<Rightarrow> string \<Rightarrow> mover_status" where
  "status_moved stamp operstate = \<lparr>ms_status = ''moved'', ms_timestamp = stamp, ms_operstate_was = operstate, ms_error = []\<rparr>"

text \<open>One command of \<^verbatim>\<open>moveTAP\<close>; the error is the message of the status.\<close>

definition move_step :: "string \<Rightarrow> ('w, goerr + unit) state \<Rightarrow> ('w, string + unit) state" where
  "move_step what m = do {
     r \<leftarrow> m;
     case r of Inl e \<Rightarrow> failE (''failed to '' @ what @ '': '' @ err_msg e) | Inr _ \<Rightarrow> okE () }"

definition move_steps :: "'w mover_io \<Rightarrow> mover_cfg \<Rightarrow> ('w, string + unit) state" where
  "move_steps io cfg = seqE
     [move_step ''move TAP to netns'' (run_ip io cfg [''link'', ''set'', mc_tap cfg, ''netns'', mc_netns cfg]),
      whenE (mc_master cfg \<noteq> []) (move_step ''set master on TAP inside netns''
        (run_ip_in_netns io cfg [''link'', ''set'', mc_tap cfg, ''master'', mc_master cfg])),
      whenE (mc_ipv4 cfg \<noteq> []) (move_step ''add IPv4 address on TAP inside netns''
        (run_ip_in_netns io cfg [''addr'', ''add'', mc_ipv4 cfg, ''dev'', mc_tap cfg])),
      whenE (mc_state cfg \<noteq> []) (move_step ''set state on TAP inside netns''
        (run_ip_in_netns io cfg [''link'', ''set'', mc_tap cfg, mc_state cfg]))]"

text \<open>The exit code of the daemon.\<close>

definition fail_with :: "'w mover_io \<Rightarrow> mover_cfg \<Rightarrow> string \<Rightarrow> ('w, nat) state" where
  "fail_with io cfg msg = do {
     stamp \<leftarrow> mi_now io;
     _ \<leftarrow> write_status io (mc_status_file cfg) (status_error stamp msg);
     State_Monad.return 1 }"

definition move_tap :: "'w mover_io \<Rightarrow> mover_cfg \<Rightarrow> string \<Rightarrow> ('w, nat) state" where
  "move_tap io cfg operstate = do {
     r \<leftarrow> move_steps io cfg;
     case r of
       Inl msg \<Rightarrow> fail_with io cfg msg
     | Inr _ \<Rightarrow> do {
         stamp \<leftarrow> mi_now io;
         _ \<leftarrow> write_status io (mc_status_file cfg) (status_moved stamp operstate);
         State_Monad.return 0 } }"

definition mover_defaults :: "mover_cfg \<Rightarrow> mover_cfg" where
  "mover_defaults cfg =
     cfg\<lparr>mc_poll_ms := (if mc_poll_ms cfg \<le> 0 then 500 else mc_poll_ms cfg),
         mc_timeout_s := (if mc_timeout_s cfg \<le> 0 then 300 else mc_timeout_s cfg)\<rparr>"

datatype mover_event = LinkUpdate string string | DeadlineOver | Signalled

text \<open>The \<^verbatim>\<open>select\<close> loop on a list of events; \<open>None\<close> while it waits.\<close>

fun mover_loop :: "'w mover_io \<Rightarrow> mover_cfg \<Rightarrow> mover_event list \<Rightarrow> ('w, nat option) state" where
  "mover_loop io cfg [] = State_Monad.return None"
| "mover_loop io cfg (LinkUpdate name operstate # evs) =
     (if name \<noteq> mc_tap cfg then mover_loop io cfg evs
      else do { c \<leftarrow> move_tap io cfg operstate; State_Monad.return (Some c) })"
| "mover_loop io cfg (DeadlineOver # evs) = do {
     c \<leftarrow> fail_with io cfg (''timeout after '' @ itoa (mc_timeout_s cfg) @ ''s'');
     State_Monad.return (Some c) }"
| "mover_loop io cfg (Signalled # evs) = do {
     c \<leftarrow> fail_with io cfg ''cancelled by signal'';
     State_Monad.return (Some c) }"

text \<open>\<^verbatim>\<open>tapMoverMain\<close> from the decoded configuration (or the failure to read it) on; \<open>subscribed\<close> is the
  error of the netlink subscription.\<close>

definition tap_mover_main ::
    "'w mover_io \<Rightarrow> mover_cfg option \<Rightarrow> goerr option \<Rightarrow> mover_event list \<Rightarrow> ('w, nat option) state" where
  "tap_mover_main io cfg subscribed evs =
     (case cfg of
        None \<Rightarrow> State_Monad.return (Some 1)
      | Some cfg \<Rightarrow>
          (let cfg = mover_defaults cfg
           in case subscribed of
                Some e \<Rightarrow> do {
                  c \<leftarrow> fail_with io cfg (''failed to subscribe to netlink events: '' @ err_msg e);
                  State_Monad.return (Some c) }
              | None \<Rightarrow> mover_loop io cfg evs))"

section \<open>Logging the commands and the status\<close>

datatype mover_call = MCommand "string \<times> string list" | MStatus string string

definition mover_traced :: "'w mover_io \<Rightarrow> ('w \<times> mover_call list) mover_io" where
  "mover_traced io =
     \<lparr>mi_combined_output = (\<lambda>c as. log_call (MCommand (c, as)) (mi_combined_output io c as)),
      mi_write_file = (\<lambda>p b m. log_call (MStatus p b) (mi_write_file io p b m)),
      mi_now = unlogged (mi_now io)\<rparr>"

lemma mover_traced_simps [simp]:
  "mi_combined_output (mover_traced io) c as = log_call (MCommand (c, as)) (mi_combined_output io c as)"
  "mi_write_file (mover_traced io) p b m = log_call (MStatus p b) (mi_write_file io p b m)"
  "mi_now (mover_traced io) = unlogged (mi_now io)"
  by (simp_all add: mover_traced_def)

text \<open>The commands that move and configure a TAP.\<close>

definition mover_script :: "mover_cfg \<Rightarrow> (string \<times> string list) list" where
  "mover_script cfg =
     mover_ip cfg [''link'', ''set'', mc_tap cfg, ''netns'', mc_netns cfg] #
     (if mc_master cfg \<noteq> [] then [mover_ip_netns cfg [''link'', ''set'', mc_tap cfg, ''master'', mc_master cfg]] else []) @
     (if mc_ipv4 cfg \<noteq> [] then [mover_ip_netns cfg [''addr'', ''add'', mc_ipv4 cfg, ''dev'', mc_tap cfg]] else []) @
     (if mc_state cfg \<noteq> [] then [mover_ip_netns cfg [''link'', ''set'', mc_tap cfg, mc_state cfg]] else [])"

lemma emits_exec_cmd [emits_intros]: "emits (exec_cmd (mover_traced io) c as) [MCommand (c, as)]"
  unfolding exec_cmd_def mover_traced_simps
  by (intro emits_log_call) (auto split: prod.splits option.splits intro: emits_fail emits_ok)

lemma emits_run_ip [emits_intros]: "emits (run_ip (mover_traced io) cfg args) [MCommand (mover_ip cfg args)]"
  by (auto simp: run_ip_def split: prod.splits intro: emits_intros)

lemma emits_run_ip_in_netns [emits_intros]:
  "emits (run_ip_in_netns (mover_traced io) cfg args) [MCommand (mover_ip_netns cfg args)]"
  by (auto simp: run_ip_in_netns_def split: prod.splits intro: emits_intros)

lemma emits_move_step [emits_intros]: "emits m cs \<Longrightarrow> emits (move_step what m) cs"
  unfolding move_step_def emits_def by (fastforce split: sum.splits prod.splits)

lemma emits_move_steps: "emits (move_steps (mover_traced io) cfg) (map MCommand (mover_script cfg))"
proof -
  have "map MCommand (mover_script cfg) =
     [MCommand (mover_ip cfg [''link'', ''set'', mc_tap cfg, ''netns'', mc_netns cfg])] @
      (if mc_master cfg \<noteq> [] then [MCommand (mover_ip_netns cfg [''link'', ''set'', mc_tap cfg, ''master'', mc_master cfg])] else []) @
      (if mc_ipv4 cfg \<noteq> [] then [MCommand (mover_ip_netns cfg [''addr'', ''add'', mc_ipv4 cfg, ''dev'', mc_tap cfg])] else []) @
      (if mc_state cfg \<noteq> [] then [MCommand (mover_ip_netns cfg [''link'', ''set'', mc_tap cfg, mc_state cfg])] else []) @ []"
    by (simp add: mover_script_def)
  then show ?thesis unfolding move_steps_def by (simp only:) (intro emits_intros)
qed

text \<open>What a daemon that has reached a decision leaves.\<close>

lemma fail_with_run:
  "\<exists>stamp w'. run_state (fail_with (mover_traced io) cfg msg) (w, h) =
     (1, (w', h @ [MStatus (mc_status_file cfg) (marshal_status (status_error stamp msg))]))"
  by (cases "run_state (mi_now io) w") (auto simp: fail_with_def write_status_def split: prod.splits)

lemma move_tap_run:
  "\<exists>ds w'. prefix ds (mover_script cfg) \<and>
     ((\<exists>stamp. run_state (move_tap (mover_traced io) cfg op) (w, h) =
          (0, (w', h @ map MCommand (mover_script cfg) @ [MStatus (mc_status_file cfg) (marshal_status (status_moved stamp op))]))) \<or>
      (\<exists>stamp msg. run_state (move_tap (mover_traced io) cfg op) (w, h) =
          (1, (w', h @ map MCommand ds @ [MStatus (mc_status_file cfg) (marshal_status (status_error stamp msg))]))))"
proof -
  obtain r w1 h1 where m: "run_state (move_steps (mover_traced io) cfg) (w, h) = (r, (w1, h1))"
    by (metis surj_pair)
  show ?thesis
  proof (cases r)
    case (Inl msg)
    obtain ds where h1: "h1 = h @ ds" "prefix ds (map MCommand (mover_script cfg))"
      using emitsD(2) [OF emits_move_steps m [unfolded Inl]] by blast
    then have "ds = map MCommand (take (length ds) (mover_script cfg))" by (metis append_eq_conv_conj prefix_def take_map)
    then obtain ds' where "ds = map MCommand ds'" "prefix ds' (mover_script cfg)" using take_is_prefix by blast
    moreover obtain stamp w' where "run_state (fail_with (mover_traced io) cfg msg) (w1, h1) =
        (1, (w', h1 @ [MStatus (mc_status_file cfg) (marshal_status (status_error stamp msg))]))"
      using fail_with_run [of io cfg msg w1 h1] by auto
    ultimately show ?thesis using m Inl h1 by (auto simp: move_tap_def)
  next
    case (Inr u)
    have "h1 = h @ map MCommand (mover_script cfg)" by (rule emitsD(1) [OF emits_move_steps m [unfolded Inr]])
    then show ?thesis using m Inr by (auto simp: move_tap_def write_status_def split: prod.splits)
  qed
qed

section \<open>Reading the status back\<close>

abbreviation dq :: char where "dq \<equiv> CHR 0x22"
abbreviation bsl :: char where "bsl \<equiv> CHR 0x5C"

lemma split_on_append: "split_on c (a @ c # b) = split_on c a @ split_on c b"
proof (induction a)
  case (Cons x xs)
  then show ?case by (cases "split_on c xs") auto
qed simp

text \<open>A quoted word occurs in a text exactly when it is one of the inner pieces between quotes.\<close>

lemma quoted_word_piece:
  assumes "str_contains t ([c] @ w @ [c])" and "c \<notin> set w"
  shows "w \<in> set (split_on c t)"
proof -
  from assms(1) obtain x y where "t = x @ c # (w @ c # y)" by (auto simp: sublist_def)
  then show ?thesis using assms(2) by (simp add: split_on_append split_on_no_sep)
qed

lemma json_escape_cases:
  "json_escape c = [c] \<and> c \<noteq> dq \<and> c \<noteq> bsl \<or> (c = dq \<and> json_escape c = [bsl, dq]) \<or>
   (c \<noteq> dq \<and> (\<exists>x. json_escape c = bsl # x \<and> dq \<notin> set x))"
proof -
  have "hex_char n \<noteq> dq" if "n < 16" for n
  proof
    assume "hex_char n = dq"
    then have "(of_char (hex_char n) :: nat) = 34" by simp
    with that show False by (auto simp: hex_char_def take_bit_eq_mod split: if_splits)
  qed
  then have "hex_char (n div 16) \<noteq> dq \<and> hex_char (n mod 16) \<noteq> dq" if "n < 256" for n
    using that by auto
  then have "hex_char (of_char c div 16) \<noteq> dq \<and> hex_char (of_char c mod 16) \<noteq> dq"
    using of_char_mod_256 [of c] by (metis mod_less_divisor zero_less_numeral)
  then show ?thesis by (auto simp: json_escape_def Let_def)
qed

abbreviation escaped :: "string \<Rightarrow> string" where
  "escaped s \<equiv> concat (map json_escape s)"

lemma split_on_app: "c \<notin> set ys \<Longrightarrow> split_on c (ys @ t) = (ys @ hd (split_on c t)) # tl (split_on c t)"
proof (induction ys)
  case Nil
  then show ?case by (cases "split_on c t") auto
qed auto

lemma escaped_quote: "split_on dq (escaped (dq # s)) = [bsl] # split_on dq (escaped s)"
  using json_escape_cases [of dq] by auto

lemma escaped_other:
  "c \<noteq> dq \<Longrightarrow> split_on dq (escaped (c # s)) =
     (json_escape c @ hd (split_on dq (escaped s))) # tl (split_on dq (escaped s))"
  using json_escape_cases [of c] split_on_app [of dq "json_escape c" "escaped s"] by auto

text \<open>The pieces of an escaped text that have no backslash: only the last one can be one.\<close>

lemma first_piece: "bsl \<notin> set (hd (split_on dq (escaped s))) \<Longrightarrow> hd (split_on dq (escaped s)) = s"
proof (induction s)
  case (Cons c s)
  then have "c \<noteq> dq" by (auto simp: escaped_quote simp del: concat.simps list.map)
  with Cons show ?case using json_escape_cases [of c] by (auto simp: escaped_other simp del: concat.simps list.map)
qed simp

lemma escaped_no_quote: "dq \<notin> set s \<Longrightarrow> split_on dq (escaped s) = [escaped s]"
proof (rule split_on_no_sep)
  assume "dq \<notin> set s"
  then have "dq \<notin> set (json_escape c)" if "c \<in> set s" for c
    using that json_escape_cases [of c] by auto
  then show "dq \<notin> set (escaped s)" by auto
qed

lemma escaped_piece:
  "\<lbrakk>w \<in> set (split_on dq (escaped s)); bsl \<notin> set w\<rbrakk> \<Longrightarrow> s = w \<or> suffix (dq # w) s"
proof (induction s)
  case (Cons c s)
  let ?ps = "split_on dq (escaped s)"
  show ?case
  proof (cases "c = dq")
    case True
    with Cons have "w \<in> set ?ps" by (auto simp: escaped_quote simp del: concat.simps list.map)
    with Cons True show ?thesis by (auto simp: suffix_Cons)
  next
    case False
    then consider "w = json_escape c @ hd ?ps" | "w \<in> set (tl ?ps)"
      using Cons.prems(1) by (auto simp: escaped_other simp del: concat.simps list.map)
    then show ?thesis
    proof cases
      case 1
      with Cons.prems(2) have "json_escape c = [c]" and "hd ?ps = s"
        using json_escape_cases [of c] False first_piece [of s] by auto
      with 1 show ?thesis by simp
    next
      case 2
      then have "w \<in> set ?ps" by (metis list.set_sel(2) split_on_nonempty)
      moreover have "s \<noteq> w"
      proof
        assume "s = w"
        have "dq \<notin> set w" using \<open>w \<in> set ?ps\<close> by (rule split_on_pieces)
        then have "tl ?ps = []" using \<open>s = w\<close> escaped_no_quote by simp
        with 2 show False by simp
      qed
      ultimately show ?thesis using Cons by (auto simp: suffix_Cons)
    qed
  qed
qed auto

text \<open>A text that does not end in a quote and the word, and is not the word.\<close>

definition not_ending :: "string \<Rightarrow> string \<Rightarrow> bool" where
  "not_ending w s \<longleftrightarrow> s \<noteq> w \<and> \<not> suffix (dq # w) s"

definition plain_json :: "string \<Rightarrow> bool" where
  "plain_json s \<longleftrightarrow> escaped s = s \<and> dq \<notin> set s"

lemma plain_names: "plain_json ''status''" "plain_json ''timestamp''" "plain_json ''operstate_was''" "plain_json ''error''" "plain_json ''moved''"
  by (simp_all add: plain_json_def json_escape_def Let_def)

lemma error_not_moved:
  assumes "not_ending ''moved'' stamp" and "not_ending ''moved'' msg"
  shows "\<not> str_contains (marshal_status (status_error stamp msg)) ([dq] @ ''moved'' @ [dq])"
proof
  assume "str_contains (marshal_status (status_error stamp msg)) ([dq] @ ''moved'' @ [dq])"
  then have "''moved'' \<in> set (split_on dq (marshal_status (status_error stamp msg)))"
    by (rule quoted_word_piece) simp
  moreover have "marshal_status (status_error stamp msg) =
      ''{'' @ dq # ''status'' @ dq # '':'' @ dq # ''error'' @ dq # '','' @ dq # ''timestamp'' @ dq # '':'' @ dq # escaped stamp @ dq #
      (if msg \<noteq> [] then '','' @ dq # ''error'' @ dq # '':'' @ dq # escaped msg @ dq # ''}'' else ''}'')"
    using plain_names by (simp add: marshal_status_def status_error_def json_field_def json_string_def plain_json_def)
  ultimately have "''moved'' \<in> set (split_on dq (escaped stamp)) \<or> ''moved'' \<in> set (split_on dq (escaped msg))"
    by (auto simp: split_on_append split: if_splits)
  then show False using assms escaped_piece [of "''moved''" stamp] escaped_piece [of "''moved''" msg]
    by (auto simp: not_ending_def)
qed

lemma status_field:
  "plain_json w \<Longrightarrow> str_contains (''{'' @ str_join (json_field ''status'' w # fs) '','' @ ''}'') ([dq] @ w @ [dq])"
proof -
  assume w: "plain_json w"
  have "''{'' @ str_join (json_field ''status'' w # fs) '','' @ ''}'' =
      (''{'' @ json_string ''status'' @ '':'') @ ([dq] @ w @ [dq]) @ (if fs = [] then ''}'' else '','' @ str_join fs '','' @ ''}'')"
    using w by (cases fs) (simp_all add: json_field_def json_string_def plain_json_def)
  then show ?thesis by (simp only: sublist_appendI)
qed

lemma marshal_word: "plain_json (ms_status st) \<Longrightarrow> str_contains (marshal_status st) ([dq] @ ms_status st @ [dq])"
  unfolding marshal_status_def append_Cons [of "json_field ''status'' (ms_status st)"]
  by (rule status_field)

lemma marshal_shape: "trim_space (marshal_status st) = marshal_status st"
  by (rule trim_space_id) (simp add: marshal_status_def is_space_def)

lemma mover_word_moved: "mover_word (marshal_status (status_moved stamp op)) = ''moved''"
  using marshal_word [of "status_moved stamp op"] plain_names(5) by (simp add: mover_word_def status_moved_def)

lemma mover_word_error:
  assumes "not_ending ''moved'' stamp" and "not_ending ''moved'' msg"
  shows "mover_word (marshal_status (status_error stamp msg)) = ''error''"
proof -
  have "str_contains (marshal_status (status_error stamp msg)) ([dq] @ ''error'' @ [dq])"
    using marshal_word [of "status_error stamp msg"] plain_names(4) by (simp add: status_error_def)
  with error_not_moved [OF assms] show ?thesis by (simp add: mover_word_def)
qed

section \<open>Properties\<close>

text \<open>Once it has its configuration, the daemon ends with exactly one status file: it says that the TAP was
  moved, after all commands of the script, when the exit code is 0, and an error, after some of them,
  otherwise.\<close>

theorem tap_mover_one_status:
  assumes "run_state (tap_mover_main (mover_traced io) (Some cfg) subscribed evs) (w, h) = (Some code, (w', h'))"
  shows "\<exists>ds stamp. prefix ds (mover_script (mover_defaults cfg)) \<and>
     ((code = 0 \<and> ds = mover_script (mover_defaults cfg) \<and>
        (\<exists>op. h' = h @ map MCommand ds @ [MStatus (mc_status_file cfg) (marshal_status (status_moved stamp op))])) \<or>
      (code = 1 \<and> (\<exists>msg. h' = h @ map MCommand ds @ [MStatus (mc_status_file cfg) (marshal_status (status_error stamp msg))])))"
proof -
  let ?cfg = "mover_defaults cfg"
  have fname: "mc_status_file ?cfg = mc_status_file cfg" by (simp add: mover_defaults_def)
  have failed: "?thesis" if "run_state (fail_with (mover_traced io) ?cfg msg) (w, h) = (code, (w', h'))" for msg
  proof -
    obtain stamp w1 where "run_state (fail_with (mover_traced io) ?cfg msg) (w, h) =
        (1, (w1, h @ [MStatus (mc_status_file ?cfg) (marshal_status (status_error stamp msg))]))"
      using fail_with_run [of io ?cfg msg w h] by auto
    with that fname show ?thesis by (intro exI [of _ "[]"] exI [of _ stamp]) auto
  qed
  have looped: "run_state (mover_loop (mover_traced io) ?cfg evs) (w, h) = (Some code, (w', h')) \<Longrightarrow> ?thesis"
  proof (induction "mover_traced io" ?cfg evs rule: mover_loop.induct)
    case (2 name op evs)
    show ?case
    proof (cases "name = mc_tap ?cfg")
      case True
      then have "run_state (move_tap (mover_traced io) ?cfg op) (w, h) = (code, (w', h'))"
        using 2 by (auto split: prod.splits)
      with move_tap_run [of ?cfg io op w h] fname show ?thesis by auto
    qed (use 2 in simp)
  next
    case (3 evs)
    then show ?case using failed by (auto split: prod.splits)
  next
    case (4 evs)
    then show ?case using failed by (auto split: prod.splits)
  qed simp
  show ?thesis
  proof (cases subscribed)
    case None
    with assms looped show ?thesis by (simp add: tap_mover_main_def Let_def)
  next
    case (Some e)
    with assms failed show ?thesis by (auto simp: tap_mover_main_def Let_def split: prod.splits)
  qed
qed

definition sample_mover :: "unit mover_io" where
  "sample_mover =
     \<lparr>mi_combined_output = (\<lambda>c as. State_Monad.return ([], None)), mi_write_file = (\<lambda>p b m. State_Monad.return None),
      mi_now = State_Monad.return ''now''\<rparr>"

definition sample_mover_cfg :: mover_cfg where
  "sample_mover_cfg =
     \<lparr>mc_tap = ''tap0'', mc_netns = ''ns'', mc_master = ''br0'', mc_state = ''up'', mc_ipv4 = [], mc_status_file = ''s'',
      mc_poll_ms = 0, mc_timeout_s = 0, mc_use_sudo = False, mc_sudo_path = [], mc_ip_path = ''ip''\<rparr>"

lemma sample_mover_run:
  "\<exists>w' h'. run_state (tap_mover_main (mover_traced sample_mover) (Some sample_mover_cfg) None [LinkUpdate ''tap0'' ''up'']) ((), []) =
     (Some 0, (w', h'))"
  by (simp add: tap_mover_main_def mover_defaults_def sample_mover_cfg_def Let_def move_tap_def move_steps_def run_ip_def
      run_ip_in_netns_def mover_ip_def mover_ip_netns_def exec_cmd_def move_step_def whenE_def sample_mover_def write_status_def)

theorem tap_mover_one_status_witness:
  "\<exists>w' h' op stamp. run_state (tap_mover_main (mover_traced sample_mover) (Some sample_mover_cfg) None [LinkUpdate ''tap0'' ''up'']) ((), []) =
     (Some 0, (w', h')) \<and>
     h' = map MCommand (mover_script (mover_defaults sample_mover_cfg)) @
          [MStatus (mc_status_file sample_mover_cfg) (marshal_status (status_moved stamp op))]"
proof -
  obtain w' h' where run: "run_state (tap_mover_main (mover_traced sample_mover) (Some sample_mover_cfg) None [LinkUpdate ''tap0'' ''up''])
      ((), []) = (Some 0, (w', h'))"
    using sample_mover_run by blast
  from tap_mover_one_status [OF run] run show ?thesis by auto
qed

text \<open>What the resource reads in the status file is what the daemon wrote there: moved or error, whatever the
  operational state was and whatever the error says, unless its text ends in a quote and the word moved.\<close>

theorem mover_status_roundtrip:
  assumes "run_state (ex_read_file ex (path_join [d, ''mover_status''])) w = (Inr (marshal_status st), w')"
    and "st = status_moved stamp op \<or> st = status_error stamp msg"
    and "not_ending ''moved'' stamp" and "not_ending ''moved'' msg"
  shows "run_state (read_mover_status ex d) w = (ms_status st, w')"
proof -
  have "mover_word (marshal_status st) = ms_status st"
    using assms(2) mover_word_moved mover_word_error [OF assms(3,4)] by (auto simp: status_moved_def status_error_def)
  with assms(1) show ?thesis by (simp add: read_mover_status_def marshal_shape)
qed

theorem mover_status_roundtrip_witness:
  "run_state (read_mover_status (idle_executor\<lparr>ex_read_file := (\<lambda>p. State_Monad.return (Inr (marshal_status (status_error ''t'' ''no moved''))))\<rparr>) ''/d'') (0 :: int) =
     (''error'', 0)"
  using mover_status_roundtrip [where ex = "idle_executor\<lparr>ex_read_file := (\<lambda>p. State_Monad.return (Inr (marshal_status (status_error ''t'' ''no moved''))))\<rparr>"
      and d = "''/d''" and w = 0 and w' = 0 and st = "status_error ''t'' ''no moved''" and stamp = "''t''" and msg = "''no moved''"]
  by (simp add: not_ending_def suffix_Cons status_error_def)

end
