(* ===== verification/Cmd_Run.thy ===== *)
theory Cmd_Run
  imports Executor Go_Path
begin

text \<open>
  Package \<^verbatim>\<open>internal/cmd\<close>, the commands that run to completion: \<^verbatim>\<open>Run\<close>, \<^verbatim>\<open>RunDetached\<close>
  and \<^verbatim>\<open>CopyFile\<close>. The operating system is a record of calls over an arbitrary environment
  (any of which may fail at any time); \<open>tracked\<close> adds the list of open file handles to the
  environment.
\<close>

section \<open>The operating system\<close>

text \<open>How \<^verbatim>\<open>exec.Cmd.Run\<close> ends: success, an \<^verbatim>\<open>*exec.ExitError\<close> with its code, another error.\<close>

datatype run_end = EndOk | EndExit goerr int | EndFail goerr

record 'w os =
  os_mkdir_all :: "string \<Rightarrow> nat \<Rightarrow> ('w, goerr option) state"
  os_create :: "string \<Rightarrow> ('w, goerr option) state"
  os_open :: "string \<Rightarrow> ('w, goerr option) state"
  os_close :: "string \<Rightarrow> ('w, goerr option) state"
  os_write_file :: "string \<Rightarrow> string \<Rightarrow> nat \<Rightarrow> ('w, goerr option) state"
  os_read_file :: "string \<Rightarrow> ('w, goerr + string) state"
  os_remove_all :: "string \<Rightarrow> ('w, goerr option) state"
  os_rename :: "string \<Rightarrow> string \<Rightarrow> ('w, goerr option) state"
  os_stat :: "string \<Rightarrow> ('w, goerr + file_info) state"
  os_chmod :: "string \<Rightarrow> nat \<Rightarrow> ('w, goerr option) state"
  os_read_dir :: "string \<Rightarrow> ('w, goerr + string list) state"
  os_io_copy :: "string \<Rightarrow> string \<Rightarrow> ('w, int \<times> goerr option) state"
  os_look_path :: "string \<Rightarrow> ('w, goerr + string) state"
  os_timestamp :: "('w, string) state"
  os_cmd_run :: "string \<Rightarrow> string list \<Rightarrow> ('w, (string \<times> string) \<times> run_end) state"
  os_cmd_start :: "string \<Rightarrow> string list \<Rightarrow> ('w, goerr + int) state"
  os_combined_output :: "string \<Rightarrow> string list \<Rightarrow> ('w, string \<times> goerr option) state"
  os_signal :: "int \<Rightarrow> int \<Rightarrow> ('w, goerr option) state"

section \<open>Run\<close>

definition result_fail :: "result \<Rightarrow> goerr \<Rightarrow> cmd_outcome" where
  "result_fail r e = (r\<lparr>r_error := Some e\<rparr>, Some e)"

text \<open>The name of a log file: time stamp, command name and stream.\<close>

definition log_file :: "string \<Rightarrow> string \<Rightarrow> string \<Rightarrow> string \<Rightarrow> string" where
  "log_file log_path stamp cmd_name stream =
     path_join [log_path, stamp @ ''_'' @ cmd_name @ ''_'' @ stream @ ''.log'']"

definition command_log :: "string \<Rightarrow> string list \<Rightarrow> string" where
  "command_log command args =
     ''command='' @ command @ '' args='' @ fmt_strings args @ [CHR 0x0A]"

text \<open>The result after \<^verbatim>\<open>cmd.Run()\<close>: exit code and error from how it ended, then the streams.\<close>

definition finish_run :: "result \<Rightarrow> (string \<times> string) \<times> run_end \<Rightarrow> result" where
  "finish_run r oc =
     (let r1 = (case snd oc of
                  EndOk \<Rightarrow> r
                | EndExit e code \<Rightarrow> r\<lparr>r_exit_code := code, r_error := Some e\<rparr>
                | EndFail e \<Rightarrow> r\<lparr>r_error := Some e\<rparr>)
      in r1\<lparr>r_stdout := fst (fst oc), r_stderr := snd (fst oc)\<rparr>)"

text \<open>The files are closed by the deferred calls, in the reverse order of their creation.\<close>

definition cmd_run :: "'w os \<Rightarrow> string \<Rightarrow> string \<Rightarrow> string list \<Rightarrow> ('w, cmd_outcome) state" where
  "cmd_run os log_path command args = do {
     let result = new_result command args;
     e1 \<leftarrow> os_mkdir_all os log_path mode_700;
     case e1 of
       Some e \<Rightarrow> State_Monad.return (result_fail result (wrapf ''failed to create log directory: '' e))
     | None \<Rightarrow> do {
     let cmd_name = path_base command;
     stamp \<leftarrow> os_timestamp os;
     let stdout_file = log_file log_path stamp cmd_name ''stdout'';
     let stderr_file = log_file log_path stamp cmd_name ''stderr'';
     let result = result\<lparr>r_logs_stdout := stdout_file, r_logs_stderr := stderr_file\<rparr>;
     e2 \<leftarrow> os_create os stdout_file;
     case e2 of
       Some e \<Rightarrow> State_Monad.return (result_fail result (wrapf ''failed to create stdout file: '' e))
     | None \<Rightarrow> do {
     e3 \<leftarrow> os_create os stderr_file;
     case e3 of
       Some e \<Rightarrow> do {
         _ \<leftarrow> os_close os stdout_file;
         State_Monad.return (result_fail result (wrapf ''failed to create stderr file: '' e)) }
     | None \<Rightarrow> do {
     e4 \<leftarrow> os_write_file os (log_file log_path stamp cmd_name ''command'') (command_log command args) mode_600;
     case e4 of
       Some e \<Rightarrow> do {
         _ \<leftarrow> os_close os stderr_file;
         _ \<leftarrow> os_close os stdout_file;
         State_Monad.return (result_fail result (wrapf ''failed to create command log file: '' e)) }
     | None \<Rightarrow> do {
     oc \<leftarrow> os_cmd_run os command args;
     let result = finish_run result oc;
     _ \<leftarrow> os_close os stderr_file;
     _ \<leftarrow> os_close os stdout_file;
     State_Monad.return (result, r_error result) } } } } }"

section \<open>RunDetached\<close>

text \<open>
  The started process keeps the two log files; they are closed on a failed start and on a
  failed creation of the second one only.
\<close>

definition cmd_run_detached ::
    "'w os \<Rightarrow> string \<Rightarrow> string \<Rightarrow> string list \<Rightarrow> ('w, cmd_outcome) state" where
  "cmd_run_detached os log_path command args = do {
     let result = new_result command args;
     e1 \<leftarrow> os_mkdir_all os log_path mode_700;
     case e1 of
       Some e \<Rightarrow> State_Monad.return (result_fail result (wrapf ''failed to create log directory: '' e))
     | None \<Rightarrow> do {
     let cmd_name = path_base command;
     stamp \<leftarrow> os_timestamp os;
     let stdout_file = log_file log_path stamp cmd_name ''stdout'';
     let stderr_file = log_file log_path stamp cmd_name ''stderr'';
     let result = result\<lparr>r_logs_stdout := stdout_file, r_logs_stderr := stderr_file\<rparr>;
     e2 \<leftarrow> os_create os stdout_file;
     case e2 of
       Some e \<Rightarrow> State_Monad.return (result_fail result (wrapf ''failed to create stdout file: '' e))
     | None \<Rightarrow> do {
     e3 \<leftarrow> os_create os stderr_file;
     case e3 of
       Some e \<Rightarrow> do {
         _ \<leftarrow> os_close os stdout_file;
         State_Monad.return (result_fail result (wrapf ''failed to create stderr file: '' e)) }
     | None \<Rightarrow> do {
     e4 \<leftarrow> os_write_file os (log_file log_path stamp cmd_name ''command'') (command_log command args) mode_600;
     case e4 of
       Some e \<Rightarrow>
         State_Monad.return (result_fail result (wrapf ''failed to create command log file: '' e))
     | None \<Rightarrow> do {
     started \<leftarrow> os_cmd_start os command args;
     case started of
       Inl e \<Rightarrow> do {
         _ \<leftarrow> os_close os stdout_file;
         _ \<leftarrow> os_close os stderr_file;
         State_Monad.return (result_fail result (wrapf ''failed to start command: '' e)) }
     | Inr pid \<Rightarrow> do {
     let result = result\<lparr>r_pid := pid\<rparr>;
     State_Monad.return (result, r_error result) } } } } } }"

section \<open>CopyFile\<close>

definition cmd_copy_file :: "'w os \<Rightarrow> string \<Rightarrow> string \<Rightarrow> ('w, int \<times> goerr option) state" where
  "cmd_copy_file os src dst = do {
     e1 \<leftarrow> os_open os src;
     case e1 of
       Some e \<Rightarrow> State_Monad.return (0, Some e)
     | None \<Rightarrow> do {
     e2 \<leftarrow> os_create os dst;
     case e2 of
       Some e \<Rightarrow> do { _ \<leftarrow> os_close os src; State_Monad.return (0, Some e) }
     | None \<Rightarrow> do {
     r \<leftarrow> os_io_copy os dst src;
     _ \<leftarrow> os_close os dst;
     _ \<leftarrow> os_close os src;
     State_Monad.return r } } }"

section \<open>Open handles\<close>

text \<open>The same operating system with the multiset of open handles (a list) in the state.\<close>

definition track :: "(string list \<Rightarrow> 'a \<Rightarrow> string list) \<Rightarrow> ('w, 'a) state \<Rightarrow> ('w \<times> string list, 'a) state" where
  "track f m = State (\<lambda>(w, hs). let (r, w') = run_state m w in (r, (w', f hs r)))"

abbreviation untracked :: "('w, 'a) state \<Rightarrow> ('w \<times> string list, 'a) state" where
  "untracked \<equiv> track (\<lambda>hs _. hs)"

lemma run_track [simp, run_simps]:
  "run_state (track f m) (w, hs) = (let (r, w') = run_state m w in (r, (w', f hs r)))"
  by (simp add: track_def)

definition tracked :: "'w os \<Rightarrow> ('w \<times> string list) os" where
  "tracked os =
     \<lparr>os_mkdir_all = (\<lambda>p m. untracked (os_mkdir_all os p m)),
      os_create = (\<lambda>p. track (\<lambda>hs r. if r = None then p # hs else hs) (os_create os p)),
      os_open = (\<lambda>p. track (\<lambda>hs r. if r = None then p # hs else hs) (os_open os p)),
      os_close = (\<lambda>p. track (\<lambda>hs _. remove1 p hs) (os_close os p)),
      os_write_file = (\<lambda>p b m. untracked (os_write_file os p b m)),
      os_read_file = (\<lambda>p. untracked (os_read_file os p)),
      os_remove_all = (\<lambda>p. untracked (os_remove_all os p)),
      os_rename = (\<lambda>p q. untracked (os_rename os p q)),
      os_stat = (\<lambda>p. untracked (os_stat os p)),
      os_chmod = (\<lambda>p m. untracked (os_chmod os p m)),
      os_read_dir = (\<lambda>p. untracked (os_read_dir os p)),
      os_io_copy = (\<lambda>d s. untracked (os_io_copy os d s)),
      os_look_path = (\<lambda>f. untracked (os_look_path os f)),
      os_timestamp = untracked (os_timestamp os),
      os_cmd_run = (\<lambda>c a. untracked (os_cmd_run os c a)),
      os_cmd_start = (\<lambda>c a. untracked (os_cmd_start os c a)),
      os_combined_output = (\<lambda>c a. untracked (os_combined_output os c a)),
      os_signal = (\<lambda>p s. untracked (os_signal os p s))\<rparr>"

lemma tracked_simps [simp, run_simps]:
  "os_mkdir_all (tracked os) p m = untracked (os_mkdir_all os p m)"
  "os_create (tracked os) p = track (\<lambda>hs r. if r = None then p # hs else hs) (os_create os p)"
  "os_open (tracked os) p = track (\<lambda>hs r. if r = None then p # hs else hs) (os_open os p)"
  "os_close (tracked os) p = track (\<lambda>hs _. remove1 p hs) (os_close os p)"
  "os_write_file (tracked os) p b m = untracked (os_write_file os p b m)"
  "os_timestamp (tracked os) = untracked (os_timestamp os)"
  "os_cmd_run (tracked os) c a = untracked (os_cmd_run os c a)"
  "os_cmd_start (tracked os) c a = untracked (os_cmd_start os c a)"
  "os_io_copy (tracked os) d s = untracked (os_io_copy os d s)"
  by (simp_all add: tracked_def)

lemma remove1_twice: "remove1 b (remove1 a (b # a # hs)) = hs" "remove1 b (remove1 a (a # b # hs)) = hs"
  by simp_all

lemma cmd_run_closes:
  "run_state (cmd_run (tracked os) log_path command args) (w, hs) = (r, (w', hs')) \<Longrightarrow> hs' = hs"
  by (auto simp: cmd_run_def Let_def split: prod.splits option.splits if_splits)

lemma cmd_copy_file_closes:
  "run_state (cmd_copy_file (tracked os) src dst) (w, hs) = (r, (w', hs')) \<Longrightarrow> hs' = hs"
  by (auto simp: cmd_copy_file_def Let_def split: prod.splits option.splits if_splits)

section \<open>What the results say\<close>

lemma finish_run_fields [simp]:
  "r_cmd (finish_run r oc) = r_cmd r" "r_args (finish_run r oc) = r_args r"
  "r_stdout (finish_run r oc) = fst (fst oc)" "r_stderr (finish_run r oc) = snd (fst oc)"
  "r_pid (finish_run r oc) = r_pid r"
  by (simp_all add: finish_run_def Let_def split: run_end.splits)

lemma finish_run_end [simp]:
  "r_exit_code (finish_run r oc) = (case snd oc of EndExit e code \<Rightarrow> code | _ \<Rightarrow> r_exit_code r)"
  "r_error (finish_run r oc) =
     (case snd oc of EndOk \<Rightarrow> r_error r | EndExit e code \<Rightarrow> Some e | EndFail e \<Rightarrow> Some e)"
  by (simp_all add: finish_run_def Let_def split: run_end.splits)

lemma new_result_fields [simp]:
  "r_cmd (new_result c a) = c" "r_args (new_result c a) = a" "r_exit_code (new_result c a) = 0"
  "r_error (new_result c a) = None" "r_pid (new_result c a) = 0"
  by (simp_all add: new_result_def)

lemma cmd_run_outcome:
  assumes "run_state (cmd_run os log_path c a) w = ((res, err), w')"
  shows "err = r_error res" and "r_cmd res = c" and "r_args res = a"
    and "r_exit_code res \<noteq> 0 \<Longrightarrow> r_error res \<noteq> None"
  using assms
  by (auto simp: cmd_run_def result_fail_def Let_def
      split: prod.splits option.splits if_splits run_end.splits)

lemma cmd_run_detached_outcome:
  assumes "run_state (cmd_run_detached os log_path c a) w = ((res, err), w')"
  shows "err = r_error res" and "r_cmd res = c" and "r_args res = a"
    and "r_error res \<noteq> None \<Longrightarrow> r_pid res = 0"
  using assms
  by (auto simp: cmd_run_detached_def result_fail_def Let_def
      split: prod.splits option.splits sum.splits if_splits)

section \<open>Properties\<close>

text \<open>C31: Running a command closes every file it opened, on every path.\<close>

theorem run_closes_files: "snd (snd (run_state (cmd_run (tracked os) log_path command args) (w, hs))) = hs"
  using cmd_run_closes [of os log_path command args w hs] by (metis prod.collapse)

text \<open>A result of \<^verbatim>\<open>Run\<close> carries its error, names its command, and a non-zero exit code never comes without
  an error.\<close>

theorem run_result:
  "case run_state (cmd_run os log_path c a) w of
     ((res, err), w') \<Rightarrow> err = r_error res \<and> r_cmd res = c \<and> r_args res = a \<and> (r_exit_code res = 0 \<or> r_error res \<noteq> None)"
  using cmd_run_outcome [of os log_path c a w] by (fastforce split: prod.splits)

text \<open>When the command log cannot be written, a detached run fails with both of its log files still
  open.\<close>

theorem run_detached_leak:
  assumes "run_state (os_mkdir_all os log_path mode_700) w = (None, w1)"
    and "run_state (os_timestamp os) w1 = (stamp, w2)"
    and "run_state (os_create os (log_file log_path stamp (path_base command) ''stdout'')) w2 = (None, w3)"
    and "run_state (os_create os (log_file log_path stamp (path_base command) ''stderr'')) w3 = (None, w4)"
    and "run_state (os_write_file os (log_file log_path stamp (path_base command) ''command'')
           (command_log command args) mode_600) w4 = (Some e, w5)"
  shows "\<exists>res. run_state (cmd_run_detached (tracked os) log_path command args) (w, hs) =
    ((res, Some (wrapf ''failed to create command log file: '' e)),
     (w5, log_file log_path stamp (path_base command) ''stderr'' #
          log_file log_path stamp (path_base command) ''stdout'' # hs))"
  using assms by (simp add: cmd_run_detached_def result_fail_def Let_def)

theorem run_detached_leak_witness:
  "\<exists>os res. run_state (cmd_run_detached (tracked os) ''/logs'' ''/bin/x'' []) ((), []) =
    ((res, Some (wrapf ''failed to create command log file: '' (Err ''no space''))),
     ((), [log_file ''/logs'' ''t'' (path_base ''/bin/x'') ''stderr'', log_file ''/logs'' ''t'' (path_base ''/bin/x'') ''stdout'']))"
proof -
  obtain os :: "unit os" where os: "os_mkdir_all os = (\<lambda>p m. State_Monad.return None)" "os_timestamp os = State_Monad.return ''t''"
    "os_create os = (\<lambda>p. State_Monad.return None)" "os_write_file os = (\<lambda>p b m. State_Monad.return (Some (Err ''no space'')))"
    by (meson os.select_convs)
  show ?thesis
    using run_detached_leak [of os "''/logs''" "()" "()" "''t''" "()" "''/bin/x''" "()" "()" "[]" "Err ''no space''" "()" "[]"] os
    by fastforce
qed

end
