(* ===== verification/Local_Executor.thy ===== *)
theory Local_Executor
  imports Cmd_Run
begin

text \<open>
  \<^verbatim>\<open>internal/exec/local.go\<close>: the executor for localhost. Its methods delegate to the
  \<^verbatim>\<open>cmd\<close> package and to the operating system; process inspection is the library gopsutil,
  a record of functions here.
\<close>

section \<open>Process inspection (gopsutil)\<close>

record 'w procs =
  pr_new :: "int \<Rightarrow> ('w, goerr option) state"
  pr_is_running :: "int \<Rightarrow> ('w, goerr + bool) state"
  pr_status :: "int \<Rightarrow> ('w, goerr + string list) state"
  pr_exists :: "int \<Rightarrow> ('w, goerr + bool) state"
  pr_exe :: "int \<Rightarrow> ('w, goerr + string) state"

definition zombie :: string where
  "zombie = ''zombie''"

text \<open>\<^verbatim>\<open>int32(pid)\<close>.\<close>

definition to_int32 :: "int \<Rightarrow> int" where
  "to_int32 pid = sint (word_of_int pid :: 32 word)"

text \<open>\<^verbatim>\<open>strings.EqualFold\<close> on ASCII.\<close>

definition ascii_lower :: "char \<Rightarrow> char" where
  "ascii_lower c =
     (let n = of_char c :: nat in if 65 \<le> n \<and> n \<le> 90 then char_of (n + 32) else c)"

definition equal_fold :: "string \<Rightarrow> string \<Rightarrow> bool" where
  "equal_fold a b = (map ascii_lower a = map ascii_lower b)"

text \<open>The last part of \<^verbatim>\<open>IsRunning\<close>, the same in both executors up to how the path is read.\<close>

definition local_check_exe :: "'w procs \<Rightarrow> int \<Rightarrow> string \<Rightarrow> ('w, goerr + bool) state" where
  "local_check_exe ps pid expected_exe =
     (if expected_exe \<noteq> [] then do {
        x \<leftarrow> pr_exe ps pid;
        case x of
          Inl e \<Rightarrow> failE e
        | Inr exe \<Rightarrow> okE (equal_fold exe expected_exe) }
      else okE True)"

definition local_is_running :: "'w procs \<Rightarrow> int \<Rightarrow> string \<Rightarrow> ('w, goerr + bool) state" where
  "local_is_running ps pid expected_exe = do {
     let p = to_int32 pid;
     e \<leftarrow> pr_new ps p;
     case e of
       Some _ \<Rightarrow> okE False
     | None \<Rightarrow> do {
     running \<leftarrow> pr_is_running ps p;
     case running of
       Inl e \<Rightarrow> failE e
     | Inr False \<Rightarrow> okE False
     | Inr True \<Rightarrow> do {
     statuses \<leftarrow> pr_status ps p;
     case statuses of
       Inr sts \<Rightarrow>
         (if zombie \<in> set sts then okE False else local_check_exe ps p expected_exe)
     | Inl _ \<Rightarrow> do {
         exists \<leftarrow> pr_exists ps p;
         if exists = Inr False then okE False else local_check_exe ps p expected_exe } } } }"

section \<open>Kill\<close>

definition sudo_path :: "goerr + string \<Rightarrow> string" where
  "sudo_path lookup = (case lookup of Inr p \<Rightarrow> p | Inl _ \<Rightarrow> ''sudo'')"

definition local_kill :: "'w os \<Rightarrow> bool \<Rightarrow> string \<Rightarrow> int \<Rightarrow> int \<Rightarrow> ('w, goerr option) state" where
  "local_kill os use_sudo sudo pid signum =
     (if use_sudo then do {
        x \<leftarrow> os_combined_output os sudo [''-n'', ''kill'', ''-'' @ itoa signum, itoa pid];
        case x of
          (out, Some e) \<Rightarrow>
            State_Monad.return (Some (Wrap (''sudo kill -'' @ itoa signum @ '' '' @ itoa pid @ '' failed: '' @
              err_msg e @ '': '' @ trim_space out) e))
        | (out, None) \<Rightarrow> State_Monad.return None }
      else os_signal os pid signum)"

section \<open>The executor\<close>

definition local_executor ::
    "'w os \<Rightarrow> 'w procs \<Rightarrow> string \<Rightarrow> bool \<Rightarrow> string \<Rightarrow> 'w executor" where
  "local_executor os ps self use_sudo sudo =
     \<lparr>ex_is_local = True,
      ex_self_path = self,
      ex_look_path = os_look_path os,
      ex_run = cmd_run os,
      ex_run_detached = cmd_run_detached os,
      ex_mkdir_all = os_mkdir_all os,
      ex_write_file = os_write_file os,
      ex_read_file = os_read_file os,
      ex_remove = os_remove_all os,
      ex_rename = os_rename os,
      ex_stat = os_stat os,
      ex_chmod = os_chmod os,
      ex_read_dir = os_read_dir os,
      ex_copy_file = (\<lambda>src dst. do {
        r \<leftarrow> cmd_copy_file os src dst;
        case r of (n, None) \<Rightarrow> okE n | (n, Some e) \<Rightarrow> failE e }),
      ex_is_running = local_is_running ps,
      ex_kill = local_kill os use_sudo sudo\<rparr>"

definition local_upload :: "'w os \<Rightarrow> string \<Rightarrow> string \<Rightarrow> nat \<Rightarrow> ('w, int \<times> goerr option) state" where
  "local_upload os local_path target_path perm = do {
     r \<leftarrow> cmd_copy_file os local_path target_path;
     case r of
       (n, Some e) \<Rightarrow> State_Monad.return (n, Some e)
     | (n, None) \<Rightarrow> do {
         e \<leftarrow> os_chmod os target_path perm;
         State_Monad.return (n, e) } }"

interpretation local: executor_contract "local_executor os ps self use_sudo sudo"
  by unfold_locales (auto simp: local_executor_def dest: cmd_run_outcome cmd_run_detached_outcome)

section \<open>Properties\<close>

text \<open>A process that exists but is a zombie is not running for the local executor, whatever its
  executable is.\<close>

theorem local_zombie_not_running:
  assumes "run_state (pr_new ps (to_int32 pid)) w = (None, w1)"
    and "run_state (pr_is_running ps (to_int32 pid)) w1 = (Inr True, w2)"
    and "run_state (pr_status ps (to_int32 pid)) w2 = (Inr sts, w3)"
    and "zombie \<in> set sts"
  shows "run_state (local_is_running ps pid exe) w = (Inr False, w3)"
  using assms by (simp add: local_is_running_def Let_def)

theorem local_zombie_not_running_witness:
  "run_state (local_is_running
     \<lparr>pr_new = (\<lambda>p. State_Monad.return None), pr_is_running = (\<lambda>p. State_Monad.return (Inr True)),
      pr_status = (\<lambda>p. State_Monad.return (Inr [''sleep'', zombie])), pr_exists = (\<lambda>p. State_Monad.return (Inr True)),
      pr_exe = (\<lambda>p. State_Monad.return (Inr ''/self''))\<rparr> 42 ''/self'') () = (Inr False, ())"
  by (rule local_zombie_not_running [of _ _ _ "()" "()" "[''sleep'', zombie]"]) simp_all

end
