(* ===== verification/Ssh_Executor.thy ===== *)
theory Ssh_Executor
  imports Local_Executor
begin

text \<open>
  \<^verbatim>\<open>internal/exec/ssh.go\<close>: the executor for a remote target. The SSH session and the SFTP
  client are libraries: records of functions over the environment. The chain of jump hosts
  and the life cycle of the connection are in theory \<open>Ssh_Session\<close>, the recursive removal
  on a directory tree in theory \<open>Sftp_Tree\<close>.
\<close>

section \<open>Quoting for the remote shell\<close>

text \<open>\<^verbatim>\<open>shellQuoteArg\<close> (and \<^verbatim>\<open>shellSingleQuote\<close> of \<^verbatim>\<open>ssh_config.go\<close>): every single quote of the
  argument becomes quote, backslash, quote, quote.\<close>

definition quote_escape :: string where
  "quote_escape = [CHR 0x27, CHR 0x5C, CHR 0x27, CHR 0x27]"

definition shell_quote_arg :: "string \<Rightarrow> string" where
  "shell_quote_arg s = [CHR 0x27] @ replace_char (CHR 0x27) quote_escape s @ [CHR 0x27]"

definition shell_join :: "string \<Rightarrow> string list \<Rightarrow> string" where
  "shell_join command args = str_join (map shell_quote_arg (command # args)) '' ''"

text \<open>
  The specification: how a POSIX shell splits a line made of single-quoted parts, backslash
  escapes and plain characters into words. The state is the current word, if one has begun,
  and whether a quote is open; \<open>None\<close> is an unfinished quote or escape, or a character that
  the shell would treat specially outside quotes.
\<close>

definition shell_special :: "char \<Rightarrow> bool" where
  "shell_special c =
     (c \<in> {CHR ''$'', CHR 0x60, CHR 0x22, CHR ''&'', CHR '';'', CHR ''|'', CHR ''<'', CHR ''>'',
            CHR ''('', CHR '')'', CHR ''*'', CHR ''?'', CHR ''['', CHR ''~'', CHR ''#'', CHR 0x0A})"

fun shell_words :: "string option \<Rightarrow> bool \<Rightarrow> string \<Rightarrow> string list option" where
  "shell_words cur True [] = None"
| "shell_words cur False [] = Some (case cur of None \<Rightarrow> [] | Some w \<Rightarrow> [w])"
| "shell_words cur True (c # cs) =
     (let w = (case cur of None \<Rightarrow> [] | Some w \<Rightarrow> w)
      in if c = CHR 0x27 then shell_words (Some w) False cs
         else shell_words (Some (w @ [c])) True cs)"
| "shell_words cur False (c # cs) =
     (let w = (case cur of None \<Rightarrow> [] | Some w \<Rightarrow> w)
      in if c = CHR 0x27 then shell_words (Some w) True cs
         else if c = CHR 0x5C then
           (case cs of [] \<Rightarrow> None | d # ds \<Rightarrow> shell_words (Some (w @ [d])) False ds)
         else if c = CHR '' '' then
           (case cur of
              None \<Rightarrow> shell_words None False cs
            | Some w \<Rightarrow> map_option (Cons w) (shell_words None False cs))
         else if shell_special c then None
         else shell_words (Some (w @ [c])) False cs)"

lemma shell_words_quoted:
  "shell_words (Some w) True (replace_char (CHR 0x27) quote_escape s @ CHR 0x27 # rest) =
     shell_words (Some (w @ s)) False rest"
  by (induction s arbitrary: w)
    (simp_all add: replace_char_def quote_escape_def Let_def)

lemma shell_words_quote_arg:
  "shell_words cur False (shell_quote_arg s @ rest) =
     shell_words (Some ((case cur of None \<Rightarrow> [] | Some w \<Rightarrow> w) @ s)) False rest"
  using shell_words_quoted [of "case cur of None \<Rightarrow> [] | Some w \<Rightarrow> w" s rest]
  by (simp add: shell_quote_arg_def)

lemma shell_words_join_args:
  "shell_words None False (str_join (map shell_quote_arg args) '' '') = Some args"
proof (induction args rule: induct_list012)
  case (2 a)
  show ?case using shell_words_quote_arg [of None a "[]"] by simp
next
  case (3 a b args)
  then show ?case
    using shell_words_quote_arg [of None a "CHR '' '' # str_join (map shell_quote_arg (b # args)) '' ''"]
    by simp
qed simp

section \<open>The libraries\<close>

record 'w ssh_lib =
  sl_conn :: "('w, goerr option) state"
  sl_new_session :: "('w, goerr option) state"
  sl_session_run :: "string \<Rightarrow> ('w, (string \<times> string) \<times> run_end) state"
  sl_session_close :: "('w, unit) state"
  sl_timestamp :: "('w, string) state"

record 'w sftp_lib =
  sf_mkdir_all :: "string \<Rightarrow> ('w, goerr option) state"
  sf_chmod :: "string \<Rightarrow> nat \<Rightarrow> ('w, goerr option) state"
  sf_open_trunc :: "string \<Rightarrow> ('w, goerr option) state"
  sf_open :: "string \<Rightarrow> ('w, goerr option) state"
  sf_write :: "string \<Rightarrow> string \<Rightarrow> ('w, goerr option) state"
  sf_close :: "string \<Rightarrow> ('w, goerr option) state"
  sf_read_all :: "string \<Rightarrow> ('w, goerr + string) state"
  sf_lstat :: "string \<Rightarrow> ('w, goerr + file_info) state"
  sf_stat :: "string \<Rightarrow> ('w, goerr + file_info) state"
  sf_read_dir :: "string \<Rightarrow> ('w, goerr + string list) state"
  sf_remove :: "string \<Rightarrow> ('w, goerr option) state"
  sf_remove_directory :: "string \<Rightarrow> ('w, goerr option) state"
  sf_posix_rename :: "string \<Rightarrow> string \<Rightarrow> ('w, goerr option) state"
  sf_io_copy :: "string \<Rightarrow> string \<Rightarrow> ('w, int \<times> goerr option) state"
  sf_io_copy_local :: "string \<Rightarrow> string \<Rightarrow> ('w, int \<times> goerr option) state"

text \<open>A step whose only result is an error.\<close>

definition tryE :: "('w, goerr option) state \<Rightarrow> ('w, goerr + unit) state" where
  "tryE m = do { e \<leftarrow> m; case e of Some x \<Rightarrow> failE x | None \<Rightarrow> okE () }"

definition to_err :: "('w, goerr + unit) state \<Rightarrow> ('w, goerr option) state" where
  "to_err m = do { r \<leftarrow> m; State_Monad.return (case r of Inl e \<Rightarrow> Some e | Inr _ \<Rightarrow> None) }"

lemma run_tryE [simp, run_simps]:
  "run_state (tryE m) w =
     (case run_state m w of (Some e, w') \<Rightarrow> (Inl e, w') | (None, w') \<Rightarrow> (Inr (), w'))"
  by (auto simp: tryE_def split: prod.splits option.splits)

lemma run_to_err [simp, run_simps]:
  "run_state (to_err m) w =
     (case run_state m w of (Inl e, w') \<Rightarrow> (Some e, w') | (Inr _, w') \<Rightarrow> (None, w'))"
  by (auto simp: to_err_def split: prod.splits sum.splits)

section \<open>Running commands\<close>

definition remote_path :: string where
  "remote_path = ''/usr/local/sbin:/usr/local/bin:/usr/sbin:/usr/bin:/sbin:/bin''"

text \<open>\<^verbatim>\<open>PATH=%q:$PATH\<close> in front of a probe command; quoting leaves this constant unchanged.\<close>

definition with_remote_path :: "string \<Rightarrow> string" where
  "with_remote_path cmd = ''PATH='' @ [CHR 0x22] @ remote_path @ [CHR 0x22] @ '':$PATH '' @ cmd"

text \<open>\<^verbatim>\<open>runCaptured\<close>: stdout, exit code and transport error.\<close>

definition run_captured :: "'w ssh_lib \<Rightarrow> string \<Rightarrow> ('w, (string \<times> int) \<times> goerr option) state" where
  "run_captured ssh cmd_str = do {
     e1 \<leftarrow> sl_conn ssh;
     case e1 of
       Some e \<Rightarrow> State_Monad.return (([], -1), Some e)
     | None \<Rightarrow> do {
     e2 \<leftarrow> sl_new_session ssh;
     case e2 of
       Some e \<Rightarrow> State_Monad.return (([], -1), Some e)
     | None \<Rightarrow> do {
     oc \<leftarrow> sl_session_run ssh (with_remote_path cmd_str);
     _ \<leftarrow> sl_session_close ssh;
     State_Monad.return
       (case snd oc of
          EndOk \<Rightarrow> ((fst (fst oc), 0), None)
        | EndExit e code \<Rightarrow> ((fst (fst oc), code), None)
        | EndFail e \<Rightarrow> ((fst (fst oc), -1), Some e)) } } }"

definition ssh_write_file :: "'w sftp_lib \<Rightarrow> string \<Rightarrow> string \<Rightarrow> nat \<Rightarrow> ('w, goerr + unit) state" where
  "ssh_write_file sc p data perm =
     bindE (tryE (sf_open_trunc sc p)) (\<lambda>_. do {
       we \<leftarrow> sf_write sc p data;
       case we of
         Some e \<Rightarrow> do { _ \<leftarrow> sf_close sc p; failE e }
       | None \<Rightarrow>
           bindE (tryE (sf_close sc p)) (\<lambda>_. tryE (sf_chmod sc p perm)) })"

definition prepare_logs ::
    "'w ssh_lib \<Rightarrow> 'w sftp_lib \<Rightarrow> string \<Rightarrow> string \<Rightarrow> string list \<Rightarrow> ('w, goerr + (string \<times> string)) state" where
  "prepare_logs ssh sc log_path command args = do {
     e1 \<leftarrow> sf_mkdir_all sc log_path;
     case e1 of
       Some e \<Rightarrow> failE (wrapf ''failed to create log directory: '' e)
     | None \<Rightarrow> do {
     let cmd_name = path_base command;
     ts \<leftarrow> sl_timestamp ssh;
     we \<leftarrow> ssh_write_file sc (log_file log_path ts cmd_name ''command'') (command_log command args) mode_600;
     case we of
       Inl e \<Rightarrow> failE (wrapf ''failed to create command log file: '' e)
     | Inr _ \<Rightarrow>
         okE (log_file log_path ts cmd_name ''stdout'', log_file log_path ts cmd_name ''stderr'') } }"

definition ssh_run :: "'w ssh_lib \<Rightarrow> 'w sftp_lib \<Rightarrow> string \<Rightarrow> string \<Rightarrow> string list \<Rightarrow> ('w, cmd_outcome) state" where
  "ssh_run ssh sc log_path command args = do {
     let res = new_result command args;
     e1 \<leftarrow> sl_conn ssh;
     case e1 of
       Some e \<Rightarrow> State_Monad.return (result_fail res e)
     | None \<Rightarrow> do {
     logs \<leftarrow> prepare_logs ssh sc log_path command args;
     case logs of
       Inl e \<Rightarrow> State_Monad.return (result_fail res e)
     | Inr (out_path, err_path) \<Rightarrow> do {
     let res = res\<lparr>r_logs_stdout := out_path, r_logs_stderr := err_path\<rparr>;
     e2 \<leftarrow> sf_open_trunc sc out_path;
     case e2 of
       Some e \<Rightarrow> State_Monad.return (result_fail res (wrapf ''failed to create stdout file: '' e))
     | None \<Rightarrow> do {
     e3 \<leftarrow> sf_open_trunc sc err_path;
     case e3 of
       Some e \<Rightarrow> do {
         _ \<leftarrow> sf_close sc out_path;
         State_Monad.return (result_fail res (wrapf ''failed to create stderr file: '' e)) }
     | None \<Rightarrow> do {
     e4 \<leftarrow> sl_new_session ssh;
     case e4 of
       Some e \<Rightarrow> do {
         _ \<leftarrow> sf_close sc err_path;
         _ \<leftarrow> sf_close sc out_path;
         State_Monad.return (result_fail res e) }
     | None \<Rightarrow> do {
     oc \<leftarrow> sl_session_run ssh (shell_join command args);
     let res = finish_run res oc;
     _ \<leftarrow> sl_session_close ssh;
     _ \<leftarrow> sf_close sc err_path;
     _ \<leftarrow> sf_close sc out_path;
     State_Monad.return (res, r_error res) } } } } } }"

text \<open>\<^verbatim>\<open>detachCmd\<close>: the cached helper, else \<^verbatim>\<open>setsid\<close> if the target has it, else \<^verbatim>\<open>nohup\<close>.\<close>

definition detach_cmd :: "'w ssh_lib \<Rightarrow> string \<Rightarrow> ('w, string) state" where
  "detach_cmd ssh cached =
     (if cached \<noteq> [] then State_Monad.return cached
      else do {
        r \<leftarrow> run_captured ssh ''command -v setsid'';
        State_Monad.return (if snd r = None \<and> snd (fst r) = 0 then ''setsid'' else ''nohup'') })"

definition detach_wrapper :: "string \<Rightarrow> string \<Rightarrow> string \<Rightarrow> string \<Rightarrow> string" where
  "detach_wrapper helper inner out_path err_path =
     with_remote_path (helper @ '' '' @ inner @ '' >'' @ shell_quote_arg out_path @ '' 2>'' @
       shell_quote_arg err_path @ '' </dev/null & echo $!'')"

definition ssh_run_detached ::
    "'w ssh_lib \<Rightarrow> 'w sftp_lib \<Rightarrow> string \<Rightarrow> string \<Rightarrow> string \<Rightarrow> string list \<Rightarrow> ('w, cmd_outcome) state" where
  "ssh_run_detached ssh sc cached log_path command args = do {
     let res = new_result command args;
     e1 \<leftarrow> sl_conn ssh;
     case e1 of
       Some e \<Rightarrow> State_Monad.return (result_fail res e)
     | None \<Rightarrow> do {
     logs \<leftarrow> prepare_logs ssh sc log_path command args;
     case logs of
       Inl e \<Rightarrow> State_Monad.return (result_fail res e)
     | Inr (out_path, err_path) \<Rightarrow> do {
     let res = res\<lparr>r_logs_stdout := out_path, r_logs_stderr := err_path\<rparr>;
     helper \<leftarrow> detach_cmd ssh cached;
     r \<leftarrow> run_captured ssh (detach_wrapper helper (shell_join command args) out_path err_path);
     case r of
       (_, Some e) \<Rightarrow> State_Monad.return (result_fail res e)
     | ((stdout, code), None) \<Rightarrow>
         if code \<noteq> 0 then
           State_Monad.return (result_fail (res\<lparr>r_exit_code := code\<rparr>)
             (Err (''failed to start detached command (exit '' @ itoa code @ '')'')))
         else
           State_Monad.return
             (case atoi (trim_space stdout) of
                Some pid \<Rightarrow> (res\<lparr>r_pid := pid\<rparr>, None)
              | None \<Rightarrow> (res, None)) } } }"

section \<open>Files\<close>

text \<open>\<^verbatim>\<open>removeAll\<close>, with fuel for the recursion into directories; running out of fuel is the
  outer \<open>Inl None\<close>.\<close>

fun remove_all :: "nat \<Rightarrow> 'w sftp_lib \<Rightarrow> string \<Rightarrow> ('w, goerr option + unit) state" where
  "remove_all 0 sc p = failE None"
| "remove_all (Suc n) sc p = do {
     fi \<leftarrow> sf_lstat sc p;
     case fi of
       Inl e \<Rightarrow> if is_not_exist e then okE () else failE (Some e)
     | Inr info \<Rightarrow>
         if fi_is_dir info then do {
           ents \<leftarrow> sf_read_dir sc p;
           case ents of
             Inl e \<Rightarrow> failE (Some e)
           | Inr names \<Rightarrow>
               bindE (forE names (\<lambda>name. remove_all n sc (path_join [p, name]))) (\<lambda>_. do {
                 r \<leftarrow> sf_remove_directory sc p;
                 case r of Some e \<Rightarrow> failE (Some e) | None \<Rightarrow> okE () }) }
         else do {
           r \<leftarrow> sf_remove sc p;
           case r of Some e \<Rightarrow> failE (Some e) | None \<Rightarrow> okE () } }"

definition ssh_mkdir_all :: "'w ssh_lib \<Rightarrow> 'w sftp_lib \<Rightarrow> string \<Rightarrow> nat \<Rightarrow> ('w, goerr option) state" where
  "ssh_mkdir_all ssh sc p perm =
     to_err (bindE (tryE (sl_conn ssh)) (\<lambda>_.
       bindE (tryE (sf_mkdir_all sc p)) (\<lambda>_. tryE (sf_chmod sc p perm))))"

definition ssh_read_file :: "'w ssh_lib \<Rightarrow> 'w sftp_lib \<Rightarrow> string \<Rightarrow> ('w, goerr + string) state" where
  "ssh_read_file ssh sc p =
     bindE (tryE (sl_conn ssh)) (\<lambda>_. bindE (tryE (sf_open sc p)) (\<lambda>_. do {
       r \<leftarrow> sf_read_all sc p;
       _ \<leftarrow> sf_close sc p;
       State_Monad.return r }))"

definition ssh_copy_file :: "'w ssh_lib \<Rightarrow> 'w sftp_lib \<Rightarrow> string \<Rightarrow> string \<Rightarrow> ('w, goerr + int) state" where
  "ssh_copy_file ssh sc src dst =
     bindE (tryE (sl_conn ssh)) (\<lambda>_. bindE (tryE (sf_open sc src)) (\<lambda>_. do {
       e \<leftarrow> sf_open_trunc sc dst;
       case e of
         Some x \<Rightarrow> do { _ \<leftarrow> sf_close sc src; failE x }
       | None \<Rightarrow> do {
           r \<leftarrow> sf_io_copy sc dst src;
           _ \<leftarrow> sf_close sc dst;
           _ \<leftarrow> sf_close sc src;
           case r of (n, Some x) \<Rightarrow> failE x | (n, None) \<Rightarrow> okE n } }))"

text \<open>\<^verbatim>\<open>Upload\<close>: the error of closing the destination is reported when the copy itself succeeded.\<close>

definition ssh_upload ::
    "'w ssh_lib \<Rightarrow> 'w sftp_lib \<Rightarrow> 'w os \<Rightarrow> string \<Rightarrow> string \<Rightarrow> nat \<Rightarrow> ('w, int \<times> goerr option) state" where
  "ssh_upload ssh sc os local_path target_path perm = do {
     e1 \<leftarrow> sl_conn ssh;
     case e1 of
       Some e \<Rightarrow> State_Monad.return (0, Some e)
     | None \<Rightarrow> do {
     e2 \<leftarrow> os_open os local_path;
     case e2 of
       Some e \<Rightarrow> State_Monad.return (0, Some e)
     | None \<Rightarrow> do {
     e3 \<leftarrow> sf_open_trunc sc target_path;
     case e3 of
       Some e \<Rightarrow> do { _ \<leftarrow> os_close os local_path; State_Monad.return (0, Some e) }
     | None \<Rightarrow> do {
     (n, copy_err) \<leftarrow> sf_io_copy_local sc target_path local_path;
     cerr \<leftarrow> sf_close sc target_path;
     case (if copy_err = None then cerr else copy_err) of
       Some e \<Rightarrow> do { _ \<leftarrow> os_close os local_path; State_Monad.return (n, Some e) }
     | None \<Rightarrow> do {
         e4 \<leftarrow> sf_chmod sc target_path perm;
         _ \<leftarrow> os_close os local_path;
         State_Monad.return (n, e4) } } } } }"

section \<open>Processes\<close>

definition ssh_is_running :: "'w ssh_lib \<Rightarrow> bool \<Rightarrow> int \<Rightarrow> string \<Rightarrow> ('w, goerr + bool) state" where
  "ssh_is_running ssh use_sudo pid expected_exe = do {
     let p = itoa pid;
     r \<leftarrow> run_captured ssh (''test -d /proc/'' @ p @ '' && ! grep -qs '' @ [CHR 0x27] @
            ''^State:[[:space:]]*[Zz]'' @ [CHR 0x27] @ '' /proc/'' @ p @ ''/status'');
     case r of
       (_, Some e) \<Rightarrow> failE e
     | ((_, code), None) \<Rightarrow>
         if code \<noteq> 0 then okE False
         else if expected_exe \<noteq> [] then do {
           r2 \<leftarrow> run_captured ssh ((if use_sudo then ''sudo -n '' else []) @ ''readlink /proc/'' @ p @ ''/exe'');
           case r2 of
             (_, Some e) \<Rightarrow> failE e
           | ((out, code2), None) \<Rightarrow>
               if code2 \<noteq> 0 then okE False else okE (equal_fold (trim_space out) expected_exe) }
         else okE True }"

definition ssh_kill :: "'w ssh_lib \<Rightarrow> bool \<Rightarrow> int \<Rightarrow> int \<Rightarrow> ('w, goerr option) state" where
  "ssh_kill ssh use_sudo pid signum = do {
     let kill = ''kill -'' @ itoa signum @ '' '' @ itoa pid;
     r \<leftarrow> run_captured ssh ((if use_sudo then ''sudo -n '' else []) @ kill);
     case r of
       (_, Some e) \<Rightarrow> State_Monad.return (Some e)
     | ((out, code), None) \<Rightarrow>
         State_Monad.return
           (if code \<noteq> 0
            then Some (Err (kill @ '' failed (exit '' @ itoa code @ ''): '' @ trim_space out))
            else None) }"

definition ssh_look_path :: "'w ssh_lib \<Rightarrow> string \<Rightarrow> ('w, goerr + string) state" where
  "ssh_look_path ssh file = do {
     let missing = Err (file @ '': executable file not found on target'');
     r \<leftarrow> run_captured ssh (''command -v '' @ shell_quote_arg file);
     case r of
       (_, Some e) \<Rightarrow> failE e
     | ((out, code), None) \<Rightarrow>
         if code \<noteq> 0 then failE missing
         else if trim_space out = [] then failE missing else okE (trim_space out) }"

section \<open>The executor\<close>

definition ssh_executor ::
    "'w ssh_lib \<Rightarrow> 'w sftp_lib \<Rightarrow> nat \<Rightarrow> string \<Rightarrow> bool \<Rightarrow> string \<Rightarrow> 'w executor" where
  "ssh_executor ssh sc fuel self use_sudo cached =
     \<lparr>ex_is_local = False,
      ex_self_path = self,
      ex_look_path = ssh_look_path ssh,
      ex_run = ssh_run ssh sc,
      ex_run_detached = ssh_run_detached ssh sc cached,
      ex_mkdir_all = ssh_mkdir_all ssh sc,
      ex_write_file = (\<lambda>p b m. to_err (bindE (tryE (sl_conn ssh)) (\<lambda>_. ssh_write_file sc p b m))),
      ex_read_file = ssh_read_file ssh sc,
      ex_remove = (\<lambda>p. to_err (bindE (tryE (sl_conn ssh)) (\<lambda>_. do {
        r \<leftarrow> remove_all fuel sc p;
        case r of Inl e \<Rightarrow> failE (case e of Some x \<Rightarrow> x | None \<Rightarrow> Err ''out of fuel'') | Inr _ \<Rightarrow> okE () }))),
      ex_rename = (\<lambda>p q. to_err (bindE (tryE (sl_conn ssh)) (\<lambda>_. tryE (sf_posix_rename sc p q)))),
      ex_stat = (\<lambda>p. bindE (tryE (sl_conn ssh)) (\<lambda>_. sf_stat sc p)),
      ex_chmod = (\<lambda>p m. to_err (bindE (tryE (sl_conn ssh)) (\<lambda>_. tryE (sf_chmod sc p m)))),
      ex_read_dir = (\<lambda>p. bindE (tryE (sl_conn ssh)) (\<lambda>_. sf_read_dir sc p)),
      ex_copy_file = ssh_copy_file ssh sc,
      ex_is_running = ssh_is_running ssh use_sudo,
      ex_kill = ssh_kill ssh use_sudo\<rparr>"

lemma ssh_run_outcome:
  assumes "run_state (ssh_run ssh sc d c a) w = ((res, err), w')"
  shows "err = r_error res" and "r_cmd res = c" and "r_args res = a"
    and "r_exit_code res \<noteq> 0 \<Longrightarrow> r_error res \<noteq> None"
  using assms
  by (auto simp: ssh_run_def result_fail_def Let_def
      split: prod.splits option.splits sum.splits if_splits run_end.splits)

lemma ssh_run_detached_outcome:
  assumes "run_state (ssh_run_detached ssh sc cached d c a) w = ((res, err), w')"
  shows "err = r_error res" and "r_cmd res = c" and "r_args res = a"
    and "r_error res \<noteq> None \<Longrightarrow> r_pid res = 0"
  using assms
  by (auto simp: ssh_run_detached_def result_fail_def Let_def
      split: prod.splits option.splits sum.splits if_splits)

interpretation remote: executor_contract "ssh_executor ssh sc fuel self use_sudo cached"
  by unfold_locales (auto simp: ssh_executor_def dest: ssh_run_outcome ssh_run_detached_outcome)

section \<open>Properties\<close>

text \<open>C15: The words a POSIX shell reads from the quoted command line of the SSH executor are the command and
  its arguments, whatever characters they hold.\<close>

theorem shell_join_words: "shell_words None False (shell_join command args) = Some (command # args)"
  using shell_words_join_args [of "command # args"]
  by (cases args) (simp_all add: shell_join_def)

end
