(* ===== verification/Sftp_Tree.thy ===== *)
theory Sftp_Tree
  imports Ssh_Executor
begin

text \<open>
  \<^verbatim>\<open>removeAll\<close> of \<^verbatim>\<open>internal/exec/ssh.go\<close> on a directory tree. SFTP has only the removal of
  a file and of an empty directory; the tree below is the documented meaning of these
  requests, \<open>node_remove\<close> the meaning of \<^verbatim>\<open>os.RemoveAll\<close>, and the main fact that the
  recursion of the executor computes it.
\<close>

section \<open>A directory tree\<close>

datatype node = FFile string nat | FDir nat "(string \<times> node) list"

fun node_at :: "node \<Rightarrow> string list \<Rightarrow> node option" where
  "node_at nd [] = Some nd"
| "node_at (FFile b m) (x # xs) = None"
| "node_at (FDir m cs) (x # xs) = (case map_of cs x of None \<Rightarrow> None | Some c \<Rightarrow> node_at c xs)"

fun node_update :: "string list \<Rightarrow> node \<Rightarrow> node \<Rightarrow> node" where
  "node_update [] new nd = new"
| "node_update (x # xs) new (FFile b m) = FFile b m"
| "node_update (x # xs) new (FDir m cs) =
     FDir m (map (\<lambda>(k, v). (k, if k = x then node_update xs new v else v)) cs)"

fun node_remove :: "string list \<Rightarrow> node \<Rightarrow> node" where
  "node_remove [] nd = nd"
| "node_remove (x # xs) (FFile b m) = FFile b m"
| "node_remove [x] (FDir m cs) = FDir m (filter (\<lambda>(k, v). k \<noteq> x) cs)"
| "node_remove (x # y # xs) (FDir m cs) =
     FDir m (map (\<lambda>(k, v). (k, if k = x then node_remove (y # xs) v else v)) cs)"

fun node_ok :: "node \<Rightarrow> bool" where
  "node_ok (FFile b m) = True"
| "node_ok (FDir m cs) =
     (distinct (map fst cs) \<and> (\<forall>p \<in> set cs. plain_name (fst p) \<and> node_ok (snd p)))"

fun node_depth :: "node \<Rightarrow> nat" where
  "node_depth (FFile b m) = 0"
| "node_depth (FDir m cs) = Suc (Max (set (0 # map (\<lambda>p. node_depth (snd p)) cs)))"

section \<open>SFTP requests on the tree\<close>

text \<open>The elements of an absolute path.\<close>

definition fs_elems :: "string \<Rightarrow> string list" where
  "fs_elems p = clean_elems True (split_on (CHR ''/'') p)"

definition node_info :: "node \<Rightarrow> file_info" where
  "node_info nd =
     (case nd of
        FFile b m \<Rightarrow> \<lparr>fi_is_dir = False, fi_size = length b\<rparr>
      | FDir m cs \<Rightarrow> \<lparr>fi_is_dir = True, fi_size = 0\<rparr>)"

definition tree_stat :: "string \<Rightarrow> (node, goerr + file_info) state" where
  "tree_stat p = State (\<lambda>nd.
     (case node_at nd (fs_elems p) of
        None \<Rightarrow> Inl (Sentinel ErrNotExist)
      | Some x \<Rightarrow> Inr (node_info x), nd))"

definition tree_read_dir :: "string \<Rightarrow> (node, goerr + string list) state" where
  "tree_read_dir p = State (\<lambda>nd.
     (case node_at nd (fs_elems p) of
        Some (FDir m cs) \<Rightarrow> Inr (map fst cs)
      | Some (FFile b m) \<Rightarrow> Inl (Err ''not a directory'')
      | None \<Rightarrow> Inl (Sentinel ErrNotExist), nd))"

definition tree_remove :: "string \<Rightarrow> (node, goerr option) state" where
  "tree_remove p = State (\<lambda>nd.
     case node_at nd (fs_elems p) of
       Some (FFile b m) \<Rightarrow> (None, node_remove (fs_elems p) nd)
     | Some (FDir m cs) \<Rightarrow> (Some (Err ''is a directory''), nd)
     | None \<Rightarrow> (Some (Sentinel ErrNotExist), nd))"

definition tree_remove_directory :: "string \<Rightarrow> (node, goerr option) state" where
  "tree_remove_directory p = State (\<lambda>nd.
     case node_at nd (fs_elems p) of
       Some (FDir m []) \<Rightarrow> (None, node_remove (fs_elems p) nd)
     | Some (FDir m (c # cs)) \<Rightarrow> (Some (Err ''directory not empty''), nd)
     | Some (FFile b m) \<Rightarrow> (Some (Err ''not a directory''), nd)
     | None \<Rightarrow> (Some (Sentinel ErrNotExist), nd))"

text \<open>The requests \<^verbatim>\<open>removeAll\<close> uses, any other requests unchanged.\<close>

definition tree_sftp :: "node sftp_lib \<Rightarrow> node sftp_lib" where
  "tree_sftp sc = sc\<lparr>sf_lstat := tree_stat, sf_read_dir := tree_read_dir,
     sf_remove := tree_remove, sf_remove_directory := tree_remove_directory\<rparr>"

lemma tree_sftp_simps [simp]:
  "sf_lstat (tree_sftp sc) = tree_stat"
  "sf_read_dir (tree_sftp sc) = tree_read_dir"
  "sf_remove (tree_sftp sc) = tree_remove"
  "sf_remove_directory (tree_sftp sc) = tree_remove_directory"
  by (simp_all add: tree_sftp_def)

section \<open>Laws of the tree\<close>

lemma fs_elems_abs [simp]: "list_all plain_name es \<Longrightarrow> fs_elems (abs_path es) = es"
  using foldl_clean_plain [of es True "[]"]
  by (auto simp: fs_elems_def split_abs_path clean_elems_def clean_push_def plain_name_def list_all_def)

lemma map_of_map_if:
  "map_of (map (\<lambda>(k, v). (k, if k = x then f v else v)) cs) y =
     (if y = x then map_option f (map_of cs y) else map_of cs y)"
  by (induction cs) auto

lemma node_at_update: "node_at nd es = Some old \<Longrightarrow> node_at (node_update es new nd) es = Some new"
  by (induction nd es rule: node_at.induct) (auto simp: map_of_map_if split: option.splits)

lemma node_update_update: "node_update es a (node_update es b nd) = node_update es a nd"
  by (induction es b nd rule: node_update.induct) (auto simp: comp_def split: prod.splits)

lemma filter_map_keys:
  "filter (\<lambda>(k, v). k \<noteq> x) (map (\<lambda>(k, v). (k, if k = x then f v else v)) cs) =
     filter (\<lambda>(k, v). k \<noteq> x) cs"
  by (induction cs) auto

lemma node_remove_update: "es \<noteq> [] \<Longrightarrow> node_remove es (node_update es new nd) = node_remove es nd"
  by (induction es nd rule: node_remove.induct)
    (auto simp: filter_map_keys comp_def split: prod.splits)

lemma map_keys_absent: "x \<notin> fst ` set cs \<Longrightarrow> map (\<lambda>(k, v). (k, if k = x then f v else v)) cs = cs"
  by (induction cs) auto

lemma filter_keys_absent: "x \<notin> fst ` set cs \<Longrightarrow> filter (\<lambda>(k, v). k \<noteq> x) cs = cs"
  by (induction cs) auto

lemma map_of_map_cong:
  assumes "distinct (map fst cs)" and "\<And>v. map_of cs x = Some v \<Longrightarrow> f v = g v"
  shows "map (\<lambda>(k, v). (k, if k = x then f v else v)) cs = map (\<lambda>(k, v). (k, if k = x then g v else v)) cs"
  using assms by (intro map_cong) (auto simp: map_of_is_SomeI)

lemma node_ok_child: "node_ok (FDir m cs) \<Longrightarrow> map_of cs x = Some c \<Longrightarrow> node_ok c"
  by (force dest: map_of_SomeD)

lemma node_at_ok: "node_ok nd \<Longrightarrow> node_at nd es = Some x \<Longrightarrow> node_ok x"
  by (induction nd es rule: node_at.induct) (auto split: option.splits dest: node_ok_child)

lemma node_remove_Cons:
  "xs \<noteq> [] \<Longrightarrow> node_remove (x # xs) (FDir m cs) =
     FDir m (map (\<lambda>(k, v). (k, if k = x then node_remove xs v else v)) cs)"
  by (cases xs) auto

lemma snoc_not_Nil: "xs @ [x] \<noteq> []"
  by simp

lemma node_remove_child:
  assumes "node_ok nd" and "node_at nd es = Some (FDir m ((x, c) # rest))"
  shows "node_remove (es @ [x]) nd = node_update es (FDir m rest) nd"
  using assms
proof (induction nd es rule: node_at.induct)
  case (1 nd)
  then show ?case by (auto simp: filter_keys_absent)
next
  case (3 m' cs y ys)
  then obtain c' where c': "map_of cs y = Some c'" "node_at c' ys = Some (FDir m ((x, c) # rest))"
    by (auto split: option.splits)
  then have "node_remove (ys @ [x]) c' = node_update ys (FDir m rest) c'"
    using 3 node_ok_child [of m' cs y c'] by auto
  moreover have "distinct (map fst cs)" using 3 by simp
  ultimately have "map (\<lambda>(k, v). (k, if k = y then node_remove (ys @ [x]) v else v)) cs =
      map (\<lambda>(k, v). (k, if k = y then node_update ys (FDir m rest) v else v)) cs"
    using c' by (intro map_of_map_cong) auto
  then show ?case by (simp only: append_Cons node_remove_Cons [OF snoc_not_Nil] node_update.simps)
qed simp

lemma node_ok_update:
  "node_ok nd \<Longrightarrow> node_ok new \<Longrightarrow> node_ok (node_update es new nd)"
  by (induction es new nd rule: node_update.induct)
    (auto simp: comp_def case_prod_beta)

section \<open>The recursion computes RemoveAll\<close>

lemma run_tree_stat [simp]:
  "run_state (tree_stat p) nd =
     (case node_at nd (fs_elems p) of
        None \<Rightarrow> Inl (Sentinel ErrNotExist)
      | Some x \<Rightarrow> Inr (node_info x), nd)"
  by (simp add: tree_stat_def)

lemma depth_child:
  "c \<in> set cs \<Longrightarrow> node_depth (FDir m cs) < Suc n \<Longrightarrow> node_depth (snd c) < n"
proof -
  assume c: "c \<in> set cs" and d: "node_depth (FDir m cs) < Suc n"
  have "node_depth (snd c) \<le> Max (set (0 # map (\<lambda>p. node_depth (snd p)) cs))"
    using c by (intro Max_ge) auto
  also have "\<dots> < n" using d by (simp only: node_depth.simps Suc_less_eq)
  finally show ?thesis .
qed

lemma remove_all_loop:
  assumes rec: "\<And>es nd x. list_all plain_name es \<Longrightarrow> es \<noteq> [] \<Longrightarrow> node_ok nd \<Longrightarrow>
      node_at nd es = Some x \<Longrightarrow> node_depth x < n \<Longrightarrow>
      run_state (remove_all n (tree_sftp sc) (abs_path es)) nd = (Inr (), node_remove es nd)"
    and es: "list_all plain_name es" "es \<noteq> []"
  shows "node_ok nd \<Longrightarrow> node_at nd es = Some (FDir m cs) \<Longrightarrow>
      \<forall>c \<in> set cs. node_depth (snd c) < n \<Longrightarrow>
      run_state (forE (map fst cs) (\<lambda>name. remove_all n (tree_sftp sc) (path_join [abs_path es, name]))) nd =
        (Inr (), if cs = [] then nd else node_update es (FDir m []) nd)"
proof (induction cs arbitrary: nd)
  case (Cons c cs)
  obtain x nx where c: "c = (x, nx)" by fastforce
  have ok: "node_ok (FDir m (c # cs))" using Cons.prems node_at_ok by blast
  then have x: "plain_name x" and okcs: "node_ok (FDir m cs)" using c by auto
  have at: "node_at nd (es @ [x]) = Some nx"
  proof -
    have "node_at nd (es @ ys) = node_at (FDir m (c # cs)) ys" for ys
      using Cons.prems(2) by (induction nd es rule: node_at.induct) (auto split: option.splits)
    with c show ?thesis by simp
  qed
  have "run_state (remove_all n (tree_sftp sc) (abs_path (es @ [x]))) nd =
      (Inr (), node_remove (es @ [x]) nd)"
    using rec [of "es @ [x]" nd nx] es x at Cons.prems c by simp
  moreover have "path_join [abs_path es, x] = abs_path (es @ [x])"
    using path_join_abs [of es "[x]"] es x by simp
  ultimately have step: "run_state (remove_all n (tree_sftp sc) (path_join [abs_path es, x])) nd =
      (Inr (), node_update es (FDir m cs) nd)"
    using node_remove_child [of nd es m x nx cs] Cons.prems c by simp
  have "run_state (forE (map fst cs) (\<lambda>name. remove_all n (tree_sftp sc) (path_join [abs_path es, name])))
      (node_update es (FDir m cs) nd) =
      (Inr (), if cs = [] then node_update es (FDir m cs) nd
               else node_update es (FDir m []) (node_update es (FDir m cs) nd))"
    using Cons node_at_update node_ok_update okcs by simp
  with step c show ?case by (simp add: node_update_update)
qed simp

section \<open>Properties\<close>

text \<open>C22: \<^verbatim>\<open>removeAll\<close> over SFTP removes a path and everything below it, and only that, given fuel for the
  depth of the tree.\<close>

theorem remove_all_removes:
  assumes "list_all plain_name es" and "es \<noteq> []" and "node_ok nd"
    and "node_at nd es = Some x" and "node_depth x < n"
  shows "run_state (remove_all n (tree_sftp sc) (abs_path es)) nd = (Inr (), node_remove es nd)"
  using assms
proof (induction n arbitrary: es nd x)
  case (Suc n)
  show ?case
  proof (cases x)
    case (FFile b m)
    with Suc.prems show ?thesis by (simp add: tree_remove_def node_info_def)
  next
    case (FDir m cs)
    let ?nd = "if cs = [] then nd else node_update es (FDir m []) nd"
    have "\<forall>c \<in> set cs. node_depth (snd c) < n"
      using depth_child Suc.prems FDir by blast
    then have loop: "run_state (forE (map fst cs)
        (\<lambda>name. remove_all n (tree_sftp sc) (path_join [abs_path es, name]))) nd = (Inr (), ?nd)"
      using remove_all_loop [of n sc es nd m cs] Suc FDir by blast
    have "node_at ?nd es = Some (FDir m [])"
      using Suc.prems FDir node_at_update by auto
    then show ?thesis
      using Suc.prems FDir loop
      by (auto simp: tree_read_dir_def tree_remove_directory_def node_info_def node_remove_update)
  qed
qed simp

theorem remove_all_removes_witness:
  "\<forall>sc. run_state (remove_all 3 (tree_sftp sc) (abs_path [''d'']))
     (FDir 0 [(''d'', FDir 0 [(''f'', FFile ''x'' 0)]), (''e'', FFile [] 0)]) =
   (Inr (), FDir 0 [(''e'', FFile [] 0)])"
proof
  fix sc
  show "run_state (remove_all 3 (tree_sftp sc) (abs_path [''d'']))
     (FDir 0 [(''d'', FDir 0 [(''f'', FFile ''x'' 0)]), (''e'', FFile [] 0)]) =
   (Inr (), FDir 0 [(''e'', FFile [] 0)])"
    using remove_all_removes [of "[''d'']" "FDir 0 [(''d'', FDir 0 [(''f'', FFile ''x'' 0)]), (''e'', FFile [] 0)]"
        "FDir 0 [(''f'', FFile ''x'' 0)]" 3 sc]
    by (simp add: plain_name_def)
qed

end
