(* ===== verification/Ssh_Session.thy ===== *)
theory Ssh_Session
  imports Ssh_Executor
begin

text \<open>
  The life cycle of the connection in \<^verbatim>\<open>internal/exec/ssh.go\<close>: \<^verbatim>\<open>dial\<close> through a chain of
  jump hosts, \<^verbatim>\<open>conn\<close> (lazy, with agent forwarding and the SFTP client) and \<^verbatim>\<open>Close\<close>. The
  SSH library is a record of functions that hand out clients \<open>'c\<close> and raw connections \<open>'t\<close>;
  \<open>held\<close> puts the list of clients and connections that are open into the environment.
\<close>

section \<open>The library and the state of the executor\<close>

record jump_host =
  jh_addr :: string
  jh_config :: nat

record ('w, 'c, 't) dial_lib =
  dl_dial :: "string \<Rightarrow> nat \<Rightarrow> ('w, goerr + 'c) state"
  dl_client_dial :: "'c \<Rightarrow> string \<Rightarrow> ('w, goerr + 't) state"
  dl_client_conn :: "'t \<Rightarrow> string \<Rightarrow> nat \<Rightarrow> ('w, goerr + 'c) state"
  dl_close_tcp :: "'t \<Rightarrow> ('w, unit) state"
  dl_close :: "'c \<Rightarrow> ('w, goerr option) state"
  dl_forward_agent :: "'c \<Rightarrow> string \<Rightarrow> ('w, goerr option) state"
  dl_request_forwarding :: "'c \<Rightarrow> ('w, goerr option) state"
  dl_sftp_client :: "'c \<Rightarrow> ('w, goerr option) state"
  dl_sftp_close :: "('w, goerr option) state"

record 'c ssh_state =
  se_addr :: string
  se_config :: nat
  se_jumps :: "jump_host list"
  se_agent_socket :: string
  se_client :: "'c option"
  se_jump_clients :: "'c list"
  se_sftp :: bool
  se_done :: bool

section \<open>Dialing\<close>

text \<open>\<^verbatim>\<open>tunnel\<close>: a TCP connection through \<open>via\<close>, closed again if the handshake fails.\<close>

definition tunnel :: "('w, 'c, 't) dial_lib \<Rightarrow> 'c \<Rightarrow> string \<Rightarrow> nat \<Rightarrow> ('w, goerr + 'c) state" where
  "tunnel L via addr cfg =
     bindE (dl_client_dial L via addr) (\<lambda>conn. do {
       r \<leftarrow> dl_client_conn L conn addr cfg;
       case r of
         Inl e \<Rightarrow> do { _ \<leftarrow> dl_close_tcp L conn; failE e }
       | Inr c \<Rightarrow> okE c })"

text \<open>\<^verbatim>\<open>closeClients\<close>: in reverse order, innermost tunnel first; errors are ignored.\<close>

fun close_each :: "('w, 'c, 't) dial_lib \<Rightarrow> 'c list \<Rightarrow> ('w, unit) state" where
  "close_each L [] = State_Monad.return ()"
| "close_each L (c # cs) = do { _ \<leftarrow> dl_close L c; close_each L cs }"

definition close_clients :: "('w, 'c, 't) dial_lib \<Rightarrow> 'c list \<Rightarrow> ('w, unit) state" where
  "close_clients L clients = close_each L (rev clients)"

text \<open>The loop over the hops after the first; on an error the deferred call closes what is open.\<close>

fun dial_hops ::
    "('w, 'c, 't) dial_lib \<Rightarrow> 'c list \<Rightarrow> jump_host list \<Rightarrow> ('w, goerr + 'c list) state" where
  "dial_hops L clients [] = okE clients"
| "dial_hops L clients (hop # hops) = do {
     r \<leftarrow> tunnel L (last clients) (jh_addr hop) (jh_config hop);
     case r of
       Inl e \<Rightarrow> do {
         _ \<leftarrow> close_clients L clients;
         failE (wrapf (''ssh dial jump host '' @ jh_addr hop @ '': '') e) }
     | Inr next \<Rightarrow> dial_hops L (clients @ [next]) hops }"

definition ssh_dial :: "('w, 'c, 't) dial_lib \<Rightarrow> 'c ssh_state \<Rightarrow> ('w, goerr + ('c \<times> 'c list)) state" where
  "ssh_dial L s =
     (case se_jumps s of
        [] \<Rightarrow> do {
          r \<leftarrow> dl_dial L (se_addr s) (se_config s);
          case r of
            Inl e \<Rightarrow> failE (wrapf (''ssh dial '' @ se_addr s @ '': '') e)
          | Inr client \<Rightarrow> okE (client, []) }
      | first # rest \<Rightarrow> do {
          r \<leftarrow> dl_dial L (jh_addr first) (jh_config first);
          case r of
            Inl e \<Rightarrow> failE (wrapf (''ssh dial jump host '' @ jh_addr first @ '': '') e)
          | Inr jc \<Rightarrow>
              bindE (dial_hops L [jc] rest) (\<lambda>clients. do {
                t \<leftarrow> tunnel L (last clients) (se_addr s) (se_config s);
                case t of
                  Inl e \<Rightarrow> do {
                    _ \<leftarrow> close_clients L clients;
                    failE (wrapf (''ssh dial target '' @ se_addr s @ '' via jump host: '') e) }
                | Inr target \<Rightarrow> okE (target, clients) }) })"

section \<open>Connecting and closing\<close>

text \<open>\<^verbatim>\<open>conn\<close>; the new state is returned with the result.\<close>

definition ssh_conn :: "('w, 'c, 't) dial_lib \<Rightarrow> 'c ssh_state \<Rightarrow> ('w, goerr + 'c ssh_state) state" where
  "ssh_conn L s =
     (if se_client s \<noteq> None \<and> se_sftp s then okE s
      else bindE (ssh_dial L s) (\<lambda>(client, jump_clients).
        (let abandon = (\<lambda>e. do {
               _ \<leftarrow> dl_close L client;
               _ \<leftarrow> close_clients L jump_clients;
               failE e });
             finish = do {
               e3 \<leftarrow> dl_sftp_client L client;
               case e3 of
                 Some e \<Rightarrow> abandon (wrapf ''sftp client: '' e)
               | None \<Rightarrow>
                   okE (s\<lparr>se_client := Some client, se_jump_clients := jump_clients, se_sftp := True\<rparr>) }
         in if se_agent_socket s \<noteq> [] then do {
              e1 \<leftarrow> dl_forward_agent L client (se_agent_socket s);
              case e1 of
                Some e \<Rightarrow>
                  abandon (wrapf (''can't forward the SSH agent at '' @ se_agent_socket s @ '': '') e)
              | None \<Rightarrow> do {
                  e2 \<leftarrow> dl_request_forwarding L client;
                  case e2 of Some e \<Rightarrow> abandon e | None \<Rightarrow> finish } }
            else finish)))"

text \<open>\<^verbatim>\<open>Close\<close> reports the first error and closes everything all the same.\<close>

fun close_collect :: "('w, 'c, 't) dial_lib \<Rightarrow> goerr option \<Rightarrow> 'c list \<Rightarrow> ('w, goerr option) state" where
  "close_collect L err [] = State_Monad.return err"
| "close_collect L err (c # cs) = do {
     cerr \<leftarrow> dl_close L c;
     close_collect L (if err = None then cerr else err) cs }"

definition ssh_close ::
    "('w, 'c, 't) dial_lib \<Rightarrow> 'c ssh_state \<Rightarrow> ('w, goerr option \<times> 'c ssh_state) state" where
  "ssh_close L s = do {
     err \<leftarrow> (if se_sftp s then dl_sftp_close L else State_Monad.return None);
     err \<leftarrow> (case se_client s of
               None \<Rightarrow> State_Monad.return err
             | Some c \<Rightarrow> do {
                 cerr \<leftarrow> dl_close L c;
                 State_Monad.return (if err = None then cerr else err) });
     err \<leftarrow> close_collect L err (rev (se_jump_clients s));
     State_Monad.return
       (err, s\<lparr>se_done := True, se_sftp := False, se_client := None, se_jump_clients := []\<rparr>) }"

section \<open>What is open\<close>

text \<open>Handles of the environment: a raw TCP connection or an SSH client (which owns its connection).\<close>

datatype ('c, 't) handle = Tcp 't | Client 'c

text \<open>A tracked step changes the list of open handles by its result.\<close>

definition hold :: "(('c, 't) handle list \<Rightarrow> 'a \<Rightarrow> ('c, 't) handle list) \<Rightarrow> ('w, 'a) state \<Rightarrow>
    ('w \<times> ('c, 't) handle list, 'a) state" where
  "hold f m = State (\<lambda>(w, hs). let (r, w') = run_state m w in (r, (w', f hs r)))"

lemma run_hold [simp, run_simps]:
  "run_state (hold f m) (w, hs) = (let (r, w') = run_state m w in (r, (w', f hs r)))"
  by (simp add: hold_def)

definition held :: "('w, 'c, 't) dial_lib \<Rightarrow> ('w \<times> ('c, 't) handle list, 'c, 't) dial_lib" where
  "held L =
     \<lparr>dl_dial = (\<lambda>a c. hold (\<lambda>hs r. case r of Inl _ \<Rightarrow> hs | Inr cl \<Rightarrow> Client cl # hs) (dl_dial L a c)),
      dl_client_dial = (\<lambda>v a. hold (\<lambda>hs r. case r of Inl _ \<Rightarrow> hs | Inr t \<Rightarrow> Tcp t # hs) (dl_client_dial L v a)),
      dl_client_conn = (\<lambda>t a c. hold (\<lambda>hs r. case r of Inl _ \<Rightarrow> hs | Inr cl \<Rightarrow> Client cl # remove1 (Tcp t) hs)
                                  (dl_client_conn L t a c)),
      dl_close_tcp = (\<lambda>t. hold (\<lambda>hs _. remove1 (Tcp t) hs) (dl_close_tcp L t)),
      dl_close = (\<lambda>c. hold (\<lambda>hs _. remove1 (Client c) hs) (dl_close L c)),
      dl_forward_agent = (\<lambda>c p. hold (\<lambda>hs _. hs) (dl_forward_agent L c p)),
      dl_request_forwarding = (\<lambda>c. hold (\<lambda>hs _. hs) (dl_request_forwarding L c)),
      dl_sftp_client = (\<lambda>c. hold (\<lambda>hs _. hs) (dl_sftp_client L c)),
      dl_sftp_close = hold (\<lambda>hs _. hs) (dl_sftp_close L)\<rparr>"

lemma held_simps [simp, run_simps]:
  "dl_dial (held L) a c = hold (\<lambda>hs r. case r of Inl _ \<Rightarrow> hs | Inr cl \<Rightarrow> Client cl # hs) (dl_dial L a c)"
  "dl_client_dial (held L) v a = hold (\<lambda>hs r. case r of Inl _ \<Rightarrow> hs | Inr t \<Rightarrow> Tcp t # hs) (dl_client_dial L v a)"
  "dl_client_conn (held L) t a c =
     hold (\<lambda>hs r. case r of Inl _ \<Rightarrow> hs | Inr cl \<Rightarrow> Client cl # remove1 (Tcp t) hs) (dl_client_conn L t a c)"
  "dl_close_tcp (held L) t = hold (\<lambda>hs _. remove1 (Tcp t) hs) (dl_close_tcp L t)"
  "dl_close (held L) cl = hold (\<lambda>hs _. remove1 (Client cl) hs) (dl_close L cl)"
  "dl_forward_agent (held L) cl p = hold (\<lambda>hs _. hs) (dl_forward_agent L cl p)"
  "dl_request_forwarding (held L) cl = hold (\<lambda>hs _. hs) (dl_request_forwarding L cl)"
  "dl_sftp_client (held L) cl = hold (\<lambda>hs _. hs) (dl_sftp_client L cl)"
  "dl_sftp_close (held L) = hold (\<lambda>hs _. hs) (dl_sftp_close L)"
  by (simp_all add: held_def)

abbreviation clients_open :: "'c list \<Rightarrow> ('c, 't) handle list \<Rightarrow> ('c, 't) handle list" where
  "clients_open cs hs \<equiv> map Client (rev cs) @ hs"

lemma run_tunnel_held:
  "run_state (tunnel (held L) via addr cfg) (w, hs) = (r, (w', hs')) \<Longrightarrow>
     hs' = (case r of Inl _ \<Rightarrow> hs | Inr c \<Rightarrow> Client c # hs)"
  by (auto simp: tunnel_def split: prod.splits sum.splits)

lemma run_close_each_held:
  "run_state (close_each (held L) cs) (w, map Client cs @ hs) = (r, (w', hs')) \<Longrightarrow> hs' = hs"
  by (induction cs arbitrary: w) (auto split: prod.splits)

lemma run_close_clients_held:
  "run_state (close_clients (held L) cs) (w, clients_open cs hs) = (r, (w', hs')) \<Longrightarrow> hs' = hs"
  by (auto simp: close_clients_def dest: run_close_each_held)

lemma run_dial_hops_held:
  "run_state (dial_hops (held L) clients hops) (w, clients_open clients hs) = (r, (w', hs')) \<Longrightarrow>
     hs' = (case r of Inl _ \<Rightarrow> hs | Inr cs \<Rightarrow> clients_open cs hs)"
proof (induction hops arbitrary: clients w)
  case (Cons hop hops)
  obtain r1 w1 hs1 where t: "run_state (tunnel (held L) (last clients) (jh_addr hop) (jh_config hop))
      (w, clients_open clients hs) = (r1, (w1, hs1))" by (metis surj_pair)
  note hs1 = run_tunnel_held [OF t]
  show ?case
  proof (cases r1)
    case (Inl e)
    with Cons.prems t hs1 show ?thesis
      by (auto split: prod.splits dest: run_close_clients_held)
  next
    case (Inr c)
    with Cons.prems t hs1
    have "run_state (dial_hops (held L) (clients @ [c]) hops) (w1, clients_open (clients @ [c]) hs) =
        (r, (w', hs'))" by simp
    then show ?thesis by (rule Cons.IH)
  qed
qed auto

text \<open>A failed dial leaves nothing open; a successful one the target on top of its jump hosts.\<close>

lemma run_ssh_dial_held:
  assumes "run_state (ssh_dial (held L) s) (w, hs) = (r, (w', hs'))"
  shows "hs' = (case r of Inl _ \<Rightarrow> hs | Inr (c, js) \<Rightarrow> Client c # clients_open js hs)"
proof (cases "se_jumps s")
  case Nil
  with assms show ?thesis by (auto simp: ssh_dial_def split: prod.splits sum.splits)
next
  case (Cons j js)
  have hops: "run_state (dial_hops (held L) [jc] js) (w1, Client jc # hs) = (r1, (w2, hs2)) \<Longrightarrow>
      hs2 = (case r1 of Inl _ \<Rightarrow> hs | Inr cs \<Rightarrow> clients_open cs hs)" for jc w1 r1 w2 hs2
    using run_dial_hops_held [of L "[jc]" js w1 hs] by simp
  show ?thesis
    using assms Cons
    by (auto simp: ssh_dial_def Let_def dest!: hops run_tunnel_held run_close_clients_held
        split: prod.splits sum.splits)
qed

lemma run_ssh_conn_held:
  assumes "run_state (ssh_conn (held L) s) (w, hs) = (r, (w', hs'))"
    and "\<not> (se_client s \<noteq> None \<and> se_sftp s)"
  shows "case r of
      Inl _ \<Rightarrow> hs' = hs
    | Inr s' \<Rightarrow> se_client s' \<noteq> None \<and> se_sftp s' \<and>
                hs' = Client (the (se_client s')) # clients_open (se_jump_clients s') hs"
  using assms
  by (auto simp: ssh_conn_def Let_def
      dest!: run_ssh_dial_held run_close_clients_held
      split: prod.splits sum.splits option.splits if_splits)

lemma run_close_collect_held:
  "run_state (close_collect (held L) err cs) (w, map Client cs @ hs) = (r, (w', hs')) \<Longrightarrow> hs' = hs"
  by (induction cs arbitrary: w err) (auto split: prod.splits)

section \<open>Properties\<close>

text \<open>C25: A dial through jump hosts that fails leaves no connection open, and one that succeeds leaves open
  exactly the target and its jump hosts.\<close>

theorem ssh_dial_no_leak:
  "case run_state (ssh_dial (held L) s) (w, hs) of
     (Inl e, (w', hs')) \<Rightarrow> hs' = hs
   | (Inr (c, js), (w', hs')) \<Rightarrow> hs' = Client c # clients_open js hs"
  using run_ssh_dial_held [of L s w hs] by (auto split: prod.splits sum.splits)

text \<open>Closing a connected executor closes the target and every jump host, and forgets them.\<close>

theorem ssh_close_all:
  assumes "se_client s = Some c"
  shows "case run_state (ssh_close (held L) s) (w, Client c # clients_open (se_jump_clients s) hs) of
      ((err, s'), (w', hs')) \<Rightarrow> hs' = hs \<and> se_client s' = None \<and> se_jump_clients s' = [] \<and> se_done s'"
  using assms
  by (auto simp: ssh_close_def Let_def dest!: run_close_collect_held split: prod.splits if_splits)

theorem ssh_close_all_witness:
  "\<forall>L w. case run_state (ssh_close (held L)
       \<lparr>se_addr = [], se_config = 0, se_jumps = [], se_agent_socket = [], se_client = Some (1 :: nat),
        se_jump_clients = [2, 3], se_sftp = True, se_done = False\<rparr>)
       (w, [Client 1, Client 3, Client 2]) of
      ((err, s'), (w', hs')) \<Rightarrow> hs' = [] \<and> se_client s' = None \<and> se_jump_clients s' = [] \<and> se_done s'"
proof (intro allI)
  fix L :: "('w, nat, 't) dial_lib" and w
  show "case run_state (ssh_close (held L)
       \<lparr>se_addr = [], se_config = 0, se_jumps = [], se_agent_socket = [], se_client = Some (1 :: nat),
        se_jump_clients = [2, 3], se_sftp = True, se_done = False\<rparr>)
       (w, [Client 1, Client 3, Client 2]) of
      ((err, s'), (w', hs')) \<Rightarrow> hs' = [] \<and> se_client s' = None \<and> se_jump_clients s' = [] \<and> se_done s'"
    using ssh_close_all [where s = "\<lparr>se_addr = [], se_config = 0, se_jumps = [], se_agent_socket = [], se_client = Some (1 :: nat),
        se_jump_clients = [2, 3], se_sftp = True, se_done = False\<rparr>" and c = 1 and L = L and w = w and hs = "[]"]
    by simp
qed

end
