(* ===== verification/File_Monitor.thy ===== *)
theory File_Monitor
  imports Executor
begin

text \<open>
  \<^verbatim>\<open>internal/cmd/monitor_file.go\<close>: watching a growing file for a pattern through a window of
  two 64-byte reads, and splitting bytes into lines. One \<open>tick\<close> is what one iteration of the
  loop sees of its environment; \<open>monitor_file_for\<close> runs the loop over a list of ticks.
\<close>

section \<open>The loop\<close>

definition max_len :: nat where
  "max_len = 64"

record monitor_state =
  mo_prev :: string
  mo_prev_n :: nat
  mo_combined :: string
  mo_pos :: nat

definition monitor_init :: monitor_state where
  "monitor_init =
     \<lparr>mo_prev = replicate max_len (CHR 0x00), mo_prev_n = 0,
      mo_combined = replicate (2 * max_len) (CHR 0x00), mo_pos = 0\<rparr>"

text \<open>
  What an iteration sees: whether the context is done (and its error), the result of \<^verbatim>\<open>Stat\<close>,
  the error of \<^verbatim>\<open>Seek\<close>, the content of the file when it is read, an upper bound on the bytes
  this read returns (a short read) and a read error other than EOF.
\<close>

record tick =
  tk_ctx :: "goerr option"
  tk_size :: "goerr + nat"
  tk_seek :: "goerr option"
  tk_content :: string
  tk_limit :: nat
  tk_read :: "goerr option"

datatype monitor_outcome = MFound | MError goerr | MContinue monitor_state

text \<open>Go's \<^verbatim>\<open>copy(dst[off:], src)\<close> on a fixed-size buffer.\<close>

definition overlay :: "string \<Rightarrow> nat \<Rightarrow> string \<Rightarrow> string" where
  "overlay dst off src = take (length dst) (take off dst @ src @ drop (off + length src) dst)"

definition read_chunk :: "tick \<Rightarrow> nat \<Rightarrow> string" where
  "read_chunk t pos = take (min max_len (tk_limit t)) (drop pos (tk_content t))"

text \<open>The rest of an iteration, from the read at position \<open>pos\<close> on.\<close>

definition monitor_read :: "string \<Rightarrow> monitor_state \<Rightarrow> tick \<Rightarrow> monitor_outcome" where
  "monitor_read look_for s t =
     (case tk_read t of
        Some e \<Rightarrow> MError (wrapf ''monitorFileFor: read failed: '' e)
      | None \<Rightarrow>
          (let chunk = read_chunk t (mo_pos s); n = length chunk
           in if n = 0 then MContinue s
              else
                (let c1 = (if mo_prev_n s > 0 then overlay (mo_combined s) 0 (take (mo_prev_n s) (mo_prev s))
                           else mo_combined s);
                     combined = overlay c1 (mo_prev_n s) chunk
                 in if str_contains combined look_for then MFound
                    else MContinue (s\<lparr>mo_pos := mo_pos s + n, mo_combined := combined,
                           mo_prev := overlay (mo_prev s) 0 chunk, mo_prev_n := n\<rparr>))))"

definition monitor_step :: "string \<Rightarrow> monitor_state \<Rightarrow> tick \<Rightarrow> monitor_outcome" where
  "monitor_step look_for s t =
     (case tk_ctx t of
        Some e \<Rightarrow> MError (wrapf ''monitorFileFor: context canceled: '' e)
      | None \<Rightarrow>
     (case tk_size t of
        Inl e \<Rightarrow> MError (wrapf ''monitorFileFor: file stat failed: '' e)
      | Inr curr_size \<Rightarrow>
          if curr_size = mo_pos s then MContinue s
          else if curr_size < mo_pos s then
            (case tk_seek t of
               Some e \<Rightarrow>
                 MError (wrapf ''monitorFileFor: file seek (to start after truncation) failed: '' e)
             | None \<Rightarrow> monitor_read look_for (s\<lparr>mo_pos := 0, mo_prev_n := 0\<rparr>) t)
          else monitor_read look_for s t))"

fun monitor_file_for :: "string \<Rightarrow> monitor_state \<Rightarrow> tick list \<Rightarrow> monitor_outcome" where
  "monitor_file_for look_for s [] = MContinue s"
| "monitor_file_for look_for s (t # ts) =
     (case monitor_step look_for s t of
        MContinue s' \<Rightarrow> monitor_file_for look_for s' ts
      | r \<Rightarrow> r)"

section \<open>The window holds the last two reads\<close>

definition monitor_ok :: "monitor_state \<Rightarrow> bool" where
  "monitor_ok s \<longleftrightarrow>
     length (mo_prev s) = max_len \<and> length (mo_combined s) = 2 * max_len \<and> mo_prev_n s \<le> max_len"

lemma monitor_init_ok [simp]: "monitor_ok monitor_init"
  by (simp add: monitor_ok_def monitor_init_def)

lemma length_overlay: "off + length src \<le> length dst \<Longrightarrow> length (overlay dst off src) = length dst"
  by (simp add: overlay_def)

lemma take_overlay_0: "length src \<le> length dst \<Longrightarrow> take (length src) (overlay dst 0 src) = src"
  by (simp add: overlay_def)

lemma overlay_prefix:
  assumes "take n dst = pre" and "length pre = n" and "n + length src \<le> length dst"
  shows "prefix (pre @ src) (overlay dst n src)"
  using assms by (auto simp: overlay_def prefix_def)

lemma length_read_chunk: "length (read_chunk t pos) \<le> max_len"
  by (simp add: read_chunk_def)

text \<open>
  The contents of the window after a read of \<open>chunk\<close>: it starts with the previous read (the
  saved \<open>take (mo_prev_n s) (mo_prev s)\<close>) followed by \<open>chunk\<close>.
\<close>

lemma monitor_read_window:
  assumes ok: "monitor_ok s" and "tk_read t = None" and "read_chunk t (mo_pos s) \<noteq> []"
  shows "\<exists>combined. prefix (take (mo_prev_n s) (mo_prev s) @ read_chunk t (mo_pos s)) combined \<and>
           length combined = 2 * max_len \<and>
           monitor_read look_for s t =
             (if str_contains combined look_for then MFound
              else MContinue (s\<lparr>mo_pos := mo_pos s + length (read_chunk t (mo_pos s)), mo_combined := combined,
                     mo_prev := overlay (mo_prev s) 0 (read_chunk t (mo_pos s)), mo_prev_n := length (read_chunk t (mo_pos s))\<rparr>))"
proof -
  let ?chunk = "read_chunk t (mo_pos s)"
  let ?pre = "take (mo_prev_n s) (mo_prev s)"
  let ?c1 = "if mo_prev_n s > 0 then overlay (mo_combined s) 0 ?pre else mo_combined s"
  have len: "length ?pre = mo_prev_n s" using ok by (simp add: monitor_ok_def)
  have c1: "length ?c1 = 2 * max_len" "take (mo_prev_n s) ?c1 = ?pre"
    using ok len take_overlay_0 [of ?pre "mo_combined s"]
    by (auto simp: monitor_ok_def length_overlay)
  have fits: "mo_prev_n s + length ?chunk \<le> length ?c1"
    using ok length_read_chunk [of t "mo_pos s"] unfolding c1(1) by (simp add: monitor_ok_def)
  have "prefix (?pre @ ?chunk) (overlay ?c1 (mo_prev_n s) ?chunk)"
    by (rule overlay_prefix [OF c1(2) len fits])
  moreover have "length (overlay ?c1 (mo_prev_n s) ?chunk) = 2 * max_len"
    using fits c1 by (simp add: length_overlay)
  ultimately show ?thesis
    using assms by (intro exI [of _ "overlay ?c1 (mo_prev_n s) ?chunk"]) (simp add: monitor_read_def Let_def)
qed

lemma monitor_read_keeps:
  assumes "monitor_ok s" and "monitor_read look_for s t = MContinue s'"
  shows "monitor_ok s'"
proof (cases "tk_read t = None \<and> read_chunk t (mo_pos s) \<noteq> []")
  case True
  with monitor_read_window [OF assms(1)] obtain combined where
    "length combined = 2 * max_len"
    "monitor_read look_for s t =
       (if str_contains combined look_for then MFound
        else MContinue (s\<lparr>mo_pos := mo_pos s + length (read_chunk t (mo_pos s)), mo_combined := combined,
               mo_prev := overlay (mo_prev s) 0 (read_chunk t (mo_pos s)),
               mo_prev_n := length (read_chunk t (mo_pos s))\<rparr>))"
    by blast
  with assms show ?thesis
    using length_read_chunk [of t "mo_pos s"]
    by (auto simp: monitor_ok_def length_overlay split: if_splits)
next
  case False
  with assms show ?thesis by (auto simp: monitor_read_def split: option.splits)
qed

lemma monitor_step_keeps:
  assumes "monitor_ok s" and "monitor_step look_for s t = MContinue s'"
  shows "monitor_ok s'"
proof -
  have "monitor_ok (s\<lparr>mo_pos := 0, mo_prev_n := 0\<rparr>)" using assms(1) by (simp add: monitor_ok_def)
  with assms show ?thesis
    by (auto simp: monitor_step_def intro: monitor_read_keeps split: option.splits sum.splits if_splits)
qed

section \<open>A file that grows\<close>

text \<open>The content of the file at each iteration is a prefix of the content at the next one, and nothing fails. How much a
  read returns is left open.\<close>

definition calm_tick :: "tick \<Rightarrow> bool" where
  "calm_tick t \<longleftrightarrow> tk_ctx t = None \<and> tk_size t = Inr (length (tk_content t)) \<and> tk_read t = None"

fun grows :: "string \<Rightarrow> tick list \<Rightarrow> bool" where
  "grows c [] \<longleftrightarrow> True"
| "grows c (t # ts) \<longleftrightarrow> calm_tick t \<and> prefix c (tk_content t) \<and> grows (tk_content t) ts"

text \<open>The reads that return something, from a position on.\<close>

fun file_reads :: "nat \<Rightarrow> tick list \<Rightarrow> string list" where
  "file_reads pos [] = []"
| "file_reads pos (t # ts) =
     (if read_chunk t pos = [] then file_reads pos ts
      else read_chunk t pos # file_reads (pos + length (read_chunk t pos)) ts)"

text \<open>The read before is saved in \<open>mo_prev\<close>.\<close>

definition saved :: "monitor_state \<Rightarrow> string" where
  "saved s = take (mo_prev_n s) (mo_prev s)"

definition last_read :: "monitor_state \<Rightarrow> string list" where
  "last_read s = (if saved s = [] then [] else [saved s])"

text \<open>A calm iteration: nothing was read, the pattern was found, or the last two reads do not hold it.\<close>

lemma calm_step:
  assumes ok: "monitor_ok s" and calm: "calm_tick t" and pos: "mo_pos s \<le> length (tk_content t)"
  shows "(read_chunk t (mo_pos s) = [] \<and> monitor_step p s t = MContinue s) \<or>
         (read_chunk t (mo_pos s) \<noteq> [] \<and> monitor_step p s t = MFound) \<or>
         (read_chunk t (mo_pos s) \<noteq> [] \<and> \<not> str_contains (saved s @ read_chunk t (mo_pos s)) p \<and>
          (\<exists>s'. monitor_step p s t = MContinue s' \<and> monitor_ok s' \<and> saved s' = read_chunk t (mo_pos s) \<and>
             mo_pos s' = mo_pos s + length (read_chunk t (mo_pos s))))"
proof (cases "read_chunk t (mo_pos s) = []")
  case True
  with calm pos show ?thesis
    by (auto simp: monitor_step_def monitor_read_def calm_tick_def)
next
  case False
  let ?chunk = "read_chunk t (mo_pos s)"
  have step: "monitor_step p s t = monitor_read p s t"
    using False calm pos by (auto simp: monitor_step_def calm_tick_def read_chunk_def)
  obtain combined where comb: "prefix (saved s @ ?chunk) combined" "length combined = 2 * max_len"
    "monitor_read p s t =
       (if str_contains combined p then MFound
        else MContinue (s\<lparr>mo_pos := mo_pos s + length ?chunk, mo_combined := combined,
               mo_prev := overlay (mo_prev s) 0 ?chunk, mo_prev_n := length ?chunk\<rparr>))"
    using monitor_read_window [OF ok _ False] calm unfolding calm_tick_def saved_def by metis
  show ?thesis
  proof (cases "str_contains combined p")
    case True
    with False comb(3) step show ?thesis by simp
  next
    case miss: False
    then have "\<not> str_contains (saved s @ ?chunk) p"
      using comb(1) by (meson prefix_imp_sublist sublist_order.order_trans)
    moreover have "monitor_ok s'" if "monitor_step p s t = MContinue s'" for s'
      using that ok by (rule monitor_step_keeps [rotated])
    moreover have "take (length ?chunk) (overlay (mo_prev s) 0 ?chunk) = ?chunk"
      using ok length_read_chunk [of t "mo_pos s"] by (intro take_overlay_0) (simp add: monitor_ok_def)
    ultimately show ?thesis using False miss comb(3) step by (simp add: saved_def)
  qed
qed

lemma read_chunk_pos: "pos \<le> length (tk_content t) \<Longrightarrow> pos + length (read_chunk t pos) \<le> length (tk_content t)"
  by (simp add: read_chunk_def)

text \<open>Completeness: what lies within two consecutive reads is found.\<close>

lemma monitor_finds_from:
  assumes "monitor_ok s" and "grows c ts" and "mo_pos s \<le> length c"
    and "last_read s @ file_reads (mo_pos s) ts = xs @ [a, b] @ ys" and "str_contains (a @ b) p"
  shows "monitor_file_for p s ts = MFound"
  using assms
proof (induction ts arbitrary: c s xs)
  case Nil
  then show ?case by (auto simp: last_read_def split: if_splits)
next
  case (Cons t ts)
  let ?chunk = "read_chunk t (mo_pos s)"
  have calm: "calm_tick t" and grow: "grows (tk_content t) ts" and pos: "mo_pos s \<le> length (tk_content t)"
    using Cons.prems(2,3) prefix_length_le by fastforce+
  from calm_step [OF Cons.prems(1) calm pos, of p] show ?case
  proof (elim disjE conjE exE)
    assume "?chunk = []" "monitor_step p s t = MContinue s"
    with Cons.IH [OF Cons.prems(1) grow pos] Cons.prems(4,5) show ?thesis by simp
  next
    assume "monitor_step p s t = MFound"
    then show ?thesis by simp
  next
    fix s'
    assume chunk: "?chunk \<noteq> []" and miss: "\<not> str_contains (saved s @ ?chunk) p"
      and s': "monitor_step p s t = MContinue s'" "monitor_ok s'" "saved s' = ?chunk" "mo_pos s' = mo_pos s + length ?chunk"
    have reads: "last_read s @ last_read s' @ file_reads (mo_pos s') ts = xs @ [a, b] @ ys"
      using Cons.prems(4) chunk s'(3,4) by (simp add: last_read_def)
    have "\<exists>zs. last_read s' @ file_reads (mo_pos s') ts = zs @ [a, b] @ ys"
    proof (cases "last_read s")
      case Nil
      with reads show ?thesis by auto
    next
      case (Cons d ds)
      then have d: "last_read s = [saved s]" by (simp add: last_read_def split: if_splits)
      show ?thesis
      proof (cases xs)
        case Nil
        with reads d have "a = saved s" "b = ?chunk" using chunk s'(3) by (auto simp: last_read_def)
        with miss Cons.prems(5) show ?thesis by simp
      next
        case (Cons x zs)
        with reads d show ?thesis by auto
      qed
    qed
    then obtain zs where "last_read s' @ file_reads (mo_pos s') ts = zs @ [a, b] @ ys" by blast
    moreover have "mo_pos s' \<le> length (tk_content t)" using s'(4) read_chunk_pos [OF pos] by simp
    ultimately show ?thesis using Cons.IH [OF s'(2) grow] Cons.prems(5) s'(1) by simp
  qed
qed

text \<open>A single read that holds the pattern is enough, also when it is the only one.\<close>

lemma monitor_finds_one:
  assumes "monitor_ok s" and "grows c ts" and "mo_pos s \<le> length c"
    and "file_reads (mo_pos s) ts = xs @ b # ys" and "str_contains b p"
  shows "monitor_file_for p s ts = MFound"
  using assms
proof (induction ts arbitrary: c s xs)
  case (Cons t ts)
  let ?chunk = "read_chunk t (mo_pos s)"
  have calm: "calm_tick t" and grow: "grows (tk_content t) ts" and pos: "mo_pos s \<le> length (tk_content t)"
    using Cons.prems(2,3) prefix_length_le by fastforce+
  from calm_step [OF Cons.prems(1) calm pos, of p] show ?case
  proof (elim disjE conjE exE)
    assume "?chunk = []" "monitor_step p s t = MContinue s"
    with Cons.IH [OF Cons.prems(1) grow pos] Cons.prems(4,5) show ?thesis by simp
  next
    assume "monitor_step p s t = MFound"
    then show ?thesis by simp
  next
    fix s'
    assume chunk: "?chunk \<noteq> []" and miss: "\<not> str_contains (saved s @ ?chunk) p"
      and s': "monitor_step p s t = MContinue s'" "monitor_ok s'" "mo_pos s' = mo_pos s + length ?chunk"
    have "b \<noteq> ?chunk" using miss Cons.prems(5) sublist_append_leftI sublist_order.order_trans by blast
    then obtain zs where "file_reads (mo_pos s') ts = zs @ b # ys"
      using Cons.prems(4) chunk s'(3) by (cases xs) auto
    moreover have "mo_pos s' \<le> length (tk_content t)" using s'(3) read_chunk_pos [OF pos] by simp
    ultimately show ?thesis using Cons.IH [OF s'(2) grow] Cons.prems(5) s'(1) by simp
  qed
qed simp

text \<open>What has been read is the beginning of the file.\<close>

lemma file_reads_prefix:
  assumes "grows c ts" and "pos \<le> length c" and "ts \<noteq> []"
  shows "prefix (take pos c @ concat (file_reads pos ts)) (tk_content (last ts))"
  using assms
proof (induction ts arbitrary: c pos)
  case (Cons t ts)
  have pre: "prefix c (tk_content t)" and pos: "pos \<le> length (tk_content t)" and grow: "grows (tk_content t) ts"
    using Cons.prems(1,2) prefix_length_le by fastforce+
  have "take pos c = take pos (tk_content t)" using pre Cons.prems(2) by (auto simp: prefix_def)
  then have chunk: "take pos c @ read_chunk t pos = take (pos + length (read_chunk t pos)) (tk_content t)"
    by (simp add: read_chunk_def take_add min_def)
  show ?case
  proof (cases "ts = []")
    case True
    with chunk show ?thesis by (simp add: take_is_prefix) (metis append.right_neutral take_is_prefix)
  next
    case False
    have "prefix (take (pos + length (read_chunk t pos)) (tk_content t) @ concat (file_reads (pos + length (read_chunk t pos)) ts))
        (tk_content (last ts))"
      using Cons.IH [OF grow read_chunk_pos [OF pos] False] .
    with False chunk show ?thesis by (cases "read_chunk t pos = []") (simp_all flip: chunk)
  qed
qed simp

text \<open>A pattern that spans three pieces covers the one in the middle.\<close>

lemma pattern_pieces:
  assumes "str_contains (concat cs) p" and "p \<noteq> []" and "[] \<notin> set cs" and "\<forall>x \<in> set (tl (butlast cs)). length p \<le> length x + 1"
  shows "(\<exists>xs b ys. cs = xs @ b # ys \<and> str_contains b p) \<or> (\<exists>xs a b ys. cs = xs @ [a, b] @ ys \<and> str_contains (a @ b) p)"
  using assms
proof (induction cs)
  case Nil
  then show ?case by simp
next
  case (Cons c cs)
  obtain u v where uv: "c @ concat cs = u @ p @ v" using Cons.prems(1) by (auto simp: sublist_def)
  show ?case
  proof (cases "length c \<le> length u")
    case True
    then have "concat cs = drop (length c) u @ p @ v" using uv by (metis append_eq_append_conv_if append_eq_conv_conj drop_append)
    then have "str_contains (concat cs) p" by (simp add: sublist_appendI)
    moreover have "\<forall>x \<in> set (tl (butlast cs)). length p \<le> length x + 1"
      using Cons.prems(4) by (cases cs; cases "tl cs") (auto dest: list.set_sel(2))
    ultimately show ?thesis using Cons.IH Cons.prems(2,3) by (metis append_Cons list.set_intros(2))
  next
    case False
    show ?thesis
    proof (cases cs)
      case Nil
      with Cons.prems(1) show ?thesis by (intro disjI1 exI [of _ "[]"] exI [of _ c]) simp
    next
      case (Cons d ds)
      show ?thesis
      proof (cases "ds = []")
        case True
        with Cons Cons.prems(1) show ?thesis by (intro disjI2 exI [of _ "[]"] exI [of _ c] exI [of _ d] exI [of _ "[]"]) simp
      next
        case more: False
        then have "d \<in> set (tl (butlast (c # cs)))" using Cons by simp
        then have "length p \<le> length d + 1" using Cons.prems(4) by blast
        then have "length u + length p \<le> length (c @ d)" using False by simp
        moreover have "(c @ d) @ concat ds = (u @ p) @ v" using uv Cons by simp
        ultimately have "prefix (u @ p) (c @ d)" by (metis length_append prefixI prefix_length_prefix)
        then obtain z where "c @ d = u @ p @ z" by (auto simp: prefix_def)
        then have "str_contains (c @ d) p" by (simp add: sublist_appendI)
        with Cons show ?thesis by (intro disjI2 exI [of _ "[]"] exI [of _ c] exI [of _ d] exI [of _ ds]) simp
      qed
    qed
  qed
qed

lemma file_reads_nonempty: "[] \<notin> set (file_reads pos ts)"
  by (induction pos ts rule: file_reads.induct) auto

lemma monitor_finds_read:
  assumes "grows [] ts" and "p \<noteq> []" and "str_contains (concat (file_reads 0 ts)) p"
    and "\<forall>x \<in> set (tl (butlast (file_reads 0 ts))). length p \<le> length x + 1"
  shows "monitor_file_for p monitor_init ts = MFound"
proof -
  have init: "mo_pos monitor_init = 0" "last_read monitor_init = []" by (simp_all add: monitor_init_def last_read_def saved_def)
  note two = monitor_finds_from [OF monitor_init_ok assms(1), unfolded init, simplified]
  note one = monitor_finds_one [OF monitor_init_ok assms(1), unfolded init, simplified]
  from pattern_pieces [OF assms(3,2) file_reads_nonempty assms(4)] show ?thesis
  proof (elim disjE exE conjE)
    fix xs b ys
    assume "file_reads 0 ts = xs @ b # ys" "str_contains b p"
    then show ?thesis by (rule one)
  next
    fix xs a b ys
    assume "file_reads 0 ts = xs @ [a, b] @ ys" "str_contains (a @ b) p"
    then show ?thesis by (intro two [of xs a b ys]) simp_all
  qed
qed

section \<open>A file that does not change\<close>

text \<open>An iteration over a file with content \<open>c\<close>, without errors, whose reads are not short.\<close>

definition full_tick :: "string \<Rightarrow> tick" where
  "full_tick c =
     \<lparr>tk_ctx = None, tk_size = Inr (length c), tk_seek = None, tk_content = c,
      tk_limit = max_len, tk_read = None\<rparr>"

lemma full_tick_simps [simp]:
  "calm_tick (full_tick c)" "tk_content (full_tick c) = c" "read_chunk (full_tick c) pos = take max_len (drop pos c)"
  by (simp_all add: full_tick_def read_chunk_def calm_tick_def)

lemma grows_still: "prefix c0 c \<Longrightarrow> grows c0 (replicate m (full_tick c))"
  by (induction m arbitrary: c0) auto

lemma butlast_Cons_all: "(ys \<noteq> [] \<Longrightarrow> P y) \<Longrightarrow> \<forall>x \<in> set (butlast ys). P x \<Longrightarrow> \<forall>x \<in> set (butlast (y # ys)). P x"
  by auto

lemma still_reads:
  "concat (file_reads pos (replicate m (full_tick c))) = take (max_len * m) (drop pos c) \<and>
   (\<forall>x \<in> set (butlast (file_reads pos (replicate m (full_tick c)))). length x = max_len)"
proof (induction m arbitrary: pos)
  case (Suc m)
  show ?case
  proof (cases "pos < length c")
    case True
    let ?x = "take max_len (drop pos c)"
    have x: "?x \<noteq> []" using True by (simp add: max_len_def)
    have rest: "file_reads pos (replicate (Suc m) (full_tick c)) = ?x # file_reads (pos + length ?x) (replicate m (full_tick c))"
      using x by simp
    have cat: "?x @ take (max_len * m) (drop (pos + length ?x) c) = take (max_len * Suc m) (drop pos c)"
    proof (cases "max_len \<le> length c - pos")
      case True
      then have "length ?x = max_len" by simp
      then show ?thesis by (simp add: take_add add.commute del: length_take)
    next
      case False
      then show ?thesis by simp
    qed
    have "length ?x = max_len" if "file_reads (pos + length ?x) (replicate m (full_tick c)) \<noteq> []"
    proof (rule ccontr)
      assume "length ?x \<noteq> max_len"
      then have "length c \<le> pos + length ?x" by (simp add: min_def split: if_splits)
      then have "concat (file_reads (pos + length ?x) (replicate m (full_tick c))) = []"
        unfolding Suc.IH [THEN conjunct1] by (simp del: length_take)
      then have "set (file_reads (pos + length ?x) (replicate m (full_tick c))) \<subseteq> {[]}" by (auto simp del: length_take)
      with that file_reads_nonempty [of "pos + length ?x" "replicate m (full_tick c)"] show False
        by (cases "file_reads (pos + length ?x) (replicate m (full_tick c))") auto
    qed
    note mid = this
    let ?rest = "file_reads (pos + length ?x) (replicate m (full_tick c))"
    have "concat (?x # ?rest) = take (max_len * Suc m) (drop pos c)"
      unfolding cat [symmetric] concat.simps Suc.IH [THEN conjunct1] ..
    moreover have "\<forall>x \<in> set (butlast (?x # ?rest)). length x = max_len"
      by (rule butlast_Cons_all [OF mid Suc.IH [THEN conjunct2]])
    ultimately show ?thesis unfolding rest by (rule conjI)
  next
    case False
    with Suc.IH [of pos] show ?thesis by simp
  qed
qed simp

section \<open>Stale bytes behind a short read\<close>

text \<open>
  The whole of \<open>combined\<close> is searched, not only its filled part: behind a short last read it
  still holds bytes of the read before, so a pattern can be found that the file never had.
\<close>

definition stale_content :: string where
  "stale_content = replicate 65 (CHR ''a'') @ ''Y'' @ replicate 62 (CHR ''a'') @ ''X''"

section \<open>Lines\<close>

definition into_lines :: "string \<Rightarrow> string list" where
  "into_lines data =
     (if length data = 0 then []
      else filter (\<lambda>l. length l > 0)
             (split_on (CHR 0x0A) (replace_char (CHR 0x0D) [CHR 0x0A] (data @ [CHR 0x0A]))))"

lemma split_on_filter:
  "concat (split_on c s) = filter (\<lambda>x. x \<noteq> c) s"
  by (induction s) (auto split: list.splits)

lemma concat_filter_nonempty: "concat (filter (\<lambda>l. length l > 0) xs) = concat xs"
  by (induction xs) auto

lemma filter_replace_cr:
  "filter (\<lambda>x. x \<noteq> CHR 0x0A) (replace_char (CHR 0x0D) [CHR 0x0A] s) =
     filter (\<lambda>x. x \<noteq> CHR 0x0A \<and> x \<noteq> CHR 0x0D) s"
  by (induction s) (auto simp: replace_char_def)

lemma into_lines_concat:
  "concat (into_lines data) = filter (\<lambda>x. x \<noteq> CHR 0x0A \<and> x \<noteq> CHR 0x0D) data"
  unfolding into_lines_def concat_filter_nonempty if_distrib [of concat]
  by (auto simp: concat_filter_nonempty split_on_filter filter_replace_cr)

lemma set_replace_cr: "CHR 0x0D \<notin> set (replace_char (CHR 0x0D) [CHR 0x0A] s)"
  by (auto simp: replace_char_def)

lemma into_lines_line:
  assumes "l \<in> set (into_lines data)"
  shows "l \<noteq> [] \<and> CHR 0x0A \<notin> set l \<and> CHR 0x0D \<notin> set l"
proof -
  let ?s = "replace_char (CHR 0x0D) [CHR 0x0A] (data @ [CHR 0x0A])"
  have l: "l \<in> set (split_on (CHR 0x0A) ?s)" "l \<noteq> []"
    using assms by (auto simp: into_lines_def split: if_splits)
  then have "set l \<subseteq> set (concat (split_on (CHR 0x0A) ?s))" by auto
  then have "CHR 0x0D \<notin> set l" using set_replace_cr by (auto simp: split_on_filter)
  with l split_on_pieces show ?thesis by blast
qed

section \<open>Properties\<close>

text \<open>C29: In a file that only grows, however much each read returns, a pattern in what has been read is found when it is at
  most one byte longer than every read but the first and the last; a full read returns 64 bytes. What has been read is the
  beginning of the file.\<close>

theorem monitor_finds:
  assumes "grows [] ts" and "ts \<noteq> []" and "p \<noteq> []" and "str_contains (concat (file_reads 0 ts)) p"
    and "list_all (\<lambda>x. length p \<le> length x + 1) (tl (butlast (file_reads 0 ts)))"
  shows "prefix (concat (file_reads 0 ts)) (tk_content (last ts)) \<and> monitor_file_for p monitor_init ts = MFound"
proof
  show "prefix (concat (file_reads 0 ts)) (tk_content (last ts))"
    using file_reads_prefix [OF assms(1) _ assms(2), of 0] by simp
  show "monitor_file_for p monitor_init ts = MFound"
    using monitor_finds_read [OF assms(1,3,4)] assms(5) by (simp add: list_all_iff)
qed

text \<open>A log that grows between two reads, with the pattern across them.\<close>

definition sample_growth :: "tick list" where
  "sample_growth = [(full_tick ''boot lo''), (full_tick ''boot lo''), (full_tick ''boot login: '')]"

theorem monitor_finds_witness:
  "monitor_file_for ''login:'' monitor_init sample_growth = MFound \<and> file_reads 0 sample_growth = [''boot lo'', ''gin: '']"
proof -
  have reads: "file_reads 0 sample_growth = [''boot lo'', ''gin: '']" by (simp add: sample_growth_def max_len_def)
  have "str_contains (''boot '' @ ''login:'' @ '' '') ''login:''" by (rule sublist_appendI)
  then have "str_contains (concat (file_reads 0 sample_growth)) ''login:''" unfolding reads by simp
  then show ?thesis
    using monitor_finds [of sample_growth "''login:''"] reads by (simp add: sample_growth_def)
qed

text \<open>A file that does not change: every pattern of at most 65 bytes is found once enough full reads cover the file.\<close>

theorem monitor_finds_still:
  assumes "str_contains c p" and "p \<noteq> []" and "length p \<le> max_len + 1" and "length c \<le> max_len * m"
  shows "monitor_file_for p monitor_init (replicate m (full_tick c)) = MFound"
proof -
  let ?ts = "replicate m (full_tick c)"
  have reads: "concat (file_reads 0 ?ts) = c" "\<forall>x \<in> set (butlast (file_reads 0 ?ts)). length x = max_len"
    using still_reads [of 0 m c] assms(4) by auto
  have mid: "\<forall>x \<in> set (tl (butlast (file_reads 0 ?ts))). length p \<le> length x + 1"
    using reads(2) assms(3) by (metis list.set_sel(2) tl_Nil)
  from assms(1) have "str_contains (concat (file_reads 0 ?ts)) p" unfolding reads(1) .
  from monitor_finds_read [OF grows_still assms(2) this mid] show ?thesis by simp
qed

theorem monitor_finds_still_witness:
  "monitor_file_for ''login:'' monitor_init (replicate 2 (full_tick (replicate 61 (CHR ''.'') @ ''login:''))) = MFound"
  by (rule monitor_finds_still) (simp_all add: max_len_def sublist_appendI)

text \<open>A pattern that arrives byte by byte is missed: the window only holds the last two reads.\<close>

theorem monitor_misses_growth:
  "monitor_file_for ''abc'' monitor_init (map full_tick [''a'', ''ab'', ''abc'', ''abc'']) \<noteq> MFound \<and>
   concat (file_reads 0 (map full_tick [''a'', ''ab'', ''abc'', ''abc''])) = ''abc''"
  by code_simp

text \<open>The search also looks at stale bytes of the window: a pattern is reported in a file that does not
  contain it.\<close>

theorem monitor_false_positive:
  "\<not> str_contains stale_content ''XY'' \<and>
   monitor_file_for ''XY'' monitor_init (replicate 3 (full_tick stale_content)) = MFound"
proof -
  have "\<not> str_contains stale_content ''XY''"
    by (simp add: stale_content_def numeral_eq_Suc sublist_Cons_right)
  moreover have "monitor_file_for ''XY'' monitor_init (replicate 3 (full_tick stale_content)) = MFound"
    by code_simp
  ultimately show ?thesis by blast
qed

text \<open>Splitting into lines loses nothing but line endings, and no line is empty or holds a line ending.\<close>

theorem into_lines_spec:
  "concat (into_lines data) = filter (\<lambda>x. x \<noteq> CHR 0x0A \<and> x \<noteq> CHR 0x0D) data \<and>
   list_all (\<lambda>l. l \<noteq> [] \<and> CHR 0x0A \<notin> set l \<and> CHR 0x0D \<notin> set l) (into_lines data)"
  using into_lines_concat into_lines_line by (auto simp: list_all_iff)

end
