(* ===== verification/Ssh_Config.thy ===== *)
theory Ssh_Config
  imports Ssh_Executor Provider_Conf
begin

text \<open>
  \<^verbatim>\<open>internal/provider/ssh_config.go\<close>: from the \<^verbatim>\<open>ssh\<close> block of the provider (and its environment
  variables) to the configuration of the SSH executor, and what the provider finds out about a
  remote target. Parsing keys and loading \<^verbatim>\<open>known_hosts\<close> are library calls; a host-key callback is
  represented by how it was made.
\<close>

section \<open>Settings\<close>

record ssh_model =
  sh_user :: "string tfval"
  sh_port :: "int tfval"
  sh_password :: "string tfval"
  sh_private_key :: "string tfval"
  sh_private_key_file :: "string tfval"
  sh_passphrase :: "string tfval"
  sh_use_agent :: "bool tfval"
  sh_forward_agent :: "bool tfval"
  sh_known_hosts_file :: "string tfval"
  sh_host_key :: "string tfval"
  sh_insecure :: "bool tfval"
  sh_proxy_jump :: "string tfval"
  sh_remote_binary_path :: "string tfval"

definition empty_ssh_model :: ssh_model where
  "empty_ssh_model =
     \<lparr>sh_user = TNull, sh_port = TNull, sh_password = TNull, sh_private_key = TNull, sh_private_key_file = TNull,
      sh_passphrase = TNull, sh_use_agent = TNull, sh_forward_agent = TNull, sh_known_hosts_file = TNull,
      sh_host_key = TNull, sh_insecure = TNull, sh_proxy_jump = TNull, sh_remote_binary_path = TNull\<rparr>"

datatype host_key_callback = IgnoreHostKey | FixedHostKey string | KnownHosts string

datatype auth_method = AuthPassword string | AuthKey string | AuthAgent string

text \<open>The machine the provider runs on: its environment variables, home directory, user and platform,
  and the calls it makes there; and the library functions on keys.\<close>

record 'w local_env =
  le_getenv :: "string \<Rightarrow> string option"
  le_home :: "goerr + string"
  le_user :: "goerr + string"
  le_goos :: string
  le_goarch :: string
  le_read_file :: "string \<Rightarrow> ('w, goerr + string) state"
  le_exists :: "string \<Rightarrow> ('w, bool) state"
  le_dial_unix :: "string \<Rightarrow> ('w, goerr option) state"
  le_known_hosts :: "string \<Rightarrow> ('w, goerr option) state"
  le_parse_key :: "string \<Rightarrow> goerr option"
  le_parse_key_pass :: "string \<Rightarrow> string \<Rightarrow> goerr option"
  le_authorized_key :: "string \<Rightarrow> goerr + string"

definition getenv :: "'w local_env \<Rightarrow> string \<Rightarrow> string" where
  "getenv L v = (case le_getenv L v of None \<Rightarrow> [] | Some s \<Rightarrow> s)"

definition ssh_str :: "'w local_env \<Rightarrow> string tfval \<Rightarrow> string \<Rightarrow> string" where
  "ssh_str L v env = (if v \<noteq> TNull \<and> tf_string v \<noteq> [] then tf_string v else getenv L env)"

definition lower_char :: "char \<Rightarrow> char" where
  "lower_char c = (let n = of_char c :: nat in if 65 \<le> n \<and> n \<le> 90 then char_of (n + 32) else c)"

definition ssh_bool :: "'w local_env \<Rightarrow> bool tfval \<Rightarrow> string \<Rightarrow> bool" where
  "ssh_bool L v env =
     (if v \<noteq> TNull then tf_value False v
      else map lower_char (getenv L env) \<in> {''1'', ''true'', ''yes'', ''on''})"

definition ssh_port :: "'w local_env \<Rightarrow> int tfval \<Rightarrow> string \<Rightarrow> int" where
  "ssh_port L v env =
     (if v \<noteq> TNull \<and> tf_int v \<noteq> 0 then tf_int v
      else (case (if getenv L env \<noteq> [] then atoi (getenv L env) else None) of
              Some n \<Rightarrow> if n \<noteq> 0 then n else 22
            | None \<Rightarrow> 22))"

definition expand_home :: "'w local_env \<Rightarrow> string \<Rightarrow> string" where
  "expand_home L p =
     (if p = ''~'' \<or> has_prefix p ''~/'' then
        (case le_home L of Inr home \<Rightarrow> path_join [home, trim_prefix p ''~''] | Inl _ \<Rightarrow> p)
      else p)"

fun last_non_empty :: "string list \<Rightarrow> string" where
  "last_non_empty [] = []"
| "last_non_empty (l # ls) = (if trim_space l \<noteq> [] then trim_space l else last_non_empty ls)"

definition last_non_empty_line :: "string \<Rightarrow> string" where
  "last_non_empty_line s = last_non_empty (rev (split_on (CHR 0x0A) s))"

section \<open>Host and port\<close>

text \<open>\<^verbatim>\<open>net.JoinHostPort\<close> and \<^verbatim>\<open>net.SplitHostPort\<close> (\<open>None\<close> is an error).\<close>

definition join_host_port :: "string \<Rightarrow> string \<Rightarrow> string" where
  "join_host_port host port =
     (if CHR '':'' \<in> set host then ''['' @ host @ '']:'' @ port else host @ '':'' @ port)"

definition split_last :: "char \<Rightarrow> string \<Rightarrow> (string \<times> string) option" where
  "split_last c s =
     (case str_cut (rev s) c of None \<Rightarrow> None | Some (b, a) \<Rightarrow> Some (rev a, rev b))"

definition split_host_port :: "string \<Rightarrow> (string \<times> string) option" where
  "split_host_port hp =
     (case split_last (CHR '':'') hp of
        None \<Rightarrow> None
      | Some (before, port) \<Rightarrow>
          (case hp of
             [] \<Rightarrow> None
           | x # rest \<Rightarrow>
               if x = CHR ''['' then
                 (case str_cut rest (CHR '']'') of
                    None \<Rightarrow> None
                  | Some (host, after) \<Rightarrow>
                      if after = CHR '':'' # port \<and> CHR ''['' \<notin> set rest \<and> CHR '']'' \<notin> set after then Some (host, port)
                      else None)
               else if CHR '':'' \<in> set before \<or> CHR ''['' \<in> set hp \<or> CHR '']'' \<in> set hp then None
               else Some (before, port)))"

definition split_host_port_default :: "string \<Rightarrow> string \<Rightarrow> string \<times> string" where
  "split_host_port_default hostport def_port =
     (case split_host_port hostport of
        Some (h, p) \<Rightarrow> (h, p)
      | None \<Rightarrow>
          ((if has_prefix hostport ''['' \<and> has_suffix hostport '']'' then butlast (tl hostport) else hostport), def_port))"

definition parse_jump_spec :: "string \<Rightarrow> string \<times> string \<times> string" where
  "parse_jump_spec spec =
     (case str_cut spec (CHR ''@'') of
        Some (u, hp) \<Rightarrow> (u, split_host_port_default hp ''22'')
      | None \<Rightarrow> ([], split_host_port_default spec ''22''))"

section \<open>Host keys\<close>

definition known_hosts_callback :: "'w local_env \<Rightarrow> ssh_model \<Rightarrow> ('w, goerr + host_key_callback option) state" where
  "known_hosts_callback L m = do {
     let configured = ssh_str L (sh_known_hosts_file m) ''ZEDAMIGO_SSH_KNOWN_HOSTS'';
     kh_file \<leftarrow>
       (if configured \<noteq> [] then State_Monad.return configured
        else case le_home L of
            Inl _ \<Rightarrow> State_Monad.return []
          | Inr home \<Rightarrow> do {
              let def = path_join [home, ''.ssh'', ''known_hosts''];
              found \<leftarrow> le_exists L def;
              State_Monad.return (if found then def else []) });
     if kh_file = [] then okE None
     else do {
       e \<leftarrow> le_known_hosts L (expand_home L kh_file);
       case e of
         Some err \<Rightarrow> failE (wrapf (''can't load known_hosts file '' @ go_quote kh_file @ '': '') err)
       | None \<Rightarrow> okE (Some (KnownHosts (expand_home L kh_file))) } }"

definition no_host_key_error :: goerr where
  "no_host_key_error = Err (''no SSH host key verification configured: set ssh.known_hosts_file or ssh.host_key, '' @
     ''or (insecurely, for dev/test) ssh.insecure_ignore_host_key'')"

definition no_jump_host_key_error :: goerr where
  "no_jump_host_key_error = Err (''ssh.proxy_jump requires host key verification for the jump host(s): set '' @
     ''ssh.known_hosts_file, or (insecurely, for dev/test) ssh.insecure_ignore_host_key (ssh.host_key applies only to the final target)'')"

definition build_host_key_callback :: "'w local_env \<Rightarrow> ssh_model \<Rightarrow> ('w, goerr + host_key_callback) state" where
  "build_host_key_callback L m =
     (if ssh_bool L (sh_insecure m) ''ZEDAMIGO_SSH_INSECURE'' then okE IgnoreHostKey
      else let hk = ssh_str L (sh_host_key m) ''ZEDAMIGO_SSH_HOST_KEY'' in
        if hk \<noteq> [] then
          (case le_authorized_key L hk of
             Inl e \<Rightarrow> failE (wrapf ''can't parse ssh.host_key: '' e)
           | Inr pub \<Rightarrow> okE (FixedHostKey pub))
        else bindE (known_hosts_callback L m) (\<lambda>cb.
          case cb of Some c \<Rightarrow> okE c | None \<Rightarrow> failE no_host_key_error))"

definition build_jump_host_key_callback :: "'w local_env \<Rightarrow> ssh_model \<Rightarrow> ('w, goerr + host_key_callback) state" where
  "build_jump_host_key_callback L m =
     (if ssh_bool L (sh_insecure m) ''ZEDAMIGO_SSH_INSECURE'' then okE IgnoreHostKey
      else bindE (known_hosts_callback L m) (\<lambda>cb.
        case cb of Some c \<Rightarrow> okE c | None \<Rightarrow> failE no_jump_host_key_error))"

section \<open>The client configuration\<close>

record ssh_client_config =
  cc_user :: string
  cc_auth :: "auth_method list"
  cc_host_key :: host_key_callback
  cc_timeout :: int

record ssh_jump =
  sj_addr :: string
  sj_config :: ssh_client_config

record ssh_params =
  sp_addr :: string
  sp_config :: ssh_client_config
  sp_jumps :: "ssh_jump list"
  sp_use_sudo :: bool
  sp_agent_socket :: string

definition private_key_data :: "'w local_env \<Rightarrow> ssh_model \<Rightarrow> ('w, goerr + string) state" where
  "private_key_data L m =
     (let key = ssh_str L (sh_private_key m) ''ZEDAMIGO_SSH_PRIVATE_KEY''
      in if key \<noteq> [] then okE key
         else let f = ssh_str L (sh_private_key_file m) ''ZEDAMIGO_SSH_PRIVATE_KEY_FILE'' in
           if f = [] then okE []
           else mapE (wrapf (''can't read SSH private key file '' @ go_quote f @ '': '')) (le_read_file L (expand_home L f)))"

definition private_key_auth :: "'w local_env \<Rightarrow> ssh_model \<Rightarrow> string \<Rightarrow> goerr + auth_method list" where
  "private_key_auth L m key =
     (if key = [] then Inr []
      else let pass = ssh_str L (sh_passphrase m) ''ZEDAMIGO_SSH_PRIVATE_KEY_PASSPHRASE'' in
        case (if pass \<noteq> [] then le_parse_key_pass L key pass else le_parse_key L key) of
          Some e \<Rightarrow> Inl (wrapf ''invalid SSH private key: '' e)
        | None \<Rightarrow> Inr [AuthKey key])"

definition agent_auth :: "'w local_env \<Rightarrow> ssh_model \<Rightarrow> ('w, goerr + auth_method list) state" where
  "agent_auth L m =
     (if \<not> ssh_bool L (sh_use_agent m) ''ZEDAMIGO_SSH_USE_AGENT'' then okE []
      else let sock = getenv L ''SSH_AUTH_SOCK'' in
        if sock = [] then failE (Err ''ssh.use_agent is set but SSH_AUTH_SOCK is empty'')
        else do {
          e \<leftarrow> le_dial_unix L sock;
          case e of
            Some err \<Rightarrow> failE (wrapf (''can't connect to SSH agent at '' @ sock @ '': '') err)
          | None \<Rightarrow> okE [AuthAgent sock] })"

definition no_auth_error :: goerr where
  "no_auth_error = Err (''no SSH authentication method configured: set ssh.password, ssh.private_key / '' @
     ''ssh.private_key_file, or ssh.use_agent (or the ZEDAMIGO_SSH_* env equivalents)'')"

text \<open>All configured methods, in the order they are tried.\<close>

definition ssh_auths :: "'w local_env \<Rightarrow> ssh_model \<Rightarrow> ('w, goerr + auth_method list) state" where
  "ssh_auths L m =
     (let pw = ssh_str L (sh_password m) ''ZEDAMIGO_SSH_PASSWORD'';
          passwords = (if pw \<noteq> [] then [AuthPassword pw] else [])
      in bindE (private_key_data L m) (\<lambda>key.
         bindE (State_Monad.return (private_key_auth L m key)) (\<lambda>keys.
         bindE (agent_auth L m) (\<lambda>agents. okE (passwords @ keys @ agents)))))"

definition ssh_user_name :: "'w local_env \<Rightarrow> ssh_model \<Rightarrow> string" where
  "ssh_user_name L m =
     (let user = ssh_str L (sh_user m) ''ZEDAMIGO_SSH_USER''
      in if user = [] then (case le_user L of Inr u \<Rightarrow> u | Inl _ \<Rightarrow> []) else user)"

definition build_ssh_client_config :: "'w local_env \<Rightarrow> ssh_model \<Rightarrow> ('w, goerr + ssh_client_config) state" where
  "build_ssh_client_config L m =
     bindE (ssh_auths L m) (\<lambda>auths.
       if auths = [] then failE no_auth_error
       else bindE (build_host_key_callback L m) (\<lambda>cb.
         okE \<lparr>cc_user = ssh_user_name L m, cc_auth = auths, cc_host_key = cb, cc_timeout = 15000000000\<rparr>))"

section \<open>Jump hosts and the executor\<close>

text \<open>The loop over the comma-separated parts.\<close>

fun jump_hops :: "ssh_client_config \<Rightarrow> host_key_callback \<Rightarrow> string list \<Rightarrow> ssh_jump list" where
  "jump_hops target cb [] = []"
| "jump_hops target cb (part # parts) =
     (let p = trim_space part
      in if p = [] then jump_hops target cb parts
         else case parse_jump_spec p of (user, host, port) \<Rightarrow>
           \<lparr>sj_addr = join_host_port host port,
            sj_config = \<lparr>cc_user = (if user = [] then cc_user target else user), cc_auth = cc_auth target,
                         cc_host_key = cb, cc_timeout = cc_timeout target\<rparr>\<rparr> # jump_hops target cb parts)"

definition build_ssh_jump_chain :: "'w local_env \<Rightarrow> ssh_model \<Rightarrow> ssh_client_config \<Rightarrow> ('w, goerr + ssh_jump list) state" where
  "build_ssh_jump_chain L m target =
     (let spec = ssh_str L (sh_proxy_jump m) ''ZEDAMIGO_SSH_PROXY_JUMP''
      in if spec = [] then okE []
         else bindE (build_jump_host_key_callback L m) (\<lambda>cb.
           let hops = jump_hops target cb (split_on (CHR '','') spec) in
           if hops = [] then failE (Err (''ssh.proxy_jump '' @ go_quote spec @ '' did not specify any jump hosts''))
           else okE hops))"

definition forward_agent_socket :: "'w local_env \<Rightarrow> ssh_model \<Rightarrow> goerr + string" where
  "forward_agent_socket L m =
     (if \<not> ssh_bool L (sh_forward_agent m) ''ZEDAMIGO_SSH_FORWARD_AGENT'' then Inr []
      else let sock = getenv L ''SSH_AUTH_SOCK'' in
        if sock = [] then
          Inl (Err (''ssh.forward_agent is set but SSH_AUTH_SOCK is empty: start an agent and load a key (eval '' @
            go_quote ''$(ssh-agent)'' @ '' && ssh-add), or unset ssh.forward_agent''))
        else Inr sock)"

definition build_ssh_executor :: "'w local_env \<Rightarrow> string \<Rightarrow> ssh_model option \<Rightarrow> bool \<Rightarrow> ('w, goerr + ssh_params) state" where
  "build_ssh_executor L target model use_sudo =
     (let m = (case model of None \<Rightarrow> empty_ssh_model | Some m \<Rightarrow> m)
      in bindE (build_ssh_client_config L m) (\<lambda>cfg.
         bindE (build_ssh_jump_chain L m cfg) (\<lambda>jumps.
         bindE (State_Monad.return (forward_agent_socket L m)) (\<lambda>agent_socket.
           okE \<lparr>sp_addr = join_host_port target (itoa (ssh_port L (sh_port m) ''ZEDAMIGO_SSH_PORT'')),
                sp_config = cfg, sp_jumps = jumps, sp_use_sudo = use_sudo, sp_agent_socket = agent_socket\<rparr>))))"

section \<open>The target\<close>

definition target_os_of :: "string \<Rightarrow> string option" where
  "target_os_of f = (if f = ''Linux'' then Some ''linux'' else if f = ''Darwin'' then Some ''darwin'' else None)"

definition target_arch_of :: "string \<Rightarrow> string option" where
  "target_arch_of f =
     (if f = ''x86_64'' then Some ''amd64'' else if f = ''aarch64'' \<or> f = ''arm64'' then Some ''arm64'' else None)"

definition detect_target_platform :: "'w local_env \<Rightarrow> 'w executor \<Rightarrow> string \<Rightarrow> ('w, goerr + (string \<times> string)) state" where
  "detect_target_platform L ex log_dir =
     (if ex_is_local ex then okE (le_goos L, le_goarch L)
      else do {
        (res, err) \<leftarrow> ex_run ex log_dir ''uname'' [''-sm''];
        case err of
          Some e \<Rightarrow> failE (wrapf ''can't run `uname -sm` on the target: '' e)
        | None \<Rightarrow>
            (case str_fields (r_stdout res) of
               [os, arch] \<Rightarrow>
                 (case target_os_of os of
                    None \<Rightarrow> failE (Err (''unsupported target operating system '' @ go_quote os))
                  | Some os_name \<Rightarrow>
                      (case target_arch_of arch of
                         None \<Rightarrow> failE (Err (''unsupported target architecture '' @ go_quote arch))
                       | Some a \<Rightarrow> okE (os_name, a)))
             | _ \<Rightarrow> failE (Err (''unexpected `uname -sm` output '' @ go_quote (trim_space (r_stdout res))))) })"

definition state_dir_script :: string where
  "state_dir_script =
     ''printf '' @ [CHR 0x27] @ ''%s'' @ [CHR 0x5C, CHR ''n'', CHR 0x27] @ '' '' @ [CHR 0x22] @
     ''${XDG_STATE_HOME:-$HOME/.local/state}'' @ [CHR 0x22]"

definition resolve_remote_lib_path :: "'w executor \<Rightarrow> ('w, goerr + string) state" where
  "resolve_remote_lib_path ex = do {
     (res, err) \<leftarrow> ex_run ex ''/tmp'' ''sh'' [''-c'', state_dir_script];
     case err of
       Some e \<Rightarrow> failE (wrapf ''can't resolve remote state dir: '' e)
     | None \<Rightarrow>
         (let base = trim_space (r_stdout res)
          in if base = [] then failE (Err ''remote state dir resolved empty'')
             else okE (path_join [base, ''zedamigo''])) }"

definition bootstrap_script :: "string \<Rightarrow> string" where
  "bootstrap_script v =
     ''curl -fsSL '' @ shell_quote_arg
       (''https://raw.githubusercontent.com/andrei-zededa/terraform-provider-zedamigo/v'' @ v @ ''/install.sh'') @
     '' | bash -s -- --binary-only '' @ shell_quote_arg v"

definition bootstrap_remote_binary :: "'w executor \<Rightarrow> string \<Rightarrow> string \<Rightarrow> ('w, goerr + string) state" where
  "bootstrap_remote_binary ex lib_path version =
     (if version \<in> {[], ''dev'', ''test''} then
        failE (Err (''cannot bootstrap the remote provider binary for version '' @ go_quote version @
          '': set ssh.remote_binary_path to a pre-installed binary on the target''))
      else do {
        (res, err) \<leftarrow> ex_run ex (path_join [lib_path, ''bootstrap'']) ''sh'' [''-c'', bootstrap_script (trim_prefix version ''v'')];
        case err of
          Some e \<Rightarrow> failE (Wrap (''remote binary bootstrap failed: '' @ err_msg e @ ''; stderr: '' @ r_stderr res) e)
        | None \<Rightarrow>
            (let bin_path = last_non_empty_line (r_stdout res)
             in if bin_path = [] then
                  failE (Err (''remote binary bootstrap produced no path; stdout: '' @ r_stdout res @ ''; stderr: '' @ r_stderr res))
                else do {
                  st \<leftarrow> ex_stat ex bin_path;
                  case st of
                    Inl e \<Rightarrow> failE (wrapf (''bootstrapped remote binary '' @ go_quote bin_path @ '' not found: '') e)
                  | Inr _ \<Rightarrow> okE bin_path }) })"

section \<open>Lemmas\<close>

lemma split_last_app: "c \<notin> set b \<Longrightarrow> split_last c (a @ c # b) = Some (a, b)"
  using str_cut_app [of c "rev b" "rev a"] by (simp add: split_last_def)

abbreviation no_brackets :: "string \<Rightarrow> bool" where
  "no_brackets s \<equiv> CHR ''['' \<notin> set s \<and> CHR '']'' \<notin> set s"

lemma split_join_host_port:
  assumes "no_brackets host" and "no_brackets port" and "CHR '':'' \<notin> set port"
  shows "split_host_port (join_host_port host port) = Some (host, port)"
proof (cases "CHR '':'' \<in> set host")
  case True
  let ?hp = "CHR ''['' # host @ CHR '']'' # CHR '':'' # port"
  have "split_last (CHR '':'') ?hp = Some (CHR ''['' # host @ [CHR '']''], port)"
    using split_last_app [OF assms(3), of "CHR ''['' # host @ [CHR '']'']"] by simp
  moreover have "str_cut (host @ CHR '']'' # CHR '':'' # port) (CHR '']'') = Some (host, CHR '':'' # port)"
    using assms(1) by (simp add: str_cut_app)
  ultimately show ?thesis using True assms by (simp add: split_host_port_def join_host_port_def)
next
  case False
  have s: "split_last (CHR '':'') (host @ CHR '':'' # port) = Some (host, port)" by (rule split_last_app) fact
  show ?thesis
  proof (cases host)
    case Nil
    then show ?thesis using False s assms by (simp add: split_host_port_def join_host_port_def)
  next
    case (Cons x xs)
    then have "x \<noteq> CHR ''[''" using assms(1) by auto
    then show ?thesis using False s Cons assms by (simp add: split_host_port_def join_host_port_def)
  qed
qed

text \<open>A hop as it is written in \<^verbatim>\<open>proxy_jump\<close>.\<close>

definition hop_text :: "string \<times> string \<times> string \<Rightarrow> string" where
  "hop_text h = (case h of (user, host, port) \<Rightarrow> (if user = [] then [] else user @ ''@'') @ join_host_port host port)"

definition word_char :: "char \<Rightarrow> bool" where
  "word_char c \<longleftrightarrow> \<not> is_space c \<and> c \<noteq> CHR '','' \<and> c \<noteq> CHR ''@'' \<and> c \<noteq> CHR ''['' \<and> c \<noteq> CHR '']''"

definition hop_ok :: "string \<times> string \<times> string \<Rightarrow> bool" where
  "hop_ok h = (case h of (user, host, port) \<Rightarrow>
     list_all word_char user \<and> list_all word_char host \<and> list_all word_char port \<and> CHR '':'' \<notin> set port)"

definition hop_jump :: "ssh_client_config \<Rightarrow> host_key_callback \<Rightarrow> string \<times> string \<times> string \<Rightarrow> ssh_jump" where
  "hop_jump target cb h = (case h of (user, host, port) \<Rightarrow>
     \<lparr>sj_addr = join_host_port host port,
      sj_config = \<lparr>cc_user = (if user = [] then cc_user target else user), cc_auth = cc_auth target,
                   cc_host_key = cb, cc_timeout = cc_timeout target\<rparr>\<rparr>)"

lemma join_host_port_chars:
  "set (join_host_port host port) \<subseteq> set host \<union> set port \<union> {CHR '':'', CHR ''['', CHR '']''}" "join_host_port host port \<noteq> []"
  by (auto simp: join_host_port_def)

lemma word_chars_not: "\<lbrakk>list_all word_char s; \<not> word_char c\<rbrakk> \<Longrightarrow> c \<notin> set s"
  by (auto simp: list_all_iff)

lemma not_word_chars [simp]: "\<not> word_char (CHR ''['')" "\<not> word_char (CHR '']'')" "\<not> word_char (CHR ''@'')" "\<not> word_char (CHR '','')"
  by (simp_all add: word_char_def)

lemma hop_text_parse:
  assumes "hop_ok (user, host, port)"
  shows "parse_jump_spec (hop_text (user, host, port)) = (user, host, port)"
proof -
  have ok: "no_brackets host" "no_brackets port" "CHR '':'' \<notin> set port" "CHR ''@'' \<notin> set user"
    "CHR ''@'' \<notin> set host" "CHR ''@'' \<notin> set port"
    using assms by (simp_all add: hop_ok_def word_chars_not)
  have split: "split_host_port_default (join_host_port host port) ''22'' = (host, port)"
    using split_join_host_port [OF ok(1-3)] by (simp add: split_host_port_default_def)
  have "CHR ''@'' \<notin> set (join_host_port host port)" using ok by (simp add: join_host_port_def)
  then have "str_cut (join_host_port host port) (CHR ''@'') = None" by (simp add: str_cut_None)
  then show ?thesis using split ok(4) by (simp add: hop_text_def parse_jump_spec_def str_cut_app)
qed

lemma hop_text_set:
  "set (hop_text (user, host, port)) \<subseteq> set user \<union> set host \<union> set port \<union> {CHR ''@'', CHR '':'', CHR ''['', CHR '']''}"
  using join_host_port_chars(1) [of host port] by (simp add: hop_text_def) blast

lemma hop_text_chars:
  assumes "hop_ok h" and "c \<in> set (hop_text h)"
  shows "\<not> is_space c \<and> c \<noteq> CHR '',''"
proof -
  obtain user host port where h: "h = (user, host, port)" by (cases h)
  consider "c \<in> set user \<union> set host \<union> set port" | "c \<in> {CHR ''@'', CHR '':'', CHR ''['', CHR '']''}"
    using assms(2) hop_text_set [of user host port] h by blast
  then show ?thesis
  proof cases
    case 1
    then have "word_char c" using assms(1) by (simp add: h hop_ok_def list_all_iff) blast
    then show ?thesis by (simp add: word_char_def)
  qed (simp add: is_space_def, fastforce)
qed

lemma hop_text_not_empty: "hop_text h \<noteq> []"
  using join_host_port_chars(2) by (simp add: hop_text_def split: prod.split)

lemma hop_text_trim: "hop_ok h \<Longrightarrow> trim_space (hop_text h) = hop_text h"
  using hop_text_chars [of h "hd (hop_text h)"] hop_text_chars [of h "last (hop_text h)"] hop_text_not_empty [of h]
  by (intro trim_space_id) simp

lemma jump_hops_texts: "list_all hop_ok hs \<Longrightarrow> jump_hops target cb (map hop_text hs) = map (hop_jump target cb) hs"
proof (induction hs)
  case (Cons h hs)
  then show ?case
    by (cases h) (auto simp: hop_text_trim hop_text_not_empty hop_text_parse hop_jump_def Let_def)
qed simp

lemma known_hosts_kind:
  "run_state (known_hosts_callback L m) w = (Inr (Some cb), w') \<Longrightarrow> \<exists>f. cb = KnownHosts f"
  by (auto simp: known_hosts_callback_def Let_def split: prod.splits option.splits sum.splits if_splits)

lemma jump_hops_callback: "list_all (\<lambda>j. cc_host_key (sj_config j) = cb) (jump_hops target cb parts)"
  by (induction parts) (auto simp: Let_def split: prod.splits)

lemma host_key_not_ignored:
  assumes "run_state (build_host_key_callback L m) w = (Inr cb, w')"
    and "\<not> ssh_bool L (sh_insecure m) ''ZEDAMIGO_SSH_INSECURE''"
  shows "cb \<noteq> IgnoreHostKey"
  using assms by (auto simp: build_host_key_callback_def Let_def split: prod.splits sum.splits option.splits if_splits
      dest!: known_hosts_kind)

lemma jump_host_key_known:
  assumes "run_state (build_jump_host_key_callback L m) w = (Inr cb, w')"
    and "\<not> ssh_bool L (sh_insecure m) ''ZEDAMIGO_SSH_INSECURE''"
  shows "\<exists>f. cb = KnownHosts f"
  using assms by (auto simp: build_jump_host_key_callback_def split: prod.splits sum.splits option.splits
      dest!: known_hosts_kind)

lemma bindE_okD:
  "run_state (bindE m f) w = (Inr y, w') \<Longrightarrow> \<exists>x w1. run_state m w = (Inr x, w1) \<and> run_state (f x) w1 = (Inr y, w')"
  by (auto split: prod.splits sum.splits)

lemma client_config_safe:
  assumes "run_state (build_ssh_client_config L m) w = (Inr cfg, w')"
    and "\<not> ssh_bool L (sh_insecure m) ''ZEDAMIGO_SSH_INSECURE''"
  shows "cc_host_key cfg \<noteq> IgnoreHostKey \<and> cc_auth cfg \<noteq> []"
proof -
  from assms(1) obtain cb w1 w2 where cb: "run_state (build_host_key_callback L m) w1 = (Inr cb, w2)"
    and "cc_auth cfg \<noteq> []" "cc_host_key cfg = cb"
    by (auto simp: build_ssh_client_config_def split: prod.splits sum.splits if_splits)
  with host_key_not_ignored [OF cb assms(2)] show ?thesis by blast
qed

lemma jump_chain_safe:
  assumes "run_state (build_ssh_jump_chain L m cfg) w = (Inr jumps, w')"
    and "\<not> ssh_bool L (sh_insecure m) ''ZEDAMIGO_SSH_INSECURE''"
  shows "list_all (\<lambda>j. \<exists>f. cc_host_key (sj_config j) = KnownHosts f) jumps"
proof (cases "ssh_str L (sh_proxy_jump m) ''ZEDAMIGO_SSH_PROXY_JUMP'' = []")
  case True
  with assms show ?thesis by (simp add: build_ssh_jump_chain_def)
next
  case False
  let ?parts = "split_on (CHR '','') (ssh_str L (sh_proxy_jump m) ''ZEDAMIGO_SSH_PROXY_JUMP'')"
  let ?f = "\<lambda>cb. if jump_hops cfg cb ?parts = [] then failE (Err (''ssh.proxy_jump '' @
      go_quote (ssh_str L (sh_proxy_jump m) ''ZEDAMIGO_SSH_PROXY_JUMP'') @ '' did not specify any jump hosts''))
    else okE (jump_hops cfg cb ?parts)"
  have "build_ssh_jump_chain L m cfg = bindE (build_jump_host_key_callback L m) ?f"
    unfolding build_ssh_jump_chain_def Let_def using False by (simp only: if_False)
  with assms(1) have "run_state (bindE (build_jump_host_key_callback L m) ?f) w = (Inr jumps, w')" by simp
  from bindE_okD [OF this] obtain cb w1 where cb: "run_state (build_jump_host_key_callback L m) w = (Inr cb, w1)"
    and f: "run_state (?f cb) w1 = (Inr jumps, w')" by blast
  from f have "jumps = jump_hops cfg cb ?parts" by (cases "jump_hops cfg cb ?parts = []") simp_all
  moreover obtain f where "cb = KnownHosts f" using jump_host_key_known [OF cb assms(2)] by blast
  ultimately show ?thesis using jump_hops_callback [of cb cfg ?parts] by (simp add: list_all_iff)
qed

section \<open>Properties\<close>

definition sample_local :: "unit local_env" where
  "sample_local =
     \<lparr>le_getenv = (\<lambda>v. if v = ''SSH_AUTH_SOCK'' then Some ''/agent'' else None), le_home = Inr ''/root'', le_user = Inr ''me'',
      le_goos = ''linux'', le_goarch = ''amd64'', le_read_file = (\<lambda>p. State_Monad.return (Inr [])),
      le_exists = (\<lambda>p. State_Monad.return True), le_dial_unix = (\<lambda>p. State_Monad.return None),
      le_known_hosts = (\<lambda>p. State_Monad.return None), le_parse_key = (\<lambda>k. None), le_parse_key_pass = (\<lambda>k p. None),
      le_authorized_key = Inr\<rparr>"

definition sample_ssh :: ssh_model where
  "sample_ssh = empty_ssh_model\<lparr>sh_password := TKnown ''p'', sh_known_hosts_file := TKnown ''/k''\<rparr>"

text \<open>C35: Host keys fail closed: unless the insecure option is set, the target is never trusted without a check,
  every jump host is checked against known hosts, and there is an authentication method.\<close>

theorem ssh_fails_closed:
  assumes "run_state (build_ssh_executor L target (Some m) use_sudo) w = (Inr sp, w')"
    and "\<not> ssh_bool L (sh_insecure m) ''ZEDAMIGO_SSH_INSECURE''"
  shows "cc_host_key (sp_config sp) \<noteq> IgnoreHostKey \<and> cc_auth (sp_config sp) \<noteq> [] \<and>
         list_all (\<lambda>j. \<exists>f. cc_host_key (sj_config j) = KnownHosts f) (sp_jumps sp)"
proof -
  from assms(1) obtain cfg jumps w1 w2 where "run_state (build_ssh_client_config L m) w = (Inr cfg, w1)"
    "run_state (build_ssh_jump_chain L m cfg) w1 = (Inr jumps, w2)" "sp_config sp = cfg" "sp_jumps sp = jumps"
    by (auto simp: build_ssh_executor_def Let_def split: prod.splits sum.splits)
  then show ?thesis using client_config_safe [OF _ assms(2)] jump_chain_safe [OF _ assms(2)] by blast
qed

lemma sample_executor_built:
  "\<exists>sp. run_state (build_ssh_executor sample_local ''h'' (Some sample_ssh) False) () = (Inr sp, ())"
  by (simp add: build_ssh_executor_def build_ssh_client_config_def ssh_auths_def ssh_user_name_def private_key_data_def private_key_auth_def agent_auth_def
      build_host_key_callback_def known_hosts_callback_def build_ssh_jump_chain_def forward_agent_socket_def empty_ssh_model_def sample_ssh_def expand_home_def
      ssh_str_def ssh_bool_def getenv_def sample_local_def Let_def)

theorem ssh_fails_closed_witness:
  "\<exists>sp. run_state (build_ssh_executor sample_local ''h'' (Some sample_ssh) False) () = (Inr sp, ()) \<and>
        cc_host_key (sp_config sp) \<noteq> IgnoreHostKey \<and> cc_auth (sp_config sp) \<noteq> []"
proof -
  obtain sp where run: "run_state (build_ssh_executor sample_local ''h'' (Some sample_ssh) False) () = (Inr sp, ())"
    using sample_executor_built by blast
  have "\<not> ssh_bool sample_local (sh_insecure sample_ssh) ''ZEDAMIGO_SSH_INSECURE''"
    by (simp add: ssh_bool_def empty_ssh_model_def sample_ssh_def getenv_def sample_local_def)
  from ssh_fails_closed [OF run this] run show ?thesis by blast
qed

text \<open>A chain of jump hosts, written as user, host and port of each, is read back hop by hop; a hop without a
  user gets the user of the target.\<close>

theorem proxy_jump_roundtrip:
  assumes "list_all hop_ok hs"
  shows "jump_hops target cb (split_on (CHR '','') (str_join (map hop_text hs) '','')) = map (hop_jump target cb) hs"
proof (cases "hs = []")
  case True
  then show ?thesis by (simp add: trim_space_id)
next
  case False
  have "\<forall>x \<in> set (map hop_text hs). CHR '','' \<notin> set x"
  proof
    fix x assume "x \<in> set (map hop_text hs)"
    then obtain h where "x = hop_text h" "hop_ok h" using assms by (auto simp: list_all_iff simp del: split_paired_Ex)
    then show "CHR '','' \<notin> set x" using hop_text_chars by blast
  qed
  then have "split_on (CHR '','') (str_join (map hop_text hs) '','') = map hop_text hs"
    using False by (intro split_on_join) auto
  with assms show ?thesis by (simp add: jump_hops_texts)
qed

theorem proxy_jump_roundtrip_witness:
  "jump_hops \<lparr>cc_user = ''me'', cc_auth = [], cc_host_key = IgnoreHostKey, cc_timeout = 0\<rparr> IgnoreHostKey
     (split_on (CHR '','') (str_join (map hop_text [(''root'', ''bastion'', ''11022''), ([], ''fe80::1'', ''22'')]) '','')) =
   map (hop_jump \<lparr>cc_user = ''me'', cc_auth = [], cc_host_key = IgnoreHostKey, cc_timeout = 0\<rparr> IgnoreHostKey)
     [(''root'', ''bastion'', ''11022''), ([], ''fe80::1'', ''22'')]"
  by (rule proxy_jump_roundtrip) (simp add: hop_ok_def word_char_def is_space_def)

end
