(* ===== verification/Provider_Setup.thy ===== *)
theory Provider_Setup
  imports Ssh_Config Qemu Vfkit
begin

text \<open>
  \<^verbatim>\<open>Configure\<close> of the provider (\<^verbatim>\<open>provider.go\<close>, \<^verbatim>\<open>provider_platform.go\<close>): from the configuration of the
  provider to the executor, the tools of the target and its hypervisor, which all resources share.
  Diagnostics are collected as the code appends them: a step gives its diagnostics and a value, or
  no value when \<^verbatim>\<open>Configure\<close> returns there.
\<close>

section \<open>Steps with diagnostics\<close>

type_synonym ('w, 'a) diag_step = "('w, diagnostics \<times> 'a option) state"

definition doneD :: "'a \<Rightarrow> ('w, 'a) diag_step" where
  "doneD x = State_Monad.return ([], Some x)"

definition stopD :: "diagnostics \<Rightarrow> ('w, 'a) diag_step" where
  "stopD ds = State_Monad.return (ds, None)"

definition bindD :: "('w, 'a) diag_step \<Rightarrow> ('a \<Rightarrow> ('w, 'b) diag_step) \<Rightarrow> ('w, 'b) diag_step" where
  "bindD m f = do {
     (ds, r) \<leftarrow> m;
     case r of
       None \<Rightarrow> State_Monad.return (ds, None)
     | Some x \<Rightarrow> do { (es, r') \<leftarrow> f x; State_Monad.return (ds @ es, r') } }"

text \<open>A call whose error stops with diagnostics, and one whose error is a warning.\<close>

definition needD :: "('w, goerr + 'a) state \<Rightarrow> (goerr \<Rightarrow> diagnostic) \<Rightarrow> ('w, 'a) diag_step" where
  "needD m d = do { r \<leftarrow> m; case r of Inl e \<Rightarrow> stopD [d e] | Inr x \<Rightarrow> doneD x }"

definition mayD :: "('w, goerr + string) state \<Rightarrow> (goerr \<Rightarrow> diagnostic) \<Rightarrow> ('w, string) diag_step" where
  "mayD m d = do { r \<leftarrow> m; case r of Inl e \<Rightarrow> State_Monad.return ([d e], Some []) | Inr x \<Rightarrow> doneD x }"

definition checkD :: "bool \<Rightarrow> diagnostic \<Rightarrow> ('w, unit) diag_step" where
  "checkD ok d = (if ok then doneD () else stopD [d])"

section \<open>The environment\<close>

text \<open>
  Besides the local machine: the constructors of the two executors (that of SSH with the path of the
  provider binary on the target), resolving paths, the embedded files and the version.
\<close>

record 'w setup_env =
  se_local :: "'w local_env"
  se_state_home :: string
  se_new_local :: "bool \<Rightarrow> 'w executor"
  se_new_ssh :: "ssh_params \<Rightarrow> string \<Rightarrow> 'w executor"
  se_abs :: "string \<Rightarrow> goerr + string"
  se_eval_symlinks :: "string \<Rightarrow> ('w, goerr + string) state"
  se_embedded :: "string \<Rightarrow> goerr + string"
  se_version :: string

record provider_model =
  pm_target :: "string tfval"
  pm_lib_path :: "string tfval"
  pm_use_sudo :: "bool tfval"
  pm_ssh :: "ssh_model option"

datatype hv_choice = UseQemu qemu_conf | UseVfkit vfkit_conf

section \<open>The tools of a platform\<close>

definition cannot_find :: "string \<Rightarrow> string \<Rightarrow> goerr \<Rightarrow> diagnostic" where
  "cannot_find tool hint e =
     add_error (''Can't find '' @ tool @ ''.'') (''Can't find '' @ tool @ hint @ '', got error: '' @ err_msg e)"

definition optional_tool :: "string \<Rightarrow> string \<Rightarrow> string \<Rightarrow> string \<Rightarrow> goerr \<Rightarrow> diagnostic" where
  "optional_tool tool hint what name e =
     add_warning (''Can't find the `'' @ tool @ ''` executable'' @ hint @ ''.'')
       (''This warning can be ignored if you DO NOT use the '' @ what @ ''. Can't find `'' @ name @ ''`, got error: '' @ err_msg e)"

definition extract_file_if_not_exists ::
    "'w setup_env \<Rightarrow> 'w executor \<Rightarrow> string \<Rightarrow> string \<Rightarrow> ('w, goerr option) state" where
  "extract_file_if_not_exists S ex embedded target = do {
     st \<leftarrow> ex_stat ex target;
     case st of
       Inr _ \<Rightarrow> State_Monad.return None
     | Inl e \<Rightarrow>
         if \<not> is_not_exist e then State_Monad.return (Some (wrapf ''error checking if file exists: '' e))
         else (case se_embedded S embedded of
             Inl e2 \<Rightarrow> State_Monad.return (Some (wrapf (''error reading embedded file '' @ embedded @ '': '') e2))
           | Inr data \<Rightarrow> do {
               r \<leftarrow> ex_write_file ex target data mode_644;
               State_Monad.return (map_option (wrapf (''error writing file to '' @ target @ '': '')) r) }) }"

text \<open>The loop over the two files goes on after an error.\<close>

fun extract_files :: "'w setup_env \<Rightarrow> 'w executor \<Rightarrow> string \<Rightarrow> string list \<Rightarrow> ('w, diagnostics) state" where
  "extract_files S ex lib [] = State_Monad.return []"
| "extract_files S ex lib (f # fs) = do {
     r \<leftarrow> extract_file_if_not_exists S ex f (path_join [lib, f]);
     ds \<leftarrow> extract_files S ex lib fs;
     State_Monad.return
       ((case r of
           None \<Rightarrow> []
         | Some e \<Rightarrow> [add_error (err_msg e) (''Failed to extract OVMF file '' @ [CHR 0x27] @ f @ [CHR 0x27] @ '': '' @ err_msg e)]) @ ds) }"

definition ovmf_files :: "string list" where
  "ovmf_files = [path_join [''embedded_ovmf'', ''OVMF_CODE.fd''], path_join [''embedded_ovmf'', ''OVMF_VARS.fd'']]"

text \<open>The path of swtpm is made canonical on a local target.\<close>

definition canonical_swtpm :: "'w setup_env \<Rightarrow> 'w executor \<Rightarrow> string \<Rightarrow> ('w, string) state" where
  "canonical_swtpm S ex st =
     (if \<not> ex_is_local ex then State_Monad.return st
      else (case se_abs S st of
          Inl _ \<Rightarrow> State_Monad.return st
        | Inr st_abs \<Rightarrow> do {
            r \<leftarrow> se_eval_symlinks S st_abs;
            State_Monad.return (case r of Inl _ \<Rightarrow> st_abs | Inr st_real \<Rightarrow> st_real) }))"

definition configure_qemu_tools ::
    "'w setup_env \<Rightarrow> 'w provider_conf \<Rightarrow> ('w, 'w provider_conf \<times> hv_choice) diag_step" where
  "configure_qemu_tools S za =
     (let ex = pc_exec za; lib = pc_lib_path za in
      bindD (needD (tryE (ex_mkdir_all ex (path_join [lib, ''embedded_ovmf'']) mode_700))
              (\<lambda>e. add_error (err_msg e) (''Failed to create lib_path/embedded_ovmf directory: '' @ err_msg e))) (\<lambda>_.
      bindD (do {
          ds \<leftarrow> extract_files S ex lib ovmf_files;
          State_Monad.return (ds, if ds = [] then Some () else None) }) (\<lambda>_.
      bindD (needD (ex_look_path ex ''qemu-system-x86_64'') (cannot_find ''the `qemu-system-x86_64` executable'' [])) (\<lambda>q.
      bindD (needD (ex_look_path ex ''qemu-img'') (cannot_find ''the `qemu-img` executable'' [])) (\<lambda>qi.
      bindD (needD (ex_look_path ex ''ip'') (cannot_find ''`ip`'' [])) (\<lambda>ip.
      bindD (mayD (ex_look_path ex ''taskset'') (optional_tool ''taskset'' [] ''cpu_pins feature'' ''taskset'')) (\<lambda>taskset.
      bindD (mayD (ex_look_path ex ''flock'') (optional_tool ''flock'' [] ''host_reservation resource'' ''flock'')) (\<lambda>flock.
      bindD (mayD (ex_look_path ex ''swtpm'') (optional_tool ''swtpm'' [] ''SwTPM resource'' ''swtpm'')) (\<lambda>st. do {
        swtpm \<leftarrow> canonical_swtpm S ex st;
        bindD (mayD (ex_look_path ex ''genisoimage'')
            (optional_tool ''genisoimage'' '' (part of the `cdrkit` package or the `genisoimage` package)''
               ''Cloud Init ISO resource'' ''genisoimage'')) (\<lambda>gencmd.
          doneD (za\<lparr>pc_ip := ip, pc_qemu_img := qi, pc_flock := flock, pc_swtpm := swtpm, pc_gen_iso_image := gencmd\<rparr>,
            UseQemu \<lparr>qh_qemu_path = q, qh_qemu_img_path = qi,
              qh_base_ovmf_code = path_join [lib, ''embedded_ovmf'', ''OVMF_CODE.fd''],
              qh_base_ovmf_vars = path_join [lib, ''embedded_ovmf'', ''OVMF_VARS.fd''],
              qh_taskset_path = taskset, qh_use_sudo = pc_use_sudo za, qh_sudo_path = pc_sudo za\<rparr>)) })))))))))"

definition nested_warning :: "string \<Rightarrow> diagnostic" where
  "nested_warning brand =
     add_warning ''Nested virtualization not available''
       (''Detected CPU: '' @ brand @ ''. Nested virtualization requires Apple M3 or later. '' @
        ''VMs will run without nested virtualization, which means app instances '' @
        ''inside EVE-OS will not work. Consider upgrading to an M3+ Mac for full functionality.'')"

definition configure_vfkit_tools ::
    "'w provider_conf \<Rightarrow> ('w, 'w provider_conf \<times> hv_choice) diag_step" where
  "configure_vfkit_tools za =
     (let ex = pc_exec za in
      bindD (needD (ex_look_path ex ''vfkit'') (\<lambda>e. add_error ''Can't find the `vfkit` executable.''
         (''Can't find the `vfkit` executable. Install via: brew install vfkit. Got error: '' @ err_msg e))) (\<lambda>vfkit.
      bindD (needD (ex_look_path ex ''qemu-img'') (\<lambda>e. add_error ''Can't find the `qemu-img` executable.''
         (''Can't find the `qemu-img` executable. Install via: brew install qemu. Got error: '' @ err_msg e))) (\<lambda>qi.
      bindD (mayD (ex_look_path ex ''swtpm'') (optional_tool ''swtpm'' [] ''SwTPM resource'' ''swtpm'')) (\<lambda>st.
      bindD (mayD (ex_look_path ex ''genisoimage'') (optional_tool ''genisoimage'' [] ''Cloud Init ISO resource'' ''genisoimage'')) (\<lambda>gencmd. do {
        (nested, brand) \<leftarrow> supports_nested_virtualization ex (pc_lib_path za);
        State_Monad.return
          (if nested then [] else [nested_warning brand],
           Some (za\<lparr>pc_qemu_img := qi, pc_swtpm := st, pc_gen_iso_image := gencmd\<rparr>,
                 UseVfkit \<lparr>vh_vfkit_path = vfkit, vh_qemu_img_path = qi, vh_nested = nested\<rparr>)) })))))"

definition configure_platform_tools ::
    "'w setup_env \<Rightarrow> 'w provider_conf \<Rightarrow> ('w, 'w provider_conf \<times> hv_choice) diag_step" where
  "configure_platform_tools S za =
     (if pc_target_os za = ''linux'' \<and> pc_target_arch za = ''amd64'' then configure_qemu_tools S za
      else if pc_target_os za = ''darwin'' \<and> pc_target_arch za = ''arm64'' then configure_vfkit_tools za
      else stopD [add_error ''Unsupported target platform.''
        (''Target '' @ go_quote (pc_target za) @ '' is '' @ pc_target_os za @ ''/'' @ pc_target_arch za @
         ''; supported target platforms are linux/amd64 (QEMU) and darwin/arm64 (vfkit).'')])"

section \<open>Configure\<close>

definition env_help :: string where
  "env_help = ''or use the ZEDAMIGO_TARGET environment variable.''"

text \<open>The target: from the configuration, the environment variable or the default.\<close>

definition configured_target :: "'w setup_env \<Rightarrow> provider_model \<Rightarrow> ('w, string) diag_step" where
  "configured_target S conf =
     bindD (checkD (pm_target conf \<noteq> TUnknown) (add_error ''Unknown ZedAmigo target''
        (''The provider cannot initialize as there is an unknown configuration value for the ZedAmigo target. '' @
         ''Either target apply the source of the value first, set the value statically in the configuration, '' @ env_help))) (\<lambda>_.
       let default = (case le_getenv (se_local S) ''ZEDAMIGO_TARGET'' of Some t \<Rightarrow> t | None \<Rightarrow> ''localhost'');
           target = (if pm_target conf \<noteq> TNull then tf_string (pm_target conf) else default)
       in bindD (checkD (target \<noteq> []) (add_error ''ZedAmigo target cannot be empty.''
            (''The provider cannot initialize as there is an empty configuration value for the ZedAmigo target. '' @
             ''Set a non-empty value in the configuration, '' @ env_help))) (\<lambda>_. doneD target))"

text \<open>The executor of a remote target, and its lib path and provider binary.\<close>

definition remote_executor ::
    "'w setup_env \<Rightarrow> provider_model \<Rightarrow> string \<Rightarrow> string \<Rightarrow> bool \<Rightarrow> ('w, 'w executor \<times> string) diag_step" where
  "remote_executor S conf target lib use_sudo =
     (let L = se_local S in
      bindD (needD (build_ssh_executor L target (pm_ssh conf) use_sudo) (\<lambda>e. add_error ''Invalid SSH configuration'' (err_msg e))) (\<lambda>sp.
      let ex = se_new_ssh S sp [] in
      bindD (if pm_lib_path conf = TNull then
               needD (resolve_remote_lib_path ex) (\<lambda>e. add_error ''Can't resolve remote lib_path''
                 (err_msg e @ ''. Set lib_path explicitly in the provider configuration.''))
             else doneD lib) (\<lambda>lib.
      let rbp = (case pm_ssh conf of None \<Rightarrow> TNull | Some m \<Rightarrow> sh_remote_binary_path m);
          self0 = ssh_str L rbp ''ZEDAMIGO_REMOTE_BINARY_PATH''
      in bindD (if self0 = [] then
                  needD (bootstrap_remote_binary ex lib (se_version S))
                    (\<lambda>e. add_error ''Can't provision the provider binary on the target'' (err_msg e))
                else doneD self0) (\<lambda>self. doneD (se_new_ssh S sp self, lib)))))"

definition tool_path :: "'w executor \<Rightarrow> string \<Rightarrow> (goerr \<Rightarrow> diagnostic) \<Rightarrow> ('w, string) diag_step" where
  "tool_path ex tool d = needD (ex_look_path ex tool) d"

definition initial_conf :: "string \<Rightarrow> string \<Rightarrow> bool \<Rightarrow> 'w executor \<Rightarrow> 'w provider_conf" where
  "initial_conf target lib use_sudo ex =
     \<lparr>pc_target = target, pc_target_os = [], pc_target_arch = [], pc_lib_path = lib, pc_use_sudo = use_sudo, pc_sudo = [],
      pc_qemu_img = [], pc_docker = [], pc_swtpm = [], pc_bash = [], pc_flock = [], pc_gen_iso_image = [], pc_ip = [],
      pc_exec = ex\<rparr>"

definition provider_configure ::
    "'w setup_env \<Rightarrow> provider_model \<Rightarrow> ('w, 'w provider_conf \<times> hv_choice) diag_step" where
  "provider_configure S conf =
     bindD (configured_target S conf) (\<lambda>target.
     let lib = (if pm_lib_path conf \<noteq> TNull then tf_string (pm_lib_path conf) else path_join [se_state_home S, ''zedamigo'']);
         use_sudo = (pm_use_sudo conf \<noteq> TNull \<and> tf_value False (pm_use_sudo conf))
     in bindD (checkD (lib \<noteq> []) (add_error ''ZedAmigo lib_path cannot be empty.''
         (''The provider cannot initialize as there is an empty configuration value for ZedAmigo lib_path. '' @
          ''Set a non-empty value in the configuration.''))) (\<lambda>_.
     bindD (if target = ''localhost'' then doneD (se_new_local S use_sudo, lib)
            else remote_executor S conf target lib use_sudo) (\<lambda>(ex, lib).
     bindD (needD (tryE (ex_mkdir_all ex lib mode_700))
         (\<lambda>e. add_error (err_msg e) (''Failed to create ZedAmigo lib_path directory: '' @ err_msg e))) (\<lambda>_.
     bindD (needD (detect_target_platform (se_local S) ex lib) (\<lambda>e. add_error ''Can't detect the target platform.''
         (''Can't detect the target OS and architecture: '' @ err_msg e))) (\<lambda>(os, arch).
     bindD (if use_sudo then tool_path ex ''sudo'' (cannot_find ''the `sudo` executable'' []) else doneD []) (\<lambda>sudo.
     bindD (tool_path ex ''bash'' (cannot_find ''bash'' [])) (\<lambda>bash.
     bindD (tool_path ex ''docker'' (cannot_find ''the `docker` executable'' [])) (\<lambda>docker.
       configure_platform_tools S
         ((initial_conf target lib use_sudo ex)\<lparr>pc_target_os := os, pc_target_arch := arch, pc_sudo := sudo, pc_bash := bash,
            pc_docker := docker\<rparr>)))))))))"

section \<open>Lemmas\<close>

named_theorems sound_diags "steps whose diagnostics agree with their value"

text \<open>A step returns early exactly when it has added an error.\<close>

definition diags_ok :: "('w, 'a) diag_step \<Rightarrow> bool" where
  "diags_ok m \<longleftrightarrow> (\<forall>w. case run_state m w of ((ds, r), w') \<Rightarrow> (r = None) = has_error ds)"

lemma diags_okD: "\<lbrakk>diags_ok m; run_state m w = ((ds, r), w')\<rbrakk> \<Longrightarrow> (r = None) = has_error ds"
  unfolding diags_ok_def by (drule spec [of _ w]) simp

lemma diags_ok_doneD [sound_diags]: "diags_ok (doneD x)"
  by (simp add: diags_ok_def doneD_def)

lemma diags_ok_stopD [sound_diags]: "diags_ok (stopD (add_error s d # ds))"
  by (simp add: diags_ok_def stopD_def)

lemma diags_ok_bindD [sound_diags]: "\<lbrakk>diags_ok m; \<And>x. diags_ok (f x)\<rbrakk> \<Longrightarrow> diags_ok (bindD m f)"
  unfolding diags_ok_def bindD_def by (fastforce split: prod.splits option.splits)

lemma diags_ok_needD [sound_diags]: "(\<And>e. \<exists>s t. d e = add_error s t) \<Longrightarrow> diags_ok (needD m d)"
  unfolding diags_ok_def needD_def stopD_def doneD_def by (auto split: prod.splits sum.splits) (metis has_error_simps(2))+

lemma diags_ok_mayD [sound_diags]: "(\<And>e. \<exists>s t. d e = add_warning s t) \<Longrightarrow> diags_ok (mayD m d)"
  unfolding diags_ok_def mayD_def doneD_def by (auto split: prod.splits sum.splits) (metis has_error_simps(1,3))+

lemma diags_ok_checkD [sound_diags]: "diags_ok (checkD ok (add_error s t))"
  by (simp add: checkD_def diags_ok_doneD diags_ok_stopD)

lemma diags_ok_if [sound_diags]: "\<lbrakk>diags_ok m; diags_ok n\<rbrakk> \<Longrightarrow> diags_ok (if b then m else n)"
  by simp

lemma diags_ok_case_prod [sound_diags]: "(\<And>x y. diags_ok (f x y)) \<Longrightarrow> diags_ok (case p of (x, y) \<Rightarrow> f x y)"
  by (cases p) simp

lemma diags_ok_bind [sound_diags]:
  assumes "\<And>x. diags_ok (f x)"
  shows "diags_ok (State_Monad.bind m f)"
  unfolding diags_ok_def
proof
  fix w
  obtain x w1 where "run_state m w = (x, w1)" by (cases "run_state m w")
  with assms [of x, unfolded diags_ok_def, THEN spec, of w1]
  show "case run_state (State_Monad.bind m f) w of ((ds, r), w') \<Rightarrow> (r = None) = has_error ds" by simp
qed

lemma messages [intro]:
  "\<exists>s t. add_error a b = add_error s t" "\<exists>s t. add_warning a b = add_warning s t"
  "\<exists>s t. cannot_find tool hint e = add_error s t" "\<exists>s t. optional_tool tool h what name e = add_warning s t"
  by (auto simp: cannot_find_def optional_tool_def)

lemma extract_files_errors:
  "run_state (extract_files S ex lib fs) w = (ds, w') \<Longrightarrow> (ds = []) \<longleftrightarrow> \<not> has_error ds"
  by (induction fs arbitrary: ds w w') (auto split: prod.splits option.splits)

lemma diags_ok_extract [sound_diags]:
  "diags_ok (do { ds \<leftarrow> extract_files S ex lib fs; State_Monad.return (ds, if ds = [] then Some () else None) })"
  unfolding diags_ok_def by (auto split: prod.splits dest: extract_files_errors)

lemma diags_ok_qemu [sound_diags]: "diags_ok (configure_qemu_tools S za)"
  unfolding configure_qemu_tools_def Let_def by (intro sound_diags messages)

lemma diags_ok_nested: "\<not> has_error (if nested then [] else [nested_warning brand])"
  by (simp add: nested_warning_def)

lemma diags_ok_vfkit [sound_diags]: "diags_ok (configure_vfkit_tools za)"
proof -
  have "diags_ok (State_Monad.return (if nested then [] else [nested_warning brand], Some x))" for nested brand and x :: 'b
    using diags_ok_nested [of nested brand] by (simp add: diags_ok_def)
  then show ?thesis unfolding configure_vfkit_tools_def Let_def by (intro sound_diags messages)
qed

lemma diags_ok_platform [sound_diags]: "diags_ok (configure_platform_tools S za)"
  unfolding configure_platform_tools_def by (intro sound_diags)

lemma diags_ok_target [sound_diags]: "diags_ok (configured_target S conf)"
  unfolding configured_target_def Let_def by (intro sound_diags)

lemma diags_ok_remote [sound_diags]: "diags_ok (remote_executor S conf target lib use_sudo)"
  unfolding remote_executor_def Let_def by (intro sound_diags messages)

lemma diags_ok_configure: "diags_ok (provider_configure S conf)"
  unfolding provider_configure_def Let_def tool_path_def by (intro sound_diags messages)

text \<open>Steps that gave a value.\<close>

lemma bindD_SomeD:
  assumes "run_state (bindD m f) w = ((ds, Some y), w')"
  shows "\<exists>es x w1 es'. run_state m w = ((es, Some x), w1) \<and> run_state (f x) w1 = ((es', Some y), w')"
proof -
  obtain es r w1 where m: "run_state m w = ((es, r), w1)" by (metis surj_pair)
  with assms obtain x where "r = Some x" by (cases r) (auto simp: bindD_def)
  with assms m show ?thesis by (auto simp: bindD_def split: prod.splits)
qed

lemma checkD_SomeD: "run_state (checkD ok d) w = ((ds, Some y), w') \<Longrightarrow> ok \<and> w' = w"
  by (auto simp: checkD_def doneD_def stopD_def split: if_splits)

lemma configured_target_not_empty:
  "run_state (configured_target S conf) w = ((ds, Some target), w') \<Longrightarrow> target \<noteq> []"
  unfolding configured_target_def Let_def
  by (drule bindD_SomeD, elim exE conjE, drule bindD_SomeD, elim exE conjE)
    (auto simp: doneD_def dest!: checkD_SomeD)

definition platform_hypervisor :: "'w provider_conf \<Rightarrow> hv_choice \<Rightarrow> bool" where
  "platform_hypervisor za hv \<longleftrightarrow>
     (case hv of
        UseQemu q \<Rightarrow> pc_target_os za = ''linux'' \<and> pc_target_arch za = ''amd64'' \<and>
                      qh_use_sudo q = pc_use_sudo za \<and> qh_sudo_path q = pc_sudo za \<and> qh_qemu_img_path q = pc_qemu_img za
      | UseVfkit v \<Rightarrow> pc_target_os za = ''darwin'' \<and> pc_target_arch za = ''arm64'' \<and> vh_qemu_img_path v = pc_qemu_img za)"

lemma qemu_tools_result:
  assumes "run_state (configure_qemu_tools S za) w = ((ds, Some (za', hv)), w')"
    and "pc_target_os za = ''linux''" and "pc_target_arch za = ''amd64''"
  shows "platform_hypervisor za' hv \<and> pc_target za' = pc_target za"
  using assms(1) unfolding configure_qemu_tools_def Let_def
  apply (elim bindD_SomeD [elim_format] exE conjE)
  apply (simp split: prod.splits)
  apply (elim bindD_SomeD [elim_format] exE conjE)
  using assms(2,3) by (auto simp: doneD_def platform_hypervisor_def)

lemma vfkit_tools_result:
  assumes "run_state (configure_vfkit_tools za) w = ((ds, Some (za', hv)), w')"
    and "pc_target_os za = ''darwin''" and "pc_target_arch za = ''arm64''"
  shows "platform_hypervisor za' hv \<and> pc_target za' = pc_target za"
  using assms(1) unfolding configure_vfkit_tools_def Let_def
  apply (elim bindD_SomeD [elim_format] exE conjE)
  using assms(2,3) by (auto simp: platform_hypervisor_def split: prod.splits)

lemma platform_tools_result:
  assumes "run_state (configure_platform_tools S za) w = ((ds, Some (za', hv)), w')"
  shows "platform_hypervisor za' hv \<and> pc_target za' = pc_target za"
  using assms qemu_tools_result [of S za w ds za' hv w'] vfkit_tools_result [of za w ds za' hv w']
  by (auto simp: configure_platform_tools_def stopD_def split: if_splits)

lemma configure_result:
  assumes "run_state (provider_configure S conf) w = ((ds, Some (za, hv)), w')"
  shows "platform_hypervisor za hv \<and> pc_target za \<noteq> []"
proof -
  from assms obtain target es w1 x es' v v' where t: "run_state (configured_target S conf) w = ((es, Some target), w1)"
    and p: "run_state (configure_platform_tools S x) v = ((es', Some (za, hv)), v')" and x: "pc_target x = target"
    unfolding provider_configure_def Let_def
    apply (elim bindD_SomeD [elim_format] exE conjE)
    apply (simp split: prod.splits)
    apply (elim bindD_SomeD [elim_format] exE conjE)
    apply (simp split: prod.splits)
    apply (elim bindD_SomeD [elim_format] exE conjE)
    by (erule that) (assumption, simp add: initial_conf_def)
  then show ?thesis using platform_tools_result [OF p] configured_target_not_empty [OF t] by simp
qed

text \<open>A tool that is not found on the target.\<close>

definition missing_tool :: "'w executor \<Rightarrow> string \<Rightarrow> bool" where
  "missing_tool ex tool \<longleftrightarrow> (\<forall>w. \<exists>e w'. run_state (ex_look_path ex tool) w = (Inl e, w'))"

lemma mayD_missing:
  "\<lbrakk>missing_tool ex tool; run_state (mayD (ex_look_path ex tool) d) w = ((es, Some x), w')\<rbrakk> \<Longrightarrow> x = []"
  unfolding missing_tool_def mayD_def by (drule spec [of _ w]) auto

section \<open>A concrete provider\<close>

definition sample_setup :: "unit setup_env" where
  "sample_setup =
     \<lparr>se_local = sample_local, se_state_home = ''/state'',
      se_new_local = (\<lambda>s. idle_executor\<lparr>ex_look_path :=
         (\<lambda>f. State_Monad.return (if f = ''swtpm'' then Inl (Err ''not found'') else Inr (''/usr/bin/'' @ f)))\<rparr>),
      se_new_ssh = (\<lambda>sp self. idle_executor), se_abs = (\<lambda>p. Inr (if p = [] then ''/work'' else p)),
      se_eval_symlinks = (\<lambda>p. State_Monad.return (Inr p)), se_embedded = Inr, se_version = ''dev''\<rparr>"

definition sample_provider :: provider_model where
  "sample_provider = \<lparr>pm_target = TNull, pm_lib_path = TKnown ''/lib'', pm_use_sudo = TNull, pm_ssh = None\<rparr>"

lemma sample_configured:
  "\<exists>ds za hv. run_state (provider_configure sample_setup sample_provider) () = ((ds, Some (za, hv)), ())"
  by (simp add: provider_configure_def configured_target_def sample_provider_def sample_setup_def sample_local_def checkD_def
      doneD_def stopD_def bindD_def needD_def mayD_def detect_target_platform_def idle_executor_def tool_path_def
      configure_platform_tools_def configure_qemu_tools_def ovmf_files_def extract_file_if_not_exists_def
      canonical_swtpm_def initial_conf_def tryE_def Let_def)

section \<open>Properties\<close>

text \<open>Configuring the provider gives the resources a configuration exactly when no diagnostic is an error, on
  every path: warnings about optional tools never stop it.\<close>

theorem provider_configure_errors:
  "case run_state (provider_configure S conf) w of ((ds, r), w') \<Rightarrow> (r = None) = has_error ds"
  using diags_ok_configure [of S conf, unfolded diags_ok_def] by (rule spec)

text \<open>The configuration that the resources get has a target, and the hypervisor of its platform, with the tool
  paths of the configuration: QEMU on linux/amd64, vfkit on darwin/arm64.\<close>

theorem provider_configure_platform:
  assumes "run_state (provider_configure S conf) w = ((ds, Some (za, hv)), w')"
  shows "pc_target za \<noteq> [] \<and> platform_hypervisor za hv"
  using configure_result [OF assms] by blast

theorem provider_configure_platform_witness:
  "\<exists>ds za hv. run_state (provider_configure sample_setup sample_provider) () = ((ds, Some (za, hv)), ()) \<and>
     pc_target za \<noteq> [] \<and> platform_hypervisor za hv"
proof -
  obtain ds za hv where run: "run_state (provider_configure sample_setup sample_provider) () = ((ds, Some (za, hv)), ())"
    using sample_configured by blast
  from provider_configure_platform [OF run] run show ?thesis by blast
qed

text \<open>On a local target without swtpm the path of swtpm is not empty but what the empty path resolves to, so the
  check of the swtpm resource for a missing executable never fires.\<close>

theorem missing_swtpm_not_empty:
  assumes "run_state (configure_qemu_tools S za) w = ((ds, Some (za', hv)), w')"
    and "ex_is_local (pc_exec za)" and "missing_tool (pc_exec za) ''swtpm''"
    and "se_abs S [] = Inr cwd" and "\<And>v. run_state (se_eval_symlinks S cwd) v = (Inr real, v)"
  shows "pc_swtpm za' = real"
  using assms(1) unfolding configure_qemu_tools_def Let_def
  apply (elim bindD_SomeD [elim_format] exE conjE)
  apply (drule mayD_missing [OF assms(3)])
  apply (simp add: canonical_swtpm_def assms(2,4,5) split: prod.splits)
  apply (elim bindD_SomeD [elim_format] exE conjE)
  by (auto simp: doneD_def)

theorem missing_swtpm_not_empty_witness:
  "\<exists>ds za' hv. run_state (configure_qemu_tools sample_setup
       (initial_conf ''localhost'' ''/lib'' False (se_new_local sample_setup False))) () = ((ds, Some (za', hv)), ()) \<and>
     pc_swtpm za' = ''/work''"
proof -
  let ?za = "initial_conf ''localhost'' ''/lib'' False (se_new_local sample_setup False)"
  have "\<exists>ds za' hv. run_state (configure_qemu_tools sample_setup ?za) () = ((ds, Some (za', hv)), ())"
    by (simp add: sample_setup_def doneD_def bindD_def needD_def mayD_def idle_executor_def configure_qemu_tools_def
        ovmf_files_def extract_file_if_not_exists_def canonical_swtpm_def initial_conf_def tryE_def Let_def)
  then obtain ds za' hv where run: "run_state (configure_qemu_tools sample_setup ?za) () = ((ds, Some (za', hv)), ())"
    by blast
  have "pc_swtpm za' = ''/work''"
    by (rule missing_swtpm_not_empty [OF run, where cwd = "''/work''"])
      (simp_all add: sample_setup_def initial_conf_def idle_executor_def missing_tool_def)
  with run show ?thesis by blast
qed

end
