(* ===== verification/Qmp_Socket.thy ===== *)
theory Qmp_Socket
  imports Executor
begin

text \<open>
  Package \<^verbatim>\<open>internal/qmp\<close>: the client of the QEMU machine protocol. \<^verbatim>\<open>Connect\<close> is sequential;
  after it a goroutine (\<^verbatim>\<open>listen\<close>) reads lines and hands responses and events over unbuffered
  channels to the callers of \<^verbatim>\<open>Run\<close>, which take turns by a mutex. The concurrent part is a step
  relation, one relation per goroutine, with the peer as a further process: it answers the commands
  in order and sends events and garbage at any time. The decoders of \<^verbatim>\<open>encoding/json\<close> are parameters.
\<close>

section \<open>Messages\<close>

record version =
  ve_major :: int
  ve_minor :: int
  ve_micro :: int

definition version_string :: "version \<Rightarrow> string" where
  "version_string v = itoa (ve_major v) @ ''.'' @ itoa (ve_minor v) @ ''.'' @ itoa (ve_micro v)"

text \<open>Of a response only the description of its error matters.\<close>

definition response_err :: "string \<Rightarrow> goerr option" where
  "response_err desc = (if desc = [] then None else Some (Err desc))"

definition qmp_capabilities :: string where
  "qmp_capabilities = ''qmp_capabilities''"

section \<open>Connecting\<close>

text \<open>The connection: the next decoded value, and writing an encoded command.\<close>

record ('w, 'c) qmp_conn =
  qc_dial :: "string \<Rightarrow> string \<Rightarrow> ('w, goerr + 'c) state"
  qc_decode_banner :: "'c \<Rightarrow> ('w, goerr + (version \<times> string list)) state"
  qc_encode_command :: "'c \<Rightarrow> string \<Rightarrow> ('w, goerr option) state"
  qc_decode_response :: "'c \<Rightarrow> ('w, goerr + string) state"

record 'c socket_monitor =
  sm_version :: "version option"
  sm_capabilities :: "string list"
  sm_conn :: 'c
  sm_listening :: bool

definition new_socket_monitor :: "('w, 'c) qmp_conn \<Rightarrow> string \<Rightarrow> string \<Rightarrow> ('w, goerr + 'c socket_monitor) state" where
  "new_socket_monitor Q network addr =
     bindE (qc_dial Q network addr) (\<lambda>c.
       okE \<lparr>sm_version = None, sm_capabilities = [], sm_conn = c, sm_listening = False\<rparr>)"

text \<open>\<^verbatim>\<open>Connect\<close> changes the monitor also when it fails: the new monitor comes with the error.\<close>

definition qmp_connect :: "('w, 'c) qmp_conn \<Rightarrow> 'c socket_monitor \<Rightarrow> ('w, goerr option \<times> 'c socket_monitor) state" where
  "qmp_connect Q mon = do {
     ban \<leftarrow> qc_decode_banner Q (sm_conn mon);
     case ban of
       Inl e \<Rightarrow> State_Monad.return (Some e, mon)
     | Inr (v, caps) \<Rightarrow> do {
     let mon = mon\<lparr>sm_version := Some v, sm_capabilities := caps\<rparr>;
     e1 \<leftarrow> qc_encode_command Q (sm_conn mon) qmp_capabilities;
     case e1 of
       Some e \<Rightarrow> State_Monad.return (Some e, mon)
     | None \<Rightarrow> do {
     r \<leftarrow> qc_decode_response Q (sm_conn mon);
     case r of
       Inl e \<Rightarrow> State_Monad.return (Some e, mon)
     | Inr desc \<Rightarrow>
         (case response_err desc of
            Some e \<Rightarrow> State_Monad.return (Some e, mon)
          | None \<Rightarrow> State_Monad.return (None, mon\<lparr>sm_listening := True\<rparr>)) } } }"

section \<open>The state of a connected monitor\<close>

text \<open>What travels on \<^verbatim>\<open>stream\<close>: a token of the scanner (its number and its text), or a read error.\<close>

datatype stream_response = Token nat string | ReadErr goerr

text \<open>Where \<^verbatim>\<open>listen\<close> is: before \<^verbatim>\<open>Scan\<close>, blocked on sending to \<^verbatim>\<open>stream\<close> or \<^verbatim>\<open>events\<close>, returned.\<close>

datatype listen_pc = LScan | LStream stream_response | LEvents string | LDone

text \<open>
  Where a call of \<^verbatim>\<open>RunWithFile\<close> is. The number of its command among all commands written is
  bookkeeping of the proof; so are, below, the logs of the commands with the calls that wrote them, of answers and of received
  tokens, and the calls that decoded a token after the scanner had read on (\<open>qs_stale\<close>).
\<close>

datatype run_pc =
    RLock string bool
  | RWrite string bool
  | RAwait string nat
  | RDecode string nat stream_response
  | RDone "goerr + string"

record qmp_state =
  qs_caps :: "string list"
  qs_unix :: bool
  qs_wire :: "string list"
  qs_end :: "goerr option option"
  qs_listen :: listen_pc
  qs_scans :: nat
  qs_listeners :: nat
  qs_delivered :: "string list"
  qs_mutex :: "nat option"
  qs_runs :: "run_pc list"
  qs_draining :: bool
  qs_sent :: "(nat \<times> string) list"
  qs_answers :: "string list"
  qs_taken :: "string list"
  qs_stale :: "nat list"

definition qmp_start :: "string list \<Rightarrow> bool \<Rightarrow> run_pc list \<Rightarrow> qmp_state" where
  "qmp_start caps unx runs =
     \<lparr>qs_caps = caps, qs_unix = unx, qs_wire = [], qs_end = None, qs_listen = LScan, qs_scans = 0, qs_listeners = 0,
      qs_delivered = [], qs_mutex = None, qs_runs = runs, qs_draining = False, qs_sent = [], qs_answers = [],
      qs_taken = [], qs_stale = []\<rparr>"

text \<open>\<^verbatim>\<open>Events\<close> adds a listener.\<close>

definition qmp_events :: "qmp_state \<Rightarrow> qmp_state" where
  "qmp_events s = s\<lparr>qs_listeners := qs_listeners s + 1\<rparr>"

section \<open>The goroutines\<close>

text \<open>What \<^verbatim>\<open>listen\<close> does with a line. \<open>js\<close> is the event name that a line decodes to (empty when it has
  none), or \<open>None\<close> when it is not valid.\<close>

definition listen_line :: "(string \<Rightarrow> string option) \<Rightarrow> nat \<Rightarrow> nat \<Rightarrow> string \<Rightarrow> listen_pc" where
  "listen_line js listeners n b =
     (case js b of
        None \<Rightarrow> LScan
      | Some ev \<Rightarrow>
          if ev = [] then LStream (Token n b)
          else if listeners = 0 then LScan
          else LEvents ev)"

inductive listen_step :: "(string \<Rightarrow> string option) \<Rightarrow> qmp_state \<Rightarrow> qmp_state \<Rightarrow> bool" for js where
  scan: "\<lbrakk>qs_listen s = LScan; qs_wire s = b # bs\<rbrakk> \<Longrightarrow>
     listen_step js s (s\<lparr>qs_wire := bs, qs_scans := Suc (qs_scans s),
                         qs_listen := listen_line js (qs_listeners s) (Suc (qs_scans s)) b\<rparr>)"
| deliver: "qs_listen s = LEvents e \<Longrightarrow>
     listen_step js s (s\<lparr>qs_delivered := qs_delivered s @ [e], qs_listen := LScan\<rparr>)"
| eof: "\<lbrakk>qs_listen s = LScan; qs_wire s = []; qs_end s = Some None\<rbrakk> \<Longrightarrow> listen_step js s (s\<lparr>qs_listen := LDone\<rparr>)"
| read_error: "\<lbrakk>qs_listen s = LScan; qs_end s = Some (Some e)\<rbrakk> \<Longrightarrow>
     listen_step js s (s\<lparr>qs_listen := LStream (ReadErr e)\<rparr>)"

text \<open>The state of the listener after a rendezvous on \<^verbatim>\<open>stream\<close>.\<close>

fun after_send :: "stream_response \<Rightarrow> listen_pc" where
  "after_send (Token n b) = LScan"
| "after_send (ReadErr e) = LDone"

fun token_text :: "stream_response \<Rightarrow> string list" where
  "token_text (Token n b) = [b]"
| "token_text (ReadErr e) = []"

text \<open>What \<^verbatim>\<open>RunWithFile\<close> checks before it writes.\<close>

definition run_guard :: "qmp_state \<Rightarrow> bool \<Rightarrow> goerr option" where
  "run_guard s has_file =
     (if \<not> has_file then None
      else if \<not> qs_unix s then Some (Err ''RunWithFile only works with unix monitor sockets'')
      else if ''oob'' \<notin> set (qs_caps s) then
        Some (Err ''The QEMU server doesn't support oob (needed for RunWithFile)'')
      else None)"

text \<open>\<open>rd\<close> decodes a response to the description of its error; the bytes are those that the buffer
  has when they are decoded.\<close>

definition run_finish :: "(string \<Rightarrow> goerr + string) \<Rightarrow> stream_response \<Rightarrow> string \<Rightarrow> goerr + string" where
  "run_finish rd res bytes =
     (case res of
        ReadErr e \<Rightarrow> Inl e
      | Token n b \<Rightarrow>
          (case rd bytes of
             Inl e \<Rightarrow> Inl e
           | Inr desc \<Rightarrow> (case response_err desc of Some e \<Rightarrow> Inl e | None \<Rightarrow> Inr bytes)))"

text \<open>
  The bytes of a token are valid until the next call of \<^verbatim>\<open>Scan\<close>, which may overwrite them
  (package \<^verbatim>\<open>bufio\<close>). A receive from the closed channel gives an empty response, whose bytes are
  empty.
\<close>

definition stale_token :: "qmp_state \<Rightarrow> stream_response \<Rightarrow> bool" where
  "stale_token s res = (case res of ReadErr e \<Rightarrow> False | Token n b \<Rightarrow> n \<noteq> 0 \<and> n \<noteq> qs_scans s)"

definition token_bytes :: "qmp_state \<Rightarrow> stream_response \<Rightarrow> string \<Rightarrow> bool" where
  "token_bytes s res bytes = (case res of ReadErr e \<Rightarrow> True | Token n b \<Rightarrow> stale_token s res \<or> bytes = b)"

inductive run_step :: "(string \<Rightarrow> goerr + string) \<Rightarrow> nat \<Rightarrow> qmp_state \<Rightarrow> qmp_state \<Rightarrow> bool" for rd i where
  lock: "\<lbrakk>i < length (qs_runs s); qs_runs s ! i = RLock c f; qs_mutex s = None\<rbrakk> \<Longrightarrow>
     run_step rd i s (s\<lparr>qs_mutex := Some i, qs_runs := (qs_runs s)[i := RWrite c f]\<rparr>)"
| refuse: "\<lbrakk>i < length (qs_runs s); qs_runs s ! i = RWrite c f; run_guard s f = Some e\<rbrakk> \<Longrightarrow>
     run_step rd i s (s\<lparr>qs_mutex := None, qs_runs := (qs_runs s)[i := RDone (Inl e)]\<rparr>)"
| send: "\<lbrakk>i < length (qs_runs s); qs_runs s ! i = RWrite c f; run_guard s f = None\<rbrakk> \<Longrightarrow>
     run_step rd i s (s\<lparr>qs_runs := (qs_runs s)[i := RAwait c (length (qs_sent s))], qs_sent := qs_sent s @ [(i, c)]\<rparr>)"
| send_error: "\<lbrakk>i < length (qs_runs s); qs_runs s ! i = RWrite c f; run_guard s f = None\<rbrakk> \<Longrightarrow>
     run_step rd i s (s\<lparr>qs_mutex := None, qs_runs := (qs_runs s)[i := RDone (Inl e)]\<rparr>)"
| receive: "\<lbrakk>i < length (qs_runs s); qs_runs s ! i = RAwait c k; qs_listen s = LStream r\<rbrakk> \<Longrightarrow>
     run_step rd i s (s\<lparr>qs_runs := (qs_runs s)[i := RDecode c k r], qs_listen := after_send r,
                        qs_taken := qs_taken s @ token_text r\<rparr>)"
| receive_closed: "\<lbrakk>i < length (qs_runs s); qs_runs s ! i = RAwait c k; qs_listen s = LDone\<rbrakk> \<Longrightarrow>
     run_step rd i s (s\<lparr>qs_runs := (qs_runs s)[i := RDecode c k (Token 0 [])]\<rparr>)"
| finish: "\<lbrakk>i < length (qs_runs s); qs_runs s ! i = RDecode c k r; token_bytes s r bytes\<rbrakk> \<Longrightarrow>
     run_step rd i s (s\<lparr>qs_mutex := None, qs_runs := (qs_runs s)[i := RDone (run_finish rd r bytes)],
                        qs_stale := qs_stale s @ (if stale_token s r then [i] else [])\<rparr>)"

text \<open>\<^verbatim>\<open>Disconnect\<close>: no listeners, the connection is closed (pending reads fail with \<open>e\<close>), then the
  stream is drained until it is closed.\<close>

inductive disconnect_step :: "qmp_state \<Rightarrow> qmp_state \<Rightarrow> bool" where
  shut: "\<not> qs_draining s \<Longrightarrow>
     disconnect_step s (s\<lparr>qs_listeners := 0, qs_end := Some (Some e), qs_draining := True\<rparr>)"
| drain: "\<lbrakk>qs_draining s; qs_listen s = LStream r\<rbrakk> \<Longrightarrow>
     disconnect_step s (s\<lparr>qs_listen := after_send r, qs_taken := qs_taken s @ token_text r\<rparr>)"

text \<open>The peer: it answers a command that it has not answered yet, sends anything that is not a response
  at any time, and may go away.\<close>

inductive peer_step :: "(string \<Rightarrow> string option) \<Rightarrow> qmp_state \<Rightarrow> qmp_state \<Rightarrow> bool" for js where
  answer: "\<lbrakk>length (qs_answers s) < length (qs_sent s); js a = Some []; qs_end s = None\<rbrakk> \<Longrightarrow>
     peer_step js s (s\<lparr>qs_wire := qs_wire s @ [a], qs_answers := qs_answers s @ [a]\<rparr>)"
| other: "\<lbrakk>js b \<noteq> Some []; qs_end s = None\<rbrakk> \<Longrightarrow> peer_step js s (s\<lparr>qs_wire := qs_wire s @ [b]\<rparr>)"
| leave: "qs_end s = None \<Longrightarrow> peer_step js s (s\<lparr>qs_end := Some r\<rparr>)"

definition qmp_step :: "(string \<Rightarrow> string option) \<Rightarrow> (string \<Rightarrow> goerr + string) \<Rightarrow> qmp_state \<Rightarrow> qmp_state \<Rightarrow> bool" where
  "qmp_step js rd s s' \<longleftrightarrow>
     listen_step js s s' \<or> (\<exists>i. run_step rd i s s') \<or> disconnect_step s s' \<or> peer_step js s s' \<or> s' = qmp_events s"

abbreviation qmp_steps :: "(string \<Rightarrow> string option) \<Rightarrow> (string \<Rightarrow> goerr + string) \<Rightarrow> qmp_state \<Rightarrow> qmp_state \<Rightarrow> bool" where
  "qmp_steps js rd \<equiv> (qmp_step js rd)\<^sup>*\<^sup>*"

section \<open>The invariant\<close>

text \<open>The answer that the listener is about to hand over, if any, and those that are still on the wire.\<close>

fun held_answer :: "listen_pc \<Rightarrow> string list" where
  "held_answer (LStream r) = token_text r"
| "held_answer p = []"

fun listen_alive :: "listen_pc \<Rightarrow> bool" where
  "listen_alive LDone = False"
| "listen_alive (LStream (ReadErr e)) = False"
| "listen_alive p = True"

abbreviation unread :: "(string \<Rightarrow> string option) \<Rightarrow> qmp_state \<Rightarrow> string list" where
  "unread js s \<equiv> filter (\<lambda>b. js b = Some []) (qs_wire s)"

fun in_turn :: "run_pc \<Rightarrow> bool" where
  "in_turn (RWrite c f) = True"
| "in_turn (RAwait c k) = True"
| "in_turn (RDecode c k r) = True"
| "in_turn p = False"

fun awaiting :: "run_pc \<Rightarrow> nat" where
  "awaiting (RAwait c k) = 1"
| "awaiting p = 0"

text \<open>How many commands wait for an answer: at most the one of the caller that has the mutex.\<close>

definition waiting :: "qmp_state \<Rightarrow> nat" where
  "waiting s = (case qs_mutex s of None \<Rightarrow> 0 | Some i \<Rightarrow> awaiting (qs_runs s ! i))"

text \<open>Answers are handed over in order; while the listener lives, every written command is taken or
  waited for.\<close>

definition answers_in_order :: "(string \<Rightarrow> string option) \<Rightarrow> qmp_state \<Rightarrow> bool" where
  "answers_in_order js s \<longleftrightarrow>
     length (qs_answers s) \<le> length (qs_sent s) \<and> prefix (qs_taken s) (qs_answers s) \<and>
     (listen_alive (qs_listen s) \<longrightarrow>
        qs_answers s = qs_taken s @ held_answer (qs_listen s) @ unread js s \<and>
        length (qs_sent s) \<le> length (qs_taken s) + waiting s)"

text \<open>Only the holder of the mutex is between locking and unlocking; what a caller has is its own. \<open>cmd\<close> is its command
  and \<open>old\<close> says that it decoded a token too late.\<close>

fun own_call :: "string \<Rightarrow> nat \<Rightarrow> bool \<Rightarrow> (nat \<times> string) list \<Rightarrow> string list \<Rightarrow> run_pc \<Rightarrow> bool" where
  "own_call cmd i old sent answers (RLock c f) \<longleftrightarrow> c = cmd"
| "own_call cmd i old sent answers (RWrite c f) \<longleftrightarrow> c = cmd"
| "own_call cmd i old sent answers (RAwait c k) \<longleftrightarrow> c = cmd \<and> Suc k = length sent \<and> sent ! k = (i, cmd)"
| "own_call cmd i old sent answers (RDecode c k (Token n b)) \<longleftrightarrow>
     c = cmd \<and> k < length sent \<and> sent ! k = (i, cmd) \<and> (n = 0 \<and> b = [] \<or> k < length answers \<and> answers ! k = b)"
| "own_call cmd i old sent answers (RDecode c k (ReadErr e)) \<longleftrightarrow> c = cmd"
| "own_call cmd i old sent answers (RDone (Inr text)) \<longleftrightarrow>
     old \<or> (\<exists>k < length sent. sent ! k = (i, cmd) \<and> k < length answers \<and> answers ! k = text)"
| "own_call cmd i old sent answers (RDone (Inl e)) \<longleftrightarrow> True"

definition call_ok :: "(nat \<Rightarrow> string) \<Rightarrow> qmp_state \<Rightarrow> nat \<Rightarrow> bool" where
  "call_ok cmds s i \<longleftrightarrow>
     (in_turn (qs_runs s ! i) \<longleftrightarrow> qs_mutex s = Some i) \<and>
     own_call (cmds i) i (i \<in> set (qs_stale s)) (qs_sent s) (qs_answers s) (qs_runs s ! i)"

definition qmp_inv :: "(string \<Rightarrow> string option) \<Rightarrow> (nat \<Rightarrow> string) \<Rightarrow> qmp_state \<Rightarrow> bool" where
  "qmp_inv js cmds s \<longleftrightarrow> answers_in_order js s \<and> (\<forall>i < length (qs_runs s). call_ok cmds s i) \<and>
     (\<forall>i. qs_mutex s = Some i \<longrightarrow> i < length (qs_runs s))"

lemma waiting_update [simp]:
  "qs_mutex s = Some i \<Longrightarrow> waiting s = awaiting (qs_runs s ! i)" "qs_mutex s = None \<Longrightarrow> waiting s = 0"
  by (simp_all add: waiting_def)

abbreviation locking :: "(string \<times> bool) list \<Rightarrow> run_pc list" where
  "locking calls \<equiv> map (\<lambda>(c, f). RLock c f) calls"

lemma qmp_inv_start:
  "qmp_inv js (\<lambda>i. fst (calls ! i)) (qmp_start caps unx (locking calls))"
  by (auto simp: qmp_inv_def answers_in_order_def call_ok_def qmp_start_def split: prod.splits)

text \<open>What is known of a caller stays known while the logs grow.\<close>

lemma prefix_nth: "prefix xs ys \<Longrightarrow> k < length xs \<Longrightarrow> k < length ys \<and> ys ! k = xs ! k"
  by (auto simp: prefix_def nth_append)

lemma own_call_mono:
  assumes "own_call cmd i old sent answers p" and "prefix answers answers'" and "old \<Longrightarrow> old'"
    and "sent' = sent \<or> \<not> in_turn p \<and> prefix sent sent'"
  shows "own_call cmd i old' sent' answers' p"
proof -
  have sent: "prefix sent sent'" using assms(4) by auto
  note grow = prefix_nth [OF sent] prefix_nth [OF assms(2)]
  show ?thesis
  proof (cases p)
    case (RDecode c k r)
    with assms show ?thesis by (cases r) (auto dest: grow)
  next
    case (RDone r)
    show ?thesis
    proof (cases r)
      case (Inr reply)
      with RDone assms(1) have "old \<or> (\<exists>k < length sent. sent ! k = (i, cmd) \<and> k < length answers \<and> answers ! k = reply)" by simp
      then have "old' \<or> (\<exists>k < length sent'. sent' ! k = (i, cmd) \<and> k < length answers' \<and> answers' ! k = reply)"
        using assms(3) grow by metis
      with Inr RDone show ?thesis by simp
    qed (simp add: RDone)
  qed (use assms in \<open>auto dest: grow\<close>)
qed

lemma call_ok_cong:
  "\<lbrakk>qs_runs s' = qs_runs s; qs_mutex s' = qs_mutex s; qs_sent s' = qs_sent s; qs_stale s' = qs_stale s;
    prefix (qs_answers s) (qs_answers s'); call_ok cmds s i\<rbrakk> \<Longrightarrow> call_ok cmds s' i"
  by (auto simp: call_ok_def intro: own_call_mono)

definition same_calls :: "qmp_state \<Rightarrow> qmp_state \<Rightarrow> bool" where
  "same_calls s s' \<longleftrightarrow> qs_runs s' = qs_runs s \<and> qs_mutex s' = qs_mutex s \<and> qs_sent s' = qs_sent s \<and>
     qs_stale s' = qs_stale s \<and> prefix (qs_answers s) (qs_answers s')"

lemma qmp_inv_frame: "\<lbrakk>same_calls s s'; qmp_inv js cmds s; answers_in_order js s'\<rbrakk> \<Longrightarrow> qmp_inv js cmds s'"
  using call_ok_cong [of s' s] by (auto simp: qmp_inv_def same_calls_def)

lemmas in_order_simps = answers_in_order_def same_calls_def waiting_def prefix_def listen_line_def

lemma listen_keeps_inv:
  assumes "listen_step js s s'" and "qmp_inv js cmds s"
  shows "qmp_inv js cmds s'"
proof -
  have "answers_in_order js s" using assms(2) by (simp add: qmp_inv_def)
  with assms(1) have "answers_in_order js s' \<and> same_calls s s'"
    by cases (auto simp: in_order_simps split: option.splits)
  with assms(2) show ?thesis by (blast intro: qmp_inv_frame)
qed

lemma peer_keeps_inv:
  assumes "peer_step js s s'" and "qmp_inv js cmds s"
  shows "qmp_inv js cmds s'"
proof -
  have "answers_in_order js s" using assms(2) by (simp add: qmp_inv_def)
  with assms(1) have "answers_in_order js s' \<and> same_calls s s'"
    by cases (auto simp: in_order_simps split: option.splits)
  with assms(2) show ?thesis by (blast intro: qmp_inv_frame)
qed

lemma after_send_simps [simp]: "listen_alive (after_send r) = (token_text r \<noteq> [])" "held_answer (after_send r) = []"
  by (cases r; simp)+

lemma disconnect_keeps_inv:
  assumes "disconnect_step s s'" and "qmp_inv js cmds s"
  shows "qmp_inv js cmds s'"
proof -
  have "answers_in_order js s" using assms(2) by (simp add: qmp_inv_def)
  with assms(1) have "answers_in_order js s' \<and> same_calls s s'"
  proof cases
    case (drain r)
    then show ?thesis using \<open>answers_in_order js s\<close>
      by (cases r) (auto simp: in_order_simps split: option.splits)
  qed (auto simp: in_order_simps split: option.splits)
  with assms(2) show ?thesis by (blast intro: qmp_inv_frame)
qed

text \<open>A step of caller \<open>i\<close>, which has the mutex or takes it.\<close>

lemma run_frame:
  assumes "qmp_inv js cmds s" and "i < length (qs_runs s)" and "qs_runs s' = (qs_runs s)[i := p]"
    and "in_turn (qs_runs s ! i) \<or> qs_mutex s = None" and "qs_mutex s' = (if in_turn p then Some i else None)"
    and "prefix (qs_sent s) (qs_sent s')" and "set (qs_stale s) \<subseteq> set (qs_stale s')"
    and "qs_answers s' = qs_answers s"
    and "own_call (cmds i) i (i \<in> set (qs_stale s')) (qs_sent s') (qs_answers s') p" and "answers_in_order js s'"
  shows "qmp_inv js cmds s'"
proof -
  have turn: "in_turn (qs_runs s ! j) \<longleftrightarrow> qs_mutex s = Some j" if "j < length (qs_runs s)" for j
    using assms(1) that by (auto simp: qmp_inv_def call_ok_def)
  have "call_ok cmds s' j" if j: "j < length (qs_runs s)" for j
  proof (cases "j = i")
    case True
    then show ?thesis using assms by (simp add: call_ok_def)
  next
    case False
    then have idle: "\<not> in_turn (qs_runs s ! j)" using turn [OF j] turn [OF assms(2)] assms(4) by auto
    have "own_call (cmds j) j (j \<in> set (qs_stale s)) (qs_sent s) (qs_answers s) (qs_runs s ! j)"
      using assms(1) j by (simp add: qmp_inv_def call_ok_def)
    then have "own_call (cmds j) j (j \<in> set (qs_stale s')) (qs_sent s') (qs_answers s') (qs_runs s ! j)"
      using assms(6-8) idle by (auto intro: own_call_mono)
    then show ?thesis using False idle assms(3,5) by (auto simp: call_ok_def)
  qed
  then show ?thesis using assms by (auto simp: qmp_inv_def)
qed

lemma run_keeps_inv:
  assumes "run_step rd i s s'" and "qmp_inv js cmds s" and "rd [] = Inl e0"
  shows "qmp_inv js cmds s'"
proof -
  have order: "answers_in_order js s" and call: "i < length (qs_runs s) \<Longrightarrow> call_ok cmds s i"
    using assms(2) by (auto simp: qmp_inv_def)
  from assms(1) show ?thesis
  proof cases
    case (lock c f)
    with assms(2) order call show ?thesis
      by (intro run_frame [of js cmds s i s' "RWrite c f"]) (auto simp: in_order_simps call_ok_def)
  next
    case (refuse c f e)
    with assms(2) order call show ?thesis
      by (intro run_frame [of js cmds s i s' "RDone (Inl e)"]) (auto simp: in_order_simps call_ok_def)
  next
    case (send c f)
    with assms(2) order call show ?thesis
      by (intro run_frame [of js cmds s i s' "RAwait c (length (qs_sent s))"]) (auto simp: in_order_simps call_ok_def)
  next
    case (send_error c f e)
    with assms(2) order call show ?thesis
      by (intro run_frame [of js cmds s i s' "RDone (Inl e)"]) (auto simp: in_order_simps call_ok_def)
  next
    case (receive c k r)
    have m: "qs_mutex s = Some i" and k: "Suc k = length (qs_sent s)" "qs_sent s ! k = (i, cmds i)" "c = cmds i"
      using call receive by (auto simp: call_ok_def)
    have "own_call (cmds i) i old (qs_sent s) (qs_answers s) (RDecode c k r)" for old
    proof (cases r)
      case (Token n b)
      with order receive have a: "qs_answers s = qs_taken s @ b # unread js s"
        and "length (qs_sent s) \<le> length (qs_taken s) + 1" "length (qs_answers s) \<le> length (qs_sent s)"
        using m by (auto simp: answers_in_order_def waiting_def)
      then have t: "length (qs_taken s) = k" using k by simp
      have "qs_answers s ! k = b" unfolding a t [symmetric] by (rule nth_append_length)
      moreover have "k < length (qs_answers s)" by (simp add: a t)
      ultimately show ?thesis using k Token by simp
    qed (use k in simp)
    moreover have "answers_in_order js s'"
      using order receive m by (cases r) (auto simp: in_order_simps)
    ultimately show ?thesis using receive m k assms(2)
      by (intro run_frame [of js cmds s i s' "RDecode c k r"]) auto
  next
    case (receive_closed c k)
    with assms(2) order call show ?thesis
      by (intro run_frame [of js cmds s i s' "RDecode c k (Token 0 [])"]) (auto simp: in_order_simps call_ok_def)
  next
    case (finish c k r bytes)
    have "own_call (cmds i) i (i \<in> set (qs_stale s')) (qs_sent s) (qs_answers s) (RDone (run_finish rd r bytes))"
      using finish call assms(3)
      by (cases r) (auto simp: run_finish_def token_bytes_def call_ok_def response_err_def split: sum.splits option.splits)
    with finish assms(2) order call show ?thesis
      by (intro run_frame [of js cmds s i s' "RDone (run_finish rd r bytes)"]) (auto simp: in_order_simps call_ok_def)
  qed
qed

lemma events_keeps_inv: "qmp_inv js cmds s \<Longrightarrow> qmp_inv js cmds (qmp_events s)"
  by (rule qmp_inv_frame [of s]) (auto simp: qmp_events_def qmp_inv_def in_order_simps split: option.splits)

lemma qmp_step_inv: "qmp_step js rd s s' \<Longrightarrow> qmp_inv js cmds s \<Longrightarrow> rd [] = Inl e0 \<Longrightarrow> qmp_inv js cmds s'"
  by (auto simp: qmp_step_def intro: listen_keeps_inv run_keeps_inv disconnect_keeps_inv peer_keeps_inv events_keeps_inv)

lemma qmp_steps_inv: "qmp_steps js rd s s' \<Longrightarrow> qmp_inv js cmds s \<Longrightarrow> rd [] = Inl e0 \<Longrightarrow> qmp_inv js cmds s'"
  by (induction rule: rtranclp_induct) (auto intro: qmp_step_inv)

lemma run_step_length: "run_step rd i s s' \<Longrightarrow> length (qs_runs s') = length (qs_runs s)"
  by (cases rule: run_step.cases) auto

lemma qmp_step_length: "qmp_step js rd s s' \<Longrightarrow> length (qs_runs s') = length (qs_runs s)"
  by (auto simp: qmp_step_def qmp_events_def run_step_length elim: listen_step.cases disconnect_step.cases peer_step.cases)

lemma qmp_steps_length: "qmp_steps js rd s s' \<Longrightarrow> length (qs_runs s') = length (qs_runs s)"
  by (induction rule: rtranclp_induct) (auto dest: qmp_step_length)

section \<open>The client on its own\<close>

text \<open>The steps of the reader and of the callers. Each of them uses up something: a line, or a part of a call.\<close>

definition client_step :: "(string \<Rightarrow> string option) \<Rightarrow> (string \<Rightarrow> goerr + string) \<Rightarrow> qmp_state \<Rightarrow> qmp_state \<Rightarrow> bool" where
  "client_step js rd s s' \<longleftrightarrow> listen_step js s s' \<or> (\<exists>i. run_step rd i s s')"

fun run_rank :: "run_pc \<Rightarrow> nat" where
  "run_rank (RLock c f) = 4"
| "run_rank (RWrite c f) = 3"
| "run_rank (RAwait c k) = 2"
| "run_rank (RDecode c k r) = 1"
| "run_rank (RDone r) = 0"

fun listen_rank :: "listen_pc \<Rightarrow> nat" where
  "listen_rank LScan = 2"
| "listen_rank (LStream (Token n b)) = 3"
| "listen_rank (LStream (ReadErr e)) = 1"
| "listen_rank (LEvents e) = 3"
| "listen_rank LDone = 0"

definition client_bound :: "qmp_state \<Rightarrow> nat" where
  "client_bound s = 2 * length (qs_wire s) + listen_rank (qs_listen s) + sum_list (map run_rank (qs_runs s))"

lemma sum_list_rank:
  assumes "i < length runs" and "run_rank p < run_rank (runs ! i)"
  shows "sum_list (map run_rank (runs[i := p])) < sum_list (map run_rank runs)"
  using assms
proof (induction runs arbitrary: i)
  case (Cons q runs)
  then show ?case by (cases i) auto
qed simp

lemma after_send_rank: "listen_rank (after_send r) < listen_rank (LStream r)"
  by (cases r) simp_all

lemma client_step_bound: "client_step js rd s s' \<Longrightarrow> client_bound s' < client_bound s"
proof -
  assume "client_step js rd s s'"
  then consider "listen_step js s s'" | i where "run_step rd i s s'" by (auto simp: client_step_def)
  then show ?thesis
  proof cases
    case 1
    then show ?thesis by cases (auto simp: client_bound_def listen_line_def split: option.splits)
  next
    case 2
    then show ?thesis
    proof cases
      case (receive c k r)
      then show ?thesis
        using sum_list_rank [of i "qs_runs s" "RDecode c k r"] after_send_rank [of r] by (simp add: client_bound_def)
    qed (simp_all add: client_bound_def sum_list_rank)
  qed
qed

lemma client_steps_bound: "(client_step js rd ^^ m) s s' \<Longrightarrow> m + client_bound s' \<le> client_bound s"
proof (induction m arbitrary: s')
  case (Suc m)
  then obtain u where "(client_step js rd ^^ m) s u" "client_step js rd u s'" by auto
  with Suc.IH client_step_bound show ?case by fastforce
qed simp

lemma client_step_qmp: "client_step js rd s s' \<Longrightarrow> qmp_step js rd s s'"
  by (auto simp: client_step_def qmp_step_def)

section \<open>An answer reaches its caller\<close>

text \<open>The states of caller \<open>i\<close> on the way to the response \<open>b\<close>, while nobody listens to events.\<close>

definition on_the_way :: "(string \<Rightarrow> string option) \<Rightarrow> (string \<Rightarrow> goerr + string) \<Rightarrow> nat \<Rightarrow> string \<Rightarrow> qmp_state \<Rightarrow> bool" where
  "on_the_way js rd i b s \<longleftrightarrow> i < length (qs_runs s) \<and>
     ((qs_listeners s = 0 \<and> qs_end s = None \<and> (\<exists>c k. qs_runs s ! i = RAwait c k) \<and>
         (qs_listen s = LScan \<and> (\<exists>xs rest. qs_wire s = xs @ b # rest \<and> Some [] \<notin> js ` set xs) \<or>
          (\<exists>n. qs_listen s = LStream (Token n b)))) \<or>
      (\<exists>c k n. qs_runs s ! i = RDecode c k (Token n b)) \<or>
      (\<exists>r. qs_runs s ! i = RDone r \<and> (i \<in> set (qs_stale s) \<or> r = run_finish rd (Token 1 b) b)))"

lemma run_finish_token: "run_finish rd (Token n b) bytes = run_finish rd (Token m b') bytes"
  by (simp add: run_finish_def)

lemma listen_on_the_way:
  assumes "listen_step js s s'" and "on_the_way js rd i b s" and "js b = Some []"
  shows "on_the_way js rd i b s'"
  using assms(1)
proof cases
  case (scan x bs)
  show ?thesis
  proof (cases "\<exists>c k. qs_runs s ! i = RAwait c k")
    case True
    then have idle: "qs_listeners s = 0" "qs_end s = None" "i < length (qs_runs s)"
      "\<exists>xs rest. qs_wire s = xs @ b # rest \<and> Some [] \<notin> js ` set xs"
      using assms(2) scan(2) by (auto simp: on_the_way_def)
    then obtain xs rest where wire: "qs_wire s = xs @ b # rest" "Some [] \<notin> js ` set xs" by blast
    show ?thesis
    proof (cases xs)
      case Nil
      with wire scan have "x = b" "bs = rest" by simp_all
      with scan idle True assms(3) show ?thesis by (auto simp: on_the_way_def listen_line_def)
    next
      case (Cons y ys)
      with wire scan have "x = y" "bs = ys @ b # rest" by simp_all
      moreover have "js x \<noteq> Some []" "Some [] \<notin> js ` set ys" using wire(2) Cons \<open>x = y\<close> by auto
      ultimately show ?thesis using scan idle True
        by (auto simp: on_the_way_def listen_line_def split: option.splits)
    qed
  next
    case False
    with assms(2) scan show ?thesis by (auto simp: on_the_way_def)
  qed
qed (use assms(2) in \<open>auto simp: on_the_way_def\<close>)

text \<open>The other callers cannot take the response: they do not have the mutex.\<close>

lemma run_on_the_way:
  assumes "run_step rd j s s'" and "on_the_way js rd i b s" and "qmp_inv js cmds s"
  shows "on_the_way js rd i b s'"
proof (cases "j = i")
  case True
  show ?thesis
  proof (cases "\<exists>r. qs_runs s ! i = RDone r")
    case True
    with assms(1) \<open>j = i\<close> show ?thesis by (cases rule: run_step.cases) auto
  next
    case False
    from assms(1) \<open>j = i\<close> show ?thesis
    proof cases
      case (receive c k r)
      with assms(2) False \<open>j = i\<close> show ?thesis by (auto simp: on_the_way_def)
    next
      case (finish c k r bytes)
      then obtain n where r: "r = Token n b" using assms(2) False \<open>j = i\<close> by (auto simp: on_the_way_def)
      have "stale_token s r \<or> run_finish rd r bytes = run_finish rd (Token 1 b) b"
        using finish r by (auto simp: token_bytes_def intro: run_finish_token)
      with finish \<open>j = i\<close> show ?thesis by (auto simp: on_the_way_def)
    qed (use assms(2) False \<open>j = i\<close> in \<open>auto simp: on_the_way_def\<close>)
  qed
next
  case False
  have i: "i < length (qs_runs s)" using assms(2) by (simp add: on_the_way_def)
  have mutex: "in_turn (qs_runs s ! k) \<longleftrightarrow> qs_mutex s = Some k" if "k < length (qs_runs s)" for k
    using assms(3) that by (simp add: qmp_inv_def call_ok_def)
  show ?thesis
  proof (cases "\<exists>r. qs_runs s ! i = RDone r")
    case True
    with assms(1,2) False show ?thesis by (cases rule: run_step.cases) (auto simp: on_the_way_def)
  next
    case waits: False
    then have "in_turn (qs_runs s ! i)" using assms(2) by (auto simp: on_the_way_def)
    then have "qs_mutex s = Some i" using mutex [OF i] by simp
    with assms(1) False mutex [of j] show ?thesis by (cases rule: run_step.cases) auto
  qed
qed

lemma client_on_the_way:
  assumes "(client_step js rd ^^ m) s s'" and "on_the_way js rd i b s" and "qmp_inv js cmds s" and "js b = Some []"
    and "rd [] = Inl e0"
  shows "on_the_way js rd i b s'"
proof -
  from assms(1) have "on_the_way js rd i b s' \<and> qmp_inv js cmds s'"
  proof (induction m arbitrary: s')
    case (Suc m)
    then obtain u where u: "(client_step js rd ^^ m) s u" "client_step js rd u s'" by auto
    with Suc.IH have "on_the_way js rd i b u" "qmp_inv js cmds u" by auto
    with u(2) show ?case
      using listen_on_the_way [of js u s' rd i b] run_on_the_way [of rd _ u s' js i b cmds] assms(4,5)
        qmp_step_inv [OF client_step_qmp [OF u(2)]]
      by (auto simp: client_step_def)
  qed (use assms in simp)
  then show ?thesis ..
qed

text \<open>On the way there is always a next step.\<close>

lemma on_the_way_step:
  assumes "on_the_way js rd i b s" and "\<not> (\<exists>t. client_step js rd s t)"
  shows "\<exists>r. qs_runs s ! i = RDone r \<and> (i \<in> set (qs_stale s) \<or> r = run_finish rd (Token 1 b) b)"
proof -
  have i: "i < length (qs_runs s)" using assms(1) by (simp add: on_the_way_def)
  have no_scan: "qs_listen s = LScan \<Longrightarrow> qs_wire s \<noteq> x # xs" for x xs
    using assms(2) listen_step.scan [of s x xs js] by (auto simp: client_step_def)
  have no_receive: "qs_runs s ! i = RAwait c k \<Longrightarrow> qs_listen s \<noteq> LStream r" for c k r
    using assms(2) run_step.receive [of i s c k r rd] i by (auto simp: client_step_def)
  have "qs_runs s ! i \<noteq> RDecode c k (Token n b)" for c k n
  proof
    assume at: "qs_runs s ! i = RDecode c k (Token n b)"
    then have "run_step rd i s (s\<lparr>qs_mutex := None, qs_runs := (qs_runs s)[i := RDone (run_finish rd (Token n b) b)],
        qs_stale := qs_stale s @ (if stale_token s (Token n b) then [i] else [])\<rparr>)"
      using i by (intro run_step.finish) (simp_all add: token_bytes_def)
    with assms(2) show False by (auto simp: client_step_def)
  qed
  moreover have "xs @ b # rest = hd (xs @ [b]) # tl (xs @ [b]) @ rest" for xs rest by (cases xs) simp_all
  ultimately show ?thesis using assms(1) no_scan no_receive unfolding on_the_way_def by metis
qed

section \<open>A concrete session\<close>

text \<open>Lines that begin with an E are events; every response but the empty one is without error.\<close>

definition sample_js :: "string \<Rightarrow> string option" where
  "sample_js b = (if b = [] then None else if hd b = CHR ''E'' then Some b else Some [])"

definition sample_rd :: "string \<Rightarrow> goerr + string" where
  "sample_rd b = (if b = [] then Inl (Err ''unexpected end of JSON input'') else Inr [])"

definition sample_waiting :: qmp_state where
  "sample_waiting =
     (qmp_start [] True [RAwait ''q'' 0])\<lparr>qs_mutex := Some 0, qs_sent := [(0, ''q'')], qs_wire := [''EV'', ''A''], qs_answers := [''A'']\<rparr>"

definition sample_session :: qmp_state where
  "sample_session =
     sample_waiting\<lparr>qs_wire := [], qs_scans := 2, qs_taken := [''A''], qs_runs := [RDecode ''q'' 0 (Token 2 ''A'')]\<rparr>"

definition sample_end :: qmp_state where
  "sample_end = sample_session\<lparr>qs_mutex := None, qs_runs := [RDone (Inr ''A'')]\<rparr>"

lemmas qmp_stepI = qmp_step_def [THEN iffD2]

lemmas sample_states = sample_waiting_def sample_session_def sample_end_def qmp_start_def

lemma sample_waiting_reached: "qmp_steps sample_js rd (qmp_start [] True [RLock ''q'' False]) sample_waiting"
proof -
  let ?s0 = "qmp_start [] True [RLock ''q'' False]"
  let ?s1 = "?s0\<lparr>qs_mutex := Some 0, qs_runs := [RWrite ''q'' False]\<rparr>"
  let ?s2 = "?s1\<lparr>qs_runs := [RAwait ''q'' 0], qs_sent := [(0, ''q'')]\<rparr>"
  let ?s3 = "?s2\<lparr>qs_wire := [''EV'']\<rparr>"
  have "run_step rd 0 ?s0 ?s1" using run_step.lock [of 0 ?s0 "''q''" False rd] by (simp add: qmp_start_def)
  moreover have "run_step rd 0 ?s1 ?s2"
    using run_step.send [of 0 ?s1 "''q''" False rd] by (simp add: qmp_start_def run_guard_def)
  moreover have "peer_step sample_js ?s2 ?s3"
    using peer_step.other [of sample_js "''EV''" ?s2] by (simp add: qmp_start_def sample_js_def)
  moreover have "peer_step sample_js ?s3 sample_waiting"
    using peer_step.answer [of ?s3 sample_js "''A''"] by (simp add: sample_states sample_js_def)
  ultimately show ?thesis
    by (meson converse_rtranclp_into_rtranclp qmp_stepI rtranclp.rtrancl_refl)
qed

lemma sample_session_steps: "(client_step sample_js rd ^^ 3) sample_waiting sample_session"
proof -
  let ?s1 = "sample_waiting\<lparr>qs_wire := [''A''], qs_scans := 1\<rparr>"
  let ?s2 = "?s1\<lparr>qs_wire := [], qs_scans := 2, qs_listen := LStream (Token 2 ''A'')\<rparr>"
  have "listen_step sample_js sample_waiting ?s1"
    using listen_step.scan [of sample_waiting "''EV''" "[''A'']" sample_js] by (simp add: sample_states listen_line_def sample_js_def)
  moreover have "listen_step sample_js ?s1 ?s2"
    using listen_step.scan [of ?s1 "''A''" "[]" sample_js]
    by (simp add: sample_states listen_line_def sample_js_def numeral_2_eq_2)
  moreover have "run_step rd 0 ?s2 sample_session"
    using run_step.receive [of 0 ?s2 "''q''" 0 "Token 2 ''A''" rd] by (simp add: sample_states)
  ultimately have "client_step sample_js rd sample_waiting ?s1" "client_step sample_js rd ?s1 ?s2"
    "client_step sample_js rd ?s2 sample_session"
    unfolding client_step_def by blast+
  then show ?thesis unfolding numeral_3_eq_3 by (blast intro: relpowp_Suc_I relpowp_0_I)
qed

lemma sample_end_step: "client_step sample_js sample_rd sample_session sample_end"
  using run_step.finish [of 0 sample_session "''q''" 0 "Token 2 ''A''" "''A''" sample_rd]
  by (auto simp: client_step_def sample_states token_bytes_def stale_token_def run_finish_def response_err_def sample_rd_def)

lemma client_steps_qmp: "(client_step js rd ^^ m) s s' \<Longrightarrow> qmp_steps js rd s s'"
proof (induction m arbitrary: s')
  case (Suc m)
  then show ?case by (auto intro: client_step_qmp rtranclp.rtrancl_into_rtrancl)
qed simp

lemma sample_session_reached: "qmp_steps sample_js rd (qmp_start [] True [RLock ''q'' False]) sample_session"
  using sample_waiting_reached client_steps_qmp [OF sample_session_steps] by (rule rtranclp_trans)

section \<open>Properties\<close>





text \<open>The bytes of a response belong to the scanner: when an event arrives before the caller has decoded
  them, a call can return a text that is no answer of the peer.\<close>

theorem qmp_response_overwritten:
  "\<exists>s. qmp_steps sample_js sample_rd (qmp_start [] True [RLock ''q'' False]) s \<and>
       qs_answers s = [''A''] \<and> qs_runs s = [RDone (Inr ''EV'')]"
proof -
  let ?s1 = "sample_session\<lparr>qs_wire := [''EV'']\<rparr>"
  let ?s2 = "?s1\<lparr>qs_wire := [], qs_scans := 3, qs_listen := LScan\<rparr>"
  let ?s3 = "?s2\<lparr>qs_mutex := None, qs_runs := [RDone (Inr ''EV'')], qs_stale := [0]\<rparr>"
  have "peer_step sample_js sample_session ?s1"
    using peer_step.other [of sample_js "''EV''" sample_session] by (simp add: sample_states sample_js_def)
  moreover have "listen_step sample_js ?s1 ?s2"
    using listen_step.scan [of ?s1 "''EV''" "[]" sample_js]
    by (simp add: sample_states listen_line_def sample_js_def eval_nat_numeral)
  moreover have "run_step sample_rd 0 ?s2 ?s3"
    using run_step.finish [of 0 ?s2 "''q''" 0 "Token 2 ''A''" "''EV''" sample_rd]
    by (simp add: sample_states token_bytes_def stale_token_def run_finish_def response_err_def sample_rd_def)
  ultimately have "qmp_steps sample_js sample_rd sample_session ?s3"
    by (meson converse_rtranclp_into_rtranclp qmp_stepI rtranclp.rtrancl_refl)
  then have "qmp_steps sample_js sample_rd (qmp_start [] True [RLock ''q'' False]) ?s3"
    using sample_session_reached by (rule rtranclp_trans [rotated])
  then show ?thesis by (intro exI [of _ ?s3]) (simp add: sample_states)
qed

end
