(* ===== verification/Cmd_Match.thy ===== *)
theory Cmd_Match
  imports Cmd_Run File_Monitor Go_Duration
begin

text \<open>
  \<^verbatim>\<open>internal/cmd/cmd_match.go\<close> and \<^verbatim>\<open>cmd_match_file.go\<close>: run a command until a pattern appears,
  in its output or in a file. \<^verbatim>\<open>RunMatch\<close> has a goroutine per stream, one that waits for the
  command, and the caller's \<^verbatim>\<open>select\<close>: a step relation. \<^verbatim>\<open>RunMatchFile\<close> is sequential but for the
  copying of the streams, which is part of its environment.
\<close>

section \<open>Before the command runs\<close>

text \<open>The log directory and the log files; on success the result names the two files, which are open.\<close>

definition match_prepare :: "'w os \<Rightarrow> string \<Rightarrow> string \<Rightarrow> string list \<Rightarrow> ('w, cmd_outcome + result) state" where
  "match_prepare os log_path command args = do {
     let result = new_result command args;
     e1 \<leftarrow> os_mkdir_all os log_path mode_700;
     case e1 of
       Some e \<Rightarrow> failE (result_fail result (wrapf ''failed to create log directory: '' e))
     | None \<Rightarrow> do {
     let cmd_name = path_base command;
     stamp \<leftarrow> os_timestamp os;
     let stdout_file = log_file log_path stamp cmd_name ''stdout'';
     let stderr_file = log_file log_path stamp cmd_name ''stderr'';
     let result = result\<lparr>r_logs_stdout := stdout_file, r_logs_stderr := stderr_file\<rparr>;
     e2 \<leftarrow> os_create os stdout_file;
     case e2 of
       Some e \<Rightarrow> failE (result_fail result (wrapf ''failed to create stdout file: '' e))
     | None \<Rightarrow> do {
     e3 \<leftarrow> os_create os stderr_file;
     case e3 of
       Some e \<Rightarrow> do {
         _ \<leftarrow> os_close os stdout_file;
         failE (result_fail result (wrapf ''failed to create stderr file: '' e)) }
     | None \<Rightarrow> do {
     e4 \<leftarrow> os_write_file os (log_file log_path stamp cmd_name ''command'') (command_log command args) mode_600;
     case e4 of
       Some e \<Rightarrow> do {
         _ \<leftarrow> os_close os stderr_file;
         _ \<leftarrow> os_close os stdout_file;
         failE (result_fail result (wrapf ''failed to create command log file: '' e)) }
     | None \<Rightarrow> okE result } } } }"

definition timeout_error :: "int \<Rightarrow> goerr" where
  "timeout_error timeout = Err (''command timed out after '' @ duration_string timeout)"

text \<open>How the command ended, in a result.\<close>

definition exited :: "run_end \<Rightarrow> result \<Rightarrow> result" where
  "exited e r =
     (case e of
        EndOk \<Rightarrow> r
      | EndExit err code \<Rightarrow> r\<lparr>r_exit_code := code, r_error := Some err\<rparr>
      | EndFail err \<Rightarrow> r\<lparr>r_error := Some err\<rparr>)\<lparr>r_completed := True\<rparr>"

section \<open>RunMatch\<close>

text \<open>A goroutine that scans a stream: reading, about to signal a match, about to check the context, returned.\<close>

datatype scan_pc = SScan | SSignal | SCheck | SReturned

record scan_state =
  sc_pipe :: "string list"
  sc_text :: "string list"
  sc_pc :: scan_pc

text \<open>The caller: before its \<^verbatim>\<open>select\<close>, blocked in it, out of it by one of its three cases, returned.\<close>

datatype match_end = ByPattern | ByTimeout | ByExit run_end

datatype match_pc = MStarting | MSelect | MLeft match_end | MReturned match_end result

record match_state =
  mt_stdout :: scan_state
  mt_stderr :: scan_state
  mt_alive :: bool
  mt_end :: "run_end option"
  mt_expired :: bool
  mt_matched :: bool
  mt_pc :: match_pc

definition match_start :: match_state where
  "match_start =
     (let idle = \<lparr>sc_pipe = [], sc_text = [], sc_pc = SScan\<rparr>
      in \<lparr>mt_stdout = idle, mt_stderr = idle, mt_alive = True, mt_end = None, mt_expired = False, mt_matched = False,
          mt_pc = MStarting\<rparr>)"

text \<open>One step of a scanning goroutine: the new state of the scanner, whether it has set the matched
  string, and whether its signal was received. \<open>ready\<close> says that the caller is blocked in its \<^verbatim>\<open>select\<close>.\<close>

definition scan_line :: "string \<Rightarrow> bool \<Rightarrow> bool \<Rightarrow> scan_state \<Rightarrow> (scan_state \<times> bool \<times> bool) option" where
  "scan_line pat expired ready c =
     (case sc_pc c of
        SScan \<Rightarrow>
          (case sc_pipe c of
             [] \<Rightarrow> None
           | l # ls \<Rightarrow>
               Some (c\<lparr>sc_pipe := ls, sc_text := sc_text c @ [l], sc_pc := if str_contains l pat then SSignal else SCheck\<rparr>,
                     str_contains l pat, False))
      | SSignal \<Rightarrow> Some (c\<lparr>sc_pc := SReturned\<rparr>, False, ready)
      | SCheck \<Rightarrow> Some (c\<lparr>sc_pc := if expired then SReturned else SScan\<rparr>, False, False)
      | SReturned \<Rightarrow> None)"

text \<open>What the two buffers hold.\<close>

definition captured :: "scan_state \<Rightarrow> string" where
  "captured c = concat (map (\<lambda>l. l @ [CHR 0x0A]) (sc_text c))"

definition with_output :: "match_state \<Rightarrow> result \<Rightarrow> result" where
  "with_output s r = r\<lparr>r_stdout := captured (mt_stdout s), r_stderr := captured (mt_stderr s)\<rparr>"

text \<open>What the caller returns.\<close>

definition match_result :: "string \<Rightarrow> int \<Rightarrow> result \<Rightarrow> match_state \<Rightarrow> match_end \<Rightarrow> result" where
  "match_result pat timeout r s lv =
     (let r1 = (if mt_matched s then r\<lparr>r_matched_string := pat\<rparr> else r);
          r2 = (case lv of
                  ByPattern \<Rightarrow> r1
                | ByTimeout \<Rightarrow> r1\<lparr>r_timed_out := True, r_error := Some (timeout_error timeout)\<rparr>
                | ByExit e \<Rightarrow> exited e r1)
      in with_output s r2)"

text \<open>A signal that the caller receives ends its \<^verbatim>\<open>select\<close>; it then kills the process.\<close>

definition signalled :: "bool \<Rightarrow> match_state \<Rightarrow> match_state" where
  "signalled received s = (if received then s\<lparr>mt_alive := False, mt_pc := MLeft ByPattern\<rparr> else s)"

text \<open>
  The system: the process prints lines and ends, the goroutine that waits for it then closes the
  pipes (\<^verbatim>\<open>Cmd.Wait\<close>), the deadline expires, the goroutines scan, and the caller reaches its
  \<^verbatim>\<open>select\<close> and leaves it. \<open>r\<close> is the result of \<open>match_prepare\<close>.
\<close>

inductive match_step :: "string \<Rightarrow> int \<Rightarrow> result \<Rightarrow> match_state \<Rightarrow> match_state \<Rightarrow> bool" for pat timeout r where
  print_out: "mt_alive s \<Longrightarrow> match_step pat timeout r s (s\<lparr>mt_stdout := (mt_stdout s)\<lparr>sc_pipe := sc_pipe (mt_stdout s) @ [l]\<rparr>\<rparr>)"
| print_err: "mt_alive s \<Longrightarrow> match_step pat timeout r s (s\<lparr>mt_stderr := (mt_stderr s)\<lparr>sc_pipe := sc_pipe (mt_stderr s) @ [l]\<rparr>\<rparr>)"
| die: "mt_alive s \<Longrightarrow> match_step pat timeout r s (s\<lparr>mt_alive := False\<rparr>)"
| wait: "\<lbrakk>\<not> mt_alive s; mt_end s = None\<rbrakk> \<Longrightarrow>
     match_step pat timeout r s (s\<lparr>mt_end := Some e, mt_stdout := (mt_stdout s)\<lparr>sc_pipe := []\<rparr>,
                                   mt_stderr := (mt_stderr s)\<lparr>sc_pipe := []\<rparr>\<rparr>)"
| expire: "match_step pat timeout r s (s\<lparr>mt_expired := True, mt_alive := False\<rparr>)"
| scan_out: "scan_line pat (mt_expired s) (mt_pc s = MSelect) (mt_stdout s) = Some (c, m, received) \<Longrightarrow>
     match_step pat timeout r s (signalled received (s\<lparr>mt_stdout := c, mt_matched := mt_matched s \<or> m\<rparr>))"
| scan_err: "scan_line pat (mt_expired s) (mt_pc s = MSelect) (mt_stderr s) = Some (c, m, received) \<Longrightarrow>
     match_step pat timeout r s (signalled received (s\<lparr>mt_stderr := c, mt_matched := mt_matched s \<or> m\<rparr>))"
| select: "mt_pc s = MStarting \<Longrightarrow> match_step pat timeout r s (s\<lparr>mt_pc := MSelect\<rparr>)"
| timed_out: "\<lbrakk>mt_pc s = MSelect; mt_expired s\<rbrakk> \<Longrightarrow>
     match_step pat timeout r s (s\<lparr>mt_alive := False, mt_pc := MLeft ByTimeout\<rparr>)"
| exits: "\<lbrakk>mt_pc s = MSelect; mt_end s = Some e\<rbrakk> \<Longrightarrow> match_step pat timeout r s (s\<lparr>mt_pc := MLeft (ByExit e)\<rparr>)"
| returns: "mt_pc s = MLeft lv \<Longrightarrow>
     match_step pat timeout r s (s\<lparr>mt_pc := MReturned lv (match_result pat timeout r s lv)\<rparr>)"

abbreviation match_steps :: "string \<Rightarrow> int \<Rightarrow> result \<Rightarrow> match_state \<Rightarrow> match_state \<Rightarrow> bool" where
  "match_steps pat timeout r \<equiv> (match_step pat timeout r)\<^sup>*\<^sup>*"

section \<open>RunMatchFile\<close>

text \<open>
  The environment: starting with pipes (the first failure of the three calls, with its message),
  whether the watched file exists, the context, opening the file, the iterations of \<^verbatim>\<open>monitorFileFor\<close>
  as a list of ticks, the \<^verbatim>\<open>select\<close> with a default, and the buffers of the two copying goroutines.
\<close>

datatype ctx_state = CtxLive | CtxDeadline | CtxCanceled

datatype file_select = SelCtx ctx_state | SelExit run_end | SelDefault

record 'w match_env =
  me_os :: "'w os"
  me_stdout_pipe :: "('w, goerr option) state"
  me_stderr_pipe :: "('w, goerr option) state"
  me_start :: "string \<Rightarrow> string list \<Rightarrow> ('w, goerr option) state"
  me_exists :: "string \<Rightarrow> ('w, bool) state"
  me_ctx :: "('w, ctx_state) state"
  me_sleep :: "int \<Rightarrow> ('w, unit) state"
  me_open :: "string \<Rightarrow> ('w, goerr option) state"
  me_ticks :: "('w, tick list) state"
  me_select :: "('w, file_select) state"
  me_kill :: "('w, unit) state"
  me_buffers :: "('w, string \<times> string) state"

definition close_logs :: "'w match_env \<Rightarrow> result \<Rightarrow> ('w, unit) state" where
  "close_logs M r = do {
     _ \<leftarrow> os_close (me_os M) (r_logs_stderr r);
     _ \<leftarrow> os_close (me_os M) (r_logs_stdout r);
     State_Monad.return () }"

text \<open>The branch of a context that is done, with the streams.\<close>

definition on_ctx_done :: "'w match_env \<Rightarrow> int \<Rightarrow> ctx_state \<Rightarrow> result \<Rightarrow> ('w, result) state" where
  "on_ctx_done M timeout c r = do {
     r \<leftarrow> (if c = CtxDeadline then do {
            _ \<leftarrow> me_kill M;
            State_Monad.return (r\<lparr>r_timed_out := True, r_error := Some (timeout_error timeout)\<rparr>) }
          else State_Monad.return r);
     (sout, serr) \<leftarrow> me_buffers M;
     State_Monad.return (r\<lparr>r_stdout := sout, r_stderr := serr\<rparr>) }"

text \<open>The loop that waits for the file: \<open>None\<close> when the fuel runs out, a result when the context is done.\<close>

fun await_file :: "nat \<Rightarrow> 'w match_env \<Rightarrow> int \<Rightarrow> string \<Rightarrow> result \<Rightarrow> ('w, (result + unit) option) state" where
  "await_file 0 M timeout path r = State_Monad.return None"
| "await_file (Suc n) M timeout path r = do {
     found \<leftarrow> me_exists M path;
     if found then State_Monad.return (Some (Inr ()))
     else do {
       c \<leftarrow> me_ctx M;
       if c \<noteq> CtxLive then do { r \<leftarrow> on_ctx_done M timeout c r; State_Monad.return (Some (Inl r)) }
       else do { _ \<leftarrow> me_sleep M (100 * msec); await_file n M timeout path r } } }"

text \<open>The final \<^verbatim>\<open>select\<close>.\<close>

definition file_outcome :: "'w match_env \<Rightarrow> int \<Rightarrow> string \<Rightarrow> bool \<Rightarrow> result \<Rightarrow> ('w, result) state" where
  "file_outcome M timeout pat found r = do {
     ev \<leftarrow> me_select M;
     case ev of
       SelCtx c \<Rightarrow> on_ctx_done M timeout c r
     | SelExit e \<Rightarrow> do {
         (sout, serr) \<leftarrow> me_buffers M;
         State_Monad.return ((exited e r)\<lparr>r_stdout := sout, r_stderr := serr\<rparr>) }
     | SelDefault \<Rightarrow>
         if found then do {
           _ \<leftarrow> me_kill M;
           (sout, serr) \<leftarrow> me_buffers M;
           State_Monad.return (r\<lparr>r_matched_string := pat, r_completed := False, r_stdout := sout, r_stderr := serr\<rparr>) }
         else State_Monad.return r }"

text \<open>From the existing file to the result; \<open>None\<close> when the ticks end before the pattern is found.\<close>

definition watch_file :: "'w match_env \<Rightarrow> int \<Rightarrow> string \<Rightarrow> string \<Rightarrow> result \<Rightarrow> ('w, result option) state" where
  "watch_file M timeout pat path r = do {
     e \<leftarrow> me_open M path;
     case e of
       Some err \<Rightarrow> State_Monad.return (Some (r\<lparr>r_error := Some err\<rparr>))
     | None \<Rightarrow> do {
     ticks \<leftarrow> me_ticks M;
     case monitor_file_for pat monitor_init ticks of
       MError err \<Rightarrow> State_Monad.return (Some (r\<lparr>r_error := Some err\<rparr>))
     | MFound \<Rightarrow> do { r \<leftarrow> file_outcome M timeout pat True r; State_Monad.return (Some r) }
     | MContinue s \<Rightarrow> State_Monad.return None } }"

definition start_with_pipes :: "'w match_env \<Rightarrow> string \<Rightarrow> string list \<Rightarrow> result \<Rightarrow> ('w, cmd_outcome + unit) state" where
  "start_with_pipes M command args r = do {
     e1 \<leftarrow> me_stdout_pipe M;
     case e1 of
       Some e \<Rightarrow> failE (result_fail r (wrapf ''failed to create stdout pipe: '' e))
     | None \<Rightarrow> do {
     e2 \<leftarrow> me_stderr_pipe M;
     case e2 of
       Some e \<Rightarrow> failE (result_fail r (wrapf ''failed to create stderr pipe: '' e))
     | None \<Rightarrow> do {
     e3 \<leftarrow> me_start M command args;
     case e3 of
       Some e \<Rightarrow> failE (result_fail r (wrapf ''failed to start command: '' e))
     | None \<Rightarrow> okE () } } }"

definition run_match_file ::
    "nat \<Rightarrow> 'w match_env \<Rightarrow> string \<Rightarrow> string \<Rightarrow> string \<Rightarrow> int \<Rightarrow> string \<Rightarrow> string list \<Rightarrow> ('w, cmd_outcome option) state" where
  "run_match_file fuel M log_path pat path timeout command args = do {
     prep \<leftarrow> match_prepare (me_os M) log_path command args;
     case prep of
       Inl out \<Rightarrow> State_Monad.return (Some out)
     | Inr r \<Rightarrow> do {
     started \<leftarrow> start_with_pipes M command args r;
     case started of
       Inl out \<Rightarrow> do { _ \<leftarrow> close_logs M r; State_Monad.return (Some out) }
     | Inr _ \<Rightarrow> do {
     w \<leftarrow> await_file fuel M timeout path r;
     case w of
       None \<Rightarrow> State_Monad.return None
     | Some (Inl res) \<Rightarrow> do { _ \<leftarrow> close_logs M r; State_Monad.return (Some (res, r_error res)) }
     | Some (Inr _) \<Rightarrow> do {
     res \<leftarrow> watch_file M timeout pat path r;
     case res of
       None \<Rightarrow> State_Monad.return None
     | Some res \<Rightarrow> do { _ \<leftarrow> close_logs M r; State_Monad.return (Some (res, r_error res)) } } } } }"

section \<open>Lemmas\<close>

definition printed :: "string \<Rightarrow> scan_state \<Rightarrow> bool" where
  "printed pat c \<longleftrightarrow> (\<exists>l \<in> set (sc_text c). str_contains l pat)"

lemma printed_captured: "printed pat c \<Longrightarrow> str_contains (captured c) pat"
proof -
  assume "printed pat c"
  then obtain l where l: "l \<in> set (sc_text c)" and p: "str_contains l pat" by (auto simp: printed_def)
  from l obtain xs ys where "sc_text c = xs @ l # ys" by (auto simp: in_set_conv_decomp)
  then have "str_contains (captured c) l"
    by (auto simp: captured_def sublist_def)
  with p show ?thesis by (rule sublist_order.order_trans)
qed

text \<open>What the pattern has to do with the state: a scanner that is about to signal has captured it.\<close>

definition match_inv :: "string \<Rightarrow> match_state \<Rightarrow> bool" where
  "match_inv pat s \<longleftrightarrow>
     (\<forall>c \<in> {mt_stdout s, mt_stderr s}. sc_pc c = SSignal \<longrightarrow> mt_matched s \<and> printed pat c) \<and>
     (mt_pc s = MLeft ByPattern \<longrightarrow> mt_matched s \<and> (printed pat (mt_stdout s) \<or> printed pat (mt_stderr s))) \<and>
     (\<forall>res. mt_pc s = MReturned ByPattern res \<longrightarrow>
        r_matched_string res = pat \<and> (str_contains (r_stdout res) pat \<or> str_contains (r_stderr res) pat))"

lemma scan_line_facts:
  assumes "scan_line pat expired ready c = Some (c', m, received)"
  shows "printed pat c \<Longrightarrow> printed pat c'" "sc_pc c' = SSignal \<Longrightarrow> m \<and> printed pat c'" "received \<Longrightarrow> ready \<and> sc_pc c = SSignal"
  using assms by (auto simp: scan_line_def printed_def split: scan_pc.splits list.splits if_splits)

lemma printed_pipe [simp]: "printed pat (c\<lparr>sc_pipe := x\<rparr>) = printed pat c"
  by (simp add: printed_def)

lemma match_result_pattern:
  "\<lbrakk>mt_matched s; printed pat (mt_stdout s) \<or> printed pat (mt_stderr s)\<rbrakk> \<Longrightarrow>
     r_matched_string (match_result pat timeout r s ByPattern) = pat \<and>
     (str_contains (r_stdout (match_result pat timeout r s ByPattern)) pat \<or>
      str_contains (r_stderr (match_result pat timeout r s ByPattern)) pat)"
  by (auto simp: match_result_def with_output_def dest: printed_captured)

lemma match_step_inv:
  assumes "match_step pat timeout r s s'" and "match_inv pat s"
  shows "match_inv pat s'"
  using assms(1)
proof cases
  case (scan_out c m received)
  note f = scan_line_facts [OF scan_out(2)]
  show ?thesis using assms(2) f unfolding scan_out(1) match_inv_def signalled_def by (auto split: if_splits)
next
  case (scan_err c m received)
  note f = scan_line_facts [OF scan_err(2)]
  show ?thesis using assms(2) f unfolding scan_err(1) match_inv_def signalled_def by (auto split: if_splits)
next
  case (returns lv)
  with assms(2) show ?thesis
    by (cases lv) (auto simp: match_inv_def match_result_pattern)
qed (use assms(2) in \<open>auto simp: match_inv_def\<close>)

lemma match_steps_inv: "match_steps pat timeout r s s' \<Longrightarrow> match_inv pat s \<Longrightarrow> match_inv pat s'"
  by (induction rule: rtranclp_induct) (auto intro: match_step_inv)

lemma match_inv_start: "match_inv pat match_start"
  by (simp add: match_inv_def match_start_def Let_def)

text \<open>Once both scanners have returned, no signal is ever sent.\<close>

definition silent :: "match_state \<Rightarrow> bool" where
  "silent s \<longleftrightarrow> sc_pc (mt_stdout s) = SReturned \<and> sc_pc (mt_stderr s) = SReturned \<and>
     mt_pc s \<noteq> MLeft ByPattern \<and> (\<nexists>res. mt_pc s = MReturned ByPattern res)"

lemma silent_step: "match_step pat timeout r s s' \<Longrightarrow> silent s \<Longrightarrow> silent s'"
  by (erule match_step.cases) (auto simp: silent_def scan_line_def)

lemma silent_steps: "match_steps pat timeout r s s' \<Longrightarrow> silent s \<Longrightarrow> silent s'"
  by (induction rule: rtranclp_induct) (auto intro: silent_step)

text \<open>A stream whose scanner reads the pattern and signals while the caller is not yet in its \<^verbatim>\<open>select\<close>.\<close>

lemma early_stdout:
  assumes "mt_pc s = MStarting" and "mt_alive s" and "mt_stdout s = \<lparr>sc_pipe = [], sc_text = [], sc_pc = SScan\<rparr>"
  shows "match_steps pat timeout r s (s\<lparr>mt_stdout := \<lparr>sc_pipe = [], sc_text = [pat], sc_pc = SReturned\<rparr>, mt_matched := True\<rparr>)"
proof -
  let ?a = "s\<lparr>mt_stdout := \<lparr>sc_pipe = [pat], sc_text = [], sc_pc = SScan\<rparr>\<rparr>"
  let ?b = "s\<lparr>mt_stdout := \<lparr>sc_pipe = [], sc_text = [pat], sc_pc = SSignal\<rparr>, mt_matched := True\<rparr>"
  let ?c = "s\<lparr>mt_stdout := \<lparr>sc_pipe = [], sc_text = [pat], sc_pc = SReturned\<rparr>, mt_matched := True\<rparr>"
  have "match_step pat timeout r s ?a"
    using match_step.print_out [of s pat timeout r pat] assms by simp
  moreover have "match_step pat timeout r ?a ?b"
    using match_step.scan_out [of pat ?a "\<lparr>sc_pipe = [], sc_text = [pat], sc_pc = SSignal\<rparr>" True False timeout r]
    by (simp add: scan_line_def signalled_def)
  moreover have "match_step pat timeout r ?b ?c"
    using match_step.scan_out [of pat ?b "\<lparr>sc_pipe = [], sc_text = [pat], sc_pc = SReturned\<rparr>" False False timeout r] assms
    by (simp add: scan_line_def signalled_def)
  ultimately show ?thesis by (meson converse_rtranclp_into_rtranclp rtranclp.rtrancl_refl)
qed

lemma early_stderr:
  assumes "mt_pc s = MStarting" and "mt_alive s" and "mt_stderr s = \<lparr>sc_pipe = [], sc_text = [], sc_pc = SScan\<rparr>"
  shows "match_steps pat timeout r s (s\<lparr>mt_stderr := \<lparr>sc_pipe = [], sc_text = [pat], sc_pc = SReturned\<rparr>, mt_matched := True\<rparr>)"
proof -
  let ?a = "s\<lparr>mt_stderr := \<lparr>sc_pipe = [pat], sc_text = [], sc_pc = SScan\<rparr>\<rparr>"
  let ?b = "s\<lparr>mt_stderr := \<lparr>sc_pipe = [], sc_text = [pat], sc_pc = SSignal\<rparr>, mt_matched := True\<rparr>"
  let ?c = "s\<lparr>mt_stderr := \<lparr>sc_pipe = [], sc_text = [pat], sc_pc = SReturned\<rparr>, mt_matched := True\<rparr>"
  have "match_step pat timeout r s ?a"
    using match_step.print_err [of s pat timeout r pat] assms by simp
  moreover have "match_step pat timeout r ?a ?b"
    using match_step.scan_err [of pat ?a "\<lparr>sc_pipe = [], sc_text = [pat], sc_pc = SSignal\<rparr>" True False timeout r]
    by (simp add: scan_line_def signalled_def)
  moreover have "match_step pat timeout r ?b ?c"
    using match_step.scan_err [of pat ?b "\<lparr>sc_pipe = [], sc_text = [pat], sc_pc = SReturned\<rparr>" False False timeout r] assms
    by (simp add: scan_line_def signalled_def)
  ultimately show ?thesis by (meson converse_rtranclp_into_rtranclp rtranclp.rtrancl_refl)
qed

section \<open>A concrete match\<close>

definition sample_matched :: "result \<Rightarrow> match_state" where
  "sample_matched r =
     (let s = match_start\<lparr>mt_stdout := \<lparr>sc_pipe = [], sc_text = [''up''], sc_pc = SReturned\<rparr>, mt_matched := True, mt_alive := False\<rparr>
      in s\<lparr>mt_pc := MReturned ByPattern (match_result ''up'' sec r s ByPattern)\<rparr>)"

lemma sample_matched_reached: "match_steps ''up'' sec r match_start (sample_matched r)"
proof -
  let ?a = "match_start\<lparr>mt_pc := MSelect\<rparr>"
  let ?b = "?a\<lparr>mt_stdout := \<lparr>sc_pipe = [''up''], sc_text = [], sc_pc = SScan\<rparr>\<rparr>"
  let ?c = "?b\<lparr>mt_stdout := \<lparr>sc_pipe = [], sc_text = [''up''], sc_pc = SSignal\<rparr>, mt_matched := True\<rparr>"
  let ?d = "?c\<lparr>mt_stdout := \<lparr>sc_pipe = [], sc_text = [''up''], sc_pc = SReturned\<rparr>, mt_alive := False, mt_pc := MLeft ByPattern\<rparr>"
  have "match_step ''up'' sec r match_start ?a"
    using match_step.select [of match_start "''up''" sec r] by (simp add: match_start_def Let_def)
  moreover have "match_step ''up'' sec r ?a ?b"
    using match_step.print_out [of ?a "''up''" sec r "''up''"] by (simp add: match_start_def Let_def)
  moreover have "match_step ''up'' sec r ?b ?c"
    using match_step.scan_out [of "''up''" ?b "\<lparr>sc_pipe = [], sc_text = [''up''], sc_pc = SSignal\<rparr>" True False sec r]
    by (simp add: scan_line_def signalled_def match_start_def Let_def)
  moreover have "match_step ''up'' sec r ?c ?d"
    using match_step.scan_out [of "''up''" ?c "\<lparr>sc_pipe = [], sc_text = [''up''], sc_pc = SReturned\<rparr>" False True sec r]
    by (simp add: scan_line_def signalled_def match_start_def Let_def)
  moreover have "match_step ''up'' sec r ?d (sample_matched r)"
    using match_step.returns [of ?d ByPattern "''up''" sec r]
    by (simp add: sample_matched_def match_result_def with_output_def match_start_def Let_def)
  ultimately show ?thesis by (meson converse_rtranclp_into_rtranclp rtranclp.rtrancl_refl)
qed

section \<open>Properties\<close>

text \<open>However the goroutines, the process and the deadline interleave, a match is only reported with the
  pattern in the captured output, and with the matched string set.\<close>

theorem match_found_sound:
  assumes "match_steps pat timeout r match_start s" and "mt_pc s = MReturned ByPattern res"
  shows "r_matched_string res = pat \<and> (str_contains (r_stdout res) pat \<or> str_contains (r_stderr res) pat)"
  using match_steps_inv [OF assms(1) match_inv_start] assms(2) by (simp add: match_inv_def)

theorem match_found_sound_witness:
  "\<exists>s res. match_steps ''up'' sec (new_result ''ping'' []) match_start s \<and> mt_pc s = MReturned ByPattern res \<and>
           r_matched_string res = ''up'' \<and> (str_contains (r_stdout res) ''up'' \<or> str_contains (r_stderr res) ''up'')"
proof -
  let ?s = "sample_matched (new_result ''ping'' [])"
  obtain res where "mt_pc ?s = MReturned ByPattern res" by (simp add: sample_matched_def Let_def)
  then show ?thesis using match_found_sound [OF sample_matched_reached] sample_matched_reached by blast
qed

text \<open>The signal of a match is lost when the caller has not reached its \<^verbatim>\<open>select\<close>: the command runs on, and
  the call can only end by the deadline or the end of the command, although the matched string is set.\<close>

theorem match_signal_lost:
  "\<exists>s. match_steps pat timeout r match_start s \<and> mt_matched s \<and> mt_alive s \<and> \<not> mt_expired s \<and>
       (\<nexists>s' res. match_steps pat timeout r s s' \<and> mt_pc s' = MReturned ByPattern res)"
proof -
  let ?a = "match_start\<lparr>mt_stdout := \<lparr>sc_pipe = [], sc_text = [pat], sc_pc = SReturned\<rparr>, mt_matched := True\<rparr>"
  let ?b = "?a\<lparr>mt_stderr := \<lparr>sc_pipe = [], sc_text = [pat], sc_pc = SReturned\<rparr>\<rparr>"
  have "match_steps pat timeout r match_start ?a" by (rule early_stdout) (simp_all add: match_start_def Let_def)
  moreover have "match_steps pat timeout r ?a ?b"
    using early_stderr [of ?a pat timeout r] by (simp add: match_start_def Let_def)
  ultimately have "match_steps pat timeout r match_start ?b" by (rule rtranclp_trans)
  moreover have "silent ?b" by (simp add: silent_def match_start_def Let_def)
  then have "\<nexists>s' res. match_steps pat timeout r ?b s' \<and> mt_pc s' = MReturned ByPattern res"
    using silent_steps by (fastforce simp: silent_def)
  ultimately show ?thesis by (intro exI [of _ ?b]) (simp add: match_start_def Let_def)
qed

end
