(* ===== verification/Undent.thy ===== *)
theory Undent
  imports Prelude
begin

text \<open>
  \<^verbatim>\<open>internal/undent/undent.go\<close>: removing the common indentation of a text. The two regular
  expressions of the source are anchored at lines, so the text is a list of lines here.
\<close>

section \<open>Definitions\<close>

definition is_blank :: "char \<Rightarrow> bool" where
  "is_blank c \<longleftrightarrow> c = CHR '' '' \<or> c = CHR 0x09"

text \<open>\<^verbatim>\<open>whitespaceOnly\<close>: lines of blanks only become empty.\<close>

definition clear_blank :: "string \<Rightarrow> string" where
  "clear_blank l = (if list_all is_blank l then [] else l)"

text \<open>\<^verbatim>\<open>leadingWhitespace\<close>: the indentation of every line that has another character.\<close>

definition indents :: "string list \<Rightarrow> string list" where
  "indents ls = map (takeWhile is_blank) (filter (\<lambda>l. \<not> list_all is_blank l) ls)"

text \<open>The loop over the indentations, after the first one.\<close>

fun margin_loop :: "string \<Rightarrow> string list \<Rightarrow> string" where
  "margin_loop margin [] = margin"
| "margin_loop margin (i # is) =
     (if has_prefix i margin then margin_loop margin is
      else if has_prefix margin i then margin_loop i is
      else [])"

definition margin_of :: "string list \<Rightarrow> string" where
  "margin_of is = (case is of [] \<Rightarrow> [] | i # is \<Rightarrow> margin_loop i is)"

text \<open>\<^verbatim>\<open>strings.ReplaceAll\<close> (an empty old text, which no caller passes, leaves the text alone here).\<close>

function (sequential) replace_all :: "string \<Rightarrow> string \<Rightarrow> string \<Rightarrow> string" where
  "replace_all old new [] = []"
| "replace_all old new (c # cs) =
     (if old = [] then c # cs
      else if has_prefix (c # cs) old then new @ replace_all old new (drop (length old) (c # cs))
      else c # replace_all old new cs)"
  by pat_completeness auto
termination by (relation "measure (\<lambda>(old, new, s). length s)") (auto simp: neq_Nil_conv)

fun replace_pairs :: "string list \<Rightarrow> string \<Rightarrow> string" where
  "replace_pairs (old # new # rest) text = replace_pairs rest (replace_all old new text)"
| "replace_pairs rest text = text"

text \<open>\<^verbatim>\<open>It\<close> without its replacements, on lines.\<close>

definition undent_lines :: "string list \<Rightarrow> string list" where
  "undent_lines ls =
     (let ls = map clear_blank ls; margin = margin_of (indents ls)
      in if margin \<noteq> [] then map (\<lambda>l. trim_prefix l margin) ls else ls)"

definition undent_it :: "string \<Rightarrow> string list \<Rightarrow> string" where
  "undent_it text replacements =
     replace_pairs replacements (str_join (undent_lines (split_on (CHR 0x0A) text)) [CHR 0x0A])"

definition undent_md :: "string \<Rightarrow> string" where
  "undent_md text = trim_space (undent_it text [''|'', [CHR 0x60]])"

section \<open>Lemmas\<close>

lemma clear_blank_idem [simp]: "clear_blank (clear_blank l) = clear_blank l"
  by (simp add: clear_blank_def)

lemma margin_loop_prefix: "prefix (margin_loop m is) m"
  by (induction m "is" rule: margin_loop.induct) (auto intro: prefix_order.order_trans)

lemma margin_loop_Nil [simp]: "margin_loop [] is = []"
  by (induction "is") auto

text \<open>The margin is a prefix of every indentation.\<close>

lemma margin_loop_all: "i \<in> set is \<Longrightarrow> prefix (margin_loop m is) i"
proof (induction m "is" rule: margin_loop.induct)
  case (2 margin j js)
  then show ?case
    by (auto intro: prefix_order.order_trans [OF margin_loop_prefix])
qed simp

lemma margin_of_prefix: "i \<in> set is \<Longrightarrow> prefix (margin_of is) i"
  by (cases "is") (auto simp: margin_of_def margin_loop_prefix margin_loop_all)

text \<open>When the loop does not stop early, the margin is one of the indentations.\<close>

lemma margin_loop_mem: "margin_loop m is \<noteq> [] \<Longrightarrow> margin_loop m is \<in> set (m # is)"
  by (induction m "is" rule: margin_loop.induct) (auto split: if_splits)

lemma margin_of_mem: "margin_of is \<noteq> [] \<Longrightarrow> margin_of is \<in> set is"
  using margin_loop_mem by (cases "is") (auto simp: margin_of_def)

lemma margin_of_empty: "[] \<in> set is \<Longrightarrow> margin_of is = []"
  using margin_of_prefix by fastforce

lemma margin_is_blank: "list_all is_blank (margin_of (indents ls))"
proof (cases "margin_of (indents ls) = []")
  case False
  then have "margin_of (indents ls) \<in> set (indents ls)" by (rule margin_of_mem)
  then show ?thesis by (auto simp: indents_def list_all_iff dest: set_takeWhileD)
qed simp

lemma takeWhile_prefix_split:
  "prefix m (takeWhile P l) \<Longrightarrow> l = m @ drop (length m) l \<and> takeWhile P l = m @ takeWhile P (drop (length m) l)"
proof (induction m arbitrary: l)
  case (Cons x m)
  then show ?case by (cases l) (auto split: if_splits)
qed simp

lemma trim_margin:
  assumes "prefix m (takeWhile is_blank l)"
  shows "l = m @ trim_prefix l m" and "takeWhile is_blank l = m @ takeWhile is_blank (trim_prefix l m)"
  using takeWhile_prefix_split [OF assms] by (auto simp: trim_prefix_def prefix_def)

lemma trim_prefix_Nil [simp]: "trim_prefix [] m = []"
  by (simp add: trim_prefix_def)

lemma indent_mem: "\<lbrakk>l \<in> set ls; \<not> list_all is_blank l\<rbrakk> \<Longrightarrow> takeWhile is_blank l \<in> set (indents ls)"
  by (auto simp: indents_def)

lemma undent_line:
  assumes "l \<in> set ls" and "\<not> list_all is_blank l"
  shows "l = margin_of (indents ls) @ trim_prefix l (margin_of (indents ls))"
  using trim_margin(1) [OF margin_of_prefix [OF indent_mem [OF assms]]] .

lemma undent_line_not_blank:
  assumes "l \<in> set ls" and "\<not> list_all is_blank l"
  shows "\<not> list_all is_blank (trim_prefix l (margin_of (indents ls)))"
  using undent_line [OF assms] assms(2) margin_is_blank [of ls] by (metis list_all_append)

lemma indents_clear [simp]: "indents (map clear_blank ls) = indents ls"
  by (induction ls) (auto simp: indents_def clear_blank_def)

lemma no_margin_after:
  assumes "margin_of (indents ls) \<noteq> []"
  shows "margin_of (indents (map (\<lambda>l. trim_prefix l (margin_of (indents ls))) ls)) = []"
proof -
  let ?m = "margin_of (indents ls)"
  from margin_of_mem [OF assms] obtain l where l: "l \<in> set ls" "\<not> list_all is_blank l" "takeWhile is_blank l = ?m"
    by (auto simp: indents_def)
  then have "takeWhile is_blank (trim_prefix l ?m) = []"
    using trim_margin(2) [of ?m l] by simp
  moreover have "takeWhile is_blank (trim_prefix l ?m) \<in> set (indents (map (\<lambda>l. trim_prefix l ?m) ls))"
    using l undent_line_not_blank [OF l(1,2)] by (intro indent_mem) auto
  ultimately show ?thesis by (simp add: margin_of_empty)
qed

lemma undent_lines_idem: "undent_lines (undent_lines ls) = undent_lines ls"
proof -
  let ?ls = "map clear_blank ls" let ?m = "margin_of (indents ?ls)"
  have blank: "clear_blank (trim_prefix l ?m) = trim_prefix l ?m" if "l \<in> set ?ls" for l
  proof (cases "list_all is_blank l")
    case True
    with that have "l = []" by (auto simp: clear_blank_def split: if_splits)
    then show ?thesis by (simp add: clear_blank_def)
  next
    case False
    then show ?thesis using undent_line_not_blank [OF that] by (simp add: clear_blank_def)
  qed
  show ?thesis
  proof (cases "?m = []")
    case True
    then show ?thesis by (simp add: undent_lines_def Let_def comp_def)
  next
    case False
    then have u: "undent_lines ls = map (\<lambda>l. trim_prefix l ?m) ?ls" by (simp add: undent_lines_def Let_def)
    have c: "map clear_blank (undent_lines ls) = undent_lines ls"
      unfolding u using blank by simp
    have "margin_of (indents (undent_lines ls)) = []" unfolding u by (rule no_margin_after [OF False])
    then show ?thesis by (simp add: undent_lines_def [of "undent_lines ls"] c Let_def)
  qed
qed

lemma margin_is_common:
  assumes "margin_of is \<noteq> []"
  shows "margin_of is = Longest_common_prefix (set is)"
proof (rule prefix_order.antisym)
  have ne: "set is \<noteq> {}" using margin_of_mem [OF assms] by auto
  show "prefix (margin_of is) (Longest_common_prefix (set is))"
    using ne margin_of_prefix by (intro Longest_common_prefix_max_prefix) auto
  show "prefix (Longest_common_prefix (set is)) (margin_of is)"
    using margin_of_mem [OF assms] by (intro Longest_common_prefix_prefix)
qed

lemma undent_lines_no_newline:
  assumes "\<forall>l \<in> set ls. CHR 0x0A \<notin> set l"
  shows "\<forall>l \<in> set (undent_lines ls). CHR 0x0A \<notin> set l"
  using assms by (auto simp: undent_lines_def Let_def clear_blank_def trim_prefix_def dest: in_set_dropD)

lemma split_undented: "split_on (CHR 0x0A) (str_join (undent_lines (split_on (CHR 0x0A) t)) [CHR 0x0A]) = undent_lines (split_on (CHR 0x0A) t)"
proof (rule split_on_join)
  show "undent_lines (split_on (CHR 0x0A) t) \<noteq> []" by (simp add: undent_lines_def Let_def)
  show "\<forall>l \<in> set (undent_lines (split_on (CHR 0x0A) t)). CHR 0x0A \<notin> set l"
    using split_on_pieces by (intro undent_lines_no_newline) blast
qed

section \<open>Properties\<close>

text \<open>Undenting twice is the same as once.\<close>

theorem undent_idempotent: "undent_it (undent_it text []) [] = undent_it text []"
  by (simp add: undent_it_def split_undented undent_lines_idem)

text \<open>The margin that is removed from every line is nothing or the whole common indentation, never a part
  of it.\<close>

theorem undent_margin: "margin_of (indents ls) = [] \<or> margin_of (indents ls) = Longest_common_prefix (set (indents ls))"
  using margin_is_common by blast

text \<open>Which of the two depends on the order of the lines: the same three lines keep their common blank in
  one order and lose it in another.\<close>

theorem undent_order_matters:
  "undent_lines [''  a'', [CHR '' '', CHR 0x09, CHR ''b''], '' c''] = [''  a'', [CHR '' '', CHR 0x09, CHR ''b''], '' c''] \<and>
   undent_lines ['' c'', ''  a'', [CHR '' '', CHR 0x09, CHR ''b'']] = [''c'', '' a'', [CHR 0x09, CHR ''b'']]"
  by (simp add: undent_lines_def indents_def margin_of_def clear_blank_def is_blank_def trim_prefix_def Let_def)

end
