(* ===== verification/Tailer.thy ===== *)
theory Tailer
  imports Executor "HOL-Library.Multiset"
begin

text \<open>
  \<^verbatim>\<open>internal/socket/tailer.go\<close>: lines from sockets or a PTY, written with a time stamp to a file. The
  file and the sockets are parameters; every method holds the tailer's mutex, so the calls of
  several connections are a sequence of calls in some order.
\<close>

section \<open>The tailer\<close>

definition sync_every :: nat where
  "sync_every = 100"

record tailer =
  tl_is_file :: bool
  tl_closed :: bool
  tl_gauge :: nat

text \<open>The writer: the formatted time, writing (bytes written and error), \<^verbatim>\<open>Sync\<close> and \<^verbatim>\<open>Close\<close> of a file.\<close>

record 'w tail_io =
  ti_stamp :: "('w, string) state"
  ti_write :: "string \<Rightarrow> ('w, nat \<times> goerr option) state"
  ti_sync :: "('w, goerr option) state"
  ti_close :: "('w, goerr option) state"

text \<open>\<^verbatim>\<open>NewTailer\<close>: the writer is a file, but not the standard output, or something else.\<close>

definition new_tailer :: "bool \<Rightarrow> bool \<Rightarrow> tailer" where
  "new_tailer os_file std_out =
     (if os_file \<and> \<not> std_out then \<lparr>tl_is_file = True, tl_closed = False, tl_gauge = sync_every\<rparr>
      else \<lparr>tl_is_file = False, tl_closed = False, tl_gauge = 0\<rparr>)"

definition stamped :: "string \<Rightarrow> string \<Rightarrow> string" where
  "stamped stamp line = ''['' @ stamp @ ''] '' @ line @ [CHR 0x0A]"

definition write_line :: "'w tail_io \<Rightarrow> tailer \<Rightarrow> string \<Rightarrow> ('w, goerr option \<times> tailer) state" where
  "write_line io t line =
     (if tl_closed t then State_Monad.return (Some (Err ''tailer is closed''), t)
      else do {
        stamp \<leftarrow> ti_stamp io;
        let with_stamp = stamped stamp line;
        (n, err) \<leftarrow> ti_write io with_stamp;
        case err of
          Some e \<Rightarrow> State_Monad.return (Some (wrapf ''tailer failed to write line: '' e), t)
        | None \<Rightarrow>
            if n \<noteq> length with_stamp then
              State_Monad.return (Some (Err (''tailer partial write ('' @ itoa (int n) @ '' out of '' @
                itoa (int (length with_stamp)) @ '' bytes)'')), t)
            else if \<not> tl_is_file t then State_Monad.return (None, t)
            else if tl_gauge t > 0 then State_Monad.return (None, t\<lparr>tl_gauge := tl_gauge t - 1\<rparr>)
            else do {
              r \<leftarrow> ti_sync io;
              case r of
                Some e \<Rightarrow> State_Monad.return (Some (wrapf ''file sync failed: '' e), t)
              | None \<Rightarrow> State_Monad.return (None, t\<lparr>tl_gauge := sync_every\<rparr>) } })"

text \<open>\<^verbatim>\<open>Close\<close>: an error of the last sync is only logged.\<close>

definition close_tailer :: "'w tail_io \<Rightarrow> tailer \<Rightarrow> ('w, goerr option \<times> tailer) state" where
  "close_tailer io t =
     (if tl_closed t then State_Monad.return (None, t)
      else if \<not> tl_is_file t then State_Monad.return (None, t\<lparr>tl_closed := True\<rparr>)
      else do {
        _ \<leftarrow> ti_sync io;
        r \<leftarrow> ti_close io;
        case r of
          Some e \<Rightarrow> State_Monad.return (Some (wrapf ''close failed: '' e), t)
        | None \<Rightarrow> State_Monad.return (None, t\<lparr>tl_closed := True\<rparr>) })"

section \<open>Reading lines\<close>

text \<open>\<^verbatim>\<open>bufio.ScanLines\<close> on the data of a whole stream: lines without their end, a last line without a
  newline included.\<close>

definition drop_cr :: "string \<Rightarrow> string" where
  "drop_cr l = (if l \<noteq> [] \<and> last l = CHR 0x0D then butlast l else l)"

definition go_scan_lines :: "string \<Rightarrow> string list" where
  "go_scan_lines data =
     (let ls = split_on (CHR 0x0A) data
      in map drop_cr (if last ls = [] then butlast ls else ls))"

text \<open>The loop over the lines; an error of a line is logged, and the loop goes on.\<close>

fun tail_lines :: "'w tail_io \<Rightarrow> tailer \<Rightarrow> string list \<Rightarrow> ('w, tailer) state" where
  "tail_lines io t [] = State_Monad.return t"
| "tail_lines io t (l # ls) = do { (_, t) \<leftarrow> write_line io t l; tail_lines io t ls }"

text \<open>A stream that ended: its data, and the error of the scanner if it did not end properly.\<close>

type_synonym stream = "string \<times> goerr option"

definition handle_connection :: "'w tail_io \<Rightarrow> tailer \<Rightarrow> stream \<Rightarrow> ('w, tailer) state" where
  "handle_connection io t str = tail_lines io t (go_scan_lines (fst str))"

definition run_pty ::
    "'w tail_io \<Rightarrow> ('w, goerr + stream) state \<Rightarrow> ('w, goerr option) state \<Rightarrow> string \<Rightarrow> tailer \<Rightarrow> ('w, goerr option \<times> tailer) state" where
  "run_pty io open_pty ctx_err path t = do {
     f \<leftarrow> open_pty;
     case f of
       Inl e \<Rightarrow> State_Monad.return (Some (wrapf (''failed to open PTY '' @ path @ '': '') e), t)
     | Inr str \<Rightarrow> do {
         t \<leftarrow> tail_lines io t (go_scan_lines (fst str));
         case snd str of
           None \<Rightarrow> State_Monad.return (None, t)
         | Some e \<Rightarrow> do {
             c \<leftarrow> ctx_err;
             State_Monad.return (if c \<noteq> None then None else Some (wrapf ''error reading from PTY: '' e), t) } } }"

text \<open>\<^verbatim>\<open>RunClient\<close> dials until it is connected; \<open>None\<close> means that the fuel ran out. \<open>shut\<close> recognises the
  error of a connection that was closed by the cancellation.\<close>

fun dial_until :: "nat \<Rightarrow> ('w, goerr + stream) state \<Rightarrow> (int \<Rightarrow> ('w, unit) state) \<Rightarrow> ('w, stream option) state" where
  "dial_until 0 dial sleep = State_Monad.return None"
| "dial_until (Suc n) dial sleep = do {
     r \<leftarrow> dial;
     case r of
       Inl e \<Rightarrow> do { _ \<leftarrow> sleep 337000000; dial_until n dial sleep }
     | Inr str \<Rightarrow> State_Monad.return (Some str) }"

definition run_client ::
    "nat \<Rightarrow> 'w tail_io \<Rightarrow> ('w, goerr + stream) state \<Rightarrow> (int \<Rightarrow> ('w, unit) state) \<Rightarrow> (goerr \<Rightarrow> bool) \<Rightarrow> tailer \<Rightarrow>
     ('w, (goerr option \<times> tailer) option) state" where
  "run_client fuel io dial sleep shut t = do {
     c \<leftarrow> dial_until fuel dial sleep;
     case c of
       None \<Rightarrow> State_Monad.return None
     | Some str \<Rightarrow> do {
         t \<leftarrow> tail_lines io t (go_scan_lines (fst str));
         State_Monad.return (Some (case snd str of
             None \<Rightarrow> (None, t)
           | Some e \<Rightarrow> (if shut e then None else Some (wrapf ''error reading from socket: '' e), t))) } }"

text \<open>
  \<^verbatim>\<open>RunServer\<close>. The accept loop sees a list of results; every connection is handled on its own, so
  what the writer gets is some merge of their lines (\<open>server_writes\<close>).
\<close>

datatype accepted = AClosed | AFailed goerr | AConn stream

fun accept_loop :: "accepted list \<Rightarrow> stream list \<times> bool" where
  "accept_loop [] = ([], False)"
| "accept_loop (AClosed # as) = ([], True)"
| "accept_loop (AFailed e # as) = accept_loop as"
| "accept_loop (AConn str # as) = (let (cs, done) = accept_loop as in (str # cs, done))"

record 'w server_io =
  si_remove_all :: "('w, goerr option) state"
  si_listen :: "('w, goerr option) state"
  si_chmod :: "nat \<Rightarrow> ('w, goerr option) state"
  si_accepts :: "('w, accepted list) state"
  si_close_listener :: "('w, unit) state"

text \<open>The error, the connections that were accepted, and whether the server returned.\<close>

definition run_server :: "'w server_io \<Rightarrow> ('w, goerr option \<times> stream list \<times> bool) state" where
  "run_server S = do {
     e1 \<leftarrow> si_remove_all S;
     case e1 of
       Some e \<Rightarrow> State_Monad.return (Some (wrapf ''failed to remove existing socket: '' e), [], True)
     | None \<Rightarrow> do {
     e2 \<leftarrow> si_listen S;
     case e2 of
       Some e \<Rightarrow> State_Monad.return (Some (wrapf ''failed to listen on UNIX socket: '' e), [], True)
     | None \<Rightarrow> do {
     e3 \<leftarrow> si_chmod S mode_600;
     case e3 of
       Some e \<Rightarrow> do {
         _ \<leftarrow> si_close_listener S;
         _ \<leftarrow> si_remove_all S;
         State_Monad.return (Some (wrapf ''failed to set permissions on UNIX socket: '' e), [], True) }
     | None \<Rightarrow> do {
     as \<leftarrow> si_accepts S;
     let (cs, closed) = accept_loop as;
     if closed then do {
       _ \<leftarrow> si_close_listener S;
       _ \<leftarrow> si_remove_all S;
       State_Monad.return (None, cs, True) }
     else State_Monad.return (None, cs, False) } } } }"

text \<open>The lines of several connections reach the tailer in any order that keeps the order of each.\<close>

inductive server_writes :: "string list list \<Rightarrow> string list \<Rightarrow> bool" where
  served: "list_all (\<lambda>q. q = []) qs \<Longrightarrow> server_writes qs []"
| write_next: "\<lbrakk>i < length qs; qs ! i = l # ls; server_writes (qs[i := ls]) ws\<rbrakk> \<Longrightarrow> server_writes qs (l # ws)"

section \<open>Lemmas\<close>

text \<open>A file that accepts every write: its content and the number of syncs; the clock is a list of stamps.\<close>

definition file_io :: "(nat \<Rightarrow> string) \<Rightarrow> (string list \<times> nat) tail_io" where
  "file_io clock =
     \<lparr>ti_stamp = State (\<lambda>(out, k). (clock (length out), (out, k))),
      ti_write = (\<lambda>b. State (\<lambda>(out, k). ((length b, None), (out @ [b], k)))),
      ti_sync = State (\<lambda>(out, k). (None, (out, Suc k))),
      ti_close = State (\<lambda>s. (None, s))\<rparr>"

lemma write_line_file:
  assumes "\<not> tl_closed t" and "tl_is_file t"
  shows "run_state (write_line (file_io clock) t l) (out, k) =
     (if tl_gauge t > 0 then ((None, t\<lparr>tl_gauge := tl_gauge t - 1\<rparr>), (out @ [stamped (clock (length out)) l], k))
      else ((None, t\<lparr>tl_gauge := sync_every\<rparr>), (out @ [stamped (clock (length out)) l], Suc k)))"
  using assms by (simp add: write_line_def file_io_def Let_def)

text \<open>How many lines are written since the last sync.\<close>

abbreviation unsynced :: "tailer \<Rightarrow> nat" where
  "unsynced t \<equiv> sync_every - tl_gauge t"

lemma one_round: "Suc (m + n) mod Suc m = n mod Suc m" "Suc (m + n) div Suc m = Suc (n div Suc m)"
  using mod_add_self1 [of "Suc m" n] div_add_self1 [of "Suc m" n] by simp_all

lemma tail_lines_file:
  assumes "\<not> tl_closed t" and "tl_is_file t" and "tl_gauge t \<le> sync_every"
  shows "run_state (tail_lines (file_io clock) t ls) (out, k) =
     (let n = unsynced t + length ls
      in (t\<lparr>tl_gauge := sync_every - n mod Suc sync_every\<rparr>,
          (out @ map (\<lambda>(i, l). stamped (clock i) l) (enumerate (length out) ls), k + n div Suc sync_every)))"
  using assms
proof (induction ls arbitrary: t out k)
  case Nil
  then have "unsynced t < Suc sync_every" by simp
  with Nil show ?case by (simp add: Let_def)
next
  case (Cons l ls)
  show ?case
  proof (cases "tl_gauge t > 0")
    case True
    then have "unsynced (t\<lparr>tl_gauge := tl_gauge t - 1\<rparr>) + length ls = unsynced t + length (l # ls)"
      using Cons.prems by simp
    with True Cons show ?thesis by (simp add: write_line_file Let_def)
  next
    case False
    then have n: "unsynced t + length (l # ls) = Suc sync_every + length ls" using Cons.prems by simp
    with False Cons n show ?thesis by (simp add: write_line_file Let_def one_round)
  qed
qed

lemma scan_lines_join:
  assumes "\<forall>l \<in> set ls. CHR 0x0A \<notin> set l" and "\<forall>l \<in> set ls. l = [] \<or> last l \<noteq> CHR 0x0D"
  shows "go_scan_lines (concat (map (\<lambda>l. l @ [CHR 0x0A]) ls)) = ls"
proof -
  have "split_on (CHR 0x0A) (concat (map (\<lambda>l. l @ [CHR 0x0A]) ls)) = ls @ [[]]"
    using assms(1) by (induction ls) (auto simp: split_on_app_sep)
  moreover have "map drop_cr ls = ls" using assms(2) by (induction ls) (auto simp: drop_cr_def)
  ultimately show ?thesis by (simp add: go_scan_lines_def)
qed

lemma server_writes_subseq: "\<lbrakk>server_writes qs ws; i < length qs\<rbrakk> \<Longrightarrow> subseq (qs ! i) ws"
proof (induction arbitrary: i rule: server_writes.induct)
  case (served qs)
  then show ?case by (simp add: list_all_length)
next
  case (write_next j qs l ls ws)
  then have "subseq (qs[j := ls] ! i) ws" by simp
  with write_next show ?case by (cases "i = j") auto
qed

lemma server_writes_mset: "server_writes qs ws \<Longrightarrow> mset ws = (\<Sum>q\<leftarrow>qs. mset q)"
proof (induction rule: server_writes.induct)
  case (served qs)
  then show ?case by (induction qs) auto
next
  case (write_next j qs l ls ws)
  then obtain as bs where qs: "qs = as @ (l # ls) # bs" "length as = j"
    by (metis id_take_nth_drop length_take less_imp_le min.absorb2)
  with write_next show ?case by (simp add: list_update_append)
qed

lemma dial_never: "\<forall>w. \<exists>e w'. run_state dial w = (Inl e, w') \<Longrightarrow> fst (run_state (dial_until n dial sleep) w) = None"
proof (induction n arbitrary: w)
  case (Suc n)
  from Suc.prems obtain e w' where "run_state dial w = (Inl e, w')" by blast
  with Suc show ?case by (simp split: prod.splits)
qed simp

section \<open>Properties\<close>

text \<open>A new tailer of a file writes every line once, in order, with its time stamp, and syncs the file after
  every 101st line.\<close>

theorem tailer_writes_lines:
  "run_state (tail_lines (file_io clock) (new_tailer True False) ls) ([], 0) =
     ((new_tailer True False)\<lparr>tl_gauge := 100 - length ls mod 101\<rparr>,
      (map (\<lambda>(i, l). stamped (clock i) l) (enumerate 0 ls), length ls div 101))"
  using tail_lines_file [of "new_tailer True False" clock ls "[]" 0]
  by (simp add: new_tailer_def sync_every_def Let_def)

text \<open>Whatever the scheduling of its connections, the server writes all their lines and no others, and the
  lines of each connection in their order.\<close>

theorem server_merges:
  assumes "server_writes (map (\<lambda>c. go_scan_lines (fst c)) cs) ws"
  shows "mset ws = (\<Sum>c\<leftarrow>cs. mset (go_scan_lines (fst c))) \<and>
         (\<forall>i < length cs. subseq (go_scan_lines (fst (cs ! i))) ws)"
  using server_writes_mset [OF assms] server_writes_subseq [OF assms] by (simp add: comp_def)

lemma sample_lines: "go_scan_lines ''ab'' = [''ab'']" "go_scan_lines ''c'' = [''c'']"
  by code_simp+

definition sample_streams :: "stream list" where
  "sample_streams = [(''ab'', None), (''c'', None)]"

theorem server_merges_witness:
  "server_writes (map (\<lambda>c. go_scan_lines (fst c)) sample_streams) [''c'', ''ab''] \<and>
   mset [''c'', ''ab''] = (\<Sum>c\<leftarrow>sample_streams. mset (go_scan_lines (fst c)))"
proof -
  have "server_writes [[], []] []" by (rule server_writes.served) simp
  then have "server_writes [[''ab''], []] [''ab'']" using server_writes.write_next [of 0 "[[''ab''], []]" "''ab''" "[]" "[]"] by simp
  then have "server_writes [[''ab''], [''c'']] [''c'', ''ab'']"
    using server_writes.write_next [of 1 "[[''ab''], [''c'']]" "''c''" "[]" "[''ab'']"] by simp
  then have w: "server_writes (map (\<lambda>c. go_scan_lines (fst c)) sample_streams) [''c'', ''ab'']"
    by (simp only: list.map fst_conv sample_lines sample_streams_def)
  show ?thesis by (rule conjI [OF w server_merges [OF w, THEN conjunct1]])
qed

text \<open>While the socket cannot be dialed, the client goes on dialing forever: nothing, not even a cancelled
  context, ends it.\<close>

theorem run_client_never_ends:
  assumes "\<forall>w. \<exists>e w'. run_state dial w = (Inl e, w')"
  shows "fst (run_state (run_client fuel io dial sleep shut t) w) = None"
  using dial_never [OF assms, of fuel sleep w]
  by (cases "run_state (dial_until fuel dial sleep) w") (simp add: run_client_def)

theorem run_client_never_ends_witness:
  "fst (run_state (run_client 5 (file_io (\<lambda>i. [])) (State (\<lambda>w. (Inl (Err ''refused''), w))) (\<lambda>d. State_Monad.return ())
     (\<lambda>e. False) (new_tailer True False)) ([], 0)) = None"
  by (rule run_client_never_ends) simp

end
