(* ===== verification/Reservation_Tree.thy ===== *)
theory Reservation_Tree
  imports Prelude "HOL-Library.Char_ord" "HOL-Library.List_Lexorder" "HOL-Library.Product_Lexorder"
begin

text \<open>
  The script \<^verbatim>\<open>internal/provider/host_reservation.bash\<close>, which the provider embeds and runs on the target:
  capacity is a tree of slot files, an empty slot is free, and a slot that is not empty holds the marker of the
  reservation that owns it. \<open>reserve\<close>, \<open>release\<close> and \<open>scan\<close> are functions of the tree, one run of the
  script each. The set of files never changes, only their contents. The names of files have no newline.
  \<open>ledger\<close> is what the tree means: who owns which slot.
\<close>

section \<open>The slot tree\<close>

text \<open>\<^verbatim>\<open>cpus/unit/<name>\<close>, \<^verbatim>\<open>ram/gb/<name>\<close> and \<^verbatim>\<open>devs<path>\<close> below the root.\<close>

datatype slot = Cpu string | Ram string | Dev string

fun slot_path :: "string \<Rightarrow> slot \<Rightarrow> string" where
  "slot_path root (Cpu b) = root @ ''/cpus/unit/'' @ b"
| "slot_path root (Ram b) = root @ ''/ram/gb/'' @ b"
| "slot_path root (Dev p) = root @ ''/devs'' @ p"

text \<open>
  \<open>st_files\<close> are the regular files, \<open>st_special\<close> the other entries below \<^verbatim>\<open>devs\<close>. \<open>st_write_fails\<close> says
  for a slot and its old content that writing it fails, and what is left in it then;
  \<open>st_clear_fails\<close> that truncating it fails. \<open>st_lock\<close> is the outcome of the lock file.
\<close>

datatype lock_outcome = Locked | CannotOpen | LockTimeout

record slot_tree =
  st_root :: bool
  st_cpu_dir :: bool
  st_ram_dir :: bool
  st_files :: "slot list"
  st_special :: "string list"
  st_content :: "slot \<Rightarrow> string"
  st_lock :: lock_outcome
  st_write_fails :: "slot \<Rightarrow> string \<Rightarrow> string option"
  st_clear_fails :: "slot \<Rightarrow> bool"
  st_user :: string
  st_host :: string

definition tab :: char where "tab = CHR 0x09"

definition newline :: char where "newline = CHR 0x0A"

text \<open>\<^verbatim>\<open>marker_id\<close>: the first field of the first line.\<close>

definition marker_id :: "string \<Rightarrow> string" where
  "marker_id s = takeWhile ((\<noteq>) tab) (takeWhile ((\<noteq>) newline) s)"

text \<open>\<^verbatim>\<open>sanitize\<close>.\<close>

definition sanitize :: "string \<Rightarrow> string" where
  "sanitize s = map (\<lambda>c. if c = tab \<or> c = newline \<or> c = CHR 0x0D then CHR '' '' else c) s"

definition marker :: "slot_tree \<Rightarrow> string \<Rightarrow> string \<Rightarrow> string \<Rightarrow> string \<Rightarrow> string" where
  "marker t i luser lhost cfgdir =
     i @ [tab] @ sanitize luser @ [tab] @ sanitize (st_user t) @ [tab] @ sanitize lhost @ [tab] @
     sanitize (st_host t) @ [tab] @ sanitize cfgdir"

text \<open>\<^verbatim>\<open>json_str\<close>: backslash and quote are escaped.\<close>

definition json_str :: "string \<Rightarrow> string" where
  "json_str s = [CHR 0x22] @ concat (map (\<lambda>c. if c = CHR 0x5C \<or> c = CHR 0x22 then [CHR 0x5C, c] else [c]) s) @ [CHR 0x22]"

text \<open>The name patterns and \<^verbatim>\<open>sort -n\<close>: by number, then by bytes.\<close>

definition numeric :: "string \<Rightarrow> bool" where
  "numeric b \<longleftrightarrow> b \<noteq> [] \<and> list_all is_digit b"

definition number_of :: "string \<Rightarrow> nat" where
  "number_of b = (case parse_nat b of Some n \<Rightarrow> n | None \<Rightarrow> 0)"

definition sort_n :: "string list \<Rightarrow> string list" where
  "sort_n bs = sort_key (\<lambda>b. (number_of b, b)) bs"

section \<open>Owned slots\<close>

fun cpu_name :: "slot \<Rightarrow> string option" where
  "cpu_name (Cpu b) = (if numeric b then Some b else None)"
| "cpu_name _ = None"

fun ram_name :: "slot \<Rightarrow> string option" where
  "ram_name (Ram b) = (if numeric b then Some b else None)"
| "ram_name _ = None"

fun dev_name :: "slot \<Rightarrow> string option" where
  "dev_name (Dev p) = (if p = [] then None else Some p)"
| "dev_name _ = None"

definition names :: "(slot \<Rightarrow> string option) \<Rightarrow> slot list \<Rightarrow> string list" where
  "names f ss = List.map_filter f ss"

definition owns :: "slot_tree \<Rightarrow> string \<Rightarrow> slot \<Rightarrow> bool" where
  "owns t i s \<longleftrightarrow> marker_id (st_content t s) = i"

definition owned :: "slot_tree \<Rightarrow> string \<Rightarrow> string list \<times> string list \<times> string list" where
  "owned t i =
     (let mine = filter (owns t i) (st_files t)
      in (if st_cpu_dir t then sort_n (names cpu_name mine) else [],
          if st_ram_dir t then sort_n (names ram_name mine) else [],
          sort (names dev_name mine)))"

text \<open>\<^verbatim>\<open>emit_owned\<close>.\<close>

definition emit_json :: "string list \<times> string list \<times> string list \<Rightarrow> string" where
  "emit_json o3 =
     (case o3 of (c, m, d) \<Rightarrow>
        ''{'' @ json_str ''cpus'' @ '':['' @ str_join c '','' @ ''],'' @ json_str ''mem'' @ '':['' @ str_join m '','' @ ''],'' @
        json_str ''devs'' @ '':['' @ str_join (map json_str d) '','' @ '']}'' @ [newline])"

section \<open>Reserve\<close>

text \<open>A failure is an exit code with a message.\<close>

type_synonym script_error = "nat \<times> string"

text \<open>\<^verbatim>\<open>acquire_lock\<close>.\<close>

definition acquire_lock :: "slot_tree \<Rightarrow> string \<Rightarrow> string \<Rightarrow> script_error option" where
  "acquire_lock t flockbin root =
     (if flockbin = [] then Some (6, ''flock is not available on the target (install util-linux)'')
      else case st_lock t of
        Locked \<Rightarrow> None
      | CannotOpen \<Rightarrow> Some (6, ''cannot open lock file '' @ root @ ''/.lock (is '' @ root @ '' writable?)'')
      | LockTimeout \<Rightarrow> Some (6, ''could not acquire reservation lock within 15s: '' @ root @ ''/.lock''))"

text \<open>
  \<^verbatim>\<open>select_free\<close>: the first \<open>want\<close> free slots by number. The counts of the script are the 64-bit integers that the
  resource prints; beyond \<open>2 ^ 63 - 1\<close>, which no attribute can hold, the test of the shell would fail and claim nothing, where
  the definition reports that the capacity is insufficient.
\<close>

definition free_slots :: "slot_tree \<Rightarrow> (slot \<Rightarrow> string option) \<Rightarrow> (string \<Rightarrow> slot) \<Rightarrow> slot list" where
  "free_slots t nm mk = filter (\<lambda>s. st_content t s = []) (map mk (sort_n (names nm (st_files t))))"

definition select_free ::
    "slot_tree \<Rightarrow> bool \<Rightarrow> (slot \<Rightarrow> string option) \<Rightarrow> (string \<Rightarrow> slot) \<Rightarrow> string \<Rightarrow> string \<Rightarrow> nat \<Rightarrow> nat \<Rightarrow> script_error + slot list" where
  "select_free t dir_exists nm mk dir label ecode want =
     (if want = 0 then Inr []
      else if \<not> dir_exists
      then Inl (3, ''no '' @ label @ '' capacity declared (missing directory '' @ dir @ ''); the operator must pre-create slot files'')
      else let free = free_slots t nm mk
           in if want \<le> length free then Inr (take want free)
              else Inl (ecode, ''insufficient free '' @ label @ '' under '' @ dir @ '': requested '' @ dec_of_nat want @
                '', only '' @ dec_of_nat (length free) @ '' free''))"

fun select_devs :: "slot_tree \<Rightarrow> string \<Rightarrow> string list \<Rightarrow> script_error + slot list" where
  "select_devs t root [] = Inr []"
| "select_devs t root (dev # devs) =
     (let s = Dev dev; path = slot_path root s
      in if s \<notin> set (st_files t) \<and> dev \<notin> set (st_special t)
         then Inl (7, ''requested device is not reservable (no capacity file): '' @ dev @ '' (expected '' @ path @
           ''); the operator must pre-create it'')
         else if s \<notin> set (st_files t) then Inl (7, ''requested device capacity path is not a regular file: '' @ path)
         else if st_content t s \<noteq> []
         then Inl (8, ''requested device already reserved by reservation '' @ [CHR 0x27] @ marker_id (st_content t s) @
           [CHR 0x27] @ '': '' @ dev)
         else (case select_devs t root devs of Inl e \<Rightarrow> Inl e | Inr ss \<Rightarrow> Inr (s # ss)))"

text \<open>The selection phase of \<^verbatim>\<open>do_reserve\<close>.\<close>

definition select_claim :: "slot_tree \<Rightarrow> string \<Rightarrow> nat \<Rightarrow> nat \<Rightarrow> string list \<Rightarrow> script_error + slot list" where
  "select_claim t root ncpu nmem devs =
     (case select_free t (st_cpu_dir t) cpu_name Cpu (root @ ''/cpus/unit'') ''CPUs'' 4 ncpu of
        Inl e \<Rightarrow> Inl e
      | Inr cs \<Rightarrow>
     (case select_free t (st_ram_dir t) ram_name Ram (root @ ''/ram/gb'') ''RAM'' 5 nmem of
        Inl e \<Rightarrow> Inl e
      | Inr ms \<Rightarrow>
     (case select_devs t root devs of
        Inl e \<Rightarrow> Inl e
      | Inr ds \<Rightarrow> Inr (cs @ ms @ ds))))"

text \<open>The commit phase: every claimed slot gets the marker, or what was written is truncated again.\<close>

fun clear_all :: "slot_tree \<Rightarrow> slot list \<Rightarrow> slot_tree" where
  "clear_all t [] = t"
| "clear_all t (s # ss) =
     clear_all (if st_clear_fails t s then t else t\<lparr>st_content := (st_content t)(s := [])\<rparr>) ss"

fun commit :: "slot_tree \<Rightarrow> string \<Rightarrow> slot list \<Rightarrow> slot list \<Rightarrow> slot option \<times> slot_tree" where
  "commit t mk [] written = (None, t)"
| "commit t mk (s # ss) written =
     (case st_write_fails t s (st_content t s) of
        None \<Rightarrow> commit (t\<lparr>st_content := (st_content t)(s := mk)\<rparr>) mk ss (written @ [s])
      | Some left \<Rightarrow> (Some s, clear_all (t\<lparr>st_content := (st_content t)(s := left)\<rparr>) written))"

text \<open>\<^verbatim>\<open>"${k:-d}"\<close>: a positional parameter that is unset or empty has its default.\<close>

definition positional :: "string list \<Rightarrow> nat \<Rightarrow> string \<Rightarrow> string" where
  "positional args k d = (if k < length args \<and> args ! k \<noteq> [] then args ! k else d)"

type_synonym outcome = "(script_error + string) \<times> slot_tree"

definition do_reserve :: "slot_tree \<Rightarrow> string \<Rightarrow> string \<Rightarrow> string \<Rightarrow> string list \<Rightarrow> outcome" where
  "do_reserve t flockbin i root args =
     (let ncpu = positional args 0 ''0''; nmem = positional args 1 ''0'';
          devs = (if 5 \<le> length args then drop 5 args else args)
      in if \<not> numeric ncpu then (Inl (1, ''internal error: cpu count not numeric: '' @ [CHR 0x27] @ ncpu @ [CHR 0x27]), t)
         else if \<not> numeric nmem then (Inl (1, ''internal error: mem count not numeric: '' @ [CHR 0x27] @ nmem @ [CHR 0x27]), t)
         else if \<not> st_root t then (Inl (2, ''reservations path does not exist: '' @ root), t)
         else case acquire_lock t flockbin root of
           Some e \<Rightarrow> (Inl e, t)
         | None \<Rightarrow>
           (case select_claim t root (number_of ncpu) (number_of nmem) devs of
              Inl e \<Rightarrow> (Inl e, t)
            | Inr claim \<Rightarrow>
              (case commit t (marker t i (positional args 2 []) (positional args 3 []) (positional args 4 [])) claim [] of
                 (Some s, t') \<Rightarrow>
                   (Inl (9, ''failed to write reservation marker to '' @ slot_path root s @
                      '' (rolled back all claims for this reservation)''), t')
               | (None, t') \<Rightarrow> (Inr (emit_json (owned t' i)), t'))))"

section \<open>Release, scan\<close>

text \<open>\<^verbatim>\<open>do_release\<close>: without a required lock; a file is looked at when the identifier is in it anywhere.\<close>

definition do_release :: "slot_tree \<Rightarrow> string \<Rightarrow> outcome" where
  "do_release t i =
     (if \<not> st_root t then (Inr [], t)
      else (Inr [], clear_all t (filter (\<lambda>s. sublist i (st_content t s) \<and> owns t i s) (st_files t))))"

definition do_scan :: "slot_tree \<Rightarrow> string \<Rightarrow> outcome" where
  "do_scan t i = (Inr (if st_root t then emit_json (owned t i) else emit_json ([], [], [])), t)"

text \<open>The script: mode, flock, identifier and root, then the arguments of the mode.\<close>

definition host_script :: "(string \<Rightarrow> slot_tree) \<Rightarrow> string list \<Rightarrow> (script_error + string) \<times> (string \<Rightarrow> slot_tree)" where
  "host_script hosts args =
     (let mode = positional args 0 []; flockbin = positional args 1 []; i = positional args 2 [];
          root0 = positional args 3 []; root = trim_suffix root0 ''/''; rest = drop 4 args; t = hosts root
      in if mode = [] \<or> i = [] \<or> root0 = [] then (Inl (1, ''internal error: missing mode/id/root''), hosts)
         else let (r, t') = (if mode = ''reserve'' then do_reserve t flockbin i root rest
                             else if mode = ''release'' then do_release t i
                             else if mode = ''scan'' then do_scan t i
                             else (Inl (1, ''unknown mode: '' @ mode), t))
              in (r, hosts(root := t')))"

section \<open>The ledger\<close>

text \<open>What a tree means: the owner of every slot. A reservation claims free slots, gives some of its own back, or
  does neither; where writes can fail half way (\<open>torn\<close>), one more slot that was free may be left with any content.\<close>

type_synonym ledger = "slot \<Rightarrow> string option"

definition ledger_of :: "slot_tree \<Rightarrow> ledger" where
  "ledger_of t s = (if st_content t s = [] then None else Some (marker_id (st_content t s)))"

inductive ledger_step :: "bool \<Rightarrow> string \<Rightarrow> bool \<Rightarrow> ledger \<Rightarrow> ledger \<Rightarrow> bool" for torn i where
  claim: "(\<forall>s \<in> S. l s = None) \<Longrightarrow> ledger_step torn i releasing l (\<lambda>s. if s \<in> S then Some i else l s)"
| half: "\<lbrakk>torn; \<forall>s \<in> S. l s = None; l x = None\<rbrakk> \<Longrightarrow>
     ledger_step torn i releasing l (\<lambda>s. if s = x then y else if s \<in> S then Some i else l s)"
| release: "(\<forall>s \<in> S. l s = Some i) \<Longrightarrow> ledger_step torn i True l (\<lambda>s. if s \<in> S then None else l s)"

lemma ledger_step_keep: "ledger_step torn i b l l"
  using ledger_step.claim [of "{}" l torn i b] by simp

lemma ledger_step_other:
  "ledger_step torn j b l l' \<Longrightarrow> l s = Some i \<Longrightarrow> i \<noteq> j \<or> \<not> b \<Longrightarrow> l' s = Some i"
  by (induction rule: ledger_step.induct) auto

text \<open>An identifier the script is given is one field; a failed write leaves the file as it was.\<close>

definition clean_id :: "string \<Rightarrow> bool" where
  "clean_id i \<longleftrightarrow> i \<noteq> [] \<and> tab \<notin> set i \<and> newline \<notin> set i"

definition writes_atomic :: "slot_tree \<Rightarrow> bool" where
  "writes_atomic t \<longleftrightarrow> (\<forall>s old left. st_write_fails t s old = Some left \<longrightarrow> left = old)"

section \<open>Lemmas\<close>

lemma sanitize_no_newline: "newline \<notin> set (sanitize s)"
  by (auto simp: sanitize_def newline_def tab_def)

lemma marker_id_marker:
  assumes "clean_id i"
  shows "marker_id (marker t i u h d) = i"
proof -
  have "takeWhile ((\<noteq>) newline) (marker t i u h d) = marker t i u h d"
    using assms sanitize_no_newline
    by (auto simp: takeWhile_eq_all_conv marker_def clean_id_def newline_def tab_def)
  moreover have "takeWhile ((\<noteq>) tab) (i @ tab # x) = i" for x
    using assms by (auto simp: clean_id_def takeWhile_append2 takeWhile_tail)
  ultimately show ?thesis by (simp add: marker_id_def) (simp add: marker_def)
qed

lemma marker_nonempty [simp]: "marker t i u h d \<noteq> []"
  by (simp add: marker_def)

lemma marker_id_sublist: "sublist (marker_id s) s"
  unfolding marker_id_def
  by (meson prefix_imp_sublist prefix_order.trans takeWhile_is_prefix)

lemma ledger_of_update:
  "ledger_of (t\<lparr>st_content := c\<rparr>) s = (if c s = [] then None else Some (marker_id (c s)))"
  by (simp add: ledger_of_def)

lemma ledger_of_None: "ledger_of t s = None \<longleftrightarrow> st_content t s = []"
  by (simp add: ledger_of_def)

lemma clear_all_content:
  "clear_all t ss = t\<lparr>st_content := (\<lambda>s. if s \<in> set ss \<and> \<not> st_clear_fails t s then [] else st_content t s)\<rparr>"
  by (induction t ss rule: clear_all.induct) (auto simp: fun_eq_iff)

lemma commit_ok:
  "commit t mk ss w = (None, t') \<Longrightarrow> t' = t\<lparr>st_content := (\<lambda>s. if s \<in> set ss then mk else st_content t s)\<rparr>"
  by (induction t mk ss w arbitrary: t' rule: commit.induct)
    (auto simp: fun_eq_iff split: option.splits)

text \<open>A failed commit leaves the slots as they were, or empty, or with the marker when the rollback fails; the slot whose write
  failed keeps what was written.\<close>

lemma commit_failed:
  assumes "commit t mk ss w = (Some x, t')"
    and "\<forall>s. st_content t s = (if s \<in> set w then mk else c0 s)" and "\<forall>s \<in> set w \<union> set ss. c0 s = []"
  shows "x \<in> set ss \<and> (\<exists>c. t' = t\<lparr>st_content := c\<rparr> \<and>
           (\<forall>s. c s = c0 s \<or> s \<in> set w \<union> set ss \<and> st_clear_fails t s \<and> c s = mk \<or> s = x \<and> \<not> writes_atomic t))"
  using assms
proof (induction t mk ss w arbitrary: t' rule: commit.induct)
  case (2 t mk s ss w)
  let ?t = "t\<lparr>st_content := (st_content t)(s := mk)\<rparr>"
  show ?case
  proof (cases "st_write_fails t s (st_content t s)")
    case None
    then have step: "commit ?t mk ss (w @ [s]) = (Some x, t')" using "2.prems"(1) by simp
    have atomic: "writes_atomic ?t = writes_atomic t" by (simp add: writes_atomic_def)
    have now: "\<forall>u. st_content ?t u = (if u \<in> set (w @ [s]) then mk else c0 u)" using "2.prems"(2) by simp
    have free: "\<forall>u \<in> set (w @ [s]) \<union> set ss. c0 u = []" using "2.prems"(3) by simp
    obtain c where "x \<in> set ss" "t' = ?t\<lparr>st_content := c\<rparr>"
      and "\<forall>u. c u = c0 u \<or> u \<in> set (w @ [s]) \<union> set ss \<and> st_clear_fails ?t u \<and> c u = mk \<or> u = x \<and> \<not> writes_atomic ?t"
      using "2.IH" [OF None step now free] by blast
    then show ?thesis unfolding atomic by (intro conjI exI [of _ c]) simp_all
  next
    case (Some left)
    let ?c = "(st_content t)(s := left)"
    have x: "x = s" and t': "t' = t\<lparr>st_content := (\<lambda>u. if u \<in> set w \<and> \<not> st_clear_fails t u then [] else ?c u)\<rparr>"
      using Some "2.prems"(1) by (auto simp: clear_all_content cong: if_cong)
    have "left = st_content t s" if "writes_atomic t" using that Some by (simp add: writes_atomic_def)
    with t' x "2.prems"(2,3) show ?thesis
      by (intro conjI exI [of _ "\<lambda>u. if u \<in> set w \<and> \<not> st_clear_fails t u then [] else ?c u"]) auto
  qed
qed simp

lemma set_names: "b \<in> set (names f ss) \<longleftrightarrow> (\<exists>s \<in> set ss. f s = Some b)"
  by (force simp: names_def List.map_filter_def)

lemma set_sort_n [simp]: "set (sort_n bs) = set bs"
  by (simp add: sort_n_def)

lemma kind_of_name:
  "cpu_name s = Some b \<longleftrightarrow> s = Cpu b \<and> numeric b"
  "ram_name s = Some b \<longleftrightarrow> s = Ram b \<and> numeric b"
  "dev_name s = Some b \<longleftrightarrow> s = Dev b \<and> b \<noteq> []"
  by (cases s; auto)+

lemma names_Cons: "names f (s # ss) = (case f s of None \<Rightarrow> names f ss | Some b \<Rightarrow> b # names f ss)"
  by (simp add: names_def List.map_filter_def split: option.splits)

lemma distinct_names:
  assumes "distinct ss" and "\<And>s u b. f s = Some b \<Longrightarrow> f u = Some b \<Longrightarrow> s = u"
  shows "distinct (names f ss)"
  using assms(1)
proof (induction ss)
  case (Cons s ss)
  have "b \<notin> set (names f ss)" if "f s = Some b" for b
    using assms(2) [OF that] Cons.prems unfolding set_names by auto
  with Cons show ?case by (simp add: names_Cons split: option.splits)
qed (simp add: names_def List.map_filter_def)

lemma distinct_sort_n [simp]: "distinct (sort_n bs) = distinct bs"
  by (simp add: sort_n_def)

lemma select_free_ok:
  assumes "select_free t ex nm mk dir label ec want = Inr ss"
  shows "ss = take want (free_slots t nm mk) \<and> length ss = want"
  using assms by (auto simp: select_free_def Let_def split: if_splits)

lemma select_devs_ok:
  "select_devs t root devs = Inr ss \<Longrightarrow>
     ss = map Dev devs \<and> (\<forall>s \<in> set ss. s \<in> set (st_files t) \<and> st_content t s = [])"
  by (induction devs arbitrary: ss) (auto simp: Let_def split: if_splits sum.splits)

definition claim_of :: "slot_tree \<Rightarrow> nat \<Rightarrow> nat \<Rightarrow> string list \<Rightarrow> slot list" where
  "claim_of t ncpu nmem devs =
     take ncpu (free_slots t cpu_name Cpu) @ take nmem (free_slots t ram_name Ram) @ map Dev devs"

lemma set_free_slots:
  "s \<in> set (free_slots t cpu_name Cpu) \<longleftrightarrow> st_content t s = [] \<and> s \<in> set (st_files t) \<and> cpu_name s \<noteq> None"
  "s \<in> set (free_slots t ram_name Ram) \<longleftrightarrow> st_content t s = [] \<and> s \<in> set (st_files t) \<and> ram_name s \<noteq> None"
  by (auto simp: free_slots_def set_names kind_of_name)

lemma select_claim_ok:
  assumes "select_claim t root ncpu nmem devs = Inr ss"
  shows "ss = claim_of t ncpu nmem devs \<and> ncpu \<le> length (free_slots t cpu_name Cpu) \<and>
         nmem \<le> length (free_slots t ram_name Ram) \<and>
         (\<forall>s \<in> set ss. s \<in> set (st_files t) \<and> st_content t s = [])"
proof -
  obtain cs ms ds where cs: "select_free t (st_cpu_dir t) cpu_name Cpu (root @ ''/cpus/unit'') ''CPUs'' 4 ncpu = Inr cs"
    and ms: "select_free t (st_ram_dir t) ram_name Ram (root @ ''/ram/gb'') ''RAM'' 5 nmem = Inr ms"
    and ds: "select_devs t root devs = Inr ds" and ss: "ss = cs @ ms @ ds"
    using assms by (auto simp: select_claim_def split: sum.splits)
  note parts = select_free_ok [OF cs] select_free_ok [OF ms] select_devs_ok [OF ds]
  then have "length (take ncpu (free_slots t cpu_name Cpu)) = ncpu" "length (take nmem (free_slots t ram_name Ram)) = nmem"
    by auto
  then have "ncpu \<le> length (free_slots t cpu_name Cpu)" "nmem \<le> length (free_slots t ram_name Ram)" by auto
  moreover have "\<forall>s \<in> set ss. s \<in> set (st_files t) \<and> st_content t s = []"
    using parts ss by (auto dest!: in_set_takeD simp: set_free_slots)
  ultimately show ?thesis using parts ss by (simp add: claim_of_def)
qed

lemma numeric_dec [simp]: "numeric (dec_of_nat n)" and number_of_dec [simp]: "number_of (dec_of_nat n) = n"
  by (auto simp: numeric_def number_of_def list_all_iff dest: set_dec_of_nat)

lemma positional_simps [simp]:
  "positional [] k d = d"
  "positional (x # xs) 0 d = (if x = [] then d else x)"
  "positional (x # xs) (Suc k) d = positional xs k d"
  "positional (x # xs) (numeral n) d = positional xs (pred_numeral n) d"
  by (auto simp: positional_def numeral_eq_Suc)

lemma do_reserve_run:
  "do_reserve t fb i root ([dec_of_nat ncpu, dec_of_nat nmem, u, h, d] @ devs) =
     (if \<not> st_root t then (Inl (2, ''reservations path does not exist: '' @ root), t)
      else case acquire_lock t fb root of
        Some e \<Rightarrow> (Inl e, t)
      | None \<Rightarrow>
        (case select_claim t root ncpu nmem devs of
           Inl e \<Rightarrow> (Inl e, t)
         | Inr claim \<Rightarrow>
           (case commit t (marker t i u h d) claim [] of
              (Some s, t') \<Rightarrow>
                (Inl (9, ''failed to write reservation marker to '' @ slot_path root s @
                   '' (rolled back all claims for this reservation)''), t')
            | (None, t') \<Rightarrow> (Inr (emit_json (owned t' i)), t'))))"
proof -
  let ?args = "[dec_of_nat ncpu, dec_of_nat nmem, u, h, d] @ devs"
  have args: "positional ?args 0 ''0'' = dec_of_nat ncpu" "positional ?args 1 ''0'' = dec_of_nat nmem"
    "positional ?args 2 [] = u" "positional ?args 3 [] = h" "positional ?args 4 [] = d"
    "(if 5 \<le> length ?args then drop 5 ?args else ?args) = devs"
    by simp_all
  show ?thesis unfolding do_reserve_def Let_def args number_of_dec by simp
qed

lemma do_reserve_ok:
  assumes "do_reserve t fb i root ([dec_of_nat ncpu, dec_of_nat nmem, u, h, d] @ devs) = (Inr out, t')"
  shows "select_claim t root ncpu nmem devs = Inr (claim_of t ncpu nmem devs) \<and> out = emit_json (owned t' i) \<and>
         st_root t \<and>
         t' = t\<lparr>st_content := (\<lambda>s. if s \<in> set (claim_of t ncpu nmem devs) then marker t i u h d else st_content t s)\<rparr>"
proof -
  obtain claim where claim: "select_claim t root ncpu nmem devs = Inr claim"
    and commit: "commit t (marker t i u h d) claim [] = (None, t')"
    and rest: "st_root t" "out = emit_json (owned t' i)"
    using assms unfolding do_reserve_run by (auto split: if_splits option.splits sum.splits prod.splits)
  show ?thesis using select_claim_ok [OF claim] claim commit_ok [OF commit] rest by simp
qed

lemma ledger_after_claim:
  assumes "clean_id i"
  shows "ledger_of (t\<lparr>st_content := (\<lambda>s. if s \<in> S then marker t i u h d else st_content t s)\<rparr>) s =
    (if s \<in> S then Some i else ledger_of t s)"
  using assms by (simp add: ledger_of_def marker_id_marker)

lemma free_slots_map:
  "free_slots t cpu_name Cpu = map Cpu (filter (\<lambda>b. st_content t (Cpu b) = []) (sort_n (names cpu_name (st_files t))))"
  "free_slots t ram_name Ram = map Ram (filter (\<lambda>b. st_content t (Ram b) = []) (sort_n (names ram_name (st_files t))))"
  by (simp_all add: free_slots_def filter_map comp_def)

lemma card_take_map:
  assumes "distinct xs" and "inj f" and "n \<le> length xs"
  shows "card {b. f b \<in> set (take n (map f xs))} = n"
proof -
  have "{b. f b \<in> set (take n (map f xs))} = set (take n xs)"
    using assms(2) by (auto simp: take_map inj_def)
  then show ?thesis using assms by (simp add: distinct_card)
qed

lemma sorted_take_drop:
  assumes "sorted (map key xs)" and "x \<in> set (take n xs)" and "y \<in> set (drop n xs)"
  shows "key x \<le> (key y :: 'b :: linorder)"
proof -
  have "sorted (map key (take n xs) @ map key (drop n xs))"
    using assms(1) by (simp flip: map_append)
  then show ?thesis using assms(2,3) by (auto simp: sorted_append)
qed

lemma free_cpu_order:
  assumes "s \<in> set (take n (free_slots t cpu_name Cpu))" and "s = Cpu b"
    and "Cpu b' \<in> set (free_slots t cpu_name Cpu)" and "Cpu b' \<notin> set (take n (free_slots t cpu_name Cpu))"
  shows "(number_of b, b) < (number_of b', b')"
proof -
  let ?xs = "filter (\<lambda>b. st_content t (Cpu b) = []) (sort_n (names cpu_name (st_files t)))"
  have sorted: "sorted (map (\<lambda>b. (number_of b, b)) ?xs)"
    unfolding sort_n_def by (simp add: filter_sort)
  have b: "b \<in> set (take n ?xs)"
    using assms(1,2) by (auto simp: free_slots_map take_map)
  have b': "b' \<notin> set (take n ?xs)" using assms(4) by (simp add: free_slots_map take_map image_iff)
  moreover have "b' \<in> set ?xs" using assms(3) unfolding free_slots_map by (simp add: image_iff)
  then have "b' \<in> set (take n ?xs @ drop n ?xs)" by simp
  ultimately have "b' \<in> set (drop n ?xs)" unfolding set_append by blast
  then have "(number_of b, b) \<le> (number_of b', b')" using sorted_take_drop [OF sorted b] by simp
  moreover have "b \<noteq> b'" using b b' by auto
  ultimately show ?thesis by (simp add: order.strict_iff_order)
qed

lemma take_other_kind:
  "Cpu b \<notin> set (take n (free_slots t ram_name Ram))" "Ram b \<notin> set (take n (free_slots t cpu_name Cpu))"
  "Dev p \<notin> set (take n (free_slots t ram_name Ram))" "Dev p \<notin> set (take n (free_slots t cpu_name Cpu))"
  by (auto simp: set_free_slots dest!: in_set_takeD)

lemma mem_claim_of:
  "Cpu b \<in> set (claim_of t ncpu nmem devs) \<longleftrightarrow> Cpu b \<in> set (take ncpu (free_slots t cpu_name Cpu))"
  "Ram b \<in> set (claim_of t ncpu nmem devs) \<longleftrightarrow> Ram b \<in> set (take nmem (free_slots t ram_name Ram))"
  "Dev p \<in> set (claim_of t ncpu nmem devs) \<longleftrightarrow> p \<in> set devs"
  unfolding claim_of_def set_append Un_iff using take_other_kind by auto

lemma distinct_kind_names:
  assumes "distinct (st_files t)"
  shows "distinct (sort_n (names cpu_name (st_files t)))" "distinct (sort_n (names ram_name (st_files t)))"
  using assms by (auto intro!: distinct_names simp: kind_of_name)

lemma card_claim_of:
  assumes "distinct (st_files t)" "ncpu \<le> length (free_slots t cpu_name Cpu)" "nmem \<le> length (free_slots t ram_name Ram)"
  shows "card {b. Cpu b \<in> set (claim_of t ncpu nmem devs)} = ncpu"
    "card {b. Ram b \<in> set (claim_of t ncpu nmem devs)} = nmem"
  using assms distinct_kind_names [OF assms(1)] unfolding mem_claim_of free_slots_map
  by (auto intro!: card_take_map simp: inj_def)

text \<open>What releasing does to the ledger, and a run of the script of any mode.\<close>

lemma release_files: "sublist i (st_content t s) \<and> owns t i s \<longleftrightarrow> owns t i s"
  using marker_id_sublist by (auto simp: owns_def)

lemma ledger_after_clear:
  "ledger_of (clear_all t ss) s = (if s \<in> set ss \<and> \<not> st_clear_fails t s then None else ledger_of t s)"
  by (simp add: clear_all_content ledger_of_def)

lemma owns_ledger: "i \<noteq> [] \<Longrightarrow> owns t i s \<longleftrightarrow> ledger_of t s = Some i"
  by (auto simp: owns_def ledger_of_def marker_id_def)

lemma release_ledger:
  assumes "i \<noteq> []" and "do_release t i = (r, t')"
  shows "ledger_step torn i True (ledger_of t) (ledger_of t')"
proof (cases "st_root t")
  case True
  let ?S = "{s \<in> set (st_files t). owns t i s \<and> \<not> st_clear_fails t s}"
  have "ledger_of t' = (\<lambda>s. if s \<in> ?S then None else ledger_of t s)"
    using assms True by (auto simp: do_release_def release_files ledger_after_clear)
  moreover have "\<forall>s \<in> ?S. ledger_of t s = Some i" using owns_ledger [OF assms(1)] by auto
  ultimately show ?thesis using ledger_step.release [of ?S "ledger_of t" i torn] by simp
qed (use assms ledger_step_keep in \<open>simp add: do_release_def\<close>)

lemma do_reserve_commits:
  assumes "do_reserve t fb i root args = (r, t')" and "t' \<noteq> t"
  shows "\<exists>n m ds claim u h d x. select_claim t root n m ds = Inr claim \<and>
           commit t (marker t i u h d) claim [] = (x, t') \<and> (x = None \<longleftrightarrow> isl r = False)"
proof -
  let ?ncpu = "number_of (positional args 0 ''0'')" and ?nmem = "number_of (positional args 1 ''0'')"
  let ?devs = "if 5 \<le> length args then drop 5 args else args"
  let ?mk = "marker t i (positional args 2 []) (positional args 3 []) (positional args 4 [])"
  obtain claim where claim: "select_claim t root ?ncpu ?nmem ?devs = Inr claim"
    and snd: "snd (commit t ?mk claim []) = t'" and fst: "fst (commit t ?mk claim []) = None \<longleftrightarrow> isl r = False"
    using assms unfolding do_reserve_def Let_def by (cases "select_claim t root ?ncpu ?nmem ?devs")
      (auto simp del: if_split split: if_splits option.splits prod.splits)
  obtain x where x: "commit t ?mk claim [] = (x, t')" using snd by (metis prod.collapse)
  then have "x = None \<longleftrightarrow> isl r = False" using fst by simp
  with claim x show ?thesis by (intro exI conjI)
qed

lemma reserve_ledger:
  assumes "clean_id i" and "\<not> writes_atomic t \<Longrightarrow> torn" and "do_reserve t fb i root args = (r, t')"
  shows "ledger_step torn i b (ledger_of t) (ledger_of t')"
proof (cases "t' = t")
  case False
  then obtain n m ds claim u h d x where claim: "select_claim t root n m ds = Inr claim"
    and x: "commit t (marker t i u h d) claim [] = (x, t')"
    using do_reserve_commits [OF assms(3)] by blast
  have free: "\<forall>s \<in> set claim. ledger_of t s = None" and empty: "\<forall>s \<in> set claim. st_content t s = []"
    using select_claim_ok [OF claim] by (simp_all add: ledger_of_None)
  show ?thesis
  proof (cases x)
    case None
    with x have t': "t' = t\<lparr>st_content := (\<lambda>s. if s \<in> set claim then marker t i u h d else st_content t s)\<rparr>"
      by (simp add: commit_ok)
    have "ledger_of t' = (\<lambda>s. if s \<in> set claim then Some i else ledger_of t s)"
      unfolding t' using ledger_after_claim [OF assms(1)] by (intro ext)
    with free show ?thesis using ledger_step.claim [of "set claim" "ledger_of t" torn i b] by simp
  next
    case (Some y)
    obtain c where y: "y \<in> set claim" and c: "t' = t\<lparr>st_content := c\<rparr>"
      and cs: "\<forall>s. c s = st_content t s \<or> s \<in> set claim \<and> c s = marker t i u h d \<or> s = y \<and> \<not> writes_atomic t"
      using commit_failed [of t "marker t i u h d" claim "[]" y t' "st_content t"] empty x Some by auto
    let ?S = "{s \<in> set claim. c s = marker t i u h d}"
    have same: "ledger_of t' s = (if s \<in> ?S then Some i else ledger_of t s)" if "s \<noteq> y \<or> writes_atomic t" for s
      using cs [THEN spec, of s] that marker_id_marker [OF assms(1), of t u h d] unfolding c ledger_of_update ledger_of_def
      by auto
    show ?thesis
    proof (cases "writes_atomic t")
      case True
      then have "ledger_of t' = (\<lambda>s. if s \<in> ?S then Some i else ledger_of t s)" using same by (intro ext) simp
      with free show ?thesis using ledger_step.claim [of ?S "ledger_of t" torn i b] by simp
    next
      case False
      have "ledger_of t' = (\<lambda>s. if s = y then ledger_of t' y else if s \<in> ?S then Some i else ledger_of t s)"
        using same by (intro ext) simp
      with free y assms(2) [OF False] show ?thesis
        using ledger_step.half [of torn ?S "ledger_of t" y i b "ledger_of t' y"] by simp
    qed
  qed
qed (simp add: ledger_step_keep)

text \<open>One run of the script changes the tree of its root as the ledger allows.\<close>

lemma host_script_ledger:
  assumes "host_script hosts args = (r, hosts')" and "i = positional args 2 []" and "clean_id i"
    and "\<forall>root. writes_atomic (hosts root) \<or> torn"
  shows "ledger_step torn i (positional args 0 [] = ''release'') (ledger_of (hosts root)) (ledger_of (hosts' root))"
proof -
  let ?root = "trim_suffix (positional args 3 []) ''/''" and ?t = "hosts (trim_suffix (positional args 3 []) ''/'')"
  let ?fb = "positional args 1 []" and ?mode = "positional args 0 []"
  consider "hosts' = hosts" | t' where "hosts' = hosts(?root := t')" "do_reserve ?t ?fb i ?root (drop 4 args) = (r, t')"
    | t' where "hosts' = hosts(?root := t')" "do_release ?t i = (r, t')" "?mode = ''release''"
    using assms(1,2) by (auto simp: host_script_def Let_def do_scan_def split: if_splits prod.splits)
  then show ?thesis
  proof cases
    case 2
    have "\<not> writes_atomic ?t \<Longrightarrow> torn" using assms(4) by blast
    from reserve_ledger [OF assms(3) this 2(2)] 2(1) show ?thesis by (auto simp: ledger_step_keep)
  next
    case 3
    then show ?thesis using release_ledger [of i ?t r _ torn] assms(3)
      by (auto simp: ledger_step_keep clean_id_def)
  qed (simp add: ledger_step_keep)
qed

section \<open>Sequences of runs\<close>

fun run_scripts :: "(string \<Rightarrow> slot_tree) \<Rightarrow> string list list \<Rightarrow> (string \<Rightarrow> slot_tree)" where
  "run_scripts hosts [] = hosts"
| "run_scripts hosts (args # calls) = run_scripts (snd (host_script hosts args)) calls"

definition run_id :: "string list \<Rightarrow> string" where
  "run_id args = positional args 2 []"

definition is_release :: "string list \<Rightarrow> bool" where
  "is_release args \<longleftrightarrow> positional args 0 [] = ''release''"

inductive ledger_run :: "bool \<Rightarrow> (string \<times> bool) list \<Rightarrow> ledger \<Rightarrow> ledger \<Rightarrow> bool" for torn where
  stay: "ledger_run torn [] l l"
| go_on: "ledger_step torn i b l l' \<Longrightarrow> ledger_run torn ops l' l'' \<Longrightarrow> ledger_run torn ((i, b) # ops) l l''"

inductive_cases ledger_run_ConsE: "ledger_run torn (op # ops) l l'"

text \<open>Whether writes are atomic is not changed by the script.\<close>

lemma commit_frame: "commit t mk ss w = (x, t') \<Longrightarrow> \<exists>c. t' = t\<lparr>st_content := c\<rparr>"
proof (induction t mk ss w arbitrary: x t' rule: commit.induct)
  case (1 t mk w)
  then show ?case by (intro exI [of _ "st_content t"]) simp
next
  case (2 t mk s ss w)
  then show ?case
    by (cases "st_write_fails t s (st_content t s)") (fastforce, auto simp: clear_all_content)
qed

lemma host_script_frame:
  assumes "host_script hosts args = (r, hosts')"
  shows "\<exists>c. hosts' root = (hosts root)\<lparr>st_content := c\<rparr>"
proof -
  have same: "\<exists>c. t = t\<lparr>st_content := c\<rparr>" for t :: slot_tree by (intro exI [of _ "st_content t"]) simp
  have "\<exists>c. t' = t\<lparr>st_content := c\<rparr>" if "do_reserve t fb i root' as = (r, t')" for t fb i root' as t'
    using do_reserve_commits [OF that] commit_frame same by (cases "t' = t") (simp, blast)
  moreover have "\<exists>c. t' = t\<lparr>st_content := c\<rparr>" if "do_release t i = (r, t')" for t i t'
    using that same by (auto simp: do_release_def clear_all_content split: if_splits)
  ultimately show ?thesis
    using assms same by (auto simp: host_script_def Let_def do_scan_def split: if_splits prod.splits)
qed

lemma host_script_atomic:
  assumes "host_script hosts args = (r, hosts')"
  shows "writes_atomic (hosts' root) = writes_atomic (hosts root)"
proof -
  obtain c where "hosts' root = (hosts root)\<lparr>st_content := c\<rparr>" using host_script_frame [OF assms] by blast
  then show ?thesis by (simp add: writes_atomic_def)
qed

lemma run_scripts_ledger:
  assumes "\<forall>root. writes_atomic (hosts root) \<or> torn" and "\<forall>args \<in> set calls. clean_id (run_id args)"
  shows "ledger_run torn (map (\<lambda>args. (run_id args, is_release args)) calls) (ledger_of (hosts root))
           (ledger_of (run_scripts hosts calls root))"
  using assms
proof (induction hosts calls rule: run_scripts.induct)
  case (2 hosts args calls)
  obtain r hosts' where run: "host_script hosts args = (r, hosts')" by (metis surj_pair)
  have "ledger_step torn (run_id args) (is_release args) (ledger_of (hosts root)) (ledger_of (hosts' root))"
    using host_script_ledger [OF run] "2.prems" by (simp add: run_id_def is_release_def)
  moreover have "\<forall>root. writes_atomic (hosts' root) \<or> torn" using host_script_atomic [OF run] "2.prems" by simp
  ultimately show ?case using "2.IH" "2.prems" run by (auto intro!: ledger_run.go_on)
qed (simp add: ledger_run.stay)

lemma ledger_run_kept:
  "ledger_run torn ops l l' \<Longrightarrow> l s = Some i \<Longrightarrow> (i, True) \<notin> set ops \<Longrightarrow> l' s = Some i"
  by (induction rule: ledger_run.induct) (auto dest: ledger_step_other)

lemma reserve_fails_keeps:
  assumes "do_reserve t fb i root args = (Inl e, t')" and "writes_atomic t" and "\<forall>s. \<not> st_clear_fails t s"
  shows "t' = t"
proof (rule ccontr)
  assume "t' \<noteq> t"
  then obtain n m ds claim u h d x where claim: "select_claim t root n m ds = Inr claim"
    and x: "commit t (marker t i u h d) claim [] = (x, t')" "x = None \<longleftrightarrow> isl (Inl e :: script_error + string) = False"
    using do_reserve_commits [OF assms(1)] by blast
  show False
  proof (cases x)
    case None
    then show False using x by simp
  next
    case (Some y)
    obtain c where "t' = t\<lparr>st_content := c\<rparr>" and "\<forall>s. c s = st_content t s"
      using commit_failed [of t "marker t i u h d" claim "[]" y t' "st_content t"] assms(2,3) x Some
        select_claim_ok [OF claim] by auto
    then show False using \<open>t' \<noteq> t\<close> by (simp add: fun_eq_iff [symmetric])
  qed
qed

lemma release_restores:
  assumes "clean_id i" and "\<forall>s. ledger_of t s \<noteq> Some i" and "\<forall>s \<in> S. s \<in> set (st_files t) \<and> st_content t s = []"
    and "st_root t" and "\<forall>s. \<not> st_clear_fails t s"
  shows "do_release (t\<lparr>st_content := (\<lambda>s. if s \<in> S then marker t i u h d else st_content t s)\<rparr>) i = (Inr [], t)"
proof -
  let ?t = "t\<lparr>st_content := (\<lambda>s. if s \<in> S then marker t i u h d else st_content t s)\<rparr>"
  have i: "i \<noteq> []" using assms(1) by (simp add: clean_id_def)
  have owns: "owns ?t i s \<longleftrightarrow> s \<in> S" for s
    using owns_ledger [OF i, of ?t s] ledger_after_claim [OF assms(1), where t = t and S = S and u = u and h = h and d = d and s = s] assms(2) by auto
  have content: "(\<lambda>s. if (s \<in> set (st_files t) \<and> owns ?t i s) \<and> \<not> st_clear_fails ?t s then [] else st_content ?t s) = st_content t"
    using assms(3,5) by (auto simp: owns fun_eq_iff)
  have "clear_all ?t (filter (\<lambda>s. sublist i (st_content ?t s) \<and> owns ?t i s) (st_files ?t)) = ?t\<lparr>st_content := st_content t\<rparr>"
    unfolding clear_all_content release_files
    by (rule arg_cong [of _ _ "\<lambda>c. ?t\<lparr>st_content := c\<rparr>"], rule trans [OF _ content]) simp
  then show ?thesis using assms(4) by (simp add: do_release_def)
qed

section \<open>A small tree\<close>

definition sample_tree :: slot_tree where
  "sample_tree =
     \<lparr>st_root = True, st_cpu_dir = True, st_ram_dir = True,
      st_files = [Cpu ''10'', Cpu ''3'', Cpu ''7'', Ram ''0'', Dev ''/dev/sdb''], st_special = [],
      st_content = (\<lambda>s. if s = Cpu ''3'' then ''aaaa0000'' else []), st_lock = Locked,
      st_write_fails = (\<lambda>s old. None), st_clear_fails = (\<lambda>s. False), st_user = ''lab'', st_host = ''node''\<rparr>"

lemma sample_tree_simps [simp]:
  "st_root sample_tree" "distinct (st_files sample_tree)" "writes_atomic sample_tree" "\<not> st_clear_fails sample_tree s"
  "st_lock sample_tree = Locked" "st_write_fails sample_tree s old = None"
  by (simp_all add: sample_tree_def writes_atomic_def)

lemma sample_dirs: "st_cpu_dir sample_tree" "st_ram_dir sample_tree"
  by (simp_all add: sample_tree_def)

lemma sample_free:
  "free_slots sample_tree cpu_name Cpu = [Cpu ''7'', Cpu ''10'']" "free_slots sample_tree ram_name Ram = [Ram ''0'']"
  by code_simp+

lemma sample_claim: "select_claim sample_tree root 1 1 [''/dev/sdb''] = Inr [Cpu ''7'', Ram ''0'', Dev ''/dev/sdb'']"
  by (simp add: select_claim_def select_free_def sample_free) (simp add: sample_tree_def)

lemma commit_all: "\<forall>s old. st_write_fails t s old = None \<Longrightarrow>
    commit t mk ss w = (None, t\<lparr>st_content := (\<lambda>s. if s \<in> set ss then mk else st_content t s)\<rparr>)"
  by (induction t mk ss w rule: commit.induct) (auto simp: fun_eq_iff)

definition sample_reserved :: slot_tree where
  "sample_reserved =
     sample_tree\<lparr>st_content := (\<lambda>s. if s \<in> set [Cpu ''7'', Ram ''0'', Dev ''/dev/sdb'']
       then marker sample_tree ''cafe0001'' ''u'' ''h'' ''d'' else st_content sample_tree s)\<rparr>"

lemma sample_reserve:
  "do_reserve sample_tree ''flock'' ''cafe0001'' ''/r'' ([dec_of_nat 1, dec_of_nat 1, ''u'', ''h'', ''d''] @ [''/dev/sdb'']) =
     (Inr (emit_json (owned sample_reserved ''cafe0001'')), sample_reserved)"
proof -
  have lock: "acquire_lock sample_tree ''flock'' ''/r'' = None" by (simp add: acquire_lock_def)
  have commit: "commit sample_tree (marker sample_tree ''cafe0001'' ''u'' ''h'' ''d'') [Cpu ''7'', Ram ''0'', Dev ''/dev/sdb''] [] =
      (None, sample_reserved)"
    unfolding sample_reserved_def by (rule commit_all) simp
  show ?thesis unfolding do_reserve_run lock sample_claim option.case sum.case commit prod.case by simp
qed

lemma sample_clean: "clean_id ''cafe0001''"
  by (simp add: clean_id_def tab_def newline_def)

lemma sample_ledger: "ledger_of sample_tree s = (if s = Cpu ''3'' then Some ''aaaa0000'' else None)"
  by (simp add: ledger_of_def sample_tree_def) code_simp

definition sample_calls :: "string list list" where
  "sample_calls =
     [[''reserve'', ''flock'', ''cafe0001'', ''/r'', ''1'', ''1'', ''u'', ''h'', ''d'', ''/dev/sdb''],
      [''release'', ''flock'', ''cafe0001'', ''/r'']]"

lemma sample_calls_ids: "\<forall>args \<in> set sample_calls. run_id args = ''cafe0001''"
  by (simp add: sample_calls_def run_id_def)

section \<open>Properties\<close>

text \<open>C36: A reservation that succeeds claims the requested number of CPUs and of GB and exactly the requested
  devices; every slot it claims was free and is its own now, nobody else's slot changes, and of the free CPUs it takes
  those with the lowest numbers.\<close>

theorem reserve_claims:
  assumes "do_reserve t fb i root ([dec_of_nat ncpu, dec_of_nat nmem, u, h, d] @ devs) = (Inr out, t')"
    and "clean_id i" and "distinct (st_files t)"
  shows "card {b. ledger_of t' (Cpu b) \<noteq> ledger_of t (Cpu b)} = ncpu \<and>
         card {b. ledger_of t' (Ram b) \<noteq> ledger_of t (Ram b)} = nmem \<and>
         {p. ledger_of t' (Dev p) \<noteq> ledger_of t (Dev p)} = set devs \<and>
         (\<forall>s. ledger_of t' s \<noteq> ledger_of t s \<longrightarrow> s \<in> set (st_files t) \<and> ledger_of t s = None \<and> ledger_of t' s = Some i) \<and>
         (\<forall>b b'. ledger_of t' (Cpu b) \<noteq> ledger_of t (Cpu b) \<and> numeric b' \<and> Cpu b' \<in> set (st_files t) \<and>
            ledger_of t' (Cpu b') = None \<longrightarrow> (number_of b, b) < (number_of b', b'))"
proof -
  let ?S = "set (claim_of t ncpu nmem devs)"
  note ok = do_reserve_ok [OF assms(1)]
  then have claim: "ncpu \<le> length (free_slots t cpu_name Cpu)" "nmem \<le> length (free_slots t ram_name Ram)"
    "\<forall>s \<in> ?S. s \<in> set (st_files t) \<and> st_content t s = []"
    using select_claim_ok by blast+
  have ledger: "ledger_of t' s = (if s \<in> ?S then Some i else ledger_of t s)" for s
    using ok ledger_after_claim [OF assms(2), where t = t and S = ?S] by auto
  have changed: "ledger_of t' s \<noteq> ledger_of t s \<longleftrightarrow> s \<in> ?S" for s
    using claim(3) by (simp add: ledger) (metis ledger_of_None option.distinct(1))
  have low: "(number_of b, b) < (number_of b', b')"
    if "Cpu b \<in> ?S" "numeric b'" "Cpu b' \<in> set (st_files t)" "ledger_of t' (Cpu b') = None" for b b'
    using that ledger [of "Cpu b'"] free_cpu_order [of "Cpu b" ncpu t b b']
    by (auto simp: mem_claim_of set_free_slots ledger_of_None split: if_splits)
  show ?thesis
    unfolding changed using card_claim_of [OF assms(3) claim(1,2)] claim(3) ledger low
    by (auto simp: mem_claim_of ledger_of_None)
qed

theorem reserve_claims_witness:
  "card {b. ledger_of sample_reserved (Cpu b) \<noteq> ledger_of sample_tree (Cpu b)} = 1 \<and>
   {p. ledger_of sample_reserved (Dev p) \<noteq> ledger_of sample_tree (Dev p)} = {''/dev/sdb''}"
  using reserve_claims [OF sample_reserve sample_clean] by simp

text \<open>A reservation that fails changes nothing, as long as failed writes leave the file alone and its own
  markers can be truncated: not enough capacity, a missing or reserved device, no lock, an unwritable slot.\<close>

theorem reserve_all_or_nothing:
  assumes "do_reserve t fb i root args = (Inl e, t')" and "writes_atomic t" and "\<forall>s. \<not> st_clear_fails t s"
  shows "t' = t"
  using assms by (rule reserve_fails_keeps)

theorem reserve_all_or_nothing_witness:
  "\<exists>e. do_reserve sample_tree ''flock'' ''cafe0001'' ''/r'' ([dec_of_nat 3, dec_of_nat 0, ''u'', ''h'', ''d''] @ []) = (Inl e, sample_tree)"
proof -
  have lock: "acquire_lock sample_tree ''flock'' ''/r'' = None" by (simp add: acquire_lock_def)
  obtain e where claim: "select_claim sample_tree ''/r'' 3 0 [] = Inl e"
    by (simp add: select_claim_def select_free_def sample_dirs sample_free)
  have "do_reserve sample_tree ''flock'' ''cafe0001'' ''/r'' ([dec_of_nat 3, dec_of_nat 0, ''u'', ''h'', ''d''] @ []) = (Inl e, sample_tree)"
    unfolding do_reserve_run lock claim option.case sum.case by simp
  then show ?thesis using reserve_all_or_nothing [of sample_tree "''flock''" "''cafe0001''" "''/r''"] by fastforce
qed

text \<open>A write that fails half way is not rolled back: the slot keeps what was written, although the script
  reports that all claims of the reservation were.\<close>

theorem reserve_partial_write:
  assumes "select_claim t root ncpu nmem devs = Inr [s]" and "st_write_fails t s [] = Some left"
    and "st_root t" "fb \<noteq> []" "st_lock t = Locked"
  shows "do_reserve t fb i root ([dec_of_nat ncpu, dec_of_nat nmem, u, h, d] @ devs) =
    (Inl (9, ''failed to write reservation marker to '' @ slot_path root s @
       '' (rolled back all claims for this reservation)''), t\<lparr>st_content := (st_content t)(s := left)\<rparr>)"
proof -
  have lock: "acquire_lock t fb root = None" using assms(4,5) by (simp add: acquire_lock_def)
  have "st_content t s = []" using select_claim_ok [OF assms(1)] by simp
  then have commit: "commit t (marker t i u h d) [s] [] = (Some s, t\<lparr>st_content := (st_content t)(s := left)\<rparr>)"
    using assms(2) by simp
  show ?thesis unfolding do_reserve_run lock assms(1) option.case sum.case commit prod.case using assms(3) by simp
qed

theorem reserve_partial_write_witness:
  "\<exists>e t'. do_reserve (sample_tree\<lparr>st_write_fails := (\<lambda>s old. Some ''cafe'')\<rparr>) ''flock'' ''cafe0001'' ''/r''
     ([dec_of_nat 1, dec_of_nat 0, ''u'', ''h'', ''d''] @ []) = (Inl e, t') \<and> ledger_of t' (Cpu ''7'') = Some ''cafe''"
proof -
  let ?t = "sample_tree\<lparr>st_write_fails := (\<lambda>s old. Some ''cafe'')\<rparr>"
  have "free_slots ?t cpu_name Cpu = free_slots sample_tree cpu_name Cpu" by (simp add: free_slots_def)
  then have claim: "select_claim ?t ''/r'' 1 0 [] = Inr [Cpu ''7'']"
    by (simp add: select_claim_def select_free_def sample_free) (simp add: sample_tree_def)
  have "marker_id ''cafe'' = ''cafe''" by code_simp
  then show ?thesis
    using reserve_partial_write [OF claim, of "''cafe''" "''flock''" "''cafe0001''" "''u''" "''h''" "''d''"]
    by (simp add: ledger_of_def)
qed

text \<open>C6: Releasing a reservation that was made gives back the whole tree as it was before: the release succeeds, empties every
  slot that the reservation had claimed and touches nothing else. The identifier is one that the provider draws and owned no
  slot before, and markers can be truncated.\<close>

theorem reserve_release_restores:
  assumes "do_reserve t fb i root ([dec_of_nat ncpu, dec_of_nat nmem, u, h, d] @ devs) = (Inr out, t')"
    and "clean_id i" and "\<forall>s. ledger_of t s \<noteq> Some i" and "\<forall>s. \<not> st_clear_fails t s"
  shows "do_release t' i = (Inr [], t)"
proof -
  note ok = do_reserve_ok [OF assms(1)]
  have "\<forall>s \<in> set (claim_of t ncpu nmem devs). s \<in> set (st_files t) \<and> st_content t s = []"
    using ok select_claim_ok by blast
  from release_restores [OF assms(2,3) this _ assms(4)] ok show ?thesis by simp
qed

theorem reserve_release_restores_witness: "do_release sample_reserved ''cafe0001'' = (Inr [], sample_tree)"
  using reserve_release_restores [OF sample_reserve sample_clean] by (simp add: sample_ledger)

text \<open>C37: Every sequence of runs of the script, of any reservations and with any outcomes, is a sequence of steps of
  the ledger: a run claims free slots for its own identifier, a release gives back slots of its own, and, only where
  the write of a marker can fail half way on some target, a run may leave one further slot that was free with any content.\<close>

theorem scripts_refine_ledger:
  assumes "\<forall>args \<in> set calls. clean_id (run_id args)"
  shows "ledger_run (\<exists>root. \<not> writes_atomic (hosts root)) (map (\<lambda>args. (run_id args, is_release args)) calls)
    (ledger_of (hosts root)) (ledger_of (run_scripts hosts calls root))"
  using assms by (intro run_scripts_ledger) blast+

theorem scripts_refine_ledger_witness:
  "ledger_run False [(''cafe0001'', False), (''cafe0001'', True)] (ledger_of sample_tree)
     (ledger_of (run_scripts (\<lambda>root. sample_tree) sample_calls ''/r''))"
  using scripts_refine_ledger [of sample_calls "\<lambda>root. sample_tree" "''/r''"] sample_calls_ids sample_clean
  by (simp add: sample_calls_def is_release_def run_id_def)

text \<open>C38: Whatever other reservations are made and released in between, in any order and with any failures of the lock, the
  capacity, the writes (also half-written markers) and the truncations, a slot stays with the reservation that owns it until
  that one is released.\<close>

theorem reservation_kept:
  assumes "\<forall>args \<in> set calls. clean_id (run_id args)"
    and "ledger_of (hosts root) s = Some i" and "\<forall>args \<in> set calls. \<not> (is_release args \<and> run_id args = i)"
  shows "ledger_of (run_scripts hosts calls root) s = Some i"
proof -
  have "\<forall>root. writes_atomic (hosts root) \<or> True" by simp
  from ledger_run_kept [OF run_scripts_ledger [OF this assms(1)] assms(2)] assms(3) show ?thesis by auto
qed

text \<open>Every write of this tree stops after four bytes.\<close>

theorem reservation_kept_witness:
  "ledger_of (run_scripts (\<lambda>root. sample_tree\<lparr>st_write_fails := (\<lambda>s old. Some ''cafe'')\<rparr>) sample_calls ''/r'') (Cpu ''3'') = Some ''aaaa0000''"
proof -
  have "ledger_of (sample_tree\<lparr>st_write_fails := (\<lambda>s old. Some ''cafe'')\<rparr>) (Cpu ''3'') = Some ''aaaa0000''"
    using sample_ledger [of "Cpu ''3''"] by (simp add: ledger_of_def split: if_splits)
  then show ?thesis by (intro reservation_kept) (use sample_calls_ids sample_clean in auto)
qed

end
