(* ===== verification/Host_Reservation.thy ===== *)
theory Host_Reservation
  imports Provider_Conf Reservation_Tree
begin

text \<open>
  The resource \<^verbatim>\<open>zedamigo_host_reservation\<close> (\<^verbatim>\<open>internal/provider/host_reservation_resource.go\<close>): CPUs, memory
  and devices of a target, reserved by running the script of \<open>Reservation_Tree\<close> through the executor.
  \<open>json.Unmarshal\<close> of the script's output is a parameter, and so are the user and the host name of the
  machine Terraform runs on.
\<close>

record reservation_model =
  rv_id :: "string tfval"
  rv_path :: "string tfval"
  rv_cpus :: "int tfval"
  rv_mem :: "int tfval"
  rv_devs :: "string tfval list tfval"
  rv_cpus_reserved :: "int list tfval"
  rv_mem_reserved :: "int list tfval"
  rv_devs_reserved :: "string list tfval"
  rv_cpus_count :: "int tfval"
  rv_mem_total :: "int tfval"

record reserved_result =
  rr_cpus :: "int list"
  rr_mem :: "int list"
  rr_devs :: "string list"

text \<open>The embedded script, \<^verbatim>\<open>user.Current\<close>, \<^verbatim>\<open>os.Getenv\<close>, \<^verbatim>\<open>os.Hostname\<close> and \<^verbatim>\<open>json.Unmarshal\<close> into a
  \<^verbatim>\<open>reservedResult\<close>.\<close>

record reservation_ops =
  ro_script :: string
  ro_user :: "goerr + string"
  ro_getenv :: "string \<Rightarrow> string"
  ro_hostname :: "goerr + string"
  ro_json :: "string \<Rightarrow> goerr + reserved_result"

abbreviation reservation_title :: string where
  "reservation_title \<equiv> ''Host Reservation Resource Error''"

definition reservation_dir :: "'w provider_conf \<Rightarrow> string \<Rightarrow> string" where
  "reservation_dir conf i = path_join [pc_lib_path conf, ''host_reservations'', i]"

definition reserved_root :: "reservation_model \<Rightarrow> string" where
  "reserved_root data =
     (if is_known (rv_path data) \<and> tf_string (rv_path data) \<noteq> [] then tf_string (rv_path data)
      else ''/var/lib/zedamigo/reservations'')"

text \<open>\<^verbatim>\<open>sanitizeReservationField\<close>, which mirrors the function of the script.\<close>

definition sanitize_reservation_field :: "string \<Rightarrow> string" where
  "sanitize_reservation_field s =
     map (\<lambda>c. if c = CHR 0x09 then CHR '' '' else if c = CHR 0x0A then CHR '' '' else if c = CHR 0x0D then CHR '' '' else c) s"

definition local_reservation_fields :: "reservation_ops \<Rightarrow> goerr + string \<Rightarrow> string \<times> string \<times> string" where
  "local_reservation_fields rs wd =
     (let user = (case ro_user rs of
                    Inr u \<Rightarrow> if u \<noteq> [] then u
                      else if ro_getenv rs ''USER'' \<noteq> [] then ro_getenv rs ''USER'' else ro_getenv rs ''LOGNAME''
                  | Inl _ \<Rightarrow> if ro_getenv rs ''USER'' \<noteq> [] then ro_getenv rs ''USER'' else ro_getenv rs ''LOGNAME'');
          host = (case ro_hostname rs of Inr h \<Rightarrow> h | Inl _ \<Rightarrow> []);
          dir = (case wd of Inr d \<Rightarrow> d | Inl _ \<Rightarrow> [])
      in (sanitize_reservation_field user, sanitize_reservation_field host, sanitize_reservation_field dir))"

section \<open>Running the script\<close>

definition run_script ::
    "reservation_ops \<Rightarrow> 'w provider_conf \<Rightarrow> string \<Rightarrow> string list \<Rightarrow> ('w, cmd_outcome) state" where
  "run_script rs conf log_dir args =
     ex_run (pc_exec conf) log_dir (pc_bash conf) ([''-c'', ro_script rs, ''za-host-reservation''] @ args)"

definition script_err_detail :: "result \<Rightarrow> goerr option \<Rightarrow> string" where
  "script_err_detail res err =
     (let msg = trim_space (r_stderr res)
      in if msg \<noteq> [] then msg
         else case err of Some e \<Rightarrow> err_msg e | None \<Rightarrow> ''exit code '' @ itoa (r_exit_code res))"

definition parse_reserved_json :: "reservation_ops \<Rightarrow> string \<Rightarrow> goerr + reserved_result" where
  "parse_reserved_json rs out =
     (let s = trim_space out
      in if s = [] then Inl (Err ''empty output from the reservation script'')
         else case ro_json rs s of
           Inl e \<Rightarrow> Inl (wrapf (''can't parse reservation script output '' @ go_quote s @ '': '') e)
         | Inr rr \<Rightarrow> Inr rr)"

definition apply_reserved :: "reservation_model \<Rightarrow> reserved_result \<Rightarrow> reservation_model" where
  "apply_reserved data rr =
     data\<lparr>rv_cpus_reserved := TKnown (rr_cpus rr), rv_mem_reserved := TKnown (rr_mem rr),
          rv_devs_reserved := TKnown (rr_devs rr), rv_cpus_count := TKnown (int (length (rr_cpus rr))),
          rv_mem_total := TKnown (int (length (rr_mem rr)))\<rparr>"

section \<open>Devices\<close>

text \<open>\<^verbatim>\<open>cleanValidateDevs\<close>: what is wrong with an entry, then the loop over the entries.\<close>

definition dev_error :: "string set \<Rightarrow> string \<Rightarrow> string option" where
  "dev_error seen d =
     (if d = [] then Some ''A device entry must not be empty.''
      else if list_ex is_space d then Some (''Device entry '' @ go_quote d @ '' must not contain whitespace.'')
      else if str_contains d ''..'' then Some (''Device entry '' @ go_quote d @ '' must not contain '' @ [CHR 0x27] @ ''..'' @ [CHR 0x27] @ ''.'')
      else if path_clean d \<noteq> d
      then Some (''Device entry '' @ go_quote d @ '' is not a clean path; did you mean '' @ go_quote (path_clean d) @ ''?'')
      else if \<not> has_prefix d ''/dev/'' \<or> length d \<le> length ''/dev/''
      then Some (''Device entry '' @ go_quote d @ '' must be an absolute path under /dev/.'')
      else if d \<in> seen then Some (''Device entry '' @ go_quote d @ '' is listed more than once.'')
      else None)"

fun validate_devs :: "string set \<Rightarrow> string list \<Rightarrow> string list \<times> diagnostics" where
  "validate_devs seen [] = ([], [])"
| "validate_devs seen (d # ds) =
     (case dev_error seen d of
        Some e \<Rightarrow> (let (out, diags) = validate_devs seen ds in (out, add_error ''Invalid device entry'' e # diags))
      | None \<Rightarrow> (let (out, diags) = validate_devs (insert d seen) ds in (d # out, diags)))"

fun clean_validate_devs :: "'w controller \<Rightarrow> string tfval list tfval \<Rightarrow> string list \<times> diagnostics" where
  "clean_validate_devs ct (TKnown es) =
     (case elements_as ct es of Inl diags \<Rightarrow> ([], diags) | Inr raw \<Rightarrow> validate_devs {} raw)"
| "clean_validate_devs ct _ = ([], [])"

section \<open>Create\<close>

text \<open>The checks of \<^verbatim>\<open>Create\<close> before it touches the target: the devices, the numbers of CPUs and of GB.\<close>

definition reservation_request ::
    "'w controller \<Rightarrow> 'w provider_conf \<Rightarrow> reservation_model \<Rightarrow> diagnostics + (int \<times> int \<times> string list)" where
  "reservation_request ct conf data =
     (if pc_flock conf = []
      then Inl [add_error reservation_title
                 (''The `flock` executable was not found on the target. The zedamigo_host_reservation resource '' @
                  ''requires a Linux target with util-linux `flock` installed.'')]
      else let (devs, diags) = clean_validate_devs ct (rv_devs data)
           in if has_error diags then Inl diags
              else let ncpu = tf_int (rv_cpus data); nmem = tf_int (rv_mem data)
                   in if ncpu < 0 \<or> nmem < 0 then Inl (diags @ [add_error reservation_title ''cpus and mem must be >= 0.''])
                      else if ncpu = 0 \<and> nmem = 0 \<and> devs = []
                      then Inl (diags @ [add_error reservation_title
                        ''At least one of `cpus`, `mem`, or `devs` must be set to a non-zero/non-empty value.''])
                      else Inr (ncpu, nmem, devs))"

definition claim_slots ::
    "reservation_ops \<Rightarrow> 'w provider_conf \<Rightarrow> string \<Rightarrow> string \<Rightarrow> string \<Rightarrow> string list \<Rightarrow> ('w, reserved_result) handler" where
  "claim_slots rs conf d i root args = do {
     (res, err) \<leftarrow> run_script rs conf d ([''reserve'', pc_flock conf, i, root] @ args);
     if err \<noteq> None then do {
       _ \<leftarrow> ex_remove (pc_exec conf) d;
       failE [add_error ''Host Reservation claim failed'' (script_err_detail res err)] }
     else case parse_reserved_json rs (r_stdout res) of
       Inl e \<Rightarrow> do {
         _ \<leftarrow> run_script rs conf d [''release'', pc_flock conf, i, root];
         _ \<leftarrow> ex_remove (pc_exec conf) d;
         failE [add_error reservation_title (err_msg e)] }
     | Inr rr \<Rightarrow> okE rr }"

definition reservation_create ::
    "reservation_ops \<Rightarrow> 'w controller \<Rightarrow> 'w provider_conf \<Rightarrow> reservation_model \<Rightarrow> ('w, reservation_model) handler" where
  "reservation_create rs ct conf data =
     (case reservation_request ct conf data of
        Inl diags \<Rightarrow> failE diags
      | Inr (ncpu, nmem, devs) \<Rightarrow>
        bindE (mapE (\<lambda>e. [add_error reservation_title (''Unable to generate a new resource ID: '' @ err_msg e)])
                 (new_resource_id ct)) (\<lambda>i.
        let root = reserved_root data; d = reservation_dir conf i;
            data = data\<lparr>rv_id := TKnown i, rv_path := TKnown root\<rparr>
        in bindE (orE (ex_mkdir_all (pc_exec conf) d mode_700)
               (\<lambda>e. [add_error reservation_title (''Unable to create resource specific directory: '' @ err_msg e)])) (\<lambda>_.
           bindE (orE (create_tf_back_pointer ct (pc_exec conf) d)
               (\<lambda>e. [add_error reservation_title (''Unable to create resource specific file: '' @ err_msg e)])) (\<lambda>_.
           do { wd \<leftarrow> ct_getwd ct;
                let (u, h, cd) = local_reservation_fields rs wd;
                bindE (claim_slots rs conf d i root ([itoa ncpu, itoa nmem, u, h, cd] @ devs))
                  (\<lambda>rr. okE (apply_reserved data rr)) }))))"

section \<open>Read, Update, Delete, Import\<close>

definition reservation_read ::
    "reservation_ops \<Rightarrow> 'w provider_conf \<Rightarrow> reservation_model \<Rightarrow> ('w, reservation_model option) handler" where
  "reservation_read rs conf data = do {
     let i = tf_string (rv_id data);
     let root = reserved_root data;
     (res, err) \<leftarrow> run_script rs conf (reservation_dir conf i) [''scan'', [], i, root];
     if err \<noteq> None then failE [add_error ''Host Reservation scan failed'' (script_err_detail res err)]
     else case parse_reserved_json rs (r_stdout res) of
       Inl e \<Rightarrow> failE [add_error reservation_title (err_msg e)]
     | Inr rr \<Rightarrow>
         if rr_cpus rr = [] \<and> rr_mem rr = [] \<and> rr_devs rr = [] then okE None
         else okE (Some (apply_reserved (data\<lparr>rv_path := TKnown root\<rparr>) rr)) }"

definition reservation_update :: "reservation_model \<Rightarrow> ('w, reservation_model) handler" where
  "reservation_update data =
     failE [add_error ''Host Reservation Resource Update Error''
              ''Update is not supported; every input attribute forces replacement.'']"

text \<open>The release may fail with a warning; only the directory makes \<^verbatim>\<open>Delete\<close> fail.\<close>

definition reservation_delete ::
    "reservation_ops \<Rightarrow> 'w provider_conf \<Rightarrow> reservation_model \<Rightarrow> ('w, diagnostics) state" where
  "reservation_delete rs conf data = do {
     let i = tf_string (rv_id data);
     let root = reserved_root data;
     let d = reservation_dir conf i;
     (res, err) \<leftarrow> run_script rs conf d [''release'', pc_flock conf, i, root];
     let warn = (if err \<noteq> None then [add_warning ''Host Reservation release reported an error'' (script_err_detail res err)] else []);
     r \<leftarrow> ex_remove (pc_exec conf) d;
     case r of
       Some e \<Rightarrow> State_Monad.return (warn @ [add_error ''Host Reservation Resource Delete Error''
                   (''Can't delete resource directory: '' @ err_msg e)])
     | None \<Rightarrow> State_Monad.return warn }"

text \<open>\<^verbatim>\<open>ImportState\<close>: the identifier, and the path when there is one.\<close>

definition reservation_import :: "string \<Rightarrow> string \<times> string option" where
  "reservation_import s = (case str_cut s (CHR '':'') of Some (i, p) \<Rightarrow> (i, Some p) | None \<Rightarrow> (s, None))"

section \<open>The script as the resource calls it\<close>

lemma host_script_modes:
  assumes "i \<noteq> []" and "root \<noteq> []"
  shows "host_script hosts ([''reserve'', fb, i, root] @ args) =
      (fst (do_reserve (hosts (trim_suffix root ''/'')) fb i (trim_suffix root ''/'') args),
       hosts(trim_suffix root ''/'' := snd (do_reserve (hosts (trim_suffix root ''/'')) fb i (trim_suffix root ''/'') args)))"
    and "host_script hosts [''release'', fb, i, root] =
      (fst (do_release (hosts (trim_suffix root ''/'')) i),
       hosts(trim_suffix root ''/'' := snd (do_release (hosts (trim_suffix root ''/'')) i)))"
    and "host_script hosts [''scan'', fb, i, root] = (fst (do_scan (hosts (trim_suffix root ''/'')) i), hosts)"
  using assms by (simp_all add: host_script_def Let_def do_scan_def split: prod.splits)

lemma reserved_root_nonempty [simp]: "reserved_root data \<noteq> []"
  by (simp add: reserved_root_def)

lemma reserved_root_fixed:
  "reserved_root (apply_reserved (data\<lparr>rv_id := i, rv_path := TKnown (reserved_root data)\<rparr>) rr) = reserved_root data"
  by (simp add: reserved_root_def apply_reserved_def)

lemma apply_reserved_again:
  "apply_reserved ((apply_reserved data rr)\<lparr>rv_path := rv_path data\<rparr>) rr = apply_reserved data rr"
  by (simp add: apply_reserved_def)

lemma reservation_request_nonneg:
  assumes "reservation_request ct conf data = Inr (ncpu, nmem, devs)"
  shows "itoa ncpu = dec_of_nat (nat ncpu) \<and> itoa nmem = dec_of_nat (nat nmem) \<and> pc_flock conf \<noteq> []"
  using assms by (auto simp: reservation_request_def Let_def itoa_def split: if_splits prod.splits)

section \<open>The target of a reservation\<close>

lemma hex_byte_clean: "tab \<notin> set (hex_byte b)" "newline \<notin> set (hex_byte b)"
proof -
  have digit: "hex_char d \<noteq> tab \<and> hex_char d \<noteq> newline" if "d < 16" for d
    using hex_val_char [OF that] by (auto simp: hex_val_def tab_def newline_def)
  have "unat b < 256" using unsigned_less [of b, where ?'a = nat] by simp
  then have "unat b div 16 < 16" "unat b mod 16 < 16" by auto
  from this [THEN digit] show "tab \<notin> set (hex_byte b)" "newline \<notin> set (hex_byte b)"
    unfolding hex_byte_def by auto
qed

text \<open>
  What the resource relies on: the executor runs the script to its end and returns what it printed, and nothing else it
  does touches the slot trees; the identifiers are clean.
\<close>

locale reservation_target =
  fixes rs :: reservation_ops and ct :: "'w controller" and conf :: "'w provider_conf"
    and hosts :: "'w \<Rightarrow> string \<Rightarrow> slot_tree"
  assumes script_run: "run_state (run_script rs conf d args) w = ((res, err), w') \<Longrightarrow>
      hosts w' = snd (host_script (hosts w) args) \<and>
      (case fst (host_script (hosts w) args) of Inr out \<Rightarrow> err = None \<and> r_stdout res = out | Inl _ \<Rightarrow> err \<noteq> None)"
    and mkdir_keeps: "hosts (snd (run_state (ex_mkdir_all (pc_exec conf) p m) w)) = hosts w"
    and write_keeps: "hosts (snd (run_state (ex_write_file (pc_exec conf) p b m) w)) = hosts w"
    and remove_keeps: "hosts (snd (run_state (ex_remove (pc_exec conf) p) w)) = hosts w"
    and rand_keeps: "hosts (snd (run_state (ct_rand4 ct) w)) = hosts w"
    and getwd_keeps: "hosts (snd (run_state (ct_getwd ct) w)) = hosts w"
    and rand_length: "run_state (ct_rand4 ct) w = (Inr bs, w') \<Longrightarrow> length bs = 4"
begin

lemma keeps_run:
  "run_state (ex_mkdir_all (pc_exec conf) p m) w = (r, w') \<Longrightarrow> hosts w' = hosts w"
  "run_state (ex_write_file (pc_exec conf) p b m) w = (r, w') \<Longrightarrow> hosts w' = hosts w"
  "run_state (ex_remove (pc_exec conf) p) w = (r, w') \<Longrightarrow> hosts w' = hosts w"
  "run_state (ct_rand4 ct) w = (r2, w') \<Longrightarrow> hosts w' = hosts w"
  "run_state (ct_getwd ct) w = (r3, w') \<Longrightarrow> hosts w' = hosts w"
  using mkdir_keeps write_keeps remove_keeps rand_keeps getwd_keeps by (metis snd_conv)+

lemma back_pointer_keeps:
  "run_state (create_tf_back_pointer ct (pc_exec conf) d) w = (r, w') \<Longrightarrow> hosts w' = hosts w"
  by (auto simp: create_tf_back_pointer_def keeps_run split: prod.splits sum.splits option.splits)

lemma resource_id_clean:
  assumes "run_state (new_resource_id ct) w = (Inr i, w')"
  shows "clean_id i"
proof -
  obtain b where b: "run_state (ct_rand4 ct) w = (Inr b, w')" and i: "i = concat (map hex_byte b)"
    using assms by (auto simp: new_resource_id_def split: prod.splits sum.splits)
  have "length b = 4" using rand_length [OF b] .
  then have "i \<noteq> []" unfolding i by (cases b) (auto simp: hex_byte_def)
  moreover have "tab \<notin> set i" "newline \<notin> set i"
    unfolding i by (auto simp: hex_byte_clean)
  ultimately show ?thesis by (simp add: clean_id_def)
qed

lemma new_id_keeps: "run_state (new_resource_id ct) w = (r, w') \<Longrightarrow> hosts w' = hosts w"
  by (auto simp: new_resource_id_def keeps_run split: prod.splits sum.splits)

text \<open>Claiming either runs \<open>reserve\<close>, or it ends with the trees as a failed run leaves them.\<close>

lemma claim_slots_cases:
  assumes "run_state (claim_slots rs conf d i root args) w = (r, w')"
    and "host_script (hosts w) ([''reserve'', pc_flock conf, i, root] @ args) = (sr, h)"
  shows "(\<exists>e. sr = Inl e \<and> isl r \<and> hosts w' = h) \<or>
         (\<exists>out. sr = Inr out \<and> (case parse_reserved_json rs out of
            Inr rr \<Rightarrow> r = Inr rr \<and> hosts w' = h
          | Inl e \<Rightarrow> isl r \<and> hosts w' = snd (host_script h [''release'', pc_flock conf, i, root])))"
proof -
  let ?args = "[''reserve'', pc_flock conf, i, root] @ args"
  obtain res err w1 where run: "run_state (run_script rs conf d ?args) w = ((res, err), w1)" by (metis surj_pair)
  note after = script_run [OF run]
  show ?thesis
  proof (cases sr)
    case (Inl e)
    then have "err \<noteq> None" "hosts w1 = h" using after assms(2) by simp_all
    then show ?thesis
      using assms(1) run Inl keeps_run(3) by (auto simp: claim_slots_def split: prod.splits)
  next
    case (Inr out)
    then have ok: "err = None" "hosts w1 = h" "r_stdout res = out" using after assms(2) by simp_all
    show ?thesis
    proof (cases "parse_reserved_json rs out")
      case (Inr rr)
      then show ?thesis using assms(1) run ok \<open>sr = Inr out\<close> by (simp add: claim_slots_def)
    next
      case (Inl e)
      obtain q w2 where q: "run_state (run_script rs conf d [''release'', pc_flock conf, i, root]) w1 = (q, w2)"
        by (metis surj_pair)
      then have "hosts w2 = snd (host_script h [''release'', pc_flock conf, i, root])"
        using script_run ok(2) by (metis surj_pair)
      then show ?thesis
        using assms(1) run ok q Inl \<open>sr = Inr out\<close> keeps_run(3) by (auto simp: claim_slots_def split: prod.splits)
    qed
  qed
qed

lemma create_cases:
  assumes "run_state (reservation_create rs ct conf data) w = (r, w')"
  shows "(isl r \<and> hosts w' = hosts w) \<or>
    (\<exists>ncpu nmem devs i u h cd w0 w1 r1. reservation_request ct conf data = Inr (ncpu, nmem, devs) \<and>
       run_state (new_resource_id ct) w = (Inr i, w0) \<and> clean_id i \<and> hosts w1 = hosts w \<and>
       run_state (claim_slots rs conf (reservation_dir conf i) i (reserved_root data)
         ([dec_of_nat (nat ncpu), dec_of_nat (nat nmem), u, h, cd] @ devs)) w1 = (r1, w') \<and>
       r = map_sum id (apply_reserved (data\<lparr>rv_id := TKnown i, rv_path := TKnown (reserved_root data)\<rparr>)) r1)"
proof (cases "reservation_request ct conf data")
  case (Inl ds)
  then show ?thesis using assms by (auto simp: reservation_create_def)
next
  case (Inr req)
  obtain ncpu nmem devs where "req = (ncpu, nmem, devs)" by (cases req)
  with Inr have req: "reservation_request ct conf data = Inr (ncpu, nmem, devs)" by simp
  note words = reservation_request_nonneg [OF req]
  obtain ri w0 where id: "run_state (new_resource_id ct) w = (ri, w0)" by (metis surj_pair)
  show ?thesis
  proof (cases ri)
    case (Inl e)
    then show ?thesis using assms id new_id_keeps [OF id] by (auto simp: reservation_create_def req)
  next
    case (Inr i)
    let ?d = "reservation_dir conf i"
    obtain rm wm where m: "run_state (ex_mkdir_all (pc_exec conf) ?d mode_700) w0 = (rm, wm)" by (metis surj_pair)
    obtain rb wb where b: "run_state (create_tf_back_pointer ct (pc_exec conf) ?d) wm = (rb, wb)" by (metis surj_pair)
    obtain wd wg where g: "run_state (ct_getwd ct) wb = (wd, wg)" by (metis surj_pair)
    obtain u h cd where f: "local_reservation_fields rs wd = (u, h, cd)" by (metis surj_pair)
    obtain r1 w1 where c: "run_state (claim_slots rs conf ?d i (reserved_root data)
        ([dec_of_nat (nat ncpu), dec_of_nat (nat nmem), u, h, cd] @ devs)) wg = (r1, w1)" by (metis surj_pair)
    have keep: "hosts w0 = hosts w" "hosts wm = hosts w" "hosts wb = hosts w" "hosts wg = hosts w"
      using new_id_keeps [OF id] keeps_run(1) [OF m] back_pointer_keeps [OF b] keeps_run(5) [OF g] by simp_all
    show ?thesis
    proof (cases "rm = None \<and> rb = None")
      case False
      then show ?thesis using assms id m b keep Inr
        by (auto simp: reservation_create_def req Let_def split: option.splits)
    next
      case True
      have "r = map_sum id (apply_reserved (data\<lparr>rv_id := TKnown i, rv_path := TKnown (reserved_root data)\<rparr>)) r1 \<and> w' = w1"
        using assms id m b g f c True Inr words
        by (auto simp: reservation_create_def req Let_def split: sum.splits)
      then show ?thesis using req id keep c Inr resource_id_clean [of w i w0] by blast
    qed
  qed
qed

lemma reserve_inv:
  assumes "clean_id i" and "reserved_root data = root"
    and "host_script (hosts w) ([''reserve'', fb, i, root] @ args) = (Inr out, h)"
  shows "do_reserve (hosts w (trim_suffix root ''/'')) fb i (trim_suffix root ''/'') args = (Inr out, h (trim_suffix root ''/''))"
proof -
  have "i \<noteq> []" "root \<noteq> []" using assms(1,2) by (auto simp: clean_id_def)
  then show ?thesis using assms(3) unfolding host_script_modes [OF \<open>i \<noteq> []\<close> \<open>root \<noteq> []\<close>]
    by (auto simp: prod_eq_iff)
qed

lemma created_reads_back:
  assumes "run_state (reservation_create rs ct conf data) w = (Inr data', w')"
    and "rv_cpus_reserved data' \<noteq> TKnown [] \<or> rv_mem_reserved data' \<noteq> TKnown [] \<or> rv_devs_reserved data' \<noteq> TKnown []"
  shows "\<exists>w''. run_state (reservation_read rs conf data') w' = (Inr (Some data'), w'') \<and> hosts w'' = hosts w'"
proof -
  obtain ncpu nmem devs i u h cd w1 r1 where i: "clean_id i" and keep: "hosts w1 = hosts w"
    and claim: "run_state (claim_slots rs conf (reservation_dir conf i) i (reserved_root data)
         ([dec_of_nat (nat ncpu), dec_of_nat (nat nmem), u, h, cd] @ devs)) w1 = (r1, w')"
    and r1: "Inr data' = map_sum id (apply_reserved (data\<lparr>rv_id := TKnown i, rv_path := TKnown (reserved_root data)\<rparr>)) r1"
    using create_cases [OF assms(1)] by (auto simp del: append_Cons)
  let ?args = "[dec_of_nat (nat ncpu), dec_of_nat (nat nmem), u, h, cd] @ devs" and ?root = "reserved_root data"
  let ?data = "data\<lparr>rv_id := TKnown i, rv_path := TKnown (reserved_root data)\<rparr>"
  obtain rr where rr: "r1 = Inr rr" and data': "data' = apply_reserved ?data rr" using r1 by (cases r1) auto
  obtain sr hs where script: "host_script (hosts w1) ([''reserve'', pc_flock conf, i, ?root] @ ?args) = (sr, hs)"
    by (metis surj_pair)
  obtain out where sr: "sr = Inr out" and outcome: "case parse_reserved_json rs out of
            Inr rr \<Rightarrow> r1 = Inr rr \<and> hosts w' = hs
          | Inl e \<Rightarrow> isl r1 \<and> hosts w' = snd (host_script hs [''release'', pc_flock conf, i, ?root])"
    using claim_slots_cases [OF claim script] rr by auto
  have parsed: "parse_reserved_json rs out = Inr rr" and w': "hosts w' = hs"
    using outcome rr by (cases "parse_reserved_json rs out"; simp)+
  have "do_reserve (hosts w1 (trim_suffix ?root ''/'')) (pc_flock conf) i (trim_suffix ?root ''/'') ?args =
      (Inr out, hs (trim_suffix ?root ''/''))"
    using reserve_inv [OF i refl] script sr by blast
  from do_reserve_ok [OF this] have out: "out = emit_json (owned (hosts w' (trim_suffix ?root ''/'')) i)"
    and exists: "st_root (hosts w' (trim_suffix ?root ''/''))" unfolding w' by auto
  have root': "reserved_root data' = ?root" unfolding data' by (rule reserved_root_fixed)
  have id': "tf_string (rv_id data') = i" unfolding data' by (simp add: apply_reserved_def)
  have ne: "i \<noteq> []" "?root \<noteq> []" using i by (auto simp: clean_id_def)
  have scan: "host_script (hosts w') [''scan'', [], i, ?root] = (Inr out, hosts w')"
    unfolding host_script_modes [OF ne] using out exists by (simp add: do_scan_def)
  obtain res err w2 where run: "run_state (run_script rs conf (reservation_dir conf i) [''scan'', [], i, ?root]) w' = ((res, err), w2)"
    by (metis surj_pair)
  have after: "err = None" "r_stdout res = out" "hosts w2 = hosts w'" using script_run [OF run] scan by simp_all
  have again: "apply_reserved (data'\<lparr>rv_path := TKnown ?root\<rparr>) rr = data'"
    unfolding data' by (simp add: apply_reserved_def)
  have "\<not> (rr_cpus rr = [] \<and> rr_mem rr = [] \<and> rr_devs rr = [])"
    using assms(2) unfolding data' by (auto simp: apply_reserved_def)
  then have "run_state (reservation_read rs conf data') w' = (Inr (Some data'), w2)"
    using run after parsed again by (simp add: reservation_read_def root' id' Let_def)
  with after(3) show ?thesis by blast
qed

text \<open>The script's own release, right after its reserve, gives the trees back.\<close>

lemma release_after_reserve:
  assumes "host_script hs ([''reserve'', fb, i, root] @ [dec_of_nat ncpu, dec_of_nat nmem, u, h, cd] @ devs) = (Inr out, hs')"
    and "clean_id i" "root \<noteq> []" and "\<forall>s. \<not> st_clear_fails (hs (trim_suffix root ''/'')) s"
    and "\<forall>s. ledger_of (hs (trim_suffix root ''/'')) s \<noteq> Some i"
  shows "snd (host_script hs' [''release'', fb, i, root]) = hs"
proof -
  let ?root = "trim_suffix root ''/''" and ?t = "hs (trim_suffix root ''/'')"
  let ?args = "[dec_of_nat ncpu, dec_of_nat nmem, u, h, cd] @ devs"
  have ne: "i \<noteq> []" using assms(2) by (simp add: clean_id_def)
  note modes = host_script_modes [OF ne assms(3)]
  have hs': "hs' = hs(?root := hs' ?root)" and run: "do_reserve ?t fb i ?root ?args = (Inr out, hs' ?root)"
    using assms(1) unfolding modes by (auto simp: prod_eq_iff)
  note ok = do_reserve_ok [OF run]
  have "\<forall>s \<in> set (claim_of ?t ncpu nmem devs). s \<in> set (st_files ?t) \<and> st_content ?t s = []"
    using ok select_claim_ok by blast
  from release_restores [OF assms(2,5) this _ assms(4)] ok have "do_release (hs' ?root) i = (Inr [], ?t)" by simp
  then show ?thesis unfolding modes using hs' by (metis fun_upd_triv fun_upd_upd snd_conv)
qed

lemma failed_reserve:
  assumes "host_script hs ([''reserve'', fb, i, root] @ args) = (Inl e, hs')" and "i \<noteq> []" "root \<noteq> []"
    and "writes_atomic (hs (trim_suffix root ''/''))" and "\<forall>s. \<not> st_clear_fails (hs (trim_suffix root ''/'')) s"
  shows "hs' = hs"
proof -
  let ?root = "trim_suffix root ''/''"
  note modes = host_script_modes [OF assms(2,3)]
  have hs': "hs' = hs(?root := hs' ?root)" and run: "do_reserve (hs ?root) fb i ?root args = (Inl e, hs' ?root)"
    using assms(1) unfolding modes by (auto simp: prod_eq_iff)
  from reserve_fails_keeps [OF run assms(4,5)] hs' show ?thesis by (metis fun_upd_triv)
qed

lemma create_failed:
  assumes "run_state (reservation_create rs ct conf data) w = (Inl ds, w')"
    and "\<forall>root. writes_atomic (hosts w root) \<and> (\<forall>s. \<not> st_clear_fails (hosts w root) s)"
    and "\<forall>i w0. run_state (new_resource_id ct) w = (Inr i, w0) \<longrightarrow> (\<forall>root s. ledger_of (hosts w root) s \<noteq> Some i)"
  shows "hosts w' = hosts w"
  using create_cases [OF assms(1)]
proof
  assume "\<exists>ncpu nmem devs i u h cd w0 w1 r1. reservation_request ct conf data = Inr (ncpu, nmem, devs) \<and>
       run_state (new_resource_id ct) w = (Inr i, w0) \<and> clean_id i \<and> hosts w1 = hosts w \<and>
       run_state (claim_slots rs conf (reservation_dir conf i) i (reserved_root data)
         ([dec_of_nat (nat ncpu), dec_of_nat (nat nmem), u, h, cd] @ devs)) w1 = (r1, w') \<and>
       Inl ds = map_sum id (apply_reserved (data\<lparr>rv_id := TKnown i, rv_path := TKnown (reserved_root data)\<rparr>)) r1"
  then obtain ncpu nmem devs i u h cd w0 w1 r1 where new: "run_state (new_resource_id ct) w = (Inr i, w0)"
    and i: "clean_id i" and keep: "hosts w1 = hosts w"
    and claim: "run_state (claim_slots rs conf (reservation_dir conf i) i (reserved_root data)
         ([dec_of_nat (nat ncpu), dec_of_nat (nat nmem), u, h, cd] @ devs)) w1 = (r1, w')"
    and r1: "Inl ds = map_sum id (apply_reserved (data\<lparr>rv_id := TKnown i, rv_path := TKnown (reserved_root data)\<rparr>)) r1"
    by blast
  let ?args = "[dec_of_nat (nat ncpu), dec_of_nat (nat nmem), u, h, cd] @ devs" and ?root = "reserved_root data"
  obtain sr hs where script: "host_script (hosts w) ([''reserve'', pc_flock conf, i, ?root] @ ?args) = (sr, hs)"
    by (metis surj_pair)
  note cases = claim_slots_cases [OF claim, unfolded keep, OF script]
  have ne: "i \<noteq> []" using i by (simp add: clean_id_def)
  show ?thesis
  proof (cases sr)
    case (Inl e)
    then show ?thesis
      using cases failed_reserve [OF script [unfolded Inl] ne reserved_root_nonempty] assms(2) by simp
  next
    case (Inr out)
    have "isl r1" using r1 by (cases r1) auto
    then have "hosts w' = snd (host_script hs [''release'', pc_flock conf, i, ?root])"
      using cases Inr by (auto split: sum.splits)
    with release_after_reserve [OF script [unfolded Inr] i reserved_root_nonempty] assms(2,3) new show ?thesis by simp
  qed
qed simp

end

section \<open>A target that runs the script\<close>

definition script_outcome :: "string \<Rightarrow> string list \<Rightarrow> script_error + string \<Rightarrow> cmd_outcome" where
  "script_outcome c args r =
     (case r of
        Inr out \<Rightarrow> ((new_result c args)\<lparr>r_stdout := out, r_completed := True\<rparr>, None)
      | Inl (code, msg) \<Rightarrow>
          ((new_result c args)\<lparr>r_exit_code := int code, r_stderr := msg @ [newline], r_error := Some (Err ''exit status'')\<rparr>,
           Some (Err ''exit status'')))"

definition script_executor :: "(string \<Rightarrow> slot_tree) executor" where
  "script_executor =
     idle_executor\<lparr>ex_run := (\<lambda>d c args. State (\<lambda>hosts.
       let (r, hosts') = host_script hosts (drop 3 args) in (script_outcome c args r, hosts')))\<rparr>"

definition script_conf :: "(string \<Rightarrow> slot_tree) provider_conf \<Rightarrow> (string \<Rightarrow> slot_tree) provider_conf" where
  "script_conf conf = conf\<lparr>pc_exec := script_executor\<rparr>"

interpretation script_target: reservation_target rs "quiet_controller bs wd ct" "script_conf conf" "\<lambda>hosts. hosts"
  for rs bs wd ct conf
  by unfold_locales
    (auto simp: quiet_controller_def script_conf_def script_executor_def run_script_def script_outcome_def
       split: prod.splits sum.splits)

text \<open>The same target behind a connection that breaks when the script has run.\<close>

definition dropped_executor :: "(string \<Rightarrow> slot_tree) executor" where
  "dropped_executor =
     idle_executor\<lparr>ex_run := (\<lambda>d c args. State (\<lambda>hosts.
       (((new_result c args)\<lparr>r_error := Some (Err ''connection lost'')\<rparr>, Some (Err ''connection lost'')),
        snd (host_script hosts (drop 3 args)))))\<rparr>"

lemma dropped_executor_simps:
  "ex_mkdir_all dropped_executor p m = State_Monad.return None" "ex_write_file dropped_executor p b m = State_Monad.return None"
  "ex_remove dropped_executor p = State_Monad.return None"
  "run_state (ex_run dropped_executor d c args) hosts =
     (((new_result c args)\<lparr>r_error := Some (Err ''connection lost'')\<rparr>, Some (Err ''connection lost'')),
      snd (host_script hosts (drop 3 args)))"
  by (simp_all add: dropped_executor_def)

section \<open>Valid devices\<close>

definition valid_dev :: "string \<Rightarrow> bool" where
  "valid_dev d \<longleftrightarrow>
     list_all (\<lambda>c. \<not> is_space c) d \<and> \<not> sublist ''..'' d \<and> path_clean d = d \<and> prefix ''/dev/'' d \<and> length ''/dev/'' < length d"

lemma dev_error_None: "dev_error seen d = None \<longleftrightarrow> valid_dev d \<and> d \<notin> seen"
  by (auto simp: dev_error_def valid_dev_def list_all_iff list_ex_iff)

lemma validate_devs_ok:
  "validate_devs seen ds = (out, diags) \<Longrightarrow>
     (has_error diags \<longleftrightarrow> \<not> (distinct ds \<and> set ds \<inter> seen = {} \<and> (\<forall>d \<in> set ds. valid_dev d))) \<and>
     (\<not> has_error diags \<longrightarrow> out = ds \<and> diags = [])"
proof (induction seen ds arbitrary: out diags rule: validate_devs.induct)
  case (2 seen d ds)
  show ?case
  proof (cases "dev_error seen d")
    case None
    then obtain out' diags' where rest: "validate_devs (insert d seen) ds = (out', diags')"
      and res: "out = d # out'" "diags = diags'" using "2.prems" by (auto split: prod.splits)
    show ?thesis using "2.IH"(1) [OF None rest] None res by (auto simp: dev_error_None)
  next
    case (Some e)
    then have "\<not> (valid_dev d \<and> d \<notin> seen)" using dev_error_None [of seen d] by simp
    then show ?thesis using "2.prems" Some by (auto split: prod.splits)
  qed
qed simp

section \<open>A small reservation\<close>

definition sample_ops :: "goerr + reserved_result \<Rightarrow> reservation_ops" where
  "sample_ops r =
     \<lparr>ro_script = ''#!/usr/bin/env bash'', ro_user = Inr ''u'', ro_getenv = (\<lambda>v. []), ro_hostname = Inr ''h'', ro_json = (\<lambda>s. r)\<rparr>"

definition sample_data :: reservation_model where
  "sample_data =
     \<lparr>rv_id = TUnknown, rv_path = TKnown ''/r'', rv_cpus = TKnown 1, rv_mem = TKnown 1, rv_devs = TKnown [TKnown ''/dev/sdb''],
      rv_cpus_reserved = TUnknown, rv_mem_reserved = TUnknown, rv_devs_reserved = TUnknown, rv_cpus_count = TUnknown,
      rv_mem_total = TUnknown\<rparr>"

definition sample_bytes :: "8 word \<times> 8 word \<times> 8 word \<times> 8 word" where
  "sample_bytes = (0xCA, 0xFE, 0, 1)"

definition sample_flock_conf :: "'w executor \<Rightarrow> 'w provider_conf" where
  "sample_flock_conf ex = (sample_conf ex)\<lparr>pc_flock := ''flock''\<rparr>"

lemma sample_id: "quiet_id sample_bytes = ''cafe0001''"
  by code_simp

lemma sample_fields: "local_reservation_fields (sample_ops r) (Inr ''d'') = (''u'', ''h'', ''d'')"
  by code_simp

lemma sample_request:
  "pc_flock conf = ''flock'' \<Longrightarrow> reservation_request ct conf sample_data = Inr (1, 1, [''/dev/sdb''])"
proof -
  have "validate_devs {} [''/dev/sdb''] = ([''/dev/sdb''], [])" by code_simp
  then have "clean_validate_devs ct (rv_devs sample_data) = ([''/dev/sdb''], [])"
    by (simp add: sample_data_def elements_as_def)
  moreover assume "pc_flock conf = ''flock''"
  ultimately show ?thesis unfolding reservation_request_def by (simp add: Let_def) (simp add: sample_data_def)
qed

lemma sample_root: "reserved_root sample_data = ''/r''" "trim_suffix ''/r'' ''/'' = ''/r''"
  by (simp_all add: reserved_root_def sample_data_def) code_simp

lemma sample_words: "itoa 1 = dec_of_nat 1"
  by (simp add: itoa_def)

definition sample_hosts :: "string \<Rightarrow> slot_tree" where
  "sample_hosts = (\<lambda>root. sample_tree)"

definition sample_out :: string where
  "sample_out = emit_json (owned sample_reserved ''cafe0001'')"

lemma sample_script:
  "host_script sample_hosts ([''reserve'', ''flock'', ''cafe0001'', ''/r'', itoa 1, itoa 1, ''u'', ''h'', ''d''] @ [''/dev/sdb'']) =
     (Inr sample_out, sample_hosts(''/r'' := sample_reserved))"
proof -
  have args: "[''reserve'', ''flock'', ''cafe0001'', ''/r'', itoa 1, itoa 1, ''u'', ''h'', ''d''] @ [''/dev/sdb''] =
      [''reserve'', ''flock'', ''cafe0001'', ''/r''] @ [dec_of_nat 1, dec_of_nat 1, ''u'', ''h'', ''d''] @ [''/dev/sdb'']"
    by (simp add: sample_words)
  have tree: "sample_hosts ''/r'' = sample_tree" by (simp add: sample_hosts_def)
  show ?thesis
    unfolding args host_script_modes(1) [of "''cafe0001''" "''/r''", OF list.distinct(2) list.distinct(2)] sample_root tree
      sample_reserve sample_out_def by simp
qed

lemma script_conf_simps:
  "ex_mkdir_all (pc_exec (script_conf conf)) p m = State_Monad.return None"
  "ex_write_file (pc_exec (script_conf conf)) p b m = State_Monad.return None"
  "ex_remove (pc_exec (script_conf conf)) p = State_Monad.return None"
  "run_state (ex_run (pc_exec (script_conf conf)) d c args) hosts =
     (script_outcome c args (fst (host_script hosts (drop 3 args))), snd (host_script hosts (drop 3 args)))"
  "pc_flock (script_conf conf) = pc_flock conf"
  by (simp_all add: script_conf_def script_executor_def split: prod.splits)

lemma script_outcome_simps:
  "snd (script_outcome c args (Inr out)) = None" "r_stdout (fst (script_outcome c args (Inr out))) = out"
  by (simp_all add: script_outcome_def)

lemma sample_out_nonempty: "trim_space sample_out \<noteq> []"
  unfolding sample_out_def emit_json_def by (simp add: trim_space_def trim_right_by_def is_space_def split: prod.splits)

definition sample_result :: reserved_result where
  "sample_result = \<lparr>rr_cpus = [7], rr_mem = [0], rr_devs = [''/dev/sdb'']\<rparr>"

definition sample_created :: reservation_model where
  "sample_created =
     apply_reserved (sample_data\<lparr>rv_id := TKnown ''cafe0001'', rv_path := TKnown ''/r''\<rparr>) sample_result"

lemma sample_parsed: "parse_reserved_json (sample_ops (Inr sample_result)) sample_out = Inr sample_result"
  using sample_out_nonempty by (simp add: parse_reserved_json_def sample_ops_def Let_def)

lemma sample_reservation_create:
  assumes "pc_flock conf = ''flock''"
  shows "run_state (reservation_create (sample_ops (Inr sample_result)) (quiet_controller sample_bytes (Inr ''d'') ct)
      (script_conf conf) sample_data) sample_hosts = (Inr sample_created, sample_hosts(''/r'' := sample_reserved))"
proof -
  have flock: "pc_flock (script_conf conf) = ''flock''" using assms by (simp add: script_conf_simps)
  have getwd: "ct_getwd (quiet_controller sample_bytes (Inr ''d'') ct) = State_Monad.return (Inr ''d'')"
    by (simp add: quiet_controller_def split: prod.splits)
  have outcome: "script_outcome c args (Inr sample_out) =
      ((new_result c args)\<lparr>r_stdout := sample_out, r_completed := True\<rparr>, None)" for c args
    by (simp add: script_outcome_def)
  show ?thesis
    using sample_script
    by (simp add: reservation_create_def sample_request [OF flock] run_quiet_id getwd Let_def claim_slots_def run_script_def
        script_conf_simps create_tf_back_pointer_def sample_fields sample_id sample_root assms outcome sample_parsed
        sample_created_def)
qed

lemma sample_flock [simp]: "pc_flock (sample_flock_conf ex) = ''flock''"
  by (simp add: sample_flock_conf_def)

section \<open>Properties\<close>

text \<open>C39: What Create stores in the state is what the next Read finds on the target, unchanged: reading back a
  reservation that got at least one slot changes neither the state nor the target.\<close>

theorem created_reservation_reads_back:
  assumes "run_state (reservation_create rs (quiet_controller bs wd ct) (script_conf conf) data) hosts = (Inr data', hosts')"
    and "rv_cpus_reserved data' \<noteq> TKnown [] \<or> rv_mem_reserved data' \<noteq> TKnown [] \<or> rv_devs_reserved data' \<noteq> TKnown []"
  shows "run_state (reservation_read rs (script_conf conf) data') hosts' = (Inr (Some data'), hosts')"
  using script_target.created_reads_back [OF assms] by auto

theorem created_reservation_reads_back_witness:
  "run_state (reservation_read (sample_ops (Inr sample_result)) (script_conf (sample_flock_conf idle_executor)) sample_created)
     (sample_hosts(''/r'' := sample_reserved)) = (Inr (Some sample_created), sample_hosts(''/r'' := sample_reserved))"
  using created_reservation_reads_back [OF sample_reservation_create [of "sample_flock_conf idle_executor" sample_controller]]
  by (simp add: sample_created_def apply_reserved_def sample_result_def)

text \<open>C40: A Create that fails leaves the slots of the target as they were, also when the script has claimed them and its output
  cannot be decoded. The conditions: the target answers every call of the script; a failed write leaves the file as it was, and
  truncating a marker does not fail (the rollback and the release rely on both); and no slot bears the new identifier.\<close>

theorem reservation_create_fails_clean:
  assumes "run_state (reservation_create rs (quiet_controller bs wd ct) (script_conf conf) data) hosts = (Inl ds, hosts')"
    and "\<forall>root. writes_atomic (hosts root) \<and> (\<forall>s. \<not> st_clear_fails (hosts root) s)"
    and "\<forall>root s. ledger_of (hosts root) s \<noteq> Some (quiet_id bs)"
  shows "hosts' = hosts"
  using script_target.create_failed [OF assms(1,2)] assms(3) by (simp add: run_quiet_id)

text \<open>The script claims the slots, its output is not accepted, and they are released.\<close>

theorem reservation_create_fails_clean_witness:
  "\<exists>ds. run_state (reservation_create (sample_ops (Inl (Err ''bad''))) (quiet_controller sample_bytes (Inr ''d'') sample_controller)
     (script_conf (sample_flock_conf idle_executor)) sample_data) sample_hosts = (Inl ds, sample_hosts)"
proof -
  have flock: "pc_flock (script_conf (sample_flock_conf ex)) = ''flock''" for ex by (simp add: script_conf_simps)
  have getwd: "ct_getwd (quiet_controller sample_bytes (Inr ''d'') ct) = State_Monad.return (Inr ''d'')" for ct
    by (simp add: quiet_controller_def split: prod.splits)
  have outcome: "script_outcome c args (Inr sample_out) =
      ((new_result c args)\<lparr>r_stdout := sample_out, r_completed := True\<rparr>, None)" for c args
    by (simp add: script_outcome_def)
  have fields: "local_reservation_fields (sample_ops r) (Inr ''d'') = (''u'', ''h'', ''d'')" for r by (rule sample_fields)
  obtain e where bad: "parse_reserved_json (sample_ops (Inl (Err ''bad''))) sample_out = Inl e"
    using sample_out_nonempty by (simp add: parse_reserved_json_def sample_ops_def Let_def)
  obtain ds hosts' where run: "run_state (reservation_create (sample_ops (Inl (Err ''bad''))) (quiet_controller sample_bytes (Inr ''d'') sample_controller)
     (script_conf (sample_flock_conf idle_executor)) sample_data) sample_hosts = (Inl ds, hosts')"
    using sample_script
    by (simp add: reservation_create_def sample_request [OF flock] run_quiet_id getwd Let_def claim_slots_def run_script_def
        script_conf_simps create_tf_back_pointer_def fields sample_id sample_root outcome bad)
  show ?thesis
    using reservation_create_fails_clean [OF run] run sample_id by (simp add: sample_hosts_def sample_ledger)
qed

text \<open>When the connection breaks after the script has run, Create fails but the slots stay claimed by an
  identifier that no state knows: the error path does not release them.\<close>

theorem reservation_orphaned:
  assumes "reservation_request (quiet_controller bs (Inr wd) ct) conf data = Inr (ncpu, nmem, devs)"
    and "local_reservation_fields rs (Inr wd) = (u, h, cd)"
    and "host_script hosts ([''reserve'', pc_flock conf, quiet_id bs, reserved_root data, itoa ncpu, itoa nmem, u, h, cd] @ devs) =
           (Inr out, hosts')"
  shows "run_state (reservation_create rs (quiet_controller bs (Inr wd) ct) (conf\<lparr>pc_exec := dropped_executor\<rparr>) data) hosts =
    (Inl [add_error ''Host Reservation claim failed'' ''connection lost''], hosts')"
proof -
  have req: "reservation_request (quiet_controller bs (Inr wd) ct) (conf\<lparr>pc_exec := dropped_executor\<rparr>) data = Inr (ncpu, nmem, devs)"
    using assms(1) by (simp add: reservation_request_def)
  have getwd: "ct_getwd (quiet_controller bs (Inr wd) ct) = State_Monad.return (Inr wd)"
    by (simp add: quiet_controller_def split: prod.splits)
  have detail: "script_err_detail ((new_result c as)\<lparr>r_error := e\<rparr>) (Some (Err ''connection lost'')) = ''connection lost''"
    for c as e by (simp add: script_err_detail_def new_result_def trim_space_def trim_right_by_def)
  show ?thesis
    using assms(2,3)
    by (simp add: reservation_create_def req run_quiet_id getwd Let_def claim_slots_def run_script_def
        dropped_executor_simps create_tf_back_pointer_def detail)
qed

theorem reservation_orphaned_witness:
  "fst (run_state (reservation_create (sample_ops (Inr sample_result)) (quiet_controller sample_bytes (Inr ''d'') sample_controller)
      ((sample_flock_conf idle_executor)\<lparr>pc_exec := dropped_executor\<rparr>) sample_data) sample_hosts) =
     Inl [add_error ''Host Reservation claim failed'' ''connection lost''] \<and>
   ledger_of sample_reserved (Cpu ''7'') = Some ''cafe0001''"
proof -
  have owner: "ledger_of sample_reserved (Cpu ''7'') = Some ''cafe0001''"
    unfolding sample_reserved_def by (simp only: ledger_after_claim [OF sample_clean]) simp
  have request: "reservation_request (quiet_controller sample_bytes (Inr ''d'') sample_controller)
      (sample_flock_conf idle_executor) sample_data = Inr (1, 1, [''/dev/sdb''])" by (simp add: sample_request)
  have script: "host_script sample_hosts ([''reserve'', pc_flock (sample_flock_conf (idle_executor :: (string \<Rightarrow> slot_tree) executor)),
      quiet_id sample_bytes, reserved_root sample_data, itoa 1, itoa 1, ''u'', ''h'', ''d''] @ [''/dev/sdb'']) =
      (Inr sample_out, sample_hosts(''/r'' := sample_reserved))"
    using sample_script unfolding sample_id sample_root sample_flock .
  show ?thesis using reservation_orphaned [OF request sample_fields script] owner by simp
qed

text \<open>The devices of a reservation are accepted exactly when all of them are clean absolute paths below
  \<^verbatim>\<open>/dev\<close> without blanks and no two are the same, and then they are passed on as they are.\<close>

theorem clean_devs:
  "\<exists>out diags. clean_validate_devs ct (TKnown (map TKnown raw)) = (out, diags) \<and>
     (has_error diags \<longleftrightarrow> \<not> (distinct raw \<and> (\<forall>d \<in> set raw. valid_dev d))) \<and> (\<not> has_error diags \<longrightarrow> out = raw)"
proof -
  have known: "elements_as ct (map TKnown raw) = Inr raw"
    by (simp add: elements_as_def list_all_iff comp_def)
  obtain out diags where v: "validate_devs {} raw = (out, diags)" by (metis surj_pair)
  from validate_devs_ok [OF v] v known show ?thesis by (intro exI [of _ out] exI [of _ diags]) simp
qed

end
