(* ===== verification/Daemon_Lab.thy ===== *)
theory Daemon_Lab
  imports Daemon
begin

text \<open>
  A small target for the daemon resources: processes, and the files they write their PID to. A daemon writes its PID file
  when it starts up, which is after the call that started it has returned; \<open>prompt\<close> says that it was
  fast enough to be seen by the next call, and otherwise the file is as before.
\<close>

record lab =
  lb_procs :: "int list"
  lb_files :: "string \<Rightarrow> string option"
  lb_next :: int

fun pid_file_arg :: "string list \<Rightarrow> string" where
  "pid_file_arg (a # b # rest) = (if a = ''-pid-file'' then b else pid_file_arg (b # rest))"
| "pid_file_arg _ = []"

definition lab_start :: "bool \<Rightarrow> string list \<Rightarrow> lab \<Rightarrow> lab" where
  "lab_start prompt args l =
     l\<lparr>lb_procs := lb_next l # lb_procs l, lb_next := lb_next l + 1,
       lb_files := (if prompt then (lb_files l)(pid_file_arg args \<mapsto> itoa (lb_next l)) else lb_files l)\<rparr>"

definition lab_executor :: "bool \<Rightarrow> lab executor" where
  "lab_executor prompt =
     idle_executor\<lparr>
       ex_run_detached := (\<lambda>d c a. State (\<lambda>l. ((new_result c a, None), lab_start prompt a l))),
       ex_read_file := (\<lambda>p. State (\<lambda>l. (case lb_files l p of Some s \<Rightarrow> Inr s | None \<Rightarrow> Inl (Sentinel ErrNotExist), l))),
       ex_is_running := (\<lambda>i e. State (\<lambda>l. (Inr (i \<in> set (lb_procs l)), l))),
       ex_kill := (\<lambda>i g. State (\<lambda>l. (if i \<in> set (lb_procs l) then (None, l\<lparr>lb_procs := remove1 i (lb_procs l)\<rparr>)
                                     else (Some (Err ''no such process''), l))))\<rparr>"

lemma lab_executor_simps [simp]:
  "ex_self_path (lab_executor b) = ''/self''"
  "run_state (ex_run_detached (lab_executor b) d c a) l = ((new_result c a, None), lab_start b a l)"
  "run_state (ex_read_file (lab_executor b) p) l =
     (case lb_files l p of Some s \<Rightarrow> Inr s | None \<Rightarrow> Inl (Sentinel ErrNotExist), l)"
  "run_state (ex_is_running (lab_executor b) i e) l = (Inr (i \<in> set (lb_procs l)), l)"
  "run_state (ex_kill (lab_executor b) i g) l =
     (if i \<in> set (lb_procs l) then (None, l\<lparr>lb_procs := remove1 i (lb_procs l)\<rparr>) else (Some (Err ''no such process''), l))"
  "run_state (ex_stat (lab_executor b) p) l = (Inr \<lparr>fi_is_dir = False, fi_size = 0\<rparr>, l)"
  "run_state (ex_mkdir_all (lab_executor b) p m) l = (None, l)"
  "run_state (ex_write_file (lab_executor b) p x m) l = (None, l)"
  "run_state (ex_remove (lab_executor b) p) l = (None, l)"
  by (simp_all add: lab_executor_def)

definition lab_files :: "lab config_files" where
  "lab_files =
     \<lparr>cf_open = (\<lambda>p m. State_Monad.return (Inr 3)), cf_write = (\<lambda>f s. State_Monad.return None),
      cf_close = (\<lambda>f. State_Monad.return None)\<rparr>"

lemma lab_files_simps [simp]:
  "run_state (cf_open lab_files p m) l = (Inr 3, l)" "run_state (cf_write lab_files f s) l = (None, l)"
  "run_state (cf_close lab_files f) l = (None, l)"
  by (simp_all add: lab_files_def)

lemma run_execute_template [simp]: "run_state (execute_template lab_files f chunks) l = (Inr (), l)"
  unfolding execute_template_def by (induction chunks) simp_all

lemma run_closing [simp]: "run_state (closing lab_files f m) l = run_state m l"
  by (simp add: closing_def split: prod.splits)

section \<open>What the steps do there\<close>

definition valid_pid :: "int \<Rightarrow> bool" where
  "valid_pid i \<longleftrightarrow> 0 < i \<and> i < 2 ^ 31"

lemma parse_pid_itoa: "valid_pid i \<Longrightarrow> parse_pid (itoa i) = Inr i"
proof -
  assume i: "valid_pid i"
  then obtain n where n: "i = int n" "n < 2 ^ 31" by (metis nonneg_int_cases valid_pid_def less_imp_le of_nat_less_iff of_nat_power of_nat_numeral)
  obtain c cs where cs: "dec_of_nat n = c # cs" by (meson dec_of_nat_nonempty list.exhaust)
  then have "is_digit c" using set_dec_of_nat [of c n] by simp
  then have "c \<noteq> CHR ''-''" "c \<noteq> CHR ''+''" by (auto simp: is_digit_code)
  then have "unsigned_part (dec_of_nat n) = dec_of_nat n" by (simp add: unsigned_part_def cs)
  with n show ?thesis by (simp add: parse_pid_def itoa_def Let_def)
qed

lemma trim_space_itoa: "0 \<le> i \<Longrightarrow> trim_space (itoa i) = itoa i"
proof -
  assume "0 \<le> i"
  then have "\<not> is_space c" if "c \<in> set (itoa i)" for c
    using that by (auto simp: itoa_def dest!: set_dec_of_nat is_digit_not_ws)
  then have "itoa i = [] \<or> \<not> is_space (hd (itoa i)) \<and> \<not> is_space (last (itoa i))"
    using hd_in_set last_in_set by blast
  then show ?thesis by (rule trim_space_id)
qed

text \<open>The PID file of \<open>p\<close> as it is read.\<close>

lemma run_read_pid_lab:
  "run_state (read_pid w (lab_executor b) p exe) l =
     (case lb_files l p of
        None \<Rightarrow> (False, 0, Some (wrapf [] (Sentinel ErrNotExist)))
      | Some s \<Rightarrow> (case parse_pid (trim_space s) of
          Inl e \<Rightarrow> (False, 0, Some (wrapf [] e)) | Inr pid \<Rightarrow> (pid \<in> set (lb_procs l), pid, None)), l)"
  by (simp add: read_pid_def split: option.splits sum.splits)

lemma read_pid_lab_known:
  "lb_files l p = Some (itoa i) \<Longrightarrow> valid_pid i \<Longrightarrow>
     run_state (read_pid w (lab_executor b) p exe) l = ((i \<in> set (lb_procs l), i, None), l)"
  by (simp add: run_read_pid_lab parse_pid_itoa trim_space_itoa valid_pid_def)

lemma run_start_detached_lab [simp]:
  "run_state (start_detached fd (lab_executor b) d cmd args what) l = (None, lab_start b args l)"
  by (simp add: start_detached_def)

lemma stop_process_lab:
  assumes "lb_files l p = Some (itoa i)" and "valid_pid i" and "i \<in> set (lb_procs l)"
  shows "run_state (stop_process (lab_executor b) (read_pid w (lab_executor b) p exe) what) l =
    (None, l\<lparr>lb_procs := remove1 i (lb_procs l)\<rparr>)"
  using assms by (simp add: stop_process_def read_pid_lab_known)

text \<open>Start and reconcile: with a prompt daemon one process, else a second one is started.\<close>

lemma start_reconcile_prompt:
  assumes "pid_file_arg args = p" and "desired_state st = ''running''" and "valid_pid (lb_next l)"
  shows "run_state (reconcile (lab_executor True) d st (read_pid w (lab_executor True) p exe) start stop what) (lab_start True args l) =
    (Inr ''running'', lab_start True args l)"
  using assms by (simp add: reconcile_def dir_missing_def read_pid_lab_known lab_start_def state_of_def)

lemma start_reconcile_slow:
  assumes "desired_state st = ''running''" and "lb_files l p = None"
    and "\<And>l. run_state start l = (None, lab_start False args l)"
  shows "run_state (reconcile (lab_executor False) d st (read_pid w (lab_executor False) p exe) start stop what) l =
    (Inr ''running'', lab_start False args l)"
  using assms by (simp add: reconcile_def dir_missing_def run_read_pid_lab)

lemma lab_start_fields [simp]:
  "lb_procs (lab_start b args l) = lb_next l # lb_procs l" "lb_next (lab_start b args l) = lb_next l + 1"
  "lb_files (lab_start False args l) = lb_files l"
  "lb_files (lab_start True args l) = (lb_files l)(pid_file_arg args \<mapsto> itoa (lb_next l))"
  by (simp_all add: lab_start_def)

lemma pid_file_arg_app: "''-pid-file'' \<notin> set xs \<Longrightarrow> pid_file_arg (xs @ ''-pid-file'' # p # ys) = p"
proof (induction xs)
  case (Cons x xs)
  then show ?case by (cases xs) auto
qed simp

lemma self_command_args:
  "self_command conf netns = (cmd, args) \<Longrightarrow> ex_self_path (pc_exec conf) \<noteq> ''-pid-file'' \<Longrightarrow> pc_ip conf \<noteq> ''-pid-file'' \<Longrightarrow>
     netns \<noteq> ''-pid-file'' \<Longrightarrow> ''-pid-file'' \<notin> set args"
  by (auto simp: self_command_def Let_def split: if_splits)

end
