(* ===== verification/Dhcp_Server.thy ===== *)
theory Dhcp_Server
  imports Daemon_Lab Outcomes
begin

text \<open>
  The resources \<^verbatim>\<open>zedamigo_dhcp_server\<close> and \<^verbatim>\<open>zedamigo_dhcp6_server\<close>
  (\<^verbatim>\<open>internal/provider/dhcp_server_resource.go\<close> and \<^verbatim>\<open>dhcp6_server_resource.go\<close>): the configuration file of a
  server, and the daemon that serves it.
\<close>

abbreviation nl :: string where "nl \<equiv> [CHR 0x0A]"

abbreviation dq :: string where "dq \<equiv> [CHR 0x22]"

section \<open>DHCPv4\<close>

record dhcp_pool =
  po_start :: "string tfval"
  po_end :: "string tfval"

record dhcp_route =
  ro_to :: "string tfval"
  ro_via :: "string tfval"

record dhcp_model =
  ds_id :: "string tfval"
  ds_interface :: "string tfval"
  ds_server_id :: "string tfval"
  ds_name_server :: "string tfval"
  ds_router :: "string tfval"
  ds_netmask :: "string tfval"
  ds_pool :: "dhcp_pool option"
  ds_lease_time :: "int tfval"
  ds_static_routes :: "dhcp_route list"
  ds_leases_file :: "string tfval"
  ds_config_file :: "string tfval"
  ds_pid_file :: "string tfval"
  ds_state :: "string tfval"
  ds_netns :: "string tfval"

definition dhcp_dir :: "'w provider_conf \<Rightarrow> string \<Rightarrow> string" where
  "dhcp_dir conf i = path_join [pc_lib_path conf, ''dhcp_servers'', i]"

definition dhcp_config_template :: "dhcp_model \<Rightarrow> dhcp_pool \<Rightarrow> string list" where
  "dhcp_config_template data pool =
     [''# CoreDHCP config for simple DHCP v4 server for a specific interface.'' @ nl @ ''server4:'' @ nl @ ''  listen:'' @ nl @
        ''    - '' @ dq @ ''%'',
      tf_string (ds_interface data), '':67'' @ dq @ nl @ ''  plugins:'' @ nl @ ''    - server_id: '',
      tf_string (ds_server_id data), nl @ ''    - dns: '', tf_string (ds_name_server data), nl @ ''    - router: '',
      tf_string (ds_router data), nl @ ''    - netmask: '', tf_string (ds_netmask data), nl @ ''    - range: '',
      tf_string (ds_leases_file data), '' '', tf_string (po_start pool), '' '', tf_string (po_end pool), '' '',
      itoa (tf_int (ds_lease_time data)), ''s''] @
     concat (map (\<lambda>r. [nl @ ''    - staticroute: '', tf_string (ro_to r), '','', tf_string (ro_via r)]) (ds_static_routes data)) @
     [nl]"

definition start_dhcp_server ::
    "(diagnostics \<Rightarrow> string) \<Rightarrow> 'w provider_conf \<Rightarrow> string \<Rightarrow> dhcp_model \<Rightarrow> ('w, goerr option) state" where
  "start_dhcp_server fmt_diags conf d data =
     (let (cmd, args) = self_command conf (known_string (ds_netns data))
      in start_detached fmt_diags (pc_exec conf) d cmd
           (args @ [''-pid-file'', tf_string (ds_pid_file data), ''-dhcp-server'', ''-ds.config'', tf_string (ds_config_file data)])
           ''DHCP server'')"

definition read_dhcp_server_pid :: "'w executor \<Rightarrow> string \<Rightarrow> ('w, pid_state) state" where
  "read_dhcp_server_pid ex dir = read_pid id ex (path_join [dir, ''pid'']) []"

definition stop_dhcp_server :: "'w executor \<Rightarrow> string \<Rightarrow> ('w, goerr option) state" where
  "stop_dhcp_server ex d = stop_process ex (read_dhcp_server_pid ex d) ''DHCP server''"

definition read_dhcp_server ::
    "(diagnostics \<Rightarrow> string) \<Rightarrow> 'w provider_conf \<Rightarrow> string \<Rightarrow> dhcp_model \<Rightarrow> ('w, goerr + dhcp_model) state" where
  "read_dhcp_server fmt_diags conf d data =
     bindE (reconcile (pc_exec conf) d (ds_state data) (read_dhcp_server_pid (pc_exec conf) d)
              (start_dhcp_server fmt_diags conf d data) (stop_dhcp_server (pc_exec conf) d) ''DHCP server'')
       (\<lambda>s. okE (data\<lparr>ds_state := TKnown s\<rparr>))"

text \<open>Create after the configuration file is open: it is closed when the handler returns.\<close>

definition dhcp_setup ::
    "(diagnostics \<Rightarrow> string) \<Rightarrow> 'w config_files \<Rightarrow> 'w provider_conf \<Rightarrow> string \<Rightarrow> nat \<Rightarrow> dhcp_model \<Rightarrow> ('w, dhcp_model) handler" where
  "dhcp_setup fmt_diags cf conf d f data =
     (let t = ''DHCPServer Resource Error'';
          conf_path = path_join [d, ''config.yaml''];
          data = data\<lparr>ds_config_file := TKnown conf_path, ds_leases_file := TKnown (path_join [d, ''leases.sqlite3'']),
                      ds_lease_time := (if is_known (ds_lease_time data) then ds_lease_time data else TKnown 3600)\<rparr>
      in case ds_pool data of
           None \<Rightarrow> failE [add_error t ''Pool configuration is required but was not provided'']
         | Some pool \<Rightarrow>
           bindE (mapE (\<lambda>e. [add_error t (''Can't write templated config file '' @ [CHR 0x27] @ conf_path @ [CHR 0x27] @ '': '' @ err_msg e)])
                   (execute_template cf f (dhcp_config_template data pool))) (\<lambda>_.
           let data = data\<lparr>ds_pid_file := TKnown (path_join [d, ''pid'']), ds_state := default_state (ds_state data)\<rparr>
           in bindE (start_if_running (ds_state data) (start_dhcp_server fmt_diags conf d data) t ''Failed to start DHCP server: '') (\<lambda>_.
              read_or_fail (read_dhcp_server fmt_diags conf d data) ''Failed to read DHCPServer state'')))"

definition dhcp_create ::
    "(diagnostics \<Rightarrow> string) \<Rightarrow> 'w config_files \<Rightarrow> 'w controller \<Rightarrow> 'w provider_conf \<Rightarrow> dhcp_model \<Rightarrow> ('w, dhcp_model) handler" where
  "dhcp_create fmt_diags cf ct conf data =
     (let t = ''DHCPServer Resource Error''
      in bindE (new_daemon_dir ct conf (dhcp_dir conf) t) (\<lambda>i.
         let d = dhcp_dir conf i; conf_path = path_join [d, ''config.yaml'']
         in bindE (mapE (\<lambda>e. [add_error t (''Can't create file '' @ [CHR 0x27] @ conf_path @ [CHR 0x27] @ '': '' @ err_msg e)])
                (cf_open cf conf_path mode_644)) (\<lambda>f.
            closing cf f (dhcp_setup fmt_diags cf conf d f (data\<lparr>ds_id := TKnown i\<rparr>)))))"

definition dhcp_read ::
    "(diagnostics \<Rightarrow> string) \<Rightarrow> 'w provider_conf \<Rightarrow> dhcp_model \<Rightarrow> ('w, dhcp_model option) handler" where
  "dhcp_read fmt_diags conf data =
     read_or_gone (read_dhcp_server fmt_diags conf (dhcp_dir conf (tf_string (ds_id data))) data) says_gone
       ''Failed to read DHCPServer state''"

definition equal_static_routes :: "dhcp_route list \<Rightarrow> dhcp_route list \<Rightarrow> bool" where
  "equal_static_routes a b \<longleftrightarrow>
     length a = length b \<and> list_all2 (\<lambda>x y. ro_to x = ro_to y \<and> ro_via x = ro_via y) a b"

definition dhcp_config_changed :: "dhcp_model \<Rightarrow> dhcp_pool \<Rightarrow> dhcp_model \<Rightarrow> dhcp_pool \<Rightarrow> bool" where
  "dhcp_config_changed plan pp st sp \<longleftrightarrow>
     ds_interface plan \<noteq> ds_interface st \<or> ds_server_id plan \<noteq> ds_server_id st \<or> ds_name_server plan \<noteq> ds_name_server st \<or>
     ds_router plan \<noteq> ds_router st \<or> ds_netmask plan \<noteq> ds_netmask st \<or> (po_start pp \<noteq> po_start sp \<or> po_end pp \<noteq> po_end sp) \<or>
     ds_lease_time plan \<noteq> ds_lease_time st \<or> \<not> equal_static_routes (ds_static_routes plan) (ds_static_routes st)"

definition dhcp_update ::
    "(diagnostics \<Rightarrow> string) \<Rightarrow> 'w provider_conf \<Rightarrow> dhcp_model \<Rightarrow> dhcp_model \<Rightarrow> ('w, dhcp_model) handler" where
  "dhcp_update fmt_diags conf plan st =
     (let t = ''DHCPServer Resource Update Error''; d = dhcp_dir conf (tf_string (ds_id st)); ex = pc_exec conf
      in case (ds_pool plan, ds_pool st) of
           (Some pp, Some sp) \<Rightarrow>
             (if dhcp_config_changed plan pp st sp then failE (recreate_error t)
              else bindE (if ds_state plan = ds_state st then okE (ds_state plan)
                          else change_state (ds_state plan) (start_dhcp_server fmt_diags conf d plan) (stop_dhcp_server ex d) t ''DHCP server'')
                     (\<lambda>s. read_or_fail (read_dhcp_server fmt_diags conf d (plan\<lparr>ds_state := s\<rparr>))
                            ''Failed to read DHCPServer state after update''))
         | _ \<Rightarrow> failE [add_error t ''Pool configuration is required but was not provided''])"

definition dhcp_delete :: "'w provider_conf \<Rightarrow> dhcp_model \<Rightarrow> ('w, unit) handler" where
  "dhcp_delete conf data =
     (let d = dhcp_dir conf (tf_string (ds_id data))
      in delete_daemon (pc_exec conf) d (stop_dhcp_server (pc_exec conf) d) ''DHCPServer Resource Delete Error'' ''DHCPServer'')"

section \<open>DHCPv6\<close>

record dhcp6_model =
  d6_id :: "string tfval"
  d6_interface :: "string tfval"
  d6_server_id :: "string tfval"
  d6_prefix :: "string tfval"
  d6_name_server :: "string tfval"
  d6_pool :: "dhcp_pool option"
  d6_lease_time :: "int tfval"
  d6_leases_file :: "string tfval"
  d6_config_file :: "string tfval"
  d6_pid_file :: "string tfval"
  d6_state :: "string tfval"

definition dhcp6_dir :: "'w provider_conf \<Rightarrow> string \<Rightarrow> string" where
  "dhcp6_dir conf i = path_join [pc_lib_path conf, ''dhcp6_servers'', i]"

definition dhcp6_config_template :: "dhcp6_model \<Rightarrow> dhcp_pool \<Rightarrow> string list" where
  "dhcp6_config_template data pool =
     [''# CoreDHCP config for simple DHCP v6 server for a specific interface.'' @ nl @ ''server6:'' @ nl @ ''  listen:'' @ nl @
        ''    - '' @ dq @ ''[ff02::1:2%'',
      tf_string (d6_interface data),
      '']'' @ dq @ nl @ ''  plugins:'' @ nl @ ''    # server_id is mandatory for RFC-compliant operation.'' @ nl @
        ''    # - server_id: <DUID format> <LL address>'' @ nl @ ''    # The supported DUID formats are LL and LLT'' @ nl @
        ''    - server_id: LL '',
      tf_string (d6_server_id data), nl @ ''    - dns: '', tf_string (d6_name_server data), nl @ ''    - range: '',
      tf_string (d6_leases_file data), '' '', tf_string (po_start pool), '' '', tf_string (po_end pool), '' '',
      itoa (tf_int (d6_lease_time data)), ''s'' @ nl] @
     (if tf_string (d6_prefix data) = [] then []
      else [''    - prefix: '' @ dq, tf_string (d6_prefix data), dq]) @
     [nl]"

definition start_dhcp6_server ::
    "(diagnostics \<Rightarrow> string) \<Rightarrow> 'w provider_conf \<Rightarrow> string \<Rightarrow> dhcp6_model \<Rightarrow> ('w, goerr option) state" where
  "start_dhcp6_server fmt_diags conf d data =
     (let (cmd, args) = self_command conf []
      in start_detached fmt_diags (pc_exec conf) d cmd
           (args @ [''-pid-file'', tf_string (d6_pid_file data), ''-dhcp6-server'', ''-d6s.config'', tf_string (d6_config_file data)])
           ''DHCPv6 server'')"

definition read_dhcp6_server_pid :: "'w executor \<Rightarrow> string \<Rightarrow> ('w, pid_state) state" where
  "read_dhcp6_server_pid ex dir = read_pid id ex (path_join [dir, ''pid'']) []"

definition stop_dhcp6_server :: "'w executor \<Rightarrow> string \<Rightarrow> ('w, goerr option) state" where
  "stop_dhcp6_server ex d = stop_process ex (read_dhcp6_server_pid ex d) ''DHCPv6 server''"

definition read_dhcp6_server ::
    "(diagnostics \<Rightarrow> string) \<Rightarrow> 'w provider_conf \<Rightarrow> string \<Rightarrow> dhcp6_model \<Rightarrow> ('w, goerr + dhcp6_model) state" where
  "read_dhcp6_server fmt_diags conf d data =
     bindE (reconcile (pc_exec conf) d (d6_state data) (read_dhcp6_server_pid (pc_exec conf) d)
              (start_dhcp6_server fmt_diags conf d data) (stop_dhcp6_server (pc_exec conf) d) ''DHCPv6 server'')
       (\<lambda>s. okE (data\<lparr>d6_state := TKnown s\<rparr>))"

definition dhcp6_setup ::
    "(diagnostics \<Rightarrow> string) \<Rightarrow> 'w config_files \<Rightarrow> 'w provider_conf \<Rightarrow> string \<Rightarrow> nat \<Rightarrow> dhcp6_model \<Rightarrow> ('w, dhcp6_model) handler" where
  "dhcp6_setup fmt_diags cf conf d f data =
     (let t = ''DHCP6Server Resource Error'';
          conf_path = path_join [d, ''config.yaml''];
          data = data\<lparr>d6_config_file := TKnown conf_path, d6_leases_file := TKnown (path_join [d, ''leases.sqlite3'']),
                      d6_lease_time := (if is_known (d6_lease_time data) then d6_lease_time data else TKnown 3600)\<rparr>
      in case d6_pool data of
           None \<Rightarrow> failE [add_error t ''Pool configuration is required but was not provided'']
         | Some pool \<Rightarrow>
           bindE (mapE (\<lambda>e. [add_error t (''Can't write templated config file '' @ [CHR 0x27] @ conf_path @ [CHR 0x27] @ '': '' @ err_msg e)])
                   (execute_template cf f (dhcp6_config_template data pool))) (\<lambda>_.
           let data = data\<lparr>d6_pid_file := TKnown (path_join [d, ''pid'']), d6_state := default_state (d6_state data)\<rparr>
           in bindE (start_if_running (d6_state data) (start_dhcp6_server fmt_diags conf d data) t ''Failed to start DHCPv6 server: '') (\<lambda>_.
              read_or_fail (read_dhcp6_server fmt_diags conf d data) ''Failed to read DHCP6Server state'')))"

definition dhcp6_create ::
    "(diagnostics \<Rightarrow> string) \<Rightarrow> 'w config_files \<Rightarrow> 'w controller \<Rightarrow> 'w provider_conf \<Rightarrow> dhcp6_model \<Rightarrow> ('w, dhcp6_model) handler" where
  "dhcp6_create fmt_diags cf ct conf data =
     (let t = ''DHCP6Server Resource Error''
      in bindE (new_daemon_dir ct conf (dhcp6_dir conf) t) (\<lambda>i.
         let d = dhcp6_dir conf i; conf_path = path_join [d, ''config.yaml'']
         in bindE (mapE (\<lambda>e. [add_error t (''Can't create file '' @ [CHR 0x27] @ conf_path @ [CHR 0x27] @ '': '' @ err_msg e)])
                (cf_open cf conf_path mode_644)) (\<lambda>f.
            closing cf f (dhcp6_setup fmt_diags cf conf d f (data\<lparr>d6_id := TKnown i\<rparr>)))))"

definition dhcp6_read ::
    "(diagnostics \<Rightarrow> string) \<Rightarrow> 'w provider_conf \<Rightarrow> dhcp6_model \<Rightarrow> ('w, dhcp6_model option) handler" where
  "dhcp6_read fmt_diags conf data =
     read_or_gone (read_dhcp6_server fmt_diags conf (dhcp6_dir conf (tf_string (d6_id data))) data) says_gone
       ''Failed to read DHCP6Server state''"

definition dhcp6_config_changed :: "dhcp6_model \<Rightarrow> dhcp_pool \<Rightarrow> dhcp6_model \<Rightarrow> dhcp_pool \<Rightarrow> bool" where
  "dhcp6_config_changed plan pp st sp \<longleftrightarrow>
     d6_interface plan \<noteq> d6_interface st \<or> d6_server_id plan \<noteq> d6_server_id st \<or> d6_prefix plan \<noteq> d6_prefix st \<or>
     d6_name_server plan \<noteq> d6_name_server st \<or> (po_start pp \<noteq> po_start sp \<or> po_end pp \<noteq> po_end sp) \<or>
     d6_lease_time plan \<noteq> d6_lease_time st"

definition dhcp6_update ::
    "(diagnostics \<Rightarrow> string) \<Rightarrow> 'w provider_conf \<Rightarrow> dhcp6_model \<Rightarrow> dhcp6_model \<Rightarrow> ('w, dhcp6_model) handler" where
  "dhcp6_update fmt_diags conf plan st =
     (let t = ''DHCP6Server Resource Update Error''; d = dhcp6_dir conf (tf_string (d6_id st)); ex = pc_exec conf
      in case (d6_pool plan, d6_pool st) of
           (Some pp, Some sp) \<Rightarrow>
             (if dhcp6_config_changed plan pp st sp then failE (recreate_error t)
              else bindE (if d6_state plan = d6_state st then okE (d6_state plan)
                          else change_state (d6_state plan) (start_dhcp6_server fmt_diags conf d plan) (stop_dhcp6_server ex d) t ''DHCPv6 server'')
                     (\<lambda>s. read_or_fail (read_dhcp6_server fmt_diags conf d (plan\<lparr>d6_state := s\<rparr>))
                            ''Failed to read DHCP6Server state after update''))
         | _ \<Rightarrow> failE [add_error t ''Pool configuration is required but was not provided''])"

definition dhcp6_delete :: "'w provider_conf \<Rightarrow> dhcp6_model \<Rightarrow> ('w, unit) handler" where
  "dhcp6_delete conf data =
     (let d = dhcp6_dir conf (tf_string (d6_id data))
      in delete_daemon (pc_exec conf) d (stop_dhcp6_server (pc_exec conf) d) ''DHCP6Server Resource Delete Error'' ''DHCP6Server'')"

section \<open>The contract of a daemon resource\<close>

interpretation dhcp_daemon: daemon_resource read_dhcp_server_pid "start_dhcp_server fd" stop_dhcp_server "''DHCP server''" ds_state "\<lambda>s data. data\<lparr>ds_state := TKnown s\<rparr>" "read_dhcp_server fd" for fd
proof
  show "budget 0 0 (read_dhcp_server_pid (traced ex) d)" for ex :: "'w executor" and d
    unfolding read_dhcp_server_pid_def by (rule read_pid_budget)
  show "budget 1 0 (start_dhcp_server fd (traced_conf conf) d data)" for conf :: "'w provider_conf" and d data
    unfolding start_dhcp_server_def traced_conf_simps Let_def by (intro budget_prod start_detached_budget)
  show "budget 0 1 (stop_dhcp_server (traced ex) d)" for ex :: "'w executor" and d
    unfolding stop_dhcp_server_def read_dhcp_server_pid_def by (intro stop_process_budget read_pid_budget)
qed (simp_all add: read_dhcp_server_def)

interpretation dhcp6_daemon: daemon_resource read_dhcp6_server_pid "start_dhcp6_server fd" stop_dhcp6_server "''DHCPv6 server''" d6_state "\<lambda>s data. data\<lparr>d6_state := TKnown s\<rparr>" "read_dhcp6_server fd" for fd
proof
  show "budget 0 0 (read_dhcp6_server_pid (traced ex) d)" for ex :: "'w executor" and d
    unfolding read_dhcp6_server_pid_def by (rule read_pid_budget)
  show "budget 1 0 (start_dhcp6_server fd (traced_conf conf) d data)" for conf :: "'w provider_conf" and d data
    unfolding start_dhcp6_server_def traced_conf_simps Let_def by (intro budget_prod start_detached_budget)
  show "budget 0 1 (stop_dhcp6_server (traced ex) d)" for ex :: "'w executor" and d
    unfolding stop_dhcp6_server_def read_dhcp6_server_pid_def by (intro stop_process_budget read_pid_budget)
qed (simp_all add: read_dhcp6_server_def)

section \<open>A server in the lab\<close>

definition no_pid_flag :: "'w provider_conf \<Rightarrow> dhcp_model \<Rightarrow> bool" where
  "no_pid_flag conf data \<longleftrightarrow>
     ex_self_path (pc_exec conf) \<noteq> ''-pid-file'' \<and> pc_ip conf \<noteq> ''-pid-file'' \<and> known_string (ds_netns data) \<noteq> ''-pid-file''"

text \<open>A start is one process with the PID file of the model.\<close>

lemma run_start_dhcp_lab:
  assumes "pc_exec conf = lab_executor b" and "no_pid_flag conf data"
  shows "\<exists>args. pid_file_arg args = tf_string (ds_pid_file data) \<and>
           (\<forall>l. run_state (start_dhcp_server fd conf d data) l = (None, lab_start b args l))"
proof -
  obtain cmd args where c: "self_command conf (known_string (ds_netns data)) = (cmd, args)" by (metis surj_pair)
  have "''-pid-file'' \<notin> set args"
    using self_command_args [OF c] assms(2) by (simp add: no_pid_flag_def)
  then have "pid_file_arg (args @ [''-pid-file'', tf_string (ds_pid_file data), ''-dhcp-server'', ''-ds.config'',
      tf_string (ds_config_file data)]) = tf_string (ds_pid_file data)"
    by (rule pid_file_arg_app)
  then show ?thesis using assms(1) by (intro exI conjI) (auto simp: start_dhcp_server_def c)
qed

text \<open>The end of Create, and Delete, there.\<close>

definition dhcp_ready :: "string \<Rightarrow> dhcp_model \<Rightarrow> dhcp_model" where
  "dhcp_ready d data =
     data\<lparr>ds_config_file := TKnown (path_join [d, ''config.yaml'']), ds_leases_file := TKnown (path_join [d, ''leases.sqlite3'']),
          ds_lease_time := (if is_known (ds_lease_time data) then ds_lease_time data else TKnown 3600),
          ds_pid_file := TKnown (path_join [d, ''pid'']), ds_state := default_state (ds_state data)\<rparr>"

lemma dhcp_setup_lab:
  assumes "ds_pool data = Some pool" and "desired_state (ds_state data) = ''running''"
    and "pc_exec conf = lab_executor b" and "no_pid_flag conf data"
  shows "\<exists>args. pid_file_arg args = path_join [d, ''pid''] \<and>
    run_state (dhcp_setup fd lab_files conf d f data) l =
      (case run_state (reconcile (lab_executor b) d (ds_state (dhcp_ready d data))
                (read_pid id (lab_executor b) (path_join [d, ''pid'']) [])
                (start_dhcp_server fd conf d (dhcp_ready d data)) (stop_dhcp_server (lab_executor b) d) ''DHCP server'')
              (lab_start b args l) of
         (Inl e, l') \<Rightarrow> (Inl [add_error ''Failed to read DHCPServer state'' (err_msg e)], l')
       | (Inr s, l') \<Rightarrow> (Inr ((dhcp_ready d data)\<lparr>ds_state := TKnown s\<rparr>), l')) \<and>
    (\<forall>l. run_state (start_dhcp_server fd conf d (dhcp_ready d data)) l = (None, lab_start b args l))"
proof -
  let ?data = "dhcp_ready d data"
  have flag: "no_pid_flag conf ?data" using assms(4) by (simp add: no_pid_flag_def dhcp_ready_def)
  obtain args where pid: "pid_file_arg args = tf_string (ds_pid_file ?data)"
    and start: "\<forall>l. run_state (start_dhcp_server fd conf d ?data) l = (None, lab_start b args l)"
    using run_start_dhcp_lab [OF assms(3) flag] by blast
  have running: "tf_string (ds_state ?data) = ''running''"
    using assms(2) by (auto simp: dhcp_ready_def default_state_def desired_state_def split: if_splits)
  have "run_state (dhcp_setup fd lab_files conf d f data) l =
      run_state (bindE (start_if_running (ds_state ?data) (start_dhcp_server fd conf d ?data) ''DHCPServer Resource Error''
         ''Failed to start DHCP server: '') (\<lambda>_. read_or_fail (read_dhcp_server fd conf d ?data) ''Failed to read DHCPServer state'')) l"
    using assms(1) by (simp add: dhcp_setup_def Let_def dhcp_ready_def)
  moreover have "pid_file_arg args = path_join [d, ''pid'']" using pid by (simp add: dhcp_ready_def)
  ultimately show ?thesis
    using start running assms(3)
    by (intro exI [of _ args])
      (simp add: start_if_running_def read_or_fail_def read_dhcp_server_def read_dhcp_server_pid_def split: prod.splits sum.splits)
qed

lemma dhcp_create_lab:
  assumes "run_state (dhcp_create fd lab_files (quiet_controller bs wd ct) conf data) l = (Inr data', l')"
    and "pc_exec conf = lab_executor b"
  shows "\<exists>f. run_state (dhcp_setup fd lab_files conf (dhcp_dir conf (quiet_id bs)) f (data\<lparr>ds_id := TKnown (quiet_id bs)\<rparr>)) l =
    (Inr data', l')"
proof -
  obtain r k where n: "run_state (new_daemon_dir (quiet_controller bs wd ct) conf (dhcp_dir conf) ''DHCPServer Resource Error'') l = (r, k)"
    by (metis surj_pair)
  show ?thesis
    using assms new_daemon_dir_quiet [OF n]
    by (cases r) (auto simp: dhcp_create_def Let_def n)
qed

text \<open>The same by the effect on the lab: one start, and the reconciliation of Read after it.\<close>

lemma dhcp_create_runs:
  assumes "run_state (dhcp_create fd lab_files (quiet_controller bs wd ct) conf data) l = (Inr data', l')"
    and "pc_exec conf = lab_executor b" and "desired_state (ds_state data) = ''running''" and "no_pid_flag conf data"
    and prompt_pid: "b \<Longrightarrow> valid_pid (lb_next l)"
    and slow: "\<not> b \<Longrightarrow> lb_files l (path_join [dhcp_dir conf (quiet_id bs), ''pid'']) = None"
  shows "ds_id data' = TKnown (quiet_id bs) \<and>
    (\<exists>args. pid_file_arg args = path_join [dhcp_dir conf (quiet_id bs), ''pid''] \<and>
       l' = (if b then lab_start True args l else lab_start False args (lab_start False args l)))"
proof -
  let ?d = "dhcp_dir conf (quiet_id bs)"
  let ?data = "data\<lparr>ds_id := TKnown (quiet_id bs)\<rparr>"
  obtain f where run: "run_state (dhcp_setup fd lab_files conf ?d f ?data) l = (Inr data', l')"
    using dhcp_create_lab [OF assms(1,2)] by blast
  have flag: "no_pid_flag conf ?data" using assms(4) by (simp add: no_pid_flag_def)
  have des: "desired_state (ds_state ?data) = ''running''" using assms(3) by simp
  have des': "desired_state (ds_state (dhcp_ready ?d ?data)) = ''running''"
    using des by (auto simp: dhcp_ready_def default_state_def desired_state_def split: if_splits)
  obtain pool where pool: "ds_pool ?data = Some pool"
    using run by (cases "ds_pool ?data") (auto simp: dhcp_setup_def Let_def)
  obtain args where args: "pid_file_arg args = path_join [?d, ''pid'']"
    and setup_lab: "run_state (dhcp_setup fd lab_files conf ?d f ?data) l =
      (case run_state (reconcile (lab_executor b) ?d (ds_state (dhcp_ready ?d ?data))
                (read_pid id (lab_executor b) (path_join [?d, ''pid'']) [])
                (start_dhcp_server fd conf ?d (dhcp_ready ?d ?data)) (stop_dhcp_server (lab_executor b) ?d) ''DHCP server'')
              (lab_start b args l) of
         (Inl e, l') \<Rightarrow> (Inl [add_error ''Failed to read DHCPServer state'' (err_msg e)], l')
       | (Inr s, l') \<Rightarrow> (Inr ((dhcp_ready ?d ?data)\<lparr>ds_state := TKnown s\<rparr>), l'))"
    and start: "\<forall>l. run_state (start_dhcp_server fd conf ?d (dhcp_ready ?d ?data)) l = (None, lab_start b args l)"
    using dhcp_setup_lab [OF pool des assms(2) flag] by blast
  have "data' = (dhcp_ready ?d ?data)\<lparr>ds_state := TKnown ''running''\<rparr> \<and>
      l' = (if b then lab_start True args l else lab_start False args (lab_start False args l))"
  proof (cases b)
    case True
    then show ?thesis
      using run start start_reconcile_prompt [OF args des' prompt_pid [OF True]] unfolding setup_lab by simp
  next
    case False
    then have "lb_files (lab_start False args l) (path_join [?d, ''pid'']) = None" using slow by simp
    then show ?thesis
      using run False start unfolding setup_lab by (auto simp: start_reconcile_slow [OF des', where args = args])
  qed
  then show ?thesis using args by (auto simp: dhcp_ready_def)
qed

lemma dhcp_delete_lab:
  assumes "pc_exec conf = lab_executor b" and "lb_files l (path_join [dhcp_dir conf (tf_string (ds_id data)), ''pid'']) = Some (itoa i)"
    and "valid_pid i" and "i \<in> set (lb_procs l)"
  shows "run_state (dhcp_delete conf data) l = (Inr (), l\<lparr>lb_procs := remove1 i (lb_procs l)\<rparr>)"
  using assms
  by (simp add: dhcp_delete_def delete_daemon_def stop_dhcp_server_def read_dhcp_server_pid_def stop_process_lab Let_def)

section \<open>Properties\<close>

definition sample_lab :: lab where
  "sample_lab = \<lparr>lb_procs = [1], lb_files = (\<lambda>_. None), lb_next = 100\<rparr>"

definition sample_dhcp :: dhcp_model where
  "sample_dhcp =
     \<lparr>ds_id = TUnknown, ds_interface = TKnown ''tap0'', ds_server_id = TKnown ''10.0.0.1'', ds_name_server = TKnown ''1.1.1.1'',
      ds_router = TKnown ''10.0.0.1'', ds_netmask = TKnown ''255.255.255.0'',
      ds_pool = Some \<lparr>po_start = TKnown ''10.0.0.50'', po_end = TKnown ''10.0.0.90''\<rparr>, ds_lease_time = TUnknown,
      ds_static_routes = [], ds_leases_file = TUnknown, ds_config_file = TUnknown, ds_pid_file = TUnknown,
      ds_state = TNull, ds_netns = TNull\<rparr>"

lemma sample_dhcp_flag: "no_pid_flag (sample_conf (lab_executor b)) sample_dhcp"
  by (simp add: no_pid_flag_def sample_dhcp_def known_string_def)

lemma sample_dhcp_state: "desired_state (ds_state sample_dhcp) = ''running''"
  by (simp add: sample_dhcp_def desired_state_def)

lemma sample_dhcp_created:
  "\<exists>data' l'. run_state (dhcp_create (\<lambda>_. []) lab_files (quiet_controller bs (Inr ''/work'') ct) (sample_conf (lab_executor b)) sample_dhcp)
     sample_lab = (Inr data', l')"
proof -
  let ?conf = "sample_conf (lab_executor b) :: lab provider_conf"
  let ?d = "dhcp_dir ?conf (quiet_id bs)"
  let ?data = "sample_dhcp\<lparr>ds_id := TKnown (quiet_id bs)\<rparr>"
  have "ct_getwd (quiet_controller bs (Inr ''/work'') ct) = State_Monad.return (Inr ''/work'')"
    by (simp add: quiet_controller_def split: prod.splits)
  then have new: "run_state (new_daemon_dir (quiet_controller bs (Inr ''/work'') ct) ?conf (dhcp_dir ?conf) t) l = (Inr (quiet_id bs), l)" for l t
    by (simp add: new_daemon_dir_def run_quiet_id create_tf_back_pointer_def)
  have flag: "no_pid_flag ?conf ?data" using sample_dhcp_flag [of b] by (simp add: no_pid_flag_def)
  have des: "desired_state (ds_state ?data) = ''running''" by (simp add: sample_dhcp_state)
  then have des': "desired_state (ds_state (dhcp_ready ?d ?data)) = ''running''"
    by (auto simp: dhcp_ready_def default_state_def desired_state_def split: if_splits)
  have pool: "ds_pool ?data = Some \<lparr>po_start = TKnown ''10.0.0.50'', po_end = TKnown ''10.0.0.90''\<rparr>" by (simp add: sample_dhcp_def)
  have slow: "lb_files (lab_start False args sample_lab) p = None" for args p by (simp add: sample_lab_def)
  have ok: "valid_pid (lb_next sample_lab)" by (simp add: sample_lab_def valid_pid_def)
  obtain args where args: "pid_file_arg args = path_join [?d, ''pid'']"
    and lab: "run_state (dhcp_setup (\<lambda>_. []) lab_files ?conf ?d 3 ?data) sample_lab =
      (case run_state (reconcile (lab_executor b) ?d (ds_state (dhcp_ready ?d ?data))
                (read_pid id (lab_executor b) (path_join [?d, ''pid'']) [])
                (start_dhcp_server (\<lambda>_. []) ?conf ?d (dhcp_ready ?d ?data)) (stop_dhcp_server (lab_executor b) ?d) ''DHCP server'')
              (lab_start b args sample_lab) of
         (Inl e, l') \<Rightarrow> (Inl [add_error ''Failed to read DHCPServer state'' (err_msg e)], l')
       | (Inr s, l') \<Rightarrow> (Inr ((dhcp_ready ?d ?data)\<lparr>ds_state := TKnown s\<rparr>), l'))"
    and start: "\<forall>l. run_state (start_dhcp_server (\<lambda>_. []) ?conf ?d (dhcp_ready ?d ?data)) l = (None, lab_start b args l)"
    using dhcp_setup_lab [OF pool des sample_simps(1) flag, where f = 3 and l = sample_lab and fd = "\<lambda>_. []"] by blast
  have "\<exists>data' l'. run_state (dhcp_setup (\<lambda>_. []) lab_files ?conf ?d 3 ?data) sample_lab = (Inr data', l')"
    unfolding lab using start start_reconcile_prompt [OF args des' ok] start_reconcile_slow [OF des' slow, where args = args]
    by (cases b) auto
  then show ?thesis by (simp add: dhcp_create_def new Let_def)
qed

text \<open>C16: A DHCP server that writes its PID file in time: Create starts one process, and Delete ends it,
  which leaves the processes of the target as they were.\<close>

theorem dhcp_create_delete:
  assumes "run_state (dhcp_create fd lab_files (quiet_controller bs wd ct) conf data) l = (Inr data', l')"
    and "pc_exec conf = lab_executor True" and "desired_state (ds_state data) = ''running''" and "no_pid_flag conf data"
    and "valid_pid (lb_next l)"
  shows "lb_procs l' = lb_next l # lb_procs l \<and>
    (\<exists>k. run_state (dhcp_delete conf data') l' = (Inr (), k) \<and> lb_procs k = lb_procs l)"
proof -
  obtain args where made: "ds_id data' = TKnown (quiet_id bs)" "l' = lab_start True args l"
    "pid_file_arg args = path_join [dhcp_dir conf (quiet_id bs), ''pid'']"
    using dhcp_create_runs [OF assms(1-4)] assms(5) by auto
  then show ?thesis
    using dhcp_delete_lab [OF assms(2), of l' data' "lb_next l"] assms(5) by simp
qed

theorem dhcp_create_delete_witness:
  "\<exists>data' l' k. run_state (dhcp_create (\<lambda>_. []) lab_files (quiet_controller (1, 2, 3, 4) (Inr ''/work'') sample_controller)
       (sample_conf (lab_executor True)) sample_dhcp) sample_lab = (Inr data', l') \<and> lb_procs l' = [100, 1] \<and>
     run_state (dhcp_delete (sample_conf (lab_executor True)) data') l' = (Inr (), k) \<and> lb_procs k = [1]"
proof -
  obtain data' l' where run: "run_state (dhcp_create (\<lambda>_. []) lab_files (quiet_controller (1, 2, 3, 4) (Inr ''/work'') sample_controller)
       (sample_conf (lab_executor True)) sample_dhcp) sample_lab = (Inr data', l')"
    using sample_dhcp_created by blast
  show ?thesis
    using dhcp_create_delete [OF run _ sample_dhcp_state sample_dhcp_flag] run
    by (auto simp: sample_lab_def valid_pid_def)
qed

text \<open>C17: A DHCP server whose PID file is not yet there when Create reads it back is started a second time, and when
  the second one has overwritten the PID file, Delete ends that one and leaves the first running.\<close>

theorem dhcp_create_starts_twice:
  assumes "run_state (dhcp_create fd lab_files (quiet_controller bs wd ct) conf data) l = (Inr data', l')"
    and "pc_exec conf = lab_executor False" and "desired_state (ds_state data) = ''running''" and "no_pid_flag conf data"
    and "lb_files l (path_join [dhcp_dir conf (quiet_id bs), ''pid'']) = None" and "valid_pid (lb_next l + 1)"
  shows "lb_procs l' = (lb_next l + 1) # lb_next l # lb_procs l \<and>
    (\<exists>k. run_state (dhcp_delete conf data')
           (l'\<lparr>lb_files := (lb_files l')(path_join [dhcp_dir conf (quiet_id bs), ''pid''] \<mapsto> itoa (lb_next l + 1))\<rparr>) = (Inr (), k) \<and>
         lb_procs k = lb_next l # lb_procs l)"
proof -
  obtain args where made: "ds_id data' = TKnown (quiet_id bs)" "l' = lab_start False args (lab_start False args l)"
    using dhcp_create_runs [OF assms(1-4)] assms(5) by auto
  then show ?thesis
    using dhcp_delete_lab [OF assms(2), of "l'\<lparr>lb_files := (lb_files l')(path_join [dhcp_dir conf (quiet_id bs), ''pid''] \<mapsto> itoa (lb_next l + 1))\<rparr>"
        data' "lb_next l + 1"] assms(6) by simp
qed

theorem dhcp_create_starts_twice_witness:
  "\<exists>data' l'. run_state (dhcp_create (\<lambda>_. []) lab_files (quiet_controller (1, 2, 3, 4) (Inr ''/work'') sample_controller)
       (sample_conf (lab_executor False)) sample_dhcp) sample_lab = (Inr data', l') \<and> lb_procs l' = [101, 100, 1]"
proof -
  obtain data' l' where run: "run_state (dhcp_create (\<lambda>_. []) lab_files (quiet_controller (1, 2, 3, 4) (Inr ''/work'') sample_controller)
       (sample_conf (lab_executor False)) sample_dhcp) sample_lab = (Inr data', l')"
    using sample_dhcp_created by blast
  show ?thesis
    using dhcp_create_starts_twice [OF run _ sample_dhcp_state sample_dhcp_flag] run
    by (auto simp: sample_lab_def valid_pid_def)
qed



end
