(* ===== verification/Local_Datastore.thy ===== *)
theory Local_Datastore
  imports Dhcp_Server
begin

text \<open>
  The resource \<^verbatim>\<open>zedamigo_local_datastore\<close> (\<^verbatim>\<open>internal/provider/local_datastore_resource.go\<close>): an HTTP server
  for a directory. Its configuration can change in place: the server is restarted.
\<close>

record datastore_model =
  ld_id :: "string tfval"
  ld_listen :: "string tfval"
  ld_static_dir :: "string tfval"
  ld_bw_limit :: "string tfval"
  ld_username :: "string tfval"
  ld_password :: "string tfval"
  ld_pid_file :: "string tfval"
  ld_state :: "string tfval"

definition datastore_dir :: "'w provider_conf \<Rightarrow> string \<Rightarrow> string" where
  "datastore_dir conf i = path_join [pc_lib_path conf, ''local_datastores'', i]"

definition flag_if_set :: "string \<Rightarrow> string tfval \<Rightarrow> string list" where
  "flag_if_set flag v = (if v \<noteq> TNull \<and> tf_string v \<noteq> [] then [flag, tf_string v] else [])"

definition start_datastore ::
    "(diagnostics \<Rightarrow> string) \<Rightarrow> 'w provider_conf \<Rightarrow> string \<Rightarrow> datastore_model \<Rightarrow> ('w, goerr option) state" where
  "start_datastore fmt_diags conf d data =
     start_detached fmt_diags (pc_exec conf) d (ex_self_path (pc_exec conf))
       ([''-pid-file'', tf_string (ld_pid_file data), ''-http-server''] @ flag_if_set ''-hs.listen'' (ld_listen data) @
        [''-hs.static-dir'', tf_string (ld_static_dir data)] @ flag_if_set ''-hs.bw-limit'' (ld_bw_limit data) @
        flag_if_set ''-hs.username'' (ld_username data) @ flag_if_set ''-hs.password'' (ld_password data))
       ''HTTP server''"

definition read_datastore_pid :: "'w executor \<Rightarrow> string \<Rightarrow> ('w, pid_state) state" where
  "read_datastore_pid ex dir = read_pid id ex (path_join [dir, ''pid'']) []"

definition stop_datastore :: "'w executor \<Rightarrow> string \<Rightarrow> ('w, goerr option) state" where
  "stop_datastore ex d = stop_process ex (read_datastore_pid ex d) ''HTTP server''"

definition read_datastore ::
    "(diagnostics \<Rightarrow> string) \<Rightarrow> 'w provider_conf \<Rightarrow> string \<Rightarrow> datastore_model \<Rightarrow> ('w, goerr + datastore_model) state" where
  "read_datastore fmt_diags conf d data =
     bindE (reconcile (pc_exec conf) d (ld_state data) (read_datastore_pid (pc_exec conf) d)
              (start_datastore fmt_diags conf d data) (stop_datastore (pc_exec conf) d) ''HTTP server'')
       (\<lambda>s. okE (data\<lparr>ld_state := TKnown s\<rparr>))"

definition datastore_create ::
    "(diagnostics \<Rightarrow> string) \<Rightarrow> 'w controller \<Rightarrow> 'w provider_conf \<Rightarrow> datastore_model \<Rightarrow> ('w, datastore_model) handler" where
  "datastore_create fmt_diags ct conf data =
     (let t = ''LocalDatastore Resource Error''
      in bindE (mapE (\<lambda>e. [add_error t (''Static directory does not exist: '' @ err_msg e)])
                 (ex_stat (pc_exec conf) (tf_string (ld_static_dir data)))) (\<lambda>_.
         bindE (new_daemon_dir ct conf (datastore_dir conf) t) (\<lambda>i.
         let d = datastore_dir conf i;
             data = data\<lparr>ld_id := TKnown i, ld_pid_file := TKnown (path_join [d, ''pid'']), ld_state := default_state (ld_state data)\<rparr>
         in bindE (start_if_running (ld_state data) (start_datastore fmt_diags conf d data) t ''Failed to start HTTP server: '') (\<lambda>_.
            read_or_fail (read_datastore fmt_diags conf d data) ''Failed to read LocalDatastore state''))))"

text \<open>Read drops the resource when the error is a missing file.\<close>

definition datastore_read ::
    "(diagnostics \<Rightarrow> string) \<Rightarrow> 'w provider_conf \<Rightarrow> datastore_model \<Rightarrow> ('w, datastore_model option) handler" where
  "datastore_read fmt_diags conf data =
     read_or_gone (read_datastore fmt_diags conf (datastore_dir conf (tf_string (ld_id data))) data) is_not_exist
       ''Failed to read LocalDatastore state''"

definition datastore_config_changed :: "datastore_model \<Rightarrow> datastore_model \<Rightarrow> bool" where
  "datastore_config_changed plan st \<longleftrightarrow>
     ld_listen plan \<noteq> ld_listen st \<or> ld_static_dir plan \<noteq> ld_static_dir st \<or> ld_bw_limit plan \<noteq> ld_bw_limit st \<or>
     ld_username plan \<noteq> ld_username st \<or> ld_password plan \<noteq> ld_password st"

definition datastore_update ::
    "(diagnostics \<Rightarrow> string) \<Rightarrow> 'w provider_conf \<Rightarrow> datastore_model \<Rightarrow> datastore_model \<Rightarrow> ('w, datastore_model) handler" where
  "datastore_update fmt_diags conf plan st =
     (let t = ''LocalDatastore Resource Update Error''; d = datastore_dir conf (tf_string (ld_id st)); ex = pc_exec conf;
          start = start_datastore fmt_diags conf d plan; stop = stop_datastore ex d
      in bindE (if datastore_config_changed plan st
                then do {
                  _ \<leftarrow> stop;
                  bindE (whenE (planned_state (ld_state plan) = ''running'')
                           (orE start (\<lambda>e. [add_error t (''Failed to restart HTTP server with new configuration: '' @ err_msg e)])))
                    (\<lambda>_. okE (TKnown (planned_state (ld_state plan)))) }
                else if ld_state plan = ld_state st then okE (ld_state plan)
                else change_state (ld_state plan) start stop t ''HTTP server'')
           (\<lambda>s. read_or_fail (read_datastore fmt_diags conf d (plan\<lparr>ld_state := s\<rparr>)) ''Failed to read LocalDatastore state after update''))"

definition datastore_delete :: "'w provider_conf \<Rightarrow> datastore_model \<Rightarrow> ('w, unit) handler" where
  "datastore_delete conf data =
     (let d = datastore_dir conf (tf_string (ld_id data))
      in delete_daemon (pc_exec conf) d (stop_datastore (pc_exec conf) d) ''LocalDatastore Resource Delete Error'' ''LocalDatastore'')"

section \<open>The contract of a daemon resource\<close>

interpretation datastore_daemon: daemon_resource read_datastore_pid "start_datastore fd" stop_datastore "''HTTP server''" ld_state "\<lambda>s data. data\<lparr>ld_state := TKnown s\<rparr>" "read_datastore fd" for fd
proof
  show "budget 0 0 (read_datastore_pid (traced ex) d)" for ex :: "'w executor" and d
    unfolding read_datastore_pid_def by (rule read_pid_budget)
  show "budget 1 0 (start_datastore fd (traced_conf conf) d data)" for conf :: "'w provider_conf" and d data
    unfolding start_datastore_def traced_conf_simps Let_def by (intro budget_prod start_detached_budget)
  show "budget 0 1 (stop_datastore (traced ex) d)" for ex :: "'w executor" and d
    unfolding stop_datastore_def read_datastore_pid_def by (intro stop_process_budget read_pid_budget)
qed (simp_all add: read_datastore_def)


section \<open>Properties\<close>

text \<open>When the directory of a server is gone, the Read of the DHCP server drops the resource from the state; that of the
  local datastore fails, since the error it makes for this case is not the one it looks for.\<close>

theorem datastore_read_gone:
  assumes "run_state (ex_stat (pc_exec conf) (datastore_dir conf (tf_string (ld_id data)))) w = (Inl e, w')" and "is_not_exist e"
    and "run_state (ex_stat (pc_exec conf) (dhcp_dir conf (tf_string (ds_id dhcp)))) v = (Inl e', v')" and "is_not_exist e'"
  shows "run_state (datastore_read fd conf data) w =
      (Inl [add_error ''Failed to read LocalDatastore state'' ''resource directory does not exist''], w') \<and>
    run_state (dhcp_read fd conf dhcp) v = (Inr None, v')"
proof -
  have "str_contains ''resource directory does not exist'' ''does not exist''" by code_simp
  then have "run_state (dhcp_read fd conf dhcp) v = (Inr None, v')"
    using assms(3,4)
    by (simp add: dhcp_read_def read_or_gone_def read_dhcp_server_def reconcile_def dir_missing_def says_gone_def)
  moreover have "run_state (datastore_read fd conf data) w =
      (Inl [add_error ''Failed to read LocalDatastore state'' ''resource directory does not exist''], w')"
    using assms(1,2) by (simp add: datastore_read_def read_or_gone_def read_datastore_def reconcile_def dir_missing_def is_not_exist_def)
  ultimately show ?thesis by simp
qed

definition sample_datastore :: datastore_model where
  "sample_datastore =
     \<lparr>ld_id = TKnown ''a'', ld_listen = TNull, ld_static_dir = TKnown ''/srv'', ld_bw_limit = TNull, ld_username = TNull,
      ld_password = TNull, ld_pid_file = TUnknown, ld_state = TNull\<rparr>"

theorem datastore_read_gone_witness:
  "run_state (datastore_read (\<lambda>_. []) (sample_conf (idle_executor\<lparr>ex_stat := (\<lambda>p. State_Monad.return (Inl (Sentinel ErrNotExist)))\<rparr>))
     sample_datastore) () = (Inl [add_error ''Failed to read LocalDatastore state'' ''resource directory does not exist''], ())"
proof -
  let ?conf = "sample_conf (idle_executor\<lparr>ex_stat := (\<lambda>p. State_Monad.return (Inl (Sentinel ErrNotExist)))\<rparr>) :: unit provider_conf"
  have "run_state (ex_stat (pc_exec ?conf) p) () = (Inl (Sentinel ErrNotExist), ())" for p by simp
  moreover have "is_not_exist (Sentinel ErrNotExist)" by (simp add: is_not_exist_def)
  ultimately show ?thesis
    using datastore_read_gone [of ?conf sample_datastore "()" _ "()" sample_dhcp "()" _ "()"] by blast
qed

end
