(* ===== verification/Radv.thy ===== *)
theory Radv
  imports Dhcp_Server
begin

text \<open>
  The resource \<^verbatim>\<open>zedamigo_radv\<close> (\<^verbatim>\<open>internal/provider/radv_resource.go\<close>): a daemon that sends IPv6 router
  advertisements on an interface.
\<close>

record radv_model =
  ra_id :: "string tfval"
  ra_interface :: "string tfval"
  ra_prefix :: "string tfval"
  ra_routes :: "string tfval list"
  ra_prefix_on_link :: "bool tfval"
  ra_prefix_autonomous :: "bool tfval"
  ra_valid_lifetime :: "int tfval"
  ra_preferred_lifetime :: "int tfval"
  ra_dns_servers :: "string tfval"
  ra_managed_config :: "bool tfval"
  ra_other_config :: "bool tfval"
  ra_router_lifetime :: "int tfval"
  ra_max_interval :: "int tfval"
  ra_min_interval :: "int tfval"
  ra_hop_limit :: "int tfval"
  ra_config_file :: "string tfval"
  ra_pid_file :: "string tfval"
  ra_state :: "string tfval"

definition radv_dir :: "'w provider_conf \<Rightarrow> string \<Rightarrow> string" where
  "radv_dir conf i = path_join [pc_lib_path conf, ''radv'', i]"

abbreviation bool_text :: "bool tfval \<Rightarrow> string" where
  "bool_text b \<equiv> (if tf_value False b then ''true'' else ''false'')"

abbreviation int_text :: "int tfval \<Rightarrow> string" where
  "int_text v \<equiv> itoa (tf_int v)"

fun radv_routes :: "bool \<Rightarrow> string tfval list \<Rightarrow> string list" where
  "radv_routes first [] = []"
| "radv_routes first (r # rs) = (if first then [] else ['','']) @ [dq, tf_string r, dq] @ radv_routes False rs"

definition radv_config_template :: "radv_model \<Rightarrow> string list" where
  "radv_config_template data =
     [''# Router Advertisement configuration'' @ nl @ ''interface: '', tf_string (ra_interface data),
      nl @ ''prefix: '', tf_string (ra_prefix data),
      nl @ ''prefix_on_link: '', bool_text (ra_prefix_on_link data),
      nl @ ''prefix_autonomous: '', bool_text (ra_prefix_autonomous data),
      nl @ ''prefix_valid_lifetime: '', int_text (ra_valid_lifetime data),
      nl @ ''prefix_preferred_lifetime: '', int_text (ra_preferred_lifetime data),
      nl @ ''routes: [''] @ radv_routes True (ra_routes data) @
     ['']'' @ nl @ ''dns_servers: '', tf_string (ra_dns_servers data),
      nl @ ''managed_config: '', bool_text (ra_managed_config data),
      nl @ ''other_config: '', bool_text (ra_other_config data),
      nl @ ''router_lifetime: '', int_text (ra_router_lifetime data),
      nl @ ''max_interval: '', int_text (ra_max_interval data),
      nl @ ''min_interval: '', int_text (ra_min_interval data),
      nl @ ''hop_limit: '', int_text (ra_hop_limit data), nl]"

text \<open>The defaults of the flags.\<close>

definition default_bool :: "bool \<Rightarrow> bool tfval \<Rightarrow> bool tfval" where
  "default_bool b v = (if is_known v then v else TKnown b)"

definition radv_defaults :: "radv_model \<Rightarrow> radv_model" where
  "radv_defaults data =
     data\<lparr>ra_prefix_on_link := default_bool True (ra_prefix_on_link data),
          ra_prefix_autonomous := default_bool True (ra_prefix_autonomous data),
          ra_managed_config := default_bool False (ra_managed_config data),
          ra_other_config := default_bool False (ra_other_config data)\<rparr>"

definition start_radv ::
    "(diagnostics \<Rightarrow> string) \<Rightarrow> 'w provider_conf \<Rightarrow> string \<Rightarrow> radv_model \<Rightarrow> ('w, goerr option) state" where
  "start_radv fmt_diags conf d data =
     (let (cmd, args) = self_command conf []
      in start_detached fmt_diags (pc_exec conf) d cmd
           (args @ [''-pid-file'', tf_string (ra_pid_file data), ''-radv'', ''-radv.wait'', ''-radv.config'', tf_string (ra_config_file data)])
           ''RADV daemon'')"

definition read_radv_pid :: "'w executor \<Rightarrow> string \<Rightarrow> ('w, pid_state) state" where
  "read_radv_pid ex dir = read_pid id ex (path_join [dir, ''pid'']) []"

definition stop_radv :: "'w executor \<Rightarrow> string \<Rightarrow> ('w, goerr option) state" where
  "stop_radv ex d = stop_process ex (read_radv_pid ex d) ''RADV daemon''"

definition read_radv ::
    "(diagnostics \<Rightarrow> string) \<Rightarrow> 'w provider_conf \<Rightarrow> string \<Rightarrow> radv_model \<Rightarrow> ('w, goerr + radv_model) state" where
  "read_radv fmt_diags conf d data =
     bindE (reconcile (pc_exec conf) d (ra_state data) (read_radv_pid (pc_exec conf) d)
              (start_radv fmt_diags conf d data) (stop_radv (pc_exec conf) d) ''RADV daemon'')
       (\<lambda>s. okE (data\<lparr>ra_state := TKnown s\<rparr>))"

definition radv_setup ::
    "(diagnostics \<Rightarrow> string) \<Rightarrow> 'w config_files \<Rightarrow> 'w provider_conf \<Rightarrow> string \<Rightarrow> nat \<Rightarrow> radv_model \<Rightarrow> ('w, radv_model) handler" where
  "radv_setup fmt_diags cf conf d f data =
     (let t = ''RADV Resource Error''; conf_path = path_join [d, ''config.yaml''];
          data = data\<lparr>ra_config_file := TKnown conf_path\<rparr>
      in bindE (mapE (\<lambda>e. [add_error t (''Can't write templated config file '' @ [CHR 0x27] @ conf_path @ [CHR 0x27] @ '': '' @ err_msg e)])
                  (execute_template cf f (radv_config_template data))) (\<lambda>_.
         let data = data\<lparr>ra_pid_file := TKnown (path_join [d, ''pid'']), ra_state := default_state (ra_state data)\<rparr>
         in bindE (start_if_running (ra_state data) (start_radv fmt_diags conf d data) t ''Failed to start RADV daemon: '') (\<lambda>_.
            read_or_fail (read_radv fmt_diags conf d data) ''Failed to read RADV state'')))"

definition radv_create ::
    "(diagnostics \<Rightarrow> string) \<Rightarrow> 'w config_files \<Rightarrow> 'w controller \<Rightarrow> 'w provider_conf \<Rightarrow> radv_model \<Rightarrow> ('w, radv_model) handler" where
  "radv_create fmt_diags cf ct conf data =
     (let t = ''RADV Resource Error''
      in bindE (new_daemon_dir ct conf (radv_dir conf) t) (\<lambda>i.
         let d = radv_dir conf i; conf_path = path_join [d, ''config.yaml'']
         in bindE (mapE (\<lambda>e. [add_error t (''Can't create file '' @ [CHR 0x27] @ conf_path @ [CHR 0x27] @ '': '' @ err_msg e)])
                (cf_open cf conf_path mode_644)) (\<lambda>f.
            closing cf f (radv_setup fmt_diags cf conf d f (radv_defaults (data\<lparr>ra_id := TKnown i\<rparr>))))))"

definition radv_read ::
    "(diagnostics \<Rightarrow> string) \<Rightarrow> 'w provider_conf \<Rightarrow> radv_model \<Rightarrow> ('w, radv_model option) handler" where
  "radv_read fmt_diags conf data =
     read_or_gone (read_radv fmt_diags conf (radv_dir conf (tf_string (ra_id data))) data) says_gone ''Failed to read RADV state''"

definition radv_update ::
    "(diagnostics \<Rightarrow> string) \<Rightarrow> 'w provider_conf \<Rightarrow> radv_model \<Rightarrow> radv_model \<Rightarrow> ('w, radv_model) handler" where
  "radv_update fmt_diags conf plan st =
     (let t = ''RADV Resource Update Error''; d = radv_dir conf (tf_string (ra_id st)); ex = pc_exec conf
      in bindE (if ra_state plan = ra_state st then okE (ra_state plan)
                else change_state (ra_state plan) (start_radv fmt_diags conf d plan) (stop_radv ex d) t ''RADV daemon'')
           (\<lambda>s. read_or_fail (read_radv fmt_diags conf d (plan\<lparr>ra_state := s\<rparr>)) ''Failed to read RADV state after update''))"

definition radv_delete :: "'w provider_conf \<Rightarrow> radv_model \<Rightarrow> ('w, unit) handler" where
  "radv_delete conf data =
     (let d = radv_dir conf (tf_string (ra_id data))
      in delete_daemon (pc_exec conf) d (stop_radv (pc_exec conf) d) ''RADV Resource Delete Error'' ''RADV'')"

section \<open>The contract of a daemon resource\<close>

interpretation radv_daemon: daemon_resource read_radv_pid "start_radv fd" stop_radv "''RADV daemon''" ra_state "\<lambda>s data. data\<lparr>ra_state := TKnown s\<rparr>" "read_radv fd" for fd
proof
  show "budget 0 0 (read_radv_pid (traced ex) d)" for ex :: "'w executor" and d
    unfolding read_radv_pid_def by (rule read_pid_budget)
  show "budget 1 0 (start_radv fd (traced_conf conf) d data)" for conf :: "'w provider_conf" and d data
    unfolding start_radv_def traced_conf_simps Let_def by (intro budget_prod start_detached_budget)
  show "budget 0 1 (stop_radv (traced ex) d)" for ex :: "'w executor" and d
    unfolding stop_radv_def read_radv_pid_def by (intro stop_process_budget read_pid_budget)
qed (simp_all add: read_radv_def)


end
