(* ===== verification/Monitors.thy ===== *)
theory Monitors
  imports Radv
begin

text \<open>
  The resources \<^verbatim>\<open>zedamigo_internet_monitor\<close> and \<^verbatim>\<open>zedamigo_monitor_system_usage\<close>
  (\<^verbatim>\<open>internal/provider/internet_monitor_resource.go\<close>, \<^verbatim>\<open>monitor_system_usage_resource.go\<close>): daemons that record
  measurements in a file.
\<close>

text \<open>\<^verbatim>\<open>List.ElementsAs\<close> into a string slice: null is the empty slice, unknown cannot be converted.\<close>

fun extract_string_list :: "'w controller \<Rightarrow> string tfval list tfval \<Rightarrow> diagnostics + string list" where
  "extract_string_list ct TNull = Inr []"
| "extract_string_list ct TUnknown = Inl (ct_conv ct)"
| "extract_string_list ct (TKnown es) = elements_as ct es"

definition output_or :: "string \<Rightarrow> string tfval \<Rightarrow> string tfval" where
  "output_or path v = (if \<not> is_known v \<or> tf_string v = [] then TKnown path else v)"

text \<open>\<^verbatim>\<open>writeIMConfig\<close>, \<^verbatim>\<open>writeMSUConfig\<close>: open, execute the template, close.\<close>

definition write_config :: "'w config_files \<Rightarrow> string \<Rightarrow> string list \<Rightarrow> ('w, goerr + unit) state" where
  "write_config cf conf_path chunks =
     bindE (mapE (wrapf (''create '' @ conf_path @ '': '')) (cf_open cf conf_path mode_644)) (\<lambda>f.
       closing cf f (mapE (wrapf (''write '' @ conf_path @ '': '')) (execute_template cf f chunks)))"

section \<open>Internet monitor\<close>

record im_model =
  im_id :: "string tfval"
  im_destinations :: "string tfval list tfval"
  im_interval :: "string tfval"
  im_ping_count :: "int tfval"
  im_ping_timeout :: "string tfval"
  im_dns_timeout :: "string tfval"
  im_http_timeout :: "string tfval"
  im_doh_endpoint :: "string tfval"
  im_flush_every_n :: "int tfval"
  im_privileged_icmp :: "bool tfval"
  im_output_file :: "string tfval"
  im_config_file :: "string tfval"
  im_pid_file :: "string tfval"
  im_state :: "string tfval"
  im_netns :: "string tfval"

definition im_dir :: "'w provider_conf \<Rightarrow> string \<Rightarrow> string" where
  "im_dir conf i = path_join [pc_lib_path conf, ''internet_monitors'', i]"

definition im_config_template :: "im_model \<Rightarrow> string list \<Rightarrow> string list" where
  "im_config_template data destinations =
     [''# Internet monitor configuration (auto-generated)'' @ nl @ ''output_file: '', tf_string (im_output_file data),
      nl @ ''interval: '' @ dq, tf_string (im_interval data), dq @ nl @ ''ping_count: '', int_text (im_ping_count data),
      nl @ ''ping_timeout: '' @ dq, tf_string (im_ping_timeout data), dq @ nl @ ''dns_timeout: '' @ dq,
      tf_string (im_dns_timeout data), dq @ nl @ ''http_timeout: '' @ dq, tf_string (im_http_timeout data),
      dq @ nl @ ''doh_endpoint: '' @ dq, tf_string (im_doh_endpoint data), dq @ nl @ ''flush_every_n: '',
      int_text (im_flush_every_n data), nl @ ''privileged_icmp: '', bool_text (im_privileged_icmp data),
      nl @ ''destinations:''] @
     concat (map (\<lambda>x. [nl @ ''  - '' @ dq, x, dq]) destinations) @ [nl]"

definition write_im_config :: "'w config_files \<Rightarrow> string \<Rightarrow> im_model \<Rightarrow> string list \<Rightarrow> ('w, goerr + unit) state" where
  "write_im_config cf conf_path data destinations = write_config cf conf_path (im_config_template data destinations)"

definition start_im ::
    "(diagnostics \<Rightarrow> string) \<Rightarrow> 'w provider_conf \<Rightarrow> string \<Rightarrow> im_model \<Rightarrow> ('w, goerr option) state" where
  "start_im fmt_diags conf d data =
     (let (cmd, args) = self_command conf (known_string (im_netns data))
      in start_detached fmt_diags (pc_exec conf) d cmd
           (args @ [''-pid-file'', tf_string (im_pid_file data), ''-internet-monitor'', ''-im.config'', tf_string (im_config_file data)])
           ''internet-monitor daemon'')"

definition read_im_pid :: "'w executor \<Rightarrow> string \<Rightarrow> ('w, pid_state) state" where
  "read_im_pid ex dir = read_pid id ex (path_join [dir, ''pid'']) []"

definition stop_im :: "'w executor \<Rightarrow> string \<Rightarrow> ('w, goerr option) state" where
  "stop_im ex d = stop_process ex (read_im_pid ex d) ''internet-monitor daemon''"

definition read_im ::
    "(diagnostics \<Rightarrow> string) \<Rightarrow> 'w provider_conf \<Rightarrow> string \<Rightarrow> im_model \<Rightarrow> ('w, goerr + im_model) state" where
  "read_im fmt_diags conf d data =
     bindE (reconcile (pc_exec conf) d (im_state data) (read_im_pid (pc_exec conf) d)
              (start_im fmt_diags conf d data) (stop_im (pc_exec conf) d) ''internet-monitor daemon'')
       (\<lambda>s. okE (data\<lparr>im_state := TKnown s\<rparr>))"

definition im_create ::
    "(diagnostics \<Rightarrow> string) \<Rightarrow> 'w config_files \<Rightarrow> 'w controller \<Rightarrow> 'w provider_conf \<Rightarrow> im_model \<Rightarrow> ('w, im_model) handler" where
  "im_create fmt_diags cf ct conf data =
     (let t = ''InternetMonitor Resource Error''
      in bindE (new_daemon_dir ct conf (im_dir conf) t) (\<lambda>i.
         let d = im_dir conf i; conf_path = path_join [d, ''config.yaml''];
             data = data\<lparr>im_id := TKnown i, im_output_file := output_or (path_join [d, ''output.msu.cbor'']) (im_output_file data)\<rparr>
         in case extract_string_list ct (im_destinations data) of
              Inl diags \<Rightarrow> failE diags
            | Inr destinations \<Rightarrow>
              bindE (mapE (\<lambda>e. [add_error t (''Unable to write config file: '' @ err_msg e)])
                       (write_im_config cf conf_path data destinations)) (\<lambda>_.
              let data = data\<lparr>im_config_file := TKnown conf_path, im_pid_file := TKnown (path_join [d, ''pid'']),
                              im_state := default_state (im_state data)\<rparr>
              in bindE (start_if_running (im_state data) (start_im fmt_diags conf d data) t
                          ''Failed to start internet-monitor daemon: '') (\<lambda>_.
                 read_or_fail (read_im fmt_diags conf d data) ''Failed to read InternetMonitor state''))))"

definition im_read ::
    "(diagnostics \<Rightarrow> string) \<Rightarrow> 'w provider_conf \<Rightarrow> im_model \<Rightarrow> ('w, im_model option) handler" where
  "im_read fmt_diags conf data =
     read_or_gone (read_im fmt_diags conf (im_dir conf (tf_string (im_id data))) data) says_gone
       ''Failed to read InternetMonitor state''"

definition im_config_changed :: "im_model \<Rightarrow> im_model \<Rightarrow> bool" where
  "im_config_changed plan st \<longleftrightarrow>
     im_destinations plan \<noteq> im_destinations st \<or> im_interval plan \<noteq> im_interval st \<or> im_ping_count plan \<noteq> im_ping_count st \<or>
     im_ping_timeout plan \<noteq> im_ping_timeout st \<or> im_dns_timeout plan \<noteq> im_dns_timeout st \<or>
     im_http_timeout plan \<noteq> im_http_timeout st \<or> im_doh_endpoint plan \<noteq> im_doh_endpoint st \<or>
     im_flush_every_n plan \<noteq> im_flush_every_n st \<or> im_privileged_icmp plan \<noteq> im_privileged_icmp st \<or>
     im_output_file plan \<noteq> im_output_file st"

definition im_update ::
    "(diagnostics \<Rightarrow> string) \<Rightarrow> 'w provider_conf \<Rightarrow> im_model \<Rightarrow> im_model \<Rightarrow> ('w, im_model) handler" where
  "im_update fmt_diags conf plan st =
     (let t = ''InternetMonitor Resource Update Error''; d = im_dir conf (tf_string (im_id st)); ex = pc_exec conf
      in if im_config_changed plan st then failE (recreate_error t)
         else let plan = plan\<lparr>im_config_file := im_config_file st, im_pid_file := im_pid_file st, im_output_file := im_output_file st\<rparr>
              in bindE (if im_state plan = im_state st then okE (im_state plan)
                        else change_state (im_state plan) (start_im fmt_diags conf d plan) (stop_im ex d) t ''internet-monitor daemon'')
                   (\<lambda>s. read_or_fail (read_im fmt_diags conf d (plan\<lparr>im_state := s\<rparr>))
                          ''Failed to read InternetMonitor state after update''))"

definition im_delete :: "'w provider_conf \<Rightarrow> im_model \<Rightarrow> ('w, unit) handler" where
  "im_delete conf data =
     (let d = im_dir conf (tf_string (im_id data))
      in delete_daemon (pc_exec conf) d (stop_im (pc_exec conf) d) ''InternetMonitor Resource Delete Error'' ''InternetMonitor'')"

section \<open>System usage monitor\<close>

record msu_model =
  mu_id :: "string tfval"
  mu_interval :: "string tfval"
  mu_flush_every_n :: "int tfval"
  mu_namespaces :: "string tfval list tfval"
  mu_include_env :: "string tfval"
  mu_output_file :: "string tfval"
  mu_config_file :: "string tfval"
  mu_pid_file :: "string tfval"
  mu_state :: "string tfval"
  mu_netns :: "string tfval"

definition msu_dir :: "'w provider_conf \<Rightarrow> string \<Rightarrow> string" where
  "msu_dir conf i = path_join [pc_lib_path conf, ''monitor_system_usage'', i]"

definition msu_config_template :: "msu_model \<Rightarrow> string list \<Rightarrow> string list" where
  "msu_config_template data namespaces =
     [''# Monitor system usage configuration (auto-generated)'' @ nl @ ''output_file: '', tf_string (mu_output_file data),
      nl @ ''interval: '' @ dq, tf_string (mu_interval data), dq @ nl @ ''flush_every_n: '', int_text (mu_flush_every_n data),
      nl @ ''include_env: '' @ dq, tf_string (mu_include_env data), dq @ nl @ ''namespaces:''] @
     concat (map (\<lambda>x. [nl @ ''  - '' @ dq, x, dq]) namespaces) @ [nl]"

definition write_msu_config :: "'w config_files \<Rightarrow> string \<Rightarrow> msu_model \<Rightarrow> string list \<Rightarrow> ('w, goerr + unit) state" where
  "write_msu_config cf conf_path data namespaces = write_config cf conf_path (msu_config_template data namespaces)"

definition start_msu ::
    "(diagnostics \<Rightarrow> string) \<Rightarrow> 'w provider_conf \<Rightarrow> string \<Rightarrow> msu_model \<Rightarrow> ('w, goerr option) state" where
  "start_msu fmt_diags conf d data =
     (let (cmd, args) = self_command conf (known_string (mu_netns data))
      in start_detached fmt_diags (pc_exec conf) d cmd
           (args @ [''-pid-file'', tf_string (mu_pid_file data), ''-monitor-system-usage'', ''-msu.config'', tf_string (mu_config_file data)])
           ''monitor-system-usage daemon'')"

definition read_msu_pid :: "'w executor \<Rightarrow> string \<Rightarrow> ('w, pid_state) state" where
  "read_msu_pid ex dir = read_pid id ex (path_join [dir, ''pid'']) []"

definition stop_msu :: "'w executor \<Rightarrow> string \<Rightarrow> ('w, goerr option) state" where
  "stop_msu ex d = stop_process ex (read_msu_pid ex d) ''monitor-system-usage daemon''"

definition read_msu ::
    "(diagnostics \<Rightarrow> string) \<Rightarrow> 'w provider_conf \<Rightarrow> string \<Rightarrow> msu_model \<Rightarrow> ('w, goerr + msu_model) state" where
  "read_msu fmt_diags conf d data =
     bindE (reconcile (pc_exec conf) d (mu_state data) (read_msu_pid (pc_exec conf) d)
              (start_msu fmt_diags conf d data) (stop_msu (pc_exec conf) d) ''monitor-system-usage daemon'')
       (\<lambda>s. okE (data\<lparr>mu_state := TKnown s\<rparr>))"

definition msu_create ::
    "(diagnostics \<Rightarrow> string) \<Rightarrow> 'w config_files \<Rightarrow> 'w controller \<Rightarrow> 'w provider_conf \<Rightarrow> msu_model \<Rightarrow> ('w, msu_model) handler" where
  "msu_create fmt_diags cf ct conf data =
     (let t = ''MonitorSystemUsage Resource Error''
      in bindE (new_daemon_dir ct conf (msu_dir conf) t) (\<lambda>i.
         let d = msu_dir conf i; conf_path = path_join [d, ''config.yaml''];
             data = data\<lparr>mu_id := TKnown i, mu_output_file := output_or (path_join [d, ''data.msu.cbor'']) (mu_output_file data)\<rparr>
         in case (case mu_namespaces data of TKnown es \<Rightarrow> elements_as ct es | _ \<Rightarrow> Inr []) of
              Inl diags \<Rightarrow> failE diags
            | Inr namespaces \<Rightarrow>
              bindE (mapE (\<lambda>e. [add_error t (''Unable to write config file: '' @ err_msg e)])
                       (write_msu_config cf conf_path data namespaces)) (\<lambda>_.
              let data = data\<lparr>mu_config_file := TKnown conf_path, mu_pid_file := TKnown (path_join [d, ''pid'']),
                              mu_state := default_state (mu_state data)\<rparr>
              in bindE (start_if_running (mu_state data) (start_msu fmt_diags conf d data) t
                          ''Failed to start monitor-system-usage daemon: '') (\<lambda>_.
                 read_or_fail (read_msu fmt_diags conf d data) ''Failed to read MonitorSystemUsage state''))))"

definition msu_read ::
    "(diagnostics \<Rightarrow> string) \<Rightarrow> 'w provider_conf \<Rightarrow> msu_model \<Rightarrow> ('w, msu_model option) handler" where
  "msu_read fmt_diags conf data =
     read_or_gone (read_msu fmt_diags conf (msu_dir conf (tf_string (mu_id data))) data) says_gone
       ''Failed to read MonitorSystemUsage state''"

definition msu_config_changed :: "msu_model \<Rightarrow> msu_model \<Rightarrow> bool" where
  "msu_config_changed plan st \<longleftrightarrow>
     mu_interval plan \<noteq> mu_interval st \<or> mu_flush_every_n plan \<noteq> mu_flush_every_n st \<or> mu_namespaces plan \<noteq> mu_namespaces st \<or>
     mu_include_env plan \<noteq> mu_include_env st \<or> mu_output_file plan \<noteq> mu_output_file st"

definition msu_update ::
    "(diagnostics \<Rightarrow> string) \<Rightarrow> 'w provider_conf \<Rightarrow> msu_model \<Rightarrow> msu_model \<Rightarrow> ('w, msu_model) handler" where
  "msu_update fmt_diags conf plan st =
     (let t = ''MonitorSystemUsage Resource Update Error''; d = msu_dir conf (tf_string (mu_id st)); ex = pc_exec conf
      in if msu_config_changed plan st then failE (recreate_error t)
         else let plan = plan\<lparr>mu_config_file := mu_config_file st, mu_pid_file := mu_pid_file st, mu_output_file := mu_output_file st\<rparr>
              in bindE (if mu_state plan = mu_state st then okE (mu_state plan)
                        else change_state (mu_state plan) (start_msu fmt_diags conf d plan) (stop_msu ex d) t ''monitor-system-usage daemon'')
                   (\<lambda>s. read_or_fail (read_msu fmt_diags conf d (plan\<lparr>mu_state := s\<rparr>))
                          ''Failed to read MonitorSystemUsage state after update''))"

definition msu_delete :: "'w provider_conf \<Rightarrow> msu_model \<Rightarrow> ('w, unit) handler" where
  "msu_delete conf data =
     (let d = msu_dir conf (tf_string (mu_id data))
      in delete_daemon (pc_exec conf) d (stop_msu (pc_exec conf) d) ''MonitorSystemUsage Resource Delete Error'' ''MonitorSystemUsage'')"

section \<open>The contract of a daemon resource\<close>

interpretation im_daemon: daemon_resource read_im_pid "start_im fd" stop_im "''internet-monitor daemon''" im_state "\<lambda>s data. data\<lparr>im_state := TKnown s\<rparr>" "read_im fd" for fd
proof
  show "budget 0 0 (read_im_pid (traced ex) d)" for ex :: "'w executor" and d
    unfolding read_im_pid_def by (rule read_pid_budget)
  show "budget 1 0 (start_im fd (traced_conf conf) d data)" for conf :: "'w provider_conf" and d data
    unfolding start_im_def traced_conf_simps Let_def by (intro budget_prod start_detached_budget)
  show "budget 0 1 (stop_im (traced ex) d)" for ex :: "'w executor" and d
    unfolding stop_im_def read_im_pid_def by (intro stop_process_budget read_pid_budget)
qed (simp_all add: read_im_def)

interpretation msu_daemon: daemon_resource read_msu_pid "start_msu fd" stop_msu "''monitor-system-usage daemon''" mu_state "\<lambda>s data. data\<lparr>mu_state := TKnown s\<rparr>" "read_msu fd" for fd
proof
  show "budget 0 0 (read_msu_pid (traced ex) d)" for ex :: "'w executor" and d
    unfolding read_msu_pid_def by (rule read_pid_budget)
  show "budget 1 0 (start_msu fd (traced_conf conf) d data)" for conf :: "'w provider_conf" and d data
    unfolding start_msu_def traced_conf_simps Let_def by (intro budget_prod start_detached_budget)
  show "budget 0 1 (stop_msu (traced ex) d)" for ex :: "'w executor" and d
    unfolding stop_msu_def read_msu_pid_def by (intro stop_process_budget read_pid_budget)
qed (simp_all add: read_msu_def)


end
