(* ===== verification/Swtpm.thy ===== *)
theory Swtpm
  imports Daemon Wait_Until
begin

text \<open>
  The resource \<^verbatim>\<open>zedamigo_swtpm\<close> (\<^verbatim>\<open>internal/provider/swtpm_resource.go\<close>): an emulated TPM whose process is kept
  alive by a monitor script. Two processes have to be started, waited for and stopped together; the waits
  recurse on fuel, one unit per round.
\<close>

record swtpm_model =
  tm_id :: "string tfval"
  tm_name :: "string tfval"
  tm_socket :: "string tfval"
  tm_state :: "string tfval"

definition swtpm_dir :: "'w provider_conf \<Rightarrow> string \<Rightarrow> string" where
  "swtpm_dir conf i = path_join [pc_lib_path conf, ''swtmps'', i]"

section \<open>The two processes\<close>

definition read_monitor_pid :: "'w provider_conf \<Rightarrow> string \<Rightarrow> ('w, pid_state) state" where
  "read_monitor_pid conf d = read_pid (wrapf []) (pc_exec conf) (path_join [d, ''process_monitor.pid'']) []"

definition read_swtpm_pid :: "'w provider_conf \<Rightarrow> string \<Rightarrow> ('w, pid_state) state" where
  "read_swtpm_pid conf d = read_pid (wrapf []) (pc_exec conf) (path_join [d, ''swtpm.pid'']) (pc_swtpm conf)"

definition start_swtpm :: "(diagnostics \<Rightarrow> string) \<Rightarrow> 'w provider_conf \<Rightarrow> string \<Rightarrow> ('w, goerr option) state" where
  "start_swtpm fmt_diags conf d =
     start_detached fmt_diags (pc_exec conf) d (pc_bash conf)
       [path_join [d, ''process_monitor.bash''], ''-p'', path_join [d, ''process_monitor.pid''], pc_swtpm conf, ''socket'',
        ''--pid'', ''file='' @ path_join [d, ''swtpm.pid''],
        ''--log'', ''level=20,file='' @ path_join [d, ''swtpm.log''],
        ''--ctrl'', ''type=unixio,path='' @ path_join [d, ''swtpm.socket''],
        ''--tpmstate'', ''dir='' @ path_join [d, ''state''], ''--tpm2'']
       ''the swtpm process monitor''"

section \<open>Waiting\<close>

text \<open>The loop of both waits: check, give up after the deadline, sleep. \<open>None\<close> means that the fuel ran out.\<close>

fun wait_for :: "nat \<Rightarrow> 'w controller \<Rightarrow> int \<Rightarrow> int \<Rightarrow> ('w, bool) state \<Rightarrow> ('w, bool option) state" where
  "wait_for 0 ct deadline interval check = State_Monad.return None"
| "wait_for (Suc n) ct deadline interval check = do {
     b \<leftarrow> check;
     if b then State_Monad.return (Some True)
     else do {
       now \<leftarrow> ct_now ct;
       if now > deadline then State_Monad.return (Some False)
       else do { _ \<leftarrow> ct_sleep ct interval; wait_for n ct deadline interval check } } }"

definition poll_interval :: int where "poll_interval = 200 * msec"

definition swtpm_ready :: "'w provider_conf \<Rightarrow> string \<Rightarrow> ('w, bool) state" where
  "swtpm_ready conf d = do {
     (running, pid, err) \<leftarrow> read_swtpm_pid conf d;
     if running then do {
       st \<leftarrow> ex_stat (pc_exec conf) (path_join [d, ''swtpm.socket'']);
       State_Monad.return (case st of Inr _ \<Rightarrow> True | Inl _ \<Rightarrow> False) }
     else State_Monad.return False }"

definition wait_swtpm_ready :: "nat \<Rightarrow> 'w controller \<Rightarrow> 'w provider_conf \<Rightarrow> string \<Rightarrow> ('w, goerr option) state" where
  "wait_swtpm_ready fuel ct conf d = do {
     now \<leftarrow> ct_now ct;
     r \<leftarrow> wait_for fuel ct (now + 10 * sec) poll_interval (swtpm_ready conf d);
     if r = Some True then State_Monad.return None
     else do {
       x \<leftarrow> ex_read_file (pc_exec conf) (path_join [d, ''swtpm.log'']);
       let log_tail = (case x of Inr s \<Rightarrow> if s \<noteq> [] then tail_string s 1024 else ''(no log)'' | Inl _ \<Rightarrow> ''(no log)'');
       State_Monad.return (Some (Err (''swtpm did not become ready within 10s, log: '' @ log_tail))) } }"

definition both_gone :: "'w provider_conf \<Rightarrow> string \<Rightarrow> ('w, bool) state" where
  "both_gone conf d = do {
     (pm, pm_pid, pm_err) \<leftarrow> read_monitor_pid conf d;
     (sw, sw_pid, sw_err) \<leftarrow> read_swtpm_pid conf d;
     State_Monad.return (\<not> pm \<and> \<not> sw) }"

definition wait_swtpm_gone :: "nat \<Rightarrow> 'w controller \<Rightarrow> 'w provider_conf \<Rightarrow> string \<Rightarrow> int \<Rightarrow> ('w, bool) state" where
  "wait_swtpm_gone fuel ct conf d timeout = do {
     now \<leftarrow> ct_now ct;
     r \<leftarrow> wait_for fuel ct (now + timeout) poll_interval (both_gone conf d);
     State_Monad.return (r = Some True) }"

section \<open>Stop\<close>

text \<open>One step of the escalation: a process that is alive is killed.\<close>

definition kill_if_running ::
    "'w executor \<Rightarrow> ('w, pid_state) state \<Rightarrow> string \<Rightarrow> ('w, goerr + unit) state" where
  "kill_if_running ex rd what = do {
     (running, pid, err) \<leftarrow> rd;
     if running then do {
       k \<leftarrow> ex_kill ex pid SIGKILL;
       case k of
         Some e \<Rightarrow> failE (wrapf (''can't kill '' @ what @ '' (PID '' @ itoa pid @ ''): '') e)
       | None \<Rightarrow> okE () }
     else okE () }"

definition escalate :: "nat \<Rightarrow> 'w controller \<Rightarrow> 'w provider_conf \<Rightarrow> string \<Rightarrow> ('w, goerr option) state" where
  "escalate fuel ct conf d = do {
     r \<leftarrow> bindE (kill_if_running (pc_exec conf) (read_monitor_pid conf d) ''the swtpm process monitor'') (\<lambda>_.
          kill_if_running (pc_exec conf) (read_swtpm_pid conf d) ''the swtpm process'');
     case r of
       Inl e \<Rightarrow> State_Monad.return (Some e)
     | Inr _ \<Rightarrow> do {
         gone \<leftarrow> wait_swtpm_gone fuel ct conf d (2 * sec);
         State_Monad.return (if gone then None
           else Some (Err ''the swtpm process and/or its process monitor are still running after SIGKILL'')) } }"

definition stop_swtpm :: "nat \<Rightarrow> 'w controller \<Rightarrow> 'w provider_conf \<Rightarrow> string \<Rightarrow> ('w, goerr option) state" where
  "stop_swtpm fuel ct conf d = do {
     (pm, pm_pid, pm_err) \<leftarrow> read_monitor_pid conf d;
     (sw, sw_pid, sw_err) \<leftarrow> read_swtpm_pid conf d;
     if \<not> pm \<and> \<not> sw then State_Monad.return None
     else do {
       _ \<leftarrow> ex_kill (pc_exec conf) (if pm then pm_pid else sw_pid) SIGTERM;
       gone \<leftarrow> wait_swtpm_gone fuel ct conf d (5 * sec);
       if gone then State_Monad.return None else escalate fuel ct conf d } }"

section \<open>Reconciling\<close>

definition read_swtpm ::
    "nat \<Rightarrow> (diagnostics \<Rightarrow> string) \<Rightarrow> 'w controller \<Rightarrow> 'w provider_conf \<Rightarrow> string \<Rightarrow> swtpm_model \<Rightarrow> ('w, goerr + swtpm_model) state" where
  "read_swtpm fuel fmt_diags ct conf d data = do {
     info \<leftarrow> ex_stat (pc_exec conf) d;
     if dir_missing info then failE (Err ''resource directory does not exist'')
     else do {
       (pm, pid, err) \<leftarrow> read_monitor_pid conf d;
       r \<leftarrow> (if desired_state (tm_state data) = ''running'' \<and> \<not> pm then do {
               e \<leftarrow> start_swtpm fmt_diags conf d;
               case e of
                 Some e \<Rightarrow> failE (wrapf ''failed to start swtpm: '' e)
               | None \<Rightarrow> do {
                   e2 \<leftarrow> wait_swtpm_ready fuel ct conf d;
                   case e2 of Some e \<Rightarrow> failE e | None \<Rightarrow> okE ''running'' } }
             else if desired_state (tm_state data) = ''stopped'' \<and> pm then do {
               e \<leftarrow> stop_swtpm fuel ct conf d;
               case e of Some e \<Rightarrow> failE (wrapf ''failed to stop swtpm: '' e) | None \<Rightarrow> okE ''stopped'' }
             else okE (state_of pm));
       case r of
         Inl e \<Rightarrow> failE e
       | Inr s \<Rightarrow> okE (data\<lparr>tm_state := TKnown s, tm_socket := TKnown (path_join [d, ''swtpm.socket''])\<rparr>) } }"

section \<open>Handlers\<close>

text \<open>\<open>monitor\<close> is the embedded script \<^verbatim>\<open>process_monitor.bash\<close>.\<close>

definition setup_resource_dir ::
    "string \<Rightarrow> 'w controller \<Rightarrow> 'w provider_conf \<Rightarrow> string \<Rightarrow> ('w, goerr + unit) state" where
  "setup_resource_dir monitor ct conf d =
     (let ex = pc_exec conf; step = (\<lambda>m msg. do { r \<leftarrow> m; case r of Some e \<Rightarrow> failE (wrapf msg e) | None \<Rightarrow> okE () })
      in seqE
        [step (ex_mkdir_all ex (path_join [d, ''state'']) mode_700) ''unable to create resource specific directory: '',
         step (create_tf_back_pointer ct ex d) ''unable to create resource specific file: '',
         step (ex_write_file ex (path_join [d, ''process_monitor.bash'']) monitor mode_755)
           ''unable to write the process monitor script: ''])"

definition swtpm_create ::
    "nat \<Rightarrow> (diagnostics \<Rightarrow> string) \<Rightarrow> string \<Rightarrow> 'w controller \<Rightarrow> 'w provider_conf \<Rightarrow> swtpm_model \<Rightarrow> ('w, swtpm_model) handler" where
  "swtpm_create fuel fmt_diags monitor ct conf data =
     (let t = ''SwTPM Resource Error''
      in if pc_swtpm conf = []
         then failE [add_error t ''The `swtpm` executable was not found on the target host when the provider was configured.'']
         else bindE (mapE (\<lambda>e. [add_error t (''Unable to generate a new resource ID: '' @ err_msg e)]) (new_resource_id ct)) (\<lambda>i.
           let d = swtpm_dir conf i
           in bindE (mapE (\<lambda>e. [add_error t (err_msg e)]) (setup_resource_dir monitor ct conf d)) (\<lambda>_.
              mapE (\<lambda>e. [add_error t (err_msg e)])
                (read_swtpm fuel fmt_diags ct conf d
                  (data\<lparr>tm_id := TKnown i, tm_socket := TKnown (path_join [d, ''swtpm.socket'']),
                        tm_state := default_state (tm_state data)\<rparr>)))))"

definition swtpm_read ::
    "nat \<Rightarrow> (diagnostics \<Rightarrow> string) \<Rightarrow> 'w controller \<Rightarrow> 'w provider_conf \<Rightarrow> swtpm_model \<Rightarrow> ('w, swtpm_model option) handler" where
  "swtpm_read fuel fmt_diags ct conf data =
     read_or_gone (read_swtpm fuel fmt_diags ct conf (swtpm_dir conf (tf_string (tm_id data))) data) says_gone
       ''Failed to read SwTPM state''"

definition swtpm_update ::
    "nat \<Rightarrow> (diagnostics \<Rightarrow> string) \<Rightarrow> 'w controller \<Rightarrow> 'w provider_conf \<Rightarrow> swtpm_model \<Rightarrow> swtpm_model \<Rightarrow> ('w, swtpm_model) handler" where
  "swtpm_update fuel fmt_diags ct conf plan st =
     read_or_fail (read_swtpm fuel fmt_diags ct conf (swtpm_dir conf (tf_string (tm_id st)))
         (plan\<lparr>tm_state := default_state (tm_state plan)\<rparr>)) ''SwTPM Resource Update Error''"

definition swtpm_delete :: "nat \<Rightarrow> 'w controller \<Rightarrow> 'w provider_conf \<Rightarrow> swtpm_model \<Rightarrow> ('w, unit) handler" where
  "swtpm_delete fuel ct conf data =
     (let d = swtpm_dir conf (tf_string (tm_id data)); t = ''SwTPM Resource Delete Error''
      in bindE (orE (stop_swtpm fuel ct conf d)
                 (\<lambda>e. [add_error t (''Can't stop the swtpm process(es), not deleting the resource directory, retry the destroy: '' @ err_msg e)])) (\<lambda>_.
         orE (ex_remove (pc_exec conf) d) (\<lambda>e. [add_error t (''Can't delete resource directory: '' @ err_msg e)])))"

section \<open>What a wait and a stop establish\<close>

lemma run_wait_for_Suc:
  "run_state (wait_for (Suc n) ct dl iv check) w =
     (let (b, w1) = run_state check w; (now, w2) = run_state (ct_now ct) w1
      in if b then (Some True, w1) else if now > dl then (Some False, w2)
         else run_state (wait_for n ct dl iv check) (snd (run_state (ct_sleep ct iv) w2)))"
  by (simp add: Let_def split: prod.splits)

lemma wait_for_true:
  "run_state (wait_for n ct dl iv check) w = (Some True, w') \<Longrightarrow> \<exists>v. run_state check v = (True, w')"
proof (induction n arbitrary: w)
  case (Suc n)
  then show ?case unfolding run_wait_for_Suc by (auto simp: Let_def split: prod.splits if_splits)
qed simp

lemma wait_swtpm_gone_true:
  "run_state (wait_swtpm_gone n ct conf d timeout) w = (True, w') \<Longrightarrow> \<exists>v. run_state (both_gone conf d) v = (True, w')"
  by (auto simp: wait_swtpm_gone_def split: prod.splits dest: wait_for_true)

lemma escalate_ok:
  "run_state (escalate n ct conf d) w = (None, w') \<Longrightarrow> \<exists>v. run_state (both_gone conf d) v = (True, w')"
  by (auto simp: escalate_def split: prod.splits sum.splits if_splits dest!: wait_swtpm_gone_true)

lemma run_both_gone:
  "run_state (both_gone conf d) w =
     (let ((pm, pm_pid, pm_err), w1) = run_state (read_monitor_pid conf d) w;
          ((sw, sw_pid, sw_err), w2) = run_state (read_swtpm_pid conf d) w1
      in (\<not> pm \<and> \<not> sw, w2))"
  by (simp add: both_gone_def split: prod.splits)

lemma stop_swtpm_ok:
  assumes "run_state (stop_swtpm n ct conf d) w = (None, w')"
  shows "\<exists>v. run_state (both_gone conf d) v = (True, w')"
proof -
  obtain pm pm_pid pm_err w1 where m: "run_state (read_monitor_pid conf d) w = ((pm, pm_pid, pm_err), w1)" by (metis surj_pair)
  obtain sw sw_pid sw_err w2 where s: "run_state (read_swtpm_pid conf d) w1 = ((sw, sw_pid, sw_err), w2)" by (metis surj_pair)
  show ?thesis
  proof (cases "pm \<or> sw")
    case False
    then show ?thesis using assms m s by (intro exI [of _ w]) (simp add: stop_swtpm_def run_both_gone)
  next
    case True
    then show ?thesis
      using assms m s
      by (auto simp: stop_swtpm_def split: prod.splits if_splits dest: wait_swtpm_gone_true escalate_ok)
  qed
qed

text \<open>The waits end: a clock that is not turned back and that a sleep advances.\<close>

definition steady_clock :: "('w \<Rightarrow> int) \<Rightarrow> 'w controller \<Rightarrow> ('w, bool) state \<Rightarrow> bool" where
  "steady_clock clk ct check \<longleftrightarrow>
     (\<forall>w. run_state (ct_now ct) w = (clk w, w) \<and> clk w \<le> clk (snd (run_state check w)) \<and>
          (\<forall>t. clk w + t \<le> clk (snd (run_state (ct_sleep ct t) w))))"

lemma wait_for_ends:
  assumes clock: "steady_clock clk ct check" and iv: "0 \<le> iv" and "dl - clk w < int n * iv"
  shows "\<exists>b w'. \<forall>fuel > n. run_state (wait_for fuel ct dl iv check) w = (Some b, w')"
  using assms(3)
proof (induction n arbitrary: w)
  case 0
  obtain b w1 where check: "run_state check w = (b, w1)" by (metis surj_pair)
  then have "clk w \<le> clk w1" using clock unfolding steady_clock_def by (metis snd_conv)
  with 0 have "dl < clk w1" by simp
  moreover have "run_state (ct_now ct) w1 = (clk w1, w1)" using clock by (simp add: steady_clock_def)
  ultimately have "run_state (wait_for (Suc m) ct dl iv check) w = (Some b, w1)" for m
    using check by (simp add: run_wait_for_Suc)
  then show ?case by (metis gr0_implies_Suc)
next
  case (Suc n)
  obtain b w1 where check: "run_state check w = (b, w1)" by (metis surj_pair)
  let ?w2 = "snd (run_state (ct_sleep ct iv) w1)"
  have "clk w \<le> clk w1" using check clock unfolding steady_clock_def by (metis snd_conv)
  moreover have now: "run_state (ct_now ct) w1 = (clk w1, w1)" and "clk w1 + iv \<le> clk ?w2"
    using clock by (simp_all add: steady_clock_def)
  ultimately have "dl - clk ?w2 < int n * iv" using Suc.prems by (simp add: algebra_simps)
  then obtain c w' where rest: "\<forall>fuel > n. run_state (wait_for fuel ct dl iv check) ?w2 = (Some c, w')"
    using Suc.IH by blast
  have "run_state (wait_for (Suc m) ct dl iv check) w =
      (if b then (Some True, w1) else if clk w1 > dl then (Some False, w1) else (Some c, w'))" if "n < m" for m
    using check now rest [rule_format, OF that] by (auto simp: run_wait_for_Suc split: prod.splits)
  then have "\<forall>fuel > Suc n. run_state (wait_for fuel ct dl iv check) w =
      (if b then (Some True, w1) else if clk w1 > dl then (Some False, w1) else (Some c, w'))"
    by (metis Suc_lessE)
  then show ?case by (auto split: if_splits)
qed

section \<open>Properties\<close>

text \<open>C4: The directory of a TPM is removed only right after a check that found neither the monitor nor the
  TPM process running, on every way through the stop.\<close>

theorem swtpm_delete_checked:
  assumes "run_state (swtpm_delete fuel ct conf data) w = (Inr (), w')"
  shows "\<exists>v v'. run_state (both_gone conf (swtpm_dir conf (tf_string (tm_id data)))) v = (True, v') \<and>
    run_state (ex_remove (pc_exec conf) (swtpm_dir conf (tf_string (tm_id data)))) v' = (None, w')"
  using assms
  by (auto simp: swtpm_delete_def Let_def split: prod.splits sum.splits option.splits dest!: stop_swtpm_ok)

text \<open>C27: The waits for the processes end: with a steady clock, 52 rounds are enough for the longest of the timeouts,
  and more fuel changes nothing.\<close>

theorem swtpm_waits_end:
  assumes "steady_clock clk ct check" and "check \<in> {both_gone conf d, swtpm_ready conf d}" and "timeout \<le> 10 * sec"
  shows "\<exists>b w'. \<forall>fuel \<ge> 52. run_state (wait_for fuel ct (clk w + timeout) poll_interval check) w = (Some b, w')"
proof -
  have "clk w + timeout - clk w < int 51 * poll_interval" using assms(3) by (simp add: poll_interval_def)
  from wait_for_ends [OF assms(1) _ this] show ?thesis by (auto simp: poll_interval_def less_eq_Suc_le)
qed

definition sample_swtpm :: swtpm_model where
  "sample_swtpm = \<lparr>tm_id = TKnown ''a'', tm_name = TKnown ''t'', tm_socket = TNull, tm_state = TKnown ''stopped''\<rparr>"

text \<open>A target where no PID file can be read.\<close>

definition blind_executor :: "'w executor" where
  "blind_executor = idle_executor\<lparr>ex_read_file := (\<lambda>p. State_Monad.return (Inl (Err ''connection lost'')))\<rparr>"

lemma blind_executor_simps [simp]:
  "ex_read_file blind_executor p = State_Monad.return (Inl (Err ''connection lost''))"
  "ex_remove blind_executor p = State_Monad.return None"
  "run_state (ex_stat blind_executor p) w = (Inr \<lparr>fi_is_dir = False, fi_size = 0\<rparr>, w)"
  by (simp_all add: blind_executor_def)

definition clock_controller :: "int controller" where
  "clock_controller =
     sample_controller\<lparr>ct_now := State (\<lambda>t. (t, t)), ct_sleep := (\<lambda>d. State (\<lambda>t. ((), t + d)))\<rparr>"

theorem swtpm_waits_end_witness:
  "\<exists>b w'. \<forall>fuel \<ge> 52. run_state (wait_for fuel clock_controller (3 + 5 * sec) poll_interval
     (both_gone (sample_conf blind_executor) ''d'')) 3 = (Some b, w')"
proof -
  have "steady_clock id clock_controller (both_gone (sample_conf blind_executor) ''d'')"
    by (simp add: steady_clock_def clock_controller_def run_both_gone read_monitor_pid_def read_swtpm_pid_def read_pid_def)
  from swtpm_waits_end [OF this, of "sample_conf blind_executor" "''d''" "5 * sec" 3] show ?thesis by simp
qed

theorem swtpm_delete_checked_witness:
  "let conf = sample_conf blind_executor :: unit provider_conf
   in \<exists>v v'. run_state (both_gone conf (swtpm_dir conf ''a'')) v = (True, v') \<and>
        run_state (ex_remove blind_executor (swtpm_dir conf ''a'')) v' = (None, ())"
proof -
  have "run_state (swtpm_delete 52 sample_controller (sample_conf blind_executor :: unit provider_conf) sample_swtpm) () = (Inr (), ())"
    by (simp add: swtpm_delete_def sample_swtpm_def stop_swtpm_def read_monitor_pid_def read_swtpm_pid_def read_pid_def Let_def)
  from swtpm_delete_checked [OF this] show ?thesis by (simp add: sample_swtpm_def Let_def)
qed

text \<open>The check takes a PID file that cannot be read for a process that is gone: when both reads fail,
  Delete sends no signal and removes the directory under processes that may be alive.\<close>

theorem swtpm_delete_blind:
  assumes "\<And>p w. p \<in> {path_join [d, ''process_monitor.pid''], path_join [d, ''swtpm.pid'']} \<Longrightarrow>
             run_state (ex_read_file (pc_exec conf) p) w = (Inl e, w)"
    and "d = swtpm_dir conf (tf_string (tm_id data))"
  shows "run_state (swtpm_delete fuel ct (traced_conf conf) data) (w, []) =
    (let (r, w') = run_state (ex_remove (pc_exec conf) d) w
     in (case r of None \<Rightarrow> Inr () | Some e \<Rightarrow> Inl [add_error ''SwTPM Resource Delete Error'' (''Can't delete resource directory: '' @ err_msg e)],
         (w', [CRead (path_join [d, ''process_monitor.pid'']), CRead (path_join [d, ''swtpm.pid'']), CRemove d])))"
proof -
  have "swtpm_dir (traced_conf conf) (tf_string (tm_id data)) = d" using assms(2) by (simp add: swtpm_dir_def)
  then show ?thesis
    using assms(1)
    by (simp add: swtpm_delete_def stop_swtpm_def read_monitor_pid_def read_swtpm_pid_def read_pid_def Let_def
        split: prod.splits option.splits)
qed

theorem swtpm_delete_blind_witness:
  "\<exists>d. run_state (swtpm_delete 52 sample_controller (traced_conf (sample_conf blind_executor)) sample_swtpm) ((), []) =
     (Inr (), ((), [CRead (path_join [d, ''process_monitor.pid'']), CRead (path_join [d, ''swtpm.pid'']), CRemove d]))"
proof -
  have "run_state (ex_read_file (pc_exec (sample_conf blind_executor)) p) w = (Inl (Err ''connection lost''), w)" for p :: string and w :: unit
    by simp
  from swtpm_delete_blind [OF this refl, where data = sample_swtpm and fuel = 52 and ct = sample_controller and w = "()"]
  show ?thesis by auto
qed

text \<open>A TPM that should be stopped and whose monitor is dead is reported as stopped, with no signal sent and
  without looking at the TPM process, which may have survived its monitor.\<close>

theorem swtpm_orphan_reported_stopped:
  assumes "run_state (ex_stat (pc_exec conf) d) w = (Inr info, w1)"
    and "run_state (read_monitor_pid conf d) w1 = ((False, pid, err), w')"
    and "tm_state data = TKnown ''stopped''"
  shows "run_state (read_swtpm fuel fd ct conf d data) w =
    (Inr (data\<lparr>tm_state := TKnown ''stopped'', tm_socket := TKnown (path_join [d, ''swtpm.socket''])\<rparr>), w')"
  using assms by (simp add: read_swtpm_def dir_missing_def desired_state_def state_of_def)

theorem swtpm_orphan_reported_stopped_witness:
  "run_state (read_swtpm 52 (\<lambda>_. []) sample_controller (sample_conf blind_executor) ''d'' sample_swtpm) () =
    (Inr (sample_swtpm\<lparr>tm_state := TKnown ''stopped'', tm_socket := TKnown (path_join [''d'', ''swtpm.socket''])\<rparr>), ())"
  by (rule swtpm_orphan_reported_stopped [where info = "\<lparr>fi_is_dir = False, fi_size = 0\<rparr>" and ?w1.0 = "()" and pid = 0 and err = "Some (wrapf [] (Err ''connection lost''))"])
    (simp_all add: read_monitor_pid_def read_pid_def sample_swtpm_def)

end
