(* ===== verification/Netns_Resource.thy ===== *)
theory Netns_Resource
  imports Bridge Dhcp_Server
begin

text \<open>
  The resource \<^verbatim>\<open>zedamigo_netns\<close> (\<^verbatim>\<open>internal/provider/netns_resource.go\<close>): a network namespace, which other
  resources name to be placed in it.
\<close>

record netns_model =
  nn_id :: "string tfval"
  nn_name :: "string tfval"

definition netns_dir :: "'w provider_conf \<Rightarrow> string \<Rightarrow> string" where
  "netns_dir conf i = path_join [pc_lib_path conf, ''netns'', i]"

definition netns_create :: "'w controller \<Rightarrow> 'w provider_conf \<Rightarrow> netns_model \<Rightarrow> ('w, netns_model) handler" where
  "netns_create ct conf data =
     (let t = ''NetNS Resource Error''
      in bindE (new_daemon_dir ct conf (netns_dir conf) t) (\<lambda>i.
         bindE (ip_step (pc_exec conf) (netns_dir conf i) (build_ip_command conf [])
                  (add_error t ''Unable to create a new network namespace.'') [''netns'', ''add'', tf_string (nn_name data)])
           (\<lambda>_. okE (data\<lparr>nn_id := TKnown i\<rparr>))))"

text \<open>A line of \<^verbatim>\<open>ip netns list\<close> is a name, with the id of the namespace behind it when it has one.\<close>

definition netns_listed :: "string \<Rightarrow> string \<Rightarrow> bool" where
  "netns_listed out name =
     list_ex (\<lambda>l. case str_fields l of [] \<Rightarrow> False | f # _ \<Rightarrow> f = name) (split_on (CHR 0x0A) out)"

definition netns_read :: "'w provider_conf \<Rightarrow> netns_model \<Rightarrow> ('w, netns_model option) handler" where
  "netns_read conf data = do {
     (res, err) \<leftarrow> run_ip (pc_exec conf) (netns_dir conf (tf_string (nn_id data))) (build_ip_command conf []) [''netns'', ''list''];
     case err of
       Some e \<Rightarrow> failE (add_error ''NetNS Resource Error'' (''Unable to list network namespaces: '' @ err_msg e) # result_diagnostics res)
     | None \<Rightarrow> okE (if netns_listed (r_stdout res) (tf_string (nn_name data)) then Some data else None) }"

definition netns_update :: "netns_model \<Rightarrow> ('w, netns_model) handler" where
  "netns_update data = failE [add_error ''NetNS Resource Update Error'' ''Update is not supported.'']"

definition netns_gone_strs :: "string list" where
  "netns_gone_strs = [''No such file'', ''no such file'', ''Cannot find'', ''Invalid argument'']"

definition netns_delete :: "'w provider_conf \<Rightarrow> netns_model \<Rightarrow> ('w, unit) handler" where
  "netns_delete conf data = do {
     let d = netns_dir conf (tf_string (nn_id data));
     (res, err) \<leftarrow> run_ip (pc_exec conf) d (build_ip_command conf []) [''netns'', ''delete'', tf_string (nn_name data)];
     if err \<noteq> None \<and> \<not> any_contained (err_msg (the err)) netns_gone_strs
     then failE (add_error ''Failed to delete network namespace'' (err_msg (the err)) # result_diagnostics res)
     else orE (ex_remove (pc_exec conf) d)
            (\<lambda>e. [add_error ''NetNS Resource Delete Error'' (''Can't delete NetNS resource directory: '' @ err_msg e)]) }"

section \<open>The listing\<close>

text \<open>What \<^verbatim>\<open>ip netns list\<close> prints for namespaces with or without an id.\<close>

fun netns_line :: "string \<times> nat option \<Rightarrow> string" where
  "netns_line (n, None) = n"
| "netns_line (n, Some k) = n @ '' (id: '' @ dec_of_nat k @ '')''"

definition netns_output :: "(string \<times> nat option) list \<Rightarrow> string" where
  "netns_output ns = concat (map (\<lambda>e. netns_line e @ [CHR 0x0A]) ns)"

definition netns_name :: "string \<Rightarrow> bool" where
  "netns_name n \<longleftrightarrow> n \<noteq> [] \<and> (\<forall>c \<in> set n. \<not> is_space c)"

lemma str_fields_acc_word:
  "\<forall>c \<in> set n. \<not> is_space c \<Longrightarrow> n \<noteq> [] \<or> acc \<noteq> [] \<Longrightarrow> rest = [] \<or> is_space (hd rest) \<Longrightarrow>
     \<exists>fs. str_fields_acc acc (n @ rest) = (rev acc @ n) # fs"
proof (induction n arbitrary: acc)
  case Nil
  then show ?case by (cases rest) auto
next
  case (Cons c n)
  then show ?case by fastforce
qed

lemma str_fields_line:
  assumes "netns_name (fst e)"
  shows "\<exists>fs. str_fields (netns_line e) = fst e # fs"
proof (cases e)
  case (Pair n k)
  then show ?thesis
    using assms str_fields_acc_word [of n "[]" "[]"] str_fields_acc_word [of n "[]" "'' (id: '' @ dec_of_nat (the k) @ '')''"]
    by (cases k) (auto simp: netns_name_def str_fields_def is_space_def)
qed

lemma netns_line_no_nl:
  assumes "netns_name (fst e)"
  shows "CHR 0x0A \<notin> set (netns_line e)"
proof -
  have nl: "is_space (CHR 0x0A)" by (simp add: is_space_def)
  then have "CHR 0x0A \<notin> set (fst e)" using assms by (auto simp: netns_name_def)
  moreover have "CHR 0x0A \<notin> set (dec_of_nat k)" for k
    using set_dec_of_nat is_digit_not_ws nl by blast
  ultimately show ?thesis by (cases e rule: netns_line.cases) simp_all
qed

lemma netns_listed_output:
  assumes "\<forall>e \<in> set ns. netns_name (fst e)" and "netns_name n"
  shows "netns_listed (netns_output ns) n \<longleftrightarrow> n \<in> fst ` set ns"
  using assms(1)
proof (induction ns)
  case Nil
  then show ?case by (simp add: netns_listed_def netns_output_def str_fields_def)
next
  case (Cons e ns)
  then obtain fs where "str_fields (netns_line e) = fst e # fs" using str_fields_line by fastforce
  moreover have "split_on (CHR 0x0A) (netns_output (e # ns)) = netns_line e # split_on (CHR 0x0A) (netns_output ns)"
    using Cons.prems netns_line_no_nl by (simp add: netns_output_def split_on_app_sep)
  ultimately show ?case using Cons by (auto simp: netns_listed_def)
qed

section \<open>A target with namespaces\<close>

type_synonym namespaces = "(string \<times> nat option) list"

text \<open>The three sub-commands, as \<^verbatim>\<open>ip\<close> carries them out: a failure exits with 1 and says why on stderr.\<close>

definition ip_failed :: "string \<Rightarrow> string list \<Rightarrow> string \<Rightarrow> result \<times> goerr option" where
  "ip_failed c a msg =
     (let e = Err ''exit status 1''
      in ((new_result c a)\<lparr>r_exit_code := 1, r_stderr := msg, r_error := Some e\<rparr>, Some e))"

definition ip_netns :: "string \<Rightarrow> string list \<Rightarrow> namespaces \<Rightarrow> (result \<times> goerr option) \<times> namespaces" where
  "ip_netns c a ns =
     (case dropWhile (\<lambda>w. w \<noteq> ''netns'') a of
        [_, op] \<Rightarrow>
          if op = ''list'' then (((new_result c a)\<lparr>r_stdout := netns_output ns\<rparr>, None), ns) else (ip_failed c a ''usage'', ns)
      | [_, op, n] \<Rightarrow>
          if op = ''add'' then
            (if n \<in> fst ` set ns then (ip_failed c a (''Cannot create namespace file '' @ dq @ ''/var/run/netns/'' @ n @ dq @ '': File exists''), ns)
             else ((new_result c a, None), ns @ [(n, None)]))
          else if op = ''delete'' then
            (if n \<in> fst ` set ns then ((new_result c a, None), filter (\<lambda>e. fst e \<noteq> n) ns)
             else (ip_failed c a (''Cannot remove namespace file '' @ dq @ ''/var/run/netns/'' @ n @ dq @ '': No such file or directory''), ns))
          else (ip_failed c a ''usage'', ns)
      | _ \<Rightarrow> (ip_failed c a ''usage'', ns))"

definition netns_target :: "namespaces executor" where
  "netns_target = idle_executor\<lparr>ex_run := (\<lambda>d c a. State (ip_netns c a))\<rparr>"

lemma netns_target_simps [simp]:
  "run_state (ex_run netns_target d c a) ns = ip_netns c a ns" "ex_mkdir_all netns_target p m = State_Monad.return None"
  "ex_write_file netns_target p b m = State_Monad.return None" "ex_remove netns_target p = State_Monad.return None"
  by (simp_all add: netns_target_def)

definition netns_conf :: "namespaces provider_conf \<Rightarrow> bool" where
  "netns_conf conf \<longleftrightarrow> pc_exec conf = netns_target \<and> pc_ip conf \<noteq> ''netns''"

lemma run_ip_netns:
  assumes "netns_conf conf"
  obtains c a where "run_state (run_ip (pc_exec conf) d (build_ip_command conf []) (''netns'' # ws)) ns = ip_netns c a ns"
    and "dropWhile (\<lambda>w. w \<noteq> ''netns'') a = ''netns'' # ws"
proof -
  obtain c a where ip: "build_ip_command conf [] = (c, a)" by (metis surj_pair)
  then have "run_state (run_ip (pc_exec conf) d (build_ip_command conf []) (''netns'' # ws)) ns = ip_netns c (a @ ''netns'' # ws) ns"
    using assms by (simp add: run_ip_def netns_conf_def)
  moreover have "dropWhile (\<lambda>w. w \<noteq> ''netns'') (a @ ''netns'' # ws) = ''netns'' # ws"
    using assms ip by (auto simp: netns_conf_def build_ip_command_def Let_def split: if_splits)
  ultimately show ?thesis by (rule that)
qed

lemma netns_create_target:
  assumes "netns_conf conf" and "run_state (netns_create (quiet_controller bs wd ct) conf data) ns = (Inr data', ns')"
  shows "tf_string (nn_name data) \<notin> fst ` set ns \<and> ns' = ns @ [(tf_string (nn_name data), None)] \<and> nn_name data' = nn_name data"
proof -
  obtain r k where new: "run_state (new_daemon_dir (quiet_controller bs wd ct) conf (netns_dir conf) ''NetNS Resource Error'') ns = (r, k)"
    by (metis surj_pair)
  then have k: "k = ns" using new_daemon_dir_quiet [OF new] assms(1) by (simp add: netns_conf_def)
  obtain c a where "run_state (run_ip (pc_exec conf) (netns_dir conf (projr r)) (build_ip_command conf [])
      [''netns'', ''add'', tf_string (nn_name data)]) ns = ip_netns c a ns"
    and "dropWhile (\<lambda>w. w \<noteq> ''netns'') a = [''netns'', ''add'', tf_string (nn_name data)]"
    by (rule run_ip_netns [OF assms(1)])
  then show ?thesis
    using assms(2) new k
    by (cases r) (auto simp: netns_create_def Let_def ip_step_def ip_netns_def ip_failed_def split: if_splits)
qed

lemma netns_read_target:
  assumes "netns_conf conf" and "\<forall>e \<in> set ns. netns_name (fst e)" and "netns_name (tf_string (nn_name data))"
  shows "run_state (netns_read conf data) ns = (Inr (if tf_string (nn_name data) \<in> fst ` set ns then Some data else None), ns)"
proof -
  obtain c a where "run_state (run_ip (pc_exec conf) (netns_dir conf (tf_string (nn_id data))) (build_ip_command conf [])
      [''netns'', ''list'']) ns = ip_netns c a ns" and "dropWhile (\<lambda>w. w \<noteq> ''netns'') a = [''netns'', ''list'']"
    by (rule run_ip_netns [OF assms(1)])
  then show ?thesis using netns_listed_output [OF assms(2,3)] by (simp add: netns_read_def ip_netns_def)
qed

lemma run_netns_delete:
  assumes "netns_conf conf"
  obtains c a where "run_state (run_ip (pc_exec conf) d (build_ip_command conf []) [''netns'', ''delete'', n]) ns =
      (if n \<in> fst ` set ns then ((new_result c a, None), filter (\<lambda>e. fst e \<noteq> n) ns)
       else (ip_failed c a (''Cannot remove namespace file '' @ dq @ ''/var/run/netns/'' @ n @ dq @ '': No such file or directory''), ns))"
proof -
  obtain c a where "run_state (run_ip (pc_exec conf) d (build_ip_command conf []) [''netns'', ''delete'', n]) ns = ip_netns c a ns"
    and "dropWhile (\<lambda>w. w \<noteq> ''netns'') a = [''netns'', ''delete'', n]"
    by (rule run_ip_netns [OF assms(1)])
  then show ?thesis by (intro that [of c a]) (simp add: ip_netns_def)
qed

lemma exit_status_not_gone: "\<not> any_contained ''exit status 1'' netns_gone_strs"
  unfolding netns_gone_strs_def by code_simp

lemma netns_delete_error:
  assumes "run_state (run_ip (pc_exec conf) (netns_dir conf (tf_string (nn_id data))) (build_ip_command conf [])
      [''netns'', ''delete'', tf_string (nn_name data)]) ns = ((res, Some e), ns')"
    and "\<not> any_contained (err_msg e) netns_gone_strs"
  shows "run_state (netns_delete conf data) ns =
    (Inl (add_error ''Failed to delete network namespace'' (err_msg e) # result_diagnostics res), ns')"
  using assms by (simp add: netns_delete_def Let_def)

lemma netns_delete_target:
  assumes "netns_conf conf" and "tf_string (nn_name data) \<in> fst ` set ns"
  shows "run_state (netns_delete conf data) ns = (Inr (), filter (\<lambda>e. fst e \<noteq> tf_string (nn_name data)) ns)"
proof -
  have ex: "pc_exec conf = netns_target" using assms(1) by (simp add: netns_conf_def)
  obtain c a where "run_state (run_ip (pc_exec conf) (netns_dir conf (tf_string (nn_id data))) (build_ip_command conf [])
      [''netns'', ''delete'', tf_string (nn_name data)]) ns =
      (if tf_string (nn_name data) \<in> fst ` set ns then ((new_result c a, None), filter (\<lambda>e. fst e \<noteq> tf_string (nn_name data)) ns)
       else (ip_failed c a (''Cannot remove namespace file '' @ dq @ ''/var/run/netns/'' @ tf_string (nn_name data) @ dq @ '': No such file or directory''), ns))"
    by (rule run_netns_delete [OF assms(1)])
  then show ?thesis using assms(2) by (simp add: netns_delete_def Let_def ex)
qed

section \<open>Properties\<close>

text \<open>C19: A namespace that Create has made is found by Read, and Delete brings the namespaces of the target back to what they
  were, after which Read drops the resource from the state.\<close>

theorem netns_lifecycle:
  assumes "run_state (netns_create (quiet_controller bs wd ct) conf data) ns = (Inr data', ns')"
    and "netns_conf conf" and "\<forall>e \<in> set ns. netns_name (fst e)" and "netns_name (tf_string (nn_name data))"
  shows "run_state (netns_read conf data') ns' = (Inr (Some data'), ns') \<and>
    run_state (netns_delete conf data') ns' = (Inr (), ns) \<and>
    run_state (netns_read conf data') ns = (Inr None, ns)"
proof -
  have made: "tf_string (nn_name data) \<notin> fst ` set ns" "ns' = ns @ [(tf_string (nn_name data), None)]" "nn_name data' = nn_name data"
    using netns_create_target [OF assms(2,1)] by auto
  then have "filter (\<lambda>e. fst e \<noteq> tf_string (nn_name data)) ns = ns"
    by (intro filter_True) (metis image_eqI)
  with made show ?thesis
    using netns_read_target [OF assms(2), of _ data'] netns_delete_target [OF assms(2), of data' ns'] assms(3,4) by simp
qed

text \<open>Deleting a namespace that is gone fails: the error that is searched for the message of \<^verbatim>\<open>ip\<close> is only the
  exit status, the message is in the captured output.\<close>

theorem netns_delete_not_idempotent:
  assumes "netns_conf conf" and "tf_string (nn_name data) \<notin> fst ` set ns"
  shows "\<exists>ds. run_state (netns_delete conf data) ns = (Inl (add_error ''Failed to delete network namespace'' ''exit status 1'' # ds), ns)"
proof -
  obtain c a where "run_state (run_ip (pc_exec conf) (netns_dir conf (tf_string (nn_id data))) (build_ip_command conf [])
      [''netns'', ''delete'', tf_string (nn_name data)]) ns =
      (if tf_string (nn_name data) \<in> fst ` set ns then ((new_result c a, None), filter (\<lambda>e. fst e \<noteq> tf_string (nn_name data)) ns)
       else (ip_failed c a (''Cannot remove namespace file '' @ dq @ ''/var/run/netns/'' @ tf_string (nn_name data) @ dq @ '': No such file or directory''), ns))"
    by (rule run_netns_delete [OF assms(1)])
  then show ?thesis
    using netns_delete_error [of conf data ns _ "Err ''exit status 1''" ns] assms(2) exit_status_not_gone
    by (auto simp: ip_failed_def Let_def)
qed

definition sample_netns :: netns_model where
  "sample_netns = \<lparr>nn_id = TUnknown, nn_name = TKnown ''red''\<rparr>"

lemma sample_netns_conf: "netns_conf (sample_conf netns_target)"
  by (simp add: netns_conf_def)

theorem netns_lifecycle_witness:
  "\<exists>data'. run_state (netns_create (quiet_controller (1, 2, 3, 4) (Inr ''/work'') sample_controller) (sample_conf netns_target) sample_netns)
       [(''blue'', Some 0)] = (Inr data', [(''blue'', Some 0), (''red'', None)]) \<and>
     run_state (netns_delete (sample_conf netns_target) data') [(''blue'', Some 0), (''red'', None)] = (Inr (), [(''blue'', Some 0)])"
proof -
  have "ct_getwd (quiet_controller (1, 2, 3, 4) (Inr ''/work'') sample_controller :: namespaces controller) = State_Monad.return (Inr ''/work'')"
    by (simp add: quiet_controller_def)
  then have new: "run_state (new_daemon_dir (quiet_controller (1, 2, 3, 4) (Inr ''/work'') sample_controller) (sample_conf netns_target) dir t) ns =
      (Inr (quiet_id (1, 2, 3, 4)), ns)" for dir t ns
    by (simp add: new_daemon_dir_def run_quiet_id create_tf_back_pointer_def)
  obtain c a where "run_state (run_ip (pc_exec (sample_conf netns_target)) (netns_dir (sample_conf netns_target) (quiet_id (1, 2, 3, 4)))
      (build_ip_command (sample_conf netns_target) []) [''netns'', ''add'', ''red'']) [(''blue'', Some 0)] = ip_netns c a [(''blue'', Some 0)]"
    and "dropWhile (\<lambda>w. w \<noteq> ''netns'') a = [''netns'', ''add'', ''red'']"
    by (rule run_ip_netns [OF sample_netns_conf])
  then have run: "run_state (netns_create (quiet_controller (1, 2, 3, 4) (Inr ''/work'') sample_controller) (sample_conf netns_target) sample_netns)
      [(''blue'', Some 0)] = (Inr (sample_netns\<lparr>nn_id := TKnown (quiet_id (1, 2, 3, 4))\<rparr>), [(''blue'', Some 0), (''red'', None)])"
    by (simp add: netns_create_def Let_def new ip_step_def ip_netns_def sample_netns_def)
  have "netns_name ''blue''" "netns_name ''red''" by (simp_all add: netns_name_def is_space_def)
  with netns_lifecycle [OF run sample_netns_conf] run show ?thesis by (simp add: sample_netns_def)
qed

theorem netns_delete_not_idempotent_witness:
  "\<exists>ds. run_state (netns_delete (sample_conf netns_target) sample_netns) [] =
     (Inl (add_error ''Failed to delete network namespace'' ''exit status 1'' # ds), [])"
  by (rule netns_delete_not_idempotent [OF sample_netns_conf]) simp

end
