(* ===== verification/Images.thy ===== *)
theory Images
  imports Outcomes
begin

text \<open>
  The resources that make image files with a tool of the target: \<^verbatim>\<open>disk_image_resource.go\<close> (qemu-img),
  \<^verbatim>\<open>cloud_init_iso_resource.go\<close> (genisoimage) and \<^verbatim>\<open>eve_installer_resource.go\<close> (docker) of
  \<^verbatim>\<open>internal/provider\<close>.
\<close>

section \<open>Disk image\<close>

record disk_image_model =
  di_id :: "string tfval"
  di_name :: "string tfval"
  di_size_mb :: "int tfval"
  di_filename :: "string tfval"
  di_used_bytes :: "int tfval"

definition disk_image_dir :: "'w provider_conf \<Rightarrow> string \<Rightarrow> string" where
  "disk_image_dir conf i = path_join [pc_lib_path conf, ''disk_images'', i]"

text \<open>\<^verbatim>\<open>String\<close> of an integer attribute.\<close>

fun int_string :: "int tfval \<Rightarrow> string" where
  "int_string TNull = ''<null>''"
| "int_string TUnknown = ''<unknown>''"
| "int_string (TKnown i) = itoa i"

record qcow_info =
  qi_virtual_size :: int
  qi_filename :: string
  qi_format :: string
  qi_actual_size :: int

definition disk_image_path :: "string \<Rightarrow> string \<Rightarrow> string" where
  "disk_image_path dir name = path_join [dir, name] @ ''.disk_img.qcow2''"

text \<open>\<open>decode\<close> is the JSON decoder.\<close>

definition read_disk_image ::
    "(string \<Rightarrow> goerr + qcow_info) \<Rightarrow> 'w provider_conf \<Rightarrow> string \<Rightarrow> string \<Rightarrow> ('w, goerr + qcow_info) state" where
  "read_disk_image decode conf dir name = do {
     (res, err) \<leftarrow> ex_run (pc_exec conf) dir (pc_qemu_img conf) [''info'', ''--output=json'', disk_image_path dir name];
     case err of
       Some e \<Rightarrow> failE (wrapf ''qemu-img command failed: '' e)
     | None \<Rightarrow>
         (case decode (r_stdout res) of
            Inl e \<Rightarrow> failE (wrapf ''failed to parse qemu-img JSON output: '' e)
          | Inr qi \<Rightarrow>
              if qi_format qi \<noteq> ''qcow2'' then failE (Err (''image is not in qcow2 format, got: '' @ qi_format qi))
              else okE qi) }"

definition with_qcow_info :: "qcow_info \<Rightarrow> disk_image_model \<Rightarrow> disk_image_model" where
  "with_qcow_info qi data = data\<lparr>di_filename := TKnown (qi_filename qi), di_used_bytes := TKnown (qi_actual_size qi)\<rparr>"

definition disk_image_create ::
    "(string \<Rightarrow> goerr + qcow_info) \<Rightarrow> 'w controller \<Rightarrow> 'w provider_conf \<Rightarrow> disk_image_model \<Rightarrow> ('w, disk_image_model) handler" where
  "disk_image_create decode ct conf data =
     (let t = ''Disk Image Resource Error'' in
      bindE (new_daemon_dir ct conf (disk_image_dir conf) t) (\<lambda>i.
      let d = disk_image_dir conf i; name = tf_string (di_name data); data = data\<lparr>di_id := TKnown i\<rparr> in
      bindE (do {
          (res, err) \<leftarrow> ex_run (pc_exec conf) d (pc_qemu_img conf)
             [''create'', ''-f'', ''qcow2'', disk_image_path d name, int_string (di_size_mb data) @ ''M''];
          case err of None \<Rightarrow> okE () | Some e \<Rightarrow> failE (add_error t ''Unable to create a new disk image.'' # result_diagnostics res) }) (\<lambda>_.
      bindE (mapE (\<lambda>e. [add_error t (''Can't read back disk image resource: '' @ err_msg e)]) (read_disk_image decode conf d name)) (\<lambda>qi.
      okE (with_qcow_info qi data)))))"

definition disk_image_read ::
    "(string \<Rightarrow> goerr + qcow_info) \<Rightarrow> 'w provider_conf \<Rightarrow> disk_image_model \<Rightarrow> ('w, disk_image_model) handler" where
  "disk_image_read decode conf data =
     bindE (mapE (\<lambda>e. [add_error ''Disk Image Resource Read Error'' (''Can't read back disk image resource: '' @ err_msg e)])
              (read_disk_image decode conf (disk_image_dir conf (tf_string (di_id data))) (tf_string (di_name data))))
       (\<lambda>qi. okE (with_qcow_info qi data))"

definition disk_image_update :: "disk_image_model \<Rightarrow> ('w, disk_image_model) handler" where
  "disk_image_update data = failE [add_error ''Disk Image Resource Update Error'' ''Update is not supported.'']"

definition disk_image_delete :: "'w provider_conf \<Rightarrow> disk_image_model \<Rightarrow> ('w, unit) handler" where
  "disk_image_delete conf data =
     orE (ex_remove (pc_exec conf) (disk_image_dir conf (tf_string (di_id data))))
       (\<lambda>e. [add_error ''Disk Image Resource Delete Error'' (''Can't delete disk image directory: '' @ err_msg e)])"

section \<open>Cloud-init ISO\<close>

record iso_model =
  ci_id :: "string tfval"
  ci_name :: "string tfval"
  ci_filename :: "string tfval"
  ci_user_data :: "string tfval"
  ci_meta_data :: "string tfval"
  ci_network_config :: "string tfval"

definition iso_dir :: "'w provider_conf \<Rightarrow> string \<Rightarrow> string" where
  "iso_dir conf i = path_join [pc_lib_path conf, ''cloud_init_isos'', i]"

definition iso_path :: "string \<Rightarrow> string \<Rightarrow> string" where
  "iso_path d name = path_join [d, name] @ ''.iso''"

text \<open>The check of Configure: the tool is only needed by this resource.\<close>

definition iso_configure :: "'w provider_conf \<Rightarrow> diagnostics" where
  "iso_configure conf =
     (if pc_gen_iso_image conf = [] then
        [add_error ''Missing `genisoimage` command (required for the Cloud Init ISO resource).''
           ''The `genisoimage` command is required for the Cloud Init ISO resource. It is part of the `cdrkit` package or the `genisoimage` package, please install it.'']
      else [])"

definition iso_write :: "'w executor \<Rightarrow> string \<Rightarrow> string \<Rightarrow> string \<Rightarrow> ('w, unit) handler" where
  "iso_write ex d name content =
     orE (ex_write_file ex (path_join [d, ''cloud-init'', name]) content mode_600)
       (\<lambda>e. [add_error ''Cloud Init ISO Resource Error'' (''Unable to create resource specific file `'' @ name @ ''`: '' @ err_msg e)])"

definition iso_setup :: "'w controller \<Rightarrow> 'w provider_conf \<Rightarrow> string \<Rightarrow> iso_model \<Rightarrow> ('w, unit) handler" where
  "iso_setup ct conf d data =
     (let ex = pc_exec conf; t = ''Cloud Init ISO Resource Error'';
          file = (\<lambda>n. path_join [d, ''cloud-init'', n])
      in seqE
        [orE (ex_mkdir_all ex (path_join [d, ''cloud-init'']) mode_700)
           (\<lambda>e. [add_error t (''Unable to create resource specific directory: '' @ err_msg e)]),
         orE (create_tf_back_pointer ct ex d) (\<lambda>e. [add_error t (''Unable to create resource specific file: '' @ err_msg e)]),
         iso_write ex d ''user-data'' (tf_string (ci_user_data data)),
         iso_write ex d ''meta-data'' (tf_string (ci_meta_data data)),
         iso_write ex d ''network-config'' (tf_string (ci_network_config data)),
         do {
           (res, err) \<leftarrow> ex_run ex d (pc_gen_iso_image conf)
             [''-output'', iso_path d (tf_string (ci_name data)), ''-volid'', ''cidata'', ''-joliet'', ''-rock'',
              file ''user-data'', file ''meta-data'', file ''network-config''];
           case err of
             None \<Rightarrow> okE ()
           | Some e \<Rightarrow> failE (add_error ''Cloud init ISO Resource Error'' ''Unable to create a new ISO image.'' # result_diagnostics res) }])"

definition iso_create :: "'w controller \<Rightarrow> 'w provider_conf \<Rightarrow> iso_model \<Rightarrow> ('w, iso_model) handler" where
  "iso_create ct conf data =
     (let t = ''Cloud Init ISO Resource Error'' in
      bindE (mapE (\<lambda>e. [add_error t (''Unable to generate a new resource ID: '' @ err_msg e)]) (new_resource_id ct)) (\<lambda>i.
      bindE (iso_setup ct conf (iso_dir conf i) data) (\<lambda>_.
      okE (data\<lparr>ci_id := TKnown i, ci_filename := TKnown (iso_path (iso_dir conf i) (tf_string (ci_name data)))\<rparr>))))"

definition iso_read :: "'w provider_conf \<Rightarrow> iso_model \<Rightarrow> ('w, iso_model) handler" where
  "iso_read conf data =
     okE (data\<lparr>ci_filename := TKnown (iso_path (iso_dir conf (tf_string (ci_id data))) (tf_string (ci_name data)))\<rparr>)"

definition iso_update :: "iso_model \<Rightarrow> ('w, iso_model) handler" where
  "iso_update data = failE [add_error ''Cloud init ISO Resource Update Error'' ''Update is not supported.'']"

definition iso_delete :: "'w provider_conf \<Rightarrow> iso_model \<Rightarrow> ('w, unit) handler" where
  "iso_delete conf data =
     orE (ex_remove (pc_exec conf) (iso_dir conf (tf_string (ci_id data))))
       (\<lambda>e. [add_error ''Cloud init ISO Resource Delete Error'' (''Can't delete disk image directory: '' @ err_msg e)])"

section \<open>EVE-OS installer\<close>

record installer_model =
  ei_id :: "string tfval"
  ei_name :: "string tfval"
  ei_tag :: "string tfval"
  ei_cluster :: "string tfval"
  ei_tls_ca :: "string tfval"
  ei_obj_ca :: "string tfval"
  ei_hosts :: "string tfval"
  ei_ssh_key :: "string tfval"
  ei_grub_cfg :: "string tfval"
  ei_dpc_over :: "string tfval"
  ei_format :: "string tfval"
  ei_filename :: "string tfval"

definition installer_dir :: "'w provider_conf \<Rightarrow> string \<Rightarrow> string" where
  "installer_dir conf i = path_join [pc_lib_path conf, ''eve_installers'', i]"

definition installer_path :: "string \<Rightarrow> string \<Rightarrow> string \<Rightarrow> string" where
  "installer_path d name fmt = path_join [d, name] @ ''.custom_installer.'' @ fmt"

text \<open>One file of the configuration directory, by the parts of its name; the optional ones only when they have content,
  and \<open>ending\<close> is the newline that some of them need.\<close>

definition installer_write :: "'w executor \<Rightarrow> string \<Rightarrow> string list \<Rightarrow> string \<Rightarrow> ('w, unit) handler" where
  "installer_write ex d parts content =
     orE (ex_write_file ex (path_join (d # ''config'' # parts)) content mode_600)
       (\<lambda>e. [add_error ''EVE-OS Installer Resource Error''
               (''Can't write /config/'' @ str_join parts ''/'' @ '' file: '' @ err_msg e)])"

definition installer_mkdir :: "'w executor \<Rightarrow> string \<Rightarrow> ('w, unit) handler" where
  "installer_mkdir ex p =
     orE (ex_mkdir_all ex p mode_700)
       (\<lambda>e. [add_error ''EVE-OS Installer Resource Error'' (''Unable to create resource specific directory: '' @ err_msg e)])"

definition installer_optional :: "'w executor \<Rightarrow> string \<Rightarrow> string list \<Rightarrow> string tfval \<Rightarrow> string \<Rightarrow> ('w, unit) handler" where
  "installer_optional ex d parts v ending =
     whenE (tf_string v \<noteq> []) (installer_write ex d parts (tf_string v @ ending))"

definition installer_run :: "'w provider_conf \<Rightarrow> string \<Rightarrow> string \<Rightarrow> string \<Rightarrow> ('w, unit) handler" where
  "installer_run conf d tag fmt = do {
     (res, err) \<leftarrow> ex_run (pc_exec conf) d (pc_docker conf)
       [''run'', ''--network'', ''none'', ''--rm'', ''-v'', path_join [d, ''config''] @ '':/in'', ''-v'', path_join [d, ''out''] @ '':/out'',
        ''docker.io/lfedge/eve:'' @ tag, ''-f'', ''raw'', ''installer_'' @ fmt];
     case err of
       None \<Rightarrow> okE ()
     | Some e \<Rightarrow> failE (add_error ''EVE-OS Installer Resource Error'' (''Unable to create a new installer '' @ fmt) # result_diagnostics res) }"

definition installer_setup :: "'w controller \<Rightarrow> 'w provider_conf \<Rightarrow> string \<Rightarrow> string \<Rightarrow> installer_model \<Rightarrow> ('w, unit) handler" where
  "installer_setup ct conf d fmt data =
     (let ex = pc_exec conf; t = ''EVE-OS Installer Resource Error''
      in seqE
        [installer_mkdir ex d,
         orE (create_tf_back_pointer ct ex d)
           (\<lambda>e. [add_error ''Disk Image Resource Error'' (''Unable to create resource specific file: '' @ err_msg e)]),
         installer_mkdir ex (path_join [d, ''config'']),
         installer_write ex d [''server''] (tf_string (ei_cluster data)),
         installer_optional ex d [''v2tlsbaseroot-certificates.pem''] (ei_tls_ca data) [],
         installer_optional ex d [''root-certificate.pem''] (ei_obj_ca data) [],
         installer_optional ex d [''hosts''] (ei_hosts data) [],
         installer_optional ex d [''authorized_keys''] (ei_ssh_key data) [CHR 0x0A],
         installer_optional ex d [''grub.cfg''] (ei_grub_cfg data) [CHR 0x0A],
         whenE (tf_string (ei_dpc_over data) \<noteq> []) (installer_mkdir ex (path_join [d, ''config'', ''DevicePortConfig''])),
         installer_optional ex d [''DevicePortConfig'', ''override.json''] (ei_dpc_over data) [CHR 0x0A],
         installer_mkdir ex (path_join [d, ''out'']),
         installer_run conf d (tf_string (ei_tag data)) fmt,
         orE (ex_rename ex (path_join [d, ''out'', ''installer.'' @ fmt]) (installer_path d (tf_string (ei_name data)) fmt))
           (\<lambda>e. [add_error t (''Unable to move installer file: '' @ err_msg e)])])"

text \<open>\<^verbatim>\<open>readEveInstaller\<close> only computes the name, and never fails.\<close>

definition read_eve_installer :: "string \<Rightarrow> string \<Rightarrow> string \<Rightarrow> goerr + string" where
  "read_eve_installer d name fmt = Inr (installer_path d name fmt)"

definition installer_reread :: "string \<Rightarrow> string \<Rightarrow> installer_model \<Rightarrow> ('w, installer_model) handler" where
  "installer_reread d fmt data =
     (case read_eve_installer d (tf_string (ei_name data)) fmt of
        Inl e \<Rightarrow> failE [add_error ''EVE-OS Installer Resource Read Error''
                         (''Can't read back installer '' @ fmt @ '' resource: '' @ err_msg e)]
      | Inr j \<Rightarrow> okE (data\<lparr>ei_filename := TKnown j\<rparr>))"

definition installer_create :: "'w controller \<Rightarrow> 'w provider_conf \<Rightarrow> installer_model \<Rightarrow> ('w, installer_model) handler" where
  "installer_create ct conf data =
     (let t = ''EVE-OS Installer Resource Error''; fmt = tf_string (ei_format data) in
      if fmt \<noteq> ''iso'' \<and> fmt \<noteq> ''raw''
      then failE [add_error ''Invalid format'' (''format must be '' @ go_quote ''iso'' @ '' or '' @ go_quote ''raw'' @ '', got '' @ go_quote fmt)]
      else
        bindE (mapE (\<lambda>e. [add_error t (''Unable to generate a new resource ID: '' @ err_msg e)]) (new_resource_id ct)) (\<lambda>i.
        bindE (installer_setup ct conf (installer_dir conf i) fmt data) (\<lambda>_.
        installer_reread (installer_dir conf i) fmt (data\<lparr>ei_id := TKnown i\<rparr>))))"

definition installer_read :: "'w provider_conf \<Rightarrow> installer_model \<Rightarrow> ('w, installer_model) handler" where
  "installer_read conf data = installer_reread (installer_dir conf (tf_string (ei_id data))) (tf_string (ei_format data)) data"

definition installer_update :: "installer_model \<Rightarrow> ('w, installer_model) handler" where
  "installer_update data = failE [add_error ''EVE-OS Installer Resource Update Error'' ''Update is not supported.'']"

definition installer_delete :: "'w provider_conf \<Rightarrow> installer_model \<Rightarrow> ('w, unit) handler" where
  "installer_delete conf data =
     orE (ex_remove (pc_exec conf) (installer_dir conf (tf_string (ei_id data))))
       (\<lambda>e. [add_error ''EVE-OS Installer Resource Delete Error'' (''Can't delete resource directory: '' @ err_msg e)])"

section \<open>What Create of an installer emits\<close>

definition back_pointer_call :: "string \<Rightarrow> string \<Rightarrow> call" where
  "back_pointer_call d wd = CWrite (path_join [d, ''config_source_dir.tf'']) (''# '' @ wd) mode_640"

definition optional_calls :: "string \<Rightarrow> string list \<Rightarrow> string tfval \<Rightarrow> string \<Rightarrow> call list" where
  "optional_calls d parts v ending =
     (if tf_string v \<noteq> [] then [CWrite (path_join (d # ''config'' # parts)) (tf_string v @ ending) mode_600] else [])"

definition installer_calls :: "'w provider_conf \<Rightarrow> string \<Rightarrow> string \<Rightarrow> string \<Rightarrow> installer_model \<Rightarrow> call list" where
  "installer_calls conf wd d fmt data =
     [CMkdir d mode_700, back_pointer_call d wd, CMkdir (path_join [d, ''config'']) mode_700,
      CWrite (path_join [d, ''config'', ''server'']) (tf_string (ei_cluster data)) mode_600] @
     optional_calls d [''v2tlsbaseroot-certificates.pem''] (ei_tls_ca data) [] @
     optional_calls d [''root-certificate.pem''] (ei_obj_ca data) [] @
     optional_calls d [''hosts''] (ei_hosts data) [] @
     optional_calls d [''authorized_keys''] (ei_ssh_key data) [CHR 0x0A] @
     optional_calls d [''grub.cfg''] (ei_grub_cfg data) [CHR 0x0A] @
     (if tf_string (ei_dpc_over data) \<noteq> [] then [CMkdir (path_join [d, ''config'', ''DevicePortConfig'']) mode_700] else []) @
     optional_calls d [''DevicePortConfig'', ''override.json''] (ei_dpc_over data) [CHR 0x0A] @
     [CMkdir (path_join [d, ''out'']) mode_700,
      CRun d (pc_docker conf)
        [''run'', ''--network'', ''none'', ''--rm'', ''-v'', path_join [d, ''config''] @ '':/in'', ''-v'', path_join [d, ''out''] @ '':/out'',
         ''docker.io/lfedge/eve:'' @ tf_string (ei_tag data), ''-f'', ''raw'', ''installer_'' @ fmt],
      CRename (path_join [d, ''out'', ''installer.'' @ fmt]) (installer_path d (tf_string (ei_name data)) fmt)]"

lemma obeys_installer_mkdir: "obeys (installer_mkdir (observed ex) p) [CMkdir p mode_700]"
  unfolding installer_mkdir_def observed_simps by (rule obeys_orE)

lemma obeys_installer_write:
  "obeys (installer_write (observed ex) d parts c) [CWrite (path_join (d # ''config'' # parts)) c mode_600]"
  unfolding installer_write_def observed_simps by (rule obeys_orE)

lemma obeys_installer_optional: "obeys (installer_optional (observed ex) d parts v ending) (optional_calls d parts v ending)"
  unfolding installer_optional_def optional_calls_def by (intro obeys_whenE obeys_installer_write)

lemma obeys_back_pointer:
  assumes "ct_getwd ct = State_Monad.return (Inr wd)"
  shows "obeys (orE (create_tf_back_pointer ct (observed ex) d) f) [back_pointer_call d wd]"
proof -
  have "orE (create_tf_back_pointer ct (observed ex) d) f =
      do { r \<leftarrow> observe opt_answer (back_pointer_call d wd) (ex_write_file ex (path_join [d, ''config_source_dir.tf'']) (''# '' @ wd) mode_640);
           case r of Some e \<Rightarrow> failE (f (wrapf ''createTFBackPointer: '' e)) | None \<Rightarrow> okE () }"
    by (intro state.expand ext)
      (auto simp: create_tf_back_pointer_def assms back_pointer_call_def Let_def orE_def split: prod.splits option.splits)
  then show ?thesis by (simp only:) (rule obeys_call, auto simp: opt_answer_def split: option.split)
qed

lemma obeys_installer_run:
  "obeys (installer_run (observed_conf conf) d tag fmt)
     [CRun d (pc_docker conf)
        [''run'', ''--network'', ''none'', ''--rm'', ''-v'', path_join [d, ''config''] @ '':/in'', ''-v'', path_join [d, ''out''] @ '':/out'',
         ''docker.io/lfedge/eve:'' @ tag, ''-f'', ''raw'', ''installer_'' @ fmt]]"
  unfolding installer_run_def observed_conf_simps observed_simps
  by (rule obeys_call) (auto simp: opt_answer_def split: option.split prod.split)

lemma obeys_installer_setup:
  assumes "ct_getwd ct = State_Monad.return (Inr wd)"
  shows "obeys (installer_setup ct (observed_conf conf) d fmt data) (installer_calls conf wd d fmt data)"
  unfolding installer_setup_def installer_calls_def Let_def observed_conf_simps observed_simps
  by (rule back_subst [of "obeys _"],
      (rule obeys_seqE_Cons obeys_seqE_Nil obeys_installer_mkdir obeys_back_pointer [OF assms] obeys_installer_write
        obeys_installer_optional obeys_whenE obeys_installer_run obeys_orE)+, simp)

section \<open>Properties\<close>

text \<open>C24: Create of an installer makes exactly the calls of its configuration, each of which succeeds, and reports the file that
  the last of them has made; or the calls up to the first that fails, and that failure ends it with an error. A format
  that is not known makes no call at all.\<close>

theorem installer_create_script:
  assumes "run_state (installer_create (quiet_controller bs (Inr wd) ct) (observed_conf conf) data) (w, []) = (r, (w', obs))"
  shows "if tf_string (ei_format data) \<in> {''iso'', ''raw''}
    then script_log (installer_calls conf wd (installer_dir conf (quiet_id bs)) (tf_string (ei_format data)) data) r obs \<and>
      (\<forall>data'. r = Inr data' \<longrightarrow>
        ei_filename data' = TKnown (installer_path (installer_dir conf (quiet_id bs)) (tf_string (ei_name data)) (tf_string (ei_format data))))
    else obs = [] \<and> isl r"
proof (cases "tf_string (ei_format data) \<in> {''iso'', ''raw''}")
  case False
  with assms show ?thesis by (auto simp: installer_create_def Let_def)
next
  case True
  have getwd: "ct_getwd (quiet_controller bs (Inr wd) ct) = State_Monad.return (Inr wd)"
    by (simp add: quiet_controller_def split: prod.splits)
  have dir: "installer_dir (observed_conf conf) i = installer_dir conf i" for i by (simp add: installer_dir_def)
  let ?cs = "installer_calls conf wd (installer_dir conf (quiet_id bs)) (tf_string (ei_format data)) data"
  obtain x v log where s: "run_state (installer_setup (quiet_controller bs (Inr wd) ct) (observed_conf conf) (installer_dir conf (quiet_id bs))
      (tf_string (ei_format data)) data) (w, []) = (x, (v, log))" by (metis surj_pair)
  have log: "script_log ?cs x log" using obeysD [OF obeys_installer_setup [OF getwd] s] by simp
  have r: "obs = log" "r = (case x of Inl e \<Rightarrow> Inl e | Inr u \<Rightarrow> Inr (data\<lparr>ei_id := TKnown (quiet_id bs),
      ei_filename := TKnown (installer_path (installer_dir conf (quiet_id bs)) (tf_string (ei_name data)) (tf_string (ei_format data)))\<rparr>))"
    using assms True s
    by (cases x; auto simp: installer_create_def Let_def run_quiet_id dir installer_reread_def read_eve_installer_def)+
  with log True show ?thesis by (cases x) (auto simp: script_log_def)
qed

definition sample_installer :: installer_model where
  "sample_installer =
     \<lparr>ei_id = TUnknown, ei_name = TKnown ''eve'', ei_tag = TKnown ''1.0'', ei_cluster = TKnown ''c'', ei_tls_ca = TNull, ei_obj_ca = TNull,
      ei_hosts = TNull, ei_ssh_key = TKnown ''k'', ei_grub_cfg = TNull, ei_dpc_over = TNull, ei_format = TKnown ''raw'',
      ei_filename = TUnknown\<rparr>"

text \<open>A target where the second directory cannot be made.\<close>

definition full_executor :: "nat executor" where
  "full_executor = idle_executor\<lparr>ex_mkdir_all := (\<lambda>p m. State (\<lambda>n. (if n = 0 then None else Some (Err ''no space''), n + 1)))\<rparr>"

theorem installer_create_script_witness:
  "\<exists>e w'. run_state (installer_create (quiet_controller (1, 2, 3, 4) (Inr ''/work'') sample_controller)
       (observed_conf (sample_conf full_executor)) sample_installer) (0, []) =
     (Inl e, (w', all_okay (take 2 (installer_calls (sample_conf full_executor) ''/work''
        (installer_dir (sample_conf full_executor) (quiet_id (1, 2, 3, 4))) ''raw'' sample_installer)) @
        [(CMkdir (path_join [installer_dir (sample_conf full_executor) (quiet_id (1, 2, 3, 4)), ''config'']) mode_700, Fails (Err ''no space''))]))"
proof -
  let ?d = "installer_dir (sample_conf full_executor) (quiet_id (1, 2, 3, 4))"
  have getwd: "ct_getwd (quiet_controller (1, 2, 3, 4) (Inr ''/work'') sample_controller :: (nat \<times> observation list) controller) =
      State_Monad.return (Inr ''/work'')"
    by (simp add: quiet_controller_def)
  have full: "ex_write_file full_executor p x m = State_Monad.return None"
    "run_state (ex_mkdir_all full_executor p m) n = (if n = 0 then None else Some (Err ''no space''), n + 1)" for p x m n
    by (simp_all add: full_executor_def)
  have exec: "pc_exec (sample_conf ex) = ex" for ex :: "nat executor" by (simp add: sample_conf_def)
  have dir: "installer_dir (observed_conf (sample_conf full_executor)) i = installer_dir (sample_conf full_executor) i" for i
    by (simp add: installer_dir_def)
  obtain e w' obs where run: "run_state (installer_create (quiet_controller (1, 2, 3, 4) (Inr ''/work'') sample_controller)
       (observed_conf (sample_conf full_executor)) sample_installer) (0, []) = (Inl e, (w', obs))"
    and obs: "obs = [(CMkdir ?d mode_700, Okay), (back_pointer_call ?d ''/work'', Okay), (CMkdir (path_join [?d, ''config'']) mode_700, Fails (Err ''no space''))]"
    by (simp add: installer_create_def run_quiet_id installer_setup_def Let_def installer_mkdir_def create_tf_back_pointer_def getwd
        installer_write_def sample_installer_def full exec dir opt_answer_def back_pointer_call_def)
  from installer_create_script [OF run]
  have "script_log (installer_calls (sample_conf full_executor) ''/work'' ?d ''raw'' sample_installer) (Inl e :: diagnostics + installer_model) obs"
    by (simp add: sample_installer_def)
  moreover have "all_okay (take 2 (installer_calls (sample_conf full_executor) ''/work'' ?d ''raw'' sample_installer)) @
      [(CMkdir (path_join [?d, ''config'']) mode_700, Fails (Err ''no space''))] = obs"
    by (simp add: obs installer_calls_def)
  ultimately show ?thesis using run by auto
qed

end
