(* ===== verification/Main_Modes.thy ===== *)
theory Main_Modes
  imports Monitors Local_Datastore Hv_Env
begin

text \<open>
  The entry point \<^verbatim>\<open>main.go\<close>: the binary of the provider is also the binary of its daemons, and its
  command line says which of them it is. Modelled are the parsing of the command line (package \<^verbatim>\<open>flag\<close>), the PID file
  and the choice of the mode, and the modes of \<^verbatim>\<open>main.go\<close> and \<^verbatim>\<open>main_http_server.go\<close>.
\<close>

section \<open>The flags\<close>

definition bool_flags :: "string list" where
  "bool_flags =
     [''debug'', ''version'', ''socket-tailer'', ''dhcp-server'', ''dhcp6-server'', ''radv'', ''radv.wait'', ''http-server'',
      ''gvproxy'', ''tap-mover'', ''internet-monitor'', ''monitor-system-usage'']"

text \<open>With their defaults.\<close>

definition string_flags :: "(string \<times> string) list" where
  "string_flags =
     [(''pid-file'', []), (''st.listen'', []), (''st.connect'', []), (''st.pty'', []), (''st.out'', []), (''ds.config'', []),
      (''d6s.config'', []), (''radv.config'', []), (''hs.listen'', '':8080''), (''hs.static-dir'', ''.''), (''hs.bw-limit'', ''2GB''),
      (''hs.username'', []), (''hs.password'', []), (''gp.listen-vfkit'', []), (''gp.listen-qemu'', []), (''gp.forwards'', []),
      (''tm.config'', []), (''im.config'', []), (''msu.config'', []), (''msu.dump'', [])]"

text \<open>\<^verbatim>\<open>strconv.ParseBool\<close>.\<close>

definition parse_bool :: "string \<Rightarrow> bool option" where
  "parse_bool s =
     (if s \<in> {''1'', ''t'', ''T'', ''TRUE'', ''true'', ''True''} then Some True
      else if s \<in> {''0'', ''f'', ''F'', ''FALSE'', ''false'', ''False''} then Some False else None)"

type_synonym flag_values = "string \<Rightarrow> string option"

datatype parsed_flags =
    Parsed flag_values "string list"
  | Bad_Flags string
  | Help_Wanted

text \<open>\<^verbatim>\<open>FlagSet.parseOne\<close>, until the first argument that is not a flag.\<close>

function (sequential) parse_flags :: "flag_values \<Rightarrow> string list \<Rightarrow> parsed_flags" where
  "parse_flags vals [] = Parsed vals []"
| "parse_flags vals (s # rest) =
     (if length s < 2 \<or> hd s \<noteq> CHR ''-'' then Parsed vals (s # rest)
      else if s = ''--'' then Parsed vals rest
      else
        let word = (if s ! 1 = CHR ''-'' then drop 2 s else drop 1 s)
        in if word = [] \<or> hd word = CHR ''-'' \<or> hd word = CHR ''='' then Bad_Flags (''bad flag syntax: '' @ s)
           else
             let (name, val) = (case str_cut word (CHR ''='') of None \<Rightarrow> (word, None) | Some (a, b) \<Rightarrow> (a, Some b))
             in if name \<in> set bool_flags then
                  (case val of
                     None \<Rightarrow> parse_flags (vals(name \<mapsto> ''true'')) rest
                   | Some v \<Rightarrow>
                       (case parse_bool v of
                          None \<Rightarrow> Bad_Flags (''invalid boolean value '' @ go_quote v @ '' for -'' @ name)
                        | Some b \<Rightarrow> parse_flags (vals(name \<mapsto> (if b then ''true'' else ''false''))) rest))
                else if name \<in> fst ` set string_flags then
                  (case val of
                     Some v \<Rightarrow> parse_flags (vals(name \<mapsto> v)) rest
                   | None \<Rightarrow>
                       (case rest of
                          [] \<Rightarrow> Bad_Flags (''flag needs an argument: -'' @ name)
                        | v # rest' \<Rightarrow> parse_flags (vals(name \<mapsto> v)) rest'))
                else if name = ''help'' \<or> name = ''h'' then Help_Wanted
                else Bad_Flags (''flag provided but not defined: -'' @ name))"
  by pat_completeness auto
termination by (relation "measure (\<lambda>(vals, args). length args)") auto

definition flag_on :: "flag_values \<Rightarrow> string \<Rightarrow> bool" where
  "flag_on vals name \<longleftrightarrow> vals name = Some ''true''"

definition flag_str :: "flag_values \<Rightarrow> string \<Rightarrow> string" where
  "flag_str vals name = (case vals name of Some v \<Rightarrow> v | None \<Rightarrow> the (map_of string_flags name))"

section \<open>The modes\<close>

datatype tailer_mode = Tail_Listen | Tail_Connect | Tail_Pty

record http_config =
  hc_listen :: string
  hc_static_dir :: string
  hc_bw_limit :: string
  hc_username :: string
  hc_password :: string

datatype main_mode =
    Main_Exit int
  | Socket_Tailer tailer_mode string string
  | Dhcp_Mode string
  | Dhcp6_Mode string
  | Radv_Mode string bool
  | Http_Mode http_config
  | Gvproxy_Mode string string string
  | Tap_Mover_Mode string
  | Internet_Monitor_Mode string
  | Msu_Dump_Mode string
  | Msu_Mode string
  | Provider_Mode bool

text \<open>Modes that need a configuration file exit with the usage when there is none.\<close>

definition config_mode :: "(string \<Rightarrow> main_mode) \<Rightarrow> string \<Rightarrow> main_mode" where
  "config_mode M cfg = (if cfg = [] then Main_Exit 1 else M cfg)"

definition tailer_choice :: "flag_values \<Rightarrow> main_mode" where
  "tailer_choice vals =
     (let listen = flag_str vals ''st.listen''; connect = flag_str vals ''st.connect''; pty = flag_str vals ''st.pty'';
          n = (if listen \<noteq> [] then 1 else 0) + (if connect \<noteq> [] then 1 else 0) + (if pty \<noteq> [] then 1 else (0::nat));
          out = flag_str vals ''st.out''
      in if n \<noteq> 1 then Main_Exit 1
         else if listen \<noteq> [] then Socket_Tailer Tail_Listen listen out
         else if connect \<noteq> [] then Socket_Tailer Tail_Connect connect out
         else Socket_Tailer Tail_Pty pty out)"

definition select_mode :: "flag_values \<Rightarrow> main_mode" where
  "select_mode vals =
     (let on = flag_on vals; str = flag_str vals
      in if on ''socket-tailer'' then tailer_choice vals
         else if on ''dhcp-server'' then config_mode Dhcp_Mode (str ''ds.config'')
         else if on ''dhcp6-server'' then config_mode Dhcp6_Mode (str ''d6s.config'')
         else if on ''radv'' then config_mode (\<lambda>c. Radv_Mode c (on ''radv.wait'')) (str ''radv.config'')
         else if on ''http-server'' then
           Http_Mode \<lparr>hc_listen = str ''hs.listen'', hc_static_dir = str ''hs.static-dir'', hc_bw_limit = str ''hs.bw-limit'',
                      hc_username = str ''hs.username'', hc_password = str ''hs.password''\<rparr>
         else if on ''gvproxy'' then Gvproxy_Mode (str ''gp.listen-vfkit'') (str ''gp.listen-qemu'') (str ''gp.forwards'')
         else if on ''tap-mover'' then config_mode Tap_Mover_Mode (str ''tm.config'')
         else if on ''internet-monitor'' then config_mode Internet_Monitor_Mode (str ''im.config'')
         else if on ''monitor-system-usage'' then
           (if str ''msu.dump'' \<noteq> [] then Msu_Dump_Mode (str ''msu.dump'') else config_mode Msu_Mode (str ''msu.config''))
         else Provider_Mode (on ''debug''))"

text \<open>The PID file that is to be written, empty for none, and the mode.\<close>

definition main_plan :: "string list \<Rightarrow> string \<times> main_mode" where
  "main_plan args =
     (case parse_flags Map.empty args of
        Bad_Flags m \<Rightarrow> ([], Main_Exit 2)
      | Help_Wanted \<Rightarrow> ([], Main_Exit 0)
      | Parsed vals rest \<Rightarrow>
          if flag_on vals ''version'' then ([], Main_Exit 0) else (flag_str vals ''pid-file'', select_mode vals))"

definition main_run ::
    "('w, int) state \<Rightarrow> (string \<Rightarrow> string \<Rightarrow> nat \<Rightarrow> ('w, goerr option) state) \<Rightarrow> string list \<Rightarrow> ('w, main_mode) state" where
  "main_run getpid write_file args =
     (case main_plan args of (pid_file, mode) \<Rightarrow>
        if pid_file = [] then State_Monad.return mode
        else do {
          pid \<leftarrow> getpid;
          e \<leftarrow> write_file pid_file (itoa pid) mode_644;
          State_Monad.return (case e of Some _ \<Rightarrow> Main_Exit 1 | None \<Rightarrow> mode) })"

section \<open>Two of the modes\<close>

text \<open>\<^verbatim>\<open>socketTailerMain\<close>: \<open>run\<close> stands for the loops of the theory \<open>Tailer\<close>, and a mode returns its exit code.\<close>

record 'w tailer_ops =
  to_open :: "string \<Rightarrow> ('w, goerr + nat) state"
  to_run :: "tailer_mode \<Rightarrow> string \<Rightarrow> nat \<Rightarrow> ('w, goerr option) state"
  to_close_tailer :: "('w, goerr option) state"
  to_close :: "nat \<Rightarrow> ('w, goerr option) state"

abbreviation stdout_handle :: nat where "stdout_handle \<equiv> 1"

definition socket_tailer_main :: "'w tailer_ops \<Rightarrow> tailer_mode \<Rightarrow> string \<Rightarrow> string \<Rightarrow> ('w, int) state" where
  "socket_tailer_main ops mode target out =
     (let run = (\<lambda>h. do {
            err \<leftarrow> to_run ops mode target h;
            _ \<leftarrow> to_close_tailer ops;
            _ \<leftarrow> (if out \<noteq> [] then to_close ops h else State_Monad.return None);
            State_Monad.return (if err = None then 0 else (1::int)) })
      in if out = [] then run stdout_handle
         else do {
           f \<leftarrow> to_open ops out;
           case f of Inl e \<Rightarrow> State_Monad.return 1 | Inr h \<Rightarrow> run h })"

text \<open>\<^verbatim>\<open>httpServerMain\<close>: the server is a library; what ends it is a signal or its own return.\<close>

datatype http_end = Http_Signal | Http_Served "goerr option"

record 'w http_ops =
  ho_new :: "http_config \<Rightarrow> ('w, goerr option) state"
  ho_wait :: "('w, http_end) state"
  ho_shutdown :: "('w, goerr option) state"

definition http_server_main :: "'w http_ops \<Rightarrow> http_config \<Rightarrow> ('w, int) state" where
  "http_server_main ops cfg = do {
     e \<leftarrow> ho_new ops cfg;
     if e \<noteq> None then State_Monad.return 1
     else do {
       ended \<leftarrow> ho_wait ops;
       case ended of
         Http_Signal \<Rightarrow> do { s \<leftarrow> ho_shutdown ops; State_Monad.return (if s = None then 0 else 1) }
       | Http_Served err \<Rightarrow> State_Monad.return (if err = None then 0 else 1) } }"

section \<open>Parsing the flags of the daemons\<close>

text \<open>A name that is written with one dash and has its value, if any, in the next argument.\<close>

definition flag_name :: "string \<Rightarrow> bool" where
  "flag_name n \<longleftrightarrow> n \<noteq> [] \<and> hd n \<notin> {CHR ''-'', CHR ''=''} \<and> CHR ''='' \<notin> set n"

lemma str_cut_none: "c \<notin> set s \<Longrightarrow> str_cut s c = None"
  by (induction s) auto

lemma parse_string_flag:
  assumes "flag_name n" and "n \<in> fst ` set string_flags" and "n \<notin> set bool_flags"
  shows "parse_flags vals ((CHR ''-'' # n) # v # rest) = parse_flags (vals(n \<mapsto> v)) rest"
proof (cases n)
  case (Cons c cs)
  then show ?thesis
    using assms by (simp add: flag_name_def str_cut_none)
qed (use assms(1) in \<open>simp add: flag_name_def\<close>)

lemma parse_bool_flag:
  assumes "flag_name n" and "n \<in> set bool_flags"
  shows "parse_flags vals ((CHR ''-'' # n) # rest) = parse_flags (vals(n \<mapsto> ''true'')) rest"
proof (cases n)
  case (Cons c cs)
  then show ?thesis
    using assms by (simp add: flag_name_def str_cut_none)
qed (use assms(1) in \<open>simp add: flag_name_def\<close>)

declare parse_flags.simps(2) [simp del]

lemma daemon_string_flags:
  "n \<in> {''pid-file'', ''ds.config'', ''d6s.config'', ''radv.config'', ''hs.listen'', ''hs.static-dir'', ''hs.bw-limit'', ''hs.username'',
     ''hs.password'', ''gp.listen-vfkit'', ''gp.listen-qemu'', ''gp.forwards'', ''tm.config'', ''im.config'', ''msu.config'',
     ''st.connect'', ''st.pty'', ''st.out''} \<Longrightarrow>
     flag_name n \<and> n \<in> fst ` set string_flags \<and> n \<notin> set bool_flags"
  unfolding flag_name_def string_flags_def bool_flags_def by auto

lemma parse_value_flag:
  "n \<in> {''pid-file'', ''ds.config'', ''d6s.config'', ''radv.config'', ''hs.listen'', ''hs.static-dir'', ''hs.bw-limit'', ''hs.username'',
     ''hs.password'', ''gp.listen-vfkit'', ''gp.listen-qemu'', ''gp.forwards'', ''tm.config'', ''im.config'', ''msu.config'',
     ''st.connect'', ''st.pty'', ''st.out''} \<Longrightarrow>
     parse_flags vals ((CHR ''-'' # n) # v # rest) = parse_flags (vals(n \<mapsto> v)) rest"
  using daemon_string_flags [of n] by (intro parse_string_flag) auto

lemma parse_mode_flag:
  assumes "n \<in> set bool_flags"
  shows "parse_flags vals ((CHR ''-'' # n) # rest) = parse_flags (vals(n \<mapsto> ''true'')) rest"
proof -
  have "list_all flag_name bool_flags" by (simp add: bool_flags_def flag_name_def)
  then show ?thesis using assms by (intro parse_bool_flag) (auto simp: list_all_iff)
qed

text \<open>Arguments written as literals.\<close>

lemmas parse_daemon_flags =
  parse_value_flag [of "''pid-file''", simplified] parse_value_flag [of "''ds.config''", simplified]
  parse_value_flag [of "''d6s.config''", simplified] parse_value_flag [of "''radv.config''", simplified]
  parse_value_flag [of "''hs.listen''", simplified] parse_value_flag [of "''hs.static-dir''", simplified]
  parse_value_flag [of "''hs.bw-limit''", simplified] parse_value_flag [of "''hs.username''", simplified]
  parse_value_flag [of "''hs.password''", simplified] parse_value_flag [of "''gp.listen-vfkit''", simplified]
  parse_value_flag [of "''gp.listen-qemu''", simplified] parse_value_flag [of "''gp.forwards''", simplified]
  parse_value_flag [of "''im.config''", simplified] parse_value_flag [of "''msu.config''", simplified]
  parse_mode_flag [of "''dhcp-server''", unfolded bool_flags_def, simplified]
  parse_mode_flag [of "''dhcp6-server''", unfolded bool_flags_def, simplified]
  parse_mode_flag [of "''radv''", unfolded bool_flags_def, simplified]
  parse_mode_flag [of "''radv.wait''", unfolded bool_flags_def, simplified]
  parse_mode_flag [of "''http-server''", unfolded bool_flags_def, simplified]
  parse_mode_flag [of "''gvproxy''", unfolded bool_flags_def, simplified]
  parse_mode_flag [of "''internet-monitor''", unfolded bool_flags_def, simplified]
  parse_mode_flag [of "''monitor-system-usage''", unfolded bool_flags_def, simplified]

lemmas mode_simps = main_plan_def parse_daemon_flags select_mode_def flag_on_def flag_str_def string_flags_def

section \<open>From the resources to the modes\<close>

text \<open>\<open>m\<close> starts the binary \<open>self\<close> once, with arguments that \<^verbatim>\<open>main\<close> takes for \<open>plan\<close>.\<close>

definition launches :: "('w \<times> call list, 'a) state \<Rightarrow> string \<Rightarrow> string \<times> string list \<Rightarrow> string \<times> main_mode \<Rightarrow> bool" where
  "launches m d self plan \<longleftrightarrow>
     (\<forall>w. \<exists>r w' args. run_state m (w, []) = (r, (w', [CDetached d (fst self) (snd self @ args)])) \<and> main_plan args = plan)"

lemma start_detached_launches:
  assumes "main_plan args = plan" and "all = snd self @ args" and "cmd = fst self"
  shows "launches (start_detached fd (traced ex) d cmd all what) d self plan"
  unfolding launches_def
proof
  fix w
  obtain res err w' where r: "run_state (ex_run_detached ex d cmd all) w = ((res, err), w')" by (metis surj_pair)
  then have "\<exists>r. run_state (start_detached fd (traced ex) d cmd all what) (w, []) = (r, (w', [CDetached d cmd all]))"
    by (simp add: start_detached_def)
  then show "\<exists>r w' args. run_state (start_detached fd (traced ex) d cmd all what) (w, []) = (r, (w', [CDetached d (fst self) (snd self @ args)])) \<and>
      main_plan args = plan"
    using assms by blast
qed

lemma start_self_launches:
  assumes "main_plan args = plan"
  shows "launches (let (cmd, pre) = self in start_detached fd (traced ex) d cmd (pre @ args) what) d self plan"
proof (cases self)
  case (Pair cmd pre)
  show ?thesis unfolding Pair Let_def prod.case by (rule start_detached_launches [OF assms]) simp_all
qed

text \<open>The datastore passes only the attributes that are set.\<close>

definition set_or :: "string tfval \<Rightarrow> string \<Rightarrow> string" where
  "set_or v dflt = (if v \<noteq> TNull \<and> tf_string v \<noteq> [] then tf_string v else dflt)"

definition set_flag :: "string \<Rightarrow> string tfval \<Rightarrow> flag_values \<Rightarrow> flag_values" where
  "set_flag n v vals = (if v \<noteq> TNull \<and> tf_string v \<noteq> [] then vals(n \<mapsto> tf_string v) else vals)"

lemma set_flag_other: "m \<noteq> n \<Longrightarrow> set_flag n v vals m = vals m"
  by (simp add: set_flag_def)

lemma set_flag_same: "vals n = None \<Longrightarrow> (case set_flag n v vals n of Some x \<Rightarrow> x | None \<Rightarrow> dflt) = set_or v dflt"
  by (simp add: set_flag_def set_or_def)

lemma parse_flag_if_set:
  assumes "n \<in> {''hs.listen'', ''hs.bw-limit'', ''hs.username'', ''hs.password''}"
  shows "parse_flags vals (flag_if_set (CHR ''-'' # n) v @ rest) = parse_flags (set_flag n v vals) rest"
proof (cases "v \<noteq> TNull \<and> tf_string v \<noteq> []")
  case True
  have "parse_flags vals ((CHR ''-'' # n) # tf_string v # rest) = parse_flags (vals(n \<mapsto> tf_string v)) rest"
    by (rule parse_value_flag) (use assms in auto)
  with True show ?thesis by (simp add: flag_if_set_def set_flag_def)
next
  case False
  then show ?thesis by (auto simp: flag_if_set_def set_flag_def)
qed

lemma datastore_flags:
  "parse_flags Map.empty ([''-pid-file'', p, ''-http-server''] @ flag_if_set ''-hs.listen'' listen @ [''-hs.static-dir'', dir] @
      flag_if_set ''-hs.bw-limit'' bw @ flag_if_set ''-hs.username'' user @ flag_if_set ''-hs.password'' pass) =
   Parsed (set_flag ''hs.password'' pass (set_flag ''hs.username'' user (set_flag ''hs.bw-limit'' bw
     ((set_flag ''hs.listen'' listen [''pid-file'' \<mapsto> p, ''http-server'' \<mapsto> ''true'']) (''hs.static-dir'' \<mapsto> dir))))) []"
  using parse_flag_if_set [of "''hs.listen''"] parse_flag_if_set [of "''hs.bw-limit''"] parse_flag_if_set [of "''hs.username''"]
    parse_flag_if_set [of "''hs.password''" _ _ "[]"]
  by (simp add: parse_daemon_flags)

lemma datastore_plan:
  "main_plan ([''-pid-file'', p, ''-http-server''] @ flag_if_set ''-hs.listen'' listen @ [''-hs.static-dir'', dir] @
      flag_if_set ''-hs.bw-limit'' bw @ flag_if_set ''-hs.username'' user @ flag_if_set ''-hs.password'' pass) =
   (p, Http_Mode \<lparr>hc_listen = set_or listen '':8080'', hc_static_dir = dir, hc_bw_limit = set_or bw ''2GB'',
                  hc_username = set_or user [], hc_password = set_or pass []\<rparr>)"
  unfolding main_plan_def datastore_flags
  by (simp add: select_mode_def flag_on_def flag_str_def string_flags_def set_flag_other set_flag_same)

section \<open>Properties\<close>

text \<open>C5: Every daemon resource starts the binary of the provider once, with a command line that the binary takes for the mode
  of that daemon, with the PID file and the configuration of the resource.\<close>

theorem daemons_start_their_mode:
  "launches (start_dhcp_server fd (traced_conf conf) d dhcp) d (self_command conf (known_string (ds_netns dhcp)))
     (tf_string (ds_pid_file dhcp), config_mode Dhcp_Mode (tf_string (ds_config_file dhcp))) \<and>
   launches (start_dhcp6_server fd (traced_conf conf) d dhcp6) d (self_command conf [])
     (tf_string (d6_pid_file dhcp6), config_mode Dhcp6_Mode (tf_string (d6_config_file dhcp6))) \<and>
   launches (start_radv fd (traced_conf conf) d radv) d (self_command conf [])
     (tf_string (ra_pid_file radv), config_mode (\<lambda>c. Radv_Mode c True) (tf_string (ra_config_file radv))) \<and>
   launches (start_im fd (traced_conf conf) d im) d (self_command conf (known_string (im_netns im)))
     (tf_string (im_pid_file im), config_mode Internet_Monitor_Mode (tf_string (im_config_file im))) \<and>
   launches (start_msu fd (traced_conf conf) d msu) d (self_command conf (known_string (mu_netns msu)))
     (tf_string (mu_pid_file msu), config_mode Msu_Mode (tf_string (mu_config_file msu))) \<and>
   launches (start_datastore fd (traced_conf conf) d ds) d (ex_self_path (pc_exec conf), [])
     (tf_string (ld_pid_file ds),
      Http_Mode \<lparr>hc_listen = set_or (ld_listen ds) '':8080'', hc_static_dir = tf_string (ld_static_dir ds),
                 hc_bw_limit = set_or (ld_bw_limit ds) ''2GB'', hc_username = set_or (ld_username ds) [],
                 hc_password = set_or (ld_password ds) []\<rparr>)"
proof -
  have self: "self_command (traced_conf conf) n = self_command conf n" for n
    unfolding self_command_def traced_conf_simps traced_simps ..
  show ?thesis
    unfolding start_dhcp_server_def start_dhcp6_server_def start_radv_def start_im_def start_msu_def self traced_conf_simps
  proof (intro conjI)
    show "launches (start_datastore fd (traced_conf conf) d ds) d (ex_self_path (pc_exec conf), [])
     (tf_string (ld_pid_file ds),
      Http_Mode \<lparr>hc_listen = set_or (ld_listen ds) '':8080'', hc_static_dir = tf_string (ld_static_dir ds),
                 hc_bw_limit = set_or (ld_bw_limit ds) ''2GB'', hc_username = set_or (ld_username ds) [],
                 hc_password = set_or (ld_password ds) []\<rparr>)"
      unfolding start_datastore_def traced_conf_simps traced_simps
      by (rule start_detached_launches [OF datastore_plan]) simp_all
  qed (rule start_self_launches, simp add: mode_simps)+
qed

end
