(* ===== verification/Radv_Daemon.thy ===== *)
theory Radv_Daemon
  imports Main_Modes
begin

text \<open>
  The router advertisement daemon (\<^verbatim>\<open>main_radv_linux_amd64.go\<close>), the other end of the resource
  \<open>Radv\<close>: from the configuration file to the message it sends. The file is decoded and the messages are sent by libraries,
  which are parameters.
\<close>

record radv_config =
  rc_interface :: string
  rc_prefix :: string
  rc_routes :: "string list"
  rc_on_link :: bool
  rc_autonomous :: bool
  rc_valid_lifetime :: int
  rc_preferred_lifetime :: int
  rc_dns_servers :: string
  rc_managed :: bool
  rc_other :: bool
  rc_router_lifetime :: int
  rc_max_interval :: int
  rc_min_interval :: int
  rc_hop_limit :: int

section \<open>Package netip\<close>

text \<open>An address with its zone, and a prefix: the part behind the last slash is a number without leading zeros.\<close>

type_synonym netip_addr = "bytes \<times> string"

definition netip_parse_addr :: "string \<Rightarrow> netip_addr option" where
  "netip_parse_addr s =
     (case filter (\<lambda>c. c \<in> {CHR ''.'', CHR '':'', CHR ''%''}) s of
        [] \<Rightarrow> None
      | c # _ \<Rightarrow>
          if c = CHR '':'' then
            (case str_cut s (CHR ''%'') of
               None \<Rightarrow> map_option (\<lambda>ip. (ip, [])) (parse_ipv6 s)
             | Some (a, zone) \<Rightarrow> if zone = [] then None else map_option (\<lambda>ip. (ip, zone)) (parse_ipv6 a))
          else map_option (\<lambda>ip. (ip, [])) (parse_addr s))"

definition cut_last :: "string \<Rightarrow> char \<Rightarrow> (string \<times> string) option" where
  "cut_last s c = map_option (\<lambda>(a, b). (rev b, rev a)) (str_cut (rev s) c)"

definition netip_parse_prefix :: "string \<Rightarrow> (bytes \<times> nat) option" where
  "netip_parse_prefix s =
     (case cut_last s (CHR ''/'') of
        None \<Rightarrow> None
      | Some (addr, bits) \<Rightarrow>
          (case (netip_parse_addr addr, parse_nat bits) of
             (Some (ip, zone), Some n) \<Rightarrow>
               if zone \<noteq> [] \<or> (length bits > 1 \<and> hd bits = CHR ''0'') \<or> n > 8 * length ip then None else Some (ip, n)
           | _ \<Rightarrow> None))"

section \<open>The message\<close>

datatype ra_option =
    Prefix_Info (pi_bits: "8 word") (pi_on_link: bool) (pi_autonomous: bool) (pi_valid: int) (pi_preferred: int) (pi_prefix: bytes)
  | Route_Info (ri_bits: "8 word") (ri_prefix: bytes) (ri_lifetime: int)
  | Rdnss (rd_lifetime: int) (rd_servers: "netip_addr list")

record ra_message =
  ram_hop_limit :: "8 word"
  ram_managed :: bool
  ram_other :: bool
  ram_lifetime :: int
  ram_options :: "ra_option list"

text \<open>\<^verbatim>\<open>time.Duration(s) * time.Second\<close>: a product of 64-bit integers.\<close>

definition seconds :: "int \<Rightarrow> int" where
  "seconds s = sint (word_of_int (s * sec) :: 64 word)"

fun route_options :: "int \<Rightarrow> string list \<Rightarrow> ra_option list" where
  "route_options lifetime [] = []"
| "route_options lifetime (r # rs) =
     (case netip_parse_prefix r of
        None \<Rightarrow> route_options lifetime rs
      | Some (ip, n) \<Rightarrow> Route_Info (word_of_nat n) ip lifetime # route_options lifetime rs)"

fun dns_addrs :: "string list \<Rightarrow> netip_addr list" where
  "dns_addrs [] = []"
| "dns_addrs (s # ss) =
     (case netip_parse_addr (trim_space s) of None \<Rightarrow> dns_addrs ss | Some a \<Rightarrow> a # dns_addrs ss)"

definition dns_options :: "int \<Rightarrow> string \<Rightarrow> ra_option list" where
  "dns_options lifetime servers =
     (if servers = [] then []
      else let addrs = dns_addrs (split_on (CHR '','') servers)
           in if addrs = [] then [] else [Rdnss lifetime addrs])"

definition build_router_advertisement :: "radv_config \<Rightarrow> bytes \<times> nat \<Rightarrow> ra_message" where
  "build_router_advertisement cfg = (\<lambda>(ip, n).
     let lifetime = seconds (rc_router_lifetime cfg)
     in \<lparr>ram_hop_limit = word_of_int (rc_hop_limit cfg), ram_managed = rc_managed cfg, ram_other = rc_other cfg,
         ram_lifetime = lifetime,
         ram_options =
           [Prefix_Info (word_of_nat n) (rc_on_link cfg) (rc_autonomous cfg) (seconds (rc_valid_lifetime cfg))
              (seconds (rc_preferred_lifetime cfg)) ip] @
           route_options lifetime (rc_routes cfg) @
           dns_options lifetime (rc_dns_servers cfg)\<rparr>)"

section \<open>The daemon\<close>

text \<open>What the daemon waits for: its ticker, a message, a failed read, the end. Both goroutines send, one at a time.\<close>

datatype ra_event = Ra_Tick | Ra_Solicitation | Ra_Other_Message | Ra_Read_Error | Ra_Done

record 'w radv_ops =
  rv_read_file :: "string \<Rightarrow> ('w, goerr + string) state"
  rv_decode :: "string \<Rightarrow> goerr + radv_config"
  rv_interface :: "string \<Rightarrow> ('w, goerr + nat) state"
  rv_listen :: "nat \<Rightarrow> ('w, goerr + nat) state"
  rv_sleep :: "int \<Rightarrow> ('w, unit) state"
  rv_write :: "nat \<Rightarrow> ra_message \<Rightarrow> ('w, goerr option) state"
  rv_next :: "('w, ra_event) state"
  rv_close :: "nat \<Rightarrow> ('w, unit) state"

text \<open>How the process ends; no end within the fuel is \<open>None\<close>.\<close>

datatype radv_end = Radv_Fatal string | Radv_Panic | Radv_Stopped

definition send_ra :: "'w radv_ops \<Rightarrow> nat \<Rightarrow> ra_message \<Rightarrow> ('w, goerr option) state" where
  "send_ra ops conn ra = do {
     e \<leftarrow> rv_write ops conn ra;
     State_Monad.return (map_option (wrapf ''failed to send RA: '') e) }"

text \<open>The wait for the link-local address; it does not look at the signal.\<close>

fun wait_ndp :: "nat \<Rightarrow> 'w radv_ops \<Rightarrow> nat \<Rightarrow> ('w, nat option) state" where
  "wait_ndp 0 ops iface = State_Monad.return None"
| "wait_ndp (Suc n) ops iface = do {
     _ \<leftarrow> rv_sleep ops (2 * sec);
     r \<leftarrow> rv_listen ops iface;
     case r of Inr conn \<Rightarrow> State_Monad.return (Some conn) | Inl e \<Rightarrow> wait_ndp n ops iface }"

fun ra_loop :: "nat \<Rightarrow> 'w radv_ops \<Rightarrow> nat \<Rightarrow> ra_message \<Rightarrow> ('w, radv_end option) state" where
  "ra_loop 0 ops conn ra = State_Monad.return None"
| "ra_loop (Suc n) ops conn ra = do {
     ev \<leftarrow> rv_next ops;
     if ev = Ra_Done then State_Monad.return (Some Radv_Stopped)
     else if ev = Ra_Tick \<or> ev = Ra_Solicitation then do { _ \<leftarrow> send_ra ops conn ra; ra_loop n ops conn ra }
     else ra_loop n ops conn ra }"

text \<open>\<^verbatim>\<open>time.NewTicker\<close> panics when its interval is not positive.\<close>

definition run_ra_daemon :: "nat \<Rightarrow> 'w radv_ops \<Rightarrow> nat \<Rightarrow> ra_message \<Rightarrow> radv_config \<Rightarrow> ('w, radv_end option) state" where
  "run_ra_daemon fuel ops conn ra cfg =
     (if seconds (rc_max_interval cfg) \<le> 0 then State_Monad.return (Some Radv_Panic)
      else do {
        e \<leftarrow> send_ra ops conn ra;
        case e of
          Some e \<Rightarrow> State_Monad.return (Some (Radv_Fatal (''RADV daemon error: '' @ err_msg (wrapf ''failed to send initial RA: '' e))))
        | None \<Rightarrow> ra_loop fuel ops conn ra })"

definition radv_serve :: "nat \<Rightarrow> 'w radv_ops \<Rightarrow> nat \<Rightarrow> ra_message \<Rightarrow> radv_config \<Rightarrow> ('w, radv_end option) state" where
  "radv_serve fuel ops conn ra cfg = do {
     r \<leftarrow> run_ra_daemon fuel ops conn ra cfg;
     _ \<leftarrow> (if r = Some Radv_Stopped \<or> r = Some Radv_Panic then rv_close ops conn else State_Monad.return ());
     State_Monad.return r }"

text \<open>The text of the error of \<^verbatim>\<open>netip\<close> is left out of the message. Deferred calls run on the way of a panic, and do not run
  on a fatal end.\<close>

definition radv_main :: "nat \<Rightarrow> 'w radv_ops \<Rightarrow> string \<Rightarrow> bool \<Rightarrow> ('w, radv_end option) state" where
  "radv_main fuel ops path wait =
     (let fatal = (\<lambda>m. State_Monad.return (Some (Radv_Fatal m)))
      in if path = [] then fatal ''Error: -radv.config flag is required''
         else do {
           x \<leftarrow> rv_read_file ops path;
           case x of
             Inl e \<Rightarrow> fatal (''Failed to read config file: '' @ err_msg e)
           | Inr s \<Rightarrow>
             (case rv_decode ops s of
                Inl e \<Rightarrow> fatal (''Failed to parse config file: '' @ err_msg e)
              | Inr cfg \<Rightarrow>
                (case netip_parse_prefix (rc_prefix cfg) of
                   None \<Rightarrow> fatal (''Invalid prefix '' @ rc_prefix cfg)
                 | Some p \<Rightarrow> do {
                     let ra = build_router_advertisement cfg p;
                     i \<leftarrow> rv_interface ops (rc_interface cfg);
                     case i of
                       Inl e \<Rightarrow> fatal (''Failed to get interface '' @ rc_interface cfg @ '': '' @ err_msg e)
                     | Inr iface \<Rightarrow> do {
                         c \<leftarrow> rv_listen ops iface;
                         case c of
                           Inr conn \<Rightarrow> radv_serve fuel ops conn ra cfg
                         | Inl e \<Rightarrow>
                             if \<not> wait then fatal (''Failed to create NDP connection: '' @ err_msg e)
                             else do {
                               w \<leftarrow> wait_ndp fuel ops iface;
                               case w of
                                 None \<Rightarrow> State_Monad.return None
                               | Some conn \<Rightarrow> radv_serve fuel ops conn ra cfg } } })) })"

section \<open>The daemon on a list of events\<close>

definition ra_target :: "(ra_event list \<times> ra_message list) radv_ops" where
  "ra_target =
     \<lparr>rv_read_file = (\<lambda>p. State_Monad.return (Inr [])), rv_decode = (\<lambda>s. Inl (Err ''yaml'')),
      rv_interface = (\<lambda>i. State_Monad.return (Inr 0)), rv_listen = (\<lambda>i. State_Monad.return (Inr 0)),
      rv_sleep = (\<lambda>t. State_Monad.return ()),
      rv_write = (\<lambda>c m. State (\<lambda>(es, ms). (None, (es, ms @ [m])))),
      rv_next = State (\<lambda>(es, ms). case es of [] \<Rightarrow> (Ra_Done, ([], ms)) | e # es' \<Rightarrow> (e, (es', ms))),
      rv_close = (\<lambda>c. State_Monad.return ())\<rparr>"

lemma ra_target_simps [simp]:
  "run_state (rv_write ra_target c m) (es, ms) = (None, (es, ms @ [m]))"
  "run_state (rv_next ra_target) ([], ms) = (Ra_Done, ([], ms))"
  "run_state (rv_next ra_target) (e # es, ms) = (e, (es, ms))"
  by (simp_all add: ra_target_def)

definition answered :: "ra_event list \<Rightarrow> ra_event list" where
  "answered es = filter (\<lambda>e. e = Ra_Tick \<or> e = Ra_Solicitation) es"

lemma ra_loop_events:
  "Ra_Done \<notin> set es \<Longrightarrow>
     run_state (ra_loop (Suc (length es)) ra_target c ra) (es, ms) =
       (Some Radv_Stopped, ([], ms @ replicate (length (answered es)) ra))"
proof (induction es arbitrary: ms)
  case Nil
  then show ?case by (simp add: answered_def)
next
  case (Cons e es)
  then show ?case by (auto simp: answered_def send_ra_def)
qed

section \<open>Properties\<close>

text \<open>A configuration and its message, for the witnesses.\<close>

definition cfg_example :: radv_config where
  "cfg_example =
     \<lparr>rc_interface = ''br0'', rc_prefix = ''fd00::/64'', rc_routes = [], rc_on_link = True, rc_autonomous = True,
      rc_valid_lifetime = 86400, rc_preferred_lifetime = 14400, rc_dns_servers = [], rc_managed = False, rc_other = False,
      rc_router_lifetime = 1800, rc_max_interval = 600, rc_min_interval = 200, rc_hop_limit = 64\<rparr>"

definition ra_example :: ra_message where
  "ra_example = build_router_advertisement cfg_example (0xfd # replicate 15 0, 64)"

text \<open>With a positive maximal interval the daemon sends its message once at the start, once for each tick and once, at once, for
  each solicitation, until it is told to stop; with an interval of zero it panics before it has sent anything.\<close>

theorem radv_sends:
  assumes "Ra_Done \<notin> set es"
  shows "run_state (run_ra_daemon (Suc (length es)) ra_target conn ra cfg) (es, []) =
    (if seconds (rc_max_interval cfg) \<le> 0 then (Some Radv_Panic, (es, []))
     else (Some Radv_Stopped, ([], replicate (1 + length (answered es)) ra)))"
  using ra_loop_events [OF assms] by (simp add: run_ra_daemon_def send_ra_def)

theorem radv_sends_witness:
  "run_state (run_ra_daemon 4 ra_target 0 ra_example cfg_example) ([Ra_Solicitation, Ra_Read_Error, Ra_Tick], []) =
     (Some Radv_Stopped, ([], [ra_example, ra_example, ra_example])) \<and>
   run_state (run_ra_daemon 4 ra_target 0 ra_example (cfg_example\<lparr>rc_max_interval := 0\<rparr>))
       ([Ra_Solicitation, Ra_Read_Error, Ra_Tick], []) =
     (Some Radv_Panic, ([Ra_Solicitation, Ra_Read_Error, Ra_Tick], []))"
  using radv_sends [of "[Ra_Solicitation, Ra_Read_Error, Ra_Tick]" 0 ra_example cfg_example]
    radv_sends [of "[Ra_Solicitation, Ra_Read_Error, Ra_Tick]" 0 ra_example "cfg_example\<lparr>rc_max_interval := 0\<rparr>"]
  by (simp add: seconds_def answered_def eval_nat_numeral cfg_example_def)

text \<open>The message carries the hop limit modulo 256, the lifetimes as long as they fit into 64-bit nanoseconds, the routes and the
  DNS servers that can be parsed, in their order, and no DNS option without a server.\<close>

lemma route_options_filter:
  "route_options lt rs = map (\<lambda>(ip, n). Route_Info (word_of_nat n) ip lt) (List.map_filter netip_parse_prefix rs)"
  by (induction rs) (auto simp: List.map_filter_simps split: option.splits)

lemma dns_addrs_filter: "dns_addrs ss = List.map_filter (\<lambda>s. netip_parse_addr (trim_space s)) ss"
  by (induction ss) (auto simp: List.map_filter_simps split: option.splits)

lemma seconds_exact: "0 \<le> s \<Longrightarrow> s \<le> 9223372036 \<Longrightarrow> seconds s = s * sec"
  unfolding seconds_def sint_sbintrunc' by (rule signed_take_bit_int_eq_self) simp_all

theorem radv_message:
  assumes "0 \<le> rc_router_lifetime cfg" and "rc_router_lifetime cfg \<le> 9223372036"
  shows "unat (ram_hop_limit (build_router_advertisement cfg (ip, n))) = nat (rc_hop_limit cfg mod 256) \<and>
    ram_lifetime (build_router_advertisement cfg (ip, n)) = rc_router_lifetime cfg * sec \<and>
    tl (ram_options (build_router_advertisement cfg (ip, n))) =
      map (\<lambda>(ip, n). Route_Info (word_of_nat n) ip (rc_router_lifetime cfg * sec)) (List.map_filter netip_parse_prefix (rc_routes cfg)) @
      (let servers = List.map_filter (\<lambda>s. netip_parse_addr (trim_space s)) (split_on (CHR '','') (rc_dns_servers cfg))
       in if servers = [] then [] else [Rdnss (rc_router_lifetime cfg * sec) servers])"
proof -
  have lt: "seconds (rc_router_lifetime cfg) = rc_router_lifetime cfg * sec" using seconds_exact assms by blast
  have hop: "unat (word_of_int (rc_hop_limit cfg) :: 8 word) = nat (rc_hop_limit cfg mod 256)"
    by (simp add: unsigned_of_int take_bit_eq_mod)
  have none: "List.map_filter (\<lambda>s. netip_parse_addr (trim_space s)) (split_on (CHR '','') []) = []"
    by (simp add: List.map_filter_simps netip_parse_addr_def trim_space_def trim_right_by_def)
  show ?thesis
    using none by (simp add: build_router_advertisement_def Let_def lt hop route_options_filter dns_options_def dns_addrs_filter)
qed

theorem radv_message_witness:
  "\<exists>cfg :: radv_config. unat (ram_hop_limit (build_router_advertisement (cfg\<lparr>rc_router_lifetime := 1800, rc_hop_limit := 256\<rparr>) ([], 0))) = 0"
proof -
  fix cfg :: radv_config
  show ?thesis using radv_message [of "cfg\<lparr>rc_router_lifetime := 1800, rc_hop_limit := 256\<rparr>" "[]" 0] by (intro exI [of _ cfg]) simp
qed

end
