(* ===== verification/Internet_Probe.thy ===== *)
theory Internet_Probe
  imports Net_Addr Provider_Conf Go_Duration "HOL-Library.List_Lexorder" "HOL-Library.Char_ord" "HOL-Library.Product_Lexorder" "HOL-Library.Multiset"
begin

text \<open>
  The internet monitor (\<^verbatim>\<open>main_internet_monitor_linux_amd64.go\<close>): in every cycle each destination is resolved by
  the system and over HTTPS, and the addresses are pinged and fetched; what was found is written as samples. The
  libraries for DNS messages, ping, HTTP and the output format are parameters, as are \<^verbatim>\<open>net/url\<close> and
  the formatting of floating-point milliseconds.
\<close>

section \<open>Configuration\<close>

record probe_config =
  bc_output_file :: string
  bc_interval :: int
  bc_ping_count :: int
  bc_ping_timeout :: int
  bc_dns_timeout :: int
  bc_http_timeout :: int
  bc_doh_endpoint :: string
  bc_flush_every_n :: int
  bc_destinations :: "string list"
  bc_privileged_icmp :: bool

definition default_doh_endpoint :: string where
  "default_doh_endpoint = ''https://dns.quad9.net/dns-query''"

definition positive_or :: "int \<Rightarrow> int \<Rightarrow> int" where
  "positive_or dflt x = (if x \<le> 0 then dflt else x)"

definition probe_defaults :: "probe_config \<Rightarrow> probe_config" where
  "probe_defaults cfg =
     cfg\<lparr>bc_interval := positive_or (60 * sec) (bc_interval cfg), bc_ping_count := positive_or 5 (bc_ping_count cfg),
         bc_ping_timeout := positive_or (5 * sec) (bc_ping_timeout cfg), bc_dns_timeout := positive_or (5 * sec) (bc_dns_timeout cfg),
         bc_http_timeout := positive_or (10 * sec) (bc_http_timeout cfg),
         bc_doh_endpoint := (if bc_doh_endpoint cfg = [] then default_doh_endpoint else bc_doh_endpoint cfg),
         bc_flush_every_n := positive_or 1 (bc_flush_every_n cfg)\<rparr>"

definition check_probe_config :: "probe_config \<Rightarrow> string + probe_config" where
  "check_probe_config cfg =
     (if bc_output_file cfg = [] then Inl ''output_file is required in config''
      else if bc_destinations cfg = [] then Inl ''destinations is empty in config''
      else Inr (probe_defaults cfg))"

section \<open>The libraries\<close>

record url =
  ul_hostname :: string
  ul_port :: string
  ul_text :: string
  ul_with_host :: "string \<Rightarrow> string"

datatype dns_rr = RR_A bytes | RR_AAAA bytes | RR_Other

record ping_stats =
  ps_sent :: int
  ps_recv :: int
  ps_loss :: string
  ps_min :: int
  ps_avg :: int
  ps_max :: int

record 'w probe_ops =
  pb_open :: "string \<Rightarrow> ('w, goerr option) state"
  pb_header :: "probe_config \<Rightarrow> ('w, goerr option) state"
  pb_sample :: "string \<Rightarrow> int \<Rightarrow> string \<Rightarrow> string \<Rightarrow> ('w, goerr option) state"
  pb_flush :: "('w, goerr option) state"
  pb_close :: "('w, goerr option) state"
  pb_read_file :: "string \<Rightarrow> ('w, goerr + string) state"
  pb_now :: "('w, int) state"
  pb_parse_url :: "string \<Rightarrow> goerr + url"
  pb_lookup :: "int \<Rightarrow> string \<Rightarrow> ('w, goerr + bytes list) state"
  pb_pack :: "string \<Rightarrow> nat \<Rightarrow> goerr + string"
  pb_post :: "int \<times> int \<Rightarrow> string \<Rightarrow> string \<Rightarrow> ('w, goerr + (int \<times> (goerr + string))) state"
  pb_unpack :: "string \<Rightarrow> goerr + dns_rr list"
  pb_new_pinger :: "string \<Rightarrow> goerr option"
  pb_ping :: "probe_config \<Rightarrow> string \<Rightarrow> ('w, ping_stats \<times> goerr option) state"
  pb_get :: "int \<Rightarrow> string \<Rightarrow> string \<Rightarrow> string \<Rightarrow> ('w, goerr + string) state"
  pb_ms :: "nat \<Rightarrow> int \<Rightarrow> string"

section \<open>Addresses\<close>

definition is_v4 :: "bytes \<Rightarrow> bool" where
  "is_v4 ip \<longleftrightarrow> to4 ip \<noteq> None"

text \<open>The loop that drops nil addresses and, by their text, duplicates.\<close>

fun unique_ips :: "string set \<Rightarrow> bytes list \<Rightarrow> bytes list" where
  "unique_ips seen [] = []"
| "unique_ips seen (ip # ips) =
     (if ip = [] \<or> ip_string ip \<in> seen then unique_ips seen ips
      else ip # unique_ips (insert (ip_string ip) seen) ips)"

definition ip_key :: "bytes \<Rightarrow> bool \<times> string" where
  "ip_key ip = (\<not> is_v4 ip, ip_string ip)"

text \<open>The keys are distinct after the loop, so that every way to sort by them gives this list.\<close>

definition unique_sorted_ips :: "bytes list \<Rightarrow> bytes list" where
  "unique_sorted_ips ips = sort_key ip_key (unique_ips {} ips)"

section \<open>Resolvers\<close>

definition resolver_servers :: "string \<Rightarrow> string list" where
  "resolver_servers content =
     List.map_filter
       (\<lambda>l. let t = trim_space l in if prefix ''nameserver '' t then Some (trim_space (drop (length ''nameserver '') t)) else None)
       (split_on (CHR 0x0A) content)"

definition system_resolver_name :: "'w probe_ops \<Rightarrow> ('w, string) state" where
  "system_resolver_name ops = do {
     r \<leftarrow> pb_read_file ops ''/etc/resolv.conf'';
     State_Monad.return (case r of
        Inl e \<Rightarrow> ''system''
      | Inr s \<Rightarrow> (let servers = resolver_servers s
                 in if servers = [] then ''system'' else ''system ('' @ str_join servers '','' @ '')'')) }"

text \<open>A resolver gives the addresses, the time it took and an error.\<close>

type_synonym resolved = "bytes list \<times> int \<times> goerr option"

definition resolve_system :: "'w probe_ops \<Rightarrow> int \<Rightarrow> string \<Rightarrow> ('w, resolved) state" where
  "resolve_system ops timeout host = do {
     start \<leftarrow> pb_now ops;
     r \<leftarrow> pb_lookup ops timeout host;
     stop \<leftarrow> pb_now ops;
     State_Monad.return (case r of Inl e \<Rightarrow> ([], stop - start, Some e) | Inr addrs \<Rightarrow> (unique_sorted_ips addrs, stop - start, None)) }"

definition type_a :: nat where "type_a = 1"

definition type_aaaa :: nat where "type_aaaa = 28"

fun answer_ips :: "dns_rr list \<Rightarrow> bytes list" where
  "answer_ips [] = []"
| "answer_ips (RR_A ip # rs) = ip # answer_ips rs"
| "answer_ips (RR_AAAA ip # rs) = ip # answer_ips rs"
| "answer_ips (RR_Other # rs) = answer_ips rs"

definition doh_query :: "'w probe_ops \<Rightarrow> int \<times> int \<Rightarrow> string \<Rightarrow> string \<Rightarrow> nat \<Rightarrow> ('w, goerr + bytes list) state" where
  "doh_query ops timeouts endpoint host qtype =
     (case pb_pack ops host qtype of
        Inl e \<Rightarrow> failE (wrapf ''pack: '' e)
      | Inr wire \<Rightarrow> do {
          r \<leftarrow> pb_post ops timeouts endpoint wire;
          case r of
            Inl e \<Rightarrow> failE e
          | Inr (code, body) \<Rightarrow>
              if code \<noteq> 200 then failE (Err (''DoH HTTP '' @ itoa code))
              else (case body of
                 Inl e \<Rightarrow> failE e
               | Inr b \<Rightarrow>
                   (case pb_unpack ops b of
                      Inl e \<Rightarrow> failE (wrapf ''unpack: '' e)
                    | Inr rrs \<Rightarrow> okE (answer_ips rrs))) })"

text \<open>An error is reported when both queries failed, or one failed and the other found nothing.\<close>

definition doh_outcome :: "goerr + bytes list \<Rightarrow> goerr + bytes list \<Rightarrow> bytes list \<times> goerr option" where
  "doh_outcome a4 a6 =
     (let ips = (\<lambda>r. case r of Inl _ \<Rightarrow> [] | Inr x \<Rightarrow> x);
          err = (case (a4, a6) of
             (Inl ea, Inl eb) \<Rightarrow> Some (Err (''A: '' @ err_msg ea @ ''; AAAA: '' @ err_msg eb))
           | (Inl ea, Inr b) \<Rightarrow> if b = [] then Some (Err (''A: '' @ err_msg ea)) else None
           | (Inr a, Inl eb) \<Rightarrow> if a = [] then Some (Err (''AAAA: '' @ err_msg eb)) else None
           | (Inr a, Inr b) \<Rightarrow> None)
      in (unique_sorted_ips (ips a4 @ ips a6), err))"

definition resolve_doh :: "'w probe_ops \<Rightarrow> int \<times> int \<Rightarrow> string \<Rightarrow> string \<Rightarrow> ('w, resolved) state" where
  "resolve_doh ops timeouts endpoint host = do {
     start \<leftarrow> pb_now ops;
     a4 \<leftarrow> doh_query ops timeouts endpoint host type_a;
     a6 \<leftarrow> doh_query ops timeouts endpoint host type_aaaa;
     stop \<leftarrow> pb_now ops;
     State_Monad.return (case doh_outcome a4 a6 of (ips, err) \<Rightarrow> (ips, stop - start, err)) }"

definition format_dns_out :: "'w probe_ops \<Rightarrow> string \<Rightarrow> bytes list \<Rightarrow> int \<Rightarrow> string" where
  "format_dns_out ops resolver ips rtt =
     ''resolver: '' @ resolver @ [CHR 0x0A] @
     concat (map (\<lambda>ip. (if is_v4 ip then ''A: '' else ''AAAA: '') @ ip_string ip @ [CHR 0x0A]) ips) @
     ''rtt_ms: '' @ pb_ms ops 2 rtt @ [CHR 0x0A]"

section \<open>Ping and HTTPS\<close>

definition ping_one :: "'w probe_ops \<Rightarrow> probe_config \<Rightarrow> bytes \<Rightarrow> ('w, string) state" where
  "ping_one ops cfg ip =
     (let nl = [CHR 0x0A]; target = ''target: '' @ ip_string ip @ nl
      in case pb_new_pinger ops (ip_string ip) of
           Some e \<Rightarrow> State_Monad.return (target @ ''error: '' @ err_msg e @ nl)
         | None \<Rightarrow> do {
             (stats, err) \<leftarrow> pb_ping ops cfg (ip_string ip);
             State_Monad.return
               (target @ ''sent='' @ itoa (ps_sent stats) @ '' recv='' @ itoa (ps_recv stats) @ '' loss='' @ ps_loss stats @ ''%'' @ nl @
                (if ps_recv stats > 0
                 then ''rtt min/avg/max: '' @ pb_ms ops 2 (ps_min stats) @ ''/'' @ pb_ms ops 2 (ps_avg stats) @ ''/'' @
                      pb_ms ops 2 (ps_max stats) @ '' ms'' @ nl
                 else []) @
                (case err of Some e \<Rightarrow> ''error: '' @ err_msg e @ nl | None \<Rightarrow> [])) })"

fun mapM_state :: "('a \<Rightarrow> ('w, 'b) state) \<Rightarrow> 'a list \<Rightarrow> ('w, 'b list) state" where
  "mapM_state f [] = State_Monad.return []"
| "mapM_state f (x # xs) = do { y \<leftarrow> f x; ys \<leftarrow> mapM_state f xs; State_Monad.return (y # ys) }"

text \<open>The pings run concurrently, and their blocks come in the order \<open>done\<close> in which they finish; they are sorted before they
  are joined.\<close>

definition icmp_report :: "string list \<Rightarrow> string" where
  "icmp_report blocks = str_join (sort blocks) (''---'' @ [CHR 0x0A])"

definition run_icmp_round :: "'w probe_ops \<Rightarrow> (bytes list \<Rightarrow> bytes list) \<Rightarrow> probe_config \<Rightarrow> bytes list \<Rightarrow> ('w, string) state" where
  "run_icmp_round ops finish cfg ips =
     (if ips = [] then State_Monad.return (''no targets'' @ [CHR 0x0A])
      else do { blocks \<leftarrow> mapM_state (ping_one ops cfg) (finish ips); State_Monad.return (icmp_report blocks) })"

definition arrow :: string where
  "arrow = [CHR 0xE2, CHR 0x86, CHR 0x92]"

definition https_line :: "'w probe_ops \<Rightarrow> string \<Rightarrow> string \<Rightarrow> goerr + string \<Rightarrow> int \<Rightarrow> string" where
  "https_line ops text host r dt =
     (let pre = ''GET '' @ text @ (if host \<noteq> [] then '' Host:'' @ host else []); ms = '' ('' @ pb_ms ops 0 dt @ ''ms)'' @ [CHR 0x0A]
      in case r of
           Inl e \<Rightarrow> pre @ '' '' @ arrow @ '' ERROR '' @ err_msg e @ ms
         | Inr status \<Rightarrow> pre @ '' '' @ arrow @ '' '' @ status @ ms)"

definition timed_get :: "'w probe_ops \<Rightarrow> int \<Rightarrow> string \<Rightarrow> string \<Rightarrow> ('w, string) state" where
  "timed_get ops timeout text host = do {
     start \<leftarrow> pb_now ops;
     r \<leftarrow> pb_get ops timeout host text host;
     stop \<leftarrow> pb_now ops;
     State_Monad.return (https_line ops text host r (stop - start)) }"

definition ip_host :: "url \<Rightarrow> bytes \<Rightarrow> string" where
  "ip_host u ip =
     (if is_v4 ip then ip_string ip else ''['' @ ip_string ip @ '']'') @ (if ul_port u \<noteq> [] then '':'' @ ul_port u else [])"

definition run_https_round :: "'w probe_ops \<Rightarrow> url \<Rightarrow> bytes list \<Rightarrow> probe_config \<Rightarrow> ('w, string) state" where
  "run_https_round ops u ips cfg = do {
     first \<leftarrow> timed_get ops (bc_http_timeout cfg) (ul_text u) [];
     rest \<leftarrow> mapM_state (\<lambda>ip. timed_get ops (bc_http_timeout cfg) (ul_with_host u (ip_host u ip)) (ul_hostname u)) ips;
     State_Monad.return (first @ concat rest) }"

section \<open>Cycles\<close>

text \<open>A failed write of a sample is logged and otherwise ignored.\<close>

definition write_sample :: "'w probe_ops \<Rightarrow> int \<Rightarrow> string \<Rightarrow> string \<Rightarrow> string \<Rightarrow> ('w, unit) state" where
  "write_sample ops seq cmd out err = do { _ \<leftarrow> pb_sample ops cmd seq out err; State_Monad.return () }"

datatype resolver_mode = By_System | By_Doh

fun mode_word :: "resolver_mode \<Rightarrow> string" where
  "mode_word By_System = ''system''"
| "mode_word By_Doh = ''doh''"

definition run_round ::
    "'w probe_ops \<Rightarrow> (bytes list \<Rightarrow> bytes list) \<Rightarrow> probe_config \<Rightarrow> int \<Rightarrow> resolver_mode \<Rightarrow> string \<Rightarrow> url \<Rightarrow> ('w, unit) state" where
  "run_round ops finish cfg seq mode dest u = do {
     (resolver, ips, rtt, err) \<leftarrow>
       (case mode of
          By_System \<Rightarrow> do {
            name \<leftarrow> system_resolver_name ops;
            r \<leftarrow> resolve_system ops (bc_dns_timeout cfg) (ul_hostname u);
            State_Monad.return (name, r) }
        | By_Doh \<Rightarrow> do {
            r \<leftarrow> resolve_doh ops (bc_dns_timeout cfg, bc_http_timeout cfg) (bc_doh_endpoint cfg) (ul_hostname u);
            State_Monad.return (bc_doh_endpoint cfg, r) });
     _ \<leftarrow> write_sample ops seq (''dns-'' @ mode_word mode @ '' '' @ dest) (format_dns_out ops resolver ips rtt)
           (case err of Some e \<Rightarrow> err_msg e | None \<Rightarrow> []);
     icmp \<leftarrow> run_icmp_round ops finish cfg ips;
     _ \<leftarrow> write_sample ops seq (''icmp-'' @ mode_word mode @ '' '' @ dest) icmp [];
     https \<leftarrow> run_https_round ops u ips cfg;
     write_sample ops seq (''https-'' @ mode_word mode @ '' '' @ dest) https [] }"

definition probe_destination :: "'w probe_ops \<Rightarrow> (bytes list \<Rightarrow> bytes list) \<Rightarrow> probe_config \<Rightarrow> int \<Rightarrow> string \<Rightarrow> ('w, unit) state" where
  "probe_destination ops finish cfg seq dest =
     (let bad = (\<lambda>msg. do {
            _ \<leftarrow> write_sample ops seq (''dns-system '' @ dest) [] msg;
            write_sample ops seq (''dns-doh '' @ dest) [] msg })
      in case pb_parse_url ops dest of
           Inl e \<Rightarrow> bad (err_msg e)
         | Inr u \<Rightarrow>
             if ul_hostname u = [] then bad ''URL has no hostname''
             else do {
               _ \<leftarrow> run_round ops finish cfg seq By_System dest u;
               run_round ops finish cfg seq By_Doh dest u })"

fun run_cycle :: "'w probe_ops \<Rightarrow> (bytes list \<Rightarrow> bytes list) \<Rightarrow> probe_config \<Rightarrow> int \<Rightarrow> string list \<Rightarrow> ('w, unit) state" where
  "run_cycle ops finish cfg seq [] = State_Monad.return ()"
| "run_cycle ops finish cfg seq (d # ds) = do {
     _ \<leftarrow> probe_destination ops finish cfg seq d;
     run_cycle ops finish cfg seq ds }"

text \<open>A cycle and the flush after every N of them; \<open>seq\<close> counts the cycles.\<close>

definition monitor_cycle :: "'w probe_ops \<Rightarrow> (bytes list \<Rightarrow> bytes list) \<Rightarrow> probe_config \<Rightarrow> int \<Rightarrow> ('w, unit) state" where
  "monitor_cycle ops finish cfg seq = do {
     _ \<leftarrow> run_cycle ops finish cfg seq (bc_destinations cfg);
     if (seq + 1) mod bc_flush_every_n cfg = 0 then do { _ \<leftarrow> pb_flush ops; State_Monad.return () } else State_Monad.return () }"

datatype monitor_event = Monitor_Tick | Monitor_Cancel

text \<open>Returns True when the monitor has ended, False when it waits for more events.\<close>

fun monitor_loop :: "'w probe_ops \<Rightarrow> (bytes list \<Rightarrow> bytes list) \<Rightarrow> probe_config \<Rightarrow> int \<Rightarrow> monitor_event list \<Rightarrow> ('w, bool) state" where
  "monitor_loop ops finish cfg seq [] = State_Monad.return False"
| "monitor_loop ops finish cfg seq (Monitor_Cancel # es) = do { _ \<leftarrow> pb_close ops; State_Monad.return True }"
| "monitor_loop ops finish cfg seq (Monitor_Tick # es) = do {
     _ \<leftarrow> monitor_cycle ops finish cfg seq;
     monitor_loop ops finish cfg (seq + 1) es }"

text \<open>The exit code, or None while it runs.\<close>

definition internet_monitor_main ::
    "'w probe_ops \<Rightarrow> (bytes list \<Rightarrow> bytes list) \<Rightarrow> (string \<Rightarrow> goerr + probe_config) \<Rightarrow> string \<Rightarrow> monitor_event list \<Rightarrow> ('w, int option) state" where
  "internet_monitor_main ops finish decode path es = do {
     x \<leftarrow> pb_read_file ops path;
     case x of
       Inl e \<Rightarrow> State_Monad.return (Some 1)
     | Inr s \<Rightarrow>
       (case decode s of
          Inl e \<Rightarrow> State_Monad.return (Some 1)
        | Inr raw \<Rightarrow>
          (case check_probe_config raw of
             Inl m \<Rightarrow> State_Monad.return (Some 1)
           | Inr cfg \<Rightarrow> do {
               o1 \<leftarrow> pb_open ops (bc_output_file cfg);
               if o1 \<noteq> None then State_Monad.return (Some 1)
               else do {
                 h \<leftarrow> pb_header ops cfg;
                 if h \<noteq> None then State_Monad.return (Some 1)
                 else do {
                   _ \<leftarrow> monitor_cycle ops finish cfg 0;
                   stopped \<leftarrow> monitor_loop ops finish cfg 1 es;
                   State_Monad.return (if stopped then Some 0 else None) } } })) }"

section \<open>What a monitor does\<close>

text \<open>What goes over the network and what is written, in order and with the answers; the clock is read before and after each
  measurement.\<close>

datatype probe_call =
    P_Now int
  | P_Lookup string "goerr + bytes list"
  | P_Post string string "goerr + (int \<times> (goerr + string))"
  | P_Ping string "ping_stats \<times> goerr option"
  | P_Get string string string "goerr + string"
  | P_Sample string int string string
  | P_Flush
  | P_Close

definition note_call :: "('a \<Rightarrow> 'c) \<Rightarrow> ('w, 'a) state \<Rightarrow> ('w \<times> 'c list, 'a) state" where
  "note_call c m = State (\<lambda>(w, h). let (r, w') = run_state m w in (r, (w', h @ [c r])))"

lemma run_note_call [simp]: "run_state (note_call c m) (w, h) = (let (r, w') = run_state m w in (r, (w', h @ [c r])))"
  by (simp add: note_call_def)

definition logged_probe :: "'w probe_ops \<Rightarrow> ('w \<times> probe_call list) probe_ops" where
  "logged_probe ops =
     \<lparr>pb_open = (\<lambda>p. unlogged (pb_open ops p)), pb_header = (\<lambda>c. unlogged (pb_header ops c)),
      pb_sample = (\<lambda>c n out err. log_call (P_Sample c n out err) (pb_sample ops c n out err)),
      pb_flush = log_call P_Flush (pb_flush ops), pb_close = log_call P_Close (pb_close ops),
      pb_read_file = (\<lambda>p. unlogged (pb_read_file ops p)), pb_now = note_call P_Now (pb_now ops), pb_parse_url = pb_parse_url ops,
      pb_lookup = (\<lambda>t h. note_call (P_Lookup h) (pb_lookup ops t h)), pb_pack = pb_pack ops,
      pb_post = (\<lambda>t e b. note_call (P_Post e b) (pb_post ops t e b)),
      pb_unpack = pb_unpack ops, pb_new_pinger = pb_new_pinger ops,
      pb_ping = (\<lambda>c i. note_call (P_Ping i) (pb_ping ops c i)),
      pb_get = (\<lambda>t n u h. note_call (P_Get n u h) (pb_get ops t n u h)), pb_ms = pb_ms ops\<rparr>"

lemma logged_probe_simps [simp]:
  "pb_sample (logged_probe ops) c n out err = log_call (P_Sample c n out err) (pb_sample ops c n out err)"
  "pb_flush (logged_probe ops) = log_call P_Flush (pb_flush ops)" "pb_close (logged_probe ops) = log_call P_Close (pb_close ops)"
  "pb_read_file (logged_probe ops) p = unlogged (pb_read_file ops p)" "pb_now (logged_probe ops) = note_call P_Now (pb_now ops)"
  "pb_parse_url (logged_probe ops) = pb_parse_url ops" "pb_lookup (logged_probe ops) t h = note_call (P_Lookup h) (pb_lookup ops t h)"
  "pb_pack (logged_probe ops) = pb_pack ops" "pb_post (logged_probe ops) ts e b = note_call (P_Post e b) (pb_post ops ts e b)"
  "pb_unpack (logged_probe ops) = pb_unpack ops" "pb_new_pinger (logged_probe ops) = pb_new_pinger ops"
  "pb_ping (logged_probe ops) cf i = note_call (P_Ping i) (pb_ping ops cf i)"
  "pb_get (logged_probe ops) t nm u h = note_call (P_Get nm u h) (pb_get ops t nm u h)" "pb_ms (logged_probe ops) = pb_ms ops"
  by (simp_all add: logged_probe_def)

text \<open>Whatever happens, \<open>m\<close> adds to the log what \<open>Q\<close> says of it and of its result.\<close>

definition does :: "('w \<times> probe_call list, 'a) state \<Rightarrow> ('a \<Rightarrow> probe_call list \<Rightarrow> bool) \<Rightarrow> bool" where
  "does m Q \<longleftrightarrow> (\<forall>w h r w' h'. run_state m (w, h) = (r, (w', h')) \<longrightarrow> (\<exists>cs. h' = h @ cs \<and> Q r cs))"

lemma doesD: "does m Q \<Longrightarrow> run_state m (w, h) = (r, (w', h')) \<Longrightarrow> \<exists>cs. h' = h @ cs \<and> Q r cs"
  by (simp add: does_def)

lemma does_return: "Q x [] \<Longrightarrow> does (State_Monad.return x) Q"
  by (simp add: does_def)

lemma does_bind:
  assumes "does m P" and "\<And>x cs. P x cs \<Longrightarrow> does (f x) (\<lambda>r ds. Q r (cs @ ds))"
  shows "does (State_Monad.bind m f) Q"
  unfolding does_def
proof (intro allI impI)
  fix w h r w' h'
  assume run: "run_state (State_Monad.bind m f) (w, h) = (r, (w', h'))"
  obtain x v g where m: "run_state m (w, h) = (x, (v, g))" by (metis surj_pair)
  then obtain cs where cs: "g = h @ cs" "P x cs" using doesD [OF assms(1)] by blast
  from m run have "run_state (f x) (v, g) = (r, (w', h'))" by simp
  then obtain ds where "h' = g @ ds" "Q r (cs @ ds)" using doesD [OF assms(2) [OF cs(2)]] by blast
  with cs(1) show "\<exists>cs. h' = h @ cs \<and> Q r cs" by auto
qed

lemma does_note: "(\<And>x. does (f x) (\<lambda>r ds. Q r (c x # ds))) \<Longrightarrow> does (do { x \<leftarrow> note_call c m; f x }) Q"
  by (rule does_bind [where P = "\<lambda>x cs. cs = [c x]"]) (auto simp: does_def split: prod.splits)

lemma does_unlogged: "(\<And>x. does (f x) Q) \<Longrightarrow> does (do { x \<leftarrow> unlogged m; f x }) Q"
  by (rule does_bind [where P = "\<lambda>x cs. cs = []"]) (auto simp: does_def split: prod.splits)

lemma does_log: "(\<And>x. does (f x) (\<lambda>r ds. Q r (c # ds))) \<Longrightarrow> does (do { x \<leftarrow> log_call c m; f x }) Q"
  by (rule does_bind [where P = "\<lambda>x cs. cs = [c]"]) (auto simp: does_def split: prod.splits)

lemma does_weaken: "does m P \<Longrightarrow> (\<And>r cs. P r cs \<Longrightarrow> Q r cs) \<Longrightarrow> does m Q"
  unfolding does_def by blast

lemma does_mapM:
  assumes "\<And>x. does (f x) (P x)"
  shows "does (mapM_state f xs) (\<lambda>ys cs. \<exists>css. cs = concat css \<and> length ys = length xs \<and> length css = length xs \<and>
    (\<forall>k < length xs. P (xs ! k) (ys ! k) (css ! k)))"
proof (induction xs)
  case Nil
  show ?case by (auto intro: does_return)
next
  case (Cons x xs)
  show ?case
    unfolding mapM_state.simps
  proof (intro does_bind [OF assms] does_bind [OF Cons.IH] does_return, elim exE conjE)
    fix y cs ys ds css
    assume "P x y cs" "ds = concat css" "length ys = length xs" "length css = length xs" "\<forall>k < length xs. P (xs ! k) (ys ! k) (css ! k)"
    then show "\<exists>css. cs @ ds @ [] = concat css \<and> length (y # ys) = length (x # xs) \<and> length css = length (x # xs) \<and>
        (\<forall>k < length (x # xs). P ((x # xs) ! k) ((y # ys) ! k) (css ! k))"
      by (intro exI [of _ "cs # css"]) (auto simp: less_Suc_eq_0_disj)
  qed
qed

section \<open>What a round does\<close>

abbreviation newline :: string where "newline \<equiv> [CHR 0x0A]"

text \<open>A query over HTTPS: one request to the endpoint, unless the question cannot be packed; addresses come only from a reply
  with the code 200 that could be read and unpacked.\<close>

definition doh_asked :: "'w probe_ops \<Rightarrow> string \<Rightarrow> string \<Rightarrow> nat \<Rightarrow> goerr + bytes list \<Rightarrow> probe_call list \<Rightarrow> bool" where
  "doh_asked ops endpoint host q r cs \<longleftrightarrow>
     (case pb_pack ops host q of
        Inl e \<Rightarrow> cs = [] \<and> (\<exists>e'. r = Inl e')
      | Inr wire \<Rightarrow> \<exists>a. cs = [P_Post endpoint wire a] \<and>
          (case r of
             Inr ips \<Rightarrow> \<exists>b rrs. a = Inr (200, Inr b) \<and> pb_unpack ops b = Inr rrs \<and> ips = answer_ips rrs
           | Inl e \<Rightarrow> \<nexists>b rrs. a = Inr (200, Inr b) \<and> pb_unpack ops b = Inr rrs))"

text \<open>The name of the resolver, the addresses, the time it took and the error, and what was asked for them.\<close>

definition resolver_asked ::
    "'w probe_ops \<Rightarrow> probe_config \<Rightarrow> resolver_mode \<Rightarrow> string \<Rightarrow> string \<times> resolved \<Rightarrow> probe_call list \<Rightarrow> bool" where
  "resolver_asked ops cfg mode host r cs \<longleftrightarrow>
     (case r of (resolver, ips, rtt, err) \<Rightarrow>
       (case mode of
          By_System \<Rightarrow> prefix ''system'' resolver \<and>
            (\<exists>t t' a. cs = [P_Now t, P_Lookup host a, P_Now t'] \<and> rtt = t' - t \<and>
               (case a of Inl e \<Rightarrow> ips = [] \<and> err = Some e | Inr addrs \<Rightarrow> ips = unique_sorted_ips addrs \<and> err = None))
        | By_Doh \<Rightarrow> resolver = bc_doh_endpoint cfg \<and>
            (\<exists>t t' c4 c6 a4 a6. cs = P_Now t # c4 @ c6 @ [P_Now t'] \<and> rtt = t' - t \<and>
               doh_asked ops (bc_doh_endpoint cfg) host 1 a4 c4 \<and> doh_asked ops (bc_doh_endpoint cfg) host 28 a6 c6 \<and>
               ips = unique_sorted_ips (case_sum (\<lambda>_. []) id a4 @ case_sum (\<lambda>_. []) id a6) \<and>
               (err \<noteq> None \<longleftrightarrow> (\<exists>e e'. a4 = Inl e \<and> a6 = Inl e') \<or> (\<exists>e. a4 = Inl e \<and> a6 = Inr []) \<or> (\<exists>e. a4 = Inr [] \<and> a6 = Inl e)))))"

text \<open>The pings: one for each address for which a pinger could be made; every address has a block in the report, the blocks
  are sorted.\<close>

definition ping_told :: "'w probe_ops \<Rightarrow> bytes \<Rightarrow> string \<Rightarrow> probe_call list \<Rightarrow> bool" where
  "ping_told ops ip block cs \<longleftrightarrow>
     prefix (''target: '' @ ip_string ip @ newline) block \<and>
     (case pb_new_pinger ops (ip_string ip) of
        Some e \<Rightarrow> cs = [] \<and> suffix (''error: '' @ err_msg e @ newline) block
      | None \<Rightarrow> \<exists>stats err. cs = [P_Ping (ip_string ip) (stats, err)] \<and>
          sublist (''sent='' @ itoa (ps_sent stats) @ '' recv='' @ itoa (ps_recv stats) @ '' loss='' @ ps_loss stats @ ''%'' @ newline) block \<and>
          (case err of None \<Rightarrow> True | Some e \<Rightarrow> suffix (''error: '' @ err_msg e @ newline) block))"

definition icmp_told :: "'w probe_ops \<Rightarrow> bytes list \<Rightarrow> string \<Rightarrow> probe_call list \<Rightarrow> bool" where
  "icmp_told ops ips out cs \<longleftrightarrow>
     (\<exists>blocks css. cs = concat css \<and> length blocks = length ips \<and> length css = length ips \<and>
        (\<forall>k < length ips. ping_told ops (ips ! k) (blocks ! k) (css ! k)) \<and>
        out = str_join (sort blocks) (''---'' @ newline))"

text \<open>The requests: the URL as it is, then each address with the name of the host; every request has its line.\<close>

definition https_targets :: "url \<Rightarrow> bytes list \<Rightarrow> (string \<times> string) list" where
  "https_targets u ips = (ul_text u, []) # map (\<lambda>ip. (ul_with_host u (ip_host u ip), ul_hostname u)) ips"

definition get_told :: "'w probe_ops \<Rightarrow> string \<times> string \<Rightarrow> string \<Rightarrow> probe_call list \<Rightarrow> bool" where
  "get_told ops target line cs \<longleftrightarrow>
     (case target of (text, host) \<Rightarrow>
        \<exists>t t' a. cs = [P_Now t, P_Get host text host a, P_Now t'] \<and>
          line = ''GET '' @ text @ (if host = [] then [] else '' Host:'' @ host) @ '' '' @ arrow @ '' '' @
            (case a of Inl e \<Rightarrow> ''ERROR '' @ err_msg e | Inr status \<Rightarrow> status) @ '' ('' @ pb_ms ops 0 (t' - t) @ ''ms)'' @ newline)"

definition https_told :: "'w probe_ops \<Rightarrow> url \<Rightarrow> bytes list \<Rightarrow> string \<Rightarrow> probe_call list \<Rightarrow> bool" where
  "https_told ops u ips out cs \<longleftrightarrow>
     (\<exists>lns css. out = concat lns \<and> cs = concat css \<and> length lns = Suc (length ips) \<and> length css = Suc (length ips) \<and>
        (\<forall>k < Suc (length ips). get_told ops (https_targets u ips ! k) (lns ! k) (css ! k)))"

text \<open>The text of the DNS sample, line by line.\<close>

definition dns_text :: "'w probe_ops \<Rightarrow> string \<times> resolved \<Rightarrow> string" where
  "dns_text ops r =
     (case r of (resolver, ips, rtt, err) \<Rightarrow>
        concat (map (\<lambda>l. l @ newline)
          ([''resolver: '' @ resolver] @
           map (\<lambda>ip. (if to4 ip = None then ''AAAA: '' else ''A: '') @ ip_string ip) ips @
           [''rtt_ms: '' @ pb_ms ops 2 rtt])))"

text \<open>A round: the resolver and its sample, the pings of its addresses in the order \<open>finish\<close> and their sample, the requests and
  their sample.\<close>

definition round_told ::
    "'w probe_ops \<Rightarrow> (bytes list \<Rightarrow> bytes list) \<Rightarrow> probe_config \<Rightarrow> int \<Rightarrow> string \<Rightarrow> url \<Rightarrow> resolver_mode \<Rightarrow> probe_call list \<Rightarrow> bool" where
  "round_told ops finish cfg n dest u mode cs \<longleftrightarrow>
     (\<exists>r c1 c2 c3 icmp https.
        cs = c1 @ [P_Sample (''dns-'' @ mode_word mode @ '' '' @ dest) n (dns_text ops r) (case snd (snd (snd r)) of None \<Rightarrow> [] | Some e \<Rightarrow> err_msg e)] @
             c2 @ [P_Sample (''icmp-'' @ mode_word mode @ '' '' @ dest) n icmp []] @
             c3 @ [P_Sample (''https-'' @ mode_word mode @ '' '' @ dest) n https []] \<and>
        resolver_asked ops cfg mode (ul_hostname u) r c1 \<and>
        (if fst (snd r) = [] then icmp = ''no targets'' @ newline \<and> c2 = [] else icmp_told ops (finish (fst (snd r))) icmp c2) \<and>
        https_told ops u (fst (snd r)) https c3)"

text \<open>A destination: two rounds, or two samples that say why there are none.\<close>

definition destination_told ::
    "'w probe_ops \<Rightarrow> (bytes list \<Rightarrow> bytes list) \<Rightarrow> probe_config \<Rightarrow> int \<Rightarrow> string \<Rightarrow> probe_call list \<Rightarrow> bool" where
  "destination_told ops finish cfg n dest cs \<longleftrightarrow>
     (case pb_parse_url ops dest of
        Inl e \<Rightarrow> cs = [P_Sample (''dns-system '' @ dest) n [] (err_msg e), P_Sample (''dns-doh '' @ dest) n [] (err_msg e)]
      | Inr u \<Rightarrow>
          if ul_hostname u = []
          then cs = [P_Sample (''dns-system '' @ dest) n [] ''URL has no hostname'', P_Sample (''dns-doh '' @ dest) n [] ''URL has no hostname'']
          else \<exists>c d. cs = c @ d \<and> round_told ops finish cfg n dest u By_System c \<and> round_told ops finish cfg n dest u By_Doh d)"

text \<open>A cycle: its destinations in order, and a flush when it is the last of every \<open>bc_flush_every_n\<close>.\<close>

definition cycle_told :: "'w probe_ops \<Rightarrow> (bytes list \<Rightarrow> bytes list) \<Rightarrow> probe_config \<Rightarrow> nat \<Rightarrow> probe_call list \<Rightarrow> bool" where
  "cycle_told ops finish cfg n cs \<longleftrightarrow>
     (\<exists>css. list_all2 (destination_told ops finish cfg (int n)) (bc_destinations cfg) css \<and>
        cs = concat css @ (if (int n + 1) mod bc_flush_every_n cfg = 0 then [P_Flush] else []))"

section \<open>Every round does it\<close>

lemma does_resolver_name: "does (system_resolver_name (logged_probe ops)) (\<lambda>r cs. cs = [] \<and> prefix ''system'' r)"
  unfolding system_resolver_name_def logged_probe_simps
  by (intro does_unlogged does_return) (auto simp: Let_def split: sum.splits)

lemma does_system:
  "does (do { name \<leftarrow> system_resolver_name (logged_probe ops); r \<leftarrow> resolve_system (logged_probe ops) t host; State_Monad.return (name, r) })
     (resolver_asked ops cfg By_System host)"
proof (rule does_bind [OF does_resolver_name], elim conjE)
  fix name :: string and cs :: "probe_call list"
  assume name: "cs = []" "prefix ''system'' name"
  have "does (resolve_system (logged_probe ops) t host) (\<lambda>r. resolver_asked ops cfg By_System host (name, r))"
    unfolding resolve_system_def logged_probe_simps
    by (intro does_note does_return) (auto simp: name resolver_asked_def split: sum.splits)
  then show "does (do { r \<leftarrow> resolve_system (logged_probe ops) t host; State_Monad.return (name, r) })
    (\<lambda>r ds. resolver_asked ops cfg By_System host r (cs @ ds))"
    by (rule does_bind) (rule does_return, simp add: name)
qed

lemma does_doh_query: "does (doh_query (logged_probe ops) ts endpoint host q) (doh_asked ops endpoint host q)"
proof (cases "pb_pack ops host q")
  case (Inl e)
  then show ?thesis by (auto simp: doh_query_def doh_asked_def intro: does_return)
next
  case (Inr wire)
  show ?thesis
    unfolding doh_query_def logged_probe_simps Inr sum.case
    by (intro does_note) (auto simp: doh_asked_def Inr intro!: does_return split: sum.splits)
qed

lemma doh_outcome_cases:
  "doh_outcome a4 a6 = (ips, err) \<Longrightarrow>
     ips = unique_sorted_ips (case_sum (\<lambda>_. []) id a4 @ case_sum (\<lambda>_. []) id a6) \<and>
     (err \<noteq> None \<longleftrightarrow> (\<exists>e e'. a4 = Inl e \<and> a6 = Inl e') \<or> (\<exists>e. a4 = Inl e \<and> a6 = Inr []) \<or> (\<exists>e. a4 = Inr [] \<and> a6 = Inl e))"
  by (cases a4; cases a6) (auto simp: doh_outcome_def Let_def split: if_splits)

lemma does_doh:
  "does (resolve_doh (logged_probe ops) ts (bc_doh_endpoint cfg) host) (\<lambda>r. resolver_asked ops cfg By_Doh host (bc_doh_endpoint cfg, r))"
  unfolding resolve_doh_def logged_probe_simps type_a_def type_aaaa_def
proof (intro does_note does_return does_bind [OF does_doh_query])
  fix start a4 c4 a6 c6 stop
  assume asked: "doh_asked ops (bc_doh_endpoint cfg) host 1 a4 c4" "doh_asked ops (bc_doh_endpoint cfg) host 28 a6 c6"
  obtain ips err where out: "doh_outcome a4 a6 = (ips, err)" by (cases "doh_outcome a4 a6")
  have log: "P_Now start # c4 @ c6 @ [P_Now stop] = P_Now start # c4 @ c6 @ [P_Now stop]" ..
  show "resolver_asked ops cfg By_Doh host (bc_doh_endpoint cfg, case doh_outcome a4 a6 of (ips, err) \<Rightarrow> (ips, stop - start, err))
    (P_Now start # c4 @ c6 @ [P_Now stop])"
    unfolding resolver_asked_def out prod.case resolver_mode.case
    using asked doh_outcome_cases [OF out]
    by (intro conjI refl exI [of _ start] exI [of _ stop] exI [of _ c4] exI [of _ c6] exI [of _ a4] exI [of _ a6]) simp_all
qed

lemma does_ping: "does (ping_one (logged_probe ops) cfg ip) (ping_told ops ip)"
proof (cases "pb_new_pinger ops (ip_string ip)")
  case (Some e)
  then show ?thesis
    unfolding ping_one_def logged_probe_simps Let_def by (auto simp: ping_told_def intro!: does_return suffixI)
next
  case None
  show ?thesis
    unfolding ping_one_def logged_probe_simps Let_def None option.case
  proof (intro does_note, simp only: split_beta, rule does_return)
    fix a :: "ping_stats \<times> goerr option"
    show "ping_told ops ip
        ((''target: '' @ ip_string ip @ newline) @
         ''sent='' @ itoa (ps_sent (fst a)) @ '' recv='' @ itoa (ps_recv (fst a)) @ '' loss='' @ ps_loss (fst a) @ ''%'' @ newline @
         (if 0 < ps_recv (fst a)
          then ''rtt min/avg/max: '' @ pb_ms ops 2 (ps_min (fst a)) @ ''/'' @ pb_ms ops 2 (ps_avg (fst a)) @ ''/'' @
               pb_ms ops 2 (ps_max (fst a)) @ '' ms'' @ newline
          else []) @
         (case snd a of None \<Rightarrow> [] | Some e \<Rightarrow> ''error: '' @ err_msg e @ newline))
        [P_Ping (ip_string ip) a]"
      (is "ping_told ops ip (?target @ ?a @ ?b @ ?c @ ?d @ ?e @ ?f @ ?g @ ?h @ ?rtt @ ?err) _")
    proof -
      let ?counts = "?a @ ?b @ ?c @ ?d @ ?e @ ?f @ ?g @ ?h"
      have told: "ping_told ops ip b [P_Ping (ip_string ip) a]" if "prefix ?target b" "sublist ?counts b" "suffix ?err b" for b
        using that unfolding ping_told_def None option.case
        by (intro conjI exI [of _ "fst a"] exI [of _ "snd a"]) (simp_all split: option.splits)
      have "sublist ?counts (?target @ ?a @ ?b @ ?c @ ?d @ ?e @ ?f @ ?g @ ?h @ ?rtt @ ?err)"
        unfolding sublist_def by (intro exI [of _ ?target] exI [of _ "?rtt @ ?err"]) simp
      moreover have "suffix ?err (?target @ ?a @ ?b @ ?c @ ?d @ ?e @ ?f @ ?g @ ?h @ ?rtt @ ?err)"
        unfolding suffix_def by (intro exI [of _ "?target @ ?counts @ ?rtt"]) simp
      moreover have "prefix ?target (?target @ ?a @ ?b @ ?c @ ?d @ ?e @ ?f @ ?g @ ?h @ ?rtt @ ?err)" by (rule prefixI) (rule refl)
      ultimately show ?thesis using told by blast
    qed
  qed
qed

lemma does_icmp:
  "does (run_icmp_round (logged_probe ops) finish cfg ips)
     (\<lambda>out cs. if ips = [] then out = ''no targets'' @ newline \<and> cs = [] else icmp_told ops (finish ips) out cs)"
proof (cases "ips = []")
  case False
  have "does (do { blocks \<leftarrow> mapM_state (ping_one (logged_probe ops) cfg) (finish ips); State_Monad.return (icmp_report blocks) })
      (icmp_told ops (finish ips))"
    by (rule does_bind [OF does_mapM [OF does_ping]], rule does_return) (auto simp: icmp_told_def icmp_report_def)
  with False show ?thesis by (simp add: run_icmp_round_def)
qed (auto simp: run_icmp_round_def intro: does_return)

lemma does_get: "does (timed_get (logged_probe ops) t x host) (get_told ops (x, host))"
  unfolding timed_get_def logged_probe_simps
  by (intro does_note does_return) (auto simp: get_told_def https_line_def Let_def split: sum.splits)

lemma does_https: "does (run_https_round (logged_probe ops) u ips cfg) (https_told ops u ips)"
  unfolding run_https_round_def
proof (rule does_bind [OF does_get], rule does_bind [OF does_mapM [OF does_get]], rule does_return, elim exE conjE)
  fix line c lns cs css
  assume "get_told ops (ul_text u, []) line c" "cs = concat css" "length lns = length ips" "length css = length ips"
    "\<forall>k < length ips. get_told ops (ul_with_host u (ip_host u (ips ! k)), ul_hostname u) (lns ! k) (css ! k)"
  then show "https_told ops u ips (line @ concat lns) (c @ cs @ [])"
    unfolding https_told_def
    by (intro exI [of _ "line # lns"] exI [of _ "c # css"]) (auto simp: https_targets_def less_Suc_eq_0_disj)
qed

lemma format_dns_text: "format_dns_out ops resolver ips rtt = dns_text ops (resolver, ips, rtt, err)"
proof -
  have "concat (map (\<lambda>l. l @ newline) (map (\<lambda>ip. (if to4 ip = None then ''AAAA: '' else ''A: '') @ ip_string ip) ips)) =
      concat (map (\<lambda>ip. (if is_v4 ip then ''A: '' else ''AAAA: '') @ ip_string ip @ newline) ips)"
    by (induction ips) (auto simp: is_v4_def)
  then show ?thesis by (simp add: format_dns_out_def dns_text_def)
qed

lemma does_resolve:
  "does (case mode of
       By_System \<Rightarrow> do {
         name \<leftarrow> system_resolver_name (logged_probe ops);
         r \<leftarrow> resolve_system (logged_probe ops) (bc_dns_timeout cfg) host;
         State_Monad.return (name, r) }
     | By_Doh \<Rightarrow> do {
         r \<leftarrow> resolve_doh (logged_probe ops) ts (bc_doh_endpoint cfg) host;
         State_Monad.return (bc_doh_endpoint cfg, r) })
     (resolver_asked ops cfg mode host)"
proof (cases mode)
  case By_System
  then show ?thesis using does_system by simp
next
  case By_Doh
  show ?thesis unfolding By_Doh resolver_mode.case
    by (rule does_bind [OF does_doh], rule does_return) simp
qed

lemma does_sample_last:
  "Q () [P_Sample c n out err] \<Longrightarrow> does (write_sample (logged_probe ops) n c out err) Q"
  unfolding write_sample_def logged_probe_simps by (intro does_log does_return)

lemma does_sample:
  "(\<And>x. does (f x) (\<lambda>r ds. Q r (P_Sample c n out err # ds))) \<Longrightarrow> does (do { x \<leftarrow> write_sample (logged_probe ops) n c out err; f x }) Q"
  by (rule does_bind [where P = "\<lambda>x cs. cs = [P_Sample c n out err]"]) (auto intro: does_sample_last)

lemma does_round: "does (run_round (logged_probe ops) finish cfg n mode dest u) (\<lambda>r. round_told ops finish cfg n dest u mode)"
  unfolding run_round_def
proof (rule does_bind [OF does_resolve])
  fix r c1
  assume asked: "resolver_asked ops cfg mode (ul_hostname u) r c1"
  obtain resolver ips rtt err where r: "r = (resolver, ips, rtt, err)" by (cases r)
  have dns: "format_dns_out (logged_probe ops) resolver ips rtt = dns_text ops r"
    unfolding r using format_dns_text [of ops resolver ips rtt err] by (simp add: format_dns_out_def)
  show "does (case r of (resolver, ips, rtt, err) \<Rightarrow> do {
      _ \<leftarrow> write_sample (logged_probe ops) n (''dns-'' @ mode_word mode @ '' '' @ dest) (format_dns_out (logged_probe ops) resolver ips rtt)
            (case err of Some e \<Rightarrow> err_msg e | None \<Rightarrow> []);
      icmp \<leftarrow> run_icmp_round (logged_probe ops) finish cfg ips;
      _ \<leftarrow> write_sample (logged_probe ops) n (''icmp-'' @ mode_word mode @ '' '' @ dest) icmp [];
      https \<leftarrow> run_https_round (logged_probe ops) u ips cfg;
      write_sample (logged_probe ops) n (''https-'' @ mode_word mode @ '' '' @ dest) https [] })
    (\<lambda>x ds. round_told ops finish cfg n dest u mode (c1 @ ds))"
    unfolding r prod.case unfolding dns [unfolded r]
  proof (rule does_sample, rule does_bind [OF does_icmp], rule does_sample, rule does_bind [OF does_https], rule does_sample_last)
    fix icmp c2 https c3
    assume "if ips = [] then icmp = ''no targets'' @ newline \<and> c2 = [] else icmp_told ops (finish ips) icmp c2"
      and "https_told ops u ips https c3"
    then show "round_told ops finish cfg n dest u mode
        (c1 @ P_Sample (''dns-'' @ mode_word mode @ '' '' @ dest) n (dns_text ops (resolver, ips, rtt, err)) (case err of Some e \<Rightarrow> err_msg e | None \<Rightarrow> []) #
          c2 @ P_Sample (''icmp-'' @ mode_word mode @ '' '' @ dest) n icmp [] # c3 @ [P_Sample (''https-'' @ mode_word mode @ '' '' @ dest) n https []])"
      unfolding round_told_def using asked
      by (intro exI [of _ r] exI [of _ c1] exI [of _ c2] exI [of _ c3] exI [of _ icmp] exI [of _ https]) (simp add: r)
  qed
qed

lemma does_destination: "does (probe_destination (logged_probe ops) finish cfg n dest) (\<lambda>r. destination_told ops finish cfg n dest)"
proof (cases "pb_parse_url ops dest")
  case (Inl e)
  then show ?thesis
    unfolding probe_destination_def Let_def by (auto simp: destination_told_def intro!: does_sample does_sample_last)
next
  case (Inr u)
  show ?thesis
  proof (cases "ul_hostname u = []")
    case True
    with Inr show ?thesis
      unfolding probe_destination_def Let_def by (auto simp: destination_told_def intro!: does_sample does_sample_last)
  next
    case False
    have "does (do { _ \<leftarrow> run_round (logged_probe ops) finish cfg n By_System dest u; run_round (logged_probe ops) finish cfg n By_Doh dest u })
        (\<lambda>r. destination_told ops finish cfg n dest)"
      by (rule does_bind [OF does_round], rule does_weaken [OF does_round]) (auto simp: destination_told_def Inr False)
    with Inr False show ?thesis by (simp add: probe_destination_def Let_def)
  qed
qed

lemma does_cycle:
  "does (run_cycle (logged_probe ops) finish cfg n ds)
     (\<lambda>r cs. \<exists>css. list_all2 (destination_told ops finish cfg n) ds css \<and> cs = concat css)"
proof (induction ds)
  case Nil
  show ?case by (auto intro: does_return)
next
  case (Cons d ds)
  show ?case
    unfolding run_cycle.simps
  proof (rule does_bind [OF does_destination], rule does_weaken [OF Cons.IH], elim exE conjE)
    fix c cs css
    assume "destination_told ops finish cfg n d c" "list_all2 (destination_told ops finish cfg n) ds css" "cs = concat css"
    then show "\<exists>css. list_all2 (destination_told ops finish cfg n) (d # ds) css \<and> c @ cs = concat css"
      by (intro exI [of _ "c # css"]) simp
  qed
qed

lemma does_monitor_cycle:
  "does (monitor_cycle (logged_probe ops) finish cfg (int n)) (\<lambda>r. cycle_told ops finish cfg n)"
  unfolding monitor_cycle_def logged_probe_simps
proof (rule does_bind [OF does_cycle])
  fix x cs
  assume "\<exists>css. list_all2 (destination_told ops finish cfg (int n)) (bc_destinations cfg) css \<and> cs = concat css"
  then show "does (if (int n + 1) mod bc_flush_every_n cfg = 0 then do { _ \<leftarrow> log_call P_Flush (pb_flush ops); State_Monad.return () }
      else State_Monad.return ()) (\<lambda>r ds. cycle_told ops finish cfg n (cs @ ds))"
    by (auto simp: cycle_told_def intro!: does_log does_return)
qed

lemma does_monitor_loop:
  "does (monitor_loop (logged_probe ops) finish cfg (int i) (replicate n Monitor_Tick @ [Monitor_Cancel]))
     (\<lambda>r cs. r \<and> (\<exists>css. list_all2 (cycle_told ops finish cfg) [i..<i + n] css \<and> cs = concat css @ [P_Close]))"
proof (induction n arbitrary: i)
  case 0
  show ?case by (auto intro!: does_log does_return)
next
  case (Suc n)
  have next_seq: "int i + 1 = int (Suc i)" by simp
  show ?case
    unfolding replicate_Suc append_Cons monitor_loop.simps next_seq
  proof (rule does_bind [OF does_monitor_cycle], rule does_weaken [OF Suc.IH], elim exE conjE)
    fix c r cs css
    assume "cycle_told ops finish cfg i c" "r" "list_all2 (cycle_told ops finish cfg) [Suc i..<Suc i + n] css" "cs = concat css @ [P_Close]"
    then show "r \<and> (\<exists>css. list_all2 (cycle_told ops finish cfg) [i..<i + Suc n] css \<and> c @ cs = concat css @ [P_Close])"
      by (intro conjI exI [of _ "c # css"]) (simp_all add: upt_conv_Cons del: upt_Suc)
  qed
qed

section \<open>Sorted addresses\<close>

lemma unique_ips_texts: "distinct (map ip_string (unique_ips seen ips)) \<and> ip_string ` set (unique_ips seen ips) \<inter> seen = {}"
  by (induction seen ips rule: unique_ips.induct) auto

lemma unique_ips_set:
  "ip_string ` set (unique_ips seen ips) = ip_string ` {ip \<in> set ips. ip \<noteq> []} - seen"
proof (induction seen ips rule: unique_ips.induct)
  case (2 seen ip ips)
  have split: "{x \<in> set (ip # ips). x \<noteq> []} = (if ip = [] then {} else {ip}) \<union> {x \<in> set ips. x \<noteq> []}" by auto
  show ?case
  proof (cases "ip = [] \<or> ip_string ip \<in> seen")
    case True
    then show ?thesis using "2.IH"(1) unfolding split by auto
  next
    case False
    then show ?thesis using "2.IH"(2) unfolding split by auto
  qed
qed simp

text \<open>A dotted text is that of an IPv4 address.\<close>

lemma ipv4_dot: "to4 ip = Some v4 \<Longrightarrow> CHR ''.'' \<in> set (ip_string ip)"
proof -
  assume t: "to4 ip = Some v4"
  then have "length v4 = 4" "ip \<noteq> []" by (auto simp: to4_def split: if_splits)
  then obtain a b c d where "v4 = [a, b, c, d]" by (auto simp: length_Suc_conv numeral_eq_Suc)
  with t \<open>ip \<noteq> []\<close> show ?thesis by (simp add: ip_string_def ipv4_string_def)
qed

lemma is_v4_text: "is_v4 ip \<longleftrightarrow> CHR ''.'' \<in> set (ip_string ip)"
proof (cases "to4 ip")
  case None
  then show ?thesis
    using ipv6_string_chars [of "CHR ''.''" ip] by (auto simp: is_v4_def ip_string_def hex_val_def)
next
  case (Some v4)
  then show ?thesis using ipv4_dot by (auto simp: is_v4_def)
qed

lemma map_insort_key: "map f (insort_key (\<lambda>x. g (f x)) x xs) = insort_key g (f x) (map f xs)"
  by (induction xs) auto

lemma map_sort_key: "map f (sort_key (\<lambda>x. g (f x)) xs) = sort_key g (map f xs)"
  by (induction xs) (auto simp: map_insort_key)

definition text_key :: "string \<Rightarrow> bool \<times> string" where
  "text_key s = (CHR ''.'' \<notin> set s, s)"

lemma sorted_texts: "map ip_string (unique_sorted_ips ips) = sort_key text_key (map ip_string (unique_ips {} ips))"
proof -
  have "ip_key = (\<lambda>ip. text_key (ip_string ip))" by (simp add: fun_eq_iff ip_key_def text_key_def is_v4_text)
  then show ?thesis using map_sort_key [of ip_string text_key] by (simp add: unique_sorted_ips_def)
qed

lemma sort_key_canonical:
  assumes "set xs = set ys" and "distinct xs" and "distinct ys"
  shows "sort_key text_key xs = sort_key text_key ys"
proof -
  have inj: "inj text_key" by (simp add: inj_def text_key_def)
  have d: "distinct (map text_key (sort_key text_key zs))" if "distinct zs" for zs
    using that inj by (simp add: distinct_map inj_on_subset [OF inj subset_UNIV])
  have "map text_key (sort_key text_key xs) = map text_key (sort_key text_key ys)"
    by (rule sorted_distinct_set_unique) (use assms d in auto)
  then show ?thesis using inj by simp
qed

section \<open>Properties\<close>

text \<open>Whatever the order and the duplicates of the answers, the samples list the same addresses in the same order: each
  once, the IPv4 addresses first, and by their text.\<close>

theorem addresses_canonical:
  assumes "ip_string ` {ip \<in> set xs. ip \<noteq> []} = ip_string ` {ip \<in> set ys. ip \<noteq> []}"
  shows "map ip_string (unique_sorted_ips xs) = map ip_string (unique_sorted_ips ys) \<and>
    set (map ip_string (unique_sorted_ips xs)) = ip_string ` {ip \<in> set xs. ip \<noteq> []} \<and>
    distinct (map ip_string (unique_sorted_ips xs)) \<and> sorted (map ip_key (unique_sorted_ips xs))"
proof -
  have "set (map ip_string (unique_ips {} xs)) = set (map ip_string (unique_ips {} ys))"
    using assms unique_ips_set [of "{}"] by simp
  then have "map ip_string (unique_sorted_ips xs) = map ip_string (unique_sorted_ips ys)"
    unfolding sorted_texts using unique_ips_texts by (intro sort_key_canonical) auto
  moreover have "set (map ip_string (unique_sorted_ips xs)) = ip_string ` {ip \<in> set xs. ip \<noteq> []}"
    using unique_ips_set [of "{}" xs] by (simp add: unique_sorted_ips_def)
  moreover have "distinct (map ip_string (unique_sorted_ips xs))"
    unfolding sorted_texts using unique_ips_texts [of "{}" xs] by simp
  ultimately show ?thesis by (simp add: unique_sorted_ips_def)
qed

theorem addresses_canonical_witness:
  "map ip_string (unique_sorted_ips [[9, 9, 9, 9], [], [1, 1, 1, 1], [9, 9, 9, 9]]) =
   map ip_string (unique_sorted_ips [[1, 1, 1, 1], [9, 9, 9, 9]])"
  by (rule addresses_canonical [THEN conjunct1]) auto

text \<open>The report of the pings does not depend on the order in which they finish.\<close>

theorem icmp_report_order:
  assumes "mset blocks = mset blocks'"
  shows "icmp_report blocks = icmp_report blocks'"
proof -
  have "sort blocks = sort blocks'" using assms by (simp add: properties_for_sort)
  then show ?thesis by (simp add: icmp_report_def)
qed

theorem icmp_report_order_witness: "icmp_report [''b'', ''a''] = icmp_report [''a'', ''b'']"
  by (rule icmp_report_order) simp

text \<open>C23: What a monitor does until it is stopped is, for each cycle in order, for each destination in order, two rounds, or two
  samples with the reason when the destination is not a URL with a host. A round asks its resolver and writes a sample with
  exactly the addresses that it answered, each once and in order, the time it took and the error; it pings these addresses and
  fetches the URL and then each of them, and writes a sample with a block for each ping and one with a line for each request,
  with their results. The samples carry the number of the cycle, the file is flushed after every N cycles, and closed
  at the end. That holds whatever the probes answer and whether or not the writes succeed.\<close>

theorem monitor_samples:
  "\<exists>r w' cs. run_state (do { _ \<leftarrow> monitor_cycle (logged_probe ops) finish cfg 0;
        monitor_loop (logged_probe ops) finish cfg 1 (replicate n Monitor_Tick @ [Monitor_Cancel]) }) (w, []) =
      (True, (w', concat cs @ [P_Close])) \<and>
    list_all2 (cycle_told ops finish cfg) [0..<Suc n] cs"
proof -
  let ?m = "do { _ \<leftarrow> monitor_cycle (logged_probe ops) finish cfg 0;
    monitor_loop (logged_probe ops) finish cfg 1 (replicate n Monitor_Tick @ [Monitor_Cancel]) }"
  have "does ?m (\<lambda>r cs. r \<and> (\<exists>css. list_all2 (cycle_told ops finish cfg) [0..<Suc n] css \<and> cs = concat css @ [P_Close]))"
  proof (rule does_bind [OF does_monitor_cycle [of ops finish cfg 0, unfolded int_ops(1)]],
      rule does_weaken [OF does_monitor_loop [of ops finish cfg 1 n, unfolded int_ops(2)]], elim exE conjE)
    fix c r cs css
    assume "cycle_told ops finish cfg 0 c" "r" "list_all2 (cycle_told ops finish cfg) [1..<1 + n] css" "cs = concat css @ [P_Close]"
    then show "r \<and> (\<exists>css. list_all2 (cycle_told ops finish cfg) [0..<Suc n] css \<and> c @ cs = concat css @ [P_Close])"
      by (intro conjI exI [of _ "c # css"]) (simp_all add: upt_conv_Cons del: upt_Suc)
  qed
  moreover obtain r w' h' where "run_state ?m (w, []) = (r, (w', h'))" by (metis surj_pair)
  ultimately show ?thesis using doesD by fastforce
qed

end
