(* ===== verification/Data_Sources.thy ===== *)
theory Data_Sources
  imports Provider_Conf
begin

text \<open>
  The data sources of \<^verbatim>\<open>internal/provider\<close>: \<^verbatim>\<open>system_info_data_source.go\<close>, what gopsutil says of
  the machine the provider runs on, and \<^verbatim>\<open>eve_installer_data_source.go\<close>, a file name with an identifier made from
  it. The system calls and SHA-256 are parameters.
\<close>

section \<open>System information\<close>

record system_info_model =
  si_id :: "string tfval"
  si_cpus :: "int tfval"
  si_mem_total :: "int tfval"
  si_mem_used :: "int tfval"
  si_mem_used_percent :: "string tfval"

record memory_info =
  mi_total :: "64 word"
  mi_used :: "64 word"
  mi_used_percent :: string

record 'w host_ops =
  ho_hostname :: "('w, goerr + string) state"
  ho_cpus :: "('w, goerr + 64 word) state"
  ho_memory :: "('w, goerr + memory_info) state"

text \<open>The counts are converted to 32 and 64 bits with a sign; the percentage stays as the library gives it.\<close>

definition system_info_read :: "'w host_ops \<Rightarrow> system_info_model \<Rightarrow> ('w, system_info_model) handler" where
  "system_info_read ops data =
     (let t = ''System Info Data Source Error'' in
      bindE (mapE (\<lambda>e. [add_error t (''Unable to get system hostname, got error: '' @ err_msg e)]) (ho_hostname ops)) (\<lambda>h.
      if h = [] then failE [add_error t ''Unable to get system hostname, got empty string'']
      else
        bindE (mapE (\<lambda>e. [add_error t (''Unable to get system CPUs info, got error: '' @ err_msg e)]) (ho_cpus ops)) (\<lambda>x.
        bindE (mapE (\<lambda>e. [add_error t (''Unable to get system memory info, got error: '' @ err_msg e)]) (ho_memory ops)) (\<lambda>v.
        okE (data\<lparr>si_id := TKnown h, si_cpus := TKnown (sint (ucast x :: 32 word)), si_mem_total := TKnown (sint (mi_total v)),
                  si_mem_used := TKnown (sint (mi_used v)), si_mem_used_percent := TKnown (mi_used_percent v)\<rparr>)))))"

section \<open>Installer\<close>

text \<open>\<^verbatim>\<open>base64.RawStdEncoding\<close>: six bits a character, without padding.\<close>

definition base64_char :: "nat \<Rightarrow> char" where
  "base64_char n =
     char_of (if n < 26 then 65 + n else if n < 52 then 71 + n else if n < 62 then n - 4 else if n = 62 then 43 else 47)"

fun base64_raw :: "bytes \<Rightarrow> string" where
  "base64_raw [] = []"
| "base64_raw [a] = (let n = unat a in [base64_char (n div 4), base64_char (n mod 4 * 16)])"
| "base64_raw [a, b] =
     (let n = unat a * 256 + unat b in [base64_char (n div 1024), base64_char (n div 16 mod 64), base64_char (n mod 16 * 4)])"
| "base64_raw (a # b # c # bs) =
     (let n = unat a * 65536 + unat b * 256 + unat c
      in [base64_char (n div 262144), base64_char (n div 4096 mod 64), base64_char (n div 64 mod 64), base64_char (n mod 64)]) @
     base64_raw bs"

definition sum2_id :: "(string \<Rightarrow> bytes) \<Rightarrow> string \<Rightarrow> string" where
  "sum2_id sha256 s = base64_raw (sha256 s)"

record installer_ds_model =
  ids_id :: "string tfval"
  ids_filename :: "string tfval"

definition installer_ds_read :: "(string \<Rightarrow> bytes) \<Rightarrow> installer_ds_model \<Rightarrow> ('w, installer_ds_model) handler" where
  "installer_ds_read sha256 data = okE (data\<lparr>ids_id := TKnown (sum2_id sha256 (tf_string (ids_filename data)))\<rparr>)"

end
