(* ===== verification/State_Backend.thy ===== *)
theory State_Backend
  imports Go_Path Executor
begin

text \<open>
  The development tool \<^verbatim>\<open>misc/tf_state_backend_http/main.go\<close>, an HTTP back end for Terraform states: a request
  names a file below the state directory by its path. The specification is a store from keys to states; \<open>memory_files\<close> is a
  file system for which the refinement is stated.
\<close>

section \<open>Requests\<close>

datatype http_method = Get | Post | Put | Delete | Lock | Unlock | Other_Method string

record state_request =
  rq_method :: http_method
  rq_path :: string
  rq_body :: "goerr + string"

record state_response =
  rs_status :: nat
  rs_type :: "string option"
  rs_body :: string

text \<open>\<^verbatim>\<open>http.Error\<close> sets the type of the content and ends the message with a newline.\<close>

definition http_error :: "nat \<Rightarrow> string \<Rightarrow> state_response" where
  "http_error code msg = \<lparr>rs_status = code, rs_type = Some ''text/plain; charset=utf-8'', rs_body = msg @ [CHR 0x0A]\<rparr>"

definition http_ok :: state_response where
  "http_ok = \<lparr>rs_status = 200, rs_type = None, rs_body = []\<rparr>"

definition http_state :: "string \<Rightarrow> state_response" where
  "http_state d = \<lparr>rs_status = 200, rs_type = Some ''application/json'', rs_body = d\<rparr>"

record 'w file_ops =
  fo_read :: "string \<Rightarrow> ('w, goerr + string) state"
  fo_mkdir_all :: "string \<Rightarrow> ('w, goerr option) state"
  fo_write :: "string \<Rightarrow> string \<Rightarrow> ('w, goerr option) state"
  fo_remove :: "string \<Rightarrow> ('w, goerr option) state"

section \<open>The handlers\<close>

definition get_env :: "(string \<Rightarrow> string option) \<Rightarrow> string \<Rightarrow> string \<Rightarrow> string" where
  "get_env env key fallback = (case env key of Some v \<Rightarrow> if v \<noteq> [] then v else fallback | None \<Rightarrow> fallback)"

definition state_name :: "string \<Rightarrow> string" where
  "state_name url = (let c = path_clean url in if c = ''/'' \<or> c = ''.'' \<or> c = [] then ''/default.tfstate'' else c)"

text \<open>The file of a request, unless it is outside of the state directory.\<close>

definition state_file :: "string \<Rightarrow> string \<Rightarrow> string option" where
  "state_file dir url =
     (let full = path_join [dir, state_name url]
      in if \<not> has_prefix full (dir @ ''/'') \<and> full \<noteq> dir then None else Some full)"

text \<open>\<^verbatim>\<open>filepath.Dir\<close>.\<close>

definition path_dir :: "string \<Rightarrow> string" where
  "path_dir p = path_clean (rev (dropWhile (\<lambda>c. c \<noteq> CHR ''/'') (rev p)))"

definition handle_get :: "'w file_ops \<Rightarrow> string \<Rightarrow> ('w, state_response) state" where
  "handle_get fo path = do {
     r \<leftarrow> fo_read fo path;
     State_Monad.return (case r of
        Inr d \<Rightarrow> http_state d
      | Inl e \<Rightarrow> if is_not_exist e then http_error 404 ''State not found'' else http_error 500 ''Internal server error'') }"

definition max_body_size :: nat where "max_body_size = 10 * 2 ^ 20"

definition handle_post :: "'w file_ops \<Rightarrow> goerr + string \<Rightarrow> string \<Rightarrow> ('w, state_response) state" where
  "handle_post fo body path =
     (case body of
        Inl e \<Rightarrow> State_Monad.return (http_error 400 ''Bad request'')
      | Inr b \<Rightarrow>
          if length b > max_body_size then State_Monad.return (http_error 400 ''Bad request'')
          else do {
            e1 \<leftarrow> fo_mkdir_all fo (path_dir path);
            if e1 \<noteq> None then State_Monad.return (http_error 500 ''Internal server error'')
            else do {
              e2 \<leftarrow> fo_write fo path b;
              State_Monad.return (if e2 \<noteq> None then http_error 500 ''Internal server error'' else http_ok) } })"

definition handle_delete :: "'w file_ops \<Rightarrow> string \<Rightarrow> ('w, state_response) state" where
  "handle_delete fo path = do {
     e \<leftarrow> fo_remove fo path;
     State_Monad.return (case e of
        None \<Rightarrow> http_ok
      | Some e \<Rightarrow> if is_not_exist e then http_ok else http_error 500 ''Internal server error'') }"

definition state_handler :: "'w file_ops \<Rightarrow> string \<Rightarrow> state_request \<Rightarrow> ('w, state_response) state" where
  "state_handler fo dir rq =
     (case state_file dir (rq_path rq) of
        None \<Rightarrow> State_Monad.return (http_error 400 ''Invalid path'')
      | Some path \<Rightarrow>
          (case rq_method rq of
             Get \<Rightarrow> handle_get fo path
           | Post \<Rightarrow> handle_post fo (rq_body rq) path
           | Put \<Rightarrow> handle_post fo (rq_body rq) path
           | Delete \<Rightarrow> handle_delete fo path
           | Lock \<Rightarrow> State_Monad.return (http_ok)
           | Unlock \<Rightarrow> State_Monad.return (http_ok)
           | Other_Method m \<Rightarrow> State_Monad.return (http_error 405 ''Method not allowed'')))"

section \<open>The server\<close>

record 'w server_ops =
  sv_mkdir_all :: "string \<Rightarrow> ('w, goerr option) state"
  sv_abs :: "string \<Rightarrow> ('w, goerr + string) state"
  sv_serve :: "string \<Rightarrow> string \<Rightarrow> ('w, goerr option) state"

text \<open>\<^verbatim>\<open>ListenAndServe\<close> ends with \<^verbatim>\<open>ErrServerClosed\<close> after a signal, which is \<open>None\<close> here; the result is the exit
  code of the process.\<close>

definition state_main :: "'w server_ops \<Rightarrow> (string \<Rightarrow> string option) \<Rightarrow> ('w, nat) state" where
  "state_main sv env = (
     let addr = get_env env ''TF_BACKEND_ADDR'' ''192.168.192.168:9000'';
         dir = get_env env ''TF_BACKEND_STATE_DIR'' ''./terraform_states''
     in do {
       e1 \<leftarrow> sv_mkdir_all sv dir;
       if e1 \<noteq> None then State_Monad.return 1
       else do {
         a \<leftarrow> sv_abs sv dir;
         case a of
           Inl e \<Rightarrow> State_Monad.return 1
         | Inr full \<Rightarrow> do {
             e2 \<leftarrow> sv_serve sv addr full;
             State_Monad.return (if e2 \<noteq> None then 1 else 0) } } })"

section \<open>The store\<close>

type_synonym store = "string list \<Rightarrow> string option"

text \<open>The key of a rooted path: its clean elements, or the default.\<close>

definition state_key :: "string \<Rightarrow> string list" where
  "state_key url = (let es = clean_elems True (split_on (CHR ''/'') url) in if es = [] then [''default.tfstate''] else es)"

definition store_put :: "store \<Rightarrow> string list \<Rightarrow> goerr + string \<Rightarrow> state_response \<times> store" where
  "store_put st k body =
     (case body of
        Inl e \<Rightarrow> (http_error 400 ''Bad request'', st)
      | Inr b \<Rightarrow> if length b > max_body_size then (http_error 400 ''Bad request'', st) else (http_ok, st(k \<mapsto> b)))"

definition store_step :: "store \<Rightarrow> state_request \<Rightarrow> state_response \<times> store" where
  "store_step st rq =
     (let k = state_key (rq_path rq)
      in case rq_method rq of
           Get \<Rightarrow> (case st k of Some d \<Rightarrow> http_state d | None \<Rightarrow> http_error 404 ''State not found'', st)
         | Post \<Rightarrow> store_put st k (rq_body rq)
         | Put \<Rightarrow> store_put st k (rq_body rq)
         | Delete \<Rightarrow> (http_ok, st(k := None))
         | Lock \<Rightarrow> (http_ok, st)
         | Unlock \<Rightarrow> (http_ok, st)
         | Other_Method m \<Rightarrow> (http_error 405 ''Method not allowed'', st))"

section \<open>Files in memory\<close>

text \<open>
  A map from paths to contents, without directories: making one always succeeds, and a file may lie below the path of
  another one, where a file system would refuse and the handler answer 500. What is proved over it holds of the requests that a
  file system accepts.
\<close>

type_synonym files = "string \<Rightarrow> string option"

definition memory_files :: "files file_ops" where
  "memory_files =
     \<lparr>fo_read = (\<lambda>p. State (\<lambda>m. (case m p of Some d \<Rightarrow> Inr d | None \<Rightarrow> Inl (Sentinel ErrNotExist), m))),
      fo_mkdir_all = (\<lambda>p. State_Monad.return None),
      fo_write = (\<lambda>p b. State (\<lambda>m. (None, m(p \<mapsto> b)))),
      fo_remove = (\<lambda>p. State (\<lambda>m. (case m p of Some d \<Rightarrow> None | None \<Rightarrow> Some (Sentinel ErrNotExist), m(p := None))))\<rparr>"

lemma memory_files_simps [simp]:
  "run_state (fo_read memory_files p) m = (case m p of Some d \<Rightarrow> Inr d | None \<Rightarrow> Inl (Sentinel ErrNotExist), m)"
  "run_state (fo_mkdir_all memory_files p) m = (None, m)"
  "run_state (fo_write memory_files p b) m = (None, m(p \<mapsto> b))"
  "run_state (fo_remove memory_files p) m = (case m p of Some d \<Rightarrow> None | None \<Rightarrow> Some (Sentinel ErrNotExist), m(p := None))"
  by (simp_all add: memory_files_def)

definition store_of :: "string list \<Rightarrow> files \<Rightarrow> store" where
  "store_of ds m = (\<lambda>k. if list_all plain_name k then m (abs_path (ds @ k)) else None)"

section \<open>Paths\<close>

lemma state_key_plain: "list_all plain_name (state_key url) \<and> state_key url \<noteq> []"
  using clean_elems_rooted [of url] by (auto simp: state_key_def Let_def plain_name_def)

lemma state_name_rooted: "is_rooted url \<Longrightarrow> state_name url = abs_path (state_key url)"
proof -
  assume r: "is_rooted url"
  let ?es = "clean_elems True (split_on (CHR ''/'') url)"
  have c: "path_clean url = abs_path ?es" using r by (simp add: path_clean_def path_of_elems_def abs_path_def)
  have p: "list_all plain_name ?es" by (rule clean_elems_rooted)
  have "abs_path ?es = ''/'' \<longleftrightarrow> ?es = []"
    using abs_path_inj [OF p, of "[]"] by (simp add: abs_path_def)
  then show ?thesis by (auto simp: state_name_def c state_key_def Let_def abs_path_def)
qed

lemma path_join_two:
  assumes "list_all plain_name ds" and "ds \<noteq> []" and "list_all plain_name ns" and "ns \<noteq> []"
  shows "path_join [abs_path ds, abs_path ns] = abs_path (ds @ ns)"
proof -
  have "str_join [abs_path ds, abs_path ns] ''/'' = abs_path (ds @ [] # ns)"
    using assms(2,4) by (cases ns) (auto simp: abs_path_def str_join_app)
  moreover have "path_clean (abs_path (ds @ [] # ns)) = abs_path (ds @ ns)"
  proof -
    have "\<forall>x \<in> set (ds @ [] # ns). CHR ''/'' \<notin> set x"
      using assms(1,3) by (auto simp: plain_name_def list_all_iff)
    from split_on_join [OF _ this] have "split_on (CHR ''/'') (abs_path (ds @ [] # ns)) = [] # ds @ [] # ns"
      by (simp add: abs_path_def del: str_join.simps)
    moreover have "clean_elems True ([] # ds @ [] # ns) = ds @ ns"
      using foldl_clean_plain [of ds True "[]"] foldl_clean_plain [of ns True "rev ds"] assms
      by (auto simp: clean_elems_def clean_push_def plain_name_def list_all_def)
    ultimately show ?thesis by (simp add: path_clean_def path_of_elems_def is_rooted_def abs_path_def)
  qed
  ultimately show ?thesis by (simp add: path_join_def abs_path_def)
qed

lemma state_file_rooted:
  assumes "is_rooted url" and "list_all plain_name ds" and "ds \<noteq> []"
  shows "state_file (abs_path ds) url = Some (abs_path (ds @ state_key url))"
proof -
  have "prefix (abs_path ds @ ''/'') (abs_path (ds @ state_key url))"
    using assms(3) state_key_plain [of url] by (auto simp: abs_path_def str_join_app)
  then show ?thesis
    using path_join_two [OF assms(2,3)] state_key_plain [of url] state_name_rooted [OF assms(1)]
    by (simp add: state_file_def)
qed

lemma store_of_upd:
  assumes "list_all plain_name ds" and "list_all plain_name k"
  shows "store_of ds (m(abs_path (ds @ k) := v)) = (store_of ds m)(k := v)"
  using assms by (auto simp: store_of_def fun_eq_iff abs_path_inj)

lemma store_of_key: "store_of ds m (state_key url) = m (abs_path (ds @ state_key url))"
  using state_key_plain [of url] by (simp add: store_of_def)

section \<open>Properties\<close>

text \<open>C28: Over files in memory the handler refines the store of states: it answers a request with a rooted path as the store does for
  the key of the path, whatever dot-dot elements the path has, and changes no file outside of the state directory.\<close>

theorem state_backend_refines:
  assumes "list_all plain_name ds" and "ds \<noteq> []" and "is_rooted (rq_path rq)"
    and "run_state (state_handler memory_files (abs_path ds) rq) m = (resp, m')"
  shows "(resp, store_of ds m') = store_step (store_of ds m) rq \<and>
    (\<forall>p. \<not> prefix (abs_path ds @ ''/'') p \<longrightarrow> m' p = m p)"
proof -
  let ?k = "state_key (rq_path rq)"
  have k: "list_all plain_name ?k" and ne: "?k \<noteq> []" using state_key_plain by auto
  note upd = store_of_upd [OF assms(1) k, of m]
  have inside: "prefix (abs_path ds @ ''/'') (abs_path (ds @ ?k))"
    using assms(2) ne by (auto simp: abs_path_def str_join_app)
  then have other: "\<not> prefix (abs_path ds @ ''/'') p \<Longrightarrow> p \<noteq> abs_path (ds @ ?k)" for p by auto
  show ?thesis
    using assms(4) upd other unfolding state_handler_def state_file_rooted [OF assms(3,1,2)]
    by (cases "rq_method rq"; cases "rq_body rq")
      (auto simp: handle_get_def handle_post_def handle_delete_def store_step_def store_put_def store_of_key
        is_not_exist_def split: option.splits if_splits)
qed

theorem state_backend_refines_witness:
  "(http_ok, store_of [''srv''] [''/srv/prod/b'' \<mapsto> ''{}'']) =
     store_step (store_of [''srv''] Map.empty) \<lparr>rq_method = Post, rq_path = ''/prod/../../prod/b'', rq_body = Inr ''{}''\<rparr>"
proof -
  let ?rq = "\<lparr>rq_method = Post, rq_path = ''/prod/../../prod/b'', rq_body = Inr ''{}''\<rparr> :: state_request"
  have "state_key ''/prod/../../prod/b'' = [''prod'', ''b'']" and path: "abs_path [''srv'', ''prod'', ''b''] = ''/srv/prod/b''"
    by code_simp+
  then have "run_state (state_handler memory_files (abs_path [''srv'']) ?rq) Map.empty = (http_ok, [''/srv/prod/b'' \<mapsto> ''{}''])"
    using state_file_rooted [of "rq_path ?rq" "[''srv'']"]
    by (simp add: state_handler_def handle_post_def is_rooted_def plain_name_def max_body_size_def)
  from state_backend_refines [OF _ _ _ this] show ?thesis by (simp add: is_rooted_def plain_name_def)
qed

text \<open>With \<^verbatim>\<open>TF_BACKEND_STATE_DIR=/\<close> every request is refused: the test for the separator after the directory looks for
  two slashes.\<close>

theorem root_dir_refuses:
  assumes "is_rooted url"
  shows "state_file ''/'' url = None"
proof -
  let ?k = "state_key url"
  have k: "list_all plain_name ?k" and ne: "?k \<noteq> []" using state_key_plain by auto
  have "\<forall>x \<in> set ?k. CHR ''/'' \<notin> set x"
    using k by (auto simp: plain_name_def list_all_iff)
  from split_on_join [OF ne this] have "split_on (CHR ''/'') (''/'' @ ''/'' @ abs_path ?k) = [] # [] # [] # ?k"
    by (simp add: abs_path_def)
  moreover have "clean_elems True ([] # [] # [] # ?k) = ?k"
    using foldl_clean_plain [of ?k True "[]"] k
    by (auto simp: clean_elems_def clean_push_def plain_name_def list_all_def)
  ultimately have "path_join [''/'', abs_path ?k] = abs_path ?k"
    by (simp add: path_join_def path_clean_def path_of_elems_def is_rooted_def abs_path_def)
  moreover obtain c r where "str_join ?k ''/'' = c # r" and "c \<noteq> CHR ''/''"
  proof -
    obtain x xs where x: "?k = x # xs" using ne by (cases ?k) auto
    then obtain c cs where "x = c # cs" and "c \<noteq> CHR ''/''" using k by (cases x) (auto simp: plain_name_def)
    with x that show thesis by (cases xs) auto
  qed
  then have "\<not> has_prefix (abs_path ?k) ''//''" and "abs_path ?k \<noteq> ''/''"
    by (auto simp: abs_path_def)
  ultimately show ?thesis using state_name_rooted [OF assms] by (simp add: state_file_def)
qed

end
