(* ===== verification/Schema.thy ===== *)
theory Schema
  imports Prelude
begin

text \<open>
  The schemas of the provider's resources, data sources and of the provider itself (the \<^verbatim>\<open>Schema\<close> methods of
  \<^verbatim>\<open>internal/provider\<close>) as data: names, types, flags, defaults, plan modifiers and validators; the texts of the
  documentation are left out. Beside each schema stands the struct its values are decoded into, with the \<^verbatim>\<open>tfsdk\<close> tags.
  What the framework does with a schema is not modelled; the predicates here read off a schema what its documentation asks
  of it.
\<close>

section \<open>The language of schemas\<close>

datatype attr_type =
    String_T | Bool_T | Int32_T | Int64_T | Float64_T | List_T attr_type | Set_T attr_type | Map_T attr_type

datatype attr_default = Static_String string | Static_Int64 int | Static_Bool bool

datatype plan_modifier = Use_State_For_Unknown | Requires_Replace

datatype validator =
    One_Of "string list" | Length_At_Least nat | Size_At_Least nat | Size_At_Most nat | Is_Required | Positive_Duration

record attribute =
  at_name :: string
  at_type :: attr_type
  at_required :: bool
  at_optional :: bool
  at_computed :: bool
  at_sensitive :: bool
  at_default :: "attr_default option"
  at_modifiers :: "plan_modifier list"
  at_validators :: "validator list"

text \<open>An attribute with the zero values of its other fields.\<close>

definition attr :: "string \<Rightarrow> attr_type \<Rightarrow> attribute" where
  "attr n t =
     \<lparr>at_name = n, at_type = t, at_required = False, at_optional = False, at_computed = False, at_sensitive = False,
      at_default = None, at_modifiers = [], at_validators = []\<rparr>"

datatype nesting = Single_Nested | List_Nested

record block =
  bl_name :: string
  bl_nesting :: nesting
  bl_validators :: "validator list"
  bl_modifiers :: "plan_modifier list"
  bl_attributes :: "attribute list"

record schema =
  sc_attributes :: "attribute list"
  sc_blocks :: "block list"

text \<open>The types of the fields of a model.\<close>

datatype go_type =
    Go_String | Go_Bool | Go_Int32 | Go_Int64 | Go_Float64 | Go_List | Go_Set | Go_Map
  | Go_Pointer "(string \<times> go_type) list"
  | Go_Slice "(string \<times> go_type) list"

section \<open>What a schema promises\<close>

text \<open>A value of a schema is decoded into a struct when each attribute has one field of its type and there is no other field.\<close>

fun field_fits :: "attr_type \<Rightarrow> go_type \<Rightarrow> bool" where
  "field_fits String_T g = (g = Go_String)"
| "field_fits Bool_T g = (g = Go_Bool)"
| "field_fits Int32_T g = (g = Go_Int32)"
| "field_fits Int64_T g = (g = Go_Int64)"
| "field_fits Float64_T g = (g = Go_Float64)"
| "field_fits (List_T t) g = (g = Go_List)"
| "field_fits (Set_T t) g = (g = Go_Set)"
| "field_fits (Map_T t) g = (g = Go_Map)"

definition same_names :: "string list \<Rightarrow> string list \<Rightarrow> bool" where
  "same_names xs ys \<longleftrightarrow> distinct xs \<and> distinct ys \<and> list_all (\<lambda>x. x \<in> set ys) xs \<and> list_all (\<lambda>y. y \<in> set xs) ys"

definition attributes_fit :: "attribute list \<Rightarrow> (string \<times> go_type) list \<Rightarrow> bool" where
  "attributes_fit atts fs \<longleftrightarrow>
     list_all (\<lambda>a. case map_of fs (at_name a) of Some g \<Rightarrow> field_fits (at_type a) g | None \<Rightarrow> False) atts"

definition block_fits :: "block \<Rightarrow> go_type \<Rightarrow> bool" where
  "block_fits b g =
     (case (bl_nesting b, g) of
        (Single_Nested, Go_Pointer fs) \<Rightarrow> same_names (map at_name (bl_attributes b)) (map fst fs) \<and> attributes_fit (bl_attributes b) fs
      | (List_Nested, Go_Slice fs) \<Rightarrow> same_names (map at_name (bl_attributes b)) (map fst fs) \<and> attributes_fit (bl_attributes b) fs
      | _ \<Rightarrow> False)"

definition schema_names :: "schema \<Rightarrow> string list" where
  "schema_names s = map at_name (sc_attributes s) @ map bl_name (sc_blocks s)"

definition model_fits :: "schema \<Rightarrow> (string \<times> go_type) list \<Rightarrow> bool" where
  "model_fits s fs \<longleftrightarrow>
     same_names (schema_names s) (map fst fs) \<and> attributes_fit (sc_attributes s) fs \<and>
     list_all (\<lambda>b. case map_of fs (bl_name b) of Some g \<Rightarrow> block_fits b g | None \<Rightarrow> False) (sc_blocks s)"

text \<open>An attribute is set by the configuration, by the provider or by both; only what the provider may set has a default, of
  the type of the attribute, which its validators accept.\<close>

definition default_fits :: "attr_default \<Rightarrow> attribute \<Rightarrow> bool" where
  "default_fits d a =
     (case d of
        Static_String s \<Rightarrow> at_type a = String_T \<and> list_all (\<lambda>v. case v of One_Of xs \<Rightarrow> s \<in> set xs | _ \<Rightarrow> True) (at_validators a)
      | Static_Int64 i \<Rightarrow> at_type a = Int64_T
      | Static_Bool b \<Rightarrow> at_type a = Bool_T)"

definition attribute_ok :: "attribute \<Rightarrow> bool" where
  "attribute_ok a \<longleftrightarrow>
     (at_required a \<or> at_optional a \<or> at_computed a) \<and> \<not> (at_required a \<and> (at_optional a \<or> at_computed a)) \<and>
     (case at_default a of None \<Rightarrow> True | Some d \<Rightarrow> at_computed a \<and> default_fits d a)"

definition schema_ok :: "schema \<Rightarrow> bool" where
  "schema_ok s \<longleftrightarrow> list_all attribute_ok (sc_attributes s @ concat (map bl_attributes (sc_blocks s)))"

section \<open>What an update may meet\<close>

text \<open>What the user can change without a replacement: these changes reach \<^verbatim>\<open>Update\<close>.\<close>

definition in_place :: "schema \<Rightarrow> string list" where
  "in_place s =
     map at_name (filter (\<lambda>a. (at_required a \<or> at_optional a) \<and> Requires_Replace \<notin> set (at_modifiers a)) (sc_attributes s)) @
     map bl_name (filter (\<lambda>b. Requires_Replace \<notin> set (bl_modifiers b)) (sc_blocks s))"

text \<open>What the framework marks as unknown in the plan of an update, when the configuration does not set it: computed
  attributes without a default, unless they keep the value of the state.\<close>

definition unknown_in_update :: "schema \<Rightarrow> string list" where
  "unknown_in_update s =
     map at_name (filter (\<lambda>a. at_computed a \<and> at_default a = None \<and> Use_State_For_Unknown \<notin> set (at_modifiers a)) (sc_attributes s))"

text \<open>Of these, the ones that the configuration cannot set.\<close>

definition always_unknown :: "schema \<Rightarrow> string list" where
  "always_unknown s =
     filter (\<lambda>n. list_all (\<lambda>a. at_name a = n \<longrightarrow> \<not> at_optional a) (sc_attributes s)) (unknown_in_update s)"

end
