(* ===== verification/Schemas.thy ===== *)
theory Schemas
  imports Schema
begin

text \<open>
  The schemas and the models of the provider, one definition for each \<^verbatim>\<open>Schema\<close> method, for each function that
  makes a shared block, and for each struct with \<^verbatim>\<open>tfsdk\<close> tags.
\<close>

section \<open>Schemas and models\<close>

definition disk_schema_block :: "string \<Rightarrow> block" where
  "disk_schema_block name =
     \<lparr>bl_name = name, bl_nesting = List_Nested, bl_validators = [Size_At_Most 2], bl_modifiers = [Requires_Replace],
         bl_attributes =
          [(attr ''type'' String_T)
               \<lparr>at_optional := True, at_validators := [One_Of [''overlay'', ''device'', ''file'']]\<rparr>,
           (attr ''source'' String_T)\<lparr>at_required := True\<rparr>,
           (attr ''format'' String_T)\<lparr>at_optional := True, at_validators := [One_Of [''raw'', ''qcow2'']]\<rparr>,
           (attr ''size_mb'' Int64_T)\<lparr>at_optional := True\<rparr>,
           (attr ''drive_if'' String_T)\<lparr>at_optional := True\<rparr>,
           (attr ''options'' (List_T String_T))\<lparr>at_optional := True\<rparr>]\<rparr>"

definition ssh_schema_block :: "string \<Rightarrow> block" where
  "ssh_schema_block name =
     \<lparr>bl_name = name, bl_nesting = Single_Nested, bl_validators = [], bl_modifiers = [],
         bl_attributes =
          [(attr ''user'' String_T)\<lparr>at_optional := True\<rparr>,
           (attr ''port'' Int64_T)\<lparr>at_optional := True\<rparr>,
           (attr ''password'' String_T)\<lparr>at_optional := True, at_sensitive := True\<rparr>,
           (attr ''private_key'' String_T)\<lparr>at_optional := True, at_sensitive := True\<rparr>,
           (attr ''private_key_file'' String_T)\<lparr>at_optional := True\<rparr>,
           (attr ''private_key_passphrase'' String_T)\<lparr>at_optional := True, at_sensitive := True\<rparr>,
           (attr ''use_agent'' Bool_T)\<lparr>at_optional := True\<rparr>,
           (attr ''forward_agent'' Bool_T)\<lparr>at_optional := True\<rparr>,
           (attr ''known_hosts_file'' String_T)\<lparr>at_optional := True\<rparr>,
           (attr ''host_key'' String_T)\<lparr>at_optional := True\<rparr>,
           (attr ''insecure_ignore_host_key'' Bool_T)\<lparr>at_optional := True\<rparr>,
           (attr ''proxy_jump'' String_T)\<lparr>at_optional := True\<rparr>,
           (attr ''remote_binary_path'' String_T)\<lparr>at_optional := True\<rparr>]\<rparr>"

definition disk_block_fields :: "(string \<times> go_type) list" where
  "disk_block_fields =
     [(''type'', Go_String), (''source'', Go_String), (''format'', Go_String), (''size_mb'', Go_Int64),
      (''drive_if'', Go_String), (''options'', Go_List)]"

definition ssh_fields :: "(string \<times> go_type) list" where
  "ssh_fields =
     [(''user'', Go_String), (''port'', Go_Int64), (''password'', Go_String), (''private_key'', Go_String),
      (''private_key_file'', Go_String), (''private_key_passphrase'', Go_String), (''use_agent'', Go_Bool),
      (''forward_agent'', Go_Bool), (''known_hosts_file'', Go_String), (''host_key'', Go_String),
      (''insecure_ignore_host_key'', Go_Bool), (''proxy_jump'', Go_String),
      (''remote_binary_path'', Go_String)]"

definition dhcp_pool_fields :: "(string \<times> go_type) list" where
  "dhcp_pool_fields =
     [(''start'', Go_String), (''end'', Go_String)]"

definition dhcp_route_fields :: "(string \<times> go_type) list" where
  "dhcp_route_fields =
     [(''to'', Go_String), (''via'', Go_String)]"

definition dhcp6_pool_fields :: "(string \<times> go_type) list" where
  "dhcp6_pool_fields =
     [(''start'', Go_String), (''end'', Go_String)]"

definition radv_route_fields :: "(string \<times> go_type) list" where
  "radv_route_fields =
     [(''prefix'', Go_String)]"

definition disk_image_schema :: schema where
  "disk_image_schema =
    \<lparr>sc_attributes =
      [(attr ''id'' String_T)\<lparr>at_computed := True, at_modifiers := [Use_State_For_Unknown]\<rparr>,
       (attr ''name'' String_T)\<lparr>at_required := True\<rparr>,
       (attr ''size_mb'' Int64_T)\<lparr>at_required := True\<rparr>,
       (attr ''filename'' String_T)\<lparr>at_computed := True\<rparr>,
       (attr ''used_bytes'' Int64_T)\<lparr>at_computed := True\<rparr>],
     sc_blocks = []\<rparr>"

definition disk_image_fields :: "(string \<times> go_type) list" where
  "disk_image_fields =
     [(''id'', Go_String), (''name'', Go_String), (''size_mb'', Go_Int64), (''filename'', Go_String),
      (''used_bytes'', Go_Int64)]"

definition eve_installer_schema :: schema where
  "eve_installer_schema =
    \<lparr>sc_attributes =
      [(attr ''id'' String_T)\<lparr>at_computed := True, at_modifiers := [Use_State_For_Unknown]\<rparr>,
       (attr ''name'' String_T)\<lparr>at_required := True\<rparr>,
       (attr ''tag'' String_T)\<lparr>at_required := True\<rparr>,
       (attr ''cluster'' String_T)\<lparr>at_required := True\<rparr>,
       (attr ''tls_ca'' String_T)\<lparr>at_optional := True\<rparr>,
       (attr ''object_signing_ca'' String_T)\<lparr>at_optional := True\<rparr>,
       (attr ''additional_hosts'' String_T)\<lparr>at_optional := True\<rparr>,
       (attr ''authorized_keys'' String_T)\<lparr>at_optional := True\<rparr>,
       (attr ''grub_cfg'' String_T)\<lparr>at_optional := True\<rparr>,
       (attr ''device_port_config_override'' String_T)\<lparr>at_optional := True\<rparr>,
       (attr ''format'' String_T)
           \<lparr>at_optional := True, at_computed := True, at_default := Some (Static_String ''iso''), at_modifiers := [Requires_Replace]\<rparr>,
       (attr ''filename'' String_T)\<lparr>at_computed := True\<rparr>],
     sc_blocks = []\<rparr>"

definition eve_installer_fields :: "(string \<times> go_type) list" where
  "eve_installer_fields =
     [(''id'', Go_String), (''name'', Go_String), (''tag'', Go_String), (''cluster'', Go_String),
      (''tls_ca'', Go_String), (''object_signing_ca'', Go_String), (''additional_hosts'', Go_String),
      (''authorized_keys'', Go_String), (''grub_cfg'', Go_String),
      (''device_port_config_override'', Go_String), (''format'', Go_String), (''filename'', Go_String)]"

definition installed_node_schema :: schema where
  "installed_node_schema =
    \<lparr>sc_attributes =
      [(attr ''id'' String_T)\<lparr>at_computed := True, at_modifiers := [Use_State_For_Unknown]\<rparr>,
       (attr ''name'' String_T)\<lparr>at_optional := True\<rparr>,
       (attr ''serial_no'' String_T)\<lparr>at_required := True\<rparr>,
       (attr ''installer_iso'' String_T)\<lparr>at_optional := True\<rparr>,
       (attr ''installer_raw'' String_T)\<lparr>at_optional := True\<rparr>,
       (attr ''disk_image_base'' String_T)\<lparr>at_optional := True\<rparr>,
       (attr ''disk_1_image_base'' String_T)\<lparr>at_optional := True\<rparr>,
       (attr ''swtpm_socket'' String_T)\<lparr>at_optional := True\<rparr>,
       (attr ''extra_qemu_args'' (List_T String_T))\<lparr>at_optional := True\<rparr>,
       (attr ''disk_image'' String_T)\<lparr>at_computed := True\<rparr>,
       (attr ''disk_1_image'' String_T)\<lparr>at_computed := True\<rparr>,
       (attr ''serial_console_log'' String_T)\<lparr>at_computed := True\<rparr>,
       (attr ''ovmf_vars'' String_T)\<lparr>at_computed := True\<rparr>,
       (attr ''success'' Bool_T)\<lparr>at_computed := True\<rparr>,
       (attr ''soft_serial'' String_T)\<lparr>at_computed := True\<rparr>,
       (attr ''serial_type'' String_T)
           \<lparr>at_optional := True, at_computed := True, at_default := Some (Static_String ''virtio''), at_modifiers := [Requires_Replace], at_validators := [One_Of [''virtio'', ''serial'']]\<rparr>],
     sc_blocks = [disk_schema_block ''disk'']\<rparr>"

definition installed_node_fields :: "(string \<times> go_type) list" where
  "installed_node_fields =
     [(''id'', Go_String), (''name'', Go_String), (''serial_no'', Go_String), (''installer_iso'', Go_String),
      (''installer_raw'', Go_String), (''disk_image_base'', Go_String), (''disk_1_image_base'', Go_String),
      (''swtpm_socket'', Go_String), (''disk_image'', Go_String), (''disk_1_image'', Go_String),
      (''serial_console_log'', Go_String), (''ovmf_vars'', Go_String), (''success'', Go_Bool),
      (''soft_serial'', Go_String), (''serial_type'', Go_String), (''extra_qemu_args'', Go_List),
      (''disk'', Go_Slice disk_block_fields)]"

definition edge_node_schema :: schema where
  "edge_node_schema =
    \<lparr>sc_attributes =
      [(attr ''id'' String_T)\<lparr>at_computed := True, at_modifiers := [Use_State_For_Unknown]\<rparr>,
       (attr ''name'' String_T)\<lparr>at_optional := True\<rparr>,
       (attr ''mem'' String_T)\<lparr>at_optional := True\<rparr>,
       (attr ''cpus'' Int64_T)\<lparr>at_optional := True\<rparr>,
       (attr ''serial_no'' String_T)\<lparr>at_required := True\<rparr>,
       (attr ''nic0'' String_T)\<lparr>at_optional := True\<rparr>,
       (attr ''serial_port_server'' Bool_T)\<lparr>at_optional := True\<rparr>,
       (attr ''serial_port_socket'' String_T)\<lparr>at_computed := True\<rparr>,
       (attr ''serial_console_log'' String_T)\<lparr>at_computed := True\<rparr>,
       (attr ''serial_type'' String_T)
           \<lparr>at_optional := True, at_computed := True, at_default := Some (Static_String ''virtio''), at_modifiers := [Requires_Replace], at_validators := [One_Of [''virtio'', ''serial'']]\<rparr>,
       (attr ''disk_image_base'' String_T)\<lparr>at_optional := True\<rparr>,
       (attr ''disk_1_image_base'' String_T)\<lparr>at_optional := True\<rparr>,
       (attr ''disk_size_mb'' Int64_T)\<lparr>at_optional := True\<rparr>,
       (attr ''drive_if'' String_T)\<lparr>at_optional := True\<rparr>,
       (attr ''swtpm_socket'' String_T)\<lparr>at_optional := True\<rparr>,
       (attr ''disk_image'' String_T)\<lparr>at_computed := True\<rparr>,
       (attr ''disk_1_image'' String_T)\<lparr>at_computed := True\<rparr>,
       (attr ''ovmf_vars_src'' String_T)\<lparr>at_optional := True\<rparr>,
       (attr ''ovmf_vars'' String_T)\<lparr>at_computed := True\<rparr>,
       (attr ''qmp_socket'' String_T)\<lparr>at_computed := True\<rparr>,
       (attr ''vm_running'' Bool_T)\<lparr>at_computed := True\<rparr>,
       (attr ''ssh_port'' Int32_T)\<lparr>at_computed := True\<rparr>,
       (attr ''nic0_port_forwards'' String_T)\<lparr>at_computed := True\<rparr>,
       (attr ''extra_qemu_args'' (List_T String_T))\<lparr>at_optional := True\<rparr>,
       (attr ''use_gvproxy'' Bool_T)\<lparr>at_optional := True\<rparr>,
       (attr ''cpu_pins'' (List_T Int64_T))\<lparr>at_optional := True\<rparr>],
     sc_blocks = [disk_schema_block ''disk'']\<rparr>"

definition edge_node_fields :: "(string \<times> go_type) list" where
  "edge_node_fields =
     [(''id'', Go_String), (''name'', Go_String), (''mem'', Go_String), (''cpus'', Go_Int64),
      (''serial_no'', Go_String), (''nic0'', Go_String), (''serial_port_server'', Go_Bool),
      (''serial_port_socket'', Go_String), (''disk_image_base'', Go_String),
      (''disk_1_image_base'', Go_String), (''disk_size_mb'', Go_Int64), (''drive_if'', Go_String),
      (''swtpm_socket'', Go_String), (''disk_image'', Go_String), (''disk_1_image'', Go_String),
      (''serial_console_log'', Go_String), (''serial_type'', Go_String), (''ovmf_vars_src'', Go_String),
      (''ovmf_vars'', Go_String), (''qmp_socket'', Go_String), (''vm_running'', Go_Bool),
      (''ssh_port'', Go_Int32), (''nic0_port_forwards'', Go_String), (''extra_qemu_args'', Go_List),
      (''cpu_pins'', Go_List), (''use_gvproxy'', Go_Bool), (''disk'', Go_Slice disk_block_fields)]"

definition swtpm_schema :: schema where
  "swtpm_schema =
    \<lparr>sc_attributes =
      [(attr ''id'' String_T)\<lparr>at_computed := True, at_modifiers := [Use_State_For_Unknown]\<rparr>,
       (attr ''name'' String_T)\<lparr>at_required := True, at_modifiers := [Requires_Replace]\<rparr>,
       (attr ''socket'' String_T)\<lparr>at_computed := True, at_modifiers := [Use_State_For_Unknown]\<rparr>,
       (attr ''state'' String_T)
           \<lparr>at_optional := True, at_computed := True, at_validators := [One_Of [''running'', ''stopped'']]\<rparr>],
     sc_blocks = []\<rparr>"

definition swtpm_fields :: "(string \<times> go_type) list" where
  "swtpm_fields =
     [(''id'', Go_String), (''name'', Go_String), (''socket'', Go_String), (''state'', Go_String)]"

definition cloud_init_schema :: schema where
  "cloud_init_schema =
    \<lparr>sc_attributes =
      [(attr ''id'' String_T)\<lparr>at_computed := True, at_modifiers := [Use_State_For_Unknown]\<rparr>,
       (attr ''name'' String_T)\<lparr>at_required := True\<rparr>,
       (attr ''filename'' String_T)\<lparr>at_computed := True\<rparr>,
       (attr ''user_data'' String_T)\<lparr>at_required := True\<rparr>,
       (attr ''meta_data'' String_T)\<lparr>at_required := True\<rparr>,
       (attr ''network_config'' String_T)\<lparr>at_required := True\<rparr>],
     sc_blocks = []\<rparr>"

definition cloud_init_fields :: "(string \<times> go_type) list" where
  "cloud_init_fields =
     [(''id'', Go_String), (''name'', Go_String), (''filename'', Go_String), (''user_data'', Go_String),
      (''meta_data'', Go_String), (''network_config'', Go_String)]"

definition bridge_schema :: schema where
  "bridge_schema =
    \<lparr>sc_attributes =
      [(attr ''id'' String_T)\<lparr>at_computed := True, at_modifiers := [Use_State_For_Unknown]\<rparr>,
       (attr ''name'' String_T)\<lparr>at_required := True, at_modifiers := [Requires_Replace]\<rparr>,
       (attr ''mtu'' Int64_T)\<lparr>at_optional := True, at_computed := True\<rparr>,
       (attr ''state'' String_T)\<lparr>at_optional := True, at_computed := True\<rparr>,
       (attr ''mac_address'' String_T)\<lparr>at_optional := True, at_computed := True\<rparr>,
       (attr ''ipv4_address'' String_T)\<lparr>at_optional := True\<rparr>,
       (attr ''ipv6_address'' String_T)\<lparr>at_optional := True\<rparr>,
       (attr ''netns'' String_T)\<lparr>at_optional := True, at_modifiers := [Requires_Replace]\<rparr>,
       (attr ''enslaved_interfaces'' (Set_T String_T))
           \<lparr>at_optional := True, at_modifiers := [Requires_Replace]\<rparr>],
     sc_blocks = []\<rparr>"

definition bridge_fields :: "(string \<times> go_type) list" where
  "bridge_fields =
     [(''id'', Go_String), (''name'', Go_String), (''mtu'', Go_Int64), (''state'', Go_String),
      (''mac_address'', Go_String), (''ipv4_address'', Go_String), (''ipv6_address'', Go_String),
      (''netns'', Go_String), (''enslaved_interfaces'', Go_Set)]"

definition tap_schema :: schema where
  "tap_schema =
    \<lparr>sc_attributes =
      [(attr ''id'' String_T)\<lparr>at_computed := True, at_modifiers := [Use_State_For_Unknown]\<rparr>,
       (attr ''name'' String_T)\<lparr>at_required := True, at_modifiers := [Requires_Replace]\<rparr>,
       (attr ''mtu'' Int64_T)\<lparr>at_optional := True, at_computed := True\<rparr>,
       (attr ''state'' String_T)\<lparr>at_optional := True, at_computed := True\<rparr>,
       (attr ''owner'' String_T)\<lparr>at_optional := True\<rparr>,
       (attr ''group'' String_T)\<lparr>at_optional := True\<rparr>,
       (attr ''master'' String_T)\<lparr>at_optional := True\<rparr>,
       (attr ''ipv4_address'' String_T)\<lparr>at_optional := True\<rparr>,
       (attr ''netns'' String_T)\<lparr>at_optional := True, at_modifiers := [Requires_Replace]\<rparr>,
       (attr ''mover_status'' String_T)\<lparr>at_computed := True\<rparr>],
     sc_blocks = []\<rparr>"

definition tap_fields :: "(string \<times> go_type) list" where
  "tap_fields =
     [(''id'', Go_String), (''name'', Go_String), (''mtu'', Go_Int64), (''state'', Go_String),
      (''owner'', Go_String), (''group'', Go_String), (''master'', Go_String), (''ipv4_address'', Go_String),
      (''netns'', Go_String), (''mover_status'', Go_String)]"

definition lag_schema :: schema where
  "lag_schema =
    \<lparr>sc_attributes =
      [(attr ''id'' String_T)\<lparr>at_computed := True, at_modifiers := [Use_State_For_Unknown]\<rparr>,
       (attr ''name'' String_T)\<lparr>at_required := True, at_modifiers := [Requires_Replace]\<rparr>,
       (attr ''mode'' String_T)
           \<lparr>at_optional := True, at_modifiers := [Requires_Replace], at_validators := [One_Of [''balance-rr'', ''active-backup'', ''balance-xor'', ''broadcast'', ''802.3ad'', ''balance-tlb'', ''balance-alb'']]\<rparr>,
       (attr ''miimon'' Int64_T)\<lparr>at_optional := True, at_modifiers := [Requires_Replace]\<rparr>,
       (attr ''lacp_rate'' String_T)
           \<lparr>at_optional := True, at_modifiers := [Requires_Replace], at_validators := [One_Of [''slow'', ''fast'']]\<rparr>,
       (attr ''xmit_hash_policy'' String_T)
           \<lparr>at_optional := True, at_modifiers := [Requires_Replace], at_validators := [One_Of [''layer2'', ''layer2+3'', ''layer3+4'', ''encap2+3'', ''encap3+4'', ''vlan+srcmac'']]\<rparr>,
       (attr ''mtu'' Int64_T)\<lparr>at_optional := True, at_computed := True\<rparr>,
       (attr ''state'' String_T)\<lparr>at_optional := True, at_computed := True\<rparr>,
       (attr ''mac_address'' String_T)\<lparr>at_optional := True, at_computed := True\<rparr>,
       (attr ''ipv4_address'' String_T)\<lparr>at_optional := True\<rparr>,
       (attr ''ipv6_address'' String_T)\<lparr>at_optional := True\<rparr>,
       (attr ''netns'' String_T)\<lparr>at_optional := True, at_modifiers := [Requires_Replace]\<rparr>,
       (attr ''enslaved_interfaces'' (Set_T String_T))\<lparr>at_optional := True\<rparr>],
     sc_blocks = []\<rparr>"

definition lag_fields :: "(string \<times> go_type) list" where
  "lag_fields =
     [(''id'', Go_String), (''name'', Go_String), (''mode'', Go_String), (''miimon'', Go_Int64),
      (''lacp_rate'', Go_String), (''xmit_hash_policy'', Go_String), (''mtu'', Go_Int64),
      (''state'', Go_String), (''mac_address'', Go_String), (''ipv4_address'', Go_String),
      (''ipv6_address'', Go_String), (''netns'', Go_String), (''enslaved_interfaces'', Go_Set)]"

definition vlan_schema :: schema where
  "vlan_schema =
    \<lparr>sc_attributes =
      [(attr ''id'' String_T)\<lparr>at_computed := True, at_modifiers := [Use_State_For_Unknown]\<rparr>,
       (attr ''vlan_id'' Int64_T)\<lparr>at_required := True\<rparr>,
       (attr ''name'' String_T)\<lparr>at_computed := True\<rparr>,
       (attr ''mtu'' Int64_T)\<lparr>at_optional := True, at_computed := True\<rparr>,
       (attr ''state'' String_T)\<lparr>at_optional := True, at_computed := True\<rparr>,
       (attr ''parent'' String_T)\<lparr>at_required := True\<rparr>,
       (attr ''mac_address'' String_T)\<lparr>at_optional := True, at_computed := True\<rparr>,
       (attr ''ipv4_address'' String_T)\<lparr>at_optional := True\<rparr>,
       (attr ''ipv6_address'' String_T)\<lparr>at_optional := True\<rparr>],
     sc_blocks = []\<rparr>"

definition vlan_fields :: "(string \<times> go_type) list" where
  "vlan_fields =
     [(''id'', Go_String), (''vlan_id'', Go_Int64), (''name'', Go_String), (''mtu'', Go_Int64),
      (''state'', Go_String), (''parent'', Go_String), (''mac_address'', Go_String),
      (''ipv4_address'', Go_String), (''ipv6_address'', Go_String)]"

definition dhcp_schema :: schema where
  "dhcp_schema =
    \<lparr>sc_attributes =
      [(attr ''id'' String_T)\<lparr>at_computed := True, at_modifiers := [Use_State_For_Unknown]\<rparr>,
       (attr ''interface'' String_T)\<lparr>at_required := True\<rparr>,
       (attr ''server_id'' String_T)\<lparr>at_required := True\<rparr>,
       (attr ''nameserver'' String_T)\<lparr>at_required := True\<rparr>,
       (attr ''router'' String_T)\<lparr>at_required := True\<rparr>,
       (attr ''netmask'' String_T)\<lparr>at_required := True\<rparr>,
       (attr ''lease_time'' Int64_T)\<lparr>at_optional := True, at_computed := True\<rparr>,
       (attr ''leases_file'' String_T)\<lparr>at_computed := True\<rparr>,
       (attr ''config_file'' String_T)\<lparr>at_computed := True\<rparr>,
       (attr ''pid_file'' String_T)\<lparr>at_computed := True\<rparr>,
       (attr ''state'' String_T)\<lparr>at_optional := True, at_computed := True\<rparr>,
       (attr ''netns'' String_T)\<lparr>at_optional := True, at_modifiers := [Requires_Replace]\<rparr>],
     sc_blocks = [\<lparr>bl_name = ''pool'', bl_nesting = Single_Nested, bl_validators = [Is_Required], bl_modifiers = [],
         bl_attributes =
          [(attr ''start'' String_T)\<lparr>at_required := True\<rparr>,
           (attr ''end'' String_T)\<lparr>at_required := True\<rparr>]\<rparr>,
        \<lparr>bl_name = ''static_route'', bl_nesting = List_Nested, bl_validators = [], bl_modifiers = [],
         bl_attributes =
          [(attr ''to'' String_T)\<lparr>at_required := True\<rparr>,
           (attr ''via'' String_T)\<lparr>at_required := True\<rparr>]\<rparr>]\<rparr>"

definition dhcp_fields :: "(string \<times> go_type) list" where
  "dhcp_fields =
     [(''id'', Go_String), (''interface'', Go_String), (''server_id'', Go_String),
      (''nameserver'', Go_String), (''router'', Go_String), (''netmask'', Go_String),
      (''pool'', Go_Pointer dhcp_pool_fields), (''lease_time'', Go_Int64),
      (''static_route'', Go_Slice dhcp_route_fields), (''leases_file'', Go_String),
      (''config_file'', Go_String), (''pid_file'', Go_String), (''state'', Go_String),
      (''netns'', Go_String)]"

definition dhcp6_schema :: schema where
  "dhcp6_schema =
    \<lparr>sc_attributes =
      [(attr ''id'' String_T)\<lparr>at_computed := True, at_modifiers := [Use_State_For_Unknown]\<rparr>,
       (attr ''interface'' String_T)\<lparr>at_required := True\<rparr>,
       (attr ''server_id'' String_T)\<lparr>at_required := True\<rparr>,
       (attr ''prefix'' String_T)\<lparr>at_optional := True\<rparr>,
       (attr ''nameserver'' String_T)\<lparr>at_required := True\<rparr>,
       (attr ''lease_time'' Int64_T)\<lparr>at_optional := True, at_computed := True\<rparr>,
       (attr ''leases_file'' String_T)\<lparr>at_computed := True\<rparr>,
       (attr ''config_file'' String_T)\<lparr>at_computed := True\<rparr>,
       (attr ''pid_file'' String_T)\<lparr>at_computed := True\<rparr>,
       (attr ''state'' String_T)\<lparr>at_optional := True, at_computed := True\<rparr>],
     sc_blocks = [\<lparr>bl_name = ''pool'', bl_nesting = Single_Nested, bl_validators = [Is_Required], bl_modifiers = [],
         bl_attributes =
          [(attr ''start'' String_T)\<lparr>at_required := True\<rparr>,
           (attr ''end'' String_T)\<lparr>at_required := True\<rparr>]\<rparr>]\<rparr>"

definition dhcp6_fields :: "(string \<times> go_type) list" where
  "dhcp6_fields =
     [(''id'', Go_String), (''interface'', Go_String), (''server_id'', Go_String), (''prefix'', Go_String),
      (''nameserver'', Go_String), (''pool'', Go_Pointer dhcp6_pool_fields), (''lease_time'', Go_Int64),
      (''leases_file'', Go_String), (''config_file'', Go_String), (''pid_file'', Go_String),
      (''state'', Go_String)]"

definition radv_schema :: schema where
  "radv_schema =
    \<lparr>sc_attributes =
      [(attr ''id'' String_T)\<lparr>at_computed := True, at_modifiers := [Use_State_For_Unknown]\<rparr>,
       (attr ''interface'' String_T)\<lparr>at_required := True, at_modifiers := [Requires_Replace]\<rparr>,
       (attr ''prefix'' String_T)\<lparr>at_required := True, at_modifiers := [Requires_Replace]\<rparr>,
       (attr ''prefix_on_link'' Bool_T)\<lparr>at_optional := True, at_computed := True\<rparr>,
       (attr ''prefix_autonomous'' Bool_T)\<lparr>at_optional := True, at_computed := True\<rparr>,
       (attr ''prefix_valid_lifetime'' Int64_T)
           \<lparr>at_optional := True, at_computed := True, at_default := Some (Static_Int64 86400)\<rparr>,
       (attr ''prefix_preferred_lifetime'' Int64_T)
           \<lparr>at_optional := True, at_computed := True, at_default := Some (Static_Int64 14400)\<rparr>,
       (attr ''dns_servers'' String_T)\<lparr>at_optional := True\<rparr>,
       (attr ''managed_config'' Bool_T)\<lparr>at_optional := True, at_computed := True\<rparr>,
       (attr ''other_config'' Bool_T)\<lparr>at_optional := True, at_computed := True\<rparr>,
       (attr ''router_lifetime'' Int64_T)
           \<lparr>at_optional := True, at_computed := True, at_default := Some (Static_Int64 1800)\<rparr>,
       (attr ''max_interval'' Int64_T)
           \<lparr>at_optional := True, at_computed := True, at_default := Some (Static_Int64 600)\<rparr>,
       (attr ''min_interval'' Int64_T)
           \<lparr>at_optional := True, at_computed := True, at_default := Some (Static_Int64 200)\<rparr>,
       (attr ''hop_limit'' Int64_T)
           \<lparr>at_optional := True, at_computed := True, at_default := Some (Static_Int64 64)\<rparr>,
       (attr ''config_file'' String_T)\<lparr>at_computed := True\<rparr>,
       (attr ''pid_file'' String_T)\<lparr>at_computed := True\<rparr>,
       (attr ''state'' String_T)\<lparr>at_optional := True, at_computed := True\<rparr>],
     sc_blocks = [\<lparr>bl_name = ''route'', bl_nesting = List_Nested, bl_validators = [Size_At_Least 0], bl_modifiers = [Requires_Replace],
         bl_attributes =
          [(attr ''prefix'' String_T)\<lparr>at_required := True\<rparr>]\<rparr>]\<rparr>"

definition radv_fields :: "(string \<times> go_type) list" where
  "radv_fields =
     [(''id'', Go_String), (''interface'', Go_String), (''prefix'', Go_String),
      (''route'', Go_Slice radv_route_fields), (''prefix_on_link'', Go_Bool),
      (''prefix_autonomous'', Go_Bool), (''prefix_valid_lifetime'', Go_Int64),
      (''prefix_preferred_lifetime'', Go_Int64), (''dns_servers'', Go_String), (''managed_config'', Go_Bool),
      (''other_config'', Go_Bool), (''router_lifetime'', Go_Int64), (''max_interval'', Go_Int64),
      (''min_interval'', Go_Int64), (''hop_limit'', Go_Int64), (''config_file'', Go_String),
      (''pid_file'', Go_String), (''state'', Go_String)]"

definition datastore_schema :: schema where
  "datastore_schema =
    \<lparr>sc_attributes =
      [(attr ''id'' String_T)\<lparr>at_computed := True, at_modifiers := [Use_State_For_Unknown]\<rparr>,
       (attr ''listen'' String_T)\<lparr>at_optional := True\<rparr>,
       (attr ''static_dir'' String_T)\<lparr>at_required := True\<rparr>,
       (attr ''bw_limit'' String_T)\<lparr>at_optional := True\<rparr>,
       (attr ''username'' String_T)\<lparr>at_optional := True, at_sensitive := True\<rparr>,
       (attr ''password'' String_T)\<lparr>at_optional := True, at_sensitive := True\<rparr>,
       (attr ''pid_file'' String_T)\<lparr>at_computed := True\<rparr>,
       (attr ''state'' String_T)\<lparr>at_optional := True, at_computed := True\<rparr>],
     sc_blocks = []\<rparr>"

definition datastore_fields :: "(string \<times> go_type) list" where
  "datastore_fields =
     [(''id'', Go_String), (''listen'', Go_String), (''static_dir'', Go_String), (''bw_limit'', Go_String),
      (''username'', Go_String), (''password'', Go_String), (''pid_file'', Go_String),
      (''state'', Go_String)]"

definition netns_schema :: schema where
  "netns_schema =
    \<lparr>sc_attributes =
      [(attr ''id'' String_T)\<lparr>at_computed := True, at_modifiers := [Use_State_For_Unknown]\<rparr>,
       (attr ''name'' String_T)\<lparr>at_required := True, at_modifiers := [Requires_Replace]\<rparr>],
     sc_blocks = []\<rparr>"

definition netns_fields :: "(string \<times> go_type) list" where
  "netns_fields =
     [(''id'', Go_String), (''name'', Go_String)]"

definition im_schema :: schema where
  "im_schema =
    \<lparr>sc_attributes =
      [(attr ''id'' String_T)\<lparr>at_computed := True, at_modifiers := [Use_State_For_Unknown]\<rparr>,
       (attr ''destinations'' (List_T String_T))\<lparr>at_required := True, at_validators := [Size_At_Least 1]\<rparr>,
       (attr ''interval'' String_T)
           \<lparr>at_optional := True, at_computed := True, at_default := Some (Static_String ''60s'')\<rparr>,
       (attr ''ping_count'' Int64_T)
           \<lparr>at_optional := True, at_computed := True, at_default := Some (Static_Int64 5)\<rparr>,
       (attr ''ping_timeout'' String_T)
           \<lparr>at_optional := True, at_computed := True, at_default := Some (Static_String ''5s'')\<rparr>,
       (attr ''dns_timeout'' String_T)
           \<lparr>at_optional := True, at_computed := True, at_default := Some (Static_String ''5s'')\<rparr>,
       (attr ''http_timeout'' String_T)
           \<lparr>at_optional := True, at_computed := True, at_default := Some (Static_String ''10s'')\<rparr>,
       (attr ''doh_endpoint'' String_T)
           \<lparr>at_optional := True, at_computed := True, at_default := Some (Static_String ''https://dns.quad9.net/dns-query'')\<rparr>,
       (attr ''flush_every_n'' Int64_T)
           \<lparr>at_optional := True, at_computed := True, at_default := Some (Static_Int64 1)\<rparr>,
       (attr ''privileged_icmp'' Bool_T)
           \<lparr>at_optional := True, at_computed := True, at_default := Some (Static_Bool False)\<rparr>,
       (attr ''output_file'' String_T)
           \<lparr>at_optional := True, at_computed := True, at_modifiers := [Use_State_For_Unknown]\<rparr>,
       (attr ''config_file'' String_T)\<lparr>at_computed := True\<rparr>,
       (attr ''pid_file'' String_T)\<lparr>at_computed := True\<rparr>,
       (attr ''state'' String_T)\<lparr>at_optional := True, at_computed := True\<rparr>,
       (attr ''netns'' String_T)\<lparr>at_optional := True, at_modifiers := [Requires_Replace]\<rparr>],
     sc_blocks = []\<rparr>"

definition im_fields :: "(string \<times> go_type) list" where
  "im_fields =
     [(''id'', Go_String), (''destinations'', Go_List), (''interval'', Go_String),
      (''ping_count'', Go_Int64), (''ping_timeout'', Go_String), (''dns_timeout'', Go_String),
      (''http_timeout'', Go_String), (''doh_endpoint'', Go_String), (''flush_every_n'', Go_Int64),
      (''privileged_icmp'', Go_Bool), (''output_file'', Go_String), (''config_file'', Go_String),
      (''pid_file'', Go_String), (''state'', Go_String), (''netns'', Go_String)]"

definition msu_schema :: schema where
  "msu_schema =
    \<lparr>sc_attributes =
      [(attr ''id'' String_T)\<lparr>at_computed := True, at_modifiers := [Use_State_For_Unknown]\<rparr>,
       (attr ''interval'' String_T)
           \<lparr>at_optional := True, at_computed := True, at_default := Some (Static_String ''10s'')\<rparr>,
       (attr ''flush_every_n'' Int64_T)
           \<lparr>at_optional := True, at_computed := True, at_default := Some (Static_Int64 6)\<rparr>,
       (attr ''namespaces'' (List_T String_T))\<lparr>at_optional := True\<rparr>,
       (attr ''include_env'' String_T)
           \<lparr>at_optional := True, at_computed := True, at_default := Some (Static_String ''filtered'')\<rparr>,
       (attr ''output_file'' String_T)
           \<lparr>at_optional := True, at_computed := True, at_modifiers := [Use_State_For_Unknown]\<rparr>,
       (attr ''config_file'' String_T)\<lparr>at_computed := True\<rparr>,
       (attr ''pid_file'' String_T)\<lparr>at_computed := True\<rparr>,
       (attr ''state'' String_T)\<lparr>at_optional := True, at_computed := True\<rparr>,
       (attr ''netns'' String_T)\<lparr>at_optional := True, at_modifiers := [Requires_Replace]\<rparr>],
     sc_blocks = []\<rparr>"

definition msu_fields :: "(string \<times> go_type) list" where
  "msu_fields =
     [(''id'', Go_String), (''interval'', Go_String), (''flush_every_n'', Go_Int64),
      (''namespaces'', Go_List), (''include_env'', Go_String), (''output_file'', Go_String),
      (''config_file'', Go_String), (''pid_file'', Go_String), (''state'', Go_String),
      (''netns'', Go_String)]"

definition host_reservation_schema :: schema where
  "host_reservation_schema =
    \<lparr>sc_attributes =
      [(attr ''id'' String_T)\<lparr>at_computed := True, at_modifiers := [Use_State_For_Unknown]\<rparr>,
       (attr ''path'' String_T)
           \<lparr>at_optional := True, at_computed := True, at_default := Some (Static_String ''/var/lib/zedamigo/reservations''), at_modifiers := [Requires_Replace]\<rparr>,
       (attr ''cpus'' Int64_T)\<lparr>at_optional := True, at_modifiers := [Requires_Replace]\<rparr>,
       (attr ''mem'' Int64_T)\<lparr>at_optional := True, at_modifiers := [Requires_Replace]\<rparr>,
       (attr ''devs'' (List_T String_T))\<lparr>at_optional := True, at_modifiers := [Requires_Replace]\<rparr>,
       (attr ''cpus_reserved'' (List_T Int64_T))\<lparr>at_computed := True, at_modifiers := [Use_State_For_Unknown]\<rparr>,
       (attr ''mem_reserved'' (List_T Int64_T))\<lparr>at_computed := True, at_modifiers := [Use_State_For_Unknown]\<rparr>,
       (attr ''devs_reserved'' (List_T String_T))
           \<lparr>at_computed := True, at_modifiers := [Use_State_For_Unknown]\<rparr>,
       (attr ''cpus_reserved_count'' Int64_T)\<lparr>at_computed := True, at_modifiers := [Use_State_For_Unknown]\<rparr>,
       (attr ''mem_reserved_total_gb'' Int64_T)\<lparr>at_computed := True, at_modifiers := [Use_State_For_Unknown]\<rparr>],
     sc_blocks = []\<rparr>"

definition host_reservation_fields :: "(string \<times> go_type) list" where
  "host_reservation_fields =
     [(''id'', Go_String), (''path'', Go_String), (''cpus'', Go_Int64), (''mem'', Go_Int64),
      (''devs'', Go_List), (''cpus_reserved'', Go_List), (''mem_reserved'', Go_List),
      (''devs_reserved'', Go_List), (''cpus_reserved_count'', Go_Int64),
      (''mem_reserved_total_gb'', Go_Int64)]"

definition wait_until_schema :: schema where
  "wait_until_schema =
    \<lparr>sc_attributes =
      [(attr ''id'' String_T)\<lparr>at_computed := True, at_modifiers := [Use_State_For_Unknown]\<rparr>,
       (attr ''script'' String_T)
           \<lparr>at_required := True, at_modifiers := [Requires_Replace], at_validators := [Length_At_Least 1]\<rparr>,
       (attr ''interpreter'' (List_T String_T))\<lparr>at_optional := True, at_modifiers := [Requires_Replace]\<rparr>,
       (attr ''timeout'' String_T)
           \<lparr>at_optional := True, at_computed := True, at_default := Some (Static_String ''30m''), at_validators := [Positive_Duration]\<rparr>,
       (attr ''interval'' String_T)
           \<lparr>at_optional := True, at_computed := True, at_default := Some (Static_String ''15s''), at_validators := [Positive_Duration]\<rparr>,
       (attr ''attempt_timeout'' String_T)\<lparr>at_optional := True, at_validators := [Positive_Duration]\<rparr>,
       (attr ''triggers'' (Map_T String_T))\<lparr>at_optional := True, at_modifiers := [Requires_Replace]\<rparr>,
       (attr ''attempts'' Int64_T)\<lparr>at_computed := True, at_modifiers := [Use_State_For_Unknown]\<rparr>,
       (attr ''elapsed'' String_T)\<lparr>at_computed := True, at_modifiers := [Use_State_For_Unknown]\<rparr>,
       (attr ''stdout'' String_T)\<lparr>at_computed := True, at_modifiers := [Use_State_For_Unknown]\<rparr>,
       (attr ''stderr'' String_T)\<lparr>at_computed := True, at_modifiers := [Use_State_For_Unknown]\<rparr>,
       (attr ''script_path'' String_T)\<lparr>at_computed := True, at_modifiers := [Use_State_For_Unknown]\<rparr>],
     sc_blocks = []\<rparr>"

definition wait_until_fields :: "(string \<times> go_type) list" where
  "wait_until_fields =
     [(''id'', Go_String), (''script'', Go_String), (''interpreter'', Go_List), (''timeout'', Go_String),
      (''interval'', Go_String), (''attempt_timeout'', Go_String), (''triggers'', Go_Map),
      (''attempts'', Go_Int64), (''elapsed'', Go_String), (''stdout'', Go_String), (''stderr'', Go_String),
      (''script_path'', Go_String)]"

definition system_info_schema :: schema where
  "system_info_schema =
    \<lparr>sc_attributes =
      [(attr ''id'' String_T)\<lparr>at_computed := True\<rparr>,
       (attr ''cpus'' Int32_T)\<lparr>at_computed := True\<rparr>,
       (attr ''mem_total_bytes'' Int64_T)\<lparr>at_computed := True\<rparr>,
       (attr ''mem_used_bytes'' Int64_T)\<lparr>at_computed := True\<rparr>,
       (attr ''mem_used_percent'' Float64_T)\<lparr>at_computed := True\<rparr>],
     sc_blocks = []\<rparr>"

definition system_info_fields :: "(string \<times> go_type) list" where
  "system_info_fields =
     [(''id'', Go_String), (''cpus'', Go_Int32), (''mem_total_bytes'', Go_Int64),
      (''mem_used_bytes'', Go_Int64), (''mem_used_percent'', Go_Float64)]"

definition eve_installer_ds_schema :: schema where
  "eve_installer_ds_schema =
    \<lparr>sc_attributes =
      [(attr ''id'' String_T)\<lparr>at_computed := True\<rparr>,
       (attr ''filename'' String_T)\<lparr>at_required := True\<rparr>],
     sc_blocks = []\<rparr>"

definition eve_installer_ds_fields :: "(string \<times> go_type) list" where
  "eve_installer_ds_fields =
     [(''id'', Go_String), (''filename'', Go_String)]"

definition provider_schema :: schema where
  "provider_schema =
    \<lparr>sc_attributes =
      [(attr ''target'' String_T)\<lparr>at_optional := True\<rparr>,
       (attr ''lib_path'' String_T)\<lparr>at_optional := True\<rparr>,
       (attr ''use_sudo'' Bool_T)\<lparr>at_optional := True\<rparr>],
     sc_blocks = [ssh_schema_block ''ssh'']\<rparr>"

definition provider_fields :: "(string \<times> go_type) list" where
  "provider_fields =
     [(''target'', Go_String), (''lib_path'', Go_String), (''use_sudo'', Go_Bool),
      (''ssh'', Go_Pointer ssh_fields)]"

section \<open>The provider\<close>

text \<open>The resources and the data sources in the order of the provider, with the suffix of their type, their schema and their
  model; \<^verbatim>\<open>zedamigo_vm\<close> and \<^verbatim>\<open>zedamigo_virtual_machine\<close> are other names of the edge node.\<close>

definition provider_resources :: "(string \<times> schema \<times> (string \<times> go_type) list) list" where
  "provider_resources =
     [(''_disk_image'', disk_image_schema, disk_image_fields), (''_eve_installer'', eve_installer_schema, eve_installer_fields),
      (''_installed_edge_node'', installed_node_schema, installed_node_fields), (''_edge_node'', edge_node_schema, edge_node_fields),
      (''_vm'', edge_node_schema, edge_node_fields), (''_virtual_machine'', edge_node_schema, edge_node_fields),
      (''_swtpm'', swtpm_schema, swtpm_fields), (''_cloud_init_iso'', cloud_init_schema, cloud_init_fields),
      (''_bridge'', bridge_schema, bridge_fields), (''_tap'', tap_schema, tap_fields), (''_lag'', lag_schema, lag_fields),
      (''_vlan'', vlan_schema, vlan_fields), (''_dhcp_server'', dhcp_schema, dhcp_fields),
      (''_dhcp6_server'', dhcp6_schema, dhcp6_fields), (''_radv'', radv_schema, radv_fields),
      (''_local_datastore'', datastore_schema, datastore_fields), (''_netns'', netns_schema, netns_fields),
      (''_internet_monitor'', im_schema, im_fields), (''_monitor_system_usage'', msu_schema, msu_fields),
      (''_host_reservation'', host_reservation_schema, host_reservation_fields), (''_wait_until'', wait_until_schema, wait_until_fields)]"

definition provider_data_sources :: "(string \<times> schema \<times> (string \<times> go_type) list) list" where
  "provider_data_sources =
     [(''_system_info'', system_info_schema, system_info_fields), (''_eve_installer'', eve_installer_ds_schema, eve_installer_ds_fields)]"

lemmas schema_defs = disk_image_schema_def eve_installer_schema_def installed_node_schema_def edge_node_schema_def swtpm_schema_def
  cloud_init_schema_def bridge_schema_def tap_schema_def lag_schema_def vlan_schema_def dhcp_schema_def dhcp6_schema_def radv_schema_def
  datastore_schema_def netns_schema_def im_schema_def msu_schema_def host_reservation_schema_def wait_until_schema_def
  system_info_schema_def eve_installer_ds_schema_def provider_schema_def disk_schema_block_def ssh_schema_block_def attr_def

section \<open>Properties\<close>

text \<open>Every schema can be decoded into its model, nested blocks included: the names are the same and the types fit; and the
  names of the resources, and of the data sources, are distinct.\<close>

lemma schemas_match_models:
  "list_all (\<lambda>(n, s, fs). model_fits s fs) ((''provider'', provider_schema, provider_fields) # provider_resources @ provider_data_sources) \<and>
   distinct (map fst provider_resources) \<and> distinct (map fst provider_data_sources)"
  by code_simp

text \<open>Every attribute of every schema, also inside blocks, is required, optional or computed, never required and one of the
  others; a default belongs to a computed attribute, has its type and is one of the values its validator allows.\<close>

theorem schemas_well_formed:
  "list_all (\<lambda>(n, s, fs). schema_ok s) ((''provider'', provider_schema, provider_fields) # provider_resources @ provider_data_sources)"
  by code_simp

end
