(* ===== verification/Update_Contract.thy ===== *)
theory Update_Contract
  imports Schemas Main_Modes
begin

text \<open>
  The schemas and the Update handlers together. A schema decides which changes of the user reach Update and which attributes are
  unknown in its plan; the handlers of the daemon resources decide which of these they apply, refuse or overlook. The
  framework is not modelled: what it hands to Update is a hypothesis on the plan.
\<close>

section \<open>The values of a model by their tags\<close>

datatype any_value =
    V_String "string tfval"
  | V_Int "int tfval"
  | V_Bool "bool tfval"
  | V_Strings "string tfval list tfval"
  | V_Pool "dhcp_pool option"
  | V_Routes "dhcp_route list"
  | V_Prefixes "string tfval list"

definition dhcp_values :: "dhcp_model \<Rightarrow> (string \<times> any_value) list" where
  "dhcp_values m =
     [(''id'', V_String (ds_id m)), (''interface'', V_String (ds_interface m)), (''server_id'', V_String (ds_server_id m)),
      (''nameserver'', V_String (ds_name_server m)), (''router'', V_String (ds_router m)), (''netmask'', V_String (ds_netmask m)),
      (''pool'', V_Pool (ds_pool m)), (''lease_time'', V_Int (ds_lease_time m)), (''static_route'', V_Routes (ds_static_routes m)),
      (''leases_file'', V_String (ds_leases_file m)), (''config_file'', V_String (ds_config_file m)),
      (''pid_file'', V_String (ds_pid_file m)), (''state'', V_String (ds_state m)), (''netns'', V_String (ds_netns m))]"

definition dhcp6_values :: "dhcp6_model \<Rightarrow> (string \<times> any_value) list" where
  "dhcp6_values m =
     [(''id'', V_String (d6_id m)), (''interface'', V_String (d6_interface m)), (''server_id'', V_String (d6_server_id m)),
      (''prefix'', V_String (d6_prefix m)), (''nameserver'', V_String (d6_name_server m)), (''pool'', V_Pool (d6_pool m)),
      (''lease_time'', V_Int (d6_lease_time m)), (''leases_file'', V_String (d6_leases_file m)),
      (''config_file'', V_String (d6_config_file m)), (''pid_file'', V_String (d6_pid_file m)), (''state'', V_String (d6_state m))]"

definition radv_values :: "radv_model \<Rightarrow> (string \<times> any_value) list" where
  "radv_values m =
     [(''id'', V_String (ra_id m)), (''interface'', V_String (ra_interface m)), (''prefix'', V_String (ra_prefix m)),
      (''route'', V_Prefixes (ra_routes m)), (''prefix_on_link'', V_Bool (ra_prefix_on_link m)),
      (''prefix_autonomous'', V_Bool (ra_prefix_autonomous m)), (''prefix_valid_lifetime'', V_Int (ra_valid_lifetime m)),
      (''prefix_preferred_lifetime'', V_Int (ra_preferred_lifetime m)), (''dns_servers'', V_String (ra_dns_servers m)),
      (''managed_config'', V_Bool (ra_managed_config m)), (''other_config'', V_Bool (ra_other_config m)),
      (''router_lifetime'', V_Int (ra_router_lifetime m)), (''max_interval'', V_Int (ra_max_interval m)),
      (''min_interval'', V_Int (ra_min_interval m)), (''hop_limit'', V_Int (ra_hop_limit m)),
      (''config_file'', V_String (ra_config_file m)), (''pid_file'', V_String (ra_pid_file m)), (''state'', V_String (ra_state m))]"

definition datastore_values :: "datastore_model \<Rightarrow> (string \<times> any_value) list" where
  "datastore_values m =
     [(''id'', V_String (ld_id m)), (''listen'', V_String (ld_listen m)), (''static_dir'', V_String (ld_static_dir m)),
      (''bw_limit'', V_String (ld_bw_limit m)), (''username'', V_String (ld_username m)), (''password'', V_String (ld_password m)),
      (''pid_file'', V_String (ld_pid_file m)), (''state'', V_String (ld_state m))]"

definition im_values :: "im_model \<Rightarrow> (string \<times> any_value) list" where
  "im_values m =
     [(''id'', V_String (im_id m)), (''destinations'', V_Strings (im_destinations m)), (''interval'', V_String (im_interval m)),
      (''ping_count'', V_Int (im_ping_count m)), (''ping_timeout'', V_String (im_ping_timeout m)),
      (''dns_timeout'', V_String (im_dns_timeout m)), (''http_timeout'', V_String (im_http_timeout m)),
      (''doh_endpoint'', V_String (im_doh_endpoint m)), (''flush_every_n'', V_Int (im_flush_every_n m)),
      (''privileged_icmp'', V_Bool (im_privileged_icmp m)), (''output_file'', V_String (im_output_file m)),
      (''config_file'', V_String (im_config_file m)), (''pid_file'', V_String (im_pid_file m)), (''state'', V_String (im_state m)),
      (''netns'', V_String (im_netns m))]"

definition msu_values :: "msu_model \<Rightarrow> (string \<times> any_value) list" where
  "msu_values m =
     [(''id'', V_String (mu_id m)), (''interval'', V_String (mu_interval m)), (''flush_every_n'', V_Int (mu_flush_every_n m)),
      (''namespaces'', V_Strings (mu_namespaces m)), (''include_env'', V_String (mu_include_env m)),
      (''output_file'', V_String (mu_output_file m)), (''config_file'', V_String (mu_config_file m)),
      (''pid_file'', V_String (mu_pid_file m)), (''state'', V_String (mu_state m)), (''netns'', V_String (mu_netns m))]"

text \<open>The tags are those of the structs.\<close>

lemma values_tags:
  "map fst (dhcp_values a) = map fst dhcp_fields" "map fst (dhcp6_values b) = map fst dhcp6_fields"
  "map fst (radv_values c) = map fst radv_fields" "map fst (datastore_values d) = map fst datastore_fields"
  "map fst (im_values e) = map fst im_fields" "map fst (msu_values f) = map fst msu_fields"
  by (simp_all add: dhcp_values_def dhcp_fields_def dhcp6_values_def dhcp6_fields_def radv_values_def radv_fields_def
      datastore_values_def datastore_fields_def im_values_def im_fields_def msu_values_def msu_fields_def)

text \<open>The user asks for a change of something that is not the state attribute and that does not force a replacement.\<close>

definition config_differs :: "schema \<Rightarrow> (string \<times> any_value) list \<Rightarrow> (string \<times> any_value) list \<Rightarrow> bool" where
  "config_differs s plan st \<longleftrightarrow> list_ex (\<lambda>n. n \<noteq> ''state'' \<and> map_of plan n \<noteq> map_of st n) (in_place s)"

section \<open>The tables\<close>

lemma in_place_daemons:
  "in_place dhcp_schema = [''interface'', ''server_id'', ''nameserver'', ''router'', ''netmask'', ''lease_time'', ''state'', ''pool'', ''static_route'']"
  "in_place dhcp6_schema = [''interface'', ''server_id'', ''prefix'', ''nameserver'', ''lease_time'', ''state'', ''pool'']"
  "in_place radv_schema =
     [''prefix_on_link'', ''prefix_autonomous'', ''prefix_valid_lifetime'', ''prefix_preferred_lifetime'', ''dns_servers'',
      ''managed_config'', ''other_config'', ''router_lifetime'', ''max_interval'', ''min_interval'', ''hop_limit'', ''state'']"
  "in_place datastore_schema = [''listen'', ''static_dir'', ''bw_limit'', ''username'', ''password'', ''state'']"
  "in_place im_schema =
     [''destinations'', ''interval'', ''ping_count'', ''ping_timeout'', ''dns_timeout'', ''http_timeout'', ''doh_endpoint'',
      ''flush_every_n'', ''privileged_icmp'', ''output_file'', ''state'']"
  "in_place msu_schema = [''interval'', ''flush_every_n'', ''namespaces'', ''include_env'', ''output_file'', ''state'']"
  by code_simp+

text \<open>What the other handlers rely on, or say: a bond is changed in place by these attributes alone, of a TPM only the state, of a
  wait only the durations; every input of a reservation and the name of a namespace force a replacement.\<close>

lemma in_place_others:
  "in_place lag_schema = [''mtu'', ''state'', ''mac_address'', ''ipv4_address'', ''ipv6_address'', ''enslaved_interfaces'']"
  "in_place swtpm_schema = [''state'']"
  "in_place wait_until_schema = [''timeout'', ''interval'', ''attempt_timeout'']"
  "unknown_in_update wait_until_schema = []"
  "in_place host_reservation_schema = []"
  "in_place netns_schema = []"
  by code_simp+

text \<open>These resources refuse every update, and still let the user ask for one.\<close>

lemma in_place_unsupported:
  "in_place bridge_schema = [''mtu'', ''state'', ''mac_address'', ''ipv4_address'', ''ipv6_address'']"
  "in_place tap_schema = [''mtu'', ''state'', ''owner'', ''group'', ''master'', ''ipv4_address'']"
  "in_place vlan_schema = [''vlan_id'', ''mtu'', ''state'', ''parent'', ''mac_address'', ''ipv4_address'', ''ipv6_address'']"
  "in_place disk_image_schema = [''name'', ''size_mb'']"
  "in_place cloud_init_schema = [''name'', ''user_data'', ''meta_data'', ''network_config'']"
  by code_simp+

lemma always_unknown_daemons:
  "always_unknown dhcp_schema = [''leases_file'', ''config_file'', ''pid_file'']"
  "always_unknown dhcp6_schema = [''leases_file'', ''config_file'', ''pid_file'']"
  "always_unknown radv_schema = [''config_file'', ''pid_file'']"
  "always_unknown datastore_schema = [''pid_file'']"
  "always_unknown im_schema = [''config_file'', ''pid_file'']"
  "always_unknown msu_schema = [''config_file'', ''pid_file'']"
  by code_simp+

lemma equal_static_routes_eq: "equal_static_routes a b \<longleftrightarrow> a = b"
proof -
  have "list_all2 (\<lambda>x y. ro_to x = ro_to y \<and> ro_via x = ro_via y) a b \<longleftrightarrow> list_all2 (=) a b"
    by (rule arg_cong [where f = "\<lambda>P. list_all2 P a b"]) (auto simp: fun_eq_iff)
  then show ?thesis by (auto simp: equal_static_routes_def list_all2_eq [symmetric] dest: list_all2_lengthD)
qed

section \<open>What an update leaves of the plan\<close>

lemma update_result:
  assumes "run_state (bindE m (\<lambda>s. read_or_fail (bindE (k s) (\<lambda>x. okE (g s x))) t)) w = (Inr r, w')"
  shows "\<exists>s x. r = g s x"
  using assms by (auto simp: read_or_fail_def mapE_def split: sum.splits prod.splits)

lemma update_ok:
  "run_state (if b then failE e else m) w = (Inr r, w') \<Longrightarrow> run_state m w = (Inr r, w')"
  by (auto split: if_splits)

text \<open>The result of a successful update: the plan, for the monitors with the files of the state, and the state that was read.\<close>

lemma monitor_update_results:
  "run_state (im_update fd conf p st) w = (Inr m, w') \<Longrightarrow>
     \<exists>x. m = p\<lparr>im_config_file := im_config_file st, im_pid_file := im_pid_file st, im_output_file := im_output_file st, im_state := x\<rparr>"
  "run_state (msu_update fd conf q su) w = (Inr n, w') \<Longrightarrow>
     \<exists>x. n = q\<lparr>mu_config_file := mu_config_file su, mu_pid_file := mu_pid_file su, mu_output_file := mu_output_file su, mu_state := x\<rparr>"
proof -
  assume "run_state (im_update fd conf p st) w = (Inr m, w')"
  from update_ok [OF this [unfolded im_update_def Let_def read_im_def], THEN update_result]
  show "\<exists>x. m = p\<lparr>im_config_file := im_config_file st, im_pid_file := im_pid_file st, im_output_file := im_output_file st, im_state := x\<rparr>"
    by auto
next
  assume "run_state (msu_update fd conf q su) w = (Inr n, w')"
  from update_ok [OF this [unfolded msu_update_def Let_def read_msu_def], THEN update_result]
  show "\<exists>x. n = q\<lparr>mu_config_file := mu_config_file su, mu_pid_file := mu_pid_file su, mu_output_file := mu_output_file su, mu_state := x\<rparr>"
    by auto
qed

lemma dhcp_update_result:
  assumes "run_state (dhcp_update fd conf p st) w = (Inr m, w')"
  shows "\<exists>x. m = p\<lparr>ds_state := x\<rparr>"
proof -
  obtain pp sp where "ds_pool p = Some pp" and "ds_pool st = Some sp"
    using assms by (cases "ds_pool p"; cases "ds_pool st") (simp_all add: dhcp_update_def Let_def)
  with assms have "run_state (bindE (if ds_state p = ds_state st then okE (ds_state p)
        else change_state (ds_state p) (start_dhcp_server fd conf (dhcp_dir conf (tf_string (ds_id st))) p)
               (stop_dhcp_server (pc_exec conf) (dhcp_dir conf (tf_string (ds_id st)))) ''DHCPServer Resource Update Error'' ''DHCP server'')
      (\<lambda>s. read_or_fail (read_dhcp_server fd conf (dhcp_dir conf (tf_string (ds_id st))) (p\<lparr>ds_state := s\<rparr>))
             ''Failed to read DHCPServer state after update'')) w = (Inr m, w')"
    unfolding dhcp_update_def Let_def by (auto split: if_splits)
  from update_result [OF this [unfolded read_dhcp_server_def]] show ?thesis by auto
qed

lemma dhcp6_update_result:
  assumes "run_state (dhcp6_update fd conf p st) w = (Inr m, w')"
  shows "\<exists>x. m = p\<lparr>d6_state := x\<rparr>"
proof -
  obtain pp sp where "d6_pool p = Some pp" and "d6_pool st = Some sp"
    using assms by (cases "d6_pool p"; cases "d6_pool st") (simp_all add: dhcp6_update_def Let_def)
  with assms have "run_state (bindE (if d6_state p = d6_state st then okE (d6_state p)
        else change_state (d6_state p) (start_dhcp6_server fd conf (dhcp6_dir conf (tf_string (d6_id st))) p)
               (stop_dhcp6_server (pc_exec conf) (dhcp6_dir conf (tf_string (d6_id st)))) ''DHCP6Server Resource Update Error'' ''DHCPv6 server'')
      (\<lambda>s. read_or_fail (read_dhcp6_server fd conf (dhcp6_dir conf (tf_string (d6_id st))) (p\<lparr>d6_state := s\<rparr>))
             ''Failed to read DHCP6Server state after update'')) w = (Inr m, w')"
    unfolding dhcp6_update_def Let_def by (auto split: if_splits)
  from update_result [OF this [unfolded read_dhcp6_server_def]] show ?thesis by auto
qed

lemma radv_update_result: "run_state (radv_update fd conf p st) w = (Inr m, w') \<Longrightarrow> \<exists>x. m = p\<lparr>ra_state := x\<rparr>"
  unfolding radv_update_def Let_def read_radv_def by (drule update_result) auto

lemma datastore_update_result: "run_state (datastore_update fd conf p st) w = (Inr m, w') \<Longrightarrow> \<exists>x. m = p\<lparr>ld_state := x\<rparr>"
  unfolding datastore_update_def Let_def read_datastore_def by (drule update_result) auto

section \<open>The calls of an update\<close>

text \<open>All calls that \<open>m\<close> makes satisfy \<open>P\<close>, whatever the target answers.\<close>

definition only_calls :: "('c \<Rightarrow> bool) \<Rightarrow> ('w \<times> 'c list, 'a) state \<Rightarrow> bool" where
  "only_calls P m \<longleftrightarrow>
     (\<forall>w h r w' h'. run_state m (w, h) = (r, (w', h')) \<longrightarrow> (\<exists>cs. h' = h @ cs \<and> list_all P cs))"

named_theorems only_intros "what composed actions call"

lemma only_return [only_intros]: "only_calls P (State_Monad.return r)"
  by (simp add: only_calls_def)

lemma only_log [only_intros]: "P c \<Longrightarrow> only_calls P (log_call c m)"
  by (auto simp: only_calls_def Let_def split: prod.splits)

lemma only_bind [only_intros]:
  assumes "only_calls P m" and "\<And>r. only_calls P (f r)"
  shows "only_calls P (State_Monad.bind m f)"
  unfolding only_calls_def
proof (intro allI impI)
  fix w h r w' h'
  assume run: "run_state (State_Monad.bind m f) (w, h) = (r, (w', h'))"
  obtain x v g where m: "run_state m (w, h) = (x, (v, g))" by (metis surj_pair)
  then obtain cs where cs: "g = h @ cs" "list_all P cs" using assms(1) unfolding only_calls_def by blast
  from m run have "run_state (f x) (v, g) = (r, (w', h'))" by simp
  then obtain ds where "h' = g @ ds" "list_all P ds" using assms(2) unfolding only_calls_def by blast
  with cs show "\<exists>cs. h' = h @ cs \<and> list_all P cs" by (intro exI [of _ "cs @ ds"]) simp
qed

lemma only_if [only_intros]: "only_calls P m \<Longrightarrow> only_calls P n \<Longrightarrow> only_calls P (if b then m else n)"
  by simp

lemma only_option [only_intros]:
  "only_calls P m \<Longrightarrow> (\<And>x. only_calls P (f x)) \<Longrightarrow> only_calls P (case r of None \<Rightarrow> m | Some x \<Rightarrow> f x)"
  by (cases r) simp_all

lemma only_sum [only_intros]:
  "(\<And>x. only_calls P (g x)) \<Longrightarrow> (\<And>x. only_calls P (f x)) \<Longrightarrow> only_calls P (case r of Inl x \<Rightarrow> g x | Inr x \<Rightarrow> f x)"
  by (cases r) simp_all

lemma only_prod [only_intros]: "(\<And>x y. only_calls P (f x y)) \<Longrightarrow> only_calls P (case r of (x, y) \<Rightarrow> f x y)"
  by (cases r) simp

lemma only_bindE [only_intros]: "only_calls P m \<Longrightarrow> (\<And>r. only_calls P (f r)) \<Longrightarrow> only_calls P (bindE m f)"
  unfolding bindE_def by (intro only_intros)

text \<open>What a call starts, when \<open>pre\<close> are the arguments before those of the binary.\<close>

definition started_plan :: "string list \<Rightarrow> call \<Rightarrow> (string \<times> main_mode) option" where
  "started_plan pre c = (case c of CDetached d cmd args \<Rightarrow> Some (main_plan (drop (length pre) args)) | _ \<Rightarrow> None)"

text \<open>Every process that is started ends at once.\<close>

definition exits_at_once :: "string list \<Rightarrow> call \<Rightarrow> bool" where
  "exits_at_once pre c \<longleftrightarrow> (case started_plan pre c of None \<Rightarrow> True | Some pl \<Rightarrow> pl = ([], Main_Exit 1))"

text \<open>Every process that is started is started by \<open>self\<close>, with arguments that \<^verbatim>\<open>main\<close> takes for \<open>plan\<close>.\<close>

definition starts_only :: "string \<Rightarrow> string \<times> string list \<Rightarrow> string \<times> main_mode \<Rightarrow> call \<Rightarrow> bool" where
  "starts_only d self plan c \<longleftrightarrow>
     (case c of
        CDetached d' cmd all \<Rightarrow>
          d' = d \<and> cmd = fst self \<and> take (length (snd self)) all = snd self \<and> main_plan (drop (length (snd self)) all) = plan
      | CRun d' cmd all \<Rightarrow> False
      | _ \<Rightarrow> True)"

text \<open>Both allow to look for a process and to end it.\<close>

definition allows_looks :: "(call \<Rightarrow> bool) \<Rightarrow> bool" where
  "allows_looks P \<longleftrightarrow> (\<forall>p i x g. P (CStat p) \<and> P (CRead p) \<and> P (CIsRunning i x) \<and> P (CKill i g))"

lemma allows_looksD:
  "allows_looks P \<Longrightarrow> P (CStat p)" "allows_looks P \<Longrightarrow> P (CRead p)" "allows_looks P \<Longrightarrow> P (CIsRunning i x)"
  "allows_looks P \<Longrightarrow> P (CKill i g)"
  by (simp_all add: allows_looks_def)

lemma looks_allowed: "allows_looks (exits_at_once pre)" "allows_looks (starts_only d self plan)"
  by (simp_all add: allows_looks_def exits_at_once_def started_plan_def starts_only_def)

lemma only_read_pid:
  assumes "allows_looks P"
  shows "only_calls P (read_pid wrap (traced ex) p exe)"
  unfolding read_pid_def traced_simps Let_def by (intro only_intros allows_looksD [OF assms])

lemma only_stop:
  assumes "allows_looks P" and "only_calls P rd"
  shows "only_calls P (stop_process (traced ex) rd what)"
  unfolding stop_process_def traced_simps Let_def by (intro only_intros allows_looksD [OF assms(1)] assms(2))

lemma only_reconcile:
  assumes "allows_looks P" and "only_calls P rd" "only_calls P start" "only_calls P stop"
  shows "only_calls P (reconcile (traced ex) d st rd start stop what)"
  unfolding reconcile_def traced_simps Let_def by (intro only_intros allows_looksD [OF assms(1)] assms(2-))

lemma only_start_self:
  assumes "P (CDetached d (fst self) (snd self @ args))"
  shows "only_calls P (let (cmd, pre) = self in start_detached fd (traced ex) d cmd (pre @ args) what)"
proof (cases self)
  case (Pair cmd pre)
  show ?thesis
    unfolding Pair start_detached_def traced_simps Let_def prod.case using assms unfolding Pair
    by (intro only_intros) simp
qed

lemma exits_start:
  assumes "main_plan args = ([], Main_Exit 1)"
  shows "only_calls (exits_at_once (snd self)) (let (cmd, pre) = self in start_detached fd (traced ex) d cmd (pre @ args) what)"
  by (rule only_start_self) (simp add: assms exits_at_once_def started_plan_def)

lemma starts_only_start:
  assumes "main_plan args = plan"
  shows "only_calls (starts_only d self plan) (let (cmd, pre) = self in start_detached fd (traced ex) d cmd (pre @ args) what)"
  by (rule only_start_self) (simp add: assms starts_only_def)

lemma only_change_state [only_intros]:
  "only_calls P start \<Longrightarrow> only_calls P stop \<Longrightarrow> only_calls P (change_state st start stop t what)"
  unfolding change_state_def orE_def Let_def by (intro only_intros)

lemma only_read_or_fail [only_intros]: "only_calls P m \<Longrightarrow> only_calls P (read_or_fail m t)"
  unfolding read_or_fail_def mapE_def by (intro only_intros)

lemma self_command_traced: "self_command (traced_conf conf) n = self_command conf n"
  unfolding self_command_def traced_conf_simps traced_simps ..

lemma starts_exit:
  "tf_string (ds_config_file p1) = [] \<Longrightarrow> tf_string (ds_pid_file p1) = [] \<Longrightarrow> known_string (ds_netns p1) = n \<Longrightarrow>
     only_calls (exits_at_once (snd (self_command conf n))) (start_dhcp_server fd (traced_conf conf) d p1)"
  "tf_string (d6_config_file p2) = [] \<Longrightarrow> tf_string (d6_pid_file p2) = [] \<Longrightarrow>
     only_calls (exits_at_once (snd (self_command conf []))) (start_dhcp6_server fd (traced_conf conf) d p2)"
  "tf_string (ra_config_file p3) = [] \<Longrightarrow> tf_string (ra_pid_file p3) = [] \<Longrightarrow>
     only_calls (exits_at_once (snd (self_command conf []))) (start_radv fd (traced_conf conf) d p3)"
  unfolding start_dhcp_server_def start_dhcp6_server_def start_radv_def self_command_traced traced_conf_simps
  by (simp only:, rule exits_start, simp add: mode_simps config_mode_def, (rule exits_start, simp add: mode_simps config_mode_def)+)

lemma stops_exit:
  "only_calls (exits_at_once pre) (stop_dhcp_server (traced ex) d)"
  "only_calls (exits_at_once pre) (stop_dhcp6_server (traced ex) d)"
  "only_calls (exits_at_once pre) (stop_radv (traced ex) d)"
  unfolding stop_dhcp_server_def stop_dhcp6_server_def stop_radv_def read_dhcp_server_pid_def read_dhcp6_server_pid_def read_radv_pid_def
  by (intro only_stop only_read_pid looks_allowed)+

text \<open>The monitors start themselves on their files.\<close>

definition im_plan :: "im_model \<Rightarrow> string \<times> main_mode" where
  "im_plan m = (tf_string (im_pid_file m), config_mode Internet_Monitor_Mode (tf_string (im_config_file m)))"

definition msu_plan :: "msu_model \<Rightarrow> string \<times> main_mode" where
  "msu_plan m = (tf_string (mu_pid_file m), config_mode Msu_Mode (tf_string (mu_config_file m)))"

lemma monitors_start:
  "im_plan p1 = pl \<Longrightarrow> known_string (im_netns p1) = n \<Longrightarrow>
     only_calls (starts_only d (self_command conf n) pl) (start_im fd (traced_conf conf) d p1)"
  "msu_plan p2 = pl \<Longrightarrow> known_string (mu_netns p2) = n \<Longrightarrow>
     only_calls (starts_only d (self_command conf n) pl) (start_msu fd (traced_conf conf) d p2)"
  unfolding start_im_def start_msu_def self_command_traced traced_conf_simps im_plan_def msu_plan_def
  by (simp only:, rule starts_only_start, simp add: mode_simps)+

lemma monitors_stop:
  "only_calls (starts_only d' self pl) (stop_im (traced ex) d)"
  "only_calls (starts_only d' self pl) (stop_msu (traced ex) d)"
  unfolding stop_im_def stop_msu_def read_im_pid_def read_msu_pid_def
  by (intro only_stop only_read_pid looks_allowed)+

section \<open>Properties\<close>

text \<open>Models for the witnesses: their daemons run, with the PID 1.\<close>

definition sample_radv :: radv_model where
  "sample_radv =
     \<lparr>ra_id = TKnown ''a'', ra_interface = TKnown ''br0'', ra_prefix = TKnown ''fd00::/64'', ra_routes = [],
      ra_prefix_on_link = TKnown True, ra_prefix_autonomous = TKnown True, ra_valid_lifetime = TKnown 86400,
      ra_preferred_lifetime = TKnown 14400, ra_dns_servers = TNull, ra_managed_config = TKnown False,
      ra_other_config = TKnown False, ra_router_lifetime = TKnown 1800, ra_max_interval = TKnown 600,
      ra_min_interval = TKnown 200, ra_hop_limit = TKnown 64, ra_config_file = TKnown ''c'', ra_pid_file = TKnown ''p'',
      ra_state = TKnown ''running''\<rparr>"

definition sample_im :: im_model where
  "sample_im =
     \<lparr>im_id = TKnown ''a'', im_destinations = TKnown [TKnown ''example.org''], im_interval = TKnown ''60s'', im_ping_count = TKnown 5,
      im_ping_timeout = TKnown ''5s'', im_dns_timeout = TKnown ''5s'', im_http_timeout = TKnown ''10s'',
      im_doh_endpoint = TKnown ''https://dns.quad9.net/dns-query'', im_flush_every_n = TKnown 1, im_privileged_icmp = TKnown False,
      im_output_file = TKnown ''o'', im_config_file = TKnown ''c'', im_pid_file = TKnown ''p'', im_state = TKnown ''running'',
      im_netns = TNull\<rparr>"

definition sample_msu :: msu_model where
  "sample_msu =
     \<lparr>mu_id = TKnown ''a'', mu_interval = TKnown ''10s'', mu_flush_every_n = TKnown 6, mu_namespaces = TNull,
      mu_include_env = TKnown ''filtered'', mu_output_file = TKnown ''o'', mu_config_file = TKnown ''c'', mu_pid_file = TKnown ''p'',
      mu_state = TKnown ''running'', mu_netns = TNull\<rparr>"

lemma pid_1: "parse_pid (trim_space (itoa 1)) = Inr 1"
  by (simp add: trim_space_itoa parse_pid_itoa valid_pid_def)

abbreviation busy_lab :: lab where
  "busy_lab \<equiv> sample_lab\<lparr>lb_files := (\<lambda>_. Some (itoa 1))\<rparr>"

text \<open>There a Read leaves everything as it is.\<close>

lemma reconcile_busy:
  "run_state (reconcile (lab_executor b) d (TKnown ''running'') (read_pid w (lab_executor b) p exe) start stop what) busy_lab =
     (Inr ''running'', busy_lab)"
  by (simp add: reconcile_def dir_missing_def run_read_pid_lab pid_1 sample_lab_def desired_state_def state_of_def)


text \<open>C7: The configuration that Update compares is, for each daemon resource with such a test, exactly what the schema lets the
  user change in place, the state apart: no change of the configuration gets past the test, and nothing else fails it.\<close>

theorem updates_compare_configuration:
  "dhcp_config_changed (p1\<lparr>ds_pool := Some pp\<rparr>) pp (s1\<lparr>ds_pool := Some sp\<rparr>) sp =
     config_differs dhcp_schema (dhcp_values (p1\<lparr>ds_pool := Some pp\<rparr>)) (dhcp_values (s1\<lparr>ds_pool := Some sp\<rparr>)) \<and>
   dhcp6_config_changed (p2\<lparr>d6_pool := Some pp\<rparr>) pp (s2\<lparr>d6_pool := Some sp\<rparr>) sp =
     config_differs dhcp6_schema (dhcp6_values (p2\<lparr>d6_pool := Some pp\<rparr>)) (dhcp6_values (s2\<lparr>d6_pool := Some sp\<rparr>)) \<and>
   datastore_config_changed p3 s3 = config_differs datastore_schema (datastore_values p3) (datastore_values s3) \<and>
   im_config_changed p4 s4 = config_differs im_schema (im_values p4) (im_values s4) \<and>
   msu_config_changed p5 s5 = config_differs msu_schema (msu_values p5) (msu_values s5)"
proof (intro conjI)
  show "dhcp_config_changed (p1\<lparr>ds_pool := Some pp\<rparr>) pp (s1\<lparr>ds_pool := Some sp\<rparr>) sp =
     config_differs dhcp_schema (dhcp_values (p1\<lparr>ds_pool := Some pp\<rparr>)) (dhcp_values (s1\<lparr>ds_pool := Some sp\<rparr>))"
    unfolding dhcp_config_changed_def config_differs_def in_place_daemons dhcp_values_def
    by (simp add: equal_static_routes_eq) (auto intro: dhcp_pool.equality)
next
  show "dhcp6_config_changed (p2\<lparr>d6_pool := Some pp\<rparr>) pp (s2\<lparr>d6_pool := Some sp\<rparr>) sp =
     config_differs dhcp6_schema (dhcp6_values (p2\<lparr>d6_pool := Some pp\<rparr>)) (dhcp6_values (s2\<lparr>d6_pool := Some sp\<rparr>))"
    unfolding dhcp6_config_changed_def config_differs_def in_place_daemons dhcp6_values_def
    by simp (auto intro: dhcp_pool.equality)
qed (unfold datastore_config_changed_def im_config_changed_def msu_config_changed_def config_differs_def in_place_daemons
    datastore_values_def im_values_def msu_values_def, simp_all)

text \<open>C10: The monitors restore the files that are always unknown in the plan of an update from the state before they start
  anything: whatever the plan has there and whatever the target answers, every process that an update of a monitor starts is
  the monitor in its own directory and namespace, with the PID file and the configuration of the state. An update that
  succeeds ends with these files, and with the attributes of the plan otherwise.\<close>

theorem monitors_keep_files:
  assumes "run_state (im_update fd (traced_conf conf) p st) w = (Inr m, w')" and "run_state (msu_update fd (traced_conf conf) q su) v = (Inr n, v')"
  shows "only_calls (starts_only (im_dir conf (tf_string (im_id st))) (self_command conf (known_string (im_netns p))) (im_plan st))
      (im_update fd (traced_conf conf) p st) \<and>
    only_calls (starts_only (msu_dir conf (tf_string (mu_id su))) (self_command conf (known_string (mu_netns q))) (msu_plan su))
      (msu_update fd (traced_conf conf) q su) \<and>
    list_all (\<lambda>k. map_of (im_values m) k = map_of (im_values st) k) (always_unknown im_schema) \<and>
    list_all (\<lambda>k. map_of (msu_values n) k = map_of (msu_values su) k) (always_unknown msu_schema) \<and>
    \<not> config_differs im_schema (im_values m) (im_values p) \<and> \<not> config_differs msu_schema (msu_values n) (msu_values q)"
proof (intro conjI)
  have dirs: "im_dir (traced_conf conf) i = im_dir conf i" "msu_dir (traced_conf conf) i = msu_dir conf i" for i
    by (simp_all add: im_dir_def msu_dir_def)
  show "only_calls (starts_only (im_dir conf (tf_string (im_id st))) (self_command conf (known_string (im_netns p))) (im_plan st))
      (im_update fd (traced_conf conf) p st)"
    unfolding im_update_def read_im_def read_im_pid_def Let_def traced_conf_simps dirs
    by (intro only_intros only_reconcile only_read_pid looks_allowed monitors_stop monitors_start) (simp_all add: im_plan_def)
  show "only_calls (starts_only (msu_dir conf (tf_string (mu_id su))) (self_command conf (known_string (mu_netns q))) (msu_plan su))
      (msu_update fd (traced_conf conf) q su)"
    unfolding msu_update_def read_msu_def read_msu_pid_def Let_def traced_conf_simps dirs
    by (intro only_intros only_reconcile only_read_pid looks_allowed monitors_stop monitors_start) (simp_all add: msu_plan_def)
  have changed: "\<not> im_config_changed p st" "\<not> msu_config_changed q su"
    using assms unfolding im_update_def msu_update_def Let_def by (auto split: if_splits)
  note facts = changed monitor_update_results(1) [OF assms(1)] monitor_update_results(2) [OF assms(2)]
  note defs = always_unknown_daemons config_differs_def in_place_daemons im_values_def msu_values_def im_config_changed_def msu_config_changed_def
  show "list_all (\<lambda>k. map_of (im_values m) k = map_of (im_values st) k) (always_unknown im_schema)" and
    "list_all (\<lambda>k. map_of (msu_values n) k = map_of (msu_values su) k) (always_unknown msu_schema)" and
    "\<not> config_differs im_schema (im_values m) (im_values p)" and "\<not> config_differs msu_schema (msu_values n) (msu_values q)"
    using facts by (auto simp: defs)
qed

text \<open>Two monitors that are stopped and are to run, with unknown files in the plan: each is started on the files of the state.\<close>

theorem monitors_keep_files_witness:
  "\<exists>m n l k h g. run_state (im_update (\<lambda>_. []) (traced_conf (sample_conf (lab_executor False))) (sample_im\<lparr>im_pid_file := TUnknown, im_config_file := TUnknown\<rparr>)
       (sample_im\<lparr>im_state := TKnown ''stopped''\<rparr>)) (sample_lab, []) = (Inr m, (l, h)) \<and>
     run_state (msu_update (\<lambda>_. []) (traced_conf (sample_conf (lab_executor False))) (sample_msu\<lparr>mu_pid_file := TUnknown, mu_config_file := TUnknown\<rparr>)
       (sample_msu\<lparr>mu_state := TKnown ''stopped''\<rparr>)) (sample_lab, []) = (Inr n, (k, g)) \<and>
     map_of (im_values m) ''pid_file'' = Some (V_String (TKnown ''p'')) \<and> map_of (msu_values n) ''pid_file'' = Some (V_String (TKnown ''p'')) \<and>
     (\<exists>d cmd args. CDetached d cmd args \<in> set h) \<and>
     list_all (starts_only (im_dir (sample_conf (lab_executor False)) ''a'') (self_command (sample_conf (lab_executor False)) [])
       (''p'', Internet_Monitor_Mode ''c'')) h \<and>
     (\<exists>d cmd args. CDetached d cmd args \<in> set g) \<and>
     list_all (starts_only (msu_dir (sample_conf (lab_executor False)) ''a'') (self_command (sample_conf (lab_executor False)) [])
       (''p'', Msu_Mode ''c'')) g"
proof -
  let ?c = "sample_conf (lab_executor False)"
  let ?p = "sample_im\<lparr>im_pid_file := TUnknown, im_config_file := TUnknown\<rparr>" and ?st = "sample_im\<lparr>im_state := TKnown ''stopped''\<rparr>"
  let ?q = "sample_msu\<lparr>mu_pid_file := TUnknown, mu_config_file := TUnknown\<rparr>" and ?su = "sample_msu\<lparr>mu_state := TKnown ''stopped''\<rparr>"
  note defs = Let_def start_detached_def read_or_fail_def mapE_def change_state_def planned_state_def
    reconcile_def dir_missing_def read_pid_def desired_state_def orE_def sample_lab_def
  obtain m l h where im: "run_state (im_update (\<lambda>_. []) (traced_conf ?c) ?p ?st) (sample_lab, []) = (Inr m, (l, h))"
    and h: "\<exists>d cmd args. CDetached d cmd args \<in> set h"
  proof (cases "self_command ?c []")
    case (Pair cmd pre)
    show ?thesis
      by (rule that) (simp add: im_update_def im_config_changed_def read_im_def read_im_pid_def start_im_def sample_im_def
        known_string_def self_command_traced Pair defs, force)
  qed
  obtain n k g where msu: "run_state (msu_update (\<lambda>_. []) (traced_conf ?c) ?q ?su) (sample_lab, []) = (Inr n, (k, g))"
    and g: "\<exists>d cmd args. CDetached d cmd args \<in> set g"
  proof (cases "self_command ?c []")
    case (Pair cmd pre)
    show ?thesis
      by (rule that) (simp add: msu_update_def msu_config_changed_def read_msu_def read_msu_pid_def start_msu_def sample_msu_def
        known_string_def self_command_traced Pair defs, force)
  qed
  have plans: "im_plan ?st = (''p'', Internet_Monitor_Mode ''c'')" "msu_plan ?su = (''p'', Msu_Mode ''c'')"
    "known_string (im_netns ?p) = []" "known_string (mu_netns ?q) = []" "tf_string (im_id ?st) = ''a''" "tf_string (mu_id ?su) = ''a''"
    by (simp_all add: im_plan_def msu_plan_def config_mode_def known_string_def sample_im_def sample_msu_def)
  note kept = monitors_keep_files [OF im msu, unfolded plans]
  have "list_all (starts_only (im_dir ?c ''a'') (self_command ?c []) (''p'', Internet_Monitor_Mode ''c'')) h"
    "list_all (starts_only (msu_dir ?c ''a'') (self_command ?c []) (''p'', Msu_Mode ''c'')) g"
    using kept im msu unfolding only_calls_def by fastforce+
  moreover have "map_of (im_values m) ''pid_file'' = Some (V_String (TKnown ''p''))" "map_of (msu_values n) ''pid_file'' = Some (V_String (TKnown ''p''))"
    using kept by (simp_all add: always_unknown_daemons im_values_def msu_values_def sample_im_def sample_msu_def)
  ultimately show ?thesis using im h msu g by blast
qed

text \<open>C8: The DHCP servers and the router advertisement daemon take these files from the plan, where they are unknown: a process
  that an update starts gets neither a PID file nor a configuration and exits at once.\<close>

theorem updates_start_nothing:
  "only_calls (exits_at_once (snd (self_command conf (known_string (ds_netns p1)))))
     (dhcp_update fd (traced_conf conf) (p1\<lparr>ds_config_file := TUnknown, ds_pid_file := TUnknown\<rparr>) s1) \<and>
   only_calls (exits_at_once (snd (self_command conf [])))
     (dhcp6_update fd (traced_conf conf) (p2\<lparr>d6_config_file := TUnknown, d6_pid_file := TUnknown\<rparr>) s2) \<and>
   only_calls (exits_at_once (snd (self_command conf [])))
     (radv_update fd (traced_conf conf) (p3\<lparr>ra_config_file := TUnknown, ra_pid_file := TUnknown\<rparr>) s3)"
  unfolding dhcp_update_def dhcp6_update_def radv_update_def read_dhcp_server_def read_dhcp6_server_def read_radv_def
    read_dhcp_server_pid_def read_dhcp6_server_pid_def read_radv_pid_def Let_def traced_conf_simps
  by (intro conjI only_intros only_reconcile only_read_pid looks_allowed stops_exit starts_exit) simp_all

text \<open>A DHCP server whose configuration leaves out the lease time cannot be started or stopped by an update: the lease time is
  then unknown in the plan, which counts as a change of the configuration, and Update fails without touching the target.\<close>

theorem unset_lease_time_blocks_update:
  "(\<exists>e. run_state (dhcp_update fd conf (p1\<lparr>ds_lease_time := TUnknown\<rparr>) (s1\<lparr>ds_lease_time := TKnown n\<rparr>)) w = (Inl e, w)) \<and>
   (\<exists>e. run_state (dhcp6_update fd conf (p2\<lparr>d6_lease_time := TUnknown\<rparr>) (s2\<lparr>d6_lease_time := TKnown n\<rparr>)) w = (Inl e, w)) \<and>
   ''lease_time'' \<in> set (unknown_in_update dhcp_schema) \<and> ''lease_time'' \<in> set (unknown_in_update dhcp6_schema)"
proof (intro conjI)
  show "''lease_time'' \<in> set (unknown_in_update dhcp_schema)" and "''lease_time'' \<in> set (unknown_in_update dhcp6_schema)"
    by code_simp+
qed (auto simp: dhcp_update_def dhcp6_update_def dhcp_config_changed_def dhcp6_config_changed_def Let_def split: option.splits)

text \<open>C9: Of what the user can change of the router advertisement daemon without a replacement, Update uses the state alone: two
  plans with the same state and the same files act alike on the target, and each is recorded as it stands, so that the state of
  Terraform shows a configuration that the daemon does not run.\<close>

theorem radv_update_ignores_configuration:
  assumes "list_all (\<lambda>k. map_of (radv_values p) k = map_of (radv_values q) k) [''state'', ''config_file'', ''pid_file'']"
  shows "run_state (radv_update fd conf p st) w =
    (case run_state (radv_update fd conf q st) w of
       (Inl e, w') \<Rightarrow> (Inl e, w') | (Inr m, w') \<Rightarrow> (Inr (p\<lparr>ra_state := ra_state m\<rparr>), w'))"
proof -
  have eqs: "ra_state p = ra_state q" "ra_config_file p = ra_config_file q" "ra_pid_file p = ra_pid_file q"
    using assms by (simp_all add: radv_values_def)
  have start: "start_radv fd conf d (p\<lparr>ra_state := s\<rparr>) = start_radv fd conf d (q\<lparr>ra_state := s\<rparr>)"
    "start_radv fd conf d p = start_radv fd conf d q" for d s
    by (simp_all add: start_radv_def eqs)
  show ?thesis
    unfolding radv_update_def Let_def read_radv_def start eqs
    by (auto simp: read_or_fail_def mapE_def split: sum.splits prod.splits)
qed

theorem radv_update_ignores_configuration_witness:
  "\<exists>m l. run_state (radv_update (\<lambda>_. []) (sample_conf (lab_executor True)) (sample_radv\<lparr>ra_hop_limit := TKnown 1\<rparr>) sample_radv)
     (sample_lab\<lparr>lb_files := (\<lambda>_. Some (itoa 1))\<rparr>) = (Inr m, l) \<and> ra_hop_limit m = TKnown 1 \<and> lb_procs l = [1]"
proof -
  have run: "run_state (radv_update (\<lambda>_. []) (sample_conf (lab_executor True)) sample_radv sample_radv) busy_lab = (Inr sample_radv, busy_lab)"
    by (simp add: radv_update_def Let_def read_radv_def read_radv_pid_def read_or_fail_def mapE_def reconcile_busy sample_radv_def)
  show ?thesis
    using radv_update_ignores_configuration [of "sample_radv\<lparr>ra_hop_limit := TKnown 1\<rparr>" sample_radv "\<lambda>_. []"
        "sample_conf (lab_executor True)" sample_radv busy_lab] run
    by (simp add: radv_values_def sample_lab_def)
qed

end
