(* ===== verification/Ssh_Alive.thy ===== *)
theory Ssh_Alive
  imports Ssh_Session Go_Duration
begin

text \<open>
  The rest of the connection in \<^verbatim>\<open>internal/exec/ssh.go\<close>: the request for agent forwarding, the keep-alive goroutine,
  connections to sockets of the target under a time limit, and a file opened for writing. What a goroutine waits for is a
  sequence of events; the state of the world is what the pings and the sessions leave.
\<close>

section \<open>Agent forwarding\<close>

record ('w, 'c, 's) session_lib =
  sn_new :: "'c \<Rightarrow> ('w, goerr + 's) state"
  sn_request :: "'s \<Rightarrow> ('w, goerr option) state"
  sn_close :: "'s \<Rightarrow> ('w, unit) state"

definition request_agent_forwarding :: "('w, 'c, 's) session_lib \<Rightarrow> 'c \<Rightarrow> ('w, goerr option) state" where
  "request_agent_forwarding S client = do {
     r \<leftarrow> sn_new S client;
     case r of
       Inl e \<Rightarrow> State_Monad.return (Some (wrapf ''can't open a session to request SSH agent forwarding: '' e))
     | Inr sess \<Rightarrow> do {
         err \<leftarrow> sn_request S sess;
         _ \<leftarrow> sn_close S sess;
         State_Monad.return (map_option
           (wrapf ''the target refused SSH agent forwarding (check AllowAgentForwarding in its sshd_config): '') err) } }"

section \<open>Keep-alive\<close>

text \<open>The ticker, or \<^verbatim>\<open>Close\<close>.\<close>

datatype alive_event = Alive_Tick | Alive_Done

record ('w, 'c) alive_lib =
  al_next :: "('w, alive_event) state"
  al_ping :: "'c \<Rightarrow> ('w, goerr option) state"

text \<open>The first ping that fails ends the goroutine.\<close>

fun ping_all :: "('w, 'c) alive_lib \<Rightarrow> 'c list \<Rightarrow> ('w, bool) state" where
  "ping_all A [] = State_Monad.return True"
| "ping_all A (c # cs) = do { err \<leftarrow> al_ping A c; if err \<noteq> None then State_Monad.return False else ping_all A cs }"

text \<open>One unit of fuel for each event; \<open>False\<close> when it is still waiting.\<close>

fun keepalive :: "nat \<Rightarrow> ('w, 'c) alive_lib \<Rightarrow> 'c list \<Rightarrow> ('w, bool) state" where
  "keepalive 0 A clients = State_Monad.return False"
| "keepalive (Suc n) A clients = do {
     ev \<leftarrow> al_next A;
     case ev of
       Alive_Done \<Rightarrow> State_Monad.return True
     | Alive_Tick \<Rightarrow> do {
         ok \<leftarrow> ping_all A clients;
         if ok then keepalive n A clients else State_Monad.return True } }"

text \<open>The clients that \<^verbatim>\<open>conn\<close> hands to the goroutine: the target, then the jump hosts in the order of the dialing.\<close>

definition alive_clients :: "'c ssh_state \<Rightarrow> 'c list" where
  "alive_clients s = (case se_client s of None \<Rightarrow> [] | Some c \<Rightarrow> c # se_jump_clients s)"

section \<open>Sockets of the target\<close>

text \<open>The goroutine that dials delivers one result; besides it the timer and the context can fire. The first event is selected, and
  when this is not the result, a second goroutine waits for the result and closes its connection.\<close>

datatype 'n dial_event = Dial_Result "goerr + 'n" | Dial_Timer | Dial_Cancelled goerr

fun late_connections :: "'n dial_event list \<Rightarrow> 'n list" where
  "late_connections [] = []"
| "late_connections (ev # evs) =
     (case ev of Dial_Result r \<Rightarrow> (case r of Inr c \<Rightarrow> [c] | Inl e \<Rightarrow> []) | _ \<Rightarrow> late_connections evs)"

text \<open>The outcome and the connections that are closed later; \<open>None\<close> while nothing has happened.\<close>

definition dial_select :: "string \<Rightarrow> string \<Rightarrow> int \<Rightarrow> 'n dial_event list \<Rightarrow> ((goerr + 'n) \<times> 'n list) option" where
  "dial_select network addr timeout evs =
     (case evs of
        [] \<Rightarrow> None
      | Dial_Result r # rest \<Rightarrow> Some (r, [])
      | Dial_Timer # rest \<Rightarrow>
          Some (Inl (Err (''dial '' @ network @ '' '' @ addr @ '': timeout after '' @ duration_string timeout)), late_connections rest)
      | Dial_Cancelled e # rest \<Rightarrow> Some (Inl e, late_connections rest))"

definition ssh_dial_socket ::
    "('w, 'c, 't) dial_lib \<Rightarrow> 'c ssh_state \<Rightarrow> string \<Rightarrow> string \<Rightarrow> int \<Rightarrow> 'n dial_event list \<Rightarrow>
       ('w, ((goerr + 'n) \<times> 'n list) option) state" where
  "ssh_dial_socket L s network addr timeout evs = do {
     client \<leftarrow> ssh_conn L s;
     case client of
       Inl e \<Rightarrow> State_Monad.return (Some (Inl e, []))
     | Inr s' \<Rightarrow> State_Monad.return (dial_select network addr timeout evs) }"

section \<open>A file for writing\<close>

definition ssh_open_write :: "'w sftp_lib \<Rightarrow> string \<Rightarrow> nat \<Rightarrow> ('w, goerr + unit) state" where
  "ssh_open_write sc p perm =
     bindE (tryE (sf_open_trunc sc p)) (\<lambda>_. do {
       e \<leftarrow> sf_chmod sc p perm;
       case e of
         Some e \<Rightarrow> do { _ \<leftarrow> sf_close sc p; failE e }
       | None \<Rightarrow> okE () })"

section \<open>A connection with events\<close>

text \<open>The events to come, the pings sent so far; \<open>fails k c\<close> says that ping number \<open>k\<close>, to \<open>c\<close>, fails.\<close>

definition alive_world :: "(nat \<Rightarrow> 'c \<Rightarrow> bool) \<Rightarrow> (alive_event list \<times> 'c list, 'c) alive_lib" where
  "alive_world fails =
     \<lparr>al_next = State (\<lambda>(evs, ps). case evs of [] \<Rightarrow> (Alive_Done, ([], ps)) | e # es \<Rightarrow> (e, (es, ps))),
      al_ping = (\<lambda>c. State (\<lambda>(evs, ps). (if fails (length ps) c then Some (Err ''EOF'') else None, (evs, ps @ [c]))))\<rparr>"

lemma alive_world_simps [simp]:
  "run_state (al_next (alive_world fails)) ([], ps) = (Alive_Done, ([], ps))"
  "run_state (al_next (alive_world fails)) (e # es, ps) = (e, (es, ps))"
  "run_state (al_ping (alive_world fails) c) (evs, ps) = (if fails (length ps) c then Some (Err ''EOF'') else None, (evs, ps @ [c]))"
  by (simp_all add: alive_world_def)

text \<open>How many ticks come before the end.\<close>

fun ticks :: "alive_event list \<Rightarrow> nat" where
  "ticks (Alive_Tick # es) = Suc (ticks es)"
| "ticks _ = 0"

text \<open>The pings up to and with the first that fails, when \<open>k\<close> were sent before.\<close>

fun until_failure :: "(nat \<Rightarrow> 'c \<Rightarrow> bool) \<Rightarrow> nat \<Rightarrow> 'c list \<Rightarrow> 'c list" where
  "until_failure fails k [] = []"
| "until_failure fails k (c # cs) = c # (if fails k c then [] else until_failure fails (Suc k) cs)"

fun all_answer :: "(nat \<Rightarrow> 'c \<Rightarrow> bool) \<Rightarrow> nat \<Rightarrow> 'c list \<Rightarrow> bool" where
  "all_answer fails k [] = True"
| "all_answer fails k (c # cs) = (\<not> fails k c \<and> all_answer fails (Suc k) cs)"

lemma run_ping_all:
  "run_state (ping_all (alive_world fails) cs) (evs, ps) =
     (all_answer fails (length ps) cs, (evs, ps @ until_failure fails (length ps) cs))"
  by (induction cs arbitrary: ps) simp_all

lemma until_failure_append:
  "until_failure fails k (cs @ ds) =
     until_failure fails k cs @ (if all_answer fails k cs then until_failure fails (k + length cs) ds else [])"
  by (induction cs arbitrary: k) simp_all

lemma until_failure_all: "all_answer fails k cs \<Longrightarrow> until_failure fails k cs = cs"
  by (induction cs arbitrary: k) simp_all

lemma run_keepalive:
  "\<exists>left. run_state (keepalive (Suc (length evs)) (alive_world fails) cs) (evs, ps) =
     (True, (left, ps @ until_failure fails (length ps) (concat (replicate (ticks evs) cs))))"
proof (induction evs arbitrary: ps)
  case (Cons e es)
  show ?case
  proof (cases e)
    case Alive_Tick
    show ?thesis
    proof (cases "all_answer fails (length ps) cs")
      case True
      with Cons.IH [of "ps @ cs"] Alive_Tick show ?thesis
        by (simp add: run_ping_all until_failure_all until_failure_append del: keepalive.simps(2)) (simp add: run_ping_all until_failure_all)
    next
      case False
      with Alive_Tick show ?thesis by (simp add: run_ping_all until_failure_append)
    qed
  qed simp
qed simp

text \<open>The results among the events: the goroutine delivers one.\<close>

fun dial_results :: "'n dial_event list \<Rightarrow> (goerr + 'n) list" where
  "dial_results [] = []"
| "dial_results (ev # evs) = (case ev of Dial_Result r \<Rightarrow> [r] | _ \<Rightarrow> []) @ dial_results evs"

lemma late_connections_one: "dial_results evs = [Inr c] \<Longrightarrow> late_connections evs = [c]"
  by (induction evs) (auto split: dial_event.splits)

section \<open>Properties\<close>

text \<open>The keep-alive ends by itself when the executor is closed, with one round for each tick before: in each round the target and
  every jump host are pinged, in the order of the dialing, until a ping fails; nothing is sent after a ping that failed.\<close>

theorem keepalive_rounds:
  "\<exists>left. run_state (keepalive (Suc (length evs)) (alive_world fails) (alive_clients s)) (evs, []) =
     (True, (left, until_failure fails 0 (concat (replicate (ticks evs) (alive_clients s)))))"
  using run_keepalive [of evs fails "alive_clients s" "[]"] by simp

text \<open>C13: A connection that the dialing yields is either returned or closed, exactly one of the two, in whatever order the result,
  the timer and the cancellation come; when it is not returned, the caller gets an error.\<close>

theorem dial_socket_no_leak:
  assumes "dial_select network addr timeout evs = Some (r, closed)" and "dial_results evs = [Inr c]"
  shows "(r = Inr c \<and> closed = []) \<or> ((\<exists>e. r = Inl e) \<and> closed = [c])"
  using assms by (auto simp: dial_select_def late_connections_one split: list.splits dial_event.splits)

theorem dial_socket_no_leak_witness:
  "\<exists>e. dial_select ''unix'' ''/run/qmp'' (2 * sec) [Dial_Timer, Dial_Result (Inr (7 :: nat))] = Some (Inl e, [7])"
  using dial_socket_no_leak [of "''unix''" "''/run/qmp''" "2 * sec" "[Dial_Timer, Dial_Result (Inr (7 :: nat))]" _ "[7]" 7]
  by (simp add: dial_select_def)

end
