(* ===== verification/Library_Modes.thy ===== *)
theory Library_Modes
  imports Main_Modes Qemu
begin

text \<open>
  The modes that configure a library and wait for it: the two DHCP servers (\<^verbatim>\<open>main_dhcp_server_linux_amd64.go\<close>,
  \<^verbatim>\<open>main_dhcp6_server_linux_amd64.go\<close>), the system usage collector (\<^verbatim>\<open>main_monitor_system_usage_linux_amd64.go\<close>), the
  virtual network (\<^verbatim>\<open>main_gvproxy.go\<close>) and the command \<^verbatim>\<open>internal/socket/cmd/socket-tailer\<close>. The libraries are records of
  operations; a mode returns its exit code.
\<close>

section \<open>DHCP servers\<close>

datatype dhcp_plugin = Pl_Server_Id | Pl_Dns | Pl_Router | Pl_Netmask | Pl_Range | Pl_Static_Route | Pl_Prefix

definition desired_plugins :: "dhcp_plugin list" where
  "desired_plugins = [Pl_Server_Id, Pl_Dns, Pl_Router, Pl_Netmask, Pl_Range, Pl_Static_Route]"

definition desired_plugins6 :: "dhcp_plugin list" where
  "desired_plugins6 = [Pl_Server_Id, Pl_Dns, Pl_Range, Pl_Prefix]"

record 'w coredhcp =
  cd_load :: "string \<Rightarrow> ('w, goerr + nat) state"
  cd_register :: "dhcp_plugin \<Rightarrow> ('w, goerr option) state"
  cd_start :: "nat \<Rightarrow> ('w, goerr + nat) state"
  cd_wait :: "nat \<Rightarrow> ('w, goerr option) state"

fun register_plugins :: "'w coredhcp \<Rightarrow> dhcp_plugin list \<Rightarrow> ('w, bool) state" where
  "register_plugins L [] = State_Monad.return True"
| "register_plugins L (p # ps) = do {
     e \<leftarrow> cd_register L p;
     if e \<noteq> None then State_Monad.return False else register_plugins L ps }"

text \<open>A fatal message ends the process with 1; an error of the running server is only logged.\<close>

definition coredhcp_main :: "'w coredhcp \<Rightarrow> dhcp_plugin list \<Rightarrow> string \<Rightarrow> ('w, int) state" where
  "coredhcp_main L ps config = do {
     cnf \<leftarrow> cd_load L config;
     case cnf of
       Inl e \<Rightarrow> State_Monad.return 1
     | Inr c \<Rightarrow> do {
         ok \<leftarrow> register_plugins L ps;
         if \<not> ok then State_Monad.return 1
         else do {
           srv \<leftarrow> cd_start L c;
           case srv of
             Inl e \<Rightarrow> State_Monad.return 1
           | Inr s \<Rightarrow> do { _ \<leftarrow> cd_wait L s; State_Monad.return 0 } } } }"

definition dhcp_server_main :: "'w coredhcp \<Rightarrow> string \<Rightarrow> ('w, int) state" where
  "dhcp_server_main L config = coredhcp_main L desired_plugins config"

definition dhcp6_server_main :: "'w coredhcp \<Rightarrow> string \<Rightarrow> ('w, int) state" where
  "dhcp6_server_main L config = coredhcp_main L desired_plugins6 config"

section \<open>System usage\<close>

record msu_cfg =
  mc_output_file :: string
  mc_interval :: int
  mc_flush_every_n :: int
  mc_namespaces :: "string list"
  mc_include_env :: string

definition msu_cfg_defaults :: "string \<Rightarrow> msu_cfg \<Rightarrow> msu_cfg" where
  "msu_cfg_defaults filtered cfg =
     cfg\<lparr>mc_interval := (if mc_interval cfg \<le> 0 then 10 * sec else mc_interval cfg),
         mc_flush_every_n := (if mc_flush_every_n cfg < 1 then 6 else mc_flush_every_n cfg),
         mc_include_env := (if mc_include_env cfg = [] then filtered else mc_include_env cfg)\<rparr>"

record 'w msu_lib =
  ml_read_file :: "string \<Rightarrow> ('w, goerr + string) state"
  ml_decode :: "string \<Rightarrow> goerr + msu_cfg"
  ml_env_filtered :: string
  ml_writer :: "string \<Rightarrow> ('w, goerr + nat) state"
  ml_run :: "nat \<Rightarrow> msu_cfg \<Rightarrow> ('w, goerr option) state"
  ml_close :: "nat \<Rightarrow> ('w, goerr option) state"

definition monitor_system_usage_main :: "'w msu_lib \<Rightarrow> string \<Rightarrow> ('w, int) state" where
  "monitor_system_usage_main L config = do {
     data \<leftarrow> ml_read_file L config;
     case data of
       Inl e \<Rightarrow> State_Monad.return 1
     | Inr d \<Rightarrow>
         (case ml_decode L d of
            Inl e \<Rightarrow> State_Monad.return 1
          | Inr cfg \<Rightarrow>
              if mc_output_file cfg = [] then State_Monad.return 1
              else (let cfg = msu_cfg_defaults (ml_env_filtered L) cfg
                    in do {
                      w \<leftarrow> ml_writer L (mc_output_file cfg);
                      case w of
                        Inl e \<Rightarrow> State_Monad.return 1
                      | Inr h \<Rightarrow> do {
                          err \<leftarrow> ml_run L h cfg;
                          _ \<leftarrow> ml_close L h;
                          State_Monad.return (if err = None then 0 else 1) } })) }"

section \<open>The socket tailer as a command\<close>

text \<open>The flags are those of its own command line.\<close>

definition socket_tailer_command :: "'w tailer_ops \<Rightarrow> string \<Rightarrow> string \<Rightarrow> string \<Rightarrow> ('w, int) state" where
  "socket_tailer_command ops listen connect out =
     (if listen = [] \<and> connect = [] then State_Monad.return 1
      else if listen \<noteq> [] \<and> connect \<noteq> [] then State_Monad.return 1
      else if listen \<noteq> [] then socket_tailer_main ops Tail_Listen listen out
      else socket_tailer_main ops Tail_Connect connect out)"

section \<open>The virtual network\<close>

datatype gv_protocol = Vfkit_Protocol | Qemu_Protocol

record gv_config =
  gc_mtu :: int
  gc_subnet :: string
  gc_gateway_ip :: string
  gc_gateway_mac :: string
  gc_protocol :: gv_protocol
  gc_nat :: "(string \<times> string) list"
  gc_gateway_virtual_ips :: "string list"
  gc_static_leases :: "(string \<times> string) list"
  gc_dns :: "(string \<times> (string \<times> string) list) list"
  gc_forwards :: "(string \<times> string) list"

definition gvproxy_config :: "gv_protocol \<Rightarrow> (string \<times> string) list \<Rightarrow> gv_config" where
  "gvproxy_config protocol forwards =
     \<lparr>gc_mtu = 1500, gc_subnet = ''192.168.127.0/24'', gc_gateway_ip = ''192.168.127.1'', gc_gateway_mac = ''5a:94:ef:e4:0c:dd'',
      gc_protocol = protocol, gc_nat = [(''192.168.127.254'', ''127.0.0.1'')], gc_gateway_virtual_ips = [''192.168.127.254''],
      gc_static_leases = [(''192.168.127.2'', ''5a:94:ef:e4:0c:ee'')],
      gc_dns = [(''containers.internal.'', [(''gateway'', ''192.168.127.1''), (''host'', ''192.168.127.254'')])],
      gc_forwards = forwards\<rparr>"

text \<open>What the flags ask for: the exit code of a command line that is refused, or the protocol, the URL and the configuration.\<close>

definition gvproxy_options :: "string \<Rightarrow> string \<Rightarrow> string \<Rightarrow> int + gv_protocol \<times> string \<times> gv_config" where
  "gvproxy_options listen_vfkit listen_qemu forwards_raw =
     (if listen_vfkit = [] \<and> listen_qemu = [] then Inl 1
      else if listen_vfkit \<noteq> [] \<and> listen_qemu \<noteq> [] then Inl 1
      else
        (case parse_forwards forwards_raw of
           Inl e \<Rightarrow> Inl 1
         | Inr forwards \<Rightarrow>
             (let protocol = (if listen_vfkit \<noteq> [] then Vfkit_Protocol else Qemu_Protocol)
              in Inr (protocol, if listen_vfkit \<noteq> [] then listen_vfkit else listen_qemu, gvproxy_config protocol forwards))))"

subsection \<open>The group of goroutines\<close>

text \<open>The five goroutines of the group, in the order in which they are started. \<open>Midway\<close> is the watcher that has
  cancelled the context, the closer that has closed the socket, the acceptor that has accepted.\<close>

datatype gv_task = Watcher | Gateway_Closer | Gateway_Server | Socket_Closer | Acceptor

datatype gv_phase = Unstarted | Started | Midway | Returned

datatype gv_call =
    Open_Gateway string
  | Open_Socket gv_protocol string
  | Close_Gateway
  | Close_Socket
  | Remove_Path string

datatype gv_main = Making | Opening_Gateway | Opening_Socket | Waiting | Exited int

record gv_state =
  gs_main :: gv_main
  gs_phase :: "gv_task \<Rightarrow> gv_phase"
  gs_cancelled :: bool
  gs_error :: "goerr option"
  gs_calls :: "gv_call list"

definition gv_start :: gv_state where
  "gv_start =
     \<lparr>gs_main = Making, gs_phase = (\<lambda>t. Unstarted), gs_cancelled = False, gs_error = None, gs_calls = []\<rparr>"

definition reach_phase :: "gv_task \<Rightarrow> gv_phase \<Rightarrow> gv_state \<Rightarrow> gv_state" where
  "reach_phase t p s = s\<lparr>gs_phase := (gs_phase s)(t := p)\<rparr>"

definition record_call :: "gv_call \<Rightarrow> gv_state \<Rightarrow> gv_state" where
  "record_call c s = s\<lparr>gs_calls := gs_calls s @ [c]\<rparr>"

text \<open>A goroutine of an \<^verbatim>\<open>errgroup\<close> returns: the first error is kept and cancels the context.\<close>

definition finish :: "gv_task \<Rightarrow> goerr option \<Rightarrow> gv_state \<Rightarrow> gv_state" where
  "finish t r s =
     (reach_phase t Returned s)
       \<lparr>gs_error := (if gs_error s = None then r else gs_error s), gs_cancelled := gs_cancelled s \<or> r \<noteq> None\<rparr>"

definition all_returned :: "gv_state \<Rightarrow> bool" where
  "all_returned s \<longleftrightarrow>
     list_all (\<lambda>t. gs_phase s t = Returned) [Watcher, Gateway_Closer, Gateway_Server, Socket_Closer, Acceptor]"

definition err_server_closed :: goerr where
  "err_server_closed = Err ''http: Server closed''"

definition accept_error :: "gv_protocol \<Rightarrow> goerr \<Rightarrow> goerr" where
  "accept_error p e = wrapf ((case p of Vfkit_Protocol \<Rightarrow> ''vfkit'' | Qemu_Protocol \<Rightarrow> ''qemu'') @ '' accept error: '') e"

text \<open>A step of a goroutine, with every answer the library may give and every moment it may give it at.
  \<open>path\<close> is the path of a parsed URL.\<close>

inductive gv_task_step :: "(string \<Rightarrow> string) \<Rightarrow> gv_protocol \<Rightarrow> string \<Rightarrow> gv_state \<Rightarrow> gv_state \<Rightarrow> bool"
  for path :: "string \<Rightarrow> string" and p :: gv_protocol and url :: string where
  signal: "gs_phase s Watcher = Started \<Longrightarrow>
     gv_task_step path p url s ((reach_phase Watcher Midway s)\<lparr>gs_cancelled := True\<rparr>)"
| caught: "gs_phase s Watcher = Midway \<Longrightarrow> gv_task_step path p url s (finish Watcher (Some (Err ''signal caught'')) s)"
| unwatched: "gs_phase s Watcher = Started \<Longrightarrow> gs_cancelled s \<Longrightarrow> gv_task_step path p url s (finish Watcher None s)"
| gateway_closed: "gs_phase s Gateway_Closer = Started \<Longrightarrow> gs_cancelled s \<Longrightarrow>
     gv_task_step path p url s (finish Gateway_Closer r (record_call Close_Gateway s))"
| served: "gs_phase s Gateway_Server = Started \<Longrightarrow>
     gv_task_step path p url s (finish Gateway_Server (if e = err_server_closed then None else Some e) s)"
| socket_closed: "gs_phase s Socket_Closer = Started \<Longrightarrow> gs_cancelled s \<Longrightarrow>
     gv_task_step path p url s (reach_phase Socket_Closer Midway (record_call Close_Socket s))"
| socket_removed: "gs_phase s Socket_Closer = Midway \<Longrightarrow>
     gv_task_step path p url s (finish Socket_Closer r (record_call (Remove_Path (path url)) s))"
| accept_failed: "gs_phase s Acceptor = Started \<Longrightarrow> gv_task_step path p url s (finish Acceptor (Some (accept_error p e)) s)"
| accepted: "gs_phase s Acceptor = Started \<Longrightarrow> gv_task_step path p url s (reach_phase Acceptor Midway s)"
| network_ended: "gs_phase s Acceptor = Midway \<Longrightarrow> gv_task_step path p url s (finish Acceptor r s)"

text \<open>A step of the process: of \<^verbatim>\<open>gvproxyMain\<close> itself, which starts the goroutines as it goes and ends with a
  fatal message, with an error of the group or without one; or of one of the goroutines while the process is there.\<close>

inductive gv_step :: "(string \<Rightarrow> string) \<Rightarrow> gv_protocol \<Rightarrow> string \<Rightarrow> gv_config \<Rightarrow> gv_state \<Rightarrow> gv_state \<Rightarrow> bool"
  for path :: "string \<Rightarrow> string" and p :: gv_protocol and url :: string and config :: gv_config where
  fatal: "gs_main s \<in> {Making, Opening_Gateway, Opening_Socket} \<Longrightarrow> gv_step path p url config s (s\<lparr>gs_main := Exited 1\<rparr>)"
| made: "gs_main s = Making \<Longrightarrow>
     gv_step path p url config s ((reach_phase Watcher Started s)\<lparr>gs_main := Opening_Gateway\<rparr>)"
| gateway_open: "gs_main s = Opening_Gateway \<Longrightarrow>
     gv_step path p url config s
       ((reach_phase Gateway_Server Started (reach_phase Gateway_Closer Started
          (record_call (Open_Gateway (gc_gateway_ip config @ '':80'')) s)))\<lparr>gs_main := Opening_Socket\<rparr>)"
| socket_open: "gs_main s = Opening_Socket \<Longrightarrow>
     gv_step path p url config s
       ((reach_phase Acceptor Started (reach_phase Socket_Closer Started (record_call (Open_Socket p url) s)))\<lparr>gs_main := Waiting\<rparr>)"
| group_ended: "gs_main s = Waiting \<Longrightarrow> all_returned s \<Longrightarrow>
     gv_step path p url config s (s\<lparr>gs_main := Exited (if gs_error s = None then 0 else 1)\<rparr>)"
| goroutine: "(\<forall>c. gs_main s \<noteq> Exited c) \<Longrightarrow> gv_task_step path p url s s' \<Longrightarrow> gv_step path p url config s s'"

section \<open>What holds of the group\<close>

lemmas gv_updates = reach_phase_def record_call_def finish_def all_returned_def

text \<open>What each goroutine has done tells its phase, and the phases tell how far the setup is.\<close>

definition socket_calls :: "gv_call list \<Rightarrow> gv_call list" where
  "socket_calls cs = filter (\<lambda>c. case c of Open_Socket _ _ \<Rightarrow> True | Close_Socket \<Rightarrow> True | Remove_Path _ \<Rightarrow> True | _ \<Rightarrow> False) cs"

definition gateway_calls :: "gv_call list \<Rightarrow> gv_call list" where
  "gateway_calls cs = filter (\<lambda>c. case c of Open_Gateway _ \<Rightarrow> True | Close_Gateway \<Rightarrow> True | _ \<Rightarrow> False) cs"

lemma calls_of [simp]:
  "socket_calls [] = []" "gateway_calls [] = []"
  "socket_calls (cs @ [Open_Socket p u]) = socket_calls cs @ [Open_Socket p u]"
  "socket_calls (cs @ [Close_Socket]) = socket_calls cs @ [Close_Socket]"
  "socket_calls (cs @ [Remove_Path f]) = socket_calls cs @ [Remove_Path f]"
  "socket_calls (cs @ [Open_Gateway a]) = socket_calls cs" "socket_calls (cs @ [Close_Gateway]) = socket_calls cs"
  "gateway_calls (cs @ [Open_Gateway a]) = gateway_calls cs @ [Open_Gateway a]"
  "gateway_calls (cs @ [Close_Gateway]) = gateway_calls cs @ [Close_Gateway]"
  "gateway_calls (cs @ [Open_Socket p u]) = gateway_calls cs" "gateway_calls (cs @ [Close_Socket]) = gateway_calls cs"
  "gateway_calls (cs @ [Remove_Path f]) = gateway_calls cs"
  by (simp_all add: socket_calls_def gateway_calls_def)

definition socket_history :: "(string \<Rightarrow> string) \<Rightarrow> gv_protocol \<Rightarrow> string \<Rightarrow> gv_phase \<Rightarrow> gv_call list" where
  "socket_history path p url ph =
     (case ph of Unstarted \<Rightarrow> [] | Started \<Rightarrow> [Open_Socket p url] | Midway \<Rightarrow> [Open_Socket p url, Close_Socket]
      | Returned \<Rightarrow> [Open_Socket p url, Close_Socket, Remove_Path (path url)])"

definition gateway_history :: "string \<Rightarrow> gv_phase \<Rightarrow> gv_call list" where
  "gateway_history a ph =
     (case ph of Unstarted \<Rightarrow> [] | Started \<Rightarrow> [Open_Gateway a] | _ \<Rightarrow> [Open_Gateway a, Close_Gateway])"

text \<open>How far the setup was when \<open>gs_main\<close> is as it is: which goroutines are there.\<close>

definition setup_phases :: "gv_state \<Rightarrow> bool" where
  "setup_phases s \<longleftrightarrow>
     (case gs_main s of
        Making \<Rightarrow> gs_phase s Watcher = Unstarted \<and> gs_phase s Gateway_Closer = Unstarted \<and> gs_phase s Gateway_Server = Unstarted \<and>
          gs_phase s Socket_Closer = Unstarted \<and> gs_phase s Acceptor = Unstarted
      | Opening_Gateway \<Rightarrow> gs_phase s Watcher \<noteq> Unstarted \<and> gs_phase s Gateway_Closer = Unstarted \<and>
          gs_phase s Gateway_Server = Unstarted \<and> gs_phase s Socket_Closer = Unstarted \<and> gs_phase s Acceptor = Unstarted
      | Opening_Socket \<Rightarrow> gs_phase s Watcher \<noteq> Unstarted \<and> gs_phase s Gateway_Closer \<noteq> Unstarted \<and>
          gs_phase s Gateway_Server \<noteq> Unstarted \<and> gs_phase s Socket_Closer = Unstarted \<and> gs_phase s Acceptor = Unstarted
      | Waiting \<Rightarrow> gs_phase s Watcher \<noteq> Unstarted \<and> gs_phase s Gateway_Closer \<noteq> Unstarted \<and>
          gs_phase s Gateway_Server \<noteq> Unstarted \<and> gs_phase s Socket_Closer \<noteq> Unstarted \<and> gs_phase s Acceptor \<noteq> Unstarted
      | Exited c \<Rightarrow> c = 1 \<and> (gs_phase s Socket_Closer \<noteq> Unstarted \<longrightarrow> all_returned s))"

text \<open>The context is cancelled only by an error that is kept, or by the watcher before it returns one; and the watcher returns
  only then.\<close>

definition gv_inv :: "(string \<Rightarrow> string) \<Rightarrow> gv_protocol \<Rightarrow> string \<Rightarrow> gv_config \<Rightarrow> gv_state \<Rightarrow> bool" where
  "gv_inv path p url config s \<longleftrightarrow>
     (gs_cancelled s \<longrightarrow> gs_error s \<noteq> None \<or> gs_phase s Watcher = Midway) \<and>
     (gs_error s \<noteq> None \<longrightarrow> gs_cancelled s) \<and>
     (gs_phase s Watcher = Returned \<longrightarrow> gs_error s \<noteq> None) \<and>
     gs_phase s Gateway_Closer \<noteq> Midway \<and> gs_phase s Gateway_Server \<noteq> Midway \<and>
     socket_calls (gs_calls s) = socket_history path p url (gs_phase s Socket_Closer) \<and>
     gateway_calls (gs_calls s) = gateway_history (gc_gateway_ip config @ '':80'') (gs_phase s Gateway_Closer) \<and>
     setup_phases s"

lemma gv_inv_start: "gv_inv path p url config gv_start"
  by (simp add: gv_inv_def gv_start_def socket_history_def gateway_history_def setup_phases_def)

lemma gv_task_inv:
  "gv_task_step path p url s s' \<Longrightarrow> \<forall>c. gs_main s \<noteq> Exited c \<Longrightarrow> gv_inv path p url config s \<Longrightarrow> gv_inv path p url config s'"
  by (induction rule: gv_task_step.induct)
    (simp add: gv_inv_def setup_phases_def socket_history_def gateway_history_def gv_updates split: gv_main.splits; auto)+

lemma gv_step_inv: "gv_step path p url config s s' \<Longrightarrow> gv_inv path p url config s \<Longrightarrow> gv_inv path p url config s'"
proof (induction rule: gv_step.induct)
  case (goroutine s s')
  then show ?case using gv_task_inv by blast
qed (auto simp: gv_inv_def setup_phases_def socket_history_def gateway_history_def gv_updates split: gv_main.splits)

text \<open>Every step brings a goroutine or the process itself nearer to its end, and before the end there is always one.\<close>

definition phase_left :: "gv_phase \<Rightarrow> nat" where
  "phase_left ph = (case ph of Unstarted \<Rightarrow> 2 | Started \<Rightarrow> 2 | Midway \<Rightarrow> 1 | Returned \<Rightarrow> 0)"

definition main_left :: "gv_main \<Rightarrow> nat" where
  "main_left m = (case m of Making \<Rightarrow> 4 | Opening_Gateway \<Rightarrow> 3 | Opening_Socket \<Rightarrow> 2 | Waiting \<Rightarrow> 1 | Exited c \<Rightarrow> 0)"

definition gv_left :: "gv_state \<Rightarrow> nat" where
  "gv_left s =
     main_left (gs_main s) +
     sum_list (map (\<lambda>t. phase_left (gs_phase s t)) [Watcher, Gateway_Closer, Gateway_Server, Socket_Closer, Acceptor])"

lemma gv_task_left: "gv_task_step path p url s s' \<Longrightarrow> gv_left s' < gv_left s"
  by (induction rule: gv_task_step.induct) (simp_all add: gv_left_def phase_left_def gv_updates)

lemma gv_step_left: "gv_step path p url config s s' \<Longrightarrow> gv_inv path p url config s \<Longrightarrow> gv_left s' < gv_left s"
proof (induction rule: gv_step.induct)
  case (goroutine s s')
  then show ?case using gv_task_left by blast
qed (auto simp: gv_left_def main_left_def phase_left_def gv_updates gv_inv_def setup_phases_def)

lemma gv_run_inv:
  "(gv_step path p url config ^^ n) gv_start s \<Longrightarrow> gv_inv path p url config s \<and> gv_left s + n \<le> gv_left gv_start"
proof (induction n arbitrary: s)
  case 0
  then show ?case by (simp add: gv_inv_start)
next
  case (Suc n)
  then obtain s0 where run: "(gv_step path p url config ^^ n) gv_start s0" and step: "gv_step path p url config s0 s" by auto
  from Suc.IH [OF run] gv_step_inv [OF step] gv_step_left [OF step] show ?case by auto
qed

lemma gv_exit:
  assumes "gv_inv path p url config s" and "gs_main s = Exited c"
  shows "c = 1 \<and> (Open_Socket p url \<in> set (gs_calls s) \<longrightarrow>
      socket_calls (gs_calls s) = [Open_Socket p url, Close_Socket, Remove_Path (path url)] \<and>
      gateway_calls (gs_calls s) = [Open_Gateway (gc_gateway_ip config @ '':80''), Close_Gateway])"
proof -
  have "Open_Socket p url \<in> set (socket_calls (gs_calls s))" if "Open_Socket p url \<in> set (gs_calls s)"
    using that by (simp add: socket_calls_def)
  with assms have "Open_Socket p url \<in> set (gs_calls s) \<Longrightarrow> gs_phase s Socket_Closer \<noteq> Unstarted"
    by (auto simp: gv_inv_def socket_history_def)
  with assms show ?thesis
    by (auto simp: gv_inv_def setup_phases_def socket_history_def gateway_history_def all_returned_def)
qed

lemma gv_left_start: "gv_left gv_start = 14"
  by (simp add: gv_left_def gv_start_def main_left_def phase_left_def)

lemma gv_progress:
  assumes "gv_inv path p url config s" and "\<forall>c. gs_main s \<noteq> Exited c"
  shows "\<exists>s'. gv_step path p url config s s'"
proof (cases "gs_main s = Waiting")
  case True
  with assms(1) have there: "gs_phase s t \<noteq> Unstarted" for t by (cases t) (simp_all add: gv_inv_def setup_phases_def)
  have "\<exists>s'. gv_task_step path p url s s'" if "\<not> all_returned s"
  proof (cases "gs_phase s Watcher = Returned")
    case False
    with there [of Watcher] show ?thesis by (cases "gs_phase s Watcher") (blast intro: gv_task_step.intros)+
  next
    case watched: True
    with assms(1) have cancelled: "gs_cancelled s" by (simp add: gv_inv_def)
    from that obtain t where "gs_phase s t \<noteq> Returned" by (auto simp: all_returned_def)
    with there [of t] watched assms(1) consider "gs_phase s Gateway_Closer = Started" | "gs_phase s Gateway_Server = Started" |
      "gs_phase s Socket_Closer = Started" | "gs_phase s Socket_Closer = Midway" | "gs_phase s Acceptor = Started" | "gs_phase s Acceptor = Midway"
      by (cases t; cases "gs_phase s t") (auto simp: gv_inv_def)
    then show ?thesis using cancelled by cases (blast intro: gv_task_step.intros)+
  qed
  with True show ?thesis by (metis assms(2) group_ended goroutine)
next
  case False
  with assms(2) have "gs_main s \<in> {Making, Opening_Gateway, Opening_Socket}" by (cases "gs_main s") auto
  then show ?thesis by (blast intro: fatal)
qed

lemma gvproxy_plan:
  "main_plan (gvproxy_args conf ''-gp.listen-qemu'' scheme sock) =
     (gvproxy_pid_file (vm_resource_dir conf), Gvproxy_Mode [] (scheme @ sock) (gvproxy_forwards (vm_ssh_port conf) ''192.168.127.2''))"
  "main_plan (gvproxy_args conf ''-gp.listen-vfkit'' scheme sock) =
     (gvproxy_pid_file (vm_resource_dir conf), Gvproxy_Mode (scheme @ sock) [] (gvproxy_forwards (vm_ssh_port conf) ''192.168.127.2''))"
  by (simp_all add: gvproxy_args_def mode_simps)

section \<open>Properties\<close>

text \<open>C11: The command line with which a hypervisor starts gvproxy selects a mode whose forwards all lead to the address that the
  network leases to the MAC of the NIC of the virtual machine, one for each standard port, from consecutive ports of the host.\<close>

theorem gvproxy_reaches_guest:
  "\<exists>forwards. main_plan (gvproxy_args conf ''-gp.listen-qemu'' ''unix://'' sock) =
       (gvproxy_pid_file (vm_resource_dir conf), Gvproxy_Mode [] (''unix://'' @ sock) (gvproxy_forwards (vm_ssh_port conf) ''192.168.127.2'')) \<and>
     parse_forwards (gvproxy_forwards (vm_ssh_port conf) ''192.168.127.2'') = Inr forwards \<and>
     list_all2 (\<lambda>k (host, guest). host = ''0.0.0.0:'' @ itoa (vm_ssh_port conf + k)) [0, 1, 2] forwards \<and>
     (\<exists>ip mac. gc_static_leases (gvproxy_config Qemu_Protocol forwards) = [(ip, mac)] \<and>
        list_all2 (\<lambda>p (host, guest). guest = ip @ '':'' @ itoa p) [22, 10022, 10080] forwards \<and>
        last (qemu_nic_args conf (Some sock)) = ''hubport,hubid=0,model=virtio,mac='' @ mac)"
proof -
  have "parse_forwards (gvproxy_forwards (vm_ssh_port conf) ''192.168.127.2'') =
     Inr (map (\<lambda>f. (''0.0.0.0:'' @ itoa (vm_ssh_port conf + sf_host_offset f), ''192.168.127.2'' @ '':'' @ itoa (sf_guest_port f)))
            standard_forwards)"
    by (rule parse_gvproxy_forwards) (simp add: plain_addr_def is_space_def)
  then show ?thesis
    by (simp add: gvproxy_plan standard_forwards_def gvproxy_config_def qemu_nic_args_def)
qed

text \<open>C12: However it ends, gvproxy ends with the exit code 1: with a command line it refuses, with a library call of the setup
  that fails, with a goroutine that fails, and with the signal it is stopped by. Once its socket is open, it has by then closed
  the gateway once, closed the socket once and after that called Remove once, on the path of the socket. That holds for every order of
  the steps of its goroutines and for every answer of the library; no run has more than 14 steps, and one that has not exited can go on.\<close>

theorem gvproxy_removes_socket:
  "case gvproxy_options listen_vfkit listen_qemu raw of
     Inl c \<Rightarrow> c = 1
   | Inr (p, url, config) \<Rightarrow>
       url = (if listen_vfkit \<noteq> [] then listen_vfkit else listen_qemu) \<and>
       (\<forall>n s. (gv_step path p url config ^^ n) gv_start s \<longrightarrow>
          n \<le> 14 \<and> ((\<nexists>s'. gv_step path p url config s s') \<longrightarrow> (\<exists>c. gs_main s = Exited c)) \<and>
          (\<forall>c. gs_main s = Exited c \<longrightarrow> c = 1 \<and>
             (Open_Socket p url \<in> set (gs_calls s) \<longrightarrow>
                socket_calls (gs_calls s) = [Open_Socket p url, Close_Socket, Remove_Path (path url)] \<and>
                gateway_calls (gs_calls s) = [Open_Gateway ''192.168.127.1:80'', Close_Gateway])))"
proof (cases "gvproxy_options listen_vfkit listen_qemu raw")
  case (Inl c)
  then show ?thesis by (auto simp: gvproxy_options_def Let_def split: if_splits sum.splits)
next
  case (Inr opts)
  obtain p url config where opts: "opts = (p, url, config)" by (cases opts)
  from Inr have url: "url = (if listen_vfkit \<noteq> [] then listen_vfkit else listen_qemu)"
    and config: "gc_gateway_ip config = ''192.168.127.1''"
    by (auto simp: opts gvproxy_options_def gvproxy_config_def Let_def split: if_splits sum.splits)
  have "n \<le> 14 \<and> ((\<nexists>s'. gv_step path p url config s s') \<longrightarrow> (\<exists>c. gs_main s = Exited c)) \<and>
      (\<forall>c. gs_main s = Exited c \<longrightarrow> c = 1 \<and> (Open_Socket p url \<in> set (gs_calls s) \<longrightarrow>
         socket_calls (gs_calls s) = [Open_Socket p url, Close_Socket, Remove_Path (path url)] \<and>
         gateway_calls (gs_calls s) = [Open_Gateway ''192.168.127.1:80'', Close_Gateway]))"
    if run: "(gv_step path p url config ^^ n) gv_start s" for n s
    using gv_run_inv [OF run] gv_progress [of path p url config s] gv_exit [of path p url config s] config by (auto simp: gv_left_start)
  then show ?thesis unfolding Inr opts using url by simp
qed

text \<open>A run to its end: gvproxy is up for QEMU, and a signal comes while it still waits for a connection.\<close>

definition gv_up :: gv_state where
  "gv_up =
     (reach_phase Acceptor Started (reach_phase Socket_Closer Started (record_call (Open_Socket Qemu_Protocol ''unix:///d/s'')
        ((reach_phase Gateway_Server Started (reach_phase Gateway_Closer Started (record_call (Open_Gateway ''192.168.127.1:80'')
           ((reach_phase Watcher Started gv_start)\<lparr>gs_main := Opening_Gateway\<rparr>))))\<lparr>gs_main := Opening_Socket\<rparr>))))\<lparr>gs_main := Waiting\<rparr>"

definition gv_stopping :: gv_state where
  "gv_stopping =
     finish Acceptor (Some (accept_error Qemu_Protocol (Err ''closed'')))
       (reach_phase Socket_Closer Midway (record_call Close_Socket
         (finish Watcher (Some (Err ''signal caught'')) ((reach_phase Watcher Midway gv_up)\<lparr>gs_cancelled := True\<rparr>))))"

definition gv_stopped :: gv_state where
  "gv_stopped =
     finish Gateway_Server (Some (Err ''closed'')) (finish Gateway_Closer None (record_call Close_Gateway
       (finish Socket_Closer None (record_call (Remove_Path ''/d/s'') gv_stopping))))"

lemma gv_signal_run:
  fixes config :: gv_config
  assumes config: "gc_gateway_ip config = ''192.168.127.1''"
  shows "(gv_step (drop 7) Qemu_Protocol ''unix:///d/s'' config ^^ 11) gv_start (gv_stopped\<lparr>gs_main := Exited 1\<rparr>)"
proof -
  let ?R = "gv_step (drop 7) Qemu_Protocol ''unix:///d/s'' config"
  let ?s1 = "(reach_phase Watcher Started gv_start)\<lparr>gs_main := Opening_Gateway\<rparr>"
  let ?s2 = "(reach_phase Gateway_Server Started (reach_phase Gateway_Closer Started (record_call (Open_Gateway ''192.168.127.1:80'') ?s1)))
    \<lparr>gs_main := Opening_Socket\<rparr>"
  let ?s4 = "(reach_phase Watcher Midway gv_up)\<lparr>gs_cancelled := True\<rparr>"
  let ?s5 = "finish Watcher (Some (Err ''signal caught'')) ?s4"
  let ?s6 = "reach_phase Socket_Closer Midway (record_call Close_Socket ?s5)"
  let ?s8 = "finish Socket_Closer None (record_call (Remove_Path ''/d/s'') gv_stopping)"
  let ?s9 = "finish Gateway_Closer None (record_call Close_Gateway ?s8)"
  note up = gv_up_def gv_updates gv_start_def
  have set_up: "?R gv_start ?s1" "?R ?s1 ?s2" "?R ?s2 gv_up"
    using made [where s = gv_start and config = config] gateway_open [where s = ?s1 and config = config]
      socket_open [where s = ?s2 and config = config and p = Qemu_Protocol and url = "''unix:///d/s''"]
    by (simp_all add: config gv_start_def [THEN arg_cong [where f = gs_main]] gv_up_def)
  have stop: "?R gv_up ?s4" "?R ?s4 ?s5" "?R ?s5 ?s6" "?R ?s6 gv_stopping"
    unfolding gv_stopping_def
    by (rule goroutine, simp add: up, rule gv_task_step.intros, simp add: up; (simp add: up)?)+
  note down = gv_stopped_def gv_stopping_def up
  have t8: "gv_task_step (drop 7) Qemu_Protocol ''unix:///d/s'' gv_stopping ?s8"
    using socket_removed [where s = gv_stopping and path = "drop 7" and url = "''unix:///d/s''" and r = None] by (simp add: down)
  have t10: "gv_task_step (drop 7) Qemu_Protocol ''unix:///d/s'' ?s9 gv_stopped"
    using served [where s = ?s9 and e = "Err ''closed''" and path = "drop 7"] by (simp add: down err_server_closed_def)
  have t9: "gv_task_step (drop 7) Qemu_Protocol ''unix:///d/s'' ?s8 ?s9" by (rule gateway_closed) (simp_all add: down)
  have stopped: "?R gv_stopping ?s8" "?R ?s8 ?s9" "?R ?s9 gv_stopped"
    by (rule goroutine [OF _ t8] goroutine [OF _ t9] goroutine [OF _ t10], simp add: down)+
  have ended: "?R gv_stopped (gv_stopped\<lparr>gs_main := Exited 1\<rparr>)"
    using group_ended [where s = gv_stopped and config = config] by (simp add: down)
  have "(?R ^^ Suc (Suc (Suc 0))) gv_start gv_up" using set_up by (blast intro: relpowp_Suc_I relpowp_0_I)
  moreover have "(?R ^^ Suc (Suc (Suc (Suc 0)))) gv_up gv_stopping" using stop by (blast intro: relpowp_Suc_I relpowp_0_I)
  moreover have "(?R ^^ Suc (Suc (Suc (Suc 0)))) gv_stopping (gv_stopped\<lparr>gs_main := Exited 1\<rparr>)"
    using stopped ended by (blast intro: relpowp_Suc_I relpowp_0_I)
  ultimately have "(?R ^^ (Suc (Suc (Suc 0)) + Suc (Suc (Suc (Suc 0))) + Suc (Suc (Suc (Suc 0))))) gv_start (gv_stopped\<lparr>gs_main := Exited 1\<rparr>)"
    unfolding relpowp_add by blast
  then show ?thesis by (simp add: eval_nat_numeral)
qed

theorem gvproxy_removes_socket_witness:
  "gvproxy_options [] ''unix:///d/s'' [] = Inr (Qemu_Protocol, ''unix:///d/s'', gvproxy_config Qemu_Protocol []) \<and>
   (gv_step (drop 7) Qemu_Protocol ''unix:///d/s'' (gvproxy_config Qemu_Protocol []) ^^ 11) gv_start (gv_stopped\<lparr>gs_main := Exited 1\<rparr>) \<and>
   gs_error gv_stopped = Some (Err ''signal caught'') \<and>
   socket_calls (gs_calls gv_stopped) = [Open_Socket Qemu_Protocol ''unix:///d/s'', Close_Socket, Remove_Path ''/d/s'']"
proof -
  have opts: "gvproxy_options [] ''unix:///d/s'' [] = Inr (Qemu_Protocol, ''unix:///d/s'', gvproxy_config Qemu_Protocol [])"
    by (simp add: gvproxy_options_def parse_forwards_def)
  have run: "(gv_step (drop 7) Qemu_Protocol ''unix:///d/s'' (gvproxy_config Qemu_Protocol []) ^^ 11) gv_start (gv_stopped\<lparr>gs_main := Exited 1\<rparr>)"
    by (rule gv_signal_run) (simp add: gvproxy_config_def)
  have "Open_Socket Qemu_Protocol ''unix:///d/s'' \<in> set (gs_calls gv_stopped)" and "gs_error gv_stopped = Some (Err ''signal caught'')"
    by (simp_all add: gv_stopped_def gv_stopping_def gv_up_def gv_updates gv_start_def)
  with gvproxy_removes_socket [where listen_vfkit = "[]" and listen_qemu = "''unix:///d/s''" and raw = "[]" and path = "drop 7", unfolded opts] run opts show ?thesis by fastforce
qed

text \<open>The collector always has an interval, a flush count and a mode for the environment, and its defaults are stable.\<close>

theorem msu_defaults_usable:
  "0 < mc_interval (msu_cfg_defaults ''filtered'' cfg) \<and> 1 \<le> mc_flush_every_n (msu_cfg_defaults ''filtered'' cfg) \<and>
   mc_include_env (msu_cfg_defaults ''filtered'' cfg) \<noteq> [] \<and>
   msu_cfg_defaults ''filtered'' (msu_cfg_defaults ''filtered'' cfg) = msu_cfg_defaults ''filtered'' cfg"
  by (simp add: msu_cfg_defaults_def)

end
