(* ===== verification/Spec2Isabelle.thy ===== *)
theory Spec2Isabelle
  imports Installed_Node Wait_Until Lag Bridge Vlan Tap_Mover Sftp_Tree Ssh_Session File_Monitor
    Provider_Setup Qmp_Socket Cmd_Match Undent Tailer Host_Reservation Local_Datastore Monitors Swtpm Netns_Resource Images Radv_Daemon
    Internet_Probe Data_Sources State_Backend Update_Contract
    Ssh_Alive Library_Modes
begin

text \<open>
  A verification library for the Terraform provider \<^verbatim>\<open>zedamigo\<close>. The provider builds EVE-OS
  test labs on a target machine (the local one or one behind SSH): network links, virtual
  machines, helper daemons, files, reservations of host resources, and waits for conditions. The same
  binary is also each of the helper daemons.

  Paths below are relative to the repository. Each theory models one part of the program, in
  the order in which the parts build on each other.

  \<^bold>\<open>Foundation.\<close> \<open>Prelude\<close>: the functions of the packages \<^verbatim>\<open>strings\<close> and \<^verbatim>\<open>strconv\<close> that
  the sources call, attribute values of the Terraform framework (known, unknown or null),
  diagnostics, and the sequencing of fallible steps. \<open>Go_Path\<close>: lexical path functions.
  \<open>Net_Addr\<close>: MAC and IP addresses, with \<^verbatim>\<open>internal/lladdr\<close>. \<open>Go_Duration\<close>: durations of
  package \<^verbatim>\<open>time\<close> (64-bit nanoseconds) and \<^verbatim>\<open>duration_validator.go\<close>. \<open>Err_Checker\<close>:
  \<^verbatim>\<open>internal/errchecker\<close>, the search through wrapped errors. \<open>Undent\<close>: \<^verbatim>\<open>internal/undent\<close>.

  \<^bold>\<open>Executors.\<close> \<open>Executor\<close> is the interface \<^verbatim>\<open>internal/exec.Executor\<close>, a record of operations
  over an arbitrary environment, and its contract, the locale \<open>executor_contract\<close>. \<open>Cmd_Run\<close>
  (\<^verbatim>\<open>internal/cmd\<close>) and \<open>Local_Executor\<close> are the local one; \<open>Ssh_Executor\<close>, \<open>Ssh_Session\<close> and
  \<open>Sftp_Tree\<close> (\<^verbatim>\<open>internal/exec/ssh.go\<close>) the remote one: commands and their quoting, the
  connection through jump hosts, and the removal of directory trees. \<open>Ssh_Alive\<close> adds what a
  connection needs while it lives: the keep-alive, the forwarding of an agent, and the sockets of the target
  that are dialled under a context. \<open>File_Monitor\<close> is
  \<^verbatim>\<open>internal/cmd/monitor_file.go\<close>, \<open>Cmd_Match\<close> the runs that end when a pattern is found
  (\<^verbatim>\<open>cmd_match.go\<close>, \<^verbatim>\<open>cmd_match_file.go\<close>), with the readers and the select as a step relation.

  \<^bold>\<open>Provider.\<close> \<open>Provider_Conf\<close> is the configuration every resource gets and the steps every
  handler starts with. \<open>Ssh_Config\<close> (\<^verbatim>\<open>ssh_config.go\<close>) and \<open>Provider_Setup\<close>
  (\<^verbatim>\<open>provider.go\<close>, \<^verbatim>\<open>provider_platform.go\<close>) are how it comes about: keys, host keys, jump hosts, the
  platform of the target and its tools.

  \<^bold>\<open>Network resources.\<close> \<open>Ip_Output\<close> and \<open>Net_Link\<close> are what the link resources
  share: reading the output of \<^verbatim>\<open>ip\<close>, building its command lines (inside a namespace or not),
  tolerating what is already gone. \<open>Lag\<close>, \<open>Bridge\<close>, \<open>Vlan\<close>, \<open>Tap\<close> and \<open>Netns_Resource\<close> are
  the resources of \<^verbatim>\<open>internal/provider\<close>: one definition per handler (create, read, update,
  delete), and one per function that a handler calls. \<open>Tap_Mover\<close> is the daemon that moves a TAP
  (\<^verbatim>\<open>main_tap_mover_linux_amd64.go\<close>).

  \<^bold>\<open>Virtual machines.\<close> \<open>Vm_Config\<close> is \<^verbatim>\<open>internal/hypervisor/hypervisor.go\<close> and
  \<^verbatim>\<open>forwards.go\<close> (with the parser of forwards of \<^verbatim>\<open>main_gvproxy.go\<close>); \<open>Hv_Env\<close> is the
  environment of a back end, with starting and stopping gvproxy; \<open>Qemu\<close> and \<open>Vfkit\<close> are the
  two back ends, \<open>Qmp_Socket\<close> the QMP client (\<^verbatim>\<open>internal/qmp\<close>), its reader goroutine and
  its callers as a step relation over their channels. Both back ends give an instance of the locales
  \<open>disk_backend\<close> and \<open>hypervisor_contract\<close>, under which the lemmas of \<open>Edge_Node\<close> are proved; \<open>Edge_Disks\<close> and
  \<open>Installed_Node\<close> are the disks of a node and the other resource of this kind. \<open>Tailer\<close> is
  \<^verbatim>\<open>internal/socket\<close>, which copies consoles to files. \<open>Images\<close> are the resources that make
  disk, cloud-init and installer images.

  \<^bold>\<open>Daemons.\<close> \<open>Daemon\<close> is what the daemon resources repeat: finding the process by its PID file, starting
  it detached, killing it, and reconciling it with the desired state in every Read; the locale
  \<open>daemon_resource\<close> is their contract, with an interpretation for each of \<open>Dhcp_Server\<close> (both
  protocols), \<open>Radv\<close>, \<open>Local_Datastore\<close> and \<open>Monitors\<close> (both). \<open>Daemon_Lab\<close> is a small target with
  processes and PID files, on which their effects are observed; \<open>Outcomes\<close> logs the calls of a handler with their answers,
  and says what a Read of a daemon resource has done to the process. \<open>Swtpm\<close> has two processes and waits for them.
  \<open>Main_Modes\<close> is \<^verbatim>\<open>main.go\<close>: the command line, the PID file and the choice of the mode, with the
  theorem that each daemon resource starts the mode that it means. \<open>Radv_Daemon\<close> and
  \<open>Internet_Probe\<close> are two of the daemons themselves, \<open>Library_Modes\<close> the modes that prepare a
  configuration and run a library with it: the DHCP servers, the system usage monitor, the socket tailer and
  gvproxy, whose forwards reach the guest that its lease names, and which always takes its socket file away when it ends.

  \<^bold>\<open>Reservations.\<close> \<open>Reservation_Tree\<close> is the script \<^verbatim>\<open>host_reservation.bash\<close> over a tree of slot files,
  \<open>Host_Reservation\<close> the resource that runs it, under the locale \<open>reservation_target\<close>.

  \<^bold>\<open>Waiting and data.\<close> \<open>Wait_Until\<close> is \<^verbatim>\<open>wait_until_resource.go\<close>: a script is run on the target until
  it exits with 0 or a deadline passes. \<open>Data_Sources\<close> are the two data sources,
  \<open>State_Backend\<close> the development tool \<^verbatim>\<open>misc/tf_state_backend_http\<close> with its store of states.

  \<^bold>\<open>Schemas.\<close> \<open>Schema\<close> is the language of the attributes of a resource (types, required,
  optional, computed, plan modifiers), with what a schema demands of the code beside it; \<open>Schemas\<close> holds
  the schema and the model struct of every resource and data source, and shows that they fit.
  \<open>Update_Contract\<close> confronts the schemas with the Update handlers: which attributes can change in place,
  which of them a handler looks at, and what an update does to the files and the process of a daemon.

  \<^bold>\<open>State and effects.\<close> A handler is a function of the environment that returns diagnostics or
  the new state of its resource. What it does to the target are calls of the executor's
  record, so every statement about a handler holds for any executor, also one whose calls fail
  at any moment. \<open>traced\<close> adds a log of the calls to the environment; \<open>emits\<close> says that a
  handler makes exactly the calls of a script or fails after a prefix of it, \<open>budget\<close> bounds the starts and
  the signals of a handler, and \<open>launches\<close> and \<open>starts_only\<close> say which command line it starts. \<open>observed\<close> logs the
  answers too: \<open>obeys\<close> says that a handler makes the calls of a script as long as they succeed and ends with the first that
  fails, \<open>brought_up\<close> and \<open>brought_down\<close> what a Read found and did, and \<open>does\<close> is the same for the requests and the
  samples of the internet monitor. \<open>tracked\<close> and \<open>held\<close> add the open files and the open
  connections in the same way.

  \<^bold>\<open>Specifications.\<close> The scripts of a host refine a ledger, a map from slots to the reservation that owns
  them (\<open>scripts_refine_ledger\<close>): a reserve claims free slots, a release frees its own, and nothing else
  changes an owner, except that a marker whose write failed half way may stay in a slot that was free. The state back end refines a store from keys to states. The disk attributes of the older form are equivalent to blocks; quoting, paths, addresses,
  forwards, durations and reservations are read back as they were written; and a round of the internet monitor is described
  by a relation between what was asked, what was answered and what was written (\<open>round_told\<close>).

  \<^bold>\<open>Loops.\<close> Loops over data are structural recursion. The loops that wait are recursion on
  fuel, one unit per round: 31 rounds are enough for gvproxy (3 s in steps of 100 ms), 52 for the TPM (10 s in
  steps of 200 ms), the timeout divided by the interval plus one for a wait, the depth of the tree for the
  recursive removal; the properties about termination prove that this much fuel gives a
  result with a clock that sleeping advances. Where a start of a VM runs out of fuel in such a
  wait the model reports what the code reports when the deadline has passed. The loops of the daemons that
  run until they are stopped recurse on their events or on fuel, and say when they are still running.

  \<^bold>\<open>Concurrency.\<close> Goroutines that share state are step relations or interleavings of events
  (\<open>Qmp_Socket\<close>, \<open>Cmd_Match\<close>, \<open>Tailer\<close>, \<open>Radv_Daemon\<close>, the group of gvproxy in \<open>Library_Modes\<close>, whose \<^verbatim>\<open>errgroup\<close>
  keeps the first error and cancels the context, as its documentation says). Where the length of a run is bounded, the bound
  and what holds when no step is left are part of the property (the calls of \<open>Qmp_Socket\<close>, the 14 steps of gvproxy). The pings of a round are
  run in the order in which they finish, which the model takes as a parameter.

  \<^bold>\<open>Libraries.\<close> What is not in the repository is a parameter: system calls, gopsutil, the SSH and
  SFTP clients, JSON and YAML decoding, \<^verbatim>\<open>vfkit/pkg/config\<close>, the NDP, DNS, ping and HTTP libraries,
  cryptographic hashes, random bytes, the clock, URLs, and floating-point numbers (the product with a decimal
  fraction in \<^verbatim>\<open>time.ParseDuration\<close>, formatted milliseconds).

  \<^bold>\<open>Not modelled.\<close> Logging; the descriptions of schemas, and what the framework does with a schema
  (validation, planning, dropping duplicate diagnostics): its documented rules enter only as the predicates of
  \<open>Schema\<close>. The generated QMP bindings (\<^verbatim>\<open>internal/qmp/raw/autogen.go\<close>): of their types and calls
  the provider uses none, \<open>Qmp_Socket\<close> covers the hand-written client it does use. The test double
  of that client, which no build of the provider contains; and the libraries behind the modes of \<open>Library_Modes\<close>.
\<close>

end
